(* ===== verification/Prelude.thy ===== *)
theory Prelude
  imports Main
begin

text \<open>
  Shared vocabulary of the development: results of fallible code, SQL tables as lists of
  rows, transactions, and the generic lemmas that carry the component proofs.

  \<^item> A function that may throw returns \<open>'e + 'a\<close>; \<open>bnd\<close> runs the rest of the code when
    nothing was thrown.
  \<^item> A table is the list of its rows in insertion order. \<open>sel1\<close> is
    \<open>select .. where P limit 1\<close>, \<open>upd\<close> is \<open>update .. set f where P\<close>, \<open>upd_ret\<close> is the first
    row of its \<open>returning\<close> clause.
  \<^item> \<open>transact\<close> runs a body against the state and keeps the new state only when the body
    did not throw.
\<close>

named_theorems db_simps \<open>what the small database operations do to each table\<close>
named_theorems db_frame \<open>which tables an operation leaves alone\<close>

section \<open>Results\<close>

fun bnd :: "'e + 'a \<Rightarrow> ('a \<Rightarrow> 'e + 'b) \<Rightarrow> 'e + 'b" where
  "bnd (Inl e) f = Inl e"
| "bnd (Inr x) f = f x"

lemma bnd_Inr_iff [simp]: "bnd m f = Inr y \<longleftrightarrow> (\<exists>x. m = Inr x \<and> f x = Inr y)"
  by (cases m) auto

lemma bnd_Inl_iff: "bnd m f = Inl e \<longleftrightarrow> m = Inl e \<or> (\<exists>x. m = Inr x \<and> f x = Inl e)"
  by (cases m) auto

lemma bnd_split: "P (bnd m f) \<longleftrightarrow> (\<forall>e. m = Inl e \<longrightarrow> P (Inl e)) \<and> (\<forall>x. m = Inr x \<longrightarrow> P (f x))"
  by (cases m) auto

lemma bnd_assoc: "bnd (bnd m f) g = bnd m (\<lambda>x. bnd (f x) g)"
  by (cases m) auto

fun opt_or :: "'e \<Rightarrow> 'a option \<Rightarrow> 'e + 'a" where
  "opt_or e None = Inl e"
| "opt_or e (Some x) = Inr x"

lemma opt_or_Inr [simp]: "opt_or e m = Inr x \<longleftrightarrow> m = Some x"
  by (cases m) auto

lemma opt_or_Inl [simp]: "opt_or e m = Inl e' \<longleftrightarrow> m = None \<and> e' = e"
  by (cases m) auto

section \<open>Transactions\<close>

text \<open>
  \<open>db.transaction(callback)\<close> of the database driver: the callback's writes are committed when
  it returns and rolled back when it throws.
\<close>

definition transact :: "('s \<Rightarrow> 'e + 'a \<times> 's) \<Rightarrow> 's \<Rightarrow> ('e + 'a) \<times> 's" where
  "transact body s = (case body s of Inl e \<Rightarrow> (Inl e, s) | Inr (a, s') \<Rightarrow> (Inr a, s'))"

lemma transact_rollback: "fst (transact body s) = Inl e \<Longrightarrow> snd (transact body s) = s"
  by (auto simp: transact_def split: sum.splits)

lemma transact_commit:
  "transact body s = (Inr a, s') \<longleftrightarrow> body s = Inr (a, s')"
  by (auto simp: transact_def split: sum.splits)

lemma transact_state:
  "snd (transact body s) = s' \<longleftrightarrow> (\<exists>e. body s = Inl e) \<and> s' = s \<or> (\<exists>a. body s = Inr (a, s'))"
  by (auto simp: transact_def split: sum.splits)

section \<open>Tables\<close>

definition sel1 :: "('r \<Rightarrow> bool) \<Rightarrow> 'r list \<Rightarrow> 'r option" where
  "sel1 P t = find P t"

definition upd :: "('r \<Rightarrow> bool) \<Rightarrow> ('r \<Rightarrow> 'r) \<Rightarrow> 'r list \<Rightarrow> 'r list" where
  "upd P f t = map (\<lambda>r. if P r then f r else r) t"

definition upd_ret :: "('r \<Rightarrow> bool) \<Rightarrow> ('r \<Rightarrow> 'r) \<Rightarrow> 'r list \<Rightarrow> 'r option" where
  "upd_ret P f t = map_option f (find P t)"

lemma sel1_None: "sel1 P t = None \<longleftrightarrow> (\<forall>r \<in> set t. \<not> P r)"
  by (auto simp: sel1_def find_None_iff)

lemma sel1_Some_in: "sel1 P t = Some r \<Longrightarrow> r \<in> set t"
  by (auto simp: sel1_def find_Some_iff)

lemma sel1_Some_P: "sel1 P t = Some r \<Longrightarrow> P r"
  by (auto simp: sel1_def find_Some_iff)

lemmas sel1_SomeD = sel1_Some_in sel1_Some_P

lemma sel1_Nil [simp]: "sel1 P [] = None"
  by (simp add: sel1_def)

lemma sel1_Cons [simp]: "sel1 P (r # t) = (if P r then Some r else sel1 P t)"
  by (simp add: sel1_def)

lemma sel1_append: "sel1 P (t @ u) = (case sel1 P t of None \<Rightarrow> sel1 P u | Some r \<Rightarrow> Some r)"
  by (induction t) auto

lemma sel1_append_Some [simp]: "sel1 P t = Some r \<Longrightarrow> sel1 P (t @ u) = Some r"
  by (simp add: sel1_append)

lemma sel1_append_None [simp]: "sel1 P t = None \<Longrightarrow> sel1 P (t @ u) = sel1 P u"
  by (simp add: sel1_append)

lemma upd_Nil [simp]: "upd P f [] = []"
  by (simp add: upd_def)

lemma upd_Cons [simp]: "upd P f (r # t) = (if P r then f r else r) # upd P f t"
  by (simp add: upd_def)

lemma upd_append [simp]: "upd P f (t @ u) = upd P f t @ upd P f u"
  by (simp add: upd_def)

lemma length_upd [simp]: "length (upd P f t) = length t"
  by (simp add: upd_def)

lemma set_upd: "set (upd P f t) = (\<lambda>r. if P r then f r else r) ` set t"
  by (simp add: upd_def)

lemma in_updE:
  assumes "r \<in> set (upd P f t)"
  obtains r0 where "r0 \<in> set t" "r = (if P r0 then f r0 else r0)"
  using assms by (auto simp: set_upd)

lemma upd_none: "\<forall>r \<in> set t. \<not> P r \<Longrightarrow> upd P f t = t"
  by (induction t) auto

lemma upd_ret_sel1: "upd_ret P f t = map_option f (sel1 P t)"
  by (simp add: upd_ret_def sel1_def)

text \<open>A selection whose condition the update does not change finds the updated row.\<close>

lemma sel1_upd:
  assumes "\<And>r. r \<in> set t \<Longrightarrow> Q (if P r then f r else r) = Q r"
  shows "sel1 Q (upd P f t) = map_option (\<lambda>r. if P r then f r else r) (sel1 Q t)"
  using assms by (induction t) auto

lemma map_upd_same:
  assumes "\<And>r. r \<in> set t \<Longrightarrow> P r \<Longrightarrow> g (f r) = g r"
  shows "map g (upd P f t) = map g t"
  using assms by (induction t) auto

text \<open>Rows outside the reach of an update are exactly as before, in the same order.\<close>

lemma filter_upd_other:
  assumes "\<And>r. r \<in> set t \<Longrightarrow> P r \<Longrightarrow> \<not> Q r \<and> \<not> Q (f r)"
  shows "filter Q (upd P f t) = filter Q t"
  using assms by (induction t) auto

lemma filter_upd_commute:
  assumes "\<And>r. r \<in> set t \<Longrightarrow> P r \<Longrightarrow> Q (f r) = Q r"
  shows "filter Q (upd P f t) = upd P f (filter Q t)"
  using assms by (induction t) auto

lemma sum_list_upd_same:
  assumes "\<And>r. r \<in> set t \<Longrightarrow> P r \<Longrightarrow> g (f r) = g r"
  shows "sum_list (map g (upd P f t)) = sum_list (map g t)"
  using map_upd_same [of t P g f] assms by simp

section \<open>Keyed rows\<close>

text \<open>
  Every tenant-scoped table of the schema has a unique key made of the tenant and the row id.
  Under that key a selection by key is the row itself, and an update by key changes that
  row only.
\<close>

definition uniq :: "('r \<Rightarrow> 'k) \<Rightarrow> 'r list \<Rightarrow> bool" where
  "uniq k t \<longleftrightarrow> distinct (map k t)"

lemma uniq_Nil [simp]: "uniq k []"
  by (simp add: uniq_def)

lemma uniq_append1: "uniq k (t @ [r]) \<longleftrightarrow> uniq k t \<and> k r \<notin> k ` set t"
  by (auto simp: uniq_def)

lemma uniq_sel1_in:
  assumes "uniq k t" "r \<in> set t"
  shows "sel1 (\<lambda>x. k x = k r) t = Some r"
  using assms by (induction t) (auto simp: uniq_def)

lemma uniq_eq: "uniq k t \<Longrightarrow> r \<in> set t \<Longrightarrow> q \<in> set t \<Longrightarrow> k r = k q \<Longrightarrow> r = q"
  by (auto simp: uniq_def distinct_map inj_on_def)

lemma uniq_upd:
  assumes "\<And>r. r \<in> set t \<Longrightarrow> P r \<Longrightarrow> k (f r) = k r"
  shows "uniq k (upd P f t) = uniq k t"
  by (simp add: uniq_def map_upd_same assms)

section \<open>Sorting with a comparator\<close>

text \<open>\<open>Array.prototype.sort\<close> with a comparator is stable: an insertion sort by \<open>le\<close>.\<close>

fun insert_by :: "('a \<Rightarrow> 'a \<Rightarrow> bool) \<Rightarrow> 'a \<Rightarrow> 'a list \<Rightarrow> 'a list" where
  "insert_by le x [] = [x]"
| "insert_by le x (y # ys) = (if le x y then x # y # ys else y # insert_by le x ys)"

definition sort_by :: "('a \<Rightarrow> 'a \<Rightarrow> bool) \<Rightarrow> 'a list \<Rightarrow> 'a list" where
  "sort_by le xs = foldr (insert_by le) xs []"

definition linear_on :: "('a \<Rightarrow> 'a \<Rightarrow> bool) \<Rightarrow> 'a set \<Rightarrow> bool" where
  "linear_on le A \<longleftrightarrow> (\<forall>x\<in>A. \<forall>y\<in>A. le x y \<or> le y x) \<and> (\<forall>x\<in>A. \<forall>y\<in>A. le x y \<and> le y x \<longrightarrow> x = y)
     \<and> (\<forall>x\<in>A. \<forall>y\<in>A. \<forall>z\<in>A. le x y \<and> le y z \<longrightarrow> le x z)"

lemma set_insert_by [simp]: "set (insert_by le x ys) = insert x (set ys)"
  by (induction ys) auto

lemma set_sort_by [simp]: "set (sort_by le xs) = set xs"
  unfolding sort_by_def by (induction xs) auto

lemma linear_on_subset: "linear_on le A \<Longrightarrow> B \<subseteq> A \<Longrightarrow> linear_on le B"
  unfolding linear_on_def by (intro conjI) blast+

lemma sorted_insert_by:
  assumes "sorted_wrt le ys" "linear_on le (insert x (set ys))"
  shows "sorted_wrt le (insert_by le x ys)"
  using assms
proof (induction ys)
  case Nil
  then show ?case by simp
next
  case (Cons y ys)
  have lin: "linear_on le (insert x (set ys))"
    by (rule linear_on_subset [OF Cons.prems(2)]) auto
  have "le x z" if "le x y" "z \<in> set ys" for z
    using that Cons.prems unfolding linear_on_def by (metis insertCI list.set_intros sorted_wrt.simps(2))
  moreover have "le y x" if "\<not> le x y"
    using that Cons.prems(2) unfolding linear_on_def by (metis insertCI list.set_intros(1))
  ultimately show ?case
    using Cons.IH [OF _ lin] Cons.prems(1) by auto
qed

lemma sorted_sort_by: "linear_on le (set xs) \<Longrightarrow> sorted_wrt le (sort_by le xs)"
proof (induction xs)
  case Nil
  then show ?case by (simp add: sort_by_def)
next
  case (Cons x xs)
  have "sorted_wrt le (sort_by le xs)"
    using Cons.prems by (intro Cons.IH) (auto intro: linear_on_subset)
  moreover have "linear_on le (insert x (set (sort_by le xs)))"
    using Cons.prems by simp
  ultimately show ?case
    using sorted_insert_by by (simp add: sort_by_def)
qed

lemma sorted_unique:
  assumes "sorted_wrt R xs" "sorted_wrt R ys" "set xs = set ys" "\<And>a b. R a b \<Longrightarrow> \<not> R b a"
  shows "xs = ys"
  using assms
proof (induction xs arbitrary: ys)
  case Nil
  then show ?case by simp
next
  case (Cons x xs)
  obtain y ys' where y: "ys = y # ys'"
    using Cons.prems(3) by (cases ys) auto
  have xy: "x = y"
    using Cons.prems y by (metis list.set_intros(1) set_ConsD sorted_wrt.simps(2))
  have irr: "\<not> R x x" using Cons.prems(4) by blast
  then have "x \<notin> set xs" "x \<notin> set ys'"
    using Cons.prems y xy by auto
  then have "set xs = set ys'"
    using Cons.prems(3) y xy by auto
  then show ?case using Cons y xy by auto
qed

lemma sum_sort_by:
  fixes f :: "'a \<Rightarrow> 'b::comm_monoid_add"
  shows "sum_list (map f (sort_by le xs)) = sum_list (map f xs)"
proof -
  have ins: "sum_list (map f (insert_by le x ys)) = f x + sum_list (map f ys)" for x ys
    by (induction ys) (auto simp: add.left_commute)
  show ?thesis unfolding sort_by_def by (induction xs) (auto simp: ins)
qed

lemma distinct_insert_by:
  "distinct (map f (insert_by le x ys)) \<longleftrightarrow> f x \<notin> f ` set ys \<and> distinct (map f ys)"
  by (induction ys) auto

lemma distinct_sort_by: "distinct (map f (sort_by le xs)) = distinct (map f xs)"
  unfolding sort_by_def by (induction xs) (auto simp: distinct_insert_by sort_by_def [symmetric])

end
