(* ===== verification/JsNumber.thy ===== *)
theory JsNumber
  imports Complex_Main "HOL-Library.Log_Nat" Prelude
begin

text \<open>
  The JavaScript numbers and numeric strings the program computes with.

  \<^item> Integers below \<open>2^53\<close> are exact doubles and are modelled as \<open>int\<close>.
  \<^item> \<open>fl\<close> rounds a rational to the nearest double (53 significant bits, ties to even): the
    result of one floating point operation is \<open>fl\<close> of the exact result. The exponent range
    is not bounded, since no value of the program comes near its ends.
  \<^item> \<open>math_round\<close> is \<open>Math.round\<close>, \<open>js_rem\<close> is \<open>%\<close>, \<open>js_str\<close> is \<open>String(n)\<close>,
    \<open>js_Number\<close> is \<open>Number(s)\<close> on plain decimal integers; \<open>None\<close> stands for every other
    string (\<open>NaN\<close>, and the exponent and hexadecimal forms, which no input schema admits).
  \<^item> \<open>js_split\<close>, \<open>pad_end\<close>, \<open>pad_start\<close> are the string methods of these names.
\<close>

section \<open>Strings\<close>

definition is_digit :: "char \<Rightarrow> bool" where
  "is_digit c \<longleftrightarrow> (48::nat) \<le> of_char c \<and> of_char c \<le> (57::nat)"

definition digit_val :: "char \<Rightarrow> nat" where
  "digit_val c = of_char c - 48"

definition digit_chr :: "nat \<Rightarrow> char" where
  "digit_chr d = char_of (48 + d)"

lemma is_digit_digit_chr [simp]: "d < 10 \<Longrightarrow> is_digit (digit_chr d)"
  by (simp add: is_digit_def digit_chr_def)

lemma digit_val_digit_chr [simp]: "d < 10 \<Longrightarrow> digit_val (digit_chr d) = d"
  by (simp add: digit_val_def digit_chr_def)

lemma digit_val_less [simp]: "is_digit c \<Longrightarrow> digit_val c < 10"
  by (auto simp: is_digit_def digit_val_def)

lemma digit_chr_val [simp]: "is_digit c \<Longrightarrow> digit_chr (digit_val c) = c"
  by (simp add: is_digit_def digit_val_def digit_chr_def)

fun js_split :: "char \<Rightarrow> string \<Rightarrow> string list" where
  "js_split d [] = [[]]"
| "js_split d (c # cs) =
     (if c = d then [] # js_split d cs
      else (case js_split d cs of [] \<Rightarrow> [[c]] | p # ps \<Rightarrow> (c # p) # ps))"

lemma js_split_nonempty [simp]: "js_split d cs \<noteq> []"
  by (induction cs) (auto split: list.splits)

lemma js_split_no_sep: "d \<notin> set cs \<Longrightarrow> js_split d cs = [cs]"
  by (induction cs) auto

lemma js_split_sep: "d \<notin> set cs \<Longrightarrow> js_split d (cs @ d # ds) = cs # js_split d ds"
  by (induction cs) auto

definition pad_end :: "nat \<Rightarrow> char \<Rightarrow> string \<Rightarrow> string" where
  "pad_end n c s = s @ replicate (n - length s) c"

definition pad_start :: "nat \<Rightarrow> char \<Rightarrow> string \<Rightarrow> string" where
  "pad_start n c s = replicate (n - length s) c @ s"

section \<open>Decimal numerals\<close>

fun dec_val :: "nat \<Rightarrow> string \<Rightarrow> nat option" where
  "dec_val acc [] = Some acc"
| "dec_val acc (c # cs) = (if is_digit c then dec_val (10 * acc + digit_val c) cs else None)"

definition js_Number :: "string \<Rightarrow> int option" where
  "js_Number s = (case s of [] \<Rightarrow> Some 0
     | c # cs \<Rightarrow>
        if c = CHR ''-'' then (if cs = [] then None else map_option (\<lambda>n. - int n) (dec_val 0 cs))
        else map_option int (dec_val 0 (c # cs)))"

fun nat_str :: "nat \<Rightarrow> string" where
  "nat_str n = (if n < 10 then [digit_chr n] else nat_str (n div 10) @ [digit_chr (n mod 10)])"

declare nat_str.simps [simp del]

definition js_str :: "int \<Rightarrow> string" where
  "js_str n = (if n < 0 then CHR ''-'' # nat_str (nat (- n)) else nat_str (nat n))"

lemma dec_val_append:
  "dec_val acc (s @ t) = (case dec_val acc s of None \<Rightarrow> None | Some a \<Rightarrow> dec_val a t)"
  by (induction s arbitrary: acc) auto

lemma dec_val_Some_iff: "(\<exists>n. dec_val acc s = Some n) \<longleftrightarrow> list_all is_digit s"
  by (induction s arbitrary: acc) auto

lemma nat_str_digits: "list_all is_digit (nat_str n)"
proof (induction n rule: nat_str.induct)
  case (1 n)
  then show ?case by (subst nat_str.simps) auto
qed

lemma nat_str_nonempty [simp]: "nat_str n \<noteq> []"
  by (subst nat_str.simps) auto

lemma dec_val_nat_str [simp]: "dec_val 0 (nat_str n) = Some n"
proof (induction n rule: nat_str.induct)
  case (1 n)
  then show ?case by (subst nat_str.simps) (auto simp: dec_val_append)
qed

lemma nat_str_no_nondigit: "\<not> is_digit c \<Longrightarrow> c \<notin> set (nat_str n)"
  using nat_str_digits [of n] by (auto simp: list_all_iff)

lemma js_Number_digits:
  "s \<noteq> [] \<Longrightarrow> list_all is_digit s \<Longrightarrow> js_Number s = map_option int (dec_val 0 s)"
  by (cases s) (auto simp: js_Number_def is_digit_def)

lemma js_Number_js_str [simp]: "js_Number (js_str n) = Some n"
proof (cases "n < 0")
  case True
  then show ?thesis by (simp add: js_str_def js_Number_def)
next
  case False
  then show ?thesis by (simp add: js_str_def js_Number_digits nat_str_digits)
qed

lemma js_str_inj: "js_str m = js_str n \<Longrightarrow> m = n"
  by (metis js_Number_js_str option.inject)

lemma length_nat_str: "n < 10 ^ Suc k \<Longrightarrow> length (nat_str n) \<le> Suc k"
proof (induction k arbitrary: n)
  case 0
  then show ?case by (subst nat_str.simps) simp
next
  case (Suc k)
  then have "length (nat_str (n div 10)) \<le> Suc k"
    by (intro Suc.IH) (simp add: div_less_iff_less_mult mult.commute)
  then show ?case by (subst nat_str.simps) simp
qed

text \<open>
  \<open>Number(s)\<close> on plain decimals such as \<open>12.50\<close>: the nearest double. \<open>js_trim\<close> is
  \<open>String.prototype.trim\<close> on ASCII text.
\<close>

definition js_space :: "char \<Rightarrow> bool" where
  "js_space c \<longleftrightarrow> (of_char c :: nat) = 32 \<or> 9 \<le> (of_char c :: nat) \<and> (of_char c :: nat) \<le> 13"

definition js_trim :: "string \<Rightarrow> string" where
  "js_trim s = rev (dropWhile js_space (rev (dropWhile js_space s)))"

definition dec_rat :: "string \<Rightarrow> rat option" where
  "dec_rat s = (case js_split (CHR ''.'') s of
     [w] \<Rightarrow> if w = [] then None else map_option of_nat (dec_val 0 w)
   | [w, f] \<Rightarrow> if w = [] \<and> f = [] then None
               else map_option (\<lambda>n. of_nat n / 10 ^ length f) (dec_val 0 (w @ f))
   | _ \<Rightarrow> None)"

section \<open>Evaluation\<close>

text \<open>
  Code equations for the functions above: characters by their bits and numbers as \<open>int\<close>, so that the
  examples evaluate without unary numbers and without the class hierarchy of \<open>of_char\<close>.
\<close>

fun char_value :: "char \<Rightarrow> nat" where
  "char_value (Char b0 b1 b2 b3 b4 b5 b6 b7) =
     (if b0 then 1 else 0) + (if b1 then 2 else 0) + (if b2 then 4 else 0) + (if b3 then 8 else 0)
     + (if b4 then 16 else 0) + (if b5 then 32 else 0) + (if b6 then 64 else 0) + (if b7 then 128 else 0)"

lemma char_value [code_unfold]: "of_char c = char_value c"
  by (cases c) simp

definition value_char :: "nat \<Rightarrow> char" where
  "value_char n = Char (n mod 2 = 1) (n div 2 mod 2 = 1) (n div 4 mod 2 = 1) (n div 8 mod 2 = 1)
     (n div 16 mod 2 = 1) (n div 32 mod 2 = 1) (n div 64 mod 2 = 1) (n div 128 mod 2 = 1)"

lemma value_char [code_unfold]: "char_of n = value_char n"
  by (simp add: value_char_def char_of_def bit_iff_odd odd_iff_mod_2_eq_one)

lemma is_digit_code [code]:
  "is_digit (Char b0 b1 b2 b3 b4 b5 b6 b7) \<longleftrightarrow> \<not> b7 \<and> \<not> b6 \<and> b5 \<and> b4 \<and> (\<not> b3 \<or> \<not> b2 \<and> \<not> b1)"
  by (cases b0; cases b1; cases b2; cases b3; cases b4; cases b5; cases b6; cases b7) (simp_all add: is_digit_def)

definition decimals :: "(char \<times> nat) list" where
  "decimals = zip ''0123456789'' [0..<10]"

lemma digit_val_code [code]:
  "digit_val c = (case map_of decimals c of Some n \<Rightarrow> n | None \<Rightarrow> char_value c - 48)"
  by (simp add: decimals_def digit_val_def char_value [symmetric] upt_rec)

lemma js_space_code [code]:
  "js_space (Char b0 b1 b2 b3 b4 b5 b6 b7) \<longleftrightarrow> \<not> b7 \<and> \<not> b6 \<and> \<not> b4 \<and>
     (b5 \<and> \<not> b3 \<and> \<not> b2 \<and> \<not> b1 \<and> \<not> b0 \<or> \<not> b5 \<and> b3 \<and> (if b2 then \<not> b1 else b1 \<or> b0))"
  by (cases b0; cases b1; cases b2; cases b3; cases b4; cases b5; cases b6; cases b7) (simp_all add: js_space_def)

fun dec_int :: "int \<Rightarrow> string \<Rightarrow> int option" where
  "dec_int acc [] = Some acc"
| "dec_int acc (c # cs) = (if is_digit c then dec_int (10 * acc + int (digit_val c)) cs else None)"

lemma dec_int_dec_val: "dec_int (int n) cs = map_option int (dec_val n cs)"
proof (induction cs arbitrary: n)
  case (Cons c cs)
  then show ?case using Cons [of "10 * n + digit_val c"] by simp
qed simp

lemma dec_int_0: "map_option int (dec_val 0 cs) = dec_int 0 cs"
  using dec_int_dec_val [of 0 cs] by simp

lemma js_Number_code [code]: "js_Number s = (case s of [] \<Rightarrow> Some 0
     | c # cs \<Rightarrow>
        if c = CHR ''-'' then (if cs = [] then None else map_option uminus (dec_int 0 cs))
        else dec_int 0 (c # cs))"
  unfolding js_Number_def dec_int_0 [symmetric] by (simp add: option.map_comp comp_def split: list.split)

lemma dec_rat_code [code]: "dec_rat s = (case js_split (CHR ''.'') s of
     [w] \<Rightarrow> if w = [] then None else map_option of_int (dec_int 0 w)
   | [w, f] \<Rightarrow> if w = [] \<and> f = [] then None
               else map_option (\<lambda>n. of_int n / 10 ^ length f) (dec_int 0 (w @ f))
   | _ \<Rightarrow> None)"
  unfolding dec_rat_def dec_int_0 [symmetric] by (simp add: option.map_comp comp_def split: list.split)

fun int_str :: "int \<Rightarrow> string" where
  "int_str n = (if n < 10 then [digit_chr (nat n)] else int_str (n div 10) @ [digit_chr (nat (n mod 10))])"

declare int_str.simps [simp del]

lemma int_str_nat: "int_str (int n) = nat_str n"
proof (induction n rule: nat_str.induct)
  case (1 n)
  have "int n div 10 = int (n div 10)" "int n mod 10 = int (n mod 10)" by (simp_all only: zdiv_int zmod_int of_nat_numeral)
  then show ?case
    using 1 by (subst int_str.simps, subst nat_str.simps) (simp del: of_nat_div of_nat_mod add: nat_less_iff)
qed

lemma js_str_code [code]: "js_str n = (if n < 0 then CHR ''-'' # int_str (- n) else int_str n)"
  by (simp add: js_str_def int_str_nat [symmetric])

lemma digit_chr_code [code]:
  "digit_chr d = (if d < 10 then fst (decimals ! d) else value_char (48 + d))"
proof (cases "d < 10")
  case True
  then have "d \<in> {0, 1, 2, 3, 4, 5, 6, 7, 8, 9}" by auto
  then show ?thesis by (auto simp: decimals_def digit_chr_def char_of_def bit_0 upt_rec)
qed (simp add: digit_chr_def value_char [symmetric])

section \<open>Rounding\<close>

definition math_round :: "rat \<Rightarrow> int" where
  "math_round x = \<lfloor>x + 1 / 2\<rfloor>"

definition js_rem :: "int \<Rightarrow> int \<Rightarrow> int" where
  "js_rem a b = (if 0 \<le> a then a mod b else - (- a mod b))"

definition round_even :: "rat \<Rightarrow> int" where
  "round_even y = (let f = \<lfloor>y\<rfloor>; d = y - of_int f in
     if d < 1 / 2 then f else if 1 / 2 < d then f + 1 else if even f then f else f + 1)"

definition log2_floor :: "rat \<Rightarrow> int" where
  "log2_floor x = (let (a, b) = quotient_of x; k = bitlen a - bitlen b in
     if 2 powi k \<le> x then k else k - 1)"

definition fl :: "rat \<Rightarrow> rat" where
  "fl x = (if x = 0 then 0 else let u = 2 powi (log2_floor \<bar>x\<bar> - 52) in of_int (round_even (x / u)) * u)"

subsection \<open>Error bounds\<close>

lemma bitlen_powi:
  assumes "0 < a"
  shows "2 powi (bitlen a - 1) \<le> (of_int a :: rat)" and "(of_int a :: rat) < 2 powi bitlen a"
proof -
  have b: "2 ^ nat (bitlen a - 1) \<le> a" "a < 2 ^ nat (bitlen a)"
    using bitlen_bounds [OF assms] by auto
  have pos: "0 < bitlen a"
    using b(2) assms bitlen_nonneg [of a] by (cases "bitlen a = 0") auto
  have "(of_int (2 ^ nat (bitlen a - 1)) :: rat) \<le> of_int a"
    using b(1) by (simp only: of_int_le_iff)
  then show "2 powi (bitlen a - 1) \<le> (of_int a :: rat)"
    using pos by (simp add: power_int_def)
  have "(of_int a :: rat) < of_int (2 ^ nat (bitlen a))"
    using b(2) by (simp only: of_int_less_iff)
  then show "(of_int a :: rat) < 2 powi bitlen a"
    using pos by (simp add: power_int_def)
qed

lemma log2_floor_bounds:
  assumes "0 < x"
  shows "2 powi log2_floor x \<le> x" and "x < 2 powi (log2_floor x + 1)"
proof -
  obtain a b where q: "quotient_of x = (a, b)" by (cases "quotient_of x")
  have b: "0 < b" using quotient_of_denom_pos [OF q] .
  have x: "x = of_int a / of_int b" using quotient_of_div [OF q] .
  have a: "0 < a" using assms b by (simp add: x zero_less_divide_iff)
  define k where "k = bitlen a - bitlen b"
  have lo: "2 powi (k - 1) < x"
  proof -
    have "2 powi (k - 1) * of_int b < (2 powi (k - 1) * 2 powi bitlen b :: rat)"
      using bitlen_powi(2) [OF b] by simp
    also have "\<dots> = 2 powi (bitlen a - 1)"
      by (simp add: k_def flip: power_int_add)
    also have "\<dots> \<le> of_int a" by (rule bitlen_powi(1) [OF a])
    finally show ?thesis using b by (simp add: x pos_less_divide_eq)
  qed
  have hi: "x < 2 powi (k + 1)"
  proof -
    have "of_int a < (2 powi bitlen a :: rat)" by (rule bitlen_powi(2) [OF a])
    also have "\<dots> = 2 powi (k + 1) * 2 powi (bitlen b - 1)"
      by (simp add: k_def flip: power_int_add)
    also have "\<dots> \<le> 2 powi (k + 1) * of_int b"
      using bitlen_powi(1) [OF b] by simp
    finally show ?thesis using b by (simp add: x pos_divide_less_eq)
  qed
  have f: "log2_floor x = (if 2 powi k \<le> x then k else k - 1)"
    by (simp add: log2_floor_def q k_def Let_def)
  show "2 powi log2_floor x \<le> x" using lo by (simp add: f)
  show "x < 2 powi (log2_floor x + 1)" using hi by (simp add: f)
qed

lemma round_even_err: "\<bar>of_int (round_even y) - y\<bar> \<le> 1 / 2"
proof -
  define d where "d = y - of_int \<lfloor>y\<rfloor>"
  have y: "y = of_int \<lfloor>y\<rfloor> + d" and d: "0 \<le> d" "d < 1"
    using floor_correct [of y] by (auto simp: d_def)
  have "round_even y = (if d < 1 / 2 \<or> d = 1 / 2 \<and> even \<lfloor>y\<rfloor> then \<lfloor>y\<rfloor> else \<lfloor>y\<rfloor> + 1)"
    by (auto simp: round_even_def Let_def d_def)
  then have "of_int (round_even y) - y = (if d < 1 / 2 \<or> d = 1 / 2 \<and> even \<lfloor>y\<rfloor> then - d else 1 - d)"
    by (simp add: d_def)
  then show ?thesis using d by auto
qed

lemma round_even_int [simp]: "round_even (of_int n) = n"
  by (simp add: round_even_def)

lemma powi_less: "i < j \<Longrightarrow> (2 powi i :: rat) < 2 powi j"
  by (rule power_int_strict_increasing) auto

lemma fl_err: "\<bar>fl x - x\<bar> \<le> \<bar>x\<bar> / 2 ^ 53"
proof (cases "x = 0")
  case True
  then show ?thesis by (simp add: fl_def)
next
  case False
  define L where "L = log2_floor \<bar>x\<bar>"
  define u :: rat where "u = 2 powi (L - 52)"
  have u: "0 < u" by (simp add: u_def)
  have "fl x = of_int (round_even (x / u)) * u"
    using False by (simp add: fl_def u_def L_def Let_def)
  then have "fl x - x = (of_int (round_even (x / u)) - x / u) * u"
    using u by (simp add: left_diff_distrib)
  then have "\<bar>fl x - x\<bar> = \<bar>of_int (round_even (x / u)) - x / u\<bar> * u"
    using u by (simp add: abs_mult)
  also have "\<dots> \<le> 1 / 2 * u"
    using round_even_err [of "x / u"] u by (intro mult_right_mono) auto
  also have "\<dots> = 2 powi L / 2 ^ 53"
    by (simp add: u_def power_int_diff)
  also have "\<dots> \<le> \<bar>x\<bar> / 2 ^ 53"
    using log2_floor_bounds(1) [of "\<bar>x\<bar>"] False by (simp add: L_def)
  finally show ?thesis .
qed

lemma fl_0 [simp]: "fl 0 = 0"
  by (simp add: fl_def)

text \<open>Integers of at most 53 bits are doubles.\<close>

lemma fl_int:
  assumes "\<bar>n\<bar> \<le> 2 ^ 53"
  shows "fl (of_int n) = of_int n"
proof (cases "n = 0")
  case True
  then show ?thesis by simp
next
  case False
  define L where "L = log2_floor \<bar>of_int n :: rat\<bar>"
  define u :: rat where "u = 2 powi (L - 52)"
  have L: "2 powi L \<le> \<bar>of_int n :: rat\<bar>" "\<bar>of_int n :: rat\<bar> < 2 powi (L + 1)"
    using log2_floor_bounds [of "\<bar>of_int n :: rat\<bar>"] False by (auto simp: L_def)
  have fl: "fl (of_int n) = of_int (round_even (of_int n / u)) * u"
    using False by (simp add: fl_def u_def L_def Let_def)
  have n53: "\<bar>of_int n :: rat\<bar> \<le> 2 ^ 53"
    using assms by (metis of_int_abs of_int_le_iff of_int_numeral of_int_power)
  have "L \<le> 53"
  proof (rule ccontr)
    assume "\<not> L \<le> 53"
    then have "(2 powi 53 :: rat) < 2 powi L" by (intro powi_less) simp
    then show False using L(1) n53 by simp
  qed
  then consider "L \<le> 52" | "L = 53" by linarith
  then show ?thesis
  proof cases
    case 1
    then have "of_int n / u = of_int (n * 2 ^ nat (52 - L))"
      by (simp add: u_def power_int_def divide_simps split: if_splits)
    then have "round_even (of_int n / u) = n * 2 ^ nat (52 - L)"
      by (metis round_even_int)
    then show ?thesis using fl 1
      by (simp add: u_def power_int_def power_one_over split: if_splits)
  next
    case 2
    then have "\<bar>of_int n :: rat\<bar> = 2 ^ 53"
      using L(1) n53 by simp
    then have "\<bar>n\<bar> = 2 ^ 53"
      by (metis of_int_abs of_int_eq_iff of_int_numeral of_int_power)
    then have "n = 2 ^ 53 \<or> n = - (2 ^ 53)" by linarith
    then show ?thesis
      using fl 2 round_even_int [of "2 ^ 52"] round_even_int [of "- (2 ^ 52)"]
      by (auto simp: u_def)
  qed
qed

definition js_Decimal :: "string \<Rightarrow> rat option" where
  "js_Decimal s = (case s of [] \<Rightarrow> Some 0
     | c # cs \<Rightarrow> if c = CHR ''-'' then (case dec_rat cs of None \<Rightarrow> None | Some q \<Rightarrow> Some (- fl q))
                else (case dec_rat (c # cs) of None \<Rightarrow> None | Some q \<Rightarrow> Some (fl q)))"

section \<open>Rounding as an interface\<close>

text \<open>
  What the money arithmetic relies on: a rounding with relative error \<open>2^-53\<close> that keeps
  integers of at most 53 bits. The clients are the two roundings of the discount code: a
  line's share of a discount and a percentage of a subtotal.
\<close>

lemma math_round_close: "\<bar>of_int (math_round y) - y\<bar> \<le> 1 / 2"
proof -
  define f where "f = (of_int \<lfloor>y + 1 / 2\<rfloor> :: rat)"
  have "f \<le> y + 1 / 2" "y + 1 / 2 < f + 1"
    using floor_correct [of "y + 1 / 2"] by (auto simp: f_def)
  then have "f - y \<le> 1 / 2" "y - f \<le> 1 / 2" by linarith+
  then have "\<bar>f - y\<bar> \<le> 1 / 2" by (intro abs_leI) auto
  then show ?thesis by (simp only: math_round_def f_def)
qed

locale rounding =
  fixes rnd :: "rat \<Rightarrow> rat"
  assumes rnd_err: "\<bar>rnd x - x\<bar> \<le> \<bar>x\<bar> / 2 ^ 53"
    and rnd_int: "\<bar>n\<bar> \<le> 2 ^ 53 \<Longrightarrow> rnd (of_int n) = of_int n"
begin

lemma rnd_compose:
  assumes "\<bar>a' - a\<bar> \<le> k / 2 ^ 53 * \<bar>a\<bar>" "0 \<le> k" "k \<le> 2 ^ 53"
  shows "\<bar>rnd (a' * c) - a * c\<bar> \<le> (k + 2) / 2 ^ 53 * \<bar>a * c\<bar>"
proof -
  have "\<bar>a' * c - a * c\<bar> = \<bar>a' - a\<bar> * \<bar>c\<bar>"
    by (simp add: abs_mult flip: left_diff_distrib)
  then have d: "\<bar>a' * c - a * c\<bar> \<le> k / 2 ^ 53 * \<bar>a * c\<bar>"
    using mult_right_mono [OF assms(1), of "\<bar>c\<bar>"] by (simp add: abs_mult mult.assoc)
  have "k / 2 ^ 53 * \<bar>a * c\<bar> \<le> 1 * \<bar>a * c\<bar>"
    using assms by (intro mult_right_mono) auto
  with d have "\<bar>a' * c\<bar> \<le> 2 * \<bar>a * c\<bar>" by linarith
  then have "\<bar>rnd (a' * c) - a' * c\<bar> \<le> 2 * \<bar>a * c\<bar> / 2 ^ 53"
    using rnd_err [of "a' * c"] by (simp add: field_simps)
  with d have "\<bar>rnd (a' * c) - a * c\<bar> \<le> 2 * \<bar>a * c\<bar> / 2 ^ 53 + k / 2 ^ 53 * \<bar>a * c\<bar>"
    by linarith
  also have "\<dots> = (k + 2) / 2 ^ 53 * \<bar>a * c\<bar>" by (simp add: field_simps)
  finally show ?thesis .
qed

lemma share_close:
  assumes "0 \<le> l" "l \<le> s" "0 < s" "0 \<le> d" "d \<le> 2 ^ 50"
  shows "\<bar>of_int (math_round (rnd (rnd (of_int l / of_int s) * of_int d))) - of_int l * of_int d / of_int s\<bar> < (1::rat)"
proof -
  define x where "x = (of_int l / of_int s :: rat)"
  have x: "0 \<le> x" "x \<le> 1" using assms by (auto simp: x_def)
  have "\<bar>rnd x - x\<bar> \<le> 1 / 2 ^ 53 * \<bar>x\<bar>" using rnd_err [of x] by simp
  then have "\<bar>rnd (rnd x * of_int d) - x * of_int d\<bar> \<le> (1 + 2) / 2 ^ 53 * \<bar>x * of_int d\<bar>"
    by (rule rnd_compose) auto
  moreover have "\<bar>x * of_int d\<bar> \<le> 2 ^ 50"
  proof -
    have "(of_int d :: rat) \<le> 2 ^ 50"
      using assms(5) by (metis of_int_le_iff of_int_numeral of_int_power)
    then have "x * of_int d \<le> 1 * 2 ^ 50"
      using x assms by (intro mult_mono) auto
    then show ?thesis using x assms by simp
  qed
  then have "(1 + 2) / 2 ^ 53 * \<bar>x * of_int d\<bar> \<le> (1 + 2) / 2 ^ 53 * (2 ^ 50 :: rat)"
    by (intro mult_left_mono) auto
  ultimately have "\<bar>rnd (rnd x * of_int d) - x * of_int d\<bar> \<le> 3 / 8" by simp
  moreover have "\<bar>of_int (math_round (rnd (rnd x * of_int d))) - rnd (rnd x * of_int d)\<bar> \<le> 1 / 2"
    by (rule math_round_close)
  ultimately have "\<bar>of_int (math_round (rnd (rnd x * of_int d))) - x * of_int d\<bar> < 1" by linarith
  then show ?thesis by (simp add: x_def)
qed

text \<open>A percentage \<open>p\<close> of \<open>s\<close> cents: \<open>s * (p / 100)\<close> in doubles.\<close>

lemma percentage_close:
  assumes "0 \<le> s" "s \<le> 2 ^ 49" "0 \<le> p" "p \<le> 100"
  shows "\<bar>of_int (math_round (rnd (of_int s * rnd (rnd p / 100)))) - of_int s * p / 100\<bar> < (1::rat)"
proof -
  have "\<bar>rnd p - p\<bar> \<le> 1 / 2 ^ 53 * \<bar>p\<bar>" using rnd_err [of p] by simp
  then have "\<bar>rnd (rnd p * (1 / 100)) - p * (1 / 100)\<bar> \<le> (1 + 2) / 2 ^ 53 * \<bar>p * (1 / 100)\<bar>"
    by (rule rnd_compose) auto
  then have "\<bar>rnd (rnd p / 100) - p / 100\<bar> \<le> 3 / 2 ^ 53 * \<bar>p / 100\<bar>" by simp
  then have "\<bar>rnd (rnd (rnd p / 100) * of_int s) - p / 100 * of_int s\<bar>
      \<le> (3 + 2) / 2 ^ 53 * \<bar>p / 100 * of_int s\<bar>"
    by (rule rnd_compose) auto
  moreover have "\<bar>p / 100 * of_int s\<bar> \<le> 2 ^ 49"
  proof -
    have "(of_int s :: rat) \<le> 2 ^ 49"
      using assms(2) by (metis of_int_le_iff of_int_numeral of_int_power)
    then have "p / 100 * of_int s \<le> 1 * 2 ^ 49"
      using assms by (intro mult_mono) auto
    then show ?thesis using assms by simp
  qed
  then have "(3 + 2) / 2 ^ 53 * \<bar>p / 100 * of_int s\<bar> \<le> (3 + 2) / 2 ^ 53 * (2 ^ 49 :: rat)"
    by (intro mult_left_mono) auto
  ultimately have "\<bar>rnd (of_int s * rnd (rnd p / 100)) - of_int s * p / 100\<bar> \<le> 5 / 16"
    by (simp add: mult.commute)
  moreover have "\<bar>of_int (math_round (rnd (of_int s * rnd (rnd p / 100)))) - rnd (of_int s * rnd (rnd p / 100))\<bar> \<le> 1 / 2"
    by (rule math_round_close)
  ultimately show ?thesis by linarith
qed

end

interpretation dbl: rounding fl
  by unfold_locales (rule fl_err, rule fl_int)

end
