(* ===== verification/Contact.thy ===== *)
theory Contact
  imports JsNumber
begin

text \<open>
  Small pure rules around an order: \<open>src/features/orders/domain/whatsapp-consent.ts\<close>,
  \<open>owner-cash-whatsapp.ts\<close> and \<open>order-event-cursor.ts\<close>. The lemmas: a normalised number is a
  fixed point of the normalisation and has the form every stored number must have, and a
  client's event cursor is only accepted when the server has really issued it.
\<close>

section \<open>WhatsApp recipients\<close>

definition digits_only :: "string \<Rightarrow> string" where
  "digits_only s = filter is_digit s"

definition starts_with :: "string \<Rightarrow> string \<Rightarrow> bool" where
  "starts_with p s \<longleftrightarrow> take (length p) s = p"

text \<open>The pattern \<open>[1-9]\d{9}\<close> of a local number.\<close>

definition local_re :: "string \<Rightarrow> bool" where
  "local_re s \<longleftrightarrow> length s = 10 \<and> list_all is_digit s \<and> hd s \<noteq> CHR ''0''"

definition normalizeWhatsAppRecipient :: "string option \<Rightarrow> string option" where
  "normalizeWhatsAppRecipient phone =
     (let digits = digits_only (case phone of None \<Rightarrow> [] | Some p \<Rightarrow> p);
          local0 = (if starts_with ''549'' digits then drop 3 digits
                    else if starts_with ''54'' digits then drop 2 digits else digits);
          local1 = (if starts_with ''0'' local0 then drop 1 local0 else local0);
          local2 = (if length local1 = 12 \<and> take 2 (drop 2 local1) = ''15''
                    then take 2 local1 @ drop 4 local1 else local1)
      in if \<not> local_re local2 then None else Some (''549'' @ local2))"

lemma digits_only_digits [simp]: "list_all is_digit s \<Longrightarrow> digits_only s = s"
  by (simp add: digits_only_def list_all_iff)

lemma is_digit_549 [simp]: "is_digit (CHR ''5'')" "is_digit (CHR ''4'')" "is_digit (CHR ''9'')"
  by (simp_all add: is_digit_def)

lemma normalize_shape:
  "normalizeWhatsAppRecipient phone = Some r \<Longrightarrow> \<exists>l. r = ''549'' @ l \<and> local_re l"
  by (auto simp: normalizeWhatsAppRecipient_def Let_def split: if_splits)

lemma normalize_canonical:
  assumes "local_re l"
  shows "normalizeWhatsAppRecipient (Some (''549'' @ l)) = Some (''549'' @ l)"
proof -
  have "digits_only (''549'' @ l) = ''549'' @ l"
    using assms by (simp add: local_re_def)
  moreover have "\<not> starts_with ''0'' l"
    using assms by (cases l) (auto simp: local_re_def starts_with_def)
  ultimately show ?thesis
    using assms by (simp add: normalizeWhatsAppRecipient_def starts_with_def local_re_def Let_def)
qed

text \<open>
  A normalised WhatsApp number is \<open>549\<close> followed by ten digits that do not start with a
  zero, normalising it again changes nothing, and the local forms a customer may type (with
  the country code, with or without the mobile \<open>9\<close>, with a leading \<open>0\<close>) all give the same number.
\<close>

theorem whatsapp_normal_form:
  assumes "local_re l"
  shows "normalizeWhatsAppRecipient (Some (''549'' @ l)) = Some (''549'' @ l)
    \<and> (\<not> starts_with ''54'' l \<longrightarrow> normalizeWhatsAppRecipient (Some l) = Some (''549'' @ l))
    \<and> (hd l \<noteq> CHR ''9'' \<longrightarrow> normalizeWhatsAppRecipient (Some (''54'' @ l)) = Some (''549'' @ l))
    \<and> normalizeWhatsAppRecipient (Some (''+54 9 0'' @ l)) = Some (''549'' @ l)
    \<and> (\<forall>phone r. normalizeWhatsAppRecipient phone = Some r \<longrightarrow> normalizeWhatsAppRecipient (Some r) = Some r)"
proof -
  have l: "length l = 10" "list_all is_digit l" "hd l \<noteq> CHR ''0''" "l \<noteq> []"
    using assms by (auto simp: local_re_def)
  have no0: "\<not> starts_with ''0'' l"
    using l by (cases l) (auto simp: starts_with_def)
  have d: "is_digit (CHR ''0'')" "\<not> is_digit (CHR ''+'')" "\<not> is_digit (CHR '' '')"
    by (simp_all add: is_digit_def)
  have "digits_only (''+54 9 0'' @ l) = ''5490'' @ l"
    using l d by (simp add: digits_only_def list_all_iff)
  then have "normalizeWhatsAppRecipient (Some (''+54 9 0'' @ l)) = Some (''549'' @ l)"
    using l assms by (simp add: normalizeWhatsAppRecipient_def starts_with_def Let_def)
  moreover have "normalizeWhatsAppRecipient (Some l) = Some (''549'' @ l)" if "\<not> starts_with ''54'' l"
  proof -
    have "\<not> starts_with ''549'' l" using that by (auto simp: starts_with_def take_Cons' split: if_splits dest: arg_cong [where f = "take 2"])
    then show ?thesis
      using that l no0 assms by (simp add: normalizeWhatsAppRecipient_def Let_def)
  qed
  moreover have "normalizeWhatsAppRecipient (Some (''54'' @ l)) = Some (''549'' @ l)" if "hd l \<noteq> CHR ''9''"
    using that l no0 assms by (cases l) (simp_all add: normalizeWhatsAppRecipient_def starts_with_def Let_def)
  moreover have "normalizeWhatsAppRecipient (Some r) = Some r" if "normalizeWhatsAppRecipient phone = Some r" for phone r
    using normalize_shape [OF that] normalize_canonical by auto
  ultimately show ?thesis using normalize_canonical [OF assms] by blast
qed

section \<open>The owner's cash alert\<close>

datatype TenantPreset = Gastronomy | ExpressRetail

datatype OwnerPhoneError = InvalidOwnerPhone

definition normalizeOwnerCashAlertPhone ::
  "TenantPreset \<Rightarrow> string option \<Rightarrow> OwnerPhoneError + string option" where
  "normalizeOwnerCashAlertPhone preset phone =
     (case phone of
        None \<Rightarrow> Inr None
      | Some p \<Rightarrow>
          let normalized = normalizeWhatsAppRecipient (Some p) in
          if preset \<noteq> ExpressRetail \<or> normalized = None then Inl InvalidOwnerPhone
          else Inr normalized)"

definition canNotifyOwnerOfCashOrder ::
  "TenantPreset option \<Rightarrow> string option \<Rightarrow> string option \<Rightarrow> string option \<Rightarrow> bool" where
  "canNotifyOwnerOfCashOrder preset phone tender paymentStatus \<longleftrightarrow>
     preset = Some ExpressRetail \<and> tender = Some ''cash'' \<and> paymentStatus = Some ''pending''
     \<and> normalizeWhatsAppRecipient phone \<noteq> None"

section \<open>Event cursors\<close>

datatype ResetReason = Malformed | Ahead
datatype EventCursorResolution = CursorOk int | CursorReset ResetReason int

definition parseEventCursor :: "string option \<Rightarrow> int option" where
  "parseEventCursor value =
     (case value of
        None \<Rightarrow> Some 0
      | Some v \<Rightarrow> if v = [] then Some 0
                  else if \<not> list_all is_digit v then None
                  else map_option int (dec_val 0 v))"

definition resolveEventCursor :: "string option \<Rightarrow> int \<Rightarrow> EventCursorResolution" where
  "resolveEventCursor raw head =
     (case parseEventCursor raw of
        None \<Rightarrow> CursorReset Malformed head
      | Some parsed \<Rightarrow> if head < parsed then CursorReset Ahead head else CursorOk parsed)"

definition formatResetEvent :: "ResetReason \<Rightarrow> int \<Rightarrow> string" where
  "formatResetEvent reason head =
     ''event: reset'' @ [CHR 0x0A] @ ''data: {'' @ [CHR 0x22] @ ''reason'' @ [CHR 0x22] @ '':'' @ [CHR 0x22]
       @ (case reason of Malformed \<Rightarrow> ''malformed'' | Ahead \<Rightarrow> ''ahead'') @ [CHR 0x22] @ '','' @ [CHR 0x22]
       @ ''headSequence'' @ [CHR 0x22] @ '':'' @ [CHR 0x22] @ js_str head @ [CHR 0x22] @ ''}''
       @ [CHR 0x0A, CHR 0x0A]"

text \<open>
  The cursor a stream resumes from is never ahead of the events the server has, never
  negative, and the cursor the server itself prints is accepted and read back exactly; every
  other input resets the client to the head.
\<close>

theorem event_cursor_sound:
  assumes "0 \<le> head"
  shows "(case resolveEventCursor raw head of
       CursorOk c \<Rightarrow> 0 \<le> c \<and> c \<le> head \<and> parseEventCursor raw = Some c
     | CursorReset r h \<Rightarrow> h = head)
    \<and> (\<forall>c. 0 \<le> c \<and> c \<le> head \<longrightarrow> resolveEventCursor (Some (js_str c)) head = CursorOk c)"
proof -
  have p: "0 \<le> c" if "parseEventCursor raw = Some c" for c
    using that by (auto simp: parseEventCursor_def split: option.splits if_splits)
  have "parseEventCursor (Some (js_str c)) = Some c" if "0 \<le> c" for c
    using that by (simp add: parseEventCursor_def js_str_def nat_str_digits)
  then show ?thesis
    using p by (auto simp: resolveEventCursor_def not_less split: option.splits)
qed

end
