(* ===== verification/Json.thy ===== *)
theory Json
  imports JsNumber
begin

text \<open>
  JSON values of the \<open>jsonb\<close> columns, and the two functions that rewrite them:
  \<open>redactSensitiveData\<close> (\<open>src/lib/observability/request-context.ts\<close>), applied to every
  event, audit and outbox payload, and \<open>stableValue\<close> (\<open>src/lib/idempotency/idempotency.service.ts\<close>),
  the canonical form of a request before it is hashed.

  \<^item> An object is the list of its entries in insertion order; a property whose value is
    \<open>undefined\<close> is not in the list, as it is not in the stored column.
  \<^item> \<open>le l r\<close> stands for \<open>l.localeCompare(r) <= 0\<close>, whose collation the program does not fix.
  \<^item> The lemmas show that a redacted value carries no sensitive entry at any depth, and that
    the canonical form of an object does not depend on the order of its entries.
\<close>

datatype json =
  JNull
| JBool bool
| JNum int
| JStr string
| JArr "json list"
| JObj "(string \<times> json) list"

section \<open>Redaction\<close>

definition lower_char :: "char \<Rightarrow> char" where
  "lower_char c = (let n = of_char c :: nat in if 65 \<le> n \<and> n \<le> 90 then char_of (n + 32) else c)"

definition lower_ascii :: "string \<Rightarrow> string" where
  "lower_ascii s = map lower_char s"

definition sensitive_names :: "string list" where
  "sensitive_names = [''access_token'', ''accesstoken'', ''refresh_token'', ''refreshtoken'',
     ''authorization'', ''cookie'', ''password'', ''secret'', ''email'', ''phone'', ''name'', ''customer'']"

definition sensitiveKey :: "string \<Rightarrow> bool" where
  "sensitiveKey k \<longleftrightarrow> lower_ascii k \<in> set sensitive_names"

definition REDACTED :: json where
  "REDACTED = JStr ''[REDACTED]''"

definition customer_field :: "string \<Rightarrow> bool" where
  "customer_field f \<longleftrightarrow> f \<in> set [''email'', ''phone'', ''name'']"

text \<open>The entries of an array as an object: its indices are the keys.\<close>

fun index_keys :: "nat \<Rightarrow> json list \<Rightarrow> (string \<times> json) list" where
  "index_keys i [] = []"
| "index_keys i (v # vs) = (nat_str i, v) # index_keys (Suc i) vs"

text \<open>
  The second pass of \<open>redactSensitiveData\<close> over a \<open>customer\<close> entry, already redacted by the
  first: its object (or array) is rebuilt field by field.
\<close>

definition redact_customer :: "(json \<Rightarrow> json) \<Rightarrow> json \<Rightarrow> json" where
  "redact_customer red nested =
     (let fields = map (\<lambda>(f, x). (f, if customer_field f then REDACTED else red x)) in
      case nested of
        JObj fs \<Rightarrow> JObj (fields fs)
      | JArr vs \<Rightarrow> JObj (fields (index_keys 0 vs))
      | _ \<Rightarrow> nested)"

text \<open>
  The recursion is on the nesting depth of the value: a call on a value of depth at most \<open>n\<close>
  never runs out (\<open>redact_n_enough\<close>), and \<open>redactSensitiveData\<close> starts with the depth itself.
\<close>

fun redact_n :: "nat \<Rightarrow> json \<Rightarrow> json" where
  "redact_n 0 v = v"
| "redact_n (Suc n) v = (case v of
     JArr vs \<Rightarrow> JArr (map (redact_n n) vs)
   | JObj kvs \<Rightarrow> JObj (map (\<lambda>(key, nested).
       (key, if key = ''customer'' then redact_customer (redact_n n) (redact_n n nested)
             else if sensitiveKey key then REDACTED
             else redact_n n nested)) kvs)
   | _ \<Rightarrow> v)"

fun depth :: "json \<Rightarrow> nat" where
  "depth (JArr vs) = Suc (foldr max (map depth vs) 0)"
| "depth (JObj kvs) = Suc (foldr max (map (\<lambda>(k, v). depth v) kvs) 0)"
| "depth _ = 0"

definition redactSensitiveData :: "json \<Rightarrow> json" where
  "redactSensitiveData v = redact_n (depth v) v"

text \<open>No sensitive entry is left: its value is the marker, at every depth.\<close>

fun clean :: "json \<Rightarrow> bool" where
  "clean (JArr vs) \<longleftrightarrow> (\<forall>v \<in> set vs. clean v)"
| "clean (JObj kvs) \<longleftrightarrow> (\<forall>(k, v) \<in> set kvs.
     if sensitiveKey k \<and> k \<noteq> ''customer'' then v = REDACTED else clean v)"
| "clean _ \<longleftrightarrow> True"

lemma foldr_max_le: "foldr max ns 0 \<le> (n::nat) \<longleftrightarrow> (\<forall>m \<in> set ns. m \<le> n)"
  by (induction ns) auto

lemma depth_JArr_le [simp]: "depth (JArr vs) \<le> Suc n \<longleftrightarrow> (\<forall>v \<in> set vs. depth v \<le> n)"
  by (simp add: foldr_max_le)

lemma depth_JObj_le [simp]: "depth (JObj kvs) \<le> Suc n \<longleftrightarrow> (\<forall>(k, v) \<in> set kvs. depth v \<le> n)"
  by (auto simp: foldr_max_le)

declare depth.simps(1,2) [simp del]

lemma depth_0_leaf: "depth v \<le> 0 \<Longrightarrow> redact_n n v = v \<and> clean v"
  by (cases n; cases v) (auto simp: depth.simps)

lemma depth_REDACTED [simp]: "depth REDACTED = 0"
  by (simp add: REDACTED_def)

lemma redact_REDACTED [simp]: "redact_n n REDACTED = REDACTED" "clean REDACTED"
  by (cases n; simp add: REDACTED_def)+

lemma index_keys_set: "(k, v) \<in> set (index_keys i vs) \<Longrightarrow> v \<in> set vs \<and> (\<exists>j. k = nat_str j)"
  by (induction vs arbitrary: i) auto

lemma redact_customer_depth:
  assumes "\<And>x. depth x \<le> n \<Longrightarrow> depth (red x) \<le> n" "depth v \<le> Suc n"
  shows "depth (redact_customer red v) \<le> Suc n"
  using assms by (cases v) (fastforce simp: redact_customer_def depth.simps(3-) dest: index_keys_set)+

lemma redact_customer_cong:
  assumes "\<And>x. depth x < depth v \<Longrightarrow> f x = g x"
  shows "redact_customer f v = redact_customer g v"
proof (cases v)
  case (JArr vs)
  then have "\<And>k x. (k, x) \<in> set (index_keys 0 vs) \<Longrightarrow> f x = g x"
    using assms depth_JArr_le [of vs "depth v - 1"]
    by (fastforce simp: depth.simps(1) dest: index_keys_set)
  then show ?thesis using JArr by (auto simp: redact_customer_def)
next
  case (JObj kvs)
  then have "\<And>k x. (k, x) \<in> set kvs \<Longrightarrow> f x = g x"
    using assms depth_JObj_le [of kvs "depth v - 1"] by (fastforce simp: depth.simps(2))
  then show ?thesis using JObj by (auto simp: redact_customer_def)
qed (auto simp: redact_customer_def)

lemma redact_customer_leaf: "depth v = 0 \<Longrightarrow> redact_customer f v = v"
  by (cases v) (auto simp: redact_customer_def depth.simps)

lemma redact_n_depth: "depth v \<le> n \<Longrightarrow> depth (redact_n m v) \<le> n"
proof (induction m arbitrary: v n)
  case 0
  then show ?case by simp
next
  case (Suc m)
  show ?case
  proof (cases n)
    case 0
    then show ?thesis using Suc.prems depth_0_leaf [of v "Suc m"] by simp
  next
    case (Suc n')
    have c: "depth (redact_customer (redact_n m) (redact_n m x)) \<le> n'" if x: "depth x \<le> n'" for x
    proof (cases n')
      case 0
      then have "depth (redact_n m x) = 0" using Suc.IH [OF x] by simp
      then show ?thesis by (simp add: redact_customer_leaf)
    next
      case (Suc n'')
      then show ?thesis
        using Suc.IH x by (auto intro!: redact_customer_depth)
    qed
    show ?thesis
      using Suc.prems Suc.IH c \<open>n = Suc n'\<close> by (cases v) (fastforce split: if_splits)+
  qed
qed

lemma redact_n_enough:
  "depth v \<le> n \<Longrightarrow> depth v \<le> m \<Longrightarrow> redact_n n v = redact_n m v"
proof (induction n arbitrary: v m)
  case 0
  then show ?case using depth_0_leaf [of v m] by simp
next
  case (Suc n)
  show ?case
  proof (cases m)
    case 0
    then show ?thesis using Suc.prems depth_0_leaf [of v "Suc n"] by simp
  next
    case (Suc m')
    have c: "redact_customer (redact_n n) (redact_n n x) = redact_customer (redact_n m') (redact_n m' x)"
      if x: "depth x \<le> n" "depth x \<le> m'" for x
    proof -
      have "redact_n n x = redact_n m' x" by (rule Suc.IH [OF x])
      moreover have "redact_n n y = redact_n m' y" if "depth y < depth (redact_n n x)" for y
        using that redact_n_depth [OF x(1), of n] redact_n_depth [OF x(2), of n] Suc.IH by simp
      ultimately show ?thesis
        by (metis redact_customer_cong)
    qed
    show ?thesis
    proof (cases v)
      case (JArr vs)
      then have "redact_n n x = redact_n m' x" if "x \<in> set vs" for x
        using Suc.prems that \<open>m = Suc m'\<close> by (intro Suc.IH) auto
      then show ?thesis using JArr \<open>m = Suc m'\<close> by simp
    next
      case (JObj kvs)
      have d: "depth x \<le> n \<and> depth x \<le> m'" if "(k, x) \<in> set kvs" for k x
        using Suc.prems that \<open>m = Suc m'\<close> JObj by auto
      then have "redact_n n x = redact_n m' x"
        "redact_customer (redact_n n) (redact_n n x) = redact_customer (redact_n m') (redact_n m' x)"
        if "(k, x) \<in> set kvs" for k x
        using that Suc.IH c by blast+
      then have "(if k = ''customer'' then redact_customer (redact_n n) (redact_n n x)
            else if sensitiveKey k then REDACTED else redact_n n x)
        = (if k = ''customer'' then redact_customer (redact_n m') (redact_n m' x)
            else if sensitiveKey k then REDACTED else redact_n m' x)" if "(k, x) \<in> set kvs" for k x
        using that by simp
      then show ?thesis using JObj \<open>m = Suc m'\<close> by (auto split del: if_split)
    qed (use \<open>m = Suc m'\<close> in auto)
  qed
qed

text \<open>The recursion equations of the source hold for the definition by depth.\<close>

lemma redact_JArr: "redactSensitiveData (JArr vs) = JArr (map redactSensitiveData vs)"
proof -
  have "redactSensitiveData (JArr vs) = JArr (map (redact_n (depth (JArr vs) - 1)) vs)"
    by (simp add: redactSensitiveData_def depth.simps(1))
  moreover have "redact_n (depth (JArr vs) - 1) v = redactSensitiveData v" if "v \<in> set vs" for v
    unfolding redactSensitiveData_def
    using that depth_JArr_le [of vs "depth (JArr vs) - 1"]
    by (intro redact_n_enough) (auto simp: depth.simps(1))
  ultimately show ?thesis by simp
qed

lemma redact_leaf [simp]:
  "redactSensitiveData JNull = JNull" "redactSensitiveData (JBool b) = JBool b"
  "redactSensitiveData (JNum n) = JNum n" "redactSensitiveData (JStr s) = JStr s"
  by (simp_all add: redactSensitiveData_def)

lemma redact_JObj:
  "redactSensitiveData (JObj kvs) = JObj (map (\<lambda>(key, nested).
     (key, if key = ''customer'' then redact_customer redactSensitiveData (redactSensitiveData nested)
           else if sensitiveKey key then REDACTED
           else redactSensitiveData nested)) kvs)"
proof -
  define n where "n = depth (JObj kvs) - 1"
  have d: "depth v \<le> n" if "(k, v) \<in> set kvs" for k v
    using that depth_JObj_le [of kvs n] by (auto simp: n_def depth.simps(2))
  have r: "redact_n n v = redactSensitiveData v" if "depth v \<le> n" for v
    unfolding redactSensitiveData_def using that by (intro redact_n_enough) auto
  have "redact_customer (redact_n n) (redact_n n v) = redact_customer redactSensitiveData (redactSensitiveData v)"
    if "depth v \<le> n" for v
    using that r redact_n_depth [OF that, of n] by (auto intro!: redact_customer_cong)
  moreover have "redactSensitiveData (JObj kvs) = redact_n (Suc n) (JObj kvs)"
    by (simp add: redactSensitiveData_def n_def depth.simps(2))
  ultimately show ?thesis using d r by auto
qed

lemma nat_str_not_sensitive: "\<not> sensitiveKey (nat_str i)"
proof
  assume "sensitiveKey (nat_str i)"
  then obtain c where c: "c \<in> set (nat_str i)" "lower_char c \<in> {CHR ''a'', CHR ''r'', CHR ''c'', CHR ''p'', CHR ''s'', CHR ''e'', CHR ''n''}"
    by (cases "nat_str i") (auto simp: sensitiveKey_def sensitive_names_def lower_ascii_def)
  then have "is_digit c" using nat_str_digits [of i] by (auto simp: list_all_iff)
  then have "lower_char c = c" by (auto simp: lower_char_def is_digit_def Let_def)
  with c \<open>is_digit c\<close> show False by (auto simp: is_digit_def)
qed

lemma customer_field_sensitive: "customer_field f \<Longrightarrow> sensitiveKey f \<and> f \<noteq> ''customer''"
  by (auto simp: customer_field_def sensitiveKey_def sensitive_names_def lower_ascii_def lower_char_def)

lemma redact_customer_clean:
  assumes "clean v" and "\<And>x. depth x < depth v \<Longrightarrow> clean x \<Longrightarrow> clean (red x)" and "red REDACTED = REDACTED"
  shows "clean (redact_customer red v)"
proof (cases v)
  case (JArr vs)
  have "clean (red x) \<and> \<not> sensitiveKey k" if "(k, x) \<in> set (index_keys 0 vs)" for k x
    using that assms(1,2) JArr depth_JArr_le [of vs "depth v - 1"] nat_str_not_sensitive
    by (fastforce simp: depth.simps(1) dest: index_keys_set)
  then show ?thesis using JArr by (auto simp: redact_customer_def)
next
  case (JObj kvs)
  have "if sensitiveKey k \<and> k \<noteq> ''customer'' then red x = REDACTED else clean (red x)"
    if "(k, x) \<in> set kvs" for k x
    using that assms JObj depth_JObj_le [of kvs "depth v - 1"] by (fastforce simp: depth.simps(2) split: if_splits)
  then show ?thesis
    using JObj customer_field_sensitive by (fastforce simp: redact_customer_def split: if_splits)
qed (auto simp: redact_customer_def)

lemma redact_n_clean: "depth v \<le> n \<Longrightarrow> clean (redact_n n v)"
proof (induction n arbitrary: v)
  case 0
  then show ?case using depth_0_leaf [of v 0] by simp
next
  case (Suc n)
  have c: "clean (redact_customer (redact_n n) (redact_n n x))" if x: "depth x \<le> n" for x
    using Suc.IH redact_n_depth [OF x, of n] x by (intro redact_customer_clean) auto
  show ?case
  proof (cases v)
    case (JObj kvs)
    then have "depth x \<le> n" if "(k, x) \<in> set kvs" for k x
      using Suc.prems that by auto
    then show ?thesis using JObj Suc.IH c by auto
  qed (use Suc in auto)
qed

text \<open>
  After redaction no entry under a sensitive key (tokens, cookies, passwords, secrets,
  e-mails, phones and names, in any letter case) keeps its value, at any depth of the payload,
  and inside a \<open>customer\<close> entry neither.
\<close>

theorem redaction_complete: "clean (redactSensitiveData v)"
  by (simp add: redactSensitiveData_def redact_n_clean)

section \<open>Canonical form of a request\<close>

fun stableValue :: "(string \<Rightarrow> string \<Rightarrow> bool) \<Rightarrow> json \<Rightarrow> json" where
  "stableValue le (JArr vs) = JArr (map (stableValue le) vs)"
| "stableValue le (JObj kvs) = JObj (sort_by (\<lambda>l r. le (fst l) (fst r))
     (map (\<lambda>(key, nested). (key, stableValue le nested)) kvs))"
| "stableValue le JNull = JNull"
| "stableValue le (JBool b) = JBool b"
| "stableValue le (JNum n) = JNum n"
| "stableValue le (JStr s) = JStr s"

text \<open>
  \<open>digest\<close> is \<open>sha256\<close> of \<open>JSON.stringify\<close>, of the platform's crypto library.
\<close>

definition hashIdempotencyRequest ::
  "(string \<Rightarrow> string \<Rightarrow> bool) \<Rightarrow> (json \<Rightarrow> string) \<Rightarrow> json \<Rightarrow> string" where
  "hashIdempotencyRequest le digest value = digest (stableValue le value)"

lemma sorted_wrt_distinct_keys:
  assumes "sorted_wrt (\<lambda>l r. le (fst l) (fst r)) xs" "distinct (map fst xs)"
  shows "sorted_wrt (\<lambda>l r. le (fst l) (fst r) \<and> fst l \<noteq> fst r) xs"
  using assms by (induction xs) (force simp: image_iff)+

lemma linear_on_keys:
  assumes "linear_on le (fst ` set xs)" "distinct (map fst xs)"
  shows "linear_on (\<lambda>l r. le (fst l) (fst r)) (set xs)"
proof -
  have "x = y" if "x \<in> set xs" "y \<in> set xs" "fst x = fst y" for x y
    using that assms(2) by (auto simp: distinct_map inj_on_def)
  then show ?thesis
    using assms(1) unfolding linear_on_def by blast
qed

lemma sort_keys_perm:
  assumes "linear_on le (fst ` set xs)" "distinct (map fst xs)" "distinct (map fst ys)" "set xs = set ys"
  shows "sort_by (\<lambda>l r. le (fst l) (fst r)) xs = sort_by (\<lambda>l r. le (fst l) (fst r)) ys"
proof -
  let ?le = "\<lambda>l r. le (fst l) (fst r)"
  have s: "sorted_wrt (\<lambda>l r. le (fst l) (fst r) \<and> fst l \<noteq> fst r \<and> l \<in> set xs \<and> r \<in> set xs) (sort_by ?le zs)"
    if "distinct (map fst zs)" "set zs = set xs" for zs
  proof -
    have "sorted_wrt ?le (sort_by ?le zs)"
      using that assms(1) by (intro sorted_sort_by linear_on_keys) auto
    then have "sorted_wrt (\<lambda>l r. ?le l r \<and> fst l \<noteq> fst r) (sort_by ?le zs)"
      using that by (intro sorted_wrt_distinct_keys) (simp_all add: distinct_sort_by)
    then show ?thesis
      using that by (rule_tac sorted_wrt_mono_rel [rotated]) auto
  qed
  show ?thesis
  proof (rule sorted_unique [OF s s])
    show "set (sort_by ?le xs) = set (sort_by ?le ys)" using assms(4) by simp
    show "\<not> (le (fst b) (fst a) \<and> fst b \<noteq> fst a \<and> b \<in> set xs \<and> a \<in> set xs)"
      if "le (fst a) (fst b) \<and> fst a \<noteq> fst b \<and> a \<in> set xs \<and> b \<in> set xs" for a b
      using that assms(1) unfolding linear_on_def by blast
  qed (use assms in auto)
qed

text \<open>
  Two objects with the same entries in any order (and each key once, as every object has)
  have the same canonical form, hence the same request hash: a client that resends its request
  with the fields in another order is a replay, not a conflict. The hypothesis on the collation
  is that it does not identify or confuse the object's keys.
\<close>

theorem hash_order_insensitive:
  assumes "set kvs = set kvs'" and "distinct (map fst kvs)" and "distinct (map fst kvs')"
    and "linear_on le (fst ` set kvs)"
  shows "hashIdempotencyRequest le digest (JObj kvs) = hashIdempotencyRequest le digest (JObj kvs')"
proof -
  have "map fst (map (\<lambda>(key, nested). (key, stableValue le nested)) xs) = map fst xs" for xs
    by (simp add: case_prod_unfold)
  moreover have "set (map (\<lambda>(key, nested). (key, stableValue le nested)) kvs)
    = set (map (\<lambda>(key, nested). (key, stableValue le nested)) kvs')"
    using assms(1) by simp
  ultimately show ?thesis
    using assms sort_keys_perm [of le "map (\<lambda>(key, nested). (key, stableValue le nested)) kvs"
        "map (\<lambda>(key, nested). (key, stableValue le nested)) kvs'"]
    by (simp add: hashIdempotencyRequest_def image_image case_prod_unfold o_def)
qed

theorem hash_order_insensitive_witness:
  "hashIdempotencyRequest (\<lambda>a b. length a \<le> length b) (\<lambda>v. ''h'') (JObj [(''a'', JNum 1), (''bb'', JNull)])
   = hashIdempotencyRequest (\<lambda>a b. length a \<le> length b) (\<lambda>v. ''h'') (JObj [(''bb'', JNull), (''a'', JNum 1)])"
  by (rule hash_order_insensitive) (auto simp: linear_on_def)

end
