(* ===== verification/CartRules.thy ===== *)
theory CartRules
  imports JsNumber
begin

text \<open>
  \<open>src/features/cart/domain/cart.rules.ts\<close>: money strings and cents, the schema of a cart
  line, and the revalidation of a selection against the catalogue.

  \<^item> \<open>moneyToCents\<close> yields \<open>None\<close> for \<open>NaN\<close>; sums with a \<open>NaN\<close> are \<open>NaN\<close> (\<open>nan_plus\<close>).
  \<^item> An absent optional field is \<open>None\<close>; an empty string is falsy in the source's tests.
  \<^item> The lemmas give the value of a money string digit by digit, the round trip between
    cents and strings, and what exactly is accepted by \<open>revalidateCartSelection\<close>.
\<close>

section \<open>Money\<close>

definition moneyToCents :: "string \<Rightarrow> int option" where
  "moneyToCents value =
     (let parts = js_split (CHR ''.'') value;
          whole = hd parts;
          fraction = (if length parts < 2 then ''00'' else parts ! 1);
          paddedFraction = take 2 (pad_end 2 (CHR ''0'') fraction)
      in case (js_Number whole, js_Number paddedFraction) of
           (Some w, Some f) \<Rightarrow> Some (w * 100 + f)
         | _ \<Rightarrow> None)"

definition centsToMoney :: "int \<Rightarrow> string" where
  "centsToMoney value =
     js_str (value div 100) @ ''.'' @ pad_start 2 (CHR ''0'') (js_str (js_rem value 100))"

fun nan_plus :: "int option \<Rightarrow> int option \<Rightarrow> int option" where
  "nan_plus (Some a) (Some b) = Some (a + b)"
| "nan_plus _ _ = None"

text \<open>The pattern \<open>\d{1,10}\.\d{2}\<close>.\<close>

definition money_re :: "string \<Rightarrow> bool" where
  "money_re s = (case js_split (CHR ''.'') s of
     [w, f] \<Rightarrow> 1 \<le> length w \<and> length w \<le> 10 \<and> list_all is_digit w \<and> length f = 2 \<and> list_all is_digit f
   | _ \<Rightarrow> False)"

lemma dot_not_digit [simp]: "\<not> is_digit (CHR ''.'')"
  by (simp add: is_digit_def)

lemma digits_no_dot: "list_all is_digit s \<Longrightarrow> CHR ''.'' \<notin> set s"
  by (auto simp: list_all_iff)

lemma js_split_digits2:
  "list_all is_digit w \<Longrightarrow> list_all is_digit f \<Longrightarrow> js_split (CHR ''.'') (w @ CHR ''.'' # f) = [w, f]"
  by (simp add: js_split_sep js_split_no_sep digits_no_dot)

lemma js_split_join:
  "concat (map (\<lambda>p. CHR ''.'' # p) (js_split (CHR ''.'') s)) = CHR ''.'' # s"
  by (induction s) (auto split: list.splits)

lemma money_reE:
  assumes "money_re s"
  obtains w a b where "s = w @ CHR ''.'' # [a, b]" "w \<noteq> []" "length w \<le> 10"
    "list_all is_digit w" "is_digit a" "is_digit b"
proof -
  obtain w f where sp: "js_split (CHR ''.'') s = [w, f]" and w: "w \<noteq> []" "length w \<le> 10"
    "list_all is_digit w" and f: "length f = 2" "list_all is_digit f"
    using assms unfolding money_re_def
    by (auto split: list.splits simp: Suc_le_length_iff)
  from f obtain a b where "f = [a, b]" "is_digit a" "is_digit b"
    by (auto simp: length_Suc_conv numeral_2_eq_2)
  with js_split_join [of s] sp w that show ?thesis by auto
qed

lemma dec_val_bound:
  "dec_val acc s = Some n \<Longrightarrow> n < (acc + 1) * 10 ^ length s"
proof (induction s arbitrary: acc)
  case Nil
  then show ?case by simp
next
  case (Cons c s)
  then have d: "is_digit c" and n: "n < (10 * acc + digit_val c + 1) * 10 ^ length s"
    by (auto split: if_splits)
  have "10 * acc + digit_val c + 1 \<le> (acc + 1) * 10"
    using digit_val_less [OF d] by simp
  then have "(10 * acc + digit_val c + 1) * 10 ^ length s \<le> ((acc + 1) * 10) * 10 ^ length s"
    by (rule mult_right_mono) simp
  with n have "n < ((acc + 1) * 10) * 10 ^ length s" by (rule less_le_trans)
  then show ?case by (simp add: mult.assoc [symmetric] distrib_right)
qed

lemma moneyToCents_digits:
  assumes "w \<noteq> []" "list_all is_digit w" "is_digit a" "is_digit b"
  shows "moneyToCents (w @ CHR ''.'' # [a, b]) =
    map_option (\<lambda>n. int n * 100 + int (10 * digit_val a + digit_val b)) (dec_val 0 w)"
proof -
  have "js_Number [a, b] = Some (int (10 * digit_val a + digit_val b))"
    using assms by (simp add: js_Number_digits)
  moreover have "js_Number w = map_option int (dec_val 0 w)"
    using assms by (simp add: js_Number_digits)
  moreover have "js_split (CHR ''.'') (w @ CHR ''.'' # [a, b]) = [w, [a, b]]"
    using assms by (intro js_split_digits2) auto
  ultimately show ?thesis
    by (simp add: moneyToCents_def pad_end_def Let_def split: option.splits)
qed

lemma moneyToCents_bounds:
  assumes "money_re s"
  obtains c where "moneyToCents s = Some c" "0 \<le> c" "c < 10 ^ 12"
proof -
  obtain w a b where s: "s = w @ CHR ''.'' # [a, b]" and w: "w \<noteq> []" "length w \<le> 10"
    "list_all is_digit w" and d: "is_digit a" "is_digit b"
    by (rule money_reE [OF assms])
  obtain n where n: "dec_val 0 w = Some n"
    using w dec_val_Some_iff [of 0 w] by auto
  have "n < 10 ^ length w" using dec_val_bound [OF n] by simp
  also have "\<dots> \<le> 10 ^ 10" using w(2) by (rule power_increasing) simp
  finally have "int n + 1 \<le> 10 ^ 10" by simp
  moreover have "10 * digit_val a + digit_val b < 100"
    using digit_val_less [OF d(1)] digit_val_less [OF d(2)] by simp
  ultimately have "int n * 100 + int (10 * digit_val a + digit_val b) < 10 ^ 12"
    by simp
  then show ?thesis
    using that [of "int n * 100 + int (10 * digit_val a + digit_val b)"] n w d
    by (simp add: s moneyToCents_digits)
qed

lemma js_rem_nonneg [simp]: "0 \<le> a \<Longrightarrow> js_rem a b = a mod b"
  by (simp add: js_rem_def)

lemma js_str_nonneg: "0 \<le> n \<Longrightarrow> js_str n = nat_str (nat n)"
  by (simp add: js_str_def)

lemma digit_chr_0: "digit_chr 0 = CHR ''0''"
  by code_simp

lemma nat_str_pad2:
  assumes "n < 100"
  shows "pad_start 2 (CHR ''0'') (nat_str n) = [digit_chr (n div 10), digit_chr (n mod 10)]"
proof (cases "n < 10")
  case True
  then show ?thesis
    by (subst nat_str.simps) (simp add: pad_start_def digit_chr_0)
next
  case False
  then have "nat_str (n div 10) = [digit_chr (n div 10)]"
    using assms by (subst nat_str.simps) simp
  with False show ?thesis
    by (subst nat_str.simps) (simp add: pad_start_def)
qed

lemma centsToMoney_digits:
  assumes "0 \<le> n"
  shows "centsToMoney n = nat_str (nat n div 100) @ CHR ''.'' #
    [digit_chr (nat n mod 100 div 10), digit_chr (nat n mod 10)]"
proof -
  have "nat (n mod 100) = nat n mod 100" "nat (n div 100) = nat n div 100" "0 \<le> n div 100"
    using assms by (simp_all add: nat_mod_distrib nat_div_distrib)
  moreover have "nat n mod 100 mod 10 = nat n mod 10"
    by (simp add: mod_mod_cancel)
  ultimately show ?thesis
    using assms nat_str_pad2 [of "nat n mod 100"]
    by (simp add: centsToMoney_def js_str_nonneg)
qed

lemma centsToMoney_re:
  assumes "0 \<le> n" "n < 10 ^ 12"
  shows "money_re (centsToMoney n)"
proof -
  have "nat n div 100 < 10 ^ Suc 9" using assms by simp
  then have "length (nat_str (nat n div 100)) \<le> 10"
    using length_nat_str by fastforce
  moreover have "1 \<le> length (nat_str (nat n div 100))"
    by (simp add: Suc_leI)
  ultimately show ?thesis
    using assms nat_str_digits
    by (simp add: centsToMoney_digits money_re_def js_split_digits2)
qed

lemma moneyToCents_centsToMoney:
  assumes "0 \<le> n"
  shows "moneyToCents (centsToMoney n) = Some n"
proof -
  have "nat n mod 100 mod 10 = nat n mod 10"
    by (simp add: mod_mod_cancel)
  then have "10 * (nat n mod 100 div 10) + nat n mod 10 = nat n mod 100"
    using mult_div_mod_eq [of 10 "nat n mod 100"] by simp
  then have "int (nat n div 100) * 100 + int (10 * (nat n mod 100 div 10) + nat n mod 10) = n"
    using assms arg_cong [OF div_mult_mod_eq [of "nat n" 100], of int]
    by (simp only: of_nat_add of_nat_mult of_nat_numeral int_nat_eq if_True)
  moreover have "nat n mod 100 div 10 < 10" by (simp add: less_mult_imp_div_less)
  ultimately show ?thesis
    using assms by (simp add: centsToMoney_digits moneyToCents_digits nat_str_digits)
qed

lemma centsToMoney_inj: "0 \<le> m \<Longrightarrow> 0 \<le> n \<Longrightarrow> centsToMoney m = centsToMoney n \<Longrightarrow> m = n"
  by (metis moneyToCents_centsToMoney option.inject)

section \<open>Selections and the catalogue\<close>

datatype SelectionKind = Item | Combo

record CartSelection =
  sel_kind :: SelectionKind
  sel_resourceId :: string
  sel_quantity :: int
  sel_optionIds :: "string list"
  sel_note :: "string option"
  sel_confirmedUnitPrice :: "string option"
  sel_calculatedSubtotal :: "string option"

text \<open>
  \<open>createCartSchema\<close>: which lines the schema admits, and what parsing makes of them (the
  note is trimmed). \<open>is_uuid\<close> is the validation library's check \<open>z.uuid()\<close>.
\<close>

definition cart_line_ok :: "(string \<Rightarrow> bool) \<Rightarrow> CartSelection \<Rightarrow> bool" where
  "cart_line_ok is_uuid l \<longleftrightarrow>
     is_uuid (sel_resourceId l)
     \<and> 0 < sel_quantity l \<and> sel_quantity l \<le> 50
     \<and> length (sel_optionIds l) \<le> 50 \<and> list_all is_uuid (sel_optionIds l)
     \<and> (case sel_note l of None \<Rightarrow> True | Some n \<Rightarrow> length (js_trim n) \<le> 500)
     \<and> (case sel_confirmedUnitPrice l of None \<Rightarrow> True | Some p \<Rightarrow> money_re p)
     \<and> (case sel_calculatedSubtotal l of None \<Rightarrow> True | Some p \<Rightarrow> money_re p)"

definition createCartSchema ::
  "(string \<Rightarrow> bool) \<Rightarrow> CartSelection list \<times> string option \<Rightarrow> (CartSelection list \<times> string option) option" where
  "createCartSchema is_uuid = (\<lambda>(lines, code).
     if 1 \<le> length lines \<and> length lines \<le> 100 \<and> list_all (cart_line_ok is_uuid) lines
     then Some (map (\<lambda>l. l\<lparr>sel_note := map_option js_trim (sel_note l)\<rparr>) lines, map_option js_trim code)
     else None)"

datatype CatalogStatus = Draft | Active | Unavailable | Archived
datatype ItemType = Unit | Weighted

record addon_option =
  ao_id :: string
  ao_name :: string
  priceDelta :: string

record addon_group =
  ag_id :: string
  minSelected :: int
  maxSelected :: int
  ag_options :: "addon_option list"

record RevalidationCatalog =
  cat_status :: CatalogStatus
  cat_itemType :: "ItemType option"
  cat_price :: string
  cat_currency :: string
  addonGroups :: "addon_group list"

record chosen_option =
  co_groupId :: string
  co_optionId :: string
  co_name :: string
  co_priceDelta :: string

record revalidated =
  rv_itemType :: ItemType
  rv_options :: "chosen_option list"
  rv_unitPriceCents :: "int option"

datatype CartRevalidationError =
  ResourceUnavailable | SubtotalNotAllowed | SubtotalRequired | SubtotalNotPositive
| WeightedQuantity | WeightedOptions | PriceChanged | AddonUnavailable | AddonBounds
| OrderingUnavailable

definition nonempty :: "string option \<Rightarrow> bool" where
  "nonempty v \<longleftrightarrow> v \<noteq> None \<and> v \<noteq> Some []"

definition group_selected :: "string list \<Rightarrow> addon_group \<Rightarrow> addon_option list" where
  "group_selected ids g = filter (\<lambda>opt. ao_id opt \<in> set ids) (ag_options g)"

definition chosen_options :: "string list \<Rightarrow> addon_group list \<Rightarrow> chosen_option list" where
  "chosen_options ids groups = concat (map (\<lambda>g.
     map (\<lambda>opt. \<lparr>co_groupId = ag_id g, co_optionId = ao_id opt, co_name = ao_name opt,
                 co_priceDelta = priceDelta opt\<rparr>) (group_selected ids g)) groups)"

definition known_options :: "addon_group list \<Rightarrow> string list" where
  "known_options groups = concat (map (\<lambda>g. map ao_id (ag_options g)) groups)"

definition revalidateWeighted :: "CartSelection \<Rightarrow> CartRevalidationError + revalidated" where
  "revalidateWeighted sel =
     (case sel_calculatedSubtotal sel of
        None \<Rightarrow> Inl SubtotalRequired
      | Some sub \<Rightarrow>
          if \<not> money_re sub then Inl SubtotalRequired
          else let subtotalCents = moneyToCents sub in
            if (case subtotalCents of None \<Rightarrow> False | Some c \<Rightarrow> c \<le> 0) then Inl SubtotalNotPositive
            else if sel_quantity sel \<noteq> 1 then Inl WeightedQuantity
            else if length (sel_optionIds sel) > 0 then Inl WeightedOptions
            else Inr \<lparr>rv_itemType = Weighted, rv_options = [], rv_unitPriceCents = subtotalCents\<rparr>)"

definition revalidateUnit ::
  "CartSelection \<Rightarrow> RevalidationCatalog \<Rightarrow> CartRevalidationError + revalidated" where
  "revalidateUnit sel catalog =
     (if nonempty (sel_confirmedUnitPrice sel) \<and> sel_confirmedUnitPrice sel \<noteq> Some (cat_price catalog)
      then Inl PriceChanged
      else let ids = sel_optionIds sel; groups = addonGroups catalog in
        if \<exists>i \<in> set ids. i \<notin> set (known_options groups) then Inl AddonUnavailable
        else if \<exists>g \<in> set groups. let n = int (length (group_selected ids g)) in
                  n < minSelected g \<or> maxSelected g < n
        then Inl AddonBounds
        else let opts = chosen_options ids groups in
          Inr \<lparr>rv_itemType = Unit, rv_options = opts,
               rv_unitPriceCents = nan_plus (moneyToCents (cat_price catalog))
                 (foldl (\<lambda>acc opt. nan_plus acc (moneyToCents (co_priceDelta opt))) (Some 0) opts)\<rparr>)"

definition revalidateCartSelection ::
  "CartSelection \<Rightarrow> RevalidationCatalog \<Rightarrow> CartRevalidationError + revalidated" where
  "revalidateCartSelection sel catalog =
     (if cat_status catalog \<noteq> Active then Inl ResourceUnavailable
      else let catalogItemType = (case cat_itemType catalog of None \<Rightarrow> Unit | Some t \<Rightarrow> t) in
        if catalogItemType = Unit \<and> sel_calculatedSubtotal sel \<noteq> None then Inl SubtotalNotAllowed
        else if catalogItemType = Weighted then revalidateWeighted sel
        else revalidateUnit sel catalog)"

text \<open>A sum of priced options is their cents added up, when each delta is a money string.\<close>

definition cents :: "string \<Rightarrow> int" where
  "cents s = (case moneyToCents s of None \<Rightarrow> 0 | Some c \<Rightarrow> c)"

lemma money_re_cents: "money_re s \<Longrightarrow> moneyToCents s = Some (cents s) \<and> 0 \<le> cents s \<and> cents s < 10 ^ 12"
  by (metis cents_def moneyToCents_bounds option.simps(5))

lemma foldl_nan_plus:
  assumes "\<And>p. p \<in> set ps \<Longrightarrow> money_re (f p)"
  shows "foldl (\<lambda>acc p. nan_plus acc (moneyToCents (f p))) (Some a) ps = Some (a + (\<Sum>p\<leftarrow>ps. cents (f p)))"
  using assms by (induction ps arbitrary: a) (auto simp: money_re_cents add.assoc)

definition catalog_priced :: "RevalidationCatalog \<Rightarrow> bool" where
  "catalog_priced c \<longleftrightarrow> money_re (cat_price c)
     \<and> (\<forall>g \<in> set (addonGroups c). \<forall>opt \<in> set (ag_options g). money_re (priceDelta opt))"

lemma chosen_priced:
  "catalog_priced c \<Longrightarrow> opt \<in> set (chosen_options ids (addonGroups c)) \<Longrightarrow> money_re (co_priceDelta opt)"
  by (auto simp: catalog_priced_def chosen_options_def group_selected_def)

section \<open>What a revalidation accepts\<close>

definition bounds_ok :: "string list \<Rightarrow> addon_group \<Rightarrow> bool" where
  "bounds_ok ids g \<longleftrightarrow> minSelected g \<le> int (length (group_selected ids g))
     \<and> int (length (group_selected ids g)) \<le> maxSelected g"

lemma bounds_violated:
  "(\<exists>g \<in> set gs. let n = int (length (group_selected ids g)) in n < minSelected g \<or> maxSelected g < n)
     \<longleftrightarrow> \<not> (\<forall>g \<in> set gs. bounds_ok ids g)"
  by (simp add: bounds_ok_def Let_def not_le)

lemma revalidateUnit_ok_iff:
  "revalidateUnit sel c = Inr r \<longleftrightarrow>
     (nonempty (sel_confirmedUnitPrice sel) \<longrightarrow> sel_confirmedUnitPrice sel = Some (cat_price c))
     \<and> set (sel_optionIds sel) \<subseteq> set (known_options (addonGroups c))
     \<and> (\<forall>g \<in> set (addonGroups c). bounds_ok (sel_optionIds sel) g)
     \<and> r = \<lparr>rv_itemType = Unit, rv_options = chosen_options (sel_optionIds sel) (addonGroups c),
            rv_unitPriceCents = nan_plus (moneyToCents (cat_price c))
              (foldl (\<lambda>acc opt. nan_plus acc (moneyToCents (co_priceDelta opt))) (Some 0)
                (chosen_options (sel_optionIds sel) (addonGroups c)))\<rparr>"
  unfolding revalidateUnit_def Let_def [of "sel_optionIds sel"] Let_def [of "addonGroups c"] bounds_violated
  by (auto simp: Let_def)

lemma unit_price_sum:
  assumes "catalog_priced c"
  shows "nan_plus (moneyToCents (cat_price c))
      (foldl (\<lambda>acc opt. nan_plus acc (moneyToCents (co_priceDelta opt))) (Some 0)
        (chosen_options ids (addonGroups c)))
    = Some (cents (cat_price c) + (\<Sum>opt\<leftarrow>chosen_options ids (addonGroups c). cents (co_priceDelta opt)))"
proof -
  have "money_re (cat_price c)"
    using assms by (simp add: catalog_priced_def)
  moreover have "foldl (\<lambda>acc opt. nan_plus acc (moneyToCents (co_priceDelta opt))) (Some 0)
      (chosen_options ids (addonGroups c))
    = Some (0 + (\<Sum>opt\<leftarrow>chosen_options ids (addonGroups c). cents (co_priceDelta opt)))"
    by (rule foldl_nan_plus) (rule chosen_priced [OF assms])
  ultimately show ?thesis by (simp add: money_re_cents)
qed

lemma chosen_ids:
  "co_optionId ` set (chosen_options ids gs) = set ids \<inter> set (known_options gs)"
  by (force simp: chosen_options_def group_selected_def known_options_def)

text \<open>
  C30. Revalidating a cart line for a unit item against a catalogue whose prices are money
  strings succeeds exactly when the resource is active, no weighed subtotal is sent, the
  price the client confirmed (if any) is the catalogue's, every chosen option exists and
  every add-on group's bounds hold; and then the unit price is the catalogue price plus the
  deltas of exactly the chosen options, computed from the catalogue alone, never from the
  client.
\<close>

theorem revalidate_unit_exact:
  assumes "catalog_priced c" and "cat_itemType c \<noteq> Some Weighted"
  shows "revalidateCartSelection sel c = Inr r \<longleftrightarrow>
    cat_status c = Active \<and> sel_calculatedSubtotal sel = None
    \<and> (nonempty (sel_confirmedUnitPrice sel) \<longrightarrow> sel_confirmedUnitPrice sel = Some (cat_price c))
    \<and> set (sel_optionIds sel) \<subseteq> set (known_options (addonGroups c))
    \<and> (\<forall>g \<in> set (addonGroups c). bounds_ok (sel_optionIds sel) g)
    \<and> rv_itemType r = Unit
    \<and> rv_options r = chosen_options (sel_optionIds sel) (addonGroups c)
    \<and> rv_unitPriceCents r = Some (cents (cat_price c)
          + (\<Sum>opt\<leftarrow>rv_options r. cents (co_priceDelta opt)))
    \<and> revalidated.more r = ()"
proof -
  have "(case cat_itemType c of None \<Rightarrow> Unit | Some t \<Rightarrow> t) = Unit"
    using assms(2) by (metis (full_types) ItemType.exhaust option.case(1,2) option.exhaust)
  then show ?thesis
    using assms(1)
    by (cases r) (auto simp: revalidateCartSelection_def revalidateUnit_ok_iff unit_price_sum)
qed

definition sample_catalog :: RevalidationCatalog where
  "sample_catalog = \<lparr>cat_status = Active, cat_itemType = None, cat_price = ''1000.00'', cat_currency = ''ARS'',
     addonGroups = [\<lparr>ag_id = ''g'', minSelected = 0, maxSelected = 1,
       ag_options = [\<lparr>ao_id = ''a'', ao_name = ''Queso'', priceDelta = ''50.50''\<rparr>,
                     \<lparr>ao_id = ''b'', ao_name = ''Huevo'', priceDelta = ''70.00''\<rparr>]\<rparr>]\<rparr>"

definition sample_selection :: CartSelection where
  "sample_selection = \<lparr>sel_kind = Item, sel_resourceId = ''r'', sel_quantity = 2, sel_optionIds = [''a''],
     sel_note = None, sel_confirmedUnitPrice = Some ''1000.00'', sel_calculatedSubtotal = None\<rparr>"

theorem revalidate_unit_exact_witness:
  "\<exists>r. revalidateCartSelection sample_selection sample_catalog = Inr r \<and> rv_unitPriceCents r = Some 105050"
proof -
  define opts where "opts = chosen_options [''a''] (addonGroups sample_catalog)"
  have sel: "sel_optionIds sample_selection = [''a'']" by (simp add: sample_selection_def)
  have opts: "opts = [\<lparr>co_groupId = ''g'', co_optionId = ''a'', co_name = ''Queso'', co_priceDelta = ''50.50''\<rparr>]"
    unfolding opts_def by code_simp
  have "money_re ''1000.00''" "money_re ''50.50''" "money_re ''70.00''" by code_simp+
  then have priced: "catalog_priced sample_catalog" by (simp add: catalog_priced_def sample_catalog_def)
  have unit: "cat_itemType sample_catalog \<noteq> Some Weighted" by (simp add: sample_catalog_def)
  have bounds: "\<forall>g \<in> set (addonGroups sample_catalog). bounds_ok (sel_optionIds sample_selection) g"
    "set (sel_optionIds sample_selection) \<subseteq> set (known_options (addonGroups sample_catalog))"
    by code_simp+
  have cents: "cents ''1000.00'' = 100000" "cents ''50.50'' = 5050" by code_simp+
  have simple: "cat_status sample_catalog = Active" "sel_calculatedSubtotal sample_selection = None"
    "sel_confirmedUnitPrice sample_selection = Some (cat_price sample_catalog)" "cat_price sample_catalog = ''1000.00''"
    by (simp_all add: sample_catalog_def sample_selection_def)
  have "revalidateCartSelection sample_selection sample_catalog = Inr
      \<lparr>rv_itemType = Unit, rv_options = opts, rv_unitPriceCents = Some 105050\<rparr>"
    using bounds cents simple opts sel
    by (subst revalidate_unit_exact [OF priced unit]) (simp add: opts_def)
  then show ?thesis by simp
qed

end
