(* ===== verification/DiscountRules.thy ===== *)
theory DiscountRules
  imports CartRules
begin

text \<open>
  \<open>src/features/discounts/domain/discount.rules.ts\<close>: eligibility of a coupon, the amount of a
  discount, and its distribution over the qualifying lines.

  \<^item> Dates are milliseconds (\<open>getTime()\<close>); optional fields are options; amounts are cents.
  \<^item> The two divisions run in doubles, rounded by \<open>fl\<close> as the source's expressions do.
  \<^item> \<open>calculateDiscountAmounts\<close> yields \<open>None\<close> when an eligible coupon's value is no number
    (every amount would be \<open>NaN\<close>).
  \<^item> The lemmas bound every amount, give the exact rounding error of a percentage, and say
    how far the line shares can drift from the discount.
\<close>

datatype IneligibilityReason =
  DISCOUNT_INACTIVE | DISCOUNT_SCHEDULED | DISCOUNT_EXPIRED | DISCOUNT_LIMIT_REACHED
| MIN_ORDER_NOT_MET | NO_QUALIFYING_ITEMS | COUPON_TENDER_MISMATCH

datatype Tender = Cash | Posnet | Mercadopago
datatype DiscountType = Percentage | FixedAmount
datatype DiscountScope = ScopeGlobal | ScopeCategory | ScopeItem
datatype ApplicableTender = TenderAll | TenderCash

record CartLineForDiscount =
  dl_id :: string
  dl_resourceId :: "string option"
  dl_categoryId :: "string option"
  dl_quantity :: int
  dl_unitPriceCents :: int
  dl_lineTotalCents :: int

record CouponRuleInput =
  cp_id :: "string option"
  cp_code :: string
  cp_discountType :: DiscountType
  cp_discountValue :: string
  cp_minOrderAmount :: string
  cp_maxRedemptions :: "int option"
  cp_redemptionsCount :: "int option"
  cp_startsAt :: "int option"
  cp_endsAt :: "int option"
  cp_scope :: DiscountScope
  cp_targetCategoryIds :: "string list"
  cp_targetItemIds :: "string list"
  cp_isActive :: bool
  cp_applicableTender :: "ApplicableTender option"

record LineDiscount =
  ld_lineId :: string
  ld_lineDiscountCents :: int
  ld_discountedLineTotalCents :: int

record DiscountCalculationResult =
  dr_isEligible :: bool
  dr_ineligibilityReason :: "IneligibilityReason option"
  dr_subtotal :: string
  dr_subtotalCents :: int
  dr_discountTotal :: string
  dr_discountTotalCents :: int
  dr_total :: string
  dr_totalCents :: int
  dr_applicableSubtotalCents :: int
  dr_qualifyingLineIds :: "string list"
  dr_lineDiscounts :: "LineDiscount list"

section \<open>Eligibility\<close>

text \<open>\<open>None\<close> is eligible, \<open>Some r\<close> ineligible with reason \<open>r\<close>.\<close>

definition evaluateCouponEligibility ::
  "CouponRuleInput \<Rightarrow> int \<Rightarrow> int \<Rightarrow> Tender option \<Rightarrow> IneligibilityReason option" where
  "evaluateCouponEligibility coupon applicableSubtotalCents now tender =
     (if cp_applicableTender coupon = Some TenderCash \<and> tender \<noteq> None \<and> tender \<noteq> Some Cash
      then Some COUPON_TENDER_MISMATCH
      else if \<not> cp_isActive coupon then Some DISCOUNT_INACTIVE
      else if (case cp_startsAt coupon of None \<Rightarrow> False | Some t \<Rightarrow> now < t) then Some DISCOUNT_SCHEDULED
      else if (case cp_endsAt coupon of None \<Rightarrow> False | Some t \<Rightarrow> t < now) then Some DISCOUNT_EXPIRED
      else if (case cp_maxRedemptions coupon of None \<Rightarrow> False
               | Some m \<Rightarrow> m \<le> (case cp_redemptionsCount coupon of None \<Rightarrow> 0 | Some n \<Rightarrow> n))
      then Some DISCOUNT_LIMIT_REACHED
      else if applicableSubtotalCents \<le> 0 then Some NO_QUALIFYING_ITEMS
      else
        let minOrderAmount = (if cp_minOrderAmount coupon = [] then ''0'' else cp_minOrderAmount coupon) in
        if (case moneyToCents minOrderAmount of None \<Rightarrow> False | Some m \<Rightarrow> applicableSubtotalCents < m)
        then Some MIN_ORDER_NOT_MET
        else None)"

section \<open>Distribution over the lines\<close>

definition line_share :: "int \<Rightarrow> int \<Rightarrow> int \<Rightarrow> int" where
  "line_share lineTotal applicable discountTotal =
     math_round (fl (fl (of_int lineTotal / of_int applicable) * of_int discountTotal))"

fun prorate_loop ::
  "int \<Rightarrow> int \<Rightarrow> int \<Rightarrow> CartLineForDiscount list \<Rightarrow> LineDiscount list" where
  "prorate_loop applicable discountTotal allocated [] = []"
| "prorate_loop applicable discountTotal allocated (line # rest) =
     (let isLast = (rest = []);
          shareCents = (if isLast then discountTotal - allocated
                        else line_share (dl_lineTotalCents line) applicable discountTotal);
          boundedShare = min (dl_lineTotalCents line) (max 0 shareCents)
      in \<lparr>ld_lineId = dl_id line, ld_lineDiscountCents = boundedShare,
          ld_discountedLineTotalCents = dl_lineTotalCents line - boundedShare\<rparr>
         # prorate_loop applicable discountTotal (allocated + boundedShare) rest)"

definition prorateLineDiscounts :: "CartLineForDiscount list \<Rightarrow> int \<Rightarrow> LineDiscount list" where
  "prorateLineDiscounts qualifyingLines discountTotalCents =
     (if qualifyingLines = [] \<or> discountTotalCents \<le> 0
      then map (\<lambda>l. \<lparr>ld_lineId = dl_id l, ld_lineDiscountCents = 0,
                     ld_discountedLineTotalCents = dl_lineTotalCents l\<rparr>) qualifyingLines
      else let applicableSubtotalCents = (\<Sum>l\<leftarrow>qualifyingLines. dl_lineTotalCents l) in
        if applicableSubtotalCents \<le> 0
        then map (\<lambda>l. \<lparr>ld_lineId = dl_id l, ld_lineDiscountCents = 0,
                       ld_discountedLineTotalCents = 0\<rparr>) qualifyingLines
        else prorate_loop applicableSubtotalCents discountTotalCents 0 qualifyingLines)"

section \<open>Amounts\<close>

definition line_qualifies :: "CouponRuleInput \<Rightarrow> CartLineForDiscount \<Rightarrow> bool" where
  "line_qualifies coupon line =
     (if dl_lineTotalCents line \<le> 0 then False
      else case cp_scope coupon of
        ScopeGlobal \<Rightarrow> True
      | ScopeCategory \<Rightarrow> nonempty (dl_categoryId line)
          \<and> the (dl_categoryId line) \<in> set (cp_targetCategoryIds coupon)
      | ScopeItem \<Rightarrow> nonempty (dl_resourceId line)
          \<and> the (dl_resourceId line) \<in> set (cp_targetItemIds coupon))"

definition raw_discount :: "CouponRuleInput \<Rightarrow> int \<Rightarrow> int option" where
  "raw_discount coupon applicable =
     (case cp_discountType coupon of
        Percentage \<Rightarrow> (case js_Decimal (cp_discountValue coupon) of
            None \<Rightarrow> None
          | Some pct \<Rightarrow> Some (math_round (fl (of_int applicable * fl (pct / 100)))))
      | FixedAmount \<Rightarrow> moneyToCents (cp_discountValue coupon))"

definition calculateDiscountAmounts ::
  "CartLineForDiscount list \<Rightarrow> CouponRuleInput \<Rightarrow> int \<Rightarrow> Tender option
     \<Rightarrow> DiscountCalculationResult option" where
  "calculateDiscountAmounts lines coupon now tender =
     (let subtotalCents = (\<Sum>l\<leftarrow>lines. dl_lineTotalCents l);
          qualifyingLines = filter (line_qualifies coupon) lines;
          applicableSubtotalCents = (\<Sum>l\<leftarrow>qualifyingLines. dl_lineTotalCents l)
      in case evaluateCouponEligibility coupon applicableSubtotalCents now tender of
        Some reason \<Rightarrow> Some
          \<lparr>dr_isEligible = False, dr_ineligibilityReason = Some reason,
           dr_subtotal = centsToMoney subtotalCents, dr_subtotalCents = subtotalCents,
           dr_discountTotal = ''0.00'', dr_discountTotalCents = 0,
           dr_total = centsToMoney subtotalCents, dr_totalCents = subtotalCents,
           dr_applicableSubtotalCents = applicableSubtotalCents, dr_qualifyingLineIds = [],
           dr_lineDiscounts = map (\<lambda>l. \<lparr>ld_lineId = dl_id l, ld_lineDiscountCents = 0,
             ld_discountedLineTotalCents = dl_lineTotalCents l\<rparr>) lines\<rparr>
      | None \<Rightarrow>
          (case raw_discount coupon applicableSubtotalCents of
             None \<Rightarrow> None
           | Some calculatedDiscountCents \<Rightarrow>
               let discountTotalCents = min applicableSubtotalCents (max 0 calculatedDiscountCents);
                   totalCents = max 0 (subtotalCents - discountTotalCents)
               in Some
                 \<lparr>dr_isEligible = True, dr_ineligibilityReason = None,
                  dr_subtotal = centsToMoney subtotalCents, dr_subtotalCents = subtotalCents,
                  dr_discountTotal = centsToMoney discountTotalCents,
                  dr_discountTotalCents = discountTotalCents,
                  dr_total = centsToMoney totalCents, dr_totalCents = totalCents,
                  dr_applicableSubtotalCents = applicableSubtotalCents,
                  dr_qualifyingLineIds = map dl_id qualifyingLines,
                  dr_lineDiscounts = prorateLineDiscounts qualifyingLines discountTotalCents\<rparr>))"

section \<open>Bounds of the distribution\<close>

abbreviation totals :: "CartLineForDiscount list \<Rightarrow> int" where
  "totals ls \<equiv> (\<Sum>l\<leftarrow>ls. dl_lineTotalCents l)"

abbreviation shares :: "LineDiscount list \<Rightarrow> int" where
  "shares ds \<equiv> (\<Sum>d\<leftarrow>ds. ld_lineDiscountCents d)"

definition lines_nonneg :: "CartLineForDiscount list \<Rightarrow> bool" where
  "lines_nonneg ls \<longleftrightarrow> (\<forall>l \<in> set ls. 0 \<le> dl_lineTotalCents l)"

lemma lines_nonneg_simps [simp]:
  "lines_nonneg []"
  "lines_nonneg (l # ls) \<longleftrightarrow> 0 \<le> dl_lineTotalCents l \<and> lines_nonneg ls"
  by (auto simp: lines_nonneg_def)

lemma totals_nonneg: "lines_nonneg ls \<Longrightarrow> 0 \<le> totals ls"
  by (induction ls) auto

lemma prorate_loop_ids: "map ld_lineId (prorate_loop a d al ls) = map dl_id ls"
  by (induction ls arbitrary: al) (auto simp: Let_def)

lemma prorate_loop_bounds:
  assumes "lines_nonneg ls"
  shows "list_all2 (\<lambda>l x. 0 \<le> ld_lineDiscountCents x \<and> ld_lineDiscountCents x \<le> dl_lineTotalCents l
    \<and> ld_discountedLineTotalCents x = dl_lineTotalCents l - ld_lineDiscountCents x)
    ls (prorate_loop a d al ls)"
  using assms by (induction ls arbitrary: al) (auto simp: Let_def)

lemma line_share_bounds:
  assumes "0 \<le> l" "l \<le> s" "0 < s" "0 \<le> d" "d \<le> s" "s \<le> 2 ^ 50"
  shows "0 \<le> line_share l s d" "line_share l s d \<le> l"
    "\<bar>of_int (line_share l s d) - of_int l * of_int d / of_int s\<bar> < (1::rat)"
proof -
  define e where "e = (of_int l * of_int d / of_int s :: rat)"
  show c: "\<bar>of_int (line_share l s d) - of_int l * of_int d / of_int s\<bar> < (1::rat)"
    unfolding line_share_def using assms by (intro dbl.share_close) auto
  have e0: "0 \<le> e" using assms by (simp add: e_def)
  have "e = of_int l * (of_int d / of_int s)" by (simp add: e_def)
  also have "\<dots> \<le> of_int l * 1"
    using assms by (intro mult_left_mono) auto
  finally have e1: "e \<le> of_int l" by simp
  have "(-1::rat) < of_int (line_share l s d)" "of_int (line_share l s d) < (of_int (l + 1) :: rat)"
    using c e0 e1 by (auto simp: e_def [symmetric] abs_less_iff)
  then have "(of_int (-1)::rat) < of_int (line_share l s d)" "line_share l s d < l + 1"
    by (auto simp only: of_int_less_iff of_int_minus of_int_1)
  then show "0 \<le> line_share l s d" "line_share l s d \<le> l"
    by (auto simp only: of_int_less_iff)
qed

text \<open>
  The loop keeps the amount already allocated within one cent per line of the exact
  proportional amount; the last line takes what is left, as far as its own total allows.
\<close>

lemma last_share_drift:
  fixes k :: rat
  assumes "0 < s" "0 \<le> d" "d \<le> s" "0 \<le> l"
    and "\<bar>of_int al - (1 - of_int l / of_int s) * of_int d\<bar> \<le> k"
  shows "\<bar>of_int (al + min l (max 0 (d - al))) - of_int d\<bar> \<le> k"
proof -
  define e where "e = (of_int l / of_int s * of_int d :: rat)"
  have e0: "0 \<le> e" using assms by (simp add: e_def)
  have "e = of_int l * (of_int d / of_int s)" by (simp add: e_def)
  also have "\<dots> \<le> of_int l * 1"
    using assms by (intro mult_left_mono) auto
  finally have e1: "e \<le> of_int l" by simp
  have a: "\<bar>of_int al - (of_int d - e)\<bar> \<le> k"
    using assms(5) by (simp add: e_def left_diff_distrib)
  consider "d - al < 0" | "0 \<le> d - al" "d - al \<le> l" | "l < d - al" by linarith
  then show ?thesis
  proof cases
    case 1
    then have "(of_int d :: rat) < of_int al" by simp
    with 1 a e0 assms(4) show ?thesis by (auto simp: abs_le_iff)
  next
    case 2
    then show ?thesis using a by auto
  next
    case 3
    then have "(of_int al + of_int l :: rat) < of_int d" by (simp flip: of_int_add)
    with 3 a e1 assms(4) show ?thesis by (auto simp: abs_le_iff)
  qed
qed

lemma prorate_loop_drift:
  fixes k :: rat
  assumes "lines_nonneg ls" "ls \<noteq> []" "0 < s" "0 \<le> d" "d \<le> s" "s \<le> 2 ^ 50" "totals ls \<le> s"
    and "\<bar>of_int al - (1 - of_int (totals ls) / of_int s) * of_int d\<bar> \<le> k"
  shows "\<bar>of_int (al + shares (prorate_loop s d al ls)) - of_int d\<bar> \<le> k + of_nat (length ls - 1)
    \<and> (1 < length ls \<longrightarrow>
        \<bar>of_int (al + shares (prorate_loop s d al ls)) - of_int d\<bar> < k + of_nat (length ls - 1))"
  using assms(1,2,7,8)
proof (induction ls arbitrary: al k)
  case Nil
  then show ?case by simp
next
  case (Cons line rest)
  define l where "l = dl_lineTotalCents line"
  show ?case
  proof (cases "rest = []")
    case True
    then show ?thesis
      using last_share_drift [of s d l al k] assms(3-5) Cons.prems by (simp add: l_def Let_def)
  next
    case False
    define b where "b = min l (max 0 (line_share l s d))"
    have nn: "0 \<le> l" "lines_nonneg rest" using Cons.prems by (auto simp: l_def)
    have le: "l + totals rest \<le> s" using Cons.prems by (simp add: l_def)
    have ls: "l \<le> s" using le totals_nonneg [OF nn(2)] by linarith
    have sh: "0 \<le> line_share l s d" "line_share l s d \<le> l"
      and c: "\<bar>of_int (line_share l s d) - of_int l * of_int d / of_int s\<bar> < (1::rat)"
      using line_share_bounds [OF nn(1) ls assms(3-6)] by auto
    have b: "b = line_share l s d" using sh by (simp add: b_def)
    define k' where "k' = \<bar>of_int (al + b) - (1 - of_int (totals rest) / of_int s) * of_int d :: rat\<bar>"
    have split: "(1 - of_int (totals rest) / of_int s) * of_int d
        = (1 - of_int (l + totals rest) / of_int s) * of_int d + of_int l * of_int d / (of_int s :: rat)"
      using assms(3) by (simp add: field_simps)
    have "\<bar>of_int al - (1 - of_int (l + totals rest) / of_int s) * of_int d\<bar> \<le> k"
      using Cons.prems(4) by (simp add: l_def)
    then have k': "k' < k + 1" using c unfolding k'_def split b by (simp add: abs_le_iff abs_less_iff)
    have "\<bar>of_int (al + b + shares (prorate_loop s d (al + b) rest)) - of_int d\<bar>
        \<le> k' + of_nat (length rest - 1)"
      using Cons.IH [OF nn(2) False, of "al + b" k'] le nn(1) by (simp add: k'_def)
    also have "\<dots> < k + of_nat (length (line # rest) - 1)"
      using k' False by (cases rest) auto
    finally show ?thesis
      using False by (simp add: Let_def b_def l_def add.assoc)
  qed
qed

lemma qualifying_nonneg: "lines_nonneg (filter (line_qualifies coupon) ls)"
  by (auto simp: lines_nonneg_def line_qualifies_def split: if_splits)

lemma qualifying_total_le: "lines_nonneg ls \<Longrightarrow> totals (filter P ls) \<le> totals ls"
  by (induction ls) auto

lemma eligible_total_pos:
  "evaluateCouponEligibility coupon a now tender = None \<Longrightarrow> 0 < a"
  by (auto simp: evaluateCouponEligibility_def Let_def split: if_splits)

lemma prorate_zero: "d \<le> 0 \<Longrightarrow> shares (prorateLineDiscounts ls d) = 0"
  by (induction ls) (auto simp: prorateLineDiscounts_def)

lemma prorate_within:
  assumes "lines_nonneg ls" "ls \<noteq> []" "0 < d" "d \<le> totals ls" "totals ls \<le> 2 ^ 50"
  shows "\<bar>shares (prorate_loop (totals ls) d 0 ls) - d\<bar> \<le> max 0 (int (length ls) - 2)"
proof -
  define x where "x = shares (prorate_loop (totals ls) d 0 ls) - d"
  have "\<bar>of_int x\<bar> \<le> (of_nat (length ls - 1) :: rat) \<and> (1 < length ls \<longrightarrow> \<bar>of_int x\<bar> < (of_nat (length ls - 1) :: rat))"
    using prorate_loop_drift [OF assms(1,2) _ _ assms(4,5), of 0 0] assms(3,4) by (simp add: x_def)
  then have "\<bar>x\<bar> \<le> int (length ls - 1)" "1 < length ls \<Longrightarrow> \<bar>x\<bar> < int (length ls - 1)"
    by (metis of_int_abs of_int_le_iff of_int_of_nat_eq, metis of_int_abs of_int_less_iff of_int_of_nat_eq)
  then show ?thesis
    unfolding x_def [symmetric] using assms(2) by (cases "1 < length ls") (auto simp: Suc_le_eq)
qed

text \<open>
  C35. Distributing a discount of \<open>d\<close> cents over the qualifying lines gives every line a share
  between nothing and its own total, in the order of the lines, and the shares add up to the
  discount exactly for one or two lines and to within \<open>n - 2\<close> cents for \<open>n\<close> lines, whatever
  the double roundings of the proportions do.
\<close>

theorem prorate_bounds:
  assumes "lines_nonneg ls" and "ls \<noteq> []" and "0 \<le> d" and "d \<le> totals ls" and "totals ls \<le> 2 ^ 50"
  shows "map ld_lineId (prorateLineDiscounts ls d) = map dl_id ls
    \<and> list_all2 (\<lambda>l x. 0 \<le> ld_lineDiscountCents x \<and> ld_lineDiscountCents x \<le> dl_lineTotalCents l
        \<and> ld_discountedLineTotalCents x = dl_lineTotalCents l - ld_lineDiscountCents x)
        ls (prorateLineDiscounts ls d)
    \<and> \<bar>shares (prorateLineDiscounts ls d) - d\<bar> \<le> max 0 (int (length ls) - 2)"
proof (cases "d = 0")
  case True
  then show ?thesis
    using assms(1) by (auto simp: prorateLineDiscounts_def prorate_zero o_def lines_nonneg_def list_all2_map2
        intro!: list_all2_refl list.rel_refl_strong)
next
  case False
  then have p: "prorateLineDiscounts ls d = prorate_loop (totals ls) d 0 ls" "0 < d"
    using assms by (auto simp: prorateLineDiscounts_def)
  show ?thesis
    using prorate_loop_bounds [OF assms(1)] prorate_within [OF assms(1,2) p(2) assms(4,5)]
    by (simp add: p(1) prorate_loop_ids)
qed

definition dline :: "string \<Rightarrow> int \<Rightarrow> CartLineForDiscount" where
  "dline i t = \<lparr>dl_id = i, dl_resourceId = None, dl_categoryId = None, dl_quantity = 1,
     dl_unitPriceCents = t, dl_lineTotalCents = t\<rparr>"

theorem prorate_bounds_witness:
  "\<bar>shares (prorateLineDiscounts [dline ''a'' 100, dline ''b'' 250, dline ''c'' 33] 99) - 99\<bar> \<le> max 0 (int 3 - 2)"
  using prorate_bounds [of "[dline ''a'' 100, dline ''b'' 250, dline ''c'' 33]" 99]
  by (simp add: dline_def)

text \<open>
  The allocation of the remainder to the last line does not prevent penny drift in
  general: a discount of two cents over four equal lines is handed out as three cents.
\<close>

theorem prorate_not_exact:
  "shares (prorateLineDiscounts [dline ''a'' 100, dline ''b'' 100, dline ''c'' 100, dline ''d'' 100] 2) = 3"
  by code_simp

lemma discount_amounts:
  assumes "lines_nonneg lines" and "calculateDiscountAmounts lines coupon now tender = Some r"
  shows "dr_subtotalCents r = totals lines
    \<and> 0 \<le> dr_discountTotalCents r
    \<and> dr_discountTotalCents r \<le> dr_applicableSubtotalCents r
    \<and> dr_applicableSubtotalCents r \<le> dr_subtotalCents r
    \<and> dr_totalCents r = dr_subtotalCents r - dr_discountTotalCents r
    \<and> moneyToCents (dr_subtotal r) = Some (dr_subtotalCents r)
    \<and> moneyToCents (dr_discountTotal r) = Some (dr_discountTotalCents r)
    \<and> moneyToCents (dr_total r) = Some (dr_totalCents r)
    \<and> (dr_isEligible r \<longleftrightarrow> dr_ineligibilityReason r = None)
    \<and> (\<not> dr_isEligible r \<longrightarrow> dr_discountTotalCents r = 0)"
proof -
  define a where "a = totals (filter (line_qualifies coupon) lines)"
  have a: "0 \<le> a" "a \<le> totals lines" "0 \<le> totals lines"
    using qualifying_total_le [OF assms(1)] totals_nonneg [OF qualifying_nonneg [of coupon lines]]
      totals_nonneg [OF assms(1)] by (auto simp: a_def)
  have z: "moneyToCents ''0.00'' = Some 0" by code_simp
  show ?thesis
  proof (cases "evaluateCouponEligibility coupon a now tender")
    case (Some reason)
    then show ?thesis
      using assms(2) a z
      by (auto simp: calculateDiscountAmounts_def Let_def a_def [symmetric] moneyToCents_centsToMoney)
  next
    case None
    then obtain c where "raw_discount coupon a = Some c"
      using assms(2) by (auto simp: calculateDiscountAmounts_def Let_def a_def [symmetric] split: option.splits)
    with None show ?thesis
      using assms(2) a
      by (auto simp: calculateDiscountAmounts_def Let_def a_def [symmetric] moneyToCents_centsToMoney min_def)
  qed
qed

text \<open>
  C34. Whatever the coupon, the amounts of a cart whose lines cost at least nothing are
  consistent: the discount is between zero and the qualifying subtotal, that between zero and
  the subtotal; the total is the subtotal less the discount and so never negative; the money
  strings read back as these cents; and an ineligible coupon leaves the price alone.
\<close>

theorem discount_amounts_consistent:
  assumes "lines_nonneg lines" and "calculateDiscountAmounts lines coupon now tender = Some r"
  shows "dr_subtotalCents r = totals lines
    \<and> 0 \<le> dr_discountTotalCents r
    \<and> dr_discountTotalCents r \<le> dr_applicableSubtotalCents r
    \<and> dr_applicableSubtotalCents r \<le> dr_subtotalCents r
    \<and> dr_totalCents r = dr_subtotalCents r - dr_discountTotalCents r
    \<and> moneyToCents (dr_subtotal r) = Some (dr_subtotalCents r)
    \<and> moneyToCents (dr_discountTotal r) = Some (dr_discountTotalCents r)
    \<and> moneyToCents (dr_total r) = Some (dr_totalCents r)
    \<and> (dr_isEligible r \<longleftrightarrow> dr_ineligibilityReason r = None)
    \<and> (\<not> dr_isEligible r \<longrightarrow> dr_discountTotalCents r = 0)"
  using discount_amounts [OF assms] .

definition sample_coupon :: CouponRuleInput where
  "sample_coupon = \<lparr>cp_id = None, cp_code = ''PROMO'', cp_discountType = Percentage,
     cp_discountValue = ''12.50'', cp_minOrderAmount = ''1.00'', cp_maxRedemptions = None,
     cp_redemptionsCount = None, cp_startsAt = None, cp_endsAt = None, cp_scope = ScopeGlobal,
     cp_targetCategoryIds = [], cp_targetItemIds = [], cp_isActive = True,
     cp_applicableTender = None\<rparr>"

definition sample_lines :: "CartLineForDiscount list" where
  "sample_lines = [dline ''a'' 1999, dline ''b'' 250]"

lemma sample_eval:
  "filter (line_qualifies sample_coupon) sample_lines = sample_lines"
  "totals sample_lines = 2249"
  by (simp_all add: sample_lines_def sample_coupon_def dline_def line_qualifies_def)

lemma sample_eligible: "evaluateCouponEligibility sample_coupon 2249 0 None = None"
proof -
  have "moneyToCents ''1.00'' = Some 100" by code_simp
  then show ?thesis by (simp add: evaluateCouponEligibility_def sample_coupon_def)
qed

lemma sample_raw: "raw_discount sample_coupon 2249 = Some 281"
proof -
  have "dec_rat ''12.50'' = Some (25 / 2)" "fl (25 / 2) = 25 / 2" by code_simp+
  then have "js_Decimal ''12.50'' = Some (25 / 2)" by (simp add: js_Decimal_def)
  moreover have "math_round (fl (of_int 2249 * fl (25 / 2 / 100))) = 281" by code_simp
  ultimately show ?thesis by (simp add: raw_discount_def sample_coupon_def)
qed

lemma sample_amounts:
  "\<exists>r. calculateDiscountAmounts sample_lines sample_coupon 0 None = Some r
     \<and> dr_isEligible r \<and> dr_applicableSubtotalCents r = 2249"
  by (simp add: calculateDiscountAmounts_def Let_def sample_eval sample_eligible sample_raw)

theorem discount_amounts_consistent_witness:
  "\<exists>r. calculateDiscountAmounts sample_lines sample_coupon 0 None = Some r
     \<and> dr_totalCents r = dr_subtotalCents r - dr_discountTotalCents r"
proof -
  obtain r where r: "calculateDiscountAmounts sample_lines sample_coupon 0 None = Some r"
    using sample_amounts by auto
  have "lines_nonneg sample_lines"
    by (simp add: sample_lines_def dline_def)
  then show ?thesis
    using discount_amounts_consistent [OF _ r] r by auto
qed

section \<open>Accuracy of percentages\<close>

lemma dec_val_minus: "dec_val a (CHR ''-'' # s) = None"
  by (simp add: is_digit_def)

lemma dec_rat_no_minus: "dec_rat (CHR ''-'' # s) = None"
proof (cases "js_split (CHR ''.'') s")
  case Nil
  then show ?thesis using js_split_nonempty by blast
next
  case (Cons q qs)
  then have "js_split (CHR ''.'') (CHR ''-'' # s) = (CHR ''-'' # q) # qs" by simp
  then show ?thesis
    by (auto simp: dec_rat_def is_digit_def split: list.splits)
qed

lemma js_Decimal_dec_rat:
  assumes "dec_rat s = Some q"
  shows "js_Decimal s = Some (fl q)"
proof (cases s)
  case Nil
  then show ?thesis using assms by (simp add: dec_rat_def)
next
  case (Cons c cs)
  then show ?thesis using assms dec_rat_no_minus by (auto simp: js_Decimal_def)
qed

lemma clamp_close:
  fixes x :: rat
  assumes "\<bar>of_int c - x\<bar> < 1" "0 \<le> x" "x \<le> of_int a"
  shows "\<bar>of_int (min a (max 0 c)) - x\<bar> < 1"
proof (cases "c < 0")
  case True
  moreover have "(-1::rat) < of_int c" using assms by (simp add: abs_less_iff)
  then have "-1 < c" by linarith
  ultimately show ?thesis by simp
next
  case False
  moreover have "of_int c < (of_int (a + 1) :: rat)" using assms by (simp add: abs_less_iff)
  then have "c \<le> a" by linarith
  ultimately show ?thesis using assms by simp
qed

text \<open>
  An eligible percentage coupon takes off the exact percentage of the qualifying subtotal
  up to less than one cent, for subtotals up to \<open>2^49\<close> cents, although the code computes it
  with three double roundings; and a coupon of 100 takes off everything.
\<close>

theorem percentage_accurate:
  assumes "calculateDiscountAmounts lines coupon now tender = Some r" and "dr_isEligible r"
    and "cp_discountType coupon = Percentage" and "dec_rat (cp_discountValue coupon) = Some p"
    and "p \<le> 100" and "0 \<le> p" and "dr_applicableSubtotalCents r \<le> 2 ^ 49"
  shows "\<bar>of_int (dr_discountTotalCents r) - of_int (dr_applicableSubtotalCents r) * p / 100\<bar> < (1::rat)
    \<and> (p = 100 \<longrightarrow> dr_discountTotalCents r = dr_applicableSubtotalCents r)"
proof -
  define a where "a = totals (filter (line_qualifies coupon) lines)"
  define c where "c = math_round (fl (of_int a * fl (fl p / 100)))"
  have el: "evaluateCouponEligibility coupon a now tender = None"
    using assms(1,2) by (auto simp: calculateDiscountAmounts_def Let_def a_def split: option.splits)
  have raw: "raw_discount coupon a = Some c"
    using assms(3,4) by (simp add: raw_discount_def js_Decimal_dec_rat c_def)
  have r: "dr_applicableSubtotalCents r = a" "dr_discountTotalCents r = min a (max 0 c)"
    using assms(1) el raw by (auto simp: calculateDiscountAmounts_def Let_def a_def [symmetric])
  have a: "0 \<le> a" "a \<le> 2 ^ 49"
    using eligible_total_pos [OF el] assms(7) by (auto simp: r)
  have c: "\<bar>of_int c - of_int a * p / 100\<bar> < (1::rat)"
    unfolding c_def by (rule dbl.percentage_close [OF a assms(6,5)])
  have "of_int a * p / 100 \<le> of_int a * (100 / 100)"
    using a assms(5) by (simp add: mult_left_mono)
  then have d: "\<bar>of_int (min a (max 0 c)) - of_int a * p / 100\<bar> < (1::rat)"
    using c a assms(6) by (intro clamp_close) auto
  moreover have "min a (max 0 c) = a" if "p = 100"
  proof -
    have "\<bar>of_int (min a (max 0 c) - a)\<bar> < (1::rat)" using d that by simp
    then have "\<bar>min a (max 0 c) - a\<bar> < 1" by (metis of_int_1 of_int_abs of_int_less_iff)
    then show ?thesis by simp
  qed
  ultimately show ?thesis by (simp add: r)
qed

theorem percentage_accurate_witness:
  "\<exists>r. calculateDiscountAmounts sample_lines sample_coupon 0 None = Some r
     \<and> \<bar>of_int (dr_discountTotalCents r) - of_int (dr_applicableSubtotalCents r) * (25 / 2) / 100\<bar> < (1::rat)"
proof -
  obtain r where r: "calculateDiscountAmounts sample_lines sample_coupon 0 None = Some r"
    "dr_isEligible r" "dr_applicableSubtotalCents r = 2249"
    using sample_amounts by auto
  have "cp_discountType sample_coupon = Percentage" by (simp add: sample_coupon_def)
  moreover have "dec_rat (cp_discountValue sample_coupon) = Some (25 / 2)" by code_simp
  ultimately show ?thesis
    using percentage_accurate [OF r(1,2), of "25 / 2"] r(1,3) by auto
qed

end
