(* ===== verification/OrderRules.thy ===== *)
theory OrderRules
  imports JsNumber
begin

text \<open>
  The order state machine, \<open>src/features/orders/domain/order.rules.ts\<close>, and the board the
  kitchen works from, \<open>src/features/orders/web/order-workflow.ts\<close>.

  \<^item> \<open>assertFulfillmentTransition\<close> is the guard of every status change; \<open>ftrans\<close> is the step
    relation of the changes it lets through.
  \<^item> The lemmas rank the states: a status never comes back, a delivered order is final except
    that a manual one may still be cancelled, and a cancelled one is final.
  \<^item> \<open>aggregateKitchenProducts\<close> groups the lines of the orders in the kitchen; \<open>lc\<close> stands for
    \<open>toLocaleLowerCase("es-AR")\<close> and \<open>le\<close> for \<open>localeCompare(.., "es-AR") <= 0\<close>.
\<close>

datatype FulfillmentStatus = Approved | Preparing | Ready | Delivered | Cancelled
datatype PaymentStatus = Pending | Paid | PayFailed | Refunded | VerificationRequired
datatype OrderSource = MercadopagoWebhook | AdminDirect | StorefrontCash

datatype OrderTransitionError = CannotTransition FulfillmentStatus FulfillmentStatus

section \<open>Transitions\<close>

fun allowedTransitions :: "FulfillmentStatus \<Rightarrow> FulfillmentStatus list" where
  "allowedTransitions Approved = [Ready, Preparing, Cancelled]"
| "allowedTransitions Preparing = [Ready, Cancelled]"
| "allowedTransitions Ready = [Delivered]"
| "allowedTransitions Delivered = []"
| "allowedTransitions Cancelled = []"

definition isTerminalFulfillmentStatus :: "FulfillmentStatus \<Rightarrow> bool" where
  "isTerminalFulfillmentStatus status \<longleftrightarrow> status = Delivered \<or> status = Cancelled"

definition assertFulfillmentTransition ::
  "FulfillmentStatus \<Rightarrow> FulfillmentStatus \<Rightarrow> OrderSource option \<Rightarrow> OrderTransitionError + unit" where
  "assertFulfillmentTransition current next' source =
     (if current = next' then Inr ()
      else if source = Some AdminDirect \<and> next' = Cancelled \<and> current \<noteq> Cancelled then Inr ()
      else if next' \<notin> set (allowedTransitions current) then Inl (CannotTransition current next')
      else Inr ())"

definition visibleOrderStatuses :: "FulfillmentStatus list" where
  "visibleOrderStatuses = [Approved, Preparing, Ready, Delivered, Cancelled]"

definition validPaymentStatuses :: "PaymentStatus list" where
  "validPaymentStatuses = [Pending, Paid, PayFailed, Refunded, VerificationRequired]"

definition may_change :: "OrderSource option \<Rightarrow> FulfillmentStatus \<Rightarrow> FulfillmentStatus \<Rightarrow> bool" where
  "may_change src s s' \<longleftrightarrow> s \<noteq> s' \<and> assertFulfillmentTransition s s' src = Inr ()"

text \<open>A run of changes of an order of one source: the list of the states it goes through.\<close>

inductive frun :: "OrderSource option \<Rightarrow> FulfillmentStatus \<Rightarrow> FulfillmentStatus list \<Rightarrow> bool" for src where
  frun_done: "frun src s []"
| frun_step: "may_change src s s' \<Longrightarrow> frun src s' ss \<Longrightarrow> frun src s (s' # ss)"

code_pred frun .

inductive_cases frun_NilE [elim!]: "frun src s []"
inductive_cases frun_ConsE [elim!]: "frun src s (s' # ss)"
inductive_simps frun_simps [simp]: "frun src s []" "frun src s (s' # ss)"

fun rank :: "FulfillmentStatus \<Rightarrow> nat" where
  "rank Approved = 0" | "rank Preparing = 1" | "rank Ready = 2" | "rank Delivered = 3" | "rank Cancelled = 4"

lemma may_change_iff:
  "may_change src s s' \<longleftrightarrow>
     s' \<in> set (allowedTransitions s) \<or> src = Some AdminDirect \<and> s' = Cancelled \<and> s \<noteq> Cancelled"
  by (cases s; cases s') (auto simp: may_change_def assertFulfillmentTransition_def)

lemma may_change_rank: "may_change src s s' \<Longrightarrow> rank s < rank s'"
  by (cases s; cases s') (auto simp: may_change_iff)

lemma frun_rank: "frun src s ss \<Longrightarrow> s' \<in> set ss \<Longrightarrow> rank s < rank s'"
  by (induction rule: frun.induct) (auto dest: may_change_rank less_trans)

lemma frun_length: "frun src s ss \<Longrightarrow> length ss \<le> rank Cancelled - rank s"
proof (induction rule: frun.induct)
  case (frun_step s s' ss)
  moreover have "rank s' \<le> rank Cancelled" by (cases s') auto
  ultimately show ?case using may_change_rank [of src s s'] by simp
qed simp

text \<open>
  C37. An order that changes its status never takes a status it had before, changes at most
  four times, and three times if it is not a manual order; from \<open>delivered\<close> only a manual
  order moves, and only to \<open>cancelled\<close>; from \<open>cancelled\<close> none does.
\<close>

theorem fulfillment_runs:
  assumes "frun src s ss"
  shows "distinct (s # ss)
    \<and> length ss \<le> 4
    \<and> (src \<noteq> Some AdminDirect \<longrightarrow> length ss \<le> 3)
    \<and> (s = Delivered \<longrightarrow> ss = [] \<or> src = Some AdminDirect \<and> ss = [Cancelled])
    \<and> (s = Cancelled \<longrightarrow> ss = [])"
proof (intro conjI impI)
  show "distinct (s # ss)"
    using assms
  proof (induction rule: frun.induct)
    case (frun_step s s' ss)
    then have "frun src s (s' # ss)" by simp
    then have "s \<notin> set (s' # ss)" using frun_rank less_irrefl by metis
    with frun_step.IH show ?case by simp
  qed simp
  show "length ss \<le> 4" using frun_length [OF assms] by simp
  have c: "ss = []" if "frun src Cancelled ss" for ss
    using frun_length [OF that] by simp
  then show "ss = []" if "s = Cancelled" using assms that by blast
  show "ss = [] \<or> src = Some AdminDirect \<and> ss = [Cancelled]" if "s = Delivered"
    using assms that c by (cases ss) (auto simp: may_change_iff)
  show "length ss \<le> 3" if "src \<noteq> Some AdminDirect"
    using assms that c
    by (cases s; cases ss; cases "tl ss"; cases "tl (tl ss)"; cases "tl (tl (tl ss))")
      (auto simp: may_change_iff)
qed

theorem fulfillment_runs_witness:
  "frun (Some StorefrontCash) Approved [Preparing, Ready, Delivered]
   \<and> frun (Some AdminDirect) Approved [Preparing, Ready, Delivered, Cancelled]
   \<and> \<not> frun (Some StorefrontCash) Approved [Preparing, Ready, Delivered, Cancelled]
   \<and> \<not> frun (Some AdminDirect) Approved [Preparing, Approved]"
  using fulfillment_runs [of "Some StorefrontCash" Approved "[Preparing, Ready, Delivered, Cancelled]"]
    fulfillment_runs [of "Some AdminDirect" Approved "[Preparing, Approved]"]
  by (auto simp: may_change_iff)

section \<open>The kitchen board\<close>

datatype OrderStage = StagePayment | StageKitchen | StageDelivery | StageFinished

record dashboard_option =
  do_name :: string
  do_quantity :: "int option"

record dashboard_line =
  dbl_name :: string
  dbl_quantity :: int
  dbl_note :: "string option"
  dbl_options :: "dashboard_option list"

record AdminDashboardOrder =
  ad_id :: string
  ad_purchaseNumber :: string
  ad_status :: FulfillmentStatus
  ad_paymentStatus :: "PaymentStatus option"
  ad_lines :: "dashboard_line list"

definition orderStage :: "AdminDashboardOrder \<Rightarrow> OrderStage" where
  "orderStage order =
     (if ad_status order = Delivered \<or> ad_status order = Cancelled then StageFinished
      else if ad_paymentStatus order \<noteq> Some Paid then StagePayment
      else if ad_status order = Ready then StageDelivery else StageKitchen)"

definition nextOrderStatus :: "AdminDashboardOrder \<Rightarrow> FulfillmentStatus option" where
  "nextOrderStatus order =
     (let stage = orderStage order in
      if stage = StageKitchen then Some Ready
      else if stage = StageDelivery then Some Delivered
      else None)"

record kitchen_entry =
  ke_key :: string
  ke_name :: string
  ke_totalQuantity :: int
  ke_orderIds :: "string list"
  ke_options :: "(string \<times> string \<times> int) list"
  ke_notes :: "string list"

record KitchenProductSummary =
  kp_key :: string
  kp_name :: string
  kp_totalQuantity :: int
  kp_orderCount :: nat
  kp_options :: "(string \<times> int) list"
  kp_notes :: "string list"

text \<open>One turn of the inner loop over a line's options: the map \<open>entry.options\<close> in insertion order.\<close>

fun add_option :: "string \<Rightarrow> string \<Rightarrow> int \<Rightarrow> (string \<times> string \<times> int) list \<Rightarrow> (string \<times> string \<times> int) list" where
  "add_option k nm q [] = [(k, nm, q)]"
| "add_option k nm q ((k', nm', q') # os) =
     (if k' = k then (k', nm', q' + q) # os else (k', nm', q') # add_option k nm q os)"

definition line_options ::
  "(string \<Rightarrow> string) \<Rightarrow> dashboard_line \<Rightarrow> (string \<times> string \<times> int) list \<Rightarrow> (string \<times> string \<times> int) list" where
  "line_options lc line opts = foldl (\<lambda>acc opt.
     let optName = js_trim (do_name opt) in
     if optName = [] then acc
     else add_option (lc optName) optName
       (dbl_quantity line * max 1 (case do_quantity opt of None \<Rightarrow> 1 | Some q \<Rightarrow> q)) acc)
     opts (dbl_options line)"

definition add_line ::
  "(string \<Rightarrow> string) \<Rightarrow> AdminDashboardOrder \<Rightarrow> dashboard_line \<Rightarrow> kitchen_entry \<Rightarrow> kitchen_entry" where
  "add_line lc order line e = e\<lparr>
     ke_totalQuantity := ke_totalQuantity e + dbl_quantity line,
     ke_orderIds := (if ad_id order \<in> set (ke_orderIds e) then ke_orderIds e else ke_orderIds e @ [ad_id order]),
     ke_notes := (case dbl_note line of
         None \<Rightarrow> ke_notes e
       | Some n \<Rightarrow> if js_trim n = [] then ke_notes e
                   else ke_notes e @ [''#'' @ ad_purchaseNumber order @ '': '' @ js_trim n]),
     ke_options := line_options lc line (ke_options e)\<rparr>"

fun upsert_entry ::
  "(string \<Rightarrow> string) \<Rightarrow> AdminDashboardOrder \<Rightarrow> dashboard_line \<Rightarrow> string \<Rightarrow> string
     \<Rightarrow> kitchen_entry list \<Rightarrow> kitchen_entry list" where
  "upsert_entry lc order line key nm [] =
     [add_line lc order line \<lparr>ke_key = key, ke_name = nm, ke_totalQuantity = 0,
        ke_orderIds = [], ke_options = [], ke_notes = []\<rparr>]"
| "upsert_entry lc order line key nm (e # es) =
     (if ke_key e = key then add_line lc order line e # es
      else e # upsert_entry lc order line key nm es)"

definition kitchen_line ::
  "(string \<Rightarrow> string) \<Rightarrow> AdminDashboardOrder \<Rightarrow> kitchen_entry list \<Rightarrow> dashboard_line \<Rightarrow> kitchen_entry list" where
  "kitchen_line lc order es line =
     (let trimmedName = js_trim (dbl_name line) in
      if trimmedName = [] \<or> dbl_quantity line \<le> 0 then es
      else upsert_entry lc order line (lc trimmedName) trimmedName es)"

definition kitchen_order ::
  "(string \<Rightarrow> string) \<Rightarrow> kitchen_entry list \<Rightarrow> AdminDashboardOrder \<Rightarrow> kitchen_entry list" where
  "kitchen_order lc es order =
     (if orderStage order \<noteq> StageKitchen then es
      else foldl (kitchen_line lc order) es (ad_lines order))"

definition entry_options ::
  "(string \<Rightarrow> string \<Rightarrow> bool) \<Rightarrow> kitchen_entry \<Rightarrow> (string \<times> int) list" where
  "entry_options le e = sort_by (\<lambda>a b. snd a > snd b \<or> snd a = snd b \<and> le (fst a) (fst b)) (map snd (ke_options e))"

definition aggregateKitchenProducts ::
  "(string \<Rightarrow> string) \<Rightarrow> (string \<Rightarrow> string \<Rightarrow> bool) \<Rightarrow> AdminDashboardOrder list \<Rightarrow> KitchenProductSummary list" where
  "aggregateKitchenProducts lc le orders =
     sort_by (\<lambda>a b. kp_totalQuantity a > kp_totalQuantity b
         \<or> kp_totalQuantity a = kp_totalQuantity b \<and> le (kp_name a) (kp_name b))
       (map (\<lambda>e. \<lparr>kp_key = ke_key e, kp_name = ke_name e, kp_totalQuantity = ke_totalQuantity e,
                  kp_orderCount = length (ke_orderIds e), kp_options = entry_options le e,
                  kp_notes = ke_notes e\<rparr>)
         (foldl (kitchen_order lc) [] orders))"

text \<open>What the board should show: the quantities of the lines the kitchen has to make.\<close>

definition kitchen_lines :: "AdminDashboardOrder list \<Rightarrow> dashboard_line list" where
  "kitchen_lines orders = filter (\<lambda>l. js_trim (dbl_name l) \<noteq> [] \<and> 0 < dbl_quantity l)
     (concat (map ad_lines (filter (\<lambda>ord. orderStage ord = StageKitchen) orders)))"

abbreviation ke_sum :: "kitchen_entry list \<Rightarrow> int" where
  "ke_sum es \<equiv> (\<Sum>e\<leftarrow>es. ke_totalQuantity e)"

definition board_ok :: "kitchen_entry list \<Rightarrow> bool" where
  "board_ok es \<longleftrightarrow> distinct (map ke_key es) \<and> (\<forall>e \<in> set es. 0 < ke_totalQuantity e \<and> distinct (ke_orderIds e))"

lemma add_line_simps [simp]:
  "ke_key (add_line lc order line e) = ke_key e"
  "ke_totalQuantity (add_line lc order line e) = ke_totalQuantity e + dbl_quantity line"
  "distinct (ke_orderIds (add_line lc order line e)) = distinct (ke_orderIds e)"
  by (auto simp: add_line_def)

lemma upsert_keys:
  "set (map ke_key (upsert_entry lc order line key nm es)) = insert key (set (map ke_key es))"
  by (induction es) auto

lemma upsert_sum: "ke_sum (upsert_entry lc order line key nm es) = ke_sum es + dbl_quantity line"
  by (induction es) auto

lemma upsert_ok:
  assumes "board_ok es" "0 < dbl_quantity line"
  shows "board_ok (upsert_entry lc order line key nm es)"
  using assms
proof (induction es)
  case Nil
  then show ?case by (simp add: board_ok_def)
next
  case (Cons e es)
  have "board_ok es" using Cons.prems(1) by (simp add: board_ok_def)
  then have up: "board_ok (upsert_entry lc order line key nm es)"
    using Cons.prems(2) by (rule Cons.IH)
  have keys: "ke_key e \<notin> set (map ke_key (upsert_entry lc order line key nm es))" if "ke_key e \<noteq> key"
    using Cons.prems(1) that unfolding upsert_keys by (simp add: board_ok_def)
  show ?case
  proof (cases "ke_key e = key")
    case True
    then show ?thesis using Cons.prems by (auto simp: board_ok_def)
  next
    case False
    then show ?thesis using Cons.prems(1) up keys by (simp add: board_ok_def)
  qed
qed

lemma kitchen_lines_fold:
  "board_ok es \<Longrightarrow> board_ok (foldl (kitchen_line lc order) es ls) \<and>
   ke_sum (foldl (kitchen_line lc order) es ls) = ke_sum es
     + (\<Sum>l\<leftarrow>filter (\<lambda>l. js_trim (dbl_name l) \<noteq> [] \<and> 0 < dbl_quantity l) ls. dbl_quantity l)"
  by (induction ls arbitrary: es) (auto simp: kitchen_line_def Let_def upsert_sum upsert_ok)

lemma kitchen_orders_fold:
  "board_ok es \<Longrightarrow> board_ok (foldl (kitchen_order lc) es orders) \<and>
   ke_sum (foldl (kitchen_order lc) es orders) = ke_sum es + (\<Sum>l\<leftarrow>kitchen_lines orders. dbl_quantity l)"
  by (induction orders arbitrary: es)
    (auto simp: kitchen_order_def kitchen_lines_def kitchen_lines_fold)

text \<open>
  The kitchen board loses and invents nothing: the quantities it shows add up to the
  quantities of all named lines of the paid orders still to be made, every product appears
  under one key only and with a positive quantity, whatever the locale's case folding and
  collation are.
\<close>

theorem kitchen_board_conserves:
  "(\<Sum>p\<leftarrow>aggregateKitchenProducts lc le orders. kp_totalQuantity p) = (\<Sum>l\<leftarrow>kitchen_lines orders. dbl_quantity l)
   \<and> distinct (map kp_key (aggregateKitchenProducts lc le orders))
   \<and> list_all (\<lambda>p. 0 < kp_totalQuantity p) (aggregateKitchenProducts lc le orders)"
proof -
  have "board_ok []" by (simp add: board_ok_def)
  from kitchen_orders_fold [OF this, of lc orders] show ?thesis
    by (auto simp: aggregateKitchenProducts_def sum_sort_by distinct_sort_by list_all_iff o_def board_ok_def)
qed

text \<open>
  The status the board's button asks for next is one the order state machine lets through,
  for an order of any source, and the board only asks for it when the order is paid.
\<close>

theorem next_status_allowed:
  assumes "nextOrderStatus order = Some s"
  shows "assertFulfillmentTransition (ad_status order) s source = Inr ()
    \<and> s \<noteq> ad_status order \<and> ad_paymentStatus order = Some Paid"
  using assms
  by (cases "ad_status order")
    (auto simp: nextOrderStatus_def orderStage_def assertFulfillmentTransition_def Let_def split: if_splits)

theorem next_status_allowed_witness:
  "assertFulfillmentTransition Preparing Ready (Some StorefrontCash) = Inr ()"
  using next_status_allowed [of "\<lparr>ad_id = ''o'', ad_purchaseNumber = ''1'', ad_status = Preparing,
      ad_paymentStatus = Some Paid, ad_lines = []\<rparr>" Ready "Some StorefrontCash"]
  by (simp add: nextOrderStatus_def orderStage_def)

end
