(* ===== verification/Scheduling.thy ===== *)
theory Scheduling
  imports JsNumber
begin

text \<open>
  Opening hours and scheduled pick-up times: \<open>src/features/tenancy/domain/opening-hours.ts\<close> and
  \<open>src/features/orders/domain/order-scheduling.ts\<close>.

  \<^item> Instants are milliseconds, the ISO texts of offered slots included. \<open>fmt tz t\<close> stands for \<open>Intl.DateTimeFormat(..).formatToParts\<close> of
    the platform, the list of its (type, value) parts; \<open>parse\<close> for the \<open>Date\<close> constructor on
    strings; \<open>le\<close> for \<open>localeCompare\<close>.
  \<^item> The main lemma is the agreement of the two halves of the feature: every slot offered to
    the customer is one the order service accepts.
\<close>

section \<open>Opening hours\<close>

datatype Weekday = Monday | Tuesday | Wednesday | Thursday | Friday | Saturday | Sunday

instantiation Weekday :: enum
begin

definition enum_Weekday :: "Weekday list" where
  "enum_Weekday = [Monday, Tuesday, Wednesday, Thursday, Friday, Saturday, Sunday]"

definition enum_all_Weekday :: "(Weekday \<Rightarrow> bool) \<Rightarrow> bool" where
  "enum_all_Weekday P \<longleftrightarrow> list_all P [Monday, Tuesday, Wednesday, Thursday, Friday, Saturday, Sunday]"

definition enum_ex_Weekday :: "(Weekday \<Rightarrow> bool) \<Rightarrow> bool" where
  "enum_ex_Weekday P \<longleftrightarrow> list_ex P [Monday, Tuesday, Wednesday, Thursday, Friday, Saturday, Sunday]"

instance
proof
  have univ: "(UNIV :: Weekday set) = set enum_class.enum"
    by (auto simp: enum_Weekday_def intro: Weekday.exhaust)
  then show "(UNIV :: Weekday set) = set enum_class.enum" .
  show "distinct (enum_class.enum :: Weekday list)" by (simp add: enum_Weekday_def)
  show "enum_class.enum_all P = Ball UNIV P" for P :: "Weekday \<Rightarrow> bool"
    unfolding univ by (simp add: enum_Weekday_def enum_all_Weekday_def)
  show "enum_class.enum_ex P = Bex UNIV P" for P :: "Weekday \<Rightarrow> bool"
    unfolding univ by (simp add: enum_Weekday_def enum_ex_Weekday_def)
qed

end

definition WEEKDAYS :: "(Weekday \<times> string) list" where
  "WEEKDAYS = [(Monday, ''Lun''), (Tuesday, ''Mar''), (Wednesday, ''Mi'' @ [CHR 0xE9]), (Thursday, ''Jue''),
     (Friday, ''Vie''), (Saturday, ''S'' @ [CHR 0xE1] @ ''b''), (Sunday, ''Dom'')]"

record OpeningHoursRange =
  range_open :: string
  range_close :: string

type_synonym OpeningHours = "Weekday \<Rightarrow> OpeningHoursRange list option"

text \<open>The pattern \<open>([01]\d|2[0-3]):[0-5]\d\<close>.\<close>

definition time_re :: "string \<Rightarrow> bool" where
  "time_re s = (case s of
     [a, b, c, d, e] \<Rightarrow> (a \<in> set ''01'' \<and> is_digit b \<or> a = CHR ''2'' \<and> b \<in> set ''0123'')
        \<and> c = CHR '':'' \<and> d \<in> set ''012345'' \<and> is_digit e
   | _ \<Rightarrow> False)"

definition openingHoursSchema :: "OpeningHours \<Rightarrow> bool" where
  "openingHoursSchema h \<longleftrightarrow> list_all (\<lambda>(day, _). case h day of None \<Rightarrow> True
     | Some rs \<Rightarrow> length rs \<le> 8 \<and> list_all (\<lambda>r. time_re (range_open r) \<and> time_re (range_close r)) rs) WEEKDAYS"

definition normalizeOpeningHours :: "(string \<Rightarrow> string \<Rightarrow> bool) \<Rightarrow> OpeningHours \<Rightarrow> OpeningHours" where
  "normalizeOpeningHours le value =
     (if \<not> openingHoursSchema value then (\<lambda>_. None)
      else (\<lambda>day. case value day of
              None \<Rightarrow> None
            | Some ranges \<Rightarrow> if ranges = [] then None
                else Some (sort_by (\<lambda>a b. le (range_open a) (range_open b)) ranges)))"

definition hasOpeningHours :: "(string \<Rightarrow> string \<Rightarrow> bool) \<Rightarrow> OpeningHours \<Rightarrow> bool" where
  "hasOpeningHours le value \<longleftrightarrow> list_ex (\<lambda>(day, _). normalizeOpeningHours le value day \<noteq> None) WEEKDAYS"

definition formatRange :: "OpeningHoursRange \<Rightarrow> string" where
  "formatRange r = range_open r @ '' a '' @ range_close r"

definition middot :: string where
  "middot = '' '' @ [CHR 0xB7] @ '' ''"

fun join_with :: "string \<Rightarrow> string list \<Rightarrow> string" where
  "join_with sep [] = []"
| "join_with sep [s] = s"
| "join_with sep (s # t # ss) = s @ sep @ join_with sep (t # ss)"

definition scheduleOf :: "OpeningHours \<Rightarrow> Weekday \<Rightarrow> string" where
  "scheduleOf hours day =
     (let ranges = (case hours day of None \<Rightarrow> [] | Some rs \<Rightarrow> rs) in
      if ranges \<noteq> [] then join_with middot (map formatRange ranges) else ''Cerrado'')"

text \<open>The loop of \<open>formatOpeningHoursLines\<close>: a run of days with the same schedule is one line.\<close>

function opening_lines :: "(Weekday \<Rightarrow> string) \<Rightarrow> (Weekday \<times> string) list \<Rightarrow> (string \<times> string) list" where
  "opening_lines sched [] = []"
| "opening_lines sched ((day, lbl) # rest) =
     (let same = takeWhile (\<lambda>(d, _). sched d = sched day) rest;
          days = (if same = [] then lbl else lbl @ '' a '' @ snd (last same))
      in (days, sched day) # opening_lines sched (dropWhile (\<lambda>(d, _). sched d = sched day) rest))"
  by pat_completeness auto
termination
  by (relation "measure (length \<circ> snd)") (auto simp: le_imp_less_Suc length_dropWhile_le)

definition formatOpeningHoursLines ::
  "(string \<Rightarrow> string \<Rightarrow> bool) \<Rightarrow> OpeningHours \<Rightarrow> (string \<times> string) list" where
  "formatOpeningHoursLines le value = opening_lines (scheduleOf (normalizeOpeningHours le value)) WEEKDAYS"

section \<open>Zoned parts\<close>

record zoned =
  z_weekday :: Weekday
  z_dateKey :: string
  z_dayMonth :: string
  z_hhmm :: string

text \<open>Later parts of a type overwrite earlier ones, as the source's loop over the parts does.\<close>

definition part :: "(string \<times> string) list \<Rightarrow> string \<Rightarrow> string option" where
  "part parts k = map_of (rev parts) k"

definition orElse :: "'a option \<Rightarrow> 'a \<Rightarrow> 'a" where
  "orElse v d = (case v of None \<Rightarrow> d | Some x \<Rightarrow> x)"

definition weekday_by_short :: "string \<Rightarrow> Weekday" where
  "weekday_by_short s = orElse (map_of [(''Mon'', Monday), (''Tue'', Tuesday), (''Wed'', Wednesday),
     (''Thu'', Thursday), (''Fri'', Friday), (''Sat'', Saturday), (''Sun'', Sunday)] s) Monday"

definition getZonedParts :: "(string \<Rightarrow> int \<Rightarrow> (string \<times> string) list) \<Rightarrow> int \<Rightarrow> string \<Rightarrow> zoned" where
  "getZonedParts fmt date timezone =
     (let m = part (fmt timezone date);
          weekday = weekday_by_short (orElse (m ''weekday'') ''Mon'');
          year = orElse (m ''year'') ''2026'';
          month = orElse (m ''month'') ''01'';
          day = orElse (m ''day'') ''01'';
          hour = (if m ''hour'' = Some ''24'' then ''00'' else orElse (m ''hour'') ''00'');
          minute = orElse (m ''minute'') ''00''
      in \<lparr>z_weekday = weekday, z_dateKey = year @ ''-'' @ month @ ''-'' @ day,
          z_dayMonth = day @ ''/'' @ month, z_hhmm = hour @ '':'' @ minute\<rparr>)"

text \<open>Comparison of strings by code unit, as \<open><=\<close> does.\<close>

fun js_le :: "string \<Rightarrow> string \<Rightarrow> bool" where
  "js_le [] t = True"
| "js_le (c # cs) [] = False"
| "js_le (c # cs) (d # ds) =
     ((of_char c :: nat) < of_char d \<or> c = d \<and> js_le cs ds)"

section \<open>Validation of a scheduled pick-up\<close>

datatype OrderSchedulingError = InvalidDate | TooSoon | TooFar | NoRanges | OutOfHours

datatype scheduled_input = NoSchedule | ScheduleDate "int option" | ScheduleString string

record schedule_options =
  so_now :: int
  so_openingHours :: "OpeningHours option"
  so_timezone :: "string option"

definition minute :: int where "minute = 60 * 1000"

definition default_tz :: "string option \<Rightarrow> string" where
  "default_tz tz = (case tz of None \<Rightarrow> ''America/Argentina/Buenos_Aires''
     | Some s \<Rightarrow> if s = [] then ''America/Argentina/Buenos_Aires'' else s)"

definition in_ranges :: "OpeningHoursRange list \<Rightarrow> string \<Rightarrow> bool" where
  "in_ranges ranges hhmm \<longleftrightarrow> list_ex (\<lambda>r. js_le (range_open r) hhmm \<and> js_le hhmm (range_close r)) ranges"

definition default_hours :: "string \<Rightarrow> bool" where
  "default_hours hhmm \<longleftrightarrow> js_le ''09:00'' hhmm \<and> js_le hhmm ''23:30''"

definition parsed_schedule :: "(string \<Rightarrow> int option) \<Rightarrow> scheduled_input \<Rightarrow> int option option" where
  "parsed_schedule parse inp = (case inp of
     NoSchedule \<Rightarrow> None
   | ScheduleDate d \<Rightarrow> Some d
   | ScheduleString s \<Rightarrow> if js_trim s = [] then None else Some (parse s))"

definition validateScheduledPickupTime ::
  "(string \<Rightarrow> int option) \<Rightarrow> (string \<Rightarrow> int \<Rightarrow> (string \<times> string) list) \<Rightarrow> (string \<Rightarrow> string \<Rightarrow> bool)
     \<Rightarrow> scheduled_input \<Rightarrow> schedule_options \<Rightarrow> OrderSchedulingError + int option" where
  "validateScheduledPickupTime parse fmt le inp opts =
     (case parsed_schedule parse inp of
        None \<Rightarrow> Inr None
      | Some None \<Rightarrow> Inl InvalidDate
      | Some (Some t) \<Rightarrow>
          if t < so_now opts + 10 * minute then Inl TooSoon
          else if so_now opts + 7 * 24 * 60 * minute < t then Inl TooFar
          else let parts = getZonedParts fmt t (default_tz (so_timezone opts)) in
            (case so_openingHours opts of
               Some hours \<Rightarrow>
                 if \<not> hasOpeningHours le hours then Inl NoRanges
                 else if \<not> in_ranges (orElse (hours (z_weekday parts)) []) (z_hhmm parts) then Inl OutOfHours
                 else Inr (Some t)
             | None \<Rightarrow>
                 if \<not> default_hours (z_hhmm parts) then Inl OutOfHours else Inr (Some t)))"

section \<open>The slots offered to the customer\<close>

record slot =
  sl_label :: string
  sl_iso :: int

record ScheduledDayGroup =
  dg_dateKey :: string
  dg_label :: string
  dg_slots :: "slot list"

definition WEEKDAY_LABEL_ES :: "Weekday \<Rightarrow> string" where
  "WEEKDAY_LABEL_ES d = orElse (map_of WEEKDAYS d) []"

definition Manana :: string where
  "Manana = ''Ma'' @ [CHR 0xF1] @ ''ana''"

definition step15 :: int where "step15 = 15 * minute"

text \<open>\<open>Math.ceil(x / step) * step\<close>.\<close>

definition ceil_to :: "int \<Rightarrow> int \<Rightarrow> int" where
  "ceil_to x step = - ((- x) div step) * step"

definition slot_open :: "OpeningHours option \<Rightarrow> zoned \<Rightarrow> bool" where
  "slot_open hours parts = (case hours of
     Some h \<Rightarrow> in_ranges (orElse (h (z_weekday parts)) []) (z_hhmm parts)
   | None \<Rightarrow> default_hours (z_hhmm parts))"

definition day_label :: "zoned \<Rightarrow> zoned \<Rightarrow> zoned \<Rightarrow> string" where
  "day_label today tomorrow parts =
     (if z_dateKey parts = z_dateKey today then ''Hoy''
      else if z_dateKey parts = z_dateKey tomorrow then Manana
      else WEEKDAY_LABEL_ES (z_weekday parts) @ '' '' @ z_dayMonth parts)"

fun push_slot :: "string \<Rightarrow> slot \<Rightarrow> ScheduledDayGroup list \<Rightarrow> ScheduledDayGroup list" where
  "push_slot key sl [] = []"
| "push_slot key sl (g # gs) =
     (if dg_dateKey g = key then g\<lparr>dg_slots := dg_slots g @ [sl]\<rparr> # gs else g # push_slot key sl gs)"

text \<open>One turn of the loop over the quarter hours; the map of groups is kept in insertion order.\<close>

definition slot_step ::
  "(int \<Rightarrow> zoned) \<Rightarrow> OpeningHours option \<Rightarrow> nat \<Rightarrow> zoned \<Rightarrow> zoned \<Rightarrow> int
     \<Rightarrow> ScheduledDayGroup list \<Rightarrow> ScheduledDayGroup list" where
  "slot_step zone hours maxDays today tomorrow ms groups =
     (let parts = zone ms; sl = \<lparr>sl_label = z_hhmm parts, sl_iso = ms\<rparr> in
      if \<not> slot_open hours parts then groups
      else if list_ex (\<lambda>g. dg_dateKey g = z_dateKey parts) groups
        then push_slot (z_dateKey parts) sl groups
      else if maxDays \<le> length groups then groups
      else groups @ [\<lparr>dg_dateKey = z_dateKey parts, dg_label = day_label today tomorrow parts,
                      dg_slots = [sl]\<rparr>])"

function slot_loop ::
  "(int \<Rightarrow> ScheduledDayGroup list \<Rightarrow> ScheduledDayGroup list) \<Rightarrow> int \<Rightarrow> int
     \<Rightarrow> ScheduledDayGroup list \<Rightarrow> ScheduledDayGroup list" where
  "slot_loop f ms endMs groups =
     (if endMs < ms then groups else slot_loop f (ms + step15) endMs (f ms groups))"
  by pat_completeness auto
termination
  by (relation "measure (\<lambda>(f, ms, endMs, groups). nat (endMs + 1 - ms))")
    (auto simp: step15_def minute_def)

declare slot_loop.simps [simp del]

definition generateScheduledDaysAndSlots ::
  "(string \<Rightarrow> int \<Rightarrow> (string \<times> string) list) \<Rightarrow> (string \<Rightarrow> string \<Rightarrow> bool)
     \<Rightarrow> schedule_options \<Rightarrow> nat option \<Rightarrow> ScheduledDayGroup list" where
  "generateScheduledDaysAndSlots fmt le opts daysAhead =
     (let now = so_now opts;
          zone = (\<lambda>t. getZonedParts fmt t (default_tz (so_timezone opts)));
          maxDays = orElse daysAhead 7;
          scanDays = max maxDays 7;
          startMs = ceil_to (now + 20 * minute) step15;
          endMs = now + int scanDays * 24 * 60 * minute
      in if (case so_openingHours opts of None \<Rightarrow> False | Some h \<Rightarrow> \<not> hasOpeningHours le h) then []
         else filter (\<lambda>g. dg_slots g \<noteq> [])
           (slot_loop (slot_step zone (so_openingHours opts) maxDays (zone now) (zone (now + 24 * 60 * minute)))
              startMs endMs []))"

definition formatScheduledForDisplay ::
  "(string \<Rightarrow> int \<Rightarrow> (string \<times> string) list) \<Rightarrow> int option \<Rightarrow> int \<Rightarrow> string option \<Rightarrow> string option" where
  "formatScheduledForDisplay fmt date now timezone =
     (case date of
        None \<Rightarrow> None
      | Some t \<Rightarrow>
          let tz = default_tz timezone;
              target = getZonedParts fmt t tz;
              today = getZonedParts fmt now tz;
              tomorrow = getZonedParts fmt (now + 24 * 60 * minute) tz
          in Some (if z_dateKey target = z_dateKey today then ''Hoy '' @ z_hhmm target
                   else if z_dateKey target = z_dateKey tomorrow then Manana @ '' '' @ z_hhmm target
                   else WEEKDAY_LABEL_ES (z_weekday target) @ '' '' @ z_dayMonth target @ middot @ z_hhmm target))"

lemma ceil_to_ge: "0 < step \<Longrightarrow> x \<le> ceil_to x step"
proof -
  assume "0 < step"
  then have "0 \<le> (- x) mod step" by simp
  then have "(- x) div step * step \<le> - x"
    using div_mult_mod_eq [of "- x" step] by linarith
  then show ?thesis by (simp add: ceil_to_def)
qed

definition all_slots :: "(int \<Rightarrow> bool) \<Rightarrow> ScheduledDayGroup list \<Rightarrow> bool" where
  "all_slots P gs \<longleftrightarrow> (\<forall>g \<in> set gs. \<forall>s \<in> set (dg_slots g). P (sl_iso s))"

lemma all_slots_snoc [simp]:
  "all_slots P (gs @ [g]) \<longleftrightarrow> all_slots P gs \<and> (\<forall>s \<in> set (dg_slots g). P (sl_iso s))"
  by (auto simp: all_slots_def)

lemma push_slot_keys [simp]: "map dg_dateKey (push_slot k s gs) = map dg_dateKey gs"
  by (induction gs) auto

lemma length_push_slot [simp]: "length (push_slot k s gs) = length gs"
  by (induction gs) auto

lemma push_slot_all: "all_slots P gs \<Longrightarrow> P (sl_iso s) \<Longrightarrow> all_slots P (push_slot k s gs)"
  by (induction gs) (auto simp: all_slots_def)

definition groups_ok :: "nat \<Rightarrow> (int \<Rightarrow> bool) \<Rightarrow> ScheduledDayGroup list \<Rightarrow> bool" where
  "groups_ok n P gs \<longleftrightarrow> length gs \<le> n \<and> distinct (map dg_dateKey gs) \<and> all_slots P gs"

lemma slot_step_ok:
  assumes "groups_ok n P gs" "slot_open hours (zone ms) \<Longrightarrow> P ms"
  shows "groups_ok n P (slot_step zone hours n today tomorrow ms gs)"
proof -
  have "distinct (map dg_dateKey gs @ [k])" if "\<not> list_ex (\<lambda>g. dg_dateKey g = k) gs" for k
    using that assms(1) by (auto simp: groups_ok_def list_ex_iff)
  then show ?thesis
    using assms push_slot_all [of P gs]
    by (auto simp: groups_ok_def slot_step_def Let_def)
qed

lemma slot_loop_ok:
  assumes "groups_ok n P gs" "\<And>t. ms \<le> t \<Longrightarrow> t \<le> endMs \<Longrightarrow> slot_open hours (zone t) \<Longrightarrow> P t"
  shows "groups_ok n P (slot_loop (slot_step zone hours n today tomorrow) ms endMs gs)"
  using assms
proof (induction "slot_step zone hours n today tomorrow" ms endMs gs rule: slot_loop.induct)
  case (1 ms endMs gs)
  show ?case
  proof (cases "endMs < ms")
    case True
    then show ?thesis using 1(2) by (subst slot_loop.simps) simp
  next
    case False
    have "groups_ok n P (slot_step zone hours n today tomorrow ms gs)"
      using 1(2,3) False by (intro slot_step_ok) auto
    then show ?thesis
      using False 1(1,3) by (subst slot_loop.simps) (auto simp: step15_def minute_def)
  qed
qed

text \<open>
  C36. Every slot the store offers for a scheduled pick-up is accepted by the validation the
  order goes through, at the same clock and with the same opening hours, for the week the
  feature covers; and the days offered are distinct and at most as many as asked for.
\<close>

theorem offered_slots_valid:
  assumes "orElse daysAhead 7 \<le> 7"
    and "g \<in> set (generateScheduledDaysAndSlots fmt le opts daysAhead)" and "s \<in> set (dg_slots g)"
  shows "validateScheduledPickupTime parse fmt le (ScheduleDate (Some (sl_iso s))) opts = Inr (Some (sl_iso s))
    \<and> distinct (map dg_dateKey (generateScheduledDaysAndSlots fmt le opts daysAhead))
    \<and> length (generateScheduledDaysAndSlots fmt le opts daysAhead) \<le> orElse daysAhead 7"
proof -
  let ?n = "orElse daysAhead 7"
  let ?zone = "\<lambda>t. getZonedParts fmt t (default_tz (so_timezone opts))"
  let ?P = "\<lambda>t. validateScheduledPickupTime parse fmt le (ScheduleDate (Some t)) opts = Inr (Some t)"
  let ?loop = "slot_loop (slot_step ?zone (so_openingHours opts) ?n (?zone (so_now opts))
    (?zone (so_now opts + 24 * 60 * minute))) (ceil_to (so_now opts + 20 * minute) step15)
    (so_now opts + int (max ?n 7) * 24 * 60 * minute) []"
  have hrs: "\<not> (case so_openingHours opts of None \<Rightarrow> False | Some h \<Rightarrow> \<not> hasOpeningHours le h)"
    using assms(2) by (auto simp: generateScheduledDaysAndSlots_def Let_def)
  have gen: "generateScheduledDaysAndSlots fmt le opts daysAhead = filter (\<lambda>g. dg_slots g \<noteq> []) ?loop"
    using hrs by (simp add: generateScheduledDaysAndSlots_def Let_def)
  have "?P t" if t: "ceil_to (so_now opts + 20 * minute) step15 \<le> t"
    "t \<le> so_now opts + int (max ?n 7) * 24 * 60 * minute" "slot_open (so_openingHours opts) (?zone t)" for t
  proof -
    have "so_now opts + 20 * minute \<le> t"
      using t(1) ceil_to_ge [of step15 "so_now opts + 20 * minute"] by (simp add: step15_def minute_def)
    moreover have "max ?n 7 = 7" using assms(1) by simp
    ultimately show ?thesis
      using t(2,3) hrs
      by (auto simp: validateScheduledPickupTime_def parsed_schedule_def slot_open_def minute_def Let_def
          split: option.splits)
  qed
  then have ok: "groups_ok ?n ?P ?loop"
    by (intro slot_loop_ok) (auto simp: groups_ok_def all_slots_def)
  show ?thesis
    using ok assms(2,3) le_trans [OF length_filter_le]
    unfolding gen groups_ok_def all_slots_def by (auto intro: distinct_map_filter)
qed

definition slot_set :: "ScheduledDayGroup list \<Rightarrow> slot set" where
  "slot_set gs = (\<Union>g \<in> set gs. set (dg_slots g))"

lemma slot_set_push: "slot_set gs \<subseteq> slot_set (push_slot k s gs)"
  by (induction gs) (auto simp: slot_set_def)

lemma slot_step_mono: "slot_set gs \<subseteq> slot_set (slot_step zone hours n today tomorrow ms gs)"
proof -
  have "slot_set gs \<subseteq> slot_set (gs @ hs)" for hs by (auto simp: slot_set_def)
  then show ?thesis using slot_set_push by (simp add: slot_step_def Let_def)
qed

lemma slot_loop_mono:
  "slot_set gs \<subseteq> slot_set (slot_loop (slot_step zone hours n today tomorrow) ms endMs gs)"
proof (induction "slot_step zone hours n today tomorrow" ms endMs gs rule: slot_loop.induct)
  case (1 ms endMs gs)
  show ?case
  proof (cases "endMs < ms")
    case True
    then show ?thesis by (subst slot_loop.simps) simp
  next
    case False
    then show ?thesis
      using subset_trans [OF slot_step_mono 1] by (subst slot_loop.simps) simp
  qed
qed

definition ten_o_clock :: "string \<Rightarrow> int \<Rightarrow> (string \<times> string) list" where
  "ten_o_clock tz t = [(''weekday'', ''Tue''), (''hour'', ''10''), (''minute'', ''15'')]"

definition opts0 :: schedule_options where
  "opts0 = \<lparr>so_now = 0, so_openingHours = None, so_timezone = None\<rparr>"

definition slot0 :: slot where
  "slot0 = \<lparr>sl_label = ''10:15'', sl_iso = 30 * minute\<rparr>"

lemma slot0_offered:
  "\<exists>g \<in> set (generateScheduledDaysAndSlots ten_o_clock js_le opts0 None). slot0 \<in> set (dg_slots g)"
proof -
  let ?zone = "\<lambda>t. getZonedParts ten_o_clock t ''America/Argentina/Buenos_Aires''"
  let ?step = "slot_step ?zone None 7 (?zone 0) (?zone (24 * 60 * minute))"
  have z: "z_hhmm (?zone t) = ''10:15''" for t
    by (simp add: getZonedParts_def ten_o_clock_def part_def orElse_def Let_def)
  have st: "ceil_to (20 * minute) step15 = 30 * minute"
    by (simp add: ceil_to_def step15_def minute_def)
  have "slot_set (?step (30 * minute) []) = {slot0}"
    by (simp add: slot_step_def slot_open_def default_hours_def z slot_set_def slot0_def Let_def)
  then have "slot0 \<in> slot_set (slot_loop ?step (30 * minute + step15) (7 * 24 * 60 * minute) (?step (30 * minute) []))"
    using slot_loop_mono by blast
  then have "slot0 \<in> slot_set (slot_loop ?step (30 * minute) (7 * 24 * 60 * minute) [])"
    by (subst slot_loop.simps) (simp add: minute_def)
  then show ?thesis
    by (fastforce simp: generateScheduledDaysAndSlots_def opts0_def default_tz_def orElse_def st slot_set_def)
qed

theorem offered_slots_valid_witness:
  "validateScheduledPickupTime (\<lambda>_. None) ten_o_clock js_le (ScheduleDate (Some (30 * minute))) opts0
     = Inr (Some (30 * minute))"
proof -
  obtain g where "g \<in> set (generateScheduledDaysAndSlots ten_o_clock js_le opts0 None)" "slot0 \<in> set (dg_slots g)"
    using slot0_offered by blast
  from offered_slots_valid [OF _ this] show ?thesis
    by (simp add: orElse_def slot0_def)
qed

text \<open>
  The shortest lead time accepted is ten minutes, although the message of the error says
  fifteen: a pick-up twelve minutes ahead within opening hours is accepted.
\<close>

theorem lead_time_is_ten_minutes:
  "validateScheduledPickupTime (\<lambda>_. None) ten_o_clock js_le (ScheduleDate (Some (12 * minute))) opts0
     = Inr (Some (12 * minute))
   \<and> validateScheduledPickupTime (\<lambda>_. None) ten_o_clock js_le (ScheduleDate (Some (9 * minute))) opts0
     = Inl TooSoon"
  by (simp add: validateScheduledPickupTime_def parsed_schedule_def opts0_def minute_def getZonedParts_def
      ten_o_clock_def part_def orElse_def default_hours_def Let_def)

end
