(* ===== verification/TenantContext.thy ===== *)
theory TenantContext
  imports Prelude
begin

text \<open>
  Who is calling, and for which store: \<open>src/lib/tenant-context/types.ts\<close>, \<open>resolvers.ts\<close>,
  \<open>src/lib/authorization/permissions.ts\<close>, \<open>role-guard.ts\<close> and the session settings of
  \<open>src/db/tenant-transaction.ts\<close>.

  \<^item> The private symbol that marks a verified context is modelled by the type: a
    \<open>TenantContext\<close> value is only made by \<open>createVerifiedTenantContext\<close>.
  \<^item> \<open>TenantResolverStore\<close> is an interface of the source; its answers are arguments.
  \<^item> The lemmas: a resolved context names the tenant the store answered, is never that of a
    suspended store where the resolver looks at the status, and has the actor its entry point
    allows; a guard lets exactly the listed roles through.
\<close>

datatype Role = Owner | Admin | Employee

datatype TenantContextSource = SrcPublic | SrcAdministrative | SrcWebhook | SrcAgent | SrcBackground | SrcMaintenance

datatype TenantActor =
  UserActor string string Role
| ServiceActor string
| AgentActor string string
| SystemActor string
| AnonymousActor string

record TenantContext =
  ctx_tenantId :: string
  ctx_correlationId :: string
  ctx_source :: TenantContextSource
  ctx_actor :: TenantActor
  ctx_locationId :: "string option"

datatype ContextError = MissingIds | TenantContextUnavailable

definition createVerifiedTenantContext ::
  "string \<Rightarrow> string \<Rightarrow> TenantContextSource \<Rightarrow> TenantActor \<Rightarrow> string option \<Rightarrow> ContextError + TenantContext" where
  "createVerifiedTenantContext tenantId correlationId source actor locationId =
     (if tenantId = [] \<or> correlationId = [] then Inl MissingIds
      else Inr \<lparr>ctx_tenantId = tenantId, ctx_correlationId = correlationId, ctx_source = source,
                ctx_actor = actor, ctx_locationId = locationId\<rparr>)"

fun actorUserId :: "TenantActor \<Rightarrow> string option" where
  "actorUserId (UserActor userId _ _) = Some userId"
| "actorUserId _ = None"

text \<open>The settings a transaction starts with: user, service and agent id.\<close>

fun actorSettings :: "TenantActor \<Rightarrow> string \<times> string \<times> string" where
  "actorSettings (UserActor userId _ _) = (userId, [], [])"
| "actorSettings (ServiceActor serviceId) = ([], serviceId, [])"
| "actorSettings (AgentActor agentId _) = ([], [], agentId)"
| "actorSettings (SystemActor process) = ([], process, [])"
| "actorSettings (AnonymousActor _) = ([], [], [])"

section \<open>Permissions\<close>

datatype Section = Pedidos | Catalog | Configuracion | Members | Analytics | Promociones

fun SECTION_PERMISSIONS :: "Section \<Rightarrow> Role list" where
  "SECTION_PERMISSIONS Pedidos = [Owner, Admin, Employee]"
| "SECTION_PERMISSIONS Catalog = [Owner, Admin]"
| "SECTION_PERMISSIONS Configuracion = [Owner]"
| "SECTION_PERMISSIONS Members = [Owner]"
| "SECTION_PERMISSIONS Analytics = [Owner]"
| "SECTION_PERMISSIONS Promociones = [Owner, Admin]"

definition canAccess :: "Role \<Rightarrow> Section \<Rightarrow> bool" where
  "canAccess role section' \<longleftrightarrow> role \<in> set (SECTION_PERMISSIONS section')"

definition canWriteCatalog :: "Role \<Rightarrow> bool" where
  "canWriteCatalog role \<longleftrightarrow> role = Owner \<or> role = Admin"

datatype AccessDenied = TenantAccessDenied

definition authorizeRole :: "TenantContext \<Rightarrow> Role list \<Rightarrow> AccessDenied + unit" where
  "authorizeRole context allowedRoles =
     (case ctx_actor context of
        UserActor _ _ role \<Rightarrow> if role \<in> set allowedRoles then Inr () else Inl TenantAccessDenied
      | _ \<Rightarrow> Inl TenantAccessDenied)"

definition requireOwner :: "TenantContext \<Rightarrow> AccessDenied + unit" where
  "requireOwner context = authorizeRole context [Owner]"

definition requireOwnerOrAdmin :: "TenantContext \<Rightarrow> AccessDenied + unit" where
  "requireOwnerOrAdmin context = authorizeRole context [Owner, Admin]"

text \<open>Privileges only grow along employee, admin, owner.\<close>

fun privilege :: "Role \<Rightarrow> nat" where
  "privilege Employee = 0" | "privilege Admin = 1" | "privilege Owner = 2"

section \<open>Resolvers\<close>

datatype TenantStatus = Onboarding | ActiveTenant | Suspended

record ResolvedTenant =
  rt_tenantId :: string
  rt_status :: TenantStatus

definition required :: "'a option \<Rightarrow> ContextError + 'a" where
  "required value = opt_or TenantContextUnavailable value"

definition resolvePublicTenantContext ::
  "(string \<Rightarrow> ResolvedTenant option) \<Rightarrow> string \<Rightarrow> string \<Rightarrow> ContextError + TenantContext" where
  "resolvePublicTenantContext resolvePublicSlug normalizedSlug correlationId =
     bnd (required (resolvePublicSlug normalizedSlug)) (\<lambda>resolved.
       if rt_status resolved \<noteq> ActiveTenant then Inl TenantContextUnavailable
       else createVerifiedTenantContext (rt_tenantId resolved) correlationId SrcPublic
              (AnonymousActor normalizedSlug) None)"

definition resolveAdministrativeTenantContext ::
  "(string \<Rightarrow> string \<Rightarrow> (ResolvedTenant \<times> string \<times> string \<times> Role) option)
     \<Rightarrow> string \<Rightarrow> string \<Rightarrow> string \<Rightarrow> ContextError + TenantContext" where
  "resolveAdministrativeTenantContext resolveAuthority sessionToken tenantId correlationId =
     bnd (required (resolveAuthority sessionToken tenantId)) (\<lambda>(resolved, userId, membershipId, role).
       if rt_status resolved = Suspended then Inl TenantContextUnavailable
       else createVerifiedTenantContext (rt_tenantId resolved) correlationId SrcAdministrative
              (UserActor userId membershipId role) None)"

definition resolveWebhookTenantContext ::
  "(string \<Rightarrow> string \<Rightarrow> string option \<Rightarrow> (ResolvedTenant \<times> string) option)
     \<Rightarrow> string \<Rightarrow> string \<Rightarrow> string option \<Rightarrow> bool \<Rightarrow> string \<Rightarrow> ContextError + TenantContext" where
  "resolveWebhookTenantContext resolveWebhookRoute provider routingKey providerResourceId signatureVerified correlationId =
     (if \<not> signatureVerified then Inl TenantContextUnavailable
      else bnd (required (resolveWebhookRoute provider routingKey providerResourceId)) (\<lambda>(resolved, _).
        createVerifiedTenantContext (rt_tenantId resolved) correlationId SrcWebhook
          (ServiceActor (provider @ '':webhook'')) None))"

definition resolveAgentTenantContext ::
  "(string \<Rightarrow> (ResolvedTenant \<times> string \<times> string) option) \<Rightarrow> string \<Rightarrow> string \<Rightarrow> ContextError + TenantContext" where
  "resolveAgentTenantContext resolvePrintAgent token correlationId =
     bnd (required (resolvePrintAgent token)) (\<lambda>(resolved, agentId, locationId).
       if rt_status resolved = Suspended then Inl TenantContextUnavailable
       else createVerifiedTenantContext (rt_tenantId resolved) correlationId SrcAgent
              (AgentActor agentId locationId) (Some locationId))"

definition resolveBackgroundTenantContext ::
  "(string \<Rightarrow> string \<Rightarrow> string \<Rightarrow> ResolvedTenant option) \<Rightarrow> string \<Rightarrow> string \<Rightarrow> string \<Rightarrow> string \<Rightarrow> string
     \<Rightarrow> ContextError + TenantContext" where
  "resolveBackgroundTenantContext resolvePersistedWork tenantId workType workId process correlationId =
     bnd (required (resolvePersistedWork tenantId workType workId)) (\<lambda>resolved.
       createVerifiedTenantContext (rt_tenantId resolved) correlationId SrcBackground (SystemActor process) None)"

definition resolveMaintenanceTenantContext ::
  "(string \<Rightarrow> string \<Rightarrow> string \<Rightarrow> ResolvedTenant option) \<Rightarrow> string \<Rightarrow> string \<Rightarrow> string \<Rightarrow> string \<Rightarrow> string
     \<Rightarrow> ContextError + TenantContext" where
  "resolveMaintenanceTenantContext authorizeMaintenance tenantId operation authorizationId operator correlationId =
     bnd (required (authorizeMaintenance tenantId operation authorizationId)) (\<lambda>resolved.
       createVerifiedTenantContext (rt_tenantId resolved) correlationId SrcMaintenance
         (SystemActor (''maintenance:'' @ operator)) None)"

lemma createVerified_Inr [simp]:
  "createVerifiedTenantContext t c src act loc = Inr ctx \<longleftrightarrow>
     t \<noteq> [] \<and> c \<noteq> [] \<and> ctx = \<lparr>ctx_tenantId = t, ctx_correlationId = c, ctx_source = src, ctx_actor = act, ctx_locationId = loc\<rparr>"
  by (auto simp: createVerifiedTenantContext_def)

lemma required_Inr [simp]: "required v = Inr x \<longleftrightarrow> v = Some x"
  by (simp add: required_def)

text \<open>
  Authority comes from the right place: a public context exists only for an active store
  and is anonymous; an administrative one only for the tenant, user and role the session store
  vouches for, and never for a suspended store; a webhook one only behind a verified signature,
  as a service; an agent's location is the one its token was issued for. All of them carry the
  tenant of the store's answer, never one the caller names.
\<close>

theorem resolved_contexts:
  "(resolvePublicTenantContext rp slug cid = Inr ctx \<longrightarrow>
      (case rp slug of None \<Rightarrow> False | Some r \<Rightarrow> rt_status r = ActiveTenant
         \<and> ctx_tenantId ctx = rt_tenantId r \<and> ctx_actor ctx = AnonymousActor slug))
   \<and> (resolveAdministrativeTenantContext ra tok tid cid = Inr ctx \<longrightarrow>
      (case ra tok tid of None \<Rightarrow> False | Some (r, u, m, role) \<Rightarrow> rt_status r \<noteq> Suspended
         \<and> ctx_tenantId ctx = rt_tenantId r \<and> ctx_actor ctx = UserActor u m role))
   \<and> (resolveWebhookTenantContext rw p k res ok cid = Inr ctx \<longrightarrow>
      ok \<and> actorUserId (ctx_actor ctx) = None
      \<and> (case rw p k res of None \<Rightarrow> False | Some (r, i) \<Rightarrow> ctx_tenantId ctx = rt_tenantId r))
   \<and> (resolveAgentTenantContext rg tok cid = Inr ctx \<longrightarrow>
      (case rg tok of None \<Rightarrow> False | Some (r, a, l) \<Rightarrow> rt_status r \<noteq> Suspended
         \<and> ctx_tenantId ctx = rt_tenantId r \<and> ctx_locationId ctx = Some l \<and> ctx_actor ctx = AgentActor a l))"
proof (intro conjI impI)
  assume "resolvePublicTenantContext rp slug cid = Inr ctx"
  then show "case rp slug of None \<Rightarrow> False | Some r \<Rightarrow> rt_status r = ActiveTenant
         \<and> ctx_tenantId ctx = rt_tenantId r \<and> ctx_actor ctx = AnonymousActor slug"
    by (cases "rp slug") (simp_all add: resolvePublicTenantContext_def required_def split: if_splits)
next
  assume "resolveAdministrativeTenantContext ra tok tid cid = Inr ctx"
  then show "case ra tok tid of None \<Rightarrow> False | Some (r, u, m, role) \<Rightarrow> rt_status r \<noteq> Suspended
         \<and> ctx_tenantId ctx = rt_tenantId r \<and> ctx_actor ctx = UserActor u m role"
    by (cases "ra tok tid")
      (simp_all add: resolveAdministrativeTenantContext_def required_def case_prod_unfold split: if_splits)
next
  assume w: "resolveWebhookTenantContext rw p k res ok cid = Inr ctx"
  then show ok
    by (simp add: resolveWebhookTenantContext_def split: if_splits)
  show "actorUserId (ctx_actor ctx) = None"
    using w by (cases "rw p k res")
      (simp_all add: resolveWebhookTenantContext_def required_def case_prod_unfold split: if_splits)
  show "case rw p k res of None \<Rightarrow> False | Some (r, i) \<Rightarrow> ctx_tenantId ctx = rt_tenantId r"
    using w by (cases "rw p k res")
      (simp_all add: resolveWebhookTenantContext_def required_def case_prod_unfold split: if_splits)
next
  assume "resolveAgentTenantContext rg tok cid = Inr ctx"
  then show "case rg tok of None \<Rightarrow> False | Some (r, a, l) \<Rightarrow> rt_status r \<noteq> Suspended
         \<and> ctx_tenantId ctx = rt_tenantId r \<and> ctx_locationId ctx = Some l \<and> ctx_actor ctx = AgentActor a l"
    by (cases "rg tok")
      (simp_all add: resolveAgentTenantContext_def required_def case_prod_unfold split: if_splits)
qed

lemma authorizeRole_iff:
  "authorizeRole ctx roles = Inr () \<longleftrightarrow> (\<exists>u m r. ctx_actor ctx = UserActor u m r \<and> r \<in> set roles)"
  by (cases "ctx_actor ctx") (auto simp: authorizeRole_def)

text \<open>
  Access is monotone in the role and closed to everything that is not a signed-in member:
  whoever may open a section of the panel, a higher role may too, the owner may open all of
  them; a guarded action is refused to services, agents, jobs and visitors.
\<close>

theorem access_monotone:
  "(canAccess role sec \<and> privilege role \<le> privilege role' \<longrightarrow> canAccess role' sec)
   \<and> canAccess Owner sec
   \<and> (authorizeRole ctx [Owner] = Inr () \<longrightarrow> requireOwnerOrAdmin ctx = Inr ())
   \<and> (actorUserId (ctx_actor ctx) = None \<longrightarrow> authorizeRole ctx roles \<noteq> Inr ())
   \<and> (canWriteCatalog role \<longleftrightarrow> canAccess role Catalog)"
proof -
  have "canAccess role' sec" if "canAccess role sec" "privilege role \<le> privilege role'"
    using that by (cases sec; cases role; cases role') (auto simp: canAccess_def)
  moreover have "canAccess Owner sec" by (cases sec) (auto simp: canAccess_def)
  moreover have "canWriteCatalog role \<longleftrightarrow> canAccess role Catalog"
    by (cases role) (auto simp: canWriteCatalog_def canAccess_def)
  ultimately show ?thesis
    by (auto simp: authorizeRole_iff requireOwnerOrAdmin_def)
qed

theorem access_monotone_witness: "canAccess Owner Pedidos"
  using access_monotone [of Employee Pedidos Owner] by (simp add: canAccess_def)

end
