(* ===== verification/Schema.thy ===== *)
theory Schema
  imports Json CartRules DiscountRules OrderRules Contact Scheduling TenantContext
begin

text \<open>
  The tables of \<open>src/db/schema\<close> the modelled services read and write, as records of their columns, and
  the state of the database as the record \<open>db\<close> of all of them.

  \<^item> Ids are strings; a \<open>uuid\<close> default takes the next element of the supply \<open>uuid\<close> of the
    environment. A \<open>numeric(12,2)\<close> column holds its value in cents; the driver's text form is
    \<open>centsToMoney\<close> (\<open>moneyToCents_centsToMoney\<close> is the round trip). Timestamps are milliseconds.
  \<^item> \<open>*_check\<close> collects the \<open>CHECK\<close> constraints of a table and the range of its numeric columns,
    \<open>*_clash\<close> its unique keys; \<open>insert_row\<close> fails on either, as the database does. Foreign
    keys are not modelled: every insert of the code uses ids it has just read.
  \<^item> The schema's \<open>jsonb\<close> payloads are \<open>json\<close>; typed \<open>jsonb\<close> columns are records.
\<close>

datatype db_error = CheckViolation | UniqueViolation | InvalidNumeric | InvalidUuid | RowSecurity | AppendOnly

definition insert_row ::
  "('r \<Rightarrow> bool) \<Rightarrow> ('r \<Rightarrow> 'r \<Rightarrow> bool) \<Rightarrow> 'r \<Rightarrow> 'r list \<Rightarrow> db_error + 'r list" where
  "insert_row chk clash r t =
     (if \<not> chk r then Inl CheckViolation
      else if list_ex (clash r) t then Inl UniqueViolation
      else Inr (t @ [r]))"

lemma insert_row_Inr:
  "insert_row chk clash r t = Inr t' \<longleftrightarrow> chk r \<and> (\<forall>q \<in> set t. \<not> clash r q) \<and> t' = t @ [r]"
  by (auto simp: insert_row_def list_ex_iff)

text \<open>The range of \<open>numeric(12, 2)\<close>, in cents.\<close>

definition numeric12_2 :: "int \<Rightarrow> bool" where
  "numeric12_2 x \<longleftrightarrow> - (10 ^ 12) < x \<and> x < 10 ^ 12"

section \<open>Stores\<close>

record tenant_row =
  t_id :: string
  t_name :: string
  t_slug :: string
  t_normalizedSlug :: string
  t_status :: TenantStatus
  t_preset :: TenantPreset
  t_defaultCurrency :: string
  t_defaultTimezone :: string
  t_version :: int
  t_activatedAt :: "int option"
  t_suspendedAt :: "int option"
  t_updatedAt :: int

definition tenant_check :: "tenant_row \<Rightarrow> bool" where
  "tenant_check r \<longleftrightarrow> length (t_defaultCurrency r) = 3 \<and> 0 < t_version r"

definition tenant_clash :: "tenant_row \<Rightarrow> tenant_row \<Rightarrow> bool" where
  "tenant_clash r q \<longleftrightarrow> t_id r = t_id q \<or> t_normalizedSlug r = t_normalizedSlug q"

text \<open>
  The address document of a location, as far as the code reads it: numbers of the document are
  doubles; a missing field and a field of another type are \<open>None\<close>. The columns \<open>latitude\<close> and
  \<open>longitude\<close>, which repeat the document, are left out.
\<close>

record location_address =
  la_lat :: "rat option"
  la_lng :: "rat option"
  la_formattedAddress :: "string option"

record tenant_location_row =
  tl_id :: string
  tl_tenantId :: string
  tl_name :: string
  tl_timezone :: string
  tl_active :: bool
  tl_isPrimary :: bool
  tl_address :: "location_address option"
  tl_openingHours :: OpeningHours
  tl_updatedAt :: int

text \<open>One primary location per store.\<close>

definition tenant_location_clash :: "tenant_location_row \<Rightarrow> tenant_location_row \<Rightarrow> bool" where
  "tenant_location_clash r q \<longleftrightarrow> tl_id r = tl_id q
     \<or> tl_tenantId r = tl_tenantId q \<and> tl_isPrimary r \<and> tl_isPrimary q"

datatype MenuTheme = ClassicTheme | ReelsTheme

record tenant_settings_row =
  ts_tenantId :: string
  ts_contactName :: "string option"
  ts_contactEmail :: "string option"
  ts_contactPhone :: "string option"
  ts_salesEnabled :: bool
  ts_printingEnabled :: bool
  ts_orderPrefix :: string
  ts_menuTheme :: MenuTheme
  ts_slackCashAlertWebhookUrl :: "string option"
  ts_ownerCashAlertWhatsAppPhone :: "string option"
  ts_version :: int
  ts_updatedAt :: int

text \<open>\<open>^549[1-9][0-9]{9}$\<close> and \<open>^[A-Z0-9]{1,8}$\<close>.\<close>

definition owner_phone_re :: "string \<Rightarrow> bool" where
  "owner_phone_re p \<longleftrightarrow> take 3 p = ''549'' \<and> length p = 13 \<and> list_all is_digit p \<and> p ! 3 \<noteq> CHR ''0''"

definition order_prefix_re :: "string \<Rightarrow> bool" where
  "order_prefix_re p \<longleftrightarrow> p \<noteq> [] \<and> length p \<le> 8
     \<and> list_all (\<lambda>c. is_digit c \<or> 65 \<le> (of_char c :: nat) \<and> (of_char c :: nat) \<le> 90) p"

definition tenant_settings_check :: "tenant_settings_row \<Rightarrow> bool" where
  "tenant_settings_check r \<longleftrightarrow> 0 < ts_version r \<and> order_prefix_re (ts_orderPrefix r)
     \<and> (case ts_ownerCashAlertWhatsAppPhone r of None \<Rightarrow> True | Some p \<Rightarrow> owner_phone_re p)"

definition tenant_settings_clash :: "tenant_settings_row \<Rightarrow> tenant_settings_row \<Rightarrow> bool" where
  "tenant_settings_clash r q \<longleftrightarrow> ts_tenantId r = ts_tenantId q"

datatype IntegrationStatus = IaPending | IaActive | IaExpired | IaRevoked | IaError

record integration_row =
  ia_id :: string
  ia_tenantId :: string
  ia_providerAccountId :: string
  ia_status :: IntegrationStatus
  ia_envelope :: string
  ia_keyVersion :: int
  ia_scopes :: "string list"
  ia_expiresAt :: "int option"
  ia_lastVerifiedAt :: "int option"
  ia_webhookRoutingKey :: string
  ia_version :: int
  ia_updatedAt :: int

definition integration_live :: "integration_row \<Rightarrow> bool" where
  "integration_live r \<longleftrightarrow> ia_status r \<noteq> IaRevoked"

definition integration_clash :: "integration_row \<Rightarrow> integration_row \<Rightarrow> bool" where
  "integration_clash r q \<longleftrightarrow> ia_id r = ia_id q \<or> ia_webhookRoutingKey r = ia_webhookRoutingKey q
     \<or> integration_live r \<and> integration_live q
       \<and> (ia_providerAccountId r = ia_providerAccountId q \<or> ia_tenantId r = ia_tenantId q)"

definition integration_check :: "integration_row \<Rightarrow> bool" where
  "integration_check r \<longleftrightarrow> 0 < ia_keyVersion r \<and> 0 < ia_version r"

record entitlements =
  ent_catalogManagement :: bool
  ent_onlinePayments :: bool
  ent_printing :: bool

datatype PlanStatus = PlanActive | PlanInactive

record plan_row =
  pl_planId :: string
  pl_planVersion :: int
  pl_status :: PlanStatus
  pl_entitlements :: entitlements
  pl_effectiveFrom :: int
  pl_retiredAt :: "int option"

record entitlement_row =
  en_tenantId :: string
  en_planId :: string
  en_planVersion :: int
  en_entitlements :: entitlements
  en_sourceRequestId :: string
  en_effectiveAt :: int
  en_supersededAt :: "int option"

text \<open>One snapshot per store is in force, and one per request that made it.\<close>

definition entitlement_clash :: "entitlement_row \<Rightarrow> entitlement_row \<Rightarrow> bool" where
  "entitlement_clash r q \<longleftrightarrow> en_tenantId r = en_tenantId q
     \<and> (en_supersededAt r = None \<and> en_supersededAt q = None \<or> en_sourceRequestId r = en_sourceRequestId q)"

record tenant_counter_row =
  tc_tenantId :: string
  tc_counterType :: string
  tc_currentValue :: int

section \<open>Catalogue\<close>

datatype MediaStatus = MediaPending | MediaReady | MediaFailed | MediaArchived

record media_row =
  ma_id :: string
  ma_tenantId :: string
  ma_storageKey :: string
  ma_publicUrl :: "string option"
  ma_checksumSha256 :: string
  ma_mimeType :: string
  ma_byteSize :: int
  ma_status :: MediaStatus
  ma_updatedAt :: int

text \<open>\<open>^[a-f0-9]{64}$\<close>.\<close>

definition sha256_re :: "string \<Rightarrow> bool" where
  "sha256_re s \<longleftrightarrow> length s = 64
     \<and> list_all (\<lambda>c. is_digit c \<or> 97 \<le> (of_char c :: nat) \<and> (of_char c :: nat) \<le> 102) s"

definition media_check :: "media_row \<Rightarrow> bool" where
  "media_check r \<longleftrightarrow> sha256_re (ma_checksumSha256 r) \<and> 0 < ma_byteSize r"

definition media_clash :: "media_row \<Rightarrow> media_row \<Rightarrow> bool" where
  "media_clash r q \<longleftrightarrow> ma_id r = ma_id q \<or> ma_storageKey r = ma_storageKey q"

text \<open>Categories and add-on groups are draft, active or archived.\<close>

record category_row =
  cc_id :: string
  cc_tenantId :: string
  cc_name :: string
  cc_normalizedName :: string
  cc_description :: "string option"
  cc_sortOrder :: int
  cc_status :: CatalogStatus
  cc_version :: int
  cc_archivedAt :: "int option"
  cc_updatedAt :: int

definition category_check :: "category_row \<Rightarrow> bool" where
  "category_check r \<longleftrightarrow> 0 \<le> cc_sortOrder r \<and> 0 < cc_version r"

definition category_clash :: "category_row \<Rightarrow> category_row \<Rightarrow> bool" where
  "category_clash r q \<longleftrightarrow> cc_id r = cc_id q
     \<or> cc_tenantId r = cc_tenantId q \<and> cc_archivedAt r = None \<and> cc_archivedAt q = None
       \<and> cc_normalizedName r = cc_normalizedName q"

record catalog_item_row =
  ci_id :: string
  ci_tenantId :: string
  ci_categoryId :: string
  ci_name :: string
  ci_normalizedName :: string
  ci_description :: "string option"
  ci_price :: int
  ci_currency :: string
  ci_itemType :: ItemType
  ci_barcode :: "string option"
  ci_isGeneric :: bool
  ci_genericIcon :: "string option"
  ci_trackStock :: bool
  ci_stockQuantity :: int
  ci_imageAssetId :: "string option"
  ci_videoAssetId :: "string option"
  ci_status :: CatalogStatus
  ci_sortOrder :: int
  ci_version :: int
  ci_archivedAt :: "int option"
  ci_updatedAt :: int

definition catalog_item_check :: "catalog_item_row \<Rightarrow> bool" where
  "catalog_item_check r \<longleftrightarrow> 0 < ci_price r \<and> numeric12_2 (ci_price r) \<and> length (ci_currency r) = 3
     \<and> 0 \<le> ci_sortOrder r \<and> 0 \<le> ci_stockQuantity r \<and> 0 < ci_version r"

text \<open>Names are unique among the items that are not archived, and so are barcodes.\<close>

definition catalog_item_clash :: "catalog_item_row \<Rightarrow> catalog_item_row \<Rightarrow> bool" where
  "catalog_item_clash r q \<longleftrightarrow> ci_id r = ci_id q
     \<or> ci_tenantId r = ci_tenantId q \<and> ci_archivedAt r = None \<and> ci_archivedAt q = None
       \<and> (ci_normalizedName r = ci_normalizedName q \<or> ci_barcode r \<noteq> None \<and> ci_barcode r = ci_barcode q)"

record addon_group_row =
  agr_id :: string
  agr_tenantId :: string
  agr_name :: string
  agr_minSelected :: int
  agr_maxSelected :: int
  agr_sortOrder :: int
  agr_status :: CatalogStatus
  agr_version :: int
  agr_archivedAt :: "int option"
  agr_updatedAt :: int

definition addon_group_check :: "addon_group_row \<Rightarrow> bool" where
  "addon_group_check r \<longleftrightarrow> 0 \<le> agr_minSelected r \<and> agr_minSelected r \<le> agr_maxSelected r \<and> 0 < agr_version r"

record addon_option_row =
  aor_id :: string
  aor_tenantId :: string
  aor_groupId :: string
  aor_name :: string
  aor_description :: "string option"
  aor_priceDelta :: int
  aor_status :: CatalogStatus
  aor_sortOrder :: int
  aor_version :: int
  aor_archivedAt :: "int option"
  aor_updatedAt :: int

definition addon_option_check :: "addon_option_row \<Rightarrow> bool" where
  "addon_option_check r \<longleftrightarrow> 0 \<le> aor_priceDelta r \<and> numeric12_2 (aor_priceDelta r) \<and> 0 < aor_version r"

record item_addon_row =
  iag_tenantId :: string
  iag_itemId :: string
  iag_addonGroupId :: string
  iag_sortOrder :: int

definition item_addon_clash :: "item_addon_row \<Rightarrow> item_addon_row \<Rightarrow> bool" where
  "item_addon_clash r q \<longleftrightarrow> iag_tenantId r = iag_tenantId q \<and> iag_itemId r = iag_itemId q
     \<and> iag_addonGroupId r = iag_addonGroupId q"

record combo_row =
  cb_id :: string
  cb_tenantId :: string
  cb_categoryId :: string
  cb_name :: string
  cb_normalizedName :: string
  cb_description :: "string option"
  cb_price :: int
  cb_currency :: string
  cb_imageAssetId :: "string option"
  cb_status :: CatalogStatus
  cb_version :: int
  cb_archivedAt :: "int option"
  cb_updatedAt :: int

definition combo_check :: "combo_row \<Rightarrow> bool" where
  "combo_check r \<longleftrightarrow> 0 < cb_price r \<and> numeric12_2 (cb_price r) \<and> length (cb_currency r) = 3 \<and> 0 < cb_version r"

definition combo_clash :: "combo_row \<Rightarrow> combo_row \<Rightarrow> bool" where
  "combo_clash r q \<longleftrightarrow> cb_id r = cb_id q
     \<or> cb_tenantId r = cb_tenantId q \<and> cb_archivedAt r = None \<and> cb_archivedAt q = None
       \<and> cb_normalizedName r = cb_normalizedName q"

record combo_item_row =
  cbi_tenantId :: string
  cbi_comboId :: string
  cbi_itemId :: string
  cbi_quantity :: int
  cbi_sortOrder :: int

definition combo_item_check :: "combo_item_row \<Rightarrow> bool" where
  "combo_item_check r \<longleftrightarrow> 0 < cbi_quantity r \<and> 0 \<le> cbi_sortOrder r"

definition combo_item_clash :: "combo_item_row \<Rightarrow> combo_item_row \<Rightarrow> bool" where
  "combo_item_clash r q \<longleftrightarrow> cbi_tenantId r = cbi_tenantId q \<and> cbi_comboId r = cbi_comboId q \<and> cbi_itemId r = cbi_itemId q"

text \<open>The products of the whole platform, by bar code.\<close>

record global_product_row =
  gp_barcode :: string
  gp_name :: string
  gp_suggestedCategory :: "string option"
  gp_imageUrl :: "string option"
  gp_brand :: "string option"

section \<open>Search\<close>

record search_tenant_row =
  pst_tenantId :: string
  pst_tenantName :: string
  pst_tenantSlug :: string
  pst_locationName :: "string option"
  pst_locationAddress :: "string option"
  pst_lat :: "rat option"
  pst_lng :: "rat option"
  pst_categoriesCount :: int
  pst_isPubliclyEligible :: bool
  pst_updatedAt :: int

record search_entry_row =
  sn_id :: string
  sn_tenantId :: string
  sn_tenantSlug :: string
  sn_tenantName :: string
  sn_itemId :: string
  sn_itemName :: string
  sn_categoryId :: string
  sn_categoryName :: string
  sn_description :: "string option"
  sn_price :: int
  sn_currency :: string
  sn_imageUrl :: "string option"
  sn_isAvailable :: bool
  sn_updatedAt :: int

section \<open>Carts\<close>

datatype CartStatus = CartOpen | CartValidated | CartCheckoutStarted | CartConverted | CartExpired

record discount_metadata =
  dm_code :: string
  dm_name :: string
  dm_discountType :: DiscountType
  dm_discountValue :: string
  dm_savingsAmount :: string
  dm_tenderRestriction :: "string option"

record cart_row =
  c_id :: string
  c_tenantId :: string
  c_locationId :: string
  c_status :: CartStatus
  c_currency :: string
  c_subtotal :: int
  c_discountTotal :: int
  c_total :: int
  c_appliedDiscountCodeId :: "string option"
  c_discountMetadata :: "discount_metadata option"
  c_catalogRevision :: int
  c_verifiedAt :: "int option"
  c_expiresAt :: int
  c_version :: int
  c_createdAt :: int
  c_updatedAt :: int

definition cart_check :: "cart_row \<Rightarrow> bool" where
  "cart_check r \<longleftrightarrow> length (c_currency r) = 3
     \<and> 0 \<le> c_subtotal r \<and> 0 \<le> c_discountTotal r \<and> 0 \<le> c_total r
     \<and> numeric12_2 (c_subtotal r) \<and> numeric12_2 (c_discountTotal r) \<and> numeric12_2 (c_total r)
     \<and> 0 < c_version r"

definition cart_clash :: "cart_row \<Rightarrow> cart_row \<Rightarrow> bool" where
  "cart_clash r q \<longleftrightarrow> c_id r = c_id q"

record cart_line_row =
  cl_id :: string
  cl_tenantId :: string
  cl_cartId :: string
  cl_itemId :: "string option"
  cl_comboId :: "string option"
  cl_itemType :: ItemType
  cl_quantity :: int
  cl_nameSnapshot :: string
  cl_unitPriceSnapshot :: int
  cl_lineTotal :: int
  cl_imageUrlSnapshot :: "string option"
  cl_note :: "string option"
  cl_createdAt :: int

definition cart_line_check :: "cart_line_row \<Rightarrow> bool" where
  "cart_line_check r \<longleftrightarrow> ((cl_itemId r \<noteq> None) \<noteq> (cl_comboId r \<noteq> None)) \<and> 0 < cl_quantity r
     \<and> 0 \<le> cl_unitPriceSnapshot r \<and> 0 \<le> cl_lineTotal r
     \<and> numeric12_2 (cl_unitPriceSnapshot r) \<and> numeric12_2 (cl_lineTotal r)"

definition cart_line_clash :: "cart_line_row \<Rightarrow> cart_line_row \<Rightarrow> bool" where
  "cart_line_clash r q \<longleftrightarrow> cl_id r = cl_id q"

record cart_line_option_row =
  clo_id :: string
  clo_tenantId :: string
  clo_cartLineId :: string
  clo_addonGroupId :: string
  clo_addonOptionId :: string
  clo_nameSnapshot :: string
  clo_priceDeltaSnapshot :: int
  clo_quantity :: int

definition cart_line_option_check :: "cart_line_option_row \<Rightarrow> bool" where
  "cart_line_option_check r \<longleftrightarrow> 0 < clo_quantity r \<and> numeric12_2 (clo_priceDeltaSnapshot r)"

definition cart_line_option_clash :: "cart_line_option_row \<Rightarrow> cart_line_option_row \<Rightarrow> bool" where
  "cart_line_option_clash r q \<longleftrightarrow> clo_id r = clo_id q"

section \<open>Orders\<close>

datatype PaymentAttemptStatus =
  PaInitiated | PaProcessing | PaPending | PaApproved | PaRejected | PaFailed | PaDuplicate | PaVerificationRequired

record payment_attempt_row =
  pa_id :: string
  pa_tenantId :: string
  pa_cartId :: string
  pa_integrationAccountId :: string
  pa_providerPreferenceId :: "string option"
  pa_providerPaymentId :: "string option"
  pa_status :: PaymentAttemptStatus
  pa_amount :: int
  pa_currency :: string
  pa_customerSnapshot :: json
  pa_notes :: "string option"
  pa_scheduledFor :: "int option"
  pa_idempotencyKey :: string
  pa_processedAt :: "int option"
  pa_failureCode :: "string option"
  pa_createdAt :: int
  pa_updatedAt :: int

definition payment_attempt_check :: "payment_attempt_row \<Rightarrow> bool" where
  "payment_attempt_check r \<longleftrightarrow> 0 < pa_amount r \<and> numeric12_2 (pa_amount r)"

definition payment_attempt_clash :: "payment_attempt_row \<Rightarrow> payment_attempt_row \<Rightarrow> bool" where
  "payment_attempt_clash r q \<longleftrightarrow> pa_id r = pa_id q
     \<or> pa_tenantId r = pa_tenantId q \<and> pa_idempotencyKey r = pa_idempotencyKey q"

text \<open>The provider is always Mercado Pago, so its column is left out of the three tables.\<close>

datatype RouteType = RoutePayment | RoutePreference

record provider_route_row =
  pv_resourceType :: RouteType
  pv_externalId :: string
  pv_tenantId :: string
  pv_integrationAccountId :: string
  pv_localResourceId :: string

definition provider_route_clash :: "provider_route_row \<Rightarrow> provider_route_row \<Rightarrow> bool" where
  "provider_route_clash r q \<longleftrightarrow> pv_resourceType r = pv_resourceType q \<and> pv_externalId r = pv_externalId q"

datatype WebhookStatus = WhReceived | WhProcessing | WhProcessed | WhIgnored | WhFailed

record webhook_row =
  wh_id :: string
  wh_tenantId :: string
  wh_providerEventId :: string
  wh_topic :: string
  wh_signatureValid :: bool
  wh_status :: WebhookStatus
  wh_payload :: json
  wh_correlationId :: string

definition webhook_clash :: "webhook_row \<Rightarrow> webhook_row \<Rightarrow> bool" where
  "webhook_clash r q \<longleftrightarrow> wh_id r = wh_id q
     \<or> wh_tenantId r = wh_tenantId q \<and> wh_providerEventId r = wh_providerEventId q \<and> wh_topic r = wh_topic q"

text \<open>
  The settlement of a payment. An amount is in cents; \<open>None\<close> is the not-a-number a numeric column
  stores when the provider's text is not a number.
\<close>

record finance_row =
  fin_id :: string
  fin_tenantId :: string
  fin_locationId :: string
  fin_orderId :: string
  fin_mpPaymentId :: string
  fin_grossAmount :: "int option"
  fin_feeAmount :: "int option"
  fin_feeDetails :: json
  fin_taxesAmount :: "int option"
  fin_taxesDetails :: json
  fin_netReceivedAmount :: "int option"
  fin_isFeeInclusiveOfTax :: bool
  fin_moneyReleased :: bool
  fin_moneyReleaseExpectedAt :: "int option"
  fin_moneyReleasedAt :: "int option"
  fin_settlementDate :: int
  fin_updatedAt :: int

definition finance_check :: "finance_row \<Rightarrow> bool" where
  "finance_check r \<longleftrightarrow> list_all (\<lambda>c. case c of None \<Rightarrow> True | Some x \<Rightarrow> numeric12_2 x)
     [fin_grossAmount r, fin_feeAmount r, fin_taxesAmount r, fin_netReceivedAmount r]"

datatype OrderTender = TCash | TPosnet

record discount_snapshot =
  ds_discountId :: string
  ds_code :: string
  ds_name :: string
  ds_discountType :: DiscountType
  ds_discountValue :: string
  ds_amountDeducted :: int

record order_row =
  o_id :: string
  o_tenantId :: string
  o_locationId :: string
  o_cartId :: string
  o_paymentAttemptId :: "string option"
  o_purchaseNumber :: int
  o_source :: OrderSource
  o_fulfillmentStatus :: FulfillmentStatus
  o_paymentStatus :: PaymentStatus
  o_tender :: OrderTender
  o_customerSnapshot :: json
  o_notes :: "string option"
  o_subtotal :: int
  o_discountTotal :: int
  o_total :: int
  o_discountSnapshot :: "discount_snapshot option"
  o_pickupPin :: "string option"
  o_estimatedWaitMinutes :: "int option"
  o_estimatedReadyAt :: "int option"
  o_scheduledFor :: "int option"
  o_paymentExpiresAt :: "int option"
  o_currency :: string
  o_idempotencyKey :: string
  o_approvedAt :: "int option"
  o_deliveredAt :: "int option"
  o_version :: int
  o_createdAt :: int
  o_updatedAt :: int

definition order_check :: "order_row \<Rightarrow> bool" where
  "order_check r \<longleftrightarrow> length (o_currency r) = 3
     \<and> 0 \<le> o_subtotal r \<and> 0 \<le> o_discountTotal r \<and> 0 \<le> o_total r
     \<and> numeric12_2 (o_subtotal r) \<and> numeric12_2 (o_discountTotal r) \<and> numeric12_2 (o_total r)
     \<and> 0 < o_version r"

definition order_clash :: "order_row \<Rightarrow> order_row \<Rightarrow> bool" where
  "order_clash r q \<longleftrightarrow> o_id r = o_id q
     \<or> o_tenantId r = o_tenantId q \<and> (o_purchaseNumber r = o_purchaseNumber q \<or> o_idempotencyKey r = o_idempotencyKey q)"

record order_line_row =
  ol_id :: string
  ol_tenantId :: string
  ol_orderId :: string
  ol_sourceItemId :: "string option"
  ol_sourceComboId :: "string option"
  ol_itemType :: ItemType
  ol_name :: string
  ol_quantity :: int
  ol_unitPrice :: int
  ol_lineTotal :: int
  ol_imageUrl :: "string option"
  ol_note :: "string option"
  ol_createdAt :: int

definition order_line_check :: "order_line_row \<Rightarrow> bool" where
  "order_line_check r \<longleftrightarrow> 0 < ol_quantity r \<and> 0 \<le> ol_unitPrice r \<and> 0 \<le> ol_lineTotal r
     \<and> numeric12_2 (ol_unitPrice r) \<and> numeric12_2 (ol_lineTotal r)"

definition order_line_clash :: "order_line_row \<Rightarrow> order_line_row \<Rightarrow> bool" where
  "order_line_clash r q \<longleftrightarrow> ol_id r = ol_id q"

record order_line_option_row =
  olo_id :: string
  olo_tenantId :: string
  olo_orderLineId :: string
  olo_addonGroupId :: "string option"
  olo_addonOptionId :: "string option"
  olo_name :: string
  olo_priceDelta :: int
  olo_quantity :: int

definition order_line_option_check :: "order_line_option_row \<Rightarrow> bool" where
  "order_line_option_check r \<longleftrightarrow> 0 < olo_quantity r \<and> numeric12_2 (olo_priceDelta r)"

definition order_line_option_clash :: "order_line_option_row \<Rightarrow> order_line_option_row \<Rightarrow> bool" where
  "order_line_option_clash r q \<longleftrightarrow> olo_id r = olo_id q"

record order_event_row =
  oe_id :: string
  oe_tenantId :: string
  oe_orderId :: string
  oe_sequence :: int
  oe_eventType :: string
  oe_fromStatus :: "FulfillmentStatus option"
  oe_toStatus :: "FulfillmentStatus option"
  oe_actorUserId :: "string option"
  oe_metadata :: json
  oe_occurredAt :: int

definition order_event_clash :: "order_event_row \<Rightarrow> order_event_row \<Rightarrow> bool" where
  "order_event_clash r q \<longleftrightarrow> oe_id r = oe_id q \<or> oe_tenantId r = oe_tenantId q \<and> oe_sequence r = oe_sequence q"

section \<open>Events, outbox, idempotency, audit\<close>

record outbox_row =
  ob_id :: string
  ob_tenantId :: string
  ob_aggregateType :: string
  ob_aggregateId :: string
  ob_eventType :: string
  ob_payload :: json
  ob_sequence :: int
  ob_availableAt :: int
  ob_publishedAt :: "int option"
  ob_attempts :: int
  ob_claimedBy :: "string option"
  ob_leasedUntil :: "int option"
  ob_lastError :: "string option"
  ob_deadLetterAt :: "int option"

definition outbox_clash :: "outbox_row \<Rightarrow> outbox_row \<Rightarrow> bool" where
  "outbox_clash r q \<longleftrightarrow> ob_id r = ob_id q \<or> ob_tenantId r = ob_tenantId q \<and> ob_sequence r = ob_sequence q"

datatype IdempotencyState = Processing | Completed | Failed

record idempotency_row =
  ir_id :: string
  ir_tenantId :: "string option"
  ir_scope :: string
  ir_idempotencyKey :: string
  ir_requestHash :: string
  ir_state :: IdempotencyState
  ir_responseStatus :: "int option"
  ir_responseBody :: "json option"
  ir_lockedUntil :: int
  ir_expiresAt :: int
  ir_updatedAt :: int

text \<open>The unique key treats a missing tenant as equal to a missing tenant.\<close>

definition idempotency_clash :: "idempotency_row \<Rightarrow> idempotency_row \<Rightarrow> bool" where
  "idempotency_clash r q \<longleftrightarrow> ir_id r = ir_id q
     \<or> ir_tenantId r = ir_tenantId q \<and> ir_scope r = ir_scope q \<and> ir_idempotencyKey r = ir_idempotencyKey q"

datatype AuditOutcome = Allowed | Denied | AuditFailed

record audit_row =
  au_id :: string
  au_tenantId :: "string option"
  au_actorUserId :: "string option"
  au_correlationId :: string
  au_action :: string
  au_resourceType :: string
  au_resourceId :: string
  au_outcome :: AuditOutcome
  au_metadata :: json
  au_occurredAt :: int

section \<open>Discounts\<close>

record discount_row =
  d_id :: string
  d_tenantId :: string
  d_code :: string
  d_name :: string
  d_description :: "string option"
  d_discountType :: DiscountType
  d_discountValue :: int
  d_minOrderAmount :: int
  d_maxRedemptions :: "int option"
  d_redemptionsCount :: int
  d_startsAt :: int
  d_endsAt :: "int option"
  d_scope :: DiscountScope
  d_applicableTender :: ApplicableTender
  d_targetCategoryIds :: "string list"
  d_targetItemIds :: "string list"
  d_isActive :: bool
  d_version :: int
  d_deletedAt :: "int option"
  d_createdAt :: int
  d_updatedAt :: int

definition discount_check :: "discount_row \<Rightarrow> bool" where
  "discount_check r \<longleftrightarrow> 0 < d_discountValue r \<and> 0 \<le> d_minOrderAmount r
     \<and> numeric12_2 (d_discountValue r) \<and> numeric12_2 (d_minOrderAmount r)
     \<and> (d_discountType r \<noteq> Percentage \<or> d_discountValue r \<le> 100 * 100)
     \<and> (case d_endsAt r of None \<Rightarrow> True | Some e \<Rightarrow> d_startsAt r \<le> e)
     \<and> 0 \<le> d_redemptionsCount r
     \<and> (case d_maxRedemptions r of None \<Rightarrow> True | Some m \<Rightarrow> d_redemptionsCount r \<le> m)
     \<and> 0 < d_version r"

definition discount_clash :: "discount_row \<Rightarrow> discount_row \<Rightarrow> bool" where
  "discount_clash r q \<longleftrightarrow> d_id r = d_id q \<or> d_tenantId r = d_tenantId q \<and> d_code r = d_code q"

datatype RedemptionStatus = Redeemed | OrderCancelled

record redemption_row =
  rd_id :: string
  rd_tenantId :: string
  rd_discountId :: string
  rd_orderId :: string
  rd_cartId :: string
  rd_amountDeducted :: int
  rd_codeSnapshot :: string
  rd_status :: RedemptionStatus
  rd_redeemedAt :: int

definition redemption_clash :: "redemption_row \<Rightarrow> redemption_row \<Rightarrow> bool" where
  "redemption_clash r q \<longleftrightarrow> rd_id r = rd_id q \<or> rd_tenantId r = rd_tenantId q \<and> rd_orderId r = rd_orderId q"

text \<open>\<open>discount_categories\<close> and \<open>discount_items\<close>: tenant, discount, target.\<close>

type_synonym discount_target_row = "string \<times> string \<times> string"

section \<open>The cash register\<close>

datatype CashShiftStatus = ShiftOpen | ShiftClosed

record cash_shift_row =
  cs_id :: string
  cs_tenantId :: string
  cs_locationId :: "string option"
  cs_registerIdentifier :: string
  cs_openedByUserId :: string
  cs_openingBalance :: int
  cs_closingBalance :: "int option"
  cs_expectedCash :: "int option"
  cs_status :: CashShiftStatus
  cs_openedAt :: int
  cs_closedAt :: "int option"
  cs_notes :: "string option"
  cs_updatedAt :: int

definition cash_shift_check :: "cash_shift_row \<Rightarrow> bool" where
  "cash_shift_check r \<longleftrightarrow> 0 \<le> cs_openingBalance r \<and> numeric12_2 (cs_openingBalance r)
     \<and> (case cs_closingBalance r of None \<Rightarrow> True | Some c \<Rightarrow> numeric12_2 c)
     \<and> (case cs_expectedCash r of None \<Rightarrow> True | Some c \<Rightarrow> numeric12_2 c)"

text \<open>The partial unique index: one open shift per register of a location; null locations differ.\<close>

definition cash_shift_clash :: "cash_shift_row \<Rightarrow> cash_shift_row \<Rightarrow> bool" where
  "cash_shift_clash r q \<longleftrightarrow> cs_id r = cs_id q
     \<or> cs_status r = ShiftOpen \<and> cs_status q = ShiftOpen \<and> cs_tenantId r = cs_tenantId q
       \<and> cs_locationId r \<noteq> None \<and> cs_locationId r = cs_locationId q
       \<and> cs_registerIdentifier r = cs_registerIdentifier q"

datatype CashMovementType =
  SaleDeposit | CancellationWithdrawal | OpeningFloat | ManualCashIn | CashDrop | ExpensePayout

record cash_movement_row =
  cm_id :: string
  cm_tenantId :: string
  cm_locationId :: string
  cm_shiftId :: "string option"
  cm_orderId :: "string option"
  cm_type :: CashMovementType
  cm_amount :: int
  cm_occurredAt :: int
  cm_recordedByUserId :: "string option"
  cm_reason :: "string option"
  cm_idempotencyKey :: "string option"

definition cash_movement_check :: "cash_movement_row \<Rightarrow> bool" where
  "cash_movement_check r \<longleftrightarrow> 0 \<le> cm_amount r \<and> numeric12_2 (cm_amount r)"

definition cash_movement_clash :: "cash_movement_row \<Rightarrow> cash_movement_row \<Rightarrow> bool" where
  "cash_movement_clash r q \<longleftrightarrow> cm_id r = cm_id q
     \<or> cm_tenantId r = cm_tenantId q
       \<and> (cm_idempotencyKey r \<noteq> None \<and> cm_idempotencyKey r = cm_idempotencyKey q
          \<or> cm_orderId r \<noteq> None \<and> cm_orderId r = cm_orderId q \<and> cm_type r = cm_type q)"

section \<open>Printing and billing\<close>

datatype PrintJobStatus = PjPending | PjProcessing | PjPrinted | PjFailed | PjCancelled

record print_job_row =
  pj_id :: string
  pj_tenantId :: string
  pj_locationId :: string
  pj_orderId :: string
  pj_status :: PrintJobStatus
  pj_idempotencyKey :: string
  pj_payload :: json
  pj_attemptCount :: int
  pj_claimedByAgentId :: "string option"
  pj_leaseExpiresAt :: "int option"
  pj_nextAttemptAt :: "int option"
  pj_printedAt :: "int option"
  pj_lastErrorCode :: "string option"
  pj_lastErrorMessage :: "string option"
  pj_createdAt :: int
  pj_updatedAt :: int

definition print_job_clash :: "print_job_row \<Rightarrow> print_job_row \<Rightarrow> bool" where
  "print_job_clash r q \<longleftrightarrow> pj_id r = pj_id q
     \<or> pj_tenantId r = pj_tenantId q \<and> pj_idempotencyKey r = pj_idempotencyKey q"

record print_agent_row =
  ag_rowId :: string
  ag_tenantId :: string
  ag_locationId :: string
  ag_name :: string
  ag_tokenPrefix :: string
  ag_tokenDigest :: string
  ag_active :: bool
  ag_lastSeenAt :: "int option"
  ag_updatedAt :: int

definition print_agent_clash :: "print_agent_row \<Rightarrow> print_agent_row \<Rightarrow> bool" where
  "print_agent_clash r q \<longleftrightarrow> ag_rowId r = ag_rowId q \<or> ag_tokenPrefix r = ag_tokenPrefix q"

datatype PairingStatus = PairPending | PairClaimed | PairExpired

record print_pairing_row =
  pp_id :: string
  pp_tenantId :: string
  pp_locationId :: string
  pp_codeDigest :: string
  pp_status :: PairingStatus
  pp_attempts :: int
  pp_expiresAt :: int
  pp_claimedAgentId :: "string option"
  pp_createdAt :: int
  pp_updatedAt :: int

definition print_pairing_check :: "print_pairing_row \<Rightarrow> bool" where
  "print_pairing_check r \<longleftrightarrow> 0 \<le> pp_attempts r \<and> pp_attempts r \<le> 5"

definition print_pairing_clash :: "print_pairing_row \<Rightarrow> print_pairing_row \<Rightarrow> bool" where
  "print_pairing_clash r q \<longleftrightarrow> pp_id r = pp_id q \<or> pp_codeDigest r = pp_codeDigest q"

datatype PrintAttemptStatus = PatClaimed | PatPrinted | PatFailed | PatLeaseExpired

record print_attempt_row =
  pt_id :: string
  pt_tenantId :: string
  pt_printJobId :: string
  pt_agentId :: string
  pt_attemptNumber :: int
  pt_status :: PrintAttemptStatus
  pt_errorCode :: "string option"
  pt_errorMessage :: "string option"
  pt_finishedAt :: "int option"

definition print_attempt_clash :: "print_attempt_row \<Rightarrow> print_attempt_row \<Rightarrow> bool" where
  "print_attempt_clash r q \<longleftrightarrow> pt_id r = pt_id q
     \<or> pt_tenantId r = pt_tenantId q \<and> pt_printJobId r = pt_printJobId q
       \<and> pt_attemptNumber r = pt_attemptNumber q \<and> pt_status r = pt_status q"

datatype FiscalDocumentType =
  FacturaA | FacturaB | FacturaC | NotaCreditoA | NotaCreditoB | NotaCreditoC
| NotaDebitoA | NotaDebitoB | ReciboX | TicketInterno

datatype CustomerDocType = DNI | CUIT | CUIL | CF | PASSPORT | OTHER

record billing_row =
  bd_id :: string
  bd_tenantId :: string
  bd_locationId :: "string option"
  bd_orderId :: string
  bd_documentType :: FiscalDocumentType
  bd_pointOfSale :: int
  bd_documentNumber :: int
  bd_currency :: string
  bd_netAmount :: int
  bd_vatAmount :: int
  bd_discountAmount :: int
  bd_totalAmount :: int
  bd_customerDocType :: CustomerDocType
  bd_customerDocNumber :: "string option"
  bd_customerName :: "string option"
  bd_issuedAt :: int

definition billing_check :: "billing_row \<Rightarrow> bool" where
  "billing_check r \<longleftrightarrow> 0 \<le> bd_netAmount r \<and> 0 \<le> bd_vatAmount r \<and> 0 \<le> bd_discountAmount r
     \<and> 0 \<le> bd_totalAmount r \<and> numeric12_2 (bd_netAmount r) \<and> numeric12_2 (bd_vatAmount r)
     \<and> numeric12_2 (bd_discountAmount r) \<and> numeric12_2 (bd_totalAmount r)
     \<and> length (bd_currency r) = 3 \<and> 0 < bd_pointOfSale r \<and> 0 < bd_documentNumber r"

definition billing_clash :: "billing_row \<Rightarrow> billing_row \<Rightarrow> bool" where
  "billing_clash r q \<longleftrightarrow> bd_id r = bd_id q
     \<or> bd_tenantId r = bd_tenantId q \<and> bd_pointOfSale r = bd_pointOfSale q
       \<and> bd_documentType r = bd_documentType q \<and> bd_documentNumber r = bd_documentNumber q"

section \<open>Identities\<close>

datatype UserStatus = PendingVerification | ActiveUser | DisabledUser

record user_row =
  us_id :: string
  us_email :: string
  us_normalizedEmail :: string
  us_passwordHash :: string
  us_status :: UserStatus
  us_emailVerifiedAt :: "int option"
  us_updatedAt :: int

definition user_clash :: "user_row \<Rightarrow> user_row \<Rightarrow> bool" where
  "user_clash r q \<longleftrightarrow> us_id r = us_id q \<or> us_normalizedEmail r = us_normalizedEmail q"

record session_row =
  se_id :: string
  se_userId :: string
  se_tokenDigest :: string
  se_expiresAt :: int
  se_revokedAt :: "int option"
  se_lastSeenAt :: int
  se_metadata :: json

definition session_clash :: "session_row \<Rightarrow> session_row \<Rightarrow> bool" where
  "session_clash r q \<longleftrightarrow> se_id r = se_id q \<or> se_tokenDigest r = se_tokenDigest q"

record challenge_row =
  ch_id :: string
  ch_userId :: string
  ch_purpose :: string
  ch_tokenDigest :: string
  ch_expiresAt :: int
  ch_consumedAt :: "int option"
  ch_attemptCount :: int
  ch_createdAt :: int

definition challenge_clash :: "challenge_row \<Rightarrow> challenge_row \<Rightarrow> bool" where
  "challenge_clash r q \<longleftrightarrow> ch_id r = ch_id q \<or> ch_tokenDigest r = ch_tokenDigest q
     \<or> ch_consumedAt r = None \<and> ch_consumedAt q = None \<and> ch_userId r = ch_userId q \<and> ch_purpose r = ch_purpose q"

record handoff_row =
  ho_id :: string
  ho_tenantId :: string
  ho_userId :: string
  ho_tokenDigest :: string
  ho_expiresAt :: int
  ho_consumedAt :: "int option"

record membership_row =
  me_id :: string
  me_tenantId :: string
  me_userId :: string
  me_role :: Role
  me_active :: bool
  me_createdAt :: int
  me_updatedAt :: int

definition membership_clash :: "membership_row \<Rightarrow> membership_row \<Rightarrow> bool" where
  "membership_clash r q \<longleftrightarrow> me_id r = me_id q \<or> me_tenantId r = me_tenantId q \<and> me_userId r = me_userId q"

end
