(* ===== verification/Db.thy ===== *)
theory Db
  imports Schema
begin

text \<open>
  The state of the database, the environment of one request, the errors the services throw, and
  the operations every service is built from: sequence counters and the append-only logs
  (\<open>src/lib/outbox/outbox.service.ts\<close>, \<open>src/lib/audit/audit.service.ts\<close>, and the counters and
  events of \<open>src/features/orders/infrastructure/order.repository.ts\<close>).

  \<^item> A service takes the environment \<open>env\<close>, the tenant context and the state, and returns an error
    or its result with the new state; \<open>with_tenant\<close> is \<open>withTenantTransaction\<close>.
  \<^item> Requests run one after another, each transaction as a whole; where two transactions that
    interleave do something else it is stated by itself (\<open>CashShift\<close>, \<open>Delivery\<close>).
  \<^item> The clock is read once per request: every \<open>new Date()\<close> and \<open>now()\<close> of a request is \<open>e_now\<close>.
  \<^item> The lemmas of \<open>db_simps\<close> give each operation's result as an explicit update of the state, so
    that what it leaves alone is read off; \<open>others\<close> is the part of the state that belongs to
    other tenants, and \<open>db_frame\<close> collects that the operations of a tenant do not touch it.
\<close>

record db =
  tb_tenants :: "tenant_row list"
  tb_locations :: "tenant_location_row list"
  tb_settings :: "tenant_settings_row list"
  tb_integrations :: "integration_row list"
  tb_counters :: "tenant_counter_row list"
  tb_items :: "catalog_item_row list"
  tb_media :: "media_row list"
  tb_categories :: "category_row list"
  tb_addonGroups :: "addon_group_row list"
  tb_addonOptions :: "addon_option_row list"
  tb_itemAddonGroups :: "item_addon_row list"
  tb_combos :: "combo_row list"
  tb_comboItems :: "combo_item_row list"
  tb_carts :: "cart_row list"
  tb_cartLines :: "cart_line_row list"
  tb_cartLineOptions :: "cart_line_option_row list"
  tb_attempts :: "payment_attempt_row list"
  tb_orders :: "order_row list"
  tb_orderLines :: "order_line_row list"
  tb_orderLineOptions :: "order_line_option_row list"
  tb_orderEvents :: "order_event_row list"
  tb_outbox :: "outbox_row list"
  tb_idempotency :: "idempotency_row list"
  tb_audit :: "audit_row list"
  tb_discounts :: "discount_row list"
  tb_discountCategories :: "discount_target_row list"
  tb_discountItems :: "discount_target_row list"
  tb_redemptions :: "redemption_row list"
  tb_shifts :: "cash_shift_row list"
  tb_movements :: "cash_movement_row list"
  tb_printJobs :: "print_job_row list"
  tb_printAttempts :: "print_attempt_row list"
  tb_printAgents :: "print_agent_row list"
  tb_billing :: "billing_row list"
  tb_entitlements :: "entitlement_row list"
  tb_routes :: "provider_route_row list"
  tb_webhooks :: "webhook_row list"
  tb_finance :: "finance_row list"
  tb_pairings :: "print_pairing_row list"
  tb_users :: "user_row list"
  tb_sessions :: "session_row list"
  tb_challenges :: "challenge_row list"
  tb_handoffs :: "handoff_row list"
  tb_memberships :: "membership_row list"
  tb_plans :: "plan_row list"
  tb_products :: "global_product_row list"
  tb_searchTenants :: "search_tenant_row list"
  tb_searchEntries :: "search_entry_row list"
  uuid_next :: nat

text \<open>
  What a request sees of the world: the clock, the supply of random ids, the random four digits
  of a pickup PIN, the hexadecimal SHA-256 of the text of a JSON value, the collation of
  \<open>localeCompare\<close>, the reading of a date string, the fields of an instant in a time zone, and
  the Argentine short form of a date on a ticket, the hexadecimal SHA-256 of a text, the random
  secrets and the random codes below ten thousand. In JSON values an instant is its number of
  milliseconds (the code writes its ISO text and reads it back). The role of its connection says
  which policies of the database bind it.
\<close>

datatype db_role = KomandaRuntime | KomandaMigration

record env =
  e_now :: int
  e_uuid :: "nat \<Rightarrow> string"
  e_pin :: string
  e_hash :: "json \<Rightarrow> string"
  e_collate :: "string \<Rightarrow> string \<Rightarrow> bool"
  e_parseDate :: "string \<Rightarrow> int option"
  e_zone :: "string \<Rightarrow> int \<Rightarrow> (string \<times> string) list"
  e_ticketDate :: "int \<Rightarrow> string"
  e_digest :: "string \<Rightarrow> string"
  e_secret :: "nat \<Rightarrow> string"
  e_code :: "nat \<Rightarrow> int"
  e_role :: db_role

text \<open>An empty database and a plain environment, at which the properties are exercised.\<close>

definition empty_db :: db where
  "empty_db = \<lparr>tb_tenants = [], tb_locations = [], tb_settings = [], tb_integrations = [], tb_counters = [],
     tb_items = [], tb_media = [], tb_categories = [], tb_addonGroups = [], tb_addonOptions = [],
     tb_itemAddonGroups = [], tb_combos = [], tb_comboItems = [], tb_carts = [], tb_cartLines = [], tb_cartLineOptions = [], tb_attempts = [],
     tb_orders = [], tb_orderLines = [], tb_orderLineOptions = [], tb_orderEvents = [],
     tb_outbox = [], tb_idempotency = [], tb_audit = [], tb_discounts = [],
     tb_discountCategories = [], tb_discountItems = [], tb_redemptions = [], tb_shifts = [],
     tb_movements = [], tb_printJobs = [], tb_printAttempts = [], tb_printAgents = [], tb_billing = [],
     tb_entitlements = [], tb_routes = [], tb_webhooks = [], tb_finance = [], tb_pairings = [],
     tb_users = [], tb_sessions = [], tb_challenges = [], tb_handoffs = [], tb_memberships = [],
     tb_plans = [], tb_products = [], tb_searchTenants = [], tb_searchEntries = [], uuid_next = 0\<rparr>"

definition sample_env :: env where
  "sample_env = \<lparr>e_now = 1700000000000,
     e_uuid = (\<lambda>n. ''00000000-0000-4000-8000-'' @ pad_start 12 (CHR ''0'') (nat_str n)), e_pin = ''4821'',
     e_hash = (\<lambda>v. if v = JNull then ''0'' else ''1''), e_collate = (\<lambda>a b. length a \<le> length b),
     e_parseDate = (\<lambda>_. None), e_zone = (\<lambda>_ _. []), e_ticketDate = (\<lambda>_. []),
     e_digest = (\<lambda>t. t), e_secret = nat_str, e_code = int, e_role = KomandaRuntime\<rparr>"

definition sample_context :: TenantContext where
  "sample_context = \<lparr>ctx_tenantId = ''t1'', ctx_correlationId = ''r1'', ctx_source = SrcAdministrative,
     ctx_actor = UserActor ''s1'' ''owner1'' Owner, ctx_locationId = Some ''l1''\<rparr>"

datatype conflict =
  CartAlreadyConverted | CartExpiredOrMissing | CartEmpty | InsufficientStock string | StaleVersion
| UseRefundCash | WithdrawalRecorded | AlreadyCancelled | AlreadyRefunded | NotCash | CollectExpired
| AlreadyDelivered | NotPaid | NotPendingCash | AttemptNotApproved | CouponInvalid IneligibilityReason
| CouponUnknown | CouponCashOnly | ProductUnavailable string | CartUnusable

datatype payment_error =
  SessionCartUnavailable | SessionConflict | ProviderUnavailable | AttemptConflict | IntegrationConflict
| AccountAlreadyLinked | WebhookRouting | WebhookProvider | AttemptNotFound | NoIntegration
| KioskCartUnavailable | KioskItemUnavailable | GatewayNotConfigured | InvalidDate
| OAuthStateInvalid | MembershipInactive | IntegrationDependency

datatype printing_error =
  PrintAgentNotFound | PrintAgentEntitlement | PairingNotFound | PairingEntitlement

datatype identity_error =
  InvalidSession | InvalidCredentials | TenantAccessUnavailable | InvalidChallenge | InvalidHandoff
| InvalidResetToken | UserAlreadyMember | LastOwner | MembershipNotFound

datatype catalog_error =
  CatalogNotFound | CatalogConflict | CatalogEntitlementDenied | CatalogRuleViolation
| MediaAssetNotFound | MediaVerification | UnknownSelection

datatype tenancy_error =
  SettingsNotFound | SettingsConflict | ActivationConflict | SettingsEntitlementDenied
| SlugAlreadyTaken | EmailAlreadyTaken | AccountMismatch | AccountDisabled
| PlanUnavailable | ProvisioningConflict | ReplayIncomplete

datatype app_error =
  DbError db_error
| CatalogError catalog_error
| TenancyError tenancy_error
| PaymentError payment_error
| PrintingError printing_error
| IdentityError identity_error
| OrderNotFound
| OrderConflict conflict
| TransitionError OrderTransitionError
| NotCollectedYet
| PaymentUnverified
| InvalidPickupPin
| OrderAlreadyPaid
| ForbiddenRole
| IdempotencyConflict
| IdempotencyInProgress
| IdempotencyLost
| BusinessClosed
| OrderingNotSupported
| CashOrderCartUnavailable
| CartVersionMismatch
| CouponTenderMismatch
| SchedulingError OrderSchedulingError
| BillingOrderNotFound
| ValidationError
| CartNotFound
| CartRevalidation CartRevalidationError
| DiscountNotFound
| DiscountConflict
| DiscountEmptyCode
| CashShiftConflict
| CashShiftNotFound
| PrintContextRequired
| PrintJobNotFound
| LeaseMissing
| StorefrontNotFound
| InvalidSlug
| ReadinessUnavailable
| CartDiscountIneligible "IneligibilityReason option"
| RateLimited int
| OrderValidation
| ContextRejected
| InternalError

definition lift_db :: "db_error + 'a \<Rightarrow> app_error + 'a" where
  "lift_db m = (case m of Inl e \<Rightarrow> Inl (DbError e) | Inr x \<Rightarrow> Inr x)"

lemma lift_db_Inr [simp]: "lift_db m = Inr x \<longleftrightarrow> m = Inr x"
  by (simp add: lift_db_def split: sum.split)

text \<open>
  \<open>withTenantTransaction\<close>: one transaction, whose session settings name the tenant; the row
  level security of the database reads them, and every query of the code names the tenant
  again in its condition, which is what is modelled.
\<close>

definition with_tenant :: "(db \<Rightarrow> app_error + 'a \<times> db) \<Rightarrow> db \<Rightarrow> (app_error + 'a) \<times> db" where
  "with_tenant body s = transact body s"

text \<open>
  The row level security of a table whose policies are \<open>tenant_id = app.tenant_id\<close> for the runtime
  role and \<open>true\<close> for the role of the migrations (\<open>src/drizzle/0000_initial_schema.sql\<close>): the store
  whose rows a statement may see, by the setting of its session; \<open>None\<close> when it is empty.
\<close>

definition row_visible :: "env \<Rightarrow> string option \<Rightarrow> string \<Rightarrow> bool" where
  "row_visible e setting tenantId \<longleftrightarrow> e_role e = KomandaMigration \<or> setting = Some tenantId"

definition fresh_id :: "env \<Rightarrow> db \<Rightarrow> string" where
  "fresh_id e s = e_uuid e (uuid_next s)"

text \<open>\<open>update .. set f where P returning\<close>: the new rows must satisfy the table's checks.\<close>

definition update_rows ::
  "('r \<Rightarrow> bool) \<Rightarrow> ('r \<Rightarrow> bool) \<Rightarrow> ('r \<Rightarrow> 'r) \<Rightarrow> 'r list \<Rightarrow> db_error + 'r option \<times> 'r list" where
  "update_rows chk P f t =
     (if list_ex (\<lambda>r. P r \<and> \<not> chk (f r)) t then Inl CheckViolation else Inr (upd_ret P f t, upd P f t))"

lemma update_rows_Inr:
  "update_rows chk P f t = Inr (ret, t') \<longleftrightarrow>
     (\<forall>r \<in> set t. P r \<longrightarrow> chk (f r)) \<and> ret = map_option f (sel1 P t) \<and> t' = upd P f t"
  by (auto simp: update_rows_def upd_ret_sel1 list_ex_iff)

text \<open>
  The text form of a \<open>numeric(12, 2)\<close> the code hands to the driver: digits with at most two
  decimals, the shape every validator of the code enforces; the database refuses anything else
  the code can produce, and values out of range.
\<close>

definition decimal_re :: "string \<Rightarrow> bool" where
  "decimal_re s = (case js_split (CHR ''.'') s of
      [w] \<Rightarrow> w \<noteq> [] \<and> list_all is_digit w
    | [w, f] \<Rightarrow> w \<noteq> [] \<and> list_all is_digit w \<and> list_all is_digit f \<and> (length f = 1 \<or> length f = 2)
    | _ \<Rightarrow> False)"

definition numeric_text :: "string \<Rightarrow> db_error + int" where
  "numeric_text s =
     (if decimal_re s
      then (case moneyToCents s of
              None \<Rightarrow> Inl InvalidNumeric
            | Some c \<Rightarrow> if numeric12_2 c then Inr c else Inl InvalidNumeric)
      else Inl InvalidNumeric)"

definition upper_char :: "char \<Rightarrow> char" where
  "upper_char c = (if 97 \<le> (of_char c :: nat) \<and> (of_char c :: nat) \<le> 122 then char_of ((of_char c :: nat) - 32) else c)"

definition to_upper :: "string \<Rightarrow> string" where
  "to_upper s = map upper_char s"

section \<open>Counters\<close>

definition nextCounter :: "string \<Rightarrow> string \<Rightarrow> db \<Rightarrow> int \<times> db" where
  "nextCounter tid counterType s =
     (let here = (\<lambda>r. tc_tenantId r = tid \<and> tc_counterType r = counterType) in
      case sel1 here (tb_counters s) of
        None \<Rightarrow> (1, s\<lparr>tb_counters := tb_counters s @
          [\<lparr>tc_tenantId = tid, tc_counterType = counterType, tc_currentValue = 1\<rparr>]\<rparr>)
      | Some r \<Rightarrow> (tc_currentValue r + 1,
          s\<lparr>tb_counters := upd here (\<lambda>r. r\<lparr>tc_currentValue := tc_currentValue r + 1\<rparr>) (tb_counters s)\<rparr>))"

definition counter :: "string \<Rightarrow> string \<Rightarrow> db \<Rightarrow> int" where
  "counter tid counterType s =
     (case sel1 (\<lambda>r. tc_tenantId r = tid \<and> tc_counterType r = counterType) (tb_counters s) of
        None \<Rightarrow> 0 | Some r \<Rightarrow> tc_currentValue r)"

lemma nextCounter_fst: "fst (nextCounter tid ct s) = counter tid ct s + 1"
  by (auto simp: nextCounter_def counter_def Let_def split: option.splits)

lemma nextCounter_state: "\<exists>t. snd (nextCounter tid ct s) = s\<lparr>tb_counters := t\<rparr>"
  by (auto simp: nextCounter_def Let_def split: option.splits)

lemma nextCounter_counter:
  "counter tid' ct' (snd (nextCounter tid ct s)) =
     (if tid' = tid \<and> ct' = ct then counter tid ct s + 1 else counter tid' ct' s)"
proof -
  let ?here = "\<lambda>r. tc_tenantId r = tid \<and> tc_counterType r = ct"
  let ?here' = "\<lambda>r. tc_tenantId r = tid' \<and> tc_counterType r = ct'"
  have up: "sel1 ?here' (upd ?here (\<lambda>r. r\<lparr>tc_currentValue := tc_currentValue r + 1\<rparr>) (tb_counters s))
    = map_option (\<lambda>r. if ?here r then r\<lparr>tc_currentValue := tc_currentValue r + 1\<rparr> else r)
        (sel1 ?here' (tb_counters s))"
    by (rule sel1_upd) auto
  show ?thesis
  proof (cases "sel1 ?here (tb_counters s)")
    case None
    then show ?thesis
      by (auto simp: nextCounter_def counter_def sel1_append split: option.split)
  next
    case (Some r)
    then have "counter tid' ct' (snd (nextCounter tid ct s)) = (case map_option
        (\<lambda>r. if ?here r then r\<lparr>tc_currentValue := tc_currentValue r + 1\<rparr> else r) (sel1 ?here' (tb_counters s))
        of None \<Rightarrow> 0 | Some r \<Rightarrow> tc_currentValue r)"
      by (simp add: nextCounter_def counter_def up)
    then show ?thesis
      using Some by (auto simp: counter_def split: option.split dest: sel1_Some_P)
  qed
qed

section \<open>The part of the state that belongs to other tenants\<close>

definition others :: "string \<Rightarrow> db \<Rightarrow> db" where
  "others tid s = \<lparr>
     tb_tenants = filter (\<lambda>r. t_id r \<noteq> tid) (tb_tenants s),
     tb_locations = filter (\<lambda>r. tl_tenantId r \<noteq> tid) (tb_locations s),
     tb_settings = filter (\<lambda>r. ts_tenantId r \<noteq> tid) (tb_settings s),
     tb_integrations = filter (\<lambda>r. ia_tenantId r \<noteq> tid) (tb_integrations s),
     tb_counters = filter (\<lambda>r. tc_tenantId r \<noteq> tid) (tb_counters s),
     tb_items = filter (\<lambda>r. ci_tenantId r \<noteq> tid) (tb_items s),
     tb_media = filter (\<lambda>r. ma_tenantId r \<noteq> tid) (tb_media s),
     tb_categories = filter (\<lambda>r. cc_tenantId r \<noteq> tid) (tb_categories s),
     tb_addonGroups = filter (\<lambda>r. agr_tenantId r \<noteq> tid) (tb_addonGroups s),
     tb_addonOptions = filter (\<lambda>r. aor_tenantId r \<noteq> tid) (tb_addonOptions s),
     tb_itemAddonGroups = filter (\<lambda>r. iag_tenantId r \<noteq> tid) (tb_itemAddonGroups s),
     tb_combos = filter (\<lambda>r. cb_tenantId r \<noteq> tid) (tb_combos s),
     tb_comboItems = filter (\<lambda>r. cbi_tenantId r \<noteq> tid) (tb_comboItems s),
     tb_carts = filter (\<lambda>r. c_tenantId r \<noteq> tid) (tb_carts s),
     tb_cartLines = filter (\<lambda>r. cl_tenantId r \<noteq> tid) (tb_cartLines s),
     tb_cartLineOptions = filter (\<lambda>r. clo_tenantId r \<noteq> tid) (tb_cartLineOptions s),
     tb_attempts = filter (\<lambda>r. pa_tenantId r \<noteq> tid) (tb_attempts s),
     tb_orders = filter (\<lambda>r. o_tenantId r \<noteq> tid) (tb_orders s),
     tb_orderLines = filter (\<lambda>r. ol_tenantId r \<noteq> tid) (tb_orderLines s),
     tb_orderLineOptions = filter (\<lambda>r. olo_tenantId r \<noteq> tid) (tb_orderLineOptions s),
     tb_orderEvents = filter (\<lambda>r. oe_tenantId r \<noteq> tid) (tb_orderEvents s),
     tb_outbox = filter (\<lambda>r. ob_tenantId r \<noteq> tid) (tb_outbox s),
     tb_idempotency = filter (\<lambda>r. ir_tenantId r \<noteq> Some tid) (tb_idempotency s),
     tb_audit = filter (\<lambda>r. au_tenantId r \<noteq> Some tid) (tb_audit s),
     tb_discounts = filter (\<lambda>r. d_tenantId r \<noteq> tid) (tb_discounts s),
     tb_discountCategories = filter (\<lambda>r. fst r \<noteq> tid) (tb_discountCategories s),
     tb_discountItems = filter (\<lambda>r. fst r \<noteq> tid) (tb_discountItems s),
     tb_redemptions = filter (\<lambda>r. rd_tenantId r \<noteq> tid) (tb_redemptions s),
     tb_shifts = filter (\<lambda>r. cs_tenantId r \<noteq> tid) (tb_shifts s),
     tb_movements = filter (\<lambda>r. cm_tenantId r \<noteq> tid) (tb_movements s),
     tb_printJobs = filter (\<lambda>r. pj_tenantId r \<noteq> tid) (tb_printJobs s),
     tb_printAttempts = filter (\<lambda>r. pt_tenantId r \<noteq> tid) (tb_printAttempts s),
     tb_printAgents = filter (\<lambda>r. ag_tenantId r \<noteq> tid) (tb_printAgents s),
     tb_billing = filter (\<lambda>r. bd_tenantId r \<noteq> tid) (tb_billing s),
     tb_entitlements = filter (\<lambda>r. en_tenantId r \<noteq> tid) (tb_entitlements s),
     tb_routes = filter (\<lambda>r. pv_tenantId r \<noteq> tid) (tb_routes s),
     tb_webhooks = filter (\<lambda>r. wh_tenantId r \<noteq> tid) (tb_webhooks s),
     tb_finance = filter (\<lambda>r. fin_tenantId r \<noteq> tid) (tb_finance s),
     tb_pairings = filter (\<lambda>r. pp_tenantId r \<noteq> tid) (tb_pairings s),
     tb_users = tb_users s,
     tb_sessions = tb_sessions s,
     tb_challenges = tb_challenges s,
     tb_handoffs = filter (\<lambda>r. ho_tenantId r \<noteq> tid) (tb_handoffs s),
     tb_memberships = filter (\<lambda>r. me_tenantId r \<noteq> tid) (tb_memberships s),
     tb_plans = tb_plans s,
     tb_products = tb_products s,
     tb_searchTenants = filter (\<lambda>r. pst_tenantId r \<noteq> tid) (tb_searchTenants s),
     tb_searchEntries = filter (\<lambda>r. sn_tenantId r \<noteq> tid) (tb_searchEntries s),
     uuid_next = 0\<rparr>"

lemma others_upd [simp]:
  "others tid (s\<lparr>uuid_next := n\<rparr>) = others tid s"
  "filter (\<lambda>r. t_id r \<noteq> tid) ttenants = filter (\<lambda>r. t_id r \<noteq> tid) (tb_tenants s)
     \<Longrightarrow> others tid (s\<lparr>tb_tenants := ttenants\<rparr>) = others tid s"
  "filter (\<lambda>r. tl_tenantId r \<noteq> tid) tlocations = filter (\<lambda>r. tl_tenantId r \<noteq> tid) (tb_locations s)
     \<Longrightarrow> others tid (s\<lparr>tb_locations := tlocations\<rparr>) = others tid s"
  "filter (\<lambda>r. ts_tenantId r \<noteq> tid) tsettings = filter (\<lambda>r. ts_tenantId r \<noteq> tid) (tb_settings s)
     \<Longrightarrow> others tid (s\<lparr>tb_settings := tsettings\<rparr>) = others tid s"
  "filter (\<lambda>r. ia_tenantId r \<noteq> tid) tintegrations = filter (\<lambda>r. ia_tenantId r \<noteq> tid) (tb_integrations s)
     \<Longrightarrow> others tid (s\<lparr>tb_integrations := tintegrations\<rparr>) = others tid s"
  "filter (\<lambda>r. tc_tenantId r \<noteq> tid) tcounters = filter (\<lambda>r. tc_tenantId r \<noteq> tid) (tb_counters s)
     \<Longrightarrow> others tid (s\<lparr>tb_counters := tcounters\<rparr>) = others tid s"
  "filter (\<lambda>r. ci_tenantId r \<noteq> tid) titems = filter (\<lambda>r. ci_tenantId r \<noteq> tid) (tb_items s)
     \<Longrightarrow> others tid (s\<lparr>tb_items := titems\<rparr>) = others tid s"
  "filter (\<lambda>r. ma_tenantId r \<noteq> tid) tmedia = filter (\<lambda>r. ma_tenantId r \<noteq> tid) (tb_media s)
     \<Longrightarrow> others tid (s\<lparr>tb_media := tmedia\<rparr>) = others tid s"
  "filter (\<lambda>r. cc_tenantId r \<noteq> tid) tcategories = filter (\<lambda>r. cc_tenantId r \<noteq> tid) (tb_categories s)
     \<Longrightarrow> others tid (s\<lparr>tb_categories := tcategories\<rparr>) = others tid s"
  "filter (\<lambda>r. agr_tenantId r \<noteq> tid) taddonGroups = filter (\<lambda>r. agr_tenantId r \<noteq> tid) (tb_addonGroups s)
     \<Longrightarrow> others tid (s\<lparr>tb_addonGroups := taddonGroups\<rparr>) = others tid s"
  "filter (\<lambda>r. aor_tenantId r \<noteq> tid) taddonOptions = filter (\<lambda>r. aor_tenantId r \<noteq> tid) (tb_addonOptions s)
     \<Longrightarrow> others tid (s\<lparr>tb_addonOptions := taddonOptions\<rparr>) = others tid s"
  "filter (\<lambda>r. iag_tenantId r \<noteq> tid) titemAddonGroups = filter (\<lambda>r. iag_tenantId r \<noteq> tid) (tb_itemAddonGroups s)
     \<Longrightarrow> others tid (s\<lparr>tb_itemAddonGroups := titemAddonGroups\<rparr>) = others tid s"
  "filter (\<lambda>r. cb_tenantId r \<noteq> tid) tcombos = filter (\<lambda>r. cb_tenantId r \<noteq> tid) (tb_combos s)
     \<Longrightarrow> others tid (s\<lparr>tb_combos := tcombos\<rparr>) = others tid s"
  "filter (\<lambda>r. cbi_tenantId r \<noteq> tid) tcomboItems = filter (\<lambda>r. cbi_tenantId r \<noteq> tid) (tb_comboItems s)
     \<Longrightarrow> others tid (s\<lparr>tb_comboItems := tcomboItems\<rparr>) = others tid s"
  "filter (\<lambda>r. c_tenantId r \<noteq> tid) tcarts = filter (\<lambda>r. c_tenantId r \<noteq> tid) (tb_carts s)
     \<Longrightarrow> others tid (s\<lparr>tb_carts := tcarts\<rparr>) = others tid s"
  "filter (\<lambda>r. cl_tenantId r \<noteq> tid) tcartLines = filter (\<lambda>r. cl_tenantId r \<noteq> tid) (tb_cartLines s)
     \<Longrightarrow> others tid (s\<lparr>tb_cartLines := tcartLines\<rparr>) = others tid s"
  "filter (\<lambda>r. clo_tenantId r \<noteq> tid) tcartLineOptions = filter (\<lambda>r. clo_tenantId r \<noteq> tid) (tb_cartLineOptions s)
     \<Longrightarrow> others tid (s\<lparr>tb_cartLineOptions := tcartLineOptions\<rparr>) = others tid s"
  "filter (\<lambda>r. pa_tenantId r \<noteq> tid) tattempts = filter (\<lambda>r. pa_tenantId r \<noteq> tid) (tb_attempts s)
     \<Longrightarrow> others tid (s\<lparr>tb_attempts := tattempts\<rparr>) = others tid s"
  "filter (\<lambda>r. o_tenantId r \<noteq> tid) torders = filter (\<lambda>r. o_tenantId r \<noteq> tid) (tb_orders s)
     \<Longrightarrow> others tid (s\<lparr>tb_orders := torders\<rparr>) = others tid s"
  "filter (\<lambda>r. ol_tenantId r \<noteq> tid) torderLines = filter (\<lambda>r. ol_tenantId r \<noteq> tid) (tb_orderLines s)
     \<Longrightarrow> others tid (s\<lparr>tb_orderLines := torderLines\<rparr>) = others tid s"
  "filter (\<lambda>r. olo_tenantId r \<noteq> tid) torderLineOptions = filter (\<lambda>r. olo_tenantId r \<noteq> tid) (tb_orderLineOptions s)
     \<Longrightarrow> others tid (s\<lparr>tb_orderLineOptions := torderLineOptions\<rparr>) = others tid s"
  "filter (\<lambda>r. oe_tenantId r \<noteq> tid) torderEvents = filter (\<lambda>r. oe_tenantId r \<noteq> tid) (tb_orderEvents s)
     \<Longrightarrow> others tid (s\<lparr>tb_orderEvents := torderEvents\<rparr>) = others tid s"
  "filter (\<lambda>r. ob_tenantId r \<noteq> tid) toutbox = filter (\<lambda>r. ob_tenantId r \<noteq> tid) (tb_outbox s)
     \<Longrightarrow> others tid (s\<lparr>tb_outbox := toutbox\<rparr>) = others tid s"
  "filter (\<lambda>r. ir_tenantId r \<noteq> Some tid) tidempotency = filter (\<lambda>r. ir_tenantId r \<noteq> Some tid) (tb_idempotency s)
     \<Longrightarrow> others tid (s\<lparr>tb_idempotency := tidempotency\<rparr>) = others tid s"
  "filter (\<lambda>r. au_tenantId r \<noteq> Some tid) taudit = filter (\<lambda>r. au_tenantId r \<noteq> Some tid) (tb_audit s)
     \<Longrightarrow> others tid (s\<lparr>tb_audit := taudit\<rparr>) = others tid s"
  "filter (\<lambda>r. d_tenantId r \<noteq> tid) tdiscounts = filter (\<lambda>r. d_tenantId r \<noteq> tid) (tb_discounts s)
     \<Longrightarrow> others tid (s\<lparr>tb_discounts := tdiscounts\<rparr>) = others tid s"
  "filter (\<lambda>r. fst r \<noteq> tid) tdiscountCategories = filter (\<lambda>r. fst r \<noteq> tid) (tb_discountCategories s)
     \<Longrightarrow> others tid (s\<lparr>tb_discountCategories := tdiscountCategories\<rparr>) = others tid s"
  "filter (\<lambda>r. fst r \<noteq> tid) tdiscountItems = filter (\<lambda>r. fst r \<noteq> tid) (tb_discountItems s)
     \<Longrightarrow> others tid (s\<lparr>tb_discountItems := tdiscountItems\<rparr>) = others tid s"
  "filter (\<lambda>r. rd_tenantId r \<noteq> tid) tredemptions = filter (\<lambda>r. rd_tenantId r \<noteq> tid) (tb_redemptions s)
     \<Longrightarrow> others tid (s\<lparr>tb_redemptions := tredemptions\<rparr>) = others tid s"
  "filter (\<lambda>r. cs_tenantId r \<noteq> tid) tshifts = filter (\<lambda>r. cs_tenantId r \<noteq> tid) (tb_shifts s)
     \<Longrightarrow> others tid (s\<lparr>tb_shifts := tshifts\<rparr>) = others tid s"
  "filter (\<lambda>r. cm_tenantId r \<noteq> tid) tmovements = filter (\<lambda>r. cm_tenantId r \<noteq> tid) (tb_movements s)
     \<Longrightarrow> others tid (s\<lparr>tb_movements := tmovements\<rparr>) = others tid s"
  "filter (\<lambda>r. pj_tenantId r \<noteq> tid) tprintJobs = filter (\<lambda>r. pj_tenantId r \<noteq> tid) (tb_printJobs s)
     \<Longrightarrow> others tid (s\<lparr>tb_printJobs := tprintJobs\<rparr>) = others tid s"
  "filter (\<lambda>r. pt_tenantId r \<noteq> tid) tprintAttempts = filter (\<lambda>r. pt_tenantId r \<noteq> tid) (tb_printAttempts s)
     \<Longrightarrow> others tid (s\<lparr>tb_printAttempts := tprintAttempts\<rparr>) = others tid s"
  "filter (\<lambda>r. ag_tenantId r \<noteq> tid) tprintAgents = filter (\<lambda>r. ag_tenantId r \<noteq> tid) (tb_printAgents s)
     \<Longrightarrow> others tid (s\<lparr>tb_printAgents := tprintAgents\<rparr>) = others tid s"
  "filter (\<lambda>r. bd_tenantId r \<noteq> tid) tbilling = filter (\<lambda>r. bd_tenantId r \<noteq> tid) (tb_billing s)
     \<Longrightarrow> others tid (s\<lparr>tb_billing := tbilling\<rparr>) = others tid s"
  "filter (\<lambda>r. en_tenantId r \<noteq> tid) tentitlements = filter (\<lambda>r. en_tenantId r \<noteq> tid) (tb_entitlements s)
     \<Longrightarrow> others tid (s\<lparr>tb_entitlements := tentitlements\<rparr>) = others tid s"
  "filter (\<lambda>r. pv_tenantId r \<noteq> tid) troutes = filter (\<lambda>r. pv_tenantId r \<noteq> tid) (tb_routes s)
     \<Longrightarrow> others tid (s\<lparr>tb_routes := troutes\<rparr>) = others tid s"
  "filter (\<lambda>r. wh_tenantId r \<noteq> tid) twebhooks = filter (\<lambda>r. wh_tenantId r \<noteq> tid) (tb_webhooks s)
     \<Longrightarrow> others tid (s\<lparr>tb_webhooks := twebhooks\<rparr>) = others tid s"
  "filter (\<lambda>r. fin_tenantId r \<noteq> tid) tfinance = filter (\<lambda>r. fin_tenantId r \<noteq> tid) (tb_finance s)
     \<Longrightarrow> others tid (s\<lparr>tb_finance := tfinance\<rparr>) = others tid s"
  "filter (\<lambda>r. pp_tenantId r \<noteq> tid) tpairings = filter (\<lambda>r. pp_tenantId r \<noteq> tid) (tb_pairings s)
     \<Longrightarrow> others tid (s\<lparr>tb_pairings := tpairings\<rparr>) = others tid s"
  "filter (\<lambda>r. ho_tenantId r \<noteq> tid) thandoffs = filter (\<lambda>r. ho_tenantId r \<noteq> tid) (tb_handoffs s)
     \<Longrightarrow> others tid (s\<lparr>tb_handoffs := thandoffs\<rparr>) = others tid s"
  "filter (\<lambda>r. me_tenantId r \<noteq> tid) tmemberships = filter (\<lambda>r. me_tenantId r \<noteq> tid) (tb_memberships s)
     \<Longrightarrow> others tid (s\<lparr>tb_memberships := tmemberships\<rparr>) = others tid s"
  "filter (\<lambda>r. pst_tenantId r \<noteq> tid) tsearch = filter (\<lambda>r. pst_tenantId r \<noteq> tid) (tb_searchTenants s)
     \<Longrightarrow> others tid (s\<lparr>tb_searchTenants := tsearch\<rparr>) = others tid s"
  "filter (\<lambda>r. sn_tenantId r \<noteq> tid) tentries = filter (\<lambda>r. sn_tenantId r \<noteq> tid) (tb_searchEntries s)
     \<Longrightarrow> others tid (s\<lparr>tb_searchEntries := tentries\<rparr>) = others tid s"
  by (simp_all add: others_def)

lemma others_nextCounter [db_frame]: "others tid (snd (nextCounter tid ct s)) = others tid s"
proof -
  have "filter (\<lambda>r. tc_tenantId r \<noteq> tid)
      (upd (\<lambda>r. tc_tenantId r = tid \<and> tc_counterType r = ct) (\<lambda>r. r\<lparr>tc_currentValue := tc_currentValue r + 1\<rparr>) t)
    = filter (\<lambda>r. tc_tenantId r \<noteq> tid) t" for t
    by (rule filter_upd_other) auto
  from this [of "tb_counters s"] have
    "others tid (s\<lparr>tb_counters := upd (\<lambda>r. tc_tenantId r = tid \<and> tc_counterType r = ct)
       (\<lambda>r. r\<lparr>tc_currentValue := tc_currentValue r + 1\<rparr>) (tb_counters s)\<rparr>) = others tid s"
    by (rule others_upd)
  then show ?thesis
    by (cases "sel1 (\<lambda>r. tc_tenantId r = tid \<and> tc_counterType r = ct) (tb_counters s)")
      (simp_all add: nextCounter_def)
qed
section \<open>Logs\<close>

definition outboxRow ::
  "env \<Rightarrow> TenantContext \<Rightarrow> string \<Rightarrow> string \<Rightarrow> string \<Rightarrow> json \<Rightarrow> int \<Rightarrow> db \<Rightarrow> outbox_row" where
  "outboxRow e context aggregateType aggregateId eventType payload sequence s =
     \<lparr>ob_id = fresh_id e s, ob_tenantId = ctx_tenantId context,
      ob_aggregateType = aggregateType, ob_aggregateId = aggregateId, ob_eventType = eventType,
      ob_payload = redactSensitiveData payload, ob_sequence = sequence, ob_availableAt = e_now e,
      ob_publishedAt = None, ob_attempts = 0, ob_claimedBy = None, ob_leasedUntil = None,
      ob_lastError = None, ob_deadLetterAt = None\<rparr>"

definition appendOutboxEvent ::
  "env \<Rightarrow> TenantContext \<Rightarrow> string \<Rightarrow> string \<Rightarrow> string \<Rightarrow> json \<Rightarrow> db \<Rightarrow> app_error + db" where
  "appendOutboxEvent e context aggregateType aggregateId eventType payload s =
     (let (sequence, s1) = nextCounter (ctx_tenantId context) ''outbox_sequence'' s;
          row = outboxRow e context aggregateType aggregateId eventType payload sequence s
      in bnd (lift_db (insert_row (\<lambda>_. True) outbox_clash row (tb_outbox s1))) (\<lambda>t.
           Inr (s1\<lparr>tb_outbox := t, uuid_next := Suc (uuid_next s1)\<rparr>)))"

definition auditRow ::
  "env \<Rightarrow> TenantContext \<Rightarrow> string \<Rightarrow> string \<Rightarrow> string \<Rightarrow> AuditOutcome \<Rightarrow> json \<Rightarrow> db \<Rightarrow> audit_row" where
  "auditRow e context action resourceType resourceId outcome metadata s =
     \<lparr>au_id = fresh_id e s, au_tenantId = Some (ctx_tenantId context),
      au_actorUserId = actorUserId (ctx_actor context), au_correlationId = ctx_correlationId context,
      au_action = action, au_resourceType = resourceType, au_resourceId = resourceId,
      au_outcome = outcome, au_metadata = redactSensitiveData metadata, au_occurredAt = e_now e\<rparr>"

definition appendAuditEvent ::
  "env \<Rightarrow> TenantContext \<Rightarrow> string \<Rightarrow> string \<Rightarrow> string \<Rightarrow> AuditOutcome \<Rightarrow> json \<Rightarrow> db \<Rightarrow> db" where
  "appendAuditEvent e context action resourceType resourceId outcome metadata s =
     s\<lparr>tb_audit := tb_audit s @ [auditRow e context action resourceType resourceId outcome metadata s],
       uuid_next := Suc (uuid_next s)\<rparr>"

text \<open>\<open>OrderRepository.appendEvent\<close>.\<close>

definition orderEventRow ::
  "env \<Rightarrow> TenantContext \<Rightarrow> string \<Rightarrow> string \<Rightarrow> FulfillmentStatus option \<Rightarrow> FulfillmentStatus option
     \<Rightarrow> json \<Rightarrow> int \<Rightarrow> db \<Rightarrow> order_event_row" where
  "orderEventRow e context orderId eventType fromStatus toStatus metadata sequence s =
     \<lparr>oe_id = fresh_id e s, oe_tenantId = ctx_tenantId context, oe_orderId = orderId,
      oe_sequence = sequence, oe_eventType = eventType, oe_fromStatus = fromStatus,
      oe_toStatus = toStatus, oe_actorUserId = actorUserId (ctx_actor context),
      oe_metadata = redactSensitiveData metadata, oe_occurredAt = e_now e\<rparr>"

definition appendEvent ::
  "env \<Rightarrow> TenantContext \<Rightarrow> string \<Rightarrow> string \<Rightarrow> FulfillmentStatus option \<Rightarrow> FulfillmentStatus option
     \<Rightarrow> json \<Rightarrow> db \<Rightarrow> app_error + db" where
  "appendEvent e context orderId eventType fromStatus toStatus metadata s =
     (let (sequence, s1) = nextCounter (ctx_tenantId context) ''order_event_sequence'' s;
          row = orderEventRow e context orderId eventType fromStatus toStatus metadata sequence s
      in bnd (lift_db (insert_row (\<lambda>_. True) order_event_clash row (tb_orderEvents s1))) (\<lambda>t.
           Inr (s1\<lparr>tb_orderEvents := t, uuid_next := Suc (uuid_next s1)\<rparr>)))"

definition appendTransitionEvent ::
  "env \<Rightarrow> TenantContext \<Rightarrow> string \<Rightarrow> FulfillmentStatus option \<Rightarrow> FulfillmentStatus \<Rightarrow> string option
     \<Rightarrow> db \<Rightarrow> app_error + db" where
  "appendTransitionEvent e context orderId fromStatus toStatus reason s =
     appendEvent e context orderId ''order.transitioned'' fromStatus (Some toStatus)
       (case reason of None \<Rightarrow> JObj [] | Some r \<Rightarrow> if r = [] then JObj [] else JObj [(''reason'', JStr r)]) s"

text \<open>What a counter step leaves in the state.\<close>

definition bump :: "string \<Rightarrow> string \<Rightarrow> db \<Rightarrow> tenant_counter_row list" where
  "bump tid ct s = tb_counters (snd (nextCounter tid ct s))"

lemma nextCounter_eq: "nextCounter tid ct s = (counter tid ct s + 1, s\<lparr>tb_counters := bump tid ct s\<rparr>)"
proof -
  have "snd (nextCounter tid ct s) = s\<lparr>tb_counters := bump tid ct s\<rparr>"
    by (auto simp: bump_def nextCounter_def Let_def split: option.split)
  then show ?thesis
    using nextCounter_fst [of tid ct s] by (metis prod.collapse)
qed

lemma filter_bump [simp]:
  "filter (\<lambda>r. tc_tenantId r \<noteq> tid) (bump tid ct s) = filter (\<lambda>r. tc_tenantId r \<noteq> tid) (tb_counters s)"
  using arg_cong [OF others_nextCounter [of tid ct s], of tb_counters]
  by (simp add: others_def nextCounter_eq)

lemma appendOutboxEvent_state [db_simps]:
  "appendOutboxEvent e ctx aty aid ety pl s = Inr s' \<Longrightarrow>
   s' = s\<lparr>tb_counters := bump (ctx_tenantId ctx) ''outbox_sequence'' s,
     tb_outbox := tb_outbox s @ [outboxRow e ctx aty aid ety pl (counter (ctx_tenantId ctx) ''outbox_sequence'' s + 1) s],
     uuid_next := Suc (uuid_next s)\<rparr>"
  by (auto simp: appendOutboxEvent_def nextCounter_eq Let_def insert_row_Inr)

lemma appendEvent_state [db_simps]:
  "appendEvent e ctx oid ety fs ts md s = Inr s' \<Longrightarrow>
   s' = s\<lparr>tb_counters := bump (ctx_tenantId ctx) ''order_event_sequence'' s,
     tb_orderEvents := tb_orderEvents s
       @ [orderEventRow e ctx oid ety fs ts md (counter (ctx_tenantId ctx) ''order_event_sequence'' s + 1) s],
     uuid_next := Suc (uuid_next s)\<rparr>"
  by (auto simp: appendEvent_def nextCounter_eq Let_def insert_row_Inr)

lemma row_tenants [simp]:
  "ob_tenantId (outboxRow e ctx aty aid ety pl n s) = ctx_tenantId ctx"
  "oe_tenantId (orderEventRow e ctx oid ety' fs ts md n s) = ctx_tenantId ctx"
  "au_tenantId (auditRow e ctx act rty rid out md s) = Some (ctx_tenantId ctx)"
  by (simp_all add: outboxRow_def orderEventRow_def auditRow_def)

lemma others_appendOutboxEvent [db_frame]:
  "appendOutboxEvent e ctx aty aid ety pl s = Inr s' \<Longrightarrow> others (ctx_tenantId ctx) s' = others (ctx_tenantId ctx) s"
  by (drule appendOutboxEvent_state) simp

lemma others_appendAuditEvent [db_frame]:
  "others (ctx_tenantId ctx) (appendAuditEvent e ctx act rty rid out md s) = others (ctx_tenantId ctx) s"
  by (simp add: appendAuditEvent_def)

lemma others_appendEvent [db_frame]:
  "appendEvent e ctx oid ety fs ts md s = Inr s' \<Longrightarrow> others (ctx_tenantId ctx) s' = others (ctx_tenantId ctx) s"
  by (drule appendEvent_state) simp

lemma others_appendTransitionEvent [db_frame]:
  "appendTransitionEvent e ctx oid fs ts r s = Inr s' \<Longrightarrow> others (ctx_tenantId ctx) s' = others (ctx_tenantId ctx) s"
  unfolding appendTransitionEvent_def by (rule others_appendEvent)

end
