(* ===== verification/CatalogRules.thy ===== *)
theory CatalogRules
  imports Contact Db
begin

text \<open>
  The rules of the catalogue: \<open>src/features/catalog/domain/catalog.rules.ts\<close>.

  \<^item> A request is a record of the fields its schema names, absent ones \<open>None\<close>; a nullable
    field is an option of an option. The schemas are strict, so a request with another field is
    refused before it is one of these. A schema is a partial function to the parsed request:
    trimmed, with its defaults.
  \<^item> \<open>isUuid\<close> stands for \<open>z.uuid()\<close>. \<open>dfl\<close> says whether a validator built by \<open>partial()\<close>
    still fills in the defaults of the fields it makes optional, as the library's fourth version does.
  \<^item> Names are ASCII text, on which the Unicode normalisation of the source does nothing.
  \<^item> The lemmas: a code is read as the label of a scale exactly when it is one, as the product and amount it was
    printed for, one wrong digit in it is noticed, and a product code is in normal form after one
    normalisation.
\<close>

section \<open>Bar codes\<close>

text \<open>\<open>^(?!00000)\d{5}$\<close> and \<open>^(2[0-9])\d{11}$\<close>.\<close>

definition plu_re :: "string \<Rightarrow> bool" where
  "plu_re s \<longleftrightarrow> length s = 5 \<and> list_all is_digit s \<and> s \<noteq> ''00000''"

definition scale_re :: "string \<Rightarrow> bool" where
  "scale_re s \<longleftrightarrow> length s = 13 \<and> list_all is_digit s \<and> hd s = CHR ''2''"

definition normalizePluCode :: "string \<Rightarrow> string" where
  "normalizePluCode barcode =
     (let digitsOnly = digits_only (js_trim barcode);
          candidate = (if scale_re digitsOnly then take 5 (drop 2 digitsOnly)
                       else pad_start 5 (CHR ''0'') (drop (length digitsOnly - 5) digitsOnly))
      in if digitsOnly = [] then [] else if plu_re candidate then candidate else [])"

definition isScaleEan13Prefix :: "string \<Rightarrow> bool" where
  "isScaleEan13Prefix barcode \<longleftrightarrow> scale_re (js_trim barcode)"

record scale_code =
  sca_pluCode :: string
  sca_calculatedSubtotal :: string

text \<open>The sum of the first twelve digits, weighted 1 and 3 in turn.\<close>

fun weighted_sum :: "nat \<Rightarrow> nat \<Rightarrow> string \<Rightarrow> nat" where
  "weighted_sum w v [] = 0"
| "weighted_sum w v (c # cs) = w * digit_val c + weighted_sum v w cs"

definition check_digit :: "string \<Rightarrow> nat" where
  "check_digit ds = (10 - weighted_sum 1 3 ds mod 10) mod 10"

definition parseScaleEan13 :: "string \<Rightarrow> scale_code option" where
  "parseScaleEan13 barcode =
     (let clean = js_trim barcode;
          amountInt = the (dec_val 0 (take 5 (drop 7 clean)))
      in if \<not> scale_re clean then None
         else if check_digit (take 12 clean) \<noteq> digit_val (clean ! 12) then None
         else if amountInt \<le> 0 then None
         else Some \<lparr>sca_pluCode = take 5 (drop 2 clean), sca_calculatedSubtotal = js_str (int amountInt) @ ''.00''\<rparr>)"

section \<open>Schemas\<close>

abbreviation opt_all :: "('a \<Rightarrow> bool) \<Rightarrow> 'a option \<Rightarrow> bool" where
  "opt_all P x \<equiv> (case x of None \<Rightarrow> True | Some v \<Rightarrow> P v)"

abbreviation null_all :: "('a \<Rightarrow> bool) \<Rightarrow> 'a option option \<Rightarrow> bool" where
  "null_all P x \<equiv> opt_all (opt_all P) x"

abbreviation trim_null :: "string option option \<Rightarrow> string option option" where
  "trim_null x \<equiv> map_option (map_option js_trim) x"

definition text_of :: "nat \<Rightarrow> nat \<Rightarrow> string \<Rightarrow> bool" where
  "text_of low high s \<longleftrightarrow> low \<le> length s \<and> length s \<le> high"

text \<open>\<open>z.number().int()\<close> admits the integers a double holds exactly.\<close>

definition whole :: "int \<Rightarrow> int \<Rightarrow> bool" where
  "whole low n \<longleftrightarrow> low \<le> n \<and> n < 2 ^ 53"

text \<open>\<open>^[A-Z]{3}$\<close>.\<close>

definition currency_re :: "string \<Rightarrow> bool" where
  "currency_re s \<longleftrightarrow> length s = 3 \<and> list_all (\<lambda>c. 65 \<le> (of_char c :: nat) \<and> (of_char c :: nat) \<le> 90) s"

text \<open>An optional field with a default.\<close>

definition default_if :: "bool \<Rightarrow> 'a \<Rightarrow> 'a option \<Rightarrow> 'a option" where
  "default_if fill d x = (if fill \<and> x = None then Some d else x)"

record category_request =
  kq_name :: "string option"
  kq_description :: "string option option"
  kq_sortOrder :: "int option"
  kq_status :: "CatalogStatus option"
  kq_version :: "int option"

definition category_trim :: "category_request \<Rightarrow> category_request" where
  "category_trim r = r\<lparr>kq_name := map_option js_trim (kq_name r), kq_description := trim_null (kq_description r)\<rparr>"

definition category_fields :: "category_request \<Rightarrow> bool" where
  "category_fields r \<longleftrightarrow> opt_all (text_of 1 120) (kq_name r) \<and> null_all (text_of 0 1000) (kq_description r)
     \<and> opt_all (whole 0) (kq_sortOrder r) \<and> opt_all (\<lambda>st. st = Draft \<or> st = Active) (kq_status r)"

definition category_defaults :: "category_request \<Rightarrow> category_request" where
  "category_defaults r = r\<lparr>kq_sortOrder := default_if True 0 (kq_sortOrder r),
     kq_status := default_if True Draft (kq_status r)\<rparr>"

definition categoryInputSchema :: "category_request \<Rightarrow> category_request option" where
  "categoryInputSchema value =
     (let r = category_trim value
      in if kq_name r \<noteq> None \<and> kq_version r = None \<and> category_fields r then Some (category_defaults r) else None)"

definition categoryPatchSchema :: "bool \<Rightarrow> category_request \<Rightarrow> category_request option" where
  "categoryPatchSchema dfl value =
     (let r = category_trim value
      in if category_fields r \<and> (case kq_version r of None \<Rightarrow> False | Some v \<Rightarrow> whole 1 v)
         then Some (if dfl then category_defaults r else r) else None)"

record item_request =
  iq_categoryId :: "string option"
  iq_name :: "string option"
  iq_description :: "string option option"
  iq_price :: "string option"
  iq_currency :: "string option"
  iq_itemType :: "ItemType option"
  iq_imageAssetId :: "string option option"
  iq_videoAssetId :: "string option option"
  iq_barcode :: "string option option"
  iq_isGeneric :: "bool option"
  iq_genericIcon :: "string option option"
  iq_trackStock :: "bool option"
  iq_stockQuantity :: "int option"
  iq_status :: "CatalogStatus option"
  iq_sortOrder :: "int option"
  iq_addonGroupIds :: "string list option"
  iq_version :: "int option"

definition item_trim :: "item_request \<Rightarrow> item_request" where
  "item_trim r = r\<lparr>iq_name := map_option js_trim (iq_name r), iq_description := trim_null (iq_description r),
     iq_barcode := trim_null (iq_barcode r), iq_genericIcon := trim_null (iq_genericIcon r)\<rparr>"

definition item_fields :: "(string \<Rightarrow> bool) \<Rightarrow> item_request \<Rightarrow> bool" where
  "item_fields isUuid r \<longleftrightarrow> opt_all isUuid (iq_categoryId r) \<and> opt_all (text_of 1 160) (iq_name r)
     \<and> null_all (text_of 0 2000) (iq_description r) \<and> opt_all money_re (iq_price r)
     \<and> opt_all currency_re (iq_currency r) \<and> null_all isUuid (iq_imageAssetId r)
     \<and> null_all isUuid (iq_videoAssetId r) \<and> null_all (text_of 1 64) (iq_barcode r)
     \<and> null_all (text_of 0 32) (iq_genericIcon r) \<and> opt_all (whole 0) (iq_stockQuantity r)
     \<and> opt_all (whole 0) (iq_sortOrder r)
     \<and> opt_all (\<lambda>ids. length ids \<le> 20 \<and> list_all isUuid ids) (iq_addonGroupIds r)"

text \<open>The defaults of the schema, the status apart.\<close>

definition item_defaults :: "item_request \<Rightarrow> item_request" where
  "item_defaults r = r\<lparr>iq_itemType := default_if True Unit (iq_itemType r),
     iq_isGeneric := default_if True False (iq_isGeneric r), iq_trackStock := default_if True False (iq_trackStock r),
     iq_stockQuantity := default_if True 0 (iq_stockQuantity r), iq_sortOrder := default_if True 0 (iq_sortOrder r),
     iq_addonGroupIds := default_if True [] (iq_addonGroupIds r)\<rparr>"

definition catalogItemInputSchema :: "(string \<Rightarrow> bool) \<Rightarrow> item_request \<Rightarrow> item_request option" where
  "catalogItemInputSchema isUuid value =
     (let r = item_trim value
      in if iq_categoryId r \<noteq> None \<and> iq_name r \<noteq> None \<and> iq_price r \<noteq> None \<and> iq_currency r \<noteq> None
           \<and> iq_version r = None \<and> iq_status r \<noteq> Some Archived \<and> item_fields isUuid r
         then Some ((item_defaults r)\<lparr>iq_status := default_if True Draft (iq_status r)\<rparr>) else None)"

definition catalogItemPatchSchema :: "(string \<Rightarrow> bool) \<Rightarrow> bool \<Rightarrow> item_request \<Rightarrow> item_request option" where
  "catalogItemPatchSchema isUuid dfl value =
     (let r = item_trim value
      in if item_fields isUuid r \<and> (case iq_version r of None \<Rightarrow> False | Some v \<Rightarrow> whole 1 v)
         then Some (if dfl then item_defaults r else r) else None)"

record addon_option_request =
  aq_name :: string
  aq_description :: "string option option"
  aq_priceDelta :: string
  aq_status :: "CatalogStatus option"
  aq_sortOrder :: "int option"

definition addonOptionInputSchema :: "addon_option_request \<Rightarrow> addon_option_request option" where
  "addonOptionInputSchema value =
     (let r = value\<lparr>aq_name := js_trim (aq_name value), aq_description := trim_null (aq_description value)\<rparr>
      in if text_of 1 120 (aq_name r) \<and> null_all (text_of 0 500) (aq_description r) \<and> money_re (aq_priceDelta r)
           \<and> opt_all (\<lambda>st. st = Active \<or> st = Unavailable) (aq_status r) \<and> opt_all (whole 0) (aq_sortOrder r)
         then Some (r\<lparr>aq_status := default_if True Active (aq_status r),
           aq_sortOrder := default_if True 0 (aq_sortOrder r)\<rparr>) else None)"

record addon_group_request =
  gq_name :: "string option"
  gq_minSelected :: "int option"
  gq_maxSelected :: "int option"
  gq_sortOrder :: "int option"
  gq_status :: "CatalogStatus option"
  gq_options :: "addon_option_request list option"
  gq_version :: "int option"

text \<open>Every element parsed, or none.\<close>

fun parse_all :: "('a \<Rightarrow> 'b option) \<Rightarrow> 'a list \<Rightarrow> 'b list option" where
  "parse_all f [] = Some []"
| "parse_all f (x # xs) = (case f x of None \<Rightarrow> None | Some y \<Rightarrow> map_option (\<lambda>ys. y # ys) (parse_all f xs))"

definition parse_options :: "addon_option_request list option \<Rightarrow> addon_option_request list option option" where
  "parse_options x = (case x of None \<Rightarrow> Some None
     | Some os \<Rightarrow> if 1 \<le> length os \<and> length os \<le> 50 then map_option Some (parse_all addonOptionInputSchema os)
                 else None)"

definition addon_group_fields :: "addon_group_request \<Rightarrow> bool" where
  "addon_group_fields r \<longleftrightarrow> opt_all (text_of 1 120) (gq_name r) \<and> opt_all (whole 0) (gq_minSelected r)
     \<and> opt_all (whole 0) (gq_maxSelected r) \<and> opt_all (whole 0) (gq_sortOrder r)"

definition addonGroupInputSchema :: "addon_group_request \<Rightarrow> addon_group_request option" where
  "addonGroupInputSchema value =
     (let r = value\<lparr>gq_name := map_option js_trim (gq_name value)\<rparr>
      in case (gq_name r, gq_minSelected r, gq_maxSelected r, gq_options r, parse_options (gq_options r)) of
           (Some _, Some minSel, Some maxSel, Some _, Some (Some options)) \<Rightarrow>
             if addon_group_fields r \<and> gq_version r = None
               \<and> opt_all (\<lambda>st. st = Draft \<or> st = Active) (gq_status r)
               \<and> minSel \<le> maxSel \<and> maxSel \<le> int (length options)
             then Some (r\<lparr>gq_options := Some options, gq_sortOrder := default_if True 0 (gq_sortOrder r),
               gq_status := default_if True Draft (gq_status r)\<rparr>)
             else None
         | _ \<Rightarrow> None)"

definition addonGroupPatchSchema :: "addon_group_request \<Rightarrow> addon_group_request option" where
  "addonGroupPatchSchema value =
     (let r = value\<lparr>gq_name := map_option js_trim (gq_name value)\<rparr>
      in case parse_options (gq_options r) of
           None \<Rightarrow> None
         | Some options \<Rightarrow>
             if addon_group_fields r \<and> opt_all (\<lambda>st. st \<noteq> Unavailable) (gq_status r)
               \<and> (case gq_version r of None \<Rightarrow> False | Some v \<Rightarrow> whole 1 v)
             then Some (r\<lparr>gq_options := options\<rparr>) else None)"

record combo_line_request =
  lq_itemId :: string
  lq_quantity :: int
  lq_sortOrder :: "int option"

definition comboItemInputSchema ::
  "(string \<Rightarrow> bool) \<Rightarrow> combo_line_request \<Rightarrow> combo_line_request option" where
  "comboItemInputSchema isUuid r =
     (if isUuid (lq_itemId r) \<and> whole 1 (lq_quantity r) \<and> opt_all (whole 0) (lq_sortOrder r)
      then Some (r\<lparr>lq_sortOrder := default_if True 0 (lq_sortOrder r)\<rparr>) else None)"

record combo_request =
  bq_categoryId :: "string option"
  bq_name :: "string option"
  bq_description :: "string option option"
  bq_price :: "string option"
  bq_currency :: "string option"
  bq_imageAssetId :: "string option option"
  bq_status :: "CatalogStatus option"
  bq_items :: "combo_line_request list option"
  bq_version :: "int option"

definition combo_fields :: "(string \<Rightarrow> bool) \<Rightarrow> combo_request \<Rightarrow> bool" where
  "combo_fields isUuid r \<longleftrightarrow> opt_all isUuid (bq_categoryId r) \<and> opt_all (text_of 1 160) (bq_name r)
     \<and> null_all (text_of 0 2000) (bq_description r) \<and> opt_all money_re (bq_price r)
     \<and> opt_all currency_re (bq_currency r) \<and> null_all isUuid (bq_imageAssetId r)"

text \<open>A combo request with its texts trimmed and its lines parsed.\<close>

definition combo_parse :: "(string \<Rightarrow> bool) \<Rightarrow> combo_request \<Rightarrow> combo_request option" where
  "combo_parse isUuid value =
     (let r = value\<lparr>bq_name := map_option js_trim (bq_name value), bq_description := trim_null (bq_description value)\<rparr>
      in if \<not> combo_fields isUuid r then None
         else (case bq_items r of
                 None \<Rightarrow> Some r
               | Some ls \<Rightarrow> if 1 \<le> length ls \<and> length ls \<le> 50
                   then map_option (\<lambda>ls. r\<lparr>bq_items := Some ls\<rparr>) (parse_all (comboItemInputSchema isUuid) ls)
                   else None))"

definition comboInputSchema :: "(string \<Rightarrow> bool) \<Rightarrow> combo_request \<Rightarrow> combo_request option" where
  "comboInputSchema isUuid value =
     (if bq_categoryId value \<noteq> None \<and> bq_name value \<noteq> None \<and> bq_price value \<noteq> None \<and> bq_currency value \<noteq> None
        \<and> bq_items value \<noteq> None \<and> bq_version value = None \<and> bq_status value \<noteq> Some Archived
      then map_option (\<lambda>r. r\<lparr>bq_status := default_if True Draft (bq_status r)\<rparr>) (combo_parse isUuid value)
      else None)"

definition comboPatchSchema :: "(string \<Rightarrow> bool) \<Rightarrow> combo_request \<Rightarrow> combo_request option" where
  "comboPatchSchema isUuid value =
     (if (case bq_version value of None \<Rightarrow> False | Some v \<Rightarrow> whole 1 v) then combo_parse isUuid value else None)"

record media_request =
  mq_fileName :: string
  mq_mimeType :: string
  mq_byteSize :: int
  mq_checksumSha256 :: string

definition MEDIA_IMAGE_MAX_BYTES :: int where "MEDIA_IMAGE_MAX_BYTES = 10 * 1024 * 1024"
definition MEDIA_VIDEO_MAX_BYTES :: int where "MEDIA_VIDEO_MAX_BYTES = 50 * 1024 * 1024"

definition mediaImageMimeTypes :: "string list" where
  "mediaImageMimeTypes = [''image/jpeg'', ''image/png'', ''image/webp'']"

definition mediaVideoMimeTypes :: "string list" where
  "mediaVideoMimeTypes = [''video/mp4'', ''video/webm'']"

definition mediaUploadInputSchema :: "media_request \<Rightarrow> media_request option" where
  "mediaUploadInputSchema value =
     (let r = value\<lparr>mq_fileName := js_trim (mq_fileName value)\<rparr>
      in if text_of 1 255 (mq_fileName r) \<and> List.member (mediaImageMimeTypes @ mediaVideoMimeTypes) (mq_mimeType r)
           \<and> 0 < mq_byteSize r \<and> mq_byteSize r \<le> MEDIA_VIDEO_MAX_BYTES \<and> sha256_re (mq_checksumSha256 r)
           \<and> \<not> (List.member mediaImageMimeTypes (mq_mimeType r) \<and> MEDIA_IMAGE_MAX_BYTES < mq_byteSize r)
         then Some r else None)"

section \<open>Rules\<close>

definition normalizeCatalogName :: "string \<Rightarrow> string" where
  "normalizeCatalogName value = lower_ascii (js_trim value)"

definition assertAddonSelectionBounds :: "int \<Rightarrow> int \<Rightarrow> int \<Rightarrow> app_error + unit" where
  "assertAddonSelectionBounds minSel maxSel selected =
     (if minSel < 0 \<or> maxSel < minSel \<or> selected < minSel \<or> selected > maxSel
      then Inl (CatalogError CatalogRuleViolation) else Inr ())"

definition assertPublishableItem :: "CatalogStatus \<Rightarrow> MediaStatus option \<Rightarrow> app_error + unit" where
  "assertPublishableItem categoryStatus mediaStatus =
     (if categoryStatus \<noteq> Active then Inl (CatalogError CatalogRuleViolation)
      else if (case mediaStatus of None \<Rightarrow> False | Some st \<Rightarrow> st \<noteq> MediaReady)
      then Inl (CatalogError CatalogRuleViolation)
      else Inr ())"

definition assertPublishableCombo ::
  "CatalogStatus \<Rightarrow> MediaStatus option \<Rightarrow> (CatalogStatus \<times> int) list \<Rightarrow> app_error + unit" where
  "assertPublishableCombo categoryStatus mediaStatus items =
     bnd (assertPublishableItem categoryStatus mediaStatus) (\<lambda>_.
       if items = [] \<or> list_ex (\<lambda>(st, quantity). st \<noteq> Active \<or> quantity \<le> 0) items
       then Inl (CatalogError CatalogRuleViolation) else Inr ())"

definition assertArchivableCategory :: "nat \<Rightarrow> app_error + unit" where
  "assertArchivableCategory sellableChildren =
     (if 0 < sellableChildren then Inl (CatalogError CatalogRuleViolation) else Inr ())"

section \<open>Labels printed by a scale\<close>

lemma digit_space: "is_digit c \<Longrightarrow> \<not> js_space c"
  by (auto simp: is_digit_def js_space_def)

lemma js_trim_digits: "list_all is_digit s \<Longrightarrow> js_trim s = s"
proof -
  assume s: "list_all is_digit s"
  have drop: "dropWhile js_space t = t" if "list_all is_digit t" for t
    using that by (cases t) (auto simp: digit_space)
  show "js_trim s = s"
    using s by (simp add: js_trim_def drop list_all_iff)
qed

lemma weighted_sum_snoc:
  "weighted_sum w v (cs @ [c]) = weighted_sum w v cs + (if even (length cs) then w else v) * digit_val c"
  by (induction cs arbitrary: w v) auto

lemma weighted_sum_change:
  "i < length cs \<Longrightarrow> weighted_sum w v (cs[i := d]) + (if even i then w else v) * digit_val (cs ! i)
     = weighted_sum w v cs + (if even i then w else v) * digit_val d"
proof (induction cs arbitrary: i w v)
  case Nil
  then show ?case by simp
next
  case (Cons c cs)
  then show ?case
  proof (cases i)
    case 0
    then show ?thesis by simp
  next
    case (Suc j)
    then show ?thesis
      using Cons.IH [of j v w] Cons.prems by (cases "even j") simp_all
  qed
qed

lemma completes_to_ten:
  assumes "(a::nat) < 10"
  shows "(10 - s mod 10) mod 10 = a \<longleftrightarrow> (s + a) mod 10 = 0"
proof -
  define m where "m = s mod 10"
  have "m < 10" "(s + a) mod 10 = (m + a) mod 10"
    by (simp_all add: m_def mod_simps)
  then show ?thesis
    unfolding m_def [symmetric] using assms by (cases "m + a < 10") (auto simp: mod_if)
qed

lemma one_digit_differs:
  assumes "(a::nat) < 10" "b < 10" "t mod 10 = 0" "s mod 10 = 0"
    and "t + a = s + b \<or> t + 3 * a = s + 3 * b"
  shows "a = b"
proof -
  have drop: "(t + x) mod 10 = x mod 10" "(s + x) mod 10 = x mod 10" for x
    using assms(3,4) by (simp_all add: mod_add_eq [symmetric])
  have inverse: "x = 7 * (3 * x mod 10) mod 10" if "x < 10" for x :: nat
  proof -
    have "7 * (3 * x mod 10) mod 10 = 21 * x mod 10"
      by (simp add: mod_mult_right_eq)
    also have "21 * x = x + 2 * x * 10" by simp
    also have "(x + 2 * x * 10) mod 10 = x" by (subst mod_mult_self1) (use that in simp)
    finally show ?thesis ..
  qed
  show ?thesis
    using assms(5)
  proof
    assume "t + a = s + b"
    then show ?thesis using drop [of a] drop [of b] assms(1,2) by simp
  next
    assume "t + 3 * a = s + 3 * b"
    then have "3 * a mod 10 = 3 * b mod 10" using drop(1) [of "3 * a"] drop(2) [of "3 * b"] by simp
    then show ?thesis using inverse assms(1,2) by metis
  qed
qed

text \<open>The check digit completes the weighted sum to a multiple of ten.\<close>

lemma check_digit_iff:
  assumes "length c = 13" "list_all is_digit c"
  shows "check_digit (take 12 c) = digit_val (c ! 12) \<longleftrightarrow> weighted_sum 1 3 c mod 10 = 0"
proof -
  have c: "c = take 12 c @ [c ! 12]"
    using take_Suc_conv_app_nth [of 12 c] assms(1) by simp
  have "weighted_sum 1 3 c = weighted_sum 1 3 (take 12 c) + digit_val (c ! 12)"
    by (subst c, subst weighted_sum_snoc) (simp add: assms(1))
  moreover have "digit_val (c ! 12) < 10"
    using assms by (simp add: list_all_iff)
  ultimately show ?thesis
    unfolding check_digit_def by (simp only: completes_to_ten)
qed

lemma parse_weighted:
  "parseScaleEan13 c = Some x \<Longrightarrow> list_all is_digit c \<Longrightarrow> scale_re c \<and> weighted_sum 1 3 c mod 10 = 0"
  using check_digit_iff [of c]
  by (auto simp: parseScaleEan13_def js_trim_digits scale_re_def Let_def split: if_splits)

lemma wrong_digit:
  assumes "scale_re c" "weighted_sum 1 3 c mod 10 = 0" "i < 13" "is_digit d" "d \<noteq> c ! i"
  shows "parseScaleEan13 (c[i := d]) = None"
proof (rule ccontr)
  assume "parseScaleEan13 (c[i := d]) \<noteq> None"
  moreover have digits: "list_all is_digit (c[i := d])"
    using assms(1,4) by (auto simp: scale_re_def list_all_iff dest: set_update_subset_insert [THEN subsetD])
  ultimately have sum: "weighted_sum 1 3 (c[i := d]) mod 10 = 0"
    using parse_weighted by blast
  have dig: "is_digit (c ! i)"
    using assms(1,3) by (simp add: scale_re_def list_all_iff)
  have lt: "digit_val (c ! i) < 10" "digit_val d < 10"
    using dig assms(4) by simp_all
  have i: "i < length c"
    using assms(1,3) by (simp add: scale_re_def)
  have "digit_val (c ! i) = digit_val d"
    using weighted_sum_change [OF i, of 1 3 d] by (intro one_digit_differs [OF lt sum assms(2)]) (simp split: if_splits)
  then show False
    using dig assms(4,5) by (metis digit_chr_val)
qed

text \<open>
  What a label of a scale is, by the EAN-13 standard: the sum of all thirteen digits, those at even
  places once and those at odd places three times, is a multiple of ten.
\<close>

definition ean13_sum :: "string \<Rightarrow> nat" where
  "ean13_sum c = (let d = (\<lambda>i. digit_val (c ! i)) in
     d 0 + 3 * d 1 + d 2 + 3 * d 3 + d 4 + 3 * d 5 + d 6 + 3 * d 7 + d 8 + 3 * d 9 + d 10 + 3 * d 11 + d 12)"

definition label_amount :: "string \<Rightarrow> nat" where
  "label_amount c = (let d = (\<lambda>i. digit_val (c ! i)) in 10000 * d 7 + 1000 * d 8 + 100 * d 9 + 10 * d 10 + d 11)"

definition scale_label :: "string \<Rightarrow> bool" where
  "scale_label c \<longleftrightarrow> length c = 13 \<and> list_all is_digit c \<and> c ! 0 = CHR ''2'' \<and> ean13_sum c mod 10 = 0 \<and> 0 < label_amount c"

lemma thirteen:
  assumes "length c = 13"
  shows "c = map ((!) c) [0, 1, 2, 3, 4, 5, 6, 7, 8, 9, 10, 11, 12]"
proof -
  have "c = map ((!) c) [0..<13]" using assms map_nth [of c] by simp
  moreover have "[0..<13] = [0, 1, 2, 3, 4, 5, 6, 7, 8, 9, 10, 11, 12 :: nat]" by (simp add: upt_rec)
  ultimately show ?thesis by metis
qed

lemma label_sums:
  assumes "length c = 13" "list_all is_digit c"
  shows "weighted_sum 1 3 c = ean13_sum c" "dec_val 0 (take 5 (drop 7 c)) = Some (label_amount c)"
    "take 5 (drop 2 c) = [c ! 2, c ! 3, c ! 4, c ! 5, c ! 6]"
proof -
  obtain a0 a1 a2 a3 a4 a5 a6 a7 a8 a9 a10 a11 a12 where c: "c = [a0, a1, a2, a3, a4, a5, a6, a7, a8, a9, a10, a11, a12]"
    using thirteen [OF assms(1)] by simp
  show "weighted_sum 1 3 c = ean13_sum c" "dec_val 0 (take 5 (drop 7 c)) = Some (label_amount c)"
    "take 5 (drop 2 c) = [c ! 2, c ! 3, c ! 4, c ! 5, c ! 6]"
    using assms(2) by (simp_all add: c ean13_sum_def label_amount_def Let_def)
qed

text \<open>
  C25. A code is read as the label of a scale exactly when it is one: thirteen digits that begin with a 2,
  with a sum the EAN-13 standard accepts and an amount other than zero. Its digits 2 to 6 are the product
  code and 7 to 11 the amount in whole pesos; every other text is refused. So a label with any one of its
  digits misread is refused, never taken for another product or another price.
\<close>

theorem scale_label_read:
  "parseScaleEan13 barcode =
     (let c = js_trim barcode in
      if scale_label c
      then Some \<lparr>sca_pluCode = [c ! 2, c ! 3, c ! 4, c ! 5, c ! 6], sca_calculatedSubtotal = js_str (int (label_amount c)) @ ''.00''\<rparr>
      else None)
   \<and> (scale_label barcode \<and> i < 13 \<and> is_digit k \<and> k \<noteq> barcode ! i \<longrightarrow> parseScaleEan13 (barcode[i := k]) = None)"
proof (intro conjI impI)
  let ?c = "js_trim barcode"
  have "scale_re ?c \<longleftrightarrow> length ?c = 13 \<and> list_all is_digit ?c \<and> ?c ! 0 = CHR ''2''"
    by (cases ?c) (auto simp: scale_re_def)
  then show "parseScaleEan13 barcode = (let c = js_trim barcode in
      if scale_label c
      then Some \<lparr>sca_pluCode = [c ! 2, c ! 3, c ! 4, c ! 5, c ! 6], sca_calculatedSubtotal = js_str (int (label_amount c)) @ ''.00''\<rparr>
      else None)"
    using check_digit_iff [of ?c] label_sums [of ?c]
    by (auto simp: parseScaleEan13_def scale_label_def Let_def)
next
  assume b: "scale_label barcode \<and> i < 13 \<and> is_digit k \<and> k \<noteq> barcode ! i"
  then have "scale_re barcode" by (cases barcode) (auto simp: scale_label_def scale_re_def)
  moreover have "weighted_sum 1 3 barcode mod 10 = 0" using b label_sums(1) [of barcode] by (simp add: scale_label_def)
  ultimately show "parseScaleEan13 (barcode[i := k]) = None" using b by (intro wrong_digit) simp_all
qed

theorem scale_label_read_witness:
  "parseScaleEan13 '' 2000123024509'' = Some \<lparr>sca_pluCode = ''00123'', sca_calculatedSubtotal = js_str 2450 @ ''.00''\<rparr>
   \<and> parseScaleEan13 ''2000123024500'' = None \<and> parseScaleEan13 ''2000723024509'' = None"
proof -
  have labels: "js_trim '' 2000123024509'' = ''2000123024509'' \<and> js_trim ''2000123024500'' = ''2000123024500''
    \<and> scale_label ''2000123024509'' \<and> \<not> scale_label ''2000123024500'' \<and> label_amount ''2000123024509'' = 2450"
    by code_simp
  have "parseScaleEan13 '' 2000123024509'' = Some \<lparr>sca_pluCode = ''00123'', sca_calculatedSubtotal = js_str 2450 @ ''.00''\<rparr>"
    using scale_label_read [of "'' 2000123024509''"] labels by simp
  moreover have "parseScaleEan13 ''2000123024500'' = None"
    using scale_label_read [of "''2000123024500''"] labels by simp
  moreover have "is_digit (CHR ''7'')" by (simp add: is_digit_def)
  then have "parseScaleEan13 (''2000123024509'' [4 := CHR ''7'']) = None"
    using scale_label_read [of "''2000123024509''" 4 "CHR ''7''"] labels by simp
  ultimately show ?thesis by simp
qed

text \<open>A product code is in normal form after one normalisation.\<close>

lemma normalizePluCode_re: "normalizePluCode b = p \<Longrightarrow> p \<noteq> [] \<Longrightarrow> plu_re p"
  by (auto simp: normalizePluCode_def Let_def split: if_splits)

lemma normalizePluCode_plu:
  assumes "plu_re p"
  shows "normalizePluCode p = p"
proof -
  have "js_trim p = p" "digits_only p = p"
    using assms by (auto simp: plu_re_def js_trim_digits)
  then show ?thesis
    using assms by (auto simp: normalizePluCode_def plu_re_def scale_re_def pad_start_def)
qed

end
