(* ===== verification/Search.thy ===== *)
theory Search
  imports CatalogRules Tenancy
begin

text \<open>
  The public search over every store: \<open>src/features/search/domain/search.rules.ts\<close>,
  \<open>src/features/search/domain/search.schemas.ts\<close>, \<open>src/features/search/infrastructure/search.repository.ts\<close>
  and the three services of \<open>src/features/search/application\<close>.

  \<^item> The search reads a projection of the catalogue, \<open>catalog_search_entries\<close> and
    \<open>public_search_tenants\<close>, which the catalogue's services keep up item by item
    (\<open>search-sync.service.ts\<close>) and a job rebuilds (\<open>search-reconciliation.service.ts\<close>).
  \<^item> \<open>like\<close> is the database's pattern match; \<open>sim\<close> stands for its trigram \<open>similarity\<close>.
    Texts are ASCII. A business's \<open>mapQuery\<close>, the text of its two coordinates, is left out.
  \<^item> A statement the database refuses aborts the transaction it is in, so the \<open>catch\<close> blocks
    inside a transaction only go on after errors of the code's own.
  \<^item> The lemmas: a search answers with items and businesses of stores that are open to the
    public, and no more than was asked for; after the job has run with a role that sees every
    store, the projection holds exactly the items on sale, as they are in the catalogue, and
    after it has run as \<open>komanda_runtime\<close> it is empty.
\<close>

section \<open>Queries\<close>

definition MAX_QUERY_LENGTH :: nat where "MAX_QUERY_LENGTH = 80"
definition MAX_LIMIT :: int where "MAX_LIMIT = 50"
definition DEFAULT_LIMIT :: int where "DEFAULT_LIMIT = 10"
definition MIN_SIMILARITY :: rat where "MIN_SIMILARITY = 1 / 4"

definition control_char :: "char \<Rightarrow> bool" where
  "control_char c \<longleftrightarrow> (of_char c :: nat) < 32 \<or> 127 \<le> (of_char c :: nat) \<and> (of_char c :: nat) \<le> 159"

definition sanitizeSearchQuery :: "string \<Rightarrow> string" where
  "sanitizeSearchQuery query = take MAX_QUERY_LENGTH (js_trim (filter (\<lambda>c. \<not> control_char c) query))"

definition hex_digit :: "nat \<Rightarrow> char" where
  "hex_digit n = char_of (if n < 10 then 48 + n else 55 + n)"

definition uri_char :: "char \<Rightarrow> string" where
  "uri_char c =
     (let n = of_char c :: nat in
      if is_digit c \<or> 65 \<le> n \<and> n \<le> 90 \<or> 97 \<le> n \<and> n \<le> 122 \<or> List.member ''-_.!~*()'' c \<or> n = 39
      then [c] else [CHR ''%'', hex_digit (n div 16), hex_digit (n mod 16)])"

definition encodeURIComponent :: "string \<Rightarrow> string" where
  "encodeURIComponent s = concat (map uri_char s)"

definition buildStorefrontProductAnchor :: "string \<Rightarrow> app_error + string" where
  "buildStorefrontProductAnchor itemId =
     (if js_trim itemId = [] then Inl InternalError else Inr (''?item='' @ encodeURIComponent (js_trim itemId)))"

definition assertValidItemTenant :: "string \<Rightarrow> string \<Rightarrow> string \<Rightarrow> app_error + unit" where
  "assertValidItemTenant itemId tenantId itemTenantId =
     (if tenantId \<noteq> itemTenantId then Inl InternalError else Inr ())"

record search_params =
  sq_q :: "string option"
  sq_productsLimit :: "int option"
  sq_businessesLimit :: "int option"

definition searchQuerySchema :: "search_params \<Rightarrow> search_params option" where
  "searchQuerySchema value =
     (let limit_ok = (\<lambda>n. 1 \<le> n \<and> n \<le> MAX_LIMIT)
      in if opt_all (\<lambda>q. length q \<le> MAX_QUERY_LENGTH) (sq_q value)
           \<and> opt_all limit_ok (sq_productsLimit value) \<and> opt_all limit_ok (sq_businessesLimit value)
         then Some \<lparr>sq_q = default_if True [] (sq_q value),
           sq_productsLimit = default_if True DEFAULT_LIMIT (sq_productsLimit value),
           sq_businessesLimit = default_if True DEFAULT_LIMIT (sq_businessesLimit value)\<rparr>
         else None)"

section \<open>Repository\<close>

text \<open>\<open>like\<close>: \<open>%\<close> stands for any text, \<open>_\<close> for any character, a backslash quotes the next one.\<close>

primrec like :: "string \<Rightarrow> bool \<Rightarrow> string \<Rightarrow> bool" where
  "like [] quoted s \<longleftrightarrow> \<not> quoted \<and> s = []"
| "like (p # ps) quoted s \<longleftrightarrow>
     (if \<not> quoted \<and> p = CHR ''%'' then list_ex (\<lambda>n. like ps False (drop n s)) [0..<Suc (length s)]
      else if \<not> quoted \<and> p = CHR 0x5C then like ps True s
      else (case s of [] \<Rightarrow> False | c # cs \<Rightarrow> (c = p \<or> \<not> quoted \<and> p = CHR ''_'') \<and> like ps False cs))"

definition ilike :: "string \<Rightarrow> string \<Rightarrow> bool" where
  "ilike s pattern \<longleftrightarrow> like (lower_ascii pattern) False (lower_ascii s)"

record product_result =
  pr_itemId :: string
  pr_name :: string
  pr_price :: string
  pr_currency :: string
  pr_category :: string
  pr_imageUrl :: "string option"
  pr_tenantId :: string
  pr_tenantSlug :: string
  pr_tenantName :: string
  pr_storefrontPath :: string

record business_result =
  br_id :: string
  br_name :: string
  br_slug :: string
  br_currency :: string
  br_locationName :: "string option"
  br_locationAddress :: "string option"
  br_lat :: rat
  br_lng :: rat
  br_categoriesCount :: int

text \<open>The first of three keys that tells two rows apart decides, then the fourth.\<close>

definition ranked :: "('r \<Rightarrow> bool) \<Rightarrow> ('r \<Rightarrow> bool) \<Rightarrow> ('r \<Rightarrow> rat) \<Rightarrow> ('r \<Rightarrow> 'r \<Rightarrow> bool) \<Rightarrow> 'r \<Rightarrow> 'r \<Rightarrow> bool" where
  "ranked exact prefix score before a b \<longleftrightarrow>
     (if exact a \<noteq> exact b then exact a
      else if prefix a \<noteq> prefix b then prefix a
      else if score a \<noteq> score b then score b < score a
      else before a b)"

definition any_text :: "string \<Rightarrow> string" where "any_text t = ''%'' @ t @ ''%''"

definition text_matches :: "(string \<Rightarrow> string \<Rightarrow> rat) \<Rightarrow> string \<Rightarrow> string \<Rightarrow> bool" where
  "text_matches sim t s \<longleftrightarrow> ilike s (any_text t) \<or> MIN_SIMILARITY \<le> sim s t"

definition entry_result :: "search_entry_row \<Rightarrow> product_result" where
  "entry_result r = \<lparr>pr_itemId = sn_itemId r, pr_name = sn_itemName r, pr_price = centsToMoney (sn_price r),
     pr_currency = sn_currency r, pr_category = sn_categoryName r, pr_imageUrl = sn_imageUrl r,
     pr_tenantId = sn_tenantId r, pr_tenantSlug = sn_tenantSlug r, pr_tenantName = sn_tenantName r,
     pr_storefrontPath = ''?item='' @ encodeURIComponent (sn_itemId r)\<rparr>"

definition searchProducts ::
  "env \<Rightarrow> (string \<Rightarrow> string \<Rightarrow> rat) \<Rightarrow> string \<Rightarrow> int \<Rightarrow> db \<Rightarrow> product_result list" where
  "searchProducts e sim query limit s =
     (let t = js_trim query;
          rows = filter (\<lambda>r. list_ex (\<lambda>p. pst_tenantId p = sn_tenantId r \<and> pst_isPubliclyEligible p) (tb_searchTenants s)
              \<and> sn_isAvailable r \<and> (text_matches sim t (sn_itemName r) \<or> text_matches sim t (sn_categoryName r)))
            (tb_searchEntries s);
          before = ranked (\<lambda>r. sn_itemName r = t) (\<lambda>r. ilike (sn_itemName r) (t @ ''%'')) (\<lambda>r. sim (sn_itemName r) t)
            (\<lambda>a b. e_collate e (sn_tenantName a) (sn_tenantName b))
      in if t = [] then [] else map entry_result (take (nat (min limit MAX_LIMIT)) (sort_by before rows)))"

definition tenant_result :: "search_tenant_row \<Rightarrow> business_result" where
  "tenant_result r =
     (let number = (\<lambda>x. case x of None \<Rightarrow> 0 | Some v \<Rightarrow> fl v)
      in \<lparr>br_id = pst_tenantId r, br_name = pst_tenantName r, br_slug = pst_tenantSlug r, br_currency = ''ARS'',
        br_locationName = pst_locationName r, br_locationAddress = pst_locationAddress r,
        br_lat = number (pst_lat r), br_lng = number (pst_lng r), br_categoriesCount = pst_categoriesCount r\<rparr>)"

definition searchBusinesses ::
  "env \<Rightarrow> (string \<Rightarrow> string \<Rightarrow> rat) \<Rightarrow> string \<Rightarrow> int \<Rightarrow> db \<Rightarrow> business_result list" where
  "searchBusinesses e sim query limit s =
     (let t = js_trim query;
          rows = filter (\<lambda>r. pst_isPubliclyEligible r
              \<and> (text_matches sim t (pst_tenantName r) \<or> ilike (pst_tenantSlug r) (any_text t)
                 \<or> (case pst_locationName r of None \<Rightarrow> False | Some n \<Rightarrow> text_matches sim t n)
                 \<or> (case pst_locationAddress r of None \<Rightarrow> False | Some a \<Rightarrow> text_matches sim t a)))
            (tb_searchTenants s);
          before = ranked (\<lambda>r. pst_tenantName r = t) (\<lambda>r. ilike (pst_tenantName r) (t @ ''%''))
            (\<lambda>r. sim (pst_tenantName r) t) (\<lambda>a b. e_collate e (pst_tenantName a) (pst_tenantName b))
      in if t = [] then [] else map tenant_result (take (nat (min limit MAX_LIMIT)) (sort_by before rows)))"

definition listAllEligibleBusinesses :: "env \<Rightarrow> db \<Rightarrow> business_result list" where
  "listAllEligibleBusinesses e s = map tenant_result
     (sort_by (\<lambda>a b. e_collate e (pst_tenantName a) (pst_tenantName b)) (filter pst_isPubliclyEligible (tb_searchTenants s)))"

text \<open>
  \<open>insert .. on conflict (tenant_id) do update\<close>: the slug is unique as well, and a clash on it is
  not the conflict that is handled.
\<close>

definition upsertSearchTenant :: "search_tenant_row \<Rightarrow> db \<Rightarrow> db_error + db" where
  "upsertSearchTenant row s =
     (let own = (\<lambda>r. pst_tenantId r = pst_tenantId row)
      in if list_ex (\<lambda>r. \<not> own r \<and> pst_tenantSlug r = pst_tenantSlug row) (tb_searchTenants s) then Inl UniqueViolation
         else if list_ex own (tb_searchTenants s)
         then Inr (s\<lparr>tb_searchTenants := upd own (\<lambda>_. row) (tb_searchTenants s)\<rparr>)
         else Inr (s\<lparr>tb_searchTenants := tb_searchTenants s @ [row]\<rparr>))"

text \<open>\<open>insert .. on conflict (item_id) do update\<close>: the row keeps its id and its store.\<close>

definition upsertSearchEntry :: "search_entry_row \<Rightarrow> db \<Rightarrow> db" where
  "upsertSearchEntry row s =
     (let own = (\<lambda>r. sn_itemId r = sn_itemId row)
      in if list_ex own (tb_searchEntries s)
         then s\<lparr>tb_searchEntries := upd own (\<lambda>r. row\<lparr>sn_id := sn_id r, sn_tenantId := sn_tenantId r\<rparr>) (tb_searchEntries s)\<rparr>
         else s\<lparr>tb_searchEntries := tb_searchEntries s @ [row], uuid_next := Suc (uuid_next s)\<rparr>)"

definition deleteSearchEntry :: "string \<Rightarrow> db \<Rightarrow> db" where
  "deleteSearchEntry itemId s = s\<lparr>tb_searchEntries := filter (\<lambda>r. sn_itemId r \<noteq> itemId) (tb_searchEntries s)\<rparr>"

definition deleteSearchEntriesByTenant :: "string \<Rightarrow> db \<Rightarrow> db" where
  "deleteSearchEntriesByTenant tenantId s =
     s\<lparr>tb_searchEntries := filter (\<lambda>r. sn_tenantId r \<noteq> tenantId) (tb_searchEntries s)\<rparr>"

definition updateCategoryNameForEntries :: "env \<Rightarrow> string \<Rightarrow> string \<Rightarrow> string \<Rightarrow> db \<Rightarrow> db" where
  "updateCategoryNameForEntries e tenantId categoryId newCategoryName s =
     s\<lparr>tb_searchEntries := upd (\<lambda>r. sn_tenantId r = tenantId \<and> sn_categoryId r = categoryId)
       (\<lambda>r. r\<lparr>sn_categoryName := newCategoryName, sn_updatedAt := e_now e\<rparr>) (tb_searchEntries s)\<rparr>"

section \<open>The search\<close>

record search_result =
  sr_query :: string
  sr_products :: "product_result list"
  sr_businesses :: "business_result list"

fun anchored :: "product_result list \<Rightarrow> app_error + product_result list" where
  "anchored [] = Inr []"
| "anchored (p # ps) =
     bnd (assertValidItemTenant (pr_itemId p) (pr_tenantId p) (pr_tenantId p)) (\<lambda>_.
     bnd (buildStorefrontProductAnchor (pr_itemId p)) (\<lambda>path.
     bnd (anchored ps) (\<lambda>qs. Inr (p\<lparr>pr_storefrontPath := path\<rparr> # qs))))"

definition search ::
  "env \<Rightarrow> (string \<Rightarrow> string \<Rightarrow> rat) \<Rightarrow> search_params \<Rightarrow> db \<Rightarrow> app_error + search_result" where
  "search e sim params s =
     (let sanitizedQuery = sanitizeSearchQuery (orElse (sq_q params) []);
          productsLimit = min (orElse (sq_productsLimit params) DEFAULT_LIMIT) MAX_LIMIT;
          businessesLimit = min (orElse (sq_businessesLimit params) DEFAULT_LIMIT) MAX_LIMIT
      in if sanitizedQuery = [] then Inr \<lparr>sr_query = [], sr_products = [], sr_businesses = []\<rparr>
         else bnd (anchored (searchProducts e sim sanitizedQuery productsLimit s)) (\<lambda>products.
           Inr \<lparr>sr_query = sanitizedQuery, sr_products = products,
             sr_businesses = searchBusinesses e sim sanitizedQuery businessesLimit s\<rparr>))"

section \<open>Keeping the projection\<close>

text \<open>A coordinate in a \<open>numeric(9, 6)\<close> column.\<close>

definition numeric9_6 :: "rat \<Rightarrow> rat" where
  "numeric9_6 x = (if x < 0 then - (of_int (math_round (- x * 1000000)) / 1000000)
                   else of_int (math_round (x * 1000000)) / 1000000)"

definition searchTenantRow :: "env \<Rightarrow> string \<Rightarrow> tenant_eligibility \<Rightarrow> db \<Rightarrow> search_tenant_row" where
  "searchTenantRow e tenantId eligibility s =
     (let categories = filter (\<lambda>c. cc_tenantId c = tenantId \<and> cc_status c = Active) (tb_categories s);
          confirmedLocation = parseConfirmedLocation (case te_primaryLocation eligibility of None \<Rightarrow> None | Some l \<Rightarrow> tl_address l)
      in \<lparr>pst_tenantId = tenantId, pst_tenantName = t_name (te_tenant eligibility),
        pst_tenantSlug = t_slug (te_tenant eligibility),
        pst_locationName = map_option tl_name (te_primaryLocation eligibility),
        pst_locationAddress = (case confirmedLocation of None \<Rightarrow> None | Some l \<Rightarrow> cloc_formattedAddress l),
        pst_lat = map_option (\<lambda>l. numeric9_6 (cloc_lat l)) confirmedLocation,
        pst_lng = map_option (\<lambda>l. numeric9_6 (cloc_lng l)) confirmedLocation,
        pst_categoriesCount = int (length categories),
        pst_isPubliclyEligible = (te_orderingAvailable eligibility \<and> confirmedLocation \<noteq> None),
        pst_updatedAt = e_now e\<rparr>)"

definition syncTenantEligibility :: "env \<Rightarrow> string \<Rightarrow> db \<Rightarrow> app_error + db" where
  "syncTenantEligibility e tenantId s =
     bnd (fetchTenantReadiness e tenantId s) (\<lambda>eligibility.
       lift_db (upsertSearchTenant (searchTenantRow e tenantId eligibility s) s))"

definition searchEntryRow ::
  "env \<Rightarrow> string \<Rightarrow> tenant_row \<Rightarrow> string \<Rightarrow> string option \<Rightarrow> catalog_item_row \<Rightarrow> db \<Rightarrow> search_entry_row" where
  "searchEntryRow e tenantId tenant categoryName imageUrl item s =
     \<lparr>sn_id = fresh_id e s, sn_tenantId = tenantId, sn_tenantSlug = t_slug tenant, sn_tenantName = t_name tenant,
      sn_itemId = ci_id item, sn_itemName = ci_name item, sn_categoryId = ci_categoryId item,
      sn_categoryName = categoryName, sn_description = ci_description item, sn_price = ci_price item,
      sn_currency = ci_currency item, sn_imageUrl = imageUrl, sn_isAvailable = True, sn_updatedAt = e_now e\<rparr>"

definition media_url :: "string \<Rightarrow> string option \<Rightarrow> db \<Rightarrow> string option" where
  "media_url tenantId imageAssetId s =
     (case imageAssetId of
        None \<Rightarrow> None
      | Some aid \<Rightarrow> (case sel1 (\<lambda>m. ma_tenantId m = tenantId \<and> ma_id m = aid) (tb_media s) of
          None \<Rightarrow> None | Some m \<Rightarrow> ma_publicUrl m))"

definition syncItem :: "env \<Rightarrow> string \<Rightarrow> catalog_item_row \<Rightarrow> db \<Rightarrow> app_error + db" where
  "syncItem e tenantId item s =
     (if ci_status item \<noteq> Active \<or> ci_archivedAt item \<noteq> None then Inr (deleteSearchEntry (ci_id item) s)
      else (case sel1 (\<lambda>t. t_id t = tenantId) (tb_tenants s) of
          None \<Rightarrow> Inr s
        | Some tenant \<Rightarrow>
            (case sel1 (\<lambda>c. cc_tenantId c = tenantId \<and> cc_id c = ci_categoryId item) (tb_categories s) of
               None \<Rightarrow> Inr (deleteSearchEntry (ci_id item) s)
             | Some category \<Rightarrow>
                 if cc_status category \<noteq> Active then Inr (deleteSearchEntry (ci_id item) s)
                 else (let go_on = (\<lambda>s1. Inr (upsertSearchEntry
                           (searchEntryRow e tenantId tenant (cc_name category)
                             (media_url tenantId (ci_imageAssetId item) s) item s1) s1))
                       in case syncTenantEligibility e tenantId s of
                            Inl (DbError err) \<Rightarrow> Inl (DbError err)
                          | Inl _ \<Rightarrow> go_on s
                          | Inr s1 \<Rightarrow> go_on s1))))"

definition removeItem :: "string \<Rightarrow> db \<Rightarrow> db" where
  "removeItem itemId s = deleteSearchEntry itemId s"

definition syncCategoryRename :: "env \<Rightarrow> string \<Rightarrow> string \<Rightarrow> string \<Rightarrow> db \<Rightarrow> db" where
  "syncCategoryRename e tenantId categoryId newCategoryName s =
     updateCategoryNameForEntries e tenantId categoryId newCategoryName s"

section \<open>Rebuilding the projection\<close>

record search_reconciliation =
  rec_tenantsSynced :: nat
  rec_itemsSynced :: nat
  rec_errors :: "string list"

definition on_sale :: "catalog_item_row \<Rightarrow> bool" where
  "on_sale i \<longleftrightarrow> ci_status i = Active \<and> ci_archivedAt i = None"

fun syncItems :: "env \<Rightarrow> string \<Rightarrow> catalog_item_row list \<Rightarrow> db \<Rightarrow> app_error + db" where
  "syncItems e tenantId [] s = Inr s"
| "syncItems e tenantId (item # items) s = bnd (syncItem e tenantId item s) (syncItems e tenantId items)"

text \<open>
  One round of the loop. Inside the loop the only statement that can throw without the database
  having refused it is the first one, so an error of the code's own leaves the state as it was.
\<close>

definition reconcileTenant ::
  "env \<Rightarrow> string \<Rightarrow> search_reconciliation \<times> db \<Rightarrow> app_error + search_reconciliation \<times> db" where
  "reconcileTenant e tenantId acc =
     (let (report, s) = acc in
      case syncTenantEligibility e tenantId s of
        Inl (DbError err) \<Rightarrow> Inl (DbError err)
      | Inl _ \<Rightarrow> Inr (report\<lparr>rec_errors := rec_errors report @ [tenantId]\<rparr>, s)
      | Inr s1 \<Rightarrow>
          (let activeItems = filter (\<lambda>i. ci_tenantId i = tenantId \<and> on_sale i) (tb_items s1)
           in bnd (syncItems e tenantId activeItems s1) (\<lambda>s2.
             Inr (report\<lparr>rec_tenantsSynced := Suc (rec_tenantsSynced report),
               rec_itemsSynced := rec_itemsSynced report + length activeItems\<rparr>, s2))))"

fun reconcileTenants ::
  "env \<Rightarrow> string list \<Rightarrow> search_reconciliation \<times> db \<Rightarrow> app_error + search_reconciliation \<times> db" where
  "reconcileTenants e [] acc = Inr acc"
| "reconcileTenants e (t # ts) acc = bnd (reconcileTenant e t acc) (reconcileTenants e ts)"

text \<open>
  Before the clean-up the job sets \<open>app.tenant_id\<close> to the empty text. The policy of \<open>catalog_items\<close> knows
  no exception for services, so it is the role of the connection that decides which items the
  subselect of the \<open>DELETE\<close> finds; the entries themselves are open to every service.
\<close>

definition reconcileIn :: "env \<Rightarrow> db \<Rightarrow> app_error + search_reconciliation \<times> db" where
  "reconcileIn e s =
     bnd (reconcileTenants e (map t_id (tb_tenants s))
         (\<lparr>rec_tenantsSynced = 0, rec_itemsSynced = 0, rec_errors = []\<rparr>, s)) (\<lambda>(report, s1).
       Inr (report, s1\<lparr>tb_searchEntries := filter
         (\<lambda>r. list_ex (\<lambda>i. row_visible e None (ci_tenantId i) \<and> ci_id i = sn_itemId r \<and> on_sale i) (tb_items s1))
         (tb_searchEntries s1)\<rparr>))"

definition reconcileAll :: "env \<Rightarrow> db \<Rightarrow> (app_error + search_reconciliation) \<times> db" where
  "reconcileAll e s = transact (reconcileIn e) s"

section \<open>What a search shows\<close>

lemma anchored_Inr:
  "anchored ps = Inr qs \<Longrightarrow> length qs = length ps
     \<and> (\<forall>q \<in> set qs. \<exists>p \<in> set ps. \<exists>path. q = p\<lparr>pr_storefrontPath := path\<rparr>)"
proof (induction ps arbitrary: qs)
  case Nil
  then show ?case by simp
next
  case (Cons p ps)
  obtain path rest where qs: "qs = p\<lparr>pr_storefrontPath := path\<rparr> # rest" and rest: "anchored ps = Inr rest"
    using Cons.prems by auto
  show ?case
    unfolding qs using Cons.IH [OF rest] by auto
qed

definition public_entry :: "db \<Rightarrow> search_entry_row \<Rightarrow> bool" where
  "public_entry s r \<longleftrightarrow> r \<in> set (tb_searchEntries s) \<and> sn_isAvailable r
     \<and> (\<exists>t \<in> set (tb_searchTenants s). pst_tenantId t = sn_tenantId r \<and> pst_isPubliclyEligible t)"

lemma searchProducts_public:
  "p \<in> set (searchProducts e sim q n s) \<Longrightarrow> \<exists>r. public_entry s r \<and> p = entry_result r"
  by (auto simp: searchProducts_def public_entry_def Let_def list_ex_iff split: if_splits dest!: in_set_takeD)

lemma searchBusinesses_public:
  "b \<in> set (searchBusinesses e sim q n s) \<Longrightarrow>
     \<exists>t \<in> set (tb_searchTenants s). pst_isPubliclyEligible t \<and> b = tenant_result t"
  by (auto simp: searchBusinesses_def Let_def split: if_splits dest!: in_set_takeD)

lemma length_searches:
  "int (length (searchProducts e sim q n s)) \<le> max 0 (min n MAX_LIMIT)"
  "int (length (searchBusinesses e sim q n s)) \<le> max 0 (min n MAX_LIMIT)"
  by (auto simp: searchProducts_def searchBusinesses_def Let_def)

text \<open>
  C24. A search answers only with what the projection holds of stores that are open to the public: every
  item it shows is an entry of the projection marked available, of such a store, under that store's name
  and at the entry's price, every business it shows is such a store, and there are no more of either
  than the limits asked for. Whether the projection is up to date with the catalogue is not its concern:
  the witness finds an entry whose item is back in draft.
\<close>

theorem search_only_public:
  assumes "search e sim params s = Inr r"
  shows "(\<forall>p \<in> set (sr_products r). \<exists>en. public_entry s en \<and> pr_itemId p = sn_itemId en
        \<and> pr_name p = sn_itemName en \<and> pr_price p = centsToMoney (sn_price en)
        \<and> pr_tenantId p = sn_tenantId en \<and> pr_tenantName p = sn_tenantName en)
    \<and> (\<forall>b \<in> set (sr_businesses r). \<exists>t \<in> set (tb_searchTenants s).
        pst_isPubliclyEligible t \<and> br_id b = pst_tenantId t \<and> br_name b = pst_tenantName t)
    \<and> int (length (sr_products r)) \<le> max 0 (min (orElse (sq_productsLimit params) 10) 50)
    \<and> int (length (sr_businesses r)) \<le> max 0 (min (orElse (sq_businessesLimit params) 10) 50)"
proof (cases "sanitizeSearchQuery (orElse (sq_q params) []) = []")
  case True
  then show ?thesis using assms by (auto simp: search_def)
next
  case False
  define q where "q = sanitizeSearchQuery (orElse (sq_q params) [])"
  let ?found = "searchProducts e sim q (min (orElse (sq_productsLimit params) DEFAULT_LIMIT) MAX_LIMIT) s"
  let ?shops = "searchBusinesses e sim q (min (orElse (sq_businessesLimit params) DEFAULT_LIMIT) MAX_LIMIT) s"
  obtain ps where ps: "anchored ?found = Inr ps"
    and r: "r = \<lparr>sr_query = q, sr_products = ps, sr_businesses = ?shops\<rparr>"
    using assms False unfolding search_def Let_def by (auto simp: q_def)
  note found = anchored_Inr [OF ps]
  have "\<exists>en. public_entry s en \<and> pr_itemId p = sn_itemId en \<and> pr_name p = sn_itemName en
      \<and> pr_price p = centsToMoney (sn_price en) \<and> pr_tenantId p = sn_tenantId en \<and> pr_tenantName p = sn_tenantName en"
    if p: "p \<in> set ps" for p
  proof -
    obtain p0 path where p0: "p0 \<in> set ?found" and p: "p = p0\<lparr>pr_storefrontPath := path\<rparr>"
      using found p by blast
    obtain en where "public_entry s en" "p0 = entry_result en"
      using searchProducts_public [OF p0] by blast
    then show ?thesis using p by (auto simp: entry_result_def)
  qed
  moreover have "\<exists>t \<in> set (tb_searchTenants s). pst_isPubliclyEligible t \<and> br_id b = pst_tenantId t \<and> br_name b = pst_tenantName t"
    if "b \<in> set ?shops" for b
    using searchBusinesses_public [OF that] by (auto simp: tenant_result_def Let_def)
  ultimately show ?thesis
    using found length_searches(1) [of e sim q "min (orElse (sq_productsLimit params) DEFAULT_LIMIT) MAX_LIMIT" s]
      length_searches(2) [of e sim q "min (orElse (sq_businessesLimit params) DEFAULT_LIMIT) MAX_LIMIT" s]
    by (simp add: r DEFAULT_LIMIT_def MAX_LIMIT_def)
qed

section \<open>What the projection holds\<close>

definition category_of :: "db \<Rightarrow> catalog_item_row \<Rightarrow> category_row option" where
  "category_of s i = sel1 (\<lambda>c. cc_tenantId c = ci_tenantId i \<and> cc_id c = ci_categoryId i) (tb_categories s)"

text \<open>An item the public may find: on sale, in an active category.\<close>

definition shown :: "db \<Rightarrow> catalog_item_row \<Rightarrow> bool" where
  "shown s i \<longleftrightarrow> on_sale i \<and> (case category_of s i of None \<Rightarrow> False | Some c \<Rightarrow> cc_status c = Active)"

text \<open>The entry shows the item as the catalogue has it.\<close>

definition entry_shows :: "db \<Rightarrow> catalog_item_row \<Rightarrow> search_entry_row \<Rightarrow> bool" where
  "entry_shows s i en \<longleftrightarrow> sn_itemId en = ci_id i \<and> sn_tenantId en = ci_tenantId i \<and> sn_itemName en = ci_name i
     \<and> sn_description en = ci_description i \<and> sn_price en = ci_price i \<and> sn_currency en = ci_currency i
     \<and> sn_categoryId en = ci_categoryId i \<and> map_option cc_name (category_of s i) = Some (sn_categoryName en)
     \<and> sn_imageUrl en = media_url (ci_tenantId i) (ci_imageAssetId i) s \<and> sn_isAvailable en
     \<and> map_option (\<lambda>t. (t_name t, t_slug t)) (sel1 (\<lambda>t. t_id t = ci_tenantId i) (tb_tenants s))
         = Some (sn_tenantName en, sn_tenantSlug en)"

text \<open>Keys of the tables the projection is made from, and its foreign key to the items.\<close>

definition projection_ok :: "db \<Rightarrow> bool" where
  "projection_ok s \<longleftrightarrow> uniq ci_id (tb_items s) \<and> uniq sn_itemId (tb_searchEntries s)
     \<and> (\<forall>i \<in> set (tb_items s). ci_tenantId i \<in> t_id ` set (tb_tenants s))
     \<and> (\<forall>en \<in> set (tb_searchEntries s). \<forall>i \<in> set (tb_items s).
          ci_id i = sn_itemId en \<longrightarrow> sn_tenantId en = ci_tenantId i)"

text \<open>The two states differ in the projection only.\<close>

definition same_catalog :: "db \<Rightarrow> db \<Rightarrow> bool" where
  "same_catalog s s' \<longleftrightarrow> tb_items s' = tb_items s \<and> tb_categories s' = tb_categories s \<and> tb_media s' = tb_media s
     \<and> tb_tenants s' = tb_tenants s"

lemma same_catalog_refl [simp]: "same_catalog s s"
  by (simp add: same_catalog_def)

lemma same_catalog_trans: "same_catalog s s1 \<Longrightarrow> same_catalog s1 s2 \<Longrightarrow> same_catalog s s2"
  by (simp add: same_catalog_def)

lemma same_catalog_media: "same_catalog s s' \<Longrightarrow> media_url tid a s' = media_url tid a s"
  by (cases a) (simp_all add: same_catalog_def media_url_def)

lemma same_catalog_shown:
  assumes "same_catalog s s'"
  shows "shown s' i = shown s i" "entry_shows s' i en = entry_shows s i en"
  using assms same_catalog_media [OF assms] by (simp_all add: same_catalog_def shown_def entry_shows_def category_of_def)

abbreviation entry_of :: "string \<Rightarrow> db \<Rightarrow> search_entry_row option" where
  "entry_of j s \<equiv> sel1 (\<lambda>r. sn_itemId r = j) (tb_searchEntries s)"

text \<open>An item whose entry is as it should be.\<close>

definition synced :: "db \<Rightarrow> catalog_item_row \<Rightarrow> bool" where
  "synced s i \<longleftrightarrow> (if shown s i then \<exists>en. entry_of (ci_id i) s = Some en \<and> entry_shows s i en
                    else entry_of (ci_id i) s = None)"

lemma synced_frame:
  "same_catalog s s' \<Longrightarrow> entry_of (ci_id i) s' = entry_of (ci_id i) s \<Longrightarrow> synced s' i = synced s i"
  by (simp add: synced_def same_catalog_shown)

text \<open>One step of the projection: it touches the entry of one item.\<close>

definition projects :: "string \<Rightarrow> db \<Rightarrow> db \<Rightarrow> bool" where
  "projects j s s' \<longleftrightarrow> same_catalog s s' \<and> projection_ok s' \<and> (\<forall>k. k \<noteq> j \<longrightarrow> entry_of k s' = entry_of k s)"

lemma sel1_filter_ne: "sel1 (\<lambda>r. f r = k) (filter (\<lambda>r. f r \<noteq> j) t) = (if k = j then None else sel1 (\<lambda>r. f r = k) t)"
  by (induction t) auto

lemma deleteSearchEntry_projects:
  assumes "projection_ok s"
  shows "projects j s (deleteSearchEntry j s)" "entry_of j (deleteSearchEntry j s) = None"
proof -
  have "uniq sn_itemId (filter (\<lambda>r. sn_itemId r \<noteq> j) (tb_searchEntries s))"
    using assms by (simp add: projection_ok_def uniq_def distinct_map_filter)
  then show "projects j s (deleteSearchEntry j s)"
    using assms by (auto simp: projects_def same_catalog_def projection_ok_def deleteSearchEntry_def sel1_filter_ne)
  show "entry_of j (deleteSearchEntry j s) = None"
    by (simp add: deleteSearchEntry_def sel1_filter_ne)
qed

lemma upsertSearchTenant_state: "upsertSearchTenant row s = Inr s' \<Longrightarrow> \<exists>t. s' = s\<lparr>tb_searchTenants := t\<rparr>"
  by (auto simp: upsertSearchTenant_def Let_def split: if_splits)

lemma syncTenantEligibility_state: "syncTenantEligibility e tid s = Inr s' \<Longrightarrow> \<exists>t. s' = s\<lparr>tb_searchTenants := t\<rparr>"
  using upsertSearchTenant_state by (auto simp: syncTenantEligibility_def)

lemma sel1_upd_key:
  assumes "\<And>r. f (g r) = k"
  shows "sel1 (\<lambda>r. f r = j) (upd (\<lambda>r. f r = k) g t)
    = (if j = k then map_option g (sel1 (\<lambda>r. f r = k) t) else sel1 (\<lambda>r. f r = j) t)"
  using assms by (induction t) auto

lemma upsertSearchEntry_projects:
  assumes ok: "projection_ok s" and i: "i \<in> set (tb_items s)"
    and row: "sn_itemId row = ci_id i" "sn_tenantId row = ci_tenantId i"
  shows "projects (ci_id i) s (upsertSearchEntry row s)"
    and "\<exists>n. entry_of (ci_id i) (upsertSearchEntry row s) = Some (row\<lparr>sn_id := n\<rparr>)"
proof -
  let ?own = "\<lambda>r. sn_itemId r = ci_id i" and ?t = "tb_searchEntries s"
  let ?g = "\<lambda>r. row\<lparr>sn_id := sn_id r, sn_tenantId := sn_tenantId r\<rparr>"
  have ids: "ci_id j = ci_id i \<Longrightarrow> j \<in> set (tb_items s) \<Longrightarrow> j = i" for j
    using ok i by (auto simp: projection_ok_def dest: uniq_eq)
  have "projects (ci_id i) s (upsertSearchEntry row s)
    \<and> (\<exists>n. entry_of (ci_id i) (upsertSearchEntry row s) = Some (row\<lparr>sn_id := n\<rparr>))"
  proof (cases "list_ex ?own ?t")
    case True
    then have up: "upsertSearchEntry row s = s\<lparr>tb_searchEntries := upd ?own ?g ?t\<rparr>"
      by (simp add: upsertSearchEntry_def row Let_def)
    obtain r where r: "sel1 ?own ?t = Some r"
      using True by (cases "sel1 ?own ?t") (auto simp: list_ex_iff sel1_None)
    have "sn_tenantId r = ci_tenantId i"
      using ok i sel1_SomeD [OF r] by (auto simp: projection_ok_def)
    then have r': "?g r = row\<lparr>sn_id := sn_id r\<rparr>"
      using row(2) by (cases row) simp
    have "uniq sn_itemId (upd ?own ?g ?t) = uniq sn_itemId ?t"
      by (rule uniq_upd) (use row in auto)
    then have "uniq sn_itemId (upd ?own ?g ?t)"
      using ok by (simp add: projection_ok_def)
    moreover have "sn_tenantId en = ci_tenantId k"
      if "en \<in> set (upd ?own ?g ?t)" "k \<in> set (tb_items s)" "ci_id k = sn_itemId en" for en k
      using that ok row by (elim in_updE) (auto simp: projection_ok_def split: if_splits)
    ultimately have "projection_ok (upsertSearchEntry row s)"
      using ok by (simp add: projection_ok_def up)
    then show ?thesis
      using row by (auto simp: projects_def same_catalog_def up sel1_upd_key r r')
  next
    case False
    then have up: "upsertSearchEntry row s = s\<lparr>tb_searchEntries := ?t @ [row], uuid_next := Suc (uuid_next s)\<rparr>"
      by (simp add: upsertSearchEntry_def row Let_def)
    have none: "sel1 ?own ?t = None" using False by (auto simp: sel1_None list_ex_iff)
    have "uniq sn_itemId (?t @ [row])"
      using ok False row by (auto simp: projection_ok_def uniq_append1 list_ex_iff)
    then have "projection_ok (upsertSearchEntry row s)"
      using ok row ids by (auto simp: projection_ok_def up)
    moreover have "\<exists>n. row = row\<lparr>sn_id := n\<rparr>" by (rule exI [of _ "sn_id row"]) simp
    ultimately show ?thesis
      using row none by (auto simp: projects_def same_catalog_def up sel1_append split: option.split)
  qed
  then show "projects (ci_id i) s (upsertSearchEntry row s)"
    and "\<exists>n. entry_of (ci_id i) (upsertSearchEntry row s) = Some (row\<lparr>sn_id := n\<rparr>)" by blast+
qed

lemma projects_synced:
  "projects j s s' \<Longrightarrow> synced s i \<Longrightarrow> ci_id i \<noteq> j \<Longrightarrow> synced s' i"
  using synced_frame [of s s' i] by (auto simp: projects_def)

lemma projection_ok_tenants [simp]: "projection_ok (s\<lparr>tb_searchTenants := t\<rparr>) = projection_ok s"
  by (simp add: projection_ok_def)

lemma sel1_key_Some: "k \<in> f ` set t \<Longrightarrow> \<exists>r. sel1 (\<lambda>r. f r = k) t = Some r"
  by (cases "sel1 (\<lambda>r. f r = k) t") (auto simp: sel1_None)

lemma item_tenant:
  "projection_ok s \<Longrightarrow> i \<in> set (tb_items s) \<Longrightarrow> \<exists>t. sel1 (\<lambda>t. t_id t = ci_tenantId i) (tb_tenants s) = Some t"
  by (rule sel1_key_Some) (simp add: projection_ok_def)

text \<open>After an item has been synchronised its entry is as it should be.\<close>

lemma syncItem_projects:
  assumes ok: "projection_ok s" and i: "i \<in> set (tb_items s)" and run: "syncItem e (ci_tenantId i) i s = Inr s'"
  shows "projects (ci_id i) s s' \<and> synced s' i"
proof (cases "shown s i")
  case False
  obtain tenant where tenant: "sel1 (\<lambda>t. t_id t = ci_tenantId i) (tb_tenants s) = Some tenant"
    using item_tenant [OF ok i] by blast
  have "s' = deleteSearchEntry (ci_id i) s"
    using run False by (auto simp: syncItem_def shown_def on_sale_def category_of_def tenant split: option.splits if_splits)
  then show ?thesis
    using deleteSearchEntry_projects [OF ok, of "ci_id i"] False
    by (auto simp: synced_def projects_def same_catalog_shown)
next
  case True
  obtain tenant where tenant: "sel1 (\<lambda>t. t_id t = ci_tenantId i) (tb_tenants s) = Some tenant"
    using item_tenant [OF ok i] by blast
  obtain category where cat: "category_of s i = Some category" "cc_status category = Active"
    using True by (auto simp: shown_def split: option.splits)
  let ?row = "\<lambda>s1. searchEntryRow e (ci_tenantId i) tenant (cc_name category)
    (media_url (ci_tenantId i) (ci_imageAssetId i) s) i s1"
  obtain s1 where s1: "s1 = s \<or> (\<exists>t. s1 = s\<lparr>tb_searchTenants := t\<rparr>)" and s': "s' = upsertSearchEntry (?row s1) s1"
  proof (cases "syncTenantEligibility e (ci_tenantId i) s")
    case (Inl err)
    then show ?thesis
      using run True cat that [of s]
      by (auto simp: syncItem_def shown_def on_sale_def category_of_def [symmetric] tenant split: app_error.splits)
  next
    case (Inr s1)
    then show ?thesis
      using run True cat that [of s1] syncTenantEligibility_state [OF Inr]
      by (auto simp: syncItem_def shown_def on_sale_def category_of_def [symmetric] tenant)
  qed
  have s1_ok: "projection_ok s1" "i \<in> set (tb_items s1)" "same_catalog s s1" "tb_searchEntries s1 = tb_searchEntries s"
    using s1 ok i by (auto simp: same_catalog_def)
  obtain n where p: "projects (ci_id i) s1 s'" and en: "entry_of (ci_id i) s' = Some (?row s1\<lparr>sn_id := n\<rparr>)"
    using upsertSearchEntry_projects [OF s1_ok(1,2), of "?row s1"] unfolding s' by (auto simp: searchEntryRow_def)
  have same: "same_catalog s s'"
    using s1_ok(3) p by (auto simp: projects_def intro: same_catalog_trans)
  have "entry_shows s i (?row s1\<lparr>sn_id := n\<rparr>)"
    using cat tenant by (simp add: entry_shows_def searchEntryRow_def)
  then have "synced s' i"
    using True en same by (simp add: synced_def same_catalog_shown)
  then show ?thesis
    using p same s1_ok(4) by (simp add: projects_def)
qed

lemma syncItems_synced:
  assumes "projection_ok s" "set is \<subseteq> set (tb_items s)" "distinct (map ci_id is)" "\<forall>i \<in> set is. ci_tenantId i = tid"
    and "syncItems e tid is s = Inr s'"
  shows "same_catalog s s' \<and> projection_ok s' \<and> (\<forall>i \<in> set is. synced s' i)
    \<and> (\<forall>k. k \<notin> ci_id ` set is \<longrightarrow> entry_of k s' = entry_of k s)"
  using assms
proof (induction "is" arbitrary: s)
  case Nil
  then show ?case by simp
next
  case (Cons i "is")
  obtain s1 where s1: "syncItem e tid i s = Inr s1" and rest: "syncItems e tid is s1 = Inr s'"
    using Cons.prems(5) by auto
  have i: "i \<in> set (tb_items s)" "ci_tenantId i = tid" using Cons.prems(2,4) by auto
  have p: "projects (ci_id i) s s1" "synced s1 i"
    using syncItem_projects [OF Cons.prems(1) i(1)] s1 i(2) by auto
  have sub: "projection_ok s1" "set is \<subseteq> set (tb_items s1)" "distinct (map ci_id is)" "\<forall>i \<in> set is. ci_tenantId i = tid"
    using p(1) Cons.prems by (auto simp: projects_def same_catalog_def)
  have ih: "same_catalog s1 s'" "projection_ok s'" "\<forall>i \<in> set is. synced s' i"
      "\<And>k. k \<notin> ci_id ` set is \<Longrightarrow> entry_of k s' = entry_of k s1"
    using Cons.IH [OF sub rest] by auto
  have same: "same_catalog s s'"
    using p(1) ih(1) by (auto simp: projects_def intro: same_catalog_trans)
  have new: "ci_id i \<notin> ci_id ` set is"
    using Cons.prems(3) by simp
  have "synced s' i"
    using synced_frame [OF ih(1)] ih(4) [OF new] p(2) by blast
  moreover have "entry_of k s' = entry_of k s" if "k \<notin> ci_id ` set (i # is)" for k
    using ih(4) [of k] p(1) that by (simp add: projects_def)
  ultimately show ?case
    using same ih(2,3) by simp
qed

lemma distinct_map_filter_uniq: "uniq k t \<Longrightarrow> distinct (map k (filter P t))"
  by (simp add: uniq_def distinct_map_filter)

text \<open>One store: its items on sale are synchronised, the entries of other items left alone.\<close>

lemma reconcileTenant_synced:
  assumes ok: "projection_ok s" and t: "tid \<in> t_id ` set (tb_tenants s)"
    and run: "reconcileTenant e tid (report, s) = Inr (report', s')"
  shows "same_catalog s s' \<and> projection_ok s'
    \<and> (\<forall>i \<in> set (tb_items s). on_sale i \<and> (ci_tenantId i = tid \<or> synced s i) \<longrightarrow> synced s' i)"
proof -
  let ?items = "filter (\<lambda>i. ci_tenantId i = tid \<and> on_sale i)"
  obtain s1 where s1: "syncTenantEligibility e tid s = Inr s1" and rest: "syncItems e tid (?items (tb_items s1)) s1 = Inr s'"
  proof (cases "syncTenantEligibility e tid s")
    case (Inl err)
    obtain el where "fetchTenantReadiness e tid s = Inr el"
      using sel1_key_Some [OF t] by (auto simp: fetchTenantReadiness_def Let_def)
    then have "\<exists>d. err = DbError d"
      using Inl by (auto simp: syncTenantEligibility_def lift_db_def split: sum.splits)
    then show ?thesis using run Inl by (auto simp: reconcileTenant_def)
  next
    case (Inr s1)
    then show ?thesis using run that by (auto simp: reconcileTenant_def Let_def)
  qed
  have st: "\<exists>t. s1 = s\<lparr>tb_searchTenants := t\<rparr>" by (rule syncTenantEligibility_state [OF s1])
  then have s1_ok: "projection_ok s1" "same_catalog s s1" "tb_items s1 = tb_items s" "tb_searchEntries s1 = tb_searchEntries s"
    using ok by (auto simp: same_catalog_def)
  have dist: "distinct (map ci_id (?items (tb_items s1)))"
    using s1_ok(1) by (intro distinct_map_filter_uniq) (simp add: projection_ok_def)
  have own: "set (?items (tb_items s1)) \<subseteq> set (tb_items s1)" "\<forall>i \<in> set (?items (tb_items s1)). ci_tenantId i = tid"
    by auto
  have run: "same_catalog s1 s'" "projection_ok s'" "\<forall>i \<in> set (?items (tb_items s1)). synced s' i"
      "\<And>k. k \<notin> ci_id ` set (?items (tb_items s1)) \<Longrightarrow> entry_of k s' = entry_of k s1"
    using syncItems_synced [OF s1_ok(1) own(1) dist own(2) rest] by blast+
  have same: "same_catalog s s'" by (rule same_catalog_trans [OF s1_ok(2) run(1)])
  have "synced s' i" if i: "i \<in> set (tb_items s)" "on_sale i" "ci_tenantId i = tid \<or> synced s i" for i
  proof (cases "ci_tenantId i = tid")
    case True
    then show ?thesis using run(3) i s1_ok(3) by simp
  next
    case False
    have "ci_id i \<notin> ci_id ` set (?items (tb_items s1))"
      using False i(1) ok s1_ok(3) by (auto simp: projection_ok_def dest: uniq_eq)
    then show ?thesis
      using synced_frame [OF same] run(4) s1_ok(4) i(3) False by simp
  qed
  then show ?thesis using same run(2) by blast
qed

lemma reconcileTenants_synced:
  assumes "projection_ok s" "set ts \<subseteq> t_id ` set (tb_tenants s)" "reconcileTenants e ts (report, s) = Inr (report', s')"
  shows "same_catalog s s' \<and> projection_ok s'
    \<and> (\<forall>i \<in> set (tb_items s). on_sale i \<and> (ci_tenantId i \<in> set ts \<or> synced s i) \<longrightarrow> synced s' i)"
  using assms
proof (induction ts arbitrary: report s)
  case Nil
  then show ?case by simp
next
  case (Cons t ts)
  obtain acc where acc: "reconcileTenant e t (report, s) = Inr acc" and rest: "reconcileTenants e ts acc = Inr (report', s')"
    using Cons.prems(3) by auto
  obtain report1 s1 where s1: "acc = (report1, s1)" by (cases acc)
  have t: "t \<in> t_id ` set (tb_tenants s)" using Cons.prems(2) by simp
  have one: "same_catalog s s1" "projection_ok s1"
      "\<forall>i \<in> set (tb_items s). on_sale i \<and> (ci_tenantId i = t \<or> synced s i) \<longrightarrow> synced s1 i"
    using reconcileTenant_synced [OF Cons.prems(1) t] acc s1 by auto
  have sub: "set ts \<subseteq> t_id ` set (tb_tenants s1)"
    using one(1) Cons.prems(2) by (simp add: same_catalog_def)
  have ih: "same_catalog s1 s'" "projection_ok s'"
      "\<forall>i \<in> set (tb_items s1). on_sale i \<and> (ci_tenantId i \<in> set ts \<or> synced s1 i) \<longrightarrow> synced s' i"
    using Cons.IH [OF one(2) sub] rest s1 by auto
  have "tb_items s1 = tb_items s" using one(1) by (simp add: same_catalog_def)
  then have "\<forall>i \<in> set (tb_items s). on_sale i \<and> (ci_tenantId i \<in> set (t # ts) \<or> synced s i) \<longrightarrow> synced s' i"
    using one(3) ih(3) by auto
  then show ?case
    using same_catalog_trans [OF one(1) ih(1)] ih(2) by simp
qed

text \<open>
  C22. What the job that rebuilds the projection leaves, by the role its connection has. As
  \<open>komanda_runtime\<close>, the role the service runs with, its clean-up finds no item and deletes every entry:
  the search is left without a single product. With the role the policies show every store to, the
  projection is the catalogue: its entries are, one for one, the items on sale in an active
  category, each under its store's and its category's name, at the item's price and with its
  picture. The catalogue itself is as it was either way.
\<close>

theorem search_projection_exact:
  assumes "projection_ok s" "reconcileAll e s = (Inr report, s')"
  shows "(e_role e = KomandaRuntime \<longrightarrow> tb_searchEntries s' = [])
    \<and> (e_role e = KomandaMigration \<longrightarrow> (\<forall>en \<in> set (tb_searchEntries s'). \<exists>i \<in> set (tb_items s). shown s i \<and> entry_shows s i en)
      \<and> (\<forall>i \<in> set (tb_items s). shown s i \<longrightarrow> (\<exists>en \<in> set (tb_searchEntries s'). entry_shows s i en)))
    \<and> distinct (map sn_itemId (tb_searchEntries s')) \<and> same_catalog s s'"
proof -
  let ?kept = "\<lambda>s1 r. list_ex (\<lambda>i. row_visible e None (ci_tenantId i) \<and> ci_id i = sn_itemId r \<and> on_sale i) (tb_items s1)"
  have body: "reconcileIn e s = Inr (report, s')"
    using assms(2) by (simp add: reconcileAll_def transact_commit)
  obtain s1 where run: "reconcileTenants e (map t_id (tb_tenants s)) (\<lparr>rec_tenantsSynced = 0, rec_itemsSynced = 0, rec_errors = []\<rparr>, s)
      = Inr (report, s1)" and s': "s' = s1\<lparr>tb_searchEntries := filter (?kept s1) (tb_searchEntries s1)\<rparr>"
    using body by (auto simp: reconcileIn_def)
  have one: "same_catalog s s1" "projection_ok s1" "\<forall>i \<in> set (tb_items s). on_sale i \<longrightarrow> synced s1 i"
    using reconcileTenants_synced [OF assms(1) _ run] assms(1) by (auto simp: projection_ok_def)
  have items: "tb_items s1 = tb_items s" using one(1) by (simp add: same_catalog_def)
  have key: "en \<in> set (tb_searchEntries s1) \<Longrightarrow> entry_of (sn_itemId en) s1 = Some en" for en
    using one(2) by (auto simp: projection_ok_def intro: uniq_sel1_in)
  have "tb_searchEntries s' = []" if "e_role e = KomandaRuntime"
    using that by (simp add: s' row_visible_def list_ex_iff)
  moreover have "\<exists>i \<in> set (tb_items s). shown s i \<and> entry_shows s i en" if "en \<in> set (tb_searchEntries s')" for en
  proof -
    obtain i where i: "i \<in> set (tb_items s)" "ci_id i = sn_itemId en" "on_sale i" and en: "en \<in> set (tb_searchEntries s1)"
      using \<open>en \<in> set (tb_searchEntries s')\<close> by (auto simp: s' list_ex_iff items)
    show ?thesis
      using one(3) i key [OF en] by (intro bexI [OF _ i(1)]) (auto simp: synced_def same_catalog_shown [OF one(1)] split: if_splits)
  qed
  moreover have "\<exists>en \<in> set (tb_searchEntries s'). entry_shows s i en"
    if i: "i \<in> set (tb_items s)" "shown s i" and role: "e_role e = KomandaMigration" for i
  proof -
    have sale: "on_sale i" using i(2) by (simp add: shown_def)
    then obtain en where en: "entry_of (ci_id i) s1 = Some en" "entry_shows s i en"
      using one(3) [rule_format, OF i(1) sale] i(2) by (auto simp: synced_def same_catalog_shown [OF one(1)])
    have "en \<in> set (tb_searchEntries s')"
      using sel1_SomeD [OF en(1)] i(1) sale role by (auto simp: s' list_ex_iff items row_visible_def)
    then show ?thesis using en(2) by blast
  qed
  moreover have "distinct (map sn_itemId (tb_searchEntries s'))"
    using one(2) by (auto simp: s' projection_ok_def intro: distinct_map_filter_uniq)
  moreover have "same_catalog s s'"
    using one(1) by (simp add: s' same_catalog_def)
  ultimately show ?thesis by blast
qed

section \<open>Examples\<close>

definition sample_shop :: tenant_row where
  "sample_shop = \<lparr>t_id = ''t1'', t_name = ''Pizzeria'', t_slug = ''pizzeria'', t_normalizedSlug = ''pizzeria'',
     t_status = ActiveTenant, t_preset = Gastronomy, t_defaultCurrency = ''ARS'', t_defaultTimezone = ''UTC'',
     t_version = 1, t_activatedAt = None, t_suspendedAt = None, t_updatedAt = 0\<rparr>"

definition sample_category :: category_row where
  "sample_category = \<lparr>cc_id = ''c1'', cc_tenantId = ''t1'', cc_name = ''Pizzas'', cc_normalizedName = ''pizzas'',
     cc_description = None, cc_sortOrder = 0, cc_status = Active, cc_version = 1, cc_archivedAt = None, cc_updatedAt = 0\<rparr>"

definition sample_pizza :: catalog_item_row where
  "sample_pizza = \<lparr>ci_id = ''i1'', ci_tenantId = ''t1'', ci_categoryId = ''c1'', ci_name = ''Pizza Napoli'',
     ci_normalizedName = ''pizza napoli'', ci_description = None, ci_price = 150000, ci_currency = ''ARS'',
     ci_itemType = Unit, ci_barcode = None, ci_isGeneric = False, ci_genericIcon = None, ci_trackStock = True,
     ci_stockQuantity = 7, ci_imageAssetId = None, ci_videoAssetId = None, ci_status = Active, ci_sortOrder = 3,
     ci_version = 1, ci_archivedAt = None, ci_updatedAt = 0\<rparr>"

definition sample_entry :: search_entry_row where
  "sample_entry = \<lparr>sn_id = ''n1'', sn_tenantId = ''t1'', sn_tenantSlug = ''pizzeria'', sn_tenantName = ''Pizzeria'',
     sn_itemId = ''i2'', sn_itemName = ''Fugazza'', sn_categoryId = ''c1'', sn_categoryName = ''Pizzas'',
     sn_description = None, sn_price = 140000, sn_currency = ''ARS'', sn_imageUrl = None, sn_isAvailable = True,
     sn_updatedAt = 0\<rparr>"

text \<open>The catalogue has the Napoli on sale and a Fugazza in draft, the projection the Fugazza only.\<close>

definition sample_listing :: db where
  "sample_listing = empty_db\<lparr>tb_tenants := [sample_shop], tb_categories := [sample_category],
     tb_items := [sample_pizza, sample_pizza\<lparr>ci_id := ''i2'', ci_name := ''Fugazza'', ci_normalizedName := ''fugazza'', ci_status := Draft\<rparr>],
     tb_searchTenants := [\<lparr>pst_tenantId = ''t1'', pst_tenantName = ''Pizzeria'', pst_tenantSlug = ''pizzeria'',
       pst_locationName = None, pst_locationAddress = None, pst_lat = None, pst_lng = None, pst_categoriesCount = 1,
       pst_isPubliclyEligible = True, pst_updatedAt = 0\<rparr>],
     tb_searchEntries := [sample_entry]\<rparr>"

theorem search_only_public_witness:
  "\<exists>r. search sample_env (\<lambda>_ _. 0) \<lparr>sq_q = Some ''zza'', sq_productsLimit = None, sq_businessesLimit = None\<rparr> sample_listing = Inr r
     \<and> map pr_name (sr_products r) = [''Fugazza'']
     \<and> list_all (\<lambda>p. \<exists>en. public_entry sample_listing en \<and> pr_itemId p = sn_itemId en) (sr_products r)"
proof -
  let ?run = "search sample_env (\<lambda>_ _. 0) \<lparr>sq_q = Some ''zza'', sq_productsLimit = None, sq_businessesLimit = None\<rparr> sample_listing"
  have "case ?run of Inl _ \<Rightarrow> False | Inr r \<Rightarrow> map pr_name (sr_products r) = [''Fugazza'']" by code_simp
  then obtain r where r: "?run = Inr r" "map pr_name (sr_products r) = [''Fugazza'']" by (auto split: sum.splits)
  have "\<forall>p \<in> set (sr_products r). \<exists>en. public_entry sample_listing en \<and> pr_itemId p = sn_itemId en"
    using search_only_public [OF r(1)] by blast
  then show ?thesis
    by (intro exI [of _ r] conjI r) (simp add: list_all_iff)
qed

theorem search_projection_exact_witness:
  "tb_searchEntries (snd (reconcileAll sample_env sample_listing)) = []
   \<and> map sn_itemId (tb_searchEntries (snd (reconcileAll (sample_env\<lparr>e_role := KomandaMigration\<rparr>) sample_listing))) = [''i1'']
   \<and> list_ex (entry_shows sample_listing sample_pizza)
       (tb_searchEntries (snd (reconcileAll (sample_env\<lparr>e_role := KomandaMigration\<rparr>) sample_listing)))"
proof -
  let ?m = "sample_env\<lparr>e_role := KomandaMigration\<rparr>"
  have "(case reconcileAll ?m sample_listing of (r, s) \<Rightarrow> \<not> isl r \<and> map sn_itemId (tb_searchEntries s) = [''i1''])
    \<and> \<not> isl (fst (reconcileAll sample_env sample_listing))"
    by code_simp
  then obtain report s' report0 s0 where run: "reconcileAll ?m sample_listing = (Inr report, s')"
    "reconcileAll sample_env sample_listing = (Inr report0, s0)"
    and ids: "map sn_itemId (tb_searchEntries (snd (reconcileAll ?m sample_listing))) = [''i1'']"
    by (cases "reconcileAll ?m sample_listing"; cases "fst (reconcileAll ?m sample_listing)";
        cases "reconcileAll sample_env sample_listing"; cases "fst (reconcileAll sample_env sample_listing)") auto
  have ok: "projection_ok sample_listing"
    by (auto simp: projection_ok_def sample_listing_def sample_pizza_def sample_entry_def sample_shop_def uniq_def)
  have "sample_pizza \<in> set (tb_items sample_listing)" "shown sample_listing sample_pizza"
    by (simp_all add: sample_listing_def shown_def on_sale_def category_of_def sample_pizza_def sample_category_def)
  then have "list_ex (entry_shows sample_listing sample_pizza) (tb_searchEntries s')"
    using search_projection_exact [OF ok run(1)] by (auto simp: list_ex_iff)
  moreover have "tb_searchEntries s0 = []"
    using search_projection_exact [OF ok run(2)] by (simp add: sample_env_def)
  ultimately show ?thesis using ids by (simp add: run)
qed

end
