(* ===== verification/Versioned.thy ===== *)
theory Versioned
  imports Prelude
begin

text \<open>
  Optimistic locking: the discipline of every write that carries the version its caller read
  (\<open>where version = expected .. set version = version + 1\<close>).

  \<^item> \<open>versioned_write\<close> is the contract: a write that succeeds found the version it expected and
    left the next one.
  \<^item> Its client lemmas: of two writes prepared on the same version at most one takes effect, and
    a run of successful writes was prepared on consecutive versions.
\<close>

fun run_writes :: "('i \<Rightarrow> int \<Rightarrow> 's \<Rightarrow> 'e + 'r \<times> 's) \<Rightarrow> ('i \<times> int) list \<Rightarrow> 's \<Rightarrow> int list \<times> 's" where
  "run_writes w [] s = ([], s)"
| "run_writes w ((i, v) # ws) s =
     (case w i v s of
        Inl e \<Rightarrow> run_writes w ws s
      | Inr (r, s') \<Rightarrow> (let (vs, s'') = run_writes w ws s' in (v # vs, s'')))"

locale versioned_write =
  fixes ok :: "'s \<Rightarrow> bool"
    and version :: "'s \<Rightarrow> int option"
    and wr :: "'i \<Rightarrow> int \<Rightarrow> 's \<Rightarrow> 'e + 'r \<times> 's"
  assumes write_ok: "ok s \<Longrightarrow> wr i v s = Inr (r, s') \<Longrightarrow>
    version s = Some v \<and> version s' = Some (v + 1) \<and> ok s'"
begin

lemma stale_rejected:
  assumes "ok s" "wr i v s = Inr (r, s')"
  obtains err where "wr j v s' = Inl err"
proof (cases "wr j v s'")
  case (Inl err)
  then show ?thesis by (rule that)
next
  case (Inr p)
  then show ?thesis
    using write_ok [OF assms] write_ok [of s' j v "fst p" "snd p"] by simp
qed

text \<open>The versions of the writes of a run that took effect are distinct and consecutive.\<close>

lemma run_consecutive:
  assumes "ok s" "version s = Some n"
  shows "let (vs, s') = run_writes wr ws s in
    vs = map (\<lambda>k. n + int k) [0..<length vs] \<and> version s' = Some (n + int (length vs)) \<and> ok s'"
  using assms
proof (induction ws arbitrary: s n)
  case Nil
  then show ?case by simp
next
  case (Cons w ws)
  obtain i v where w: "w = (i, v)" by (cases w)
  show ?case
  proof (cases "wr i v s")
    case (Inl err)
    then show ?thesis using Cons.IH [OF Cons.prems] w by simp
  next
    case (Inr p)
    obtain r s1 where p: "p = (r, s1)" by (cases p)
    have v: "v = n" and s1: "ok s1" "version s1 = Some (n + 1)"
      using write_ok [of s i v r s1] Inr p Cons.prems by auto
    obtain vs s2 where run: "run_writes wr ws s1 = (vs, s2)" by fastforce
    have ih: "vs = map (\<lambda>k. n + 1 + int k) [0..<length vs]" "version s2 = Some (n + 1 + int (length vs))" "ok s2"
      using Cons.IH [OF s1] run by auto
    have "n # map (\<lambda>k. n + 1 + int k) [0..<m] = map (\<lambda>k. n + int k) [0..<Suc m]" for m
      unfolding upt_conv_Cons [OF zero_less_Suc] map_Suc_upt [symmetric] by (simp add: o_def ac_simps)
    then have "n # vs = map (\<lambda>k. n + int k) [0..<length (n # vs)]"
      using ih(1) by (metis length_Cons)
    then show ?thesis
      using ih(2,3) v w Inr p run by (simp del: upt_Suc)
  qed
qed

end

end
