(* ===== verification/Discounts.thy ===== *)
theory Discounts
  imports Db Versioned
begin

text \<open>
  Coupons in the database: \<open>src/features/discounts/domain/discount.schemas.ts\<close>,
  \<open>src/features/discounts/infrastructure/discount.repository.ts\<close> and
  \<open>src/features/discounts/application/discount.service.ts\<close>.

  \<^item> A schema is a partial function from the fields of the request (of the types the schema
    names, dates already coerced) to the parsed value: trimming, defaults and refinements as
    declared. \<open>isUuid\<close> stands for the validator \<open>z.string().uuid()\<close>.
  \<^item> A repository method takes the environment, the tenant and the state. A field that may be
    \<open>undefined\<close> is an option; one that may also be \<open>null\<close> is an option of an option.
  \<^item> The lemmas: what an accepted request may still fail on in the database, the status shown to
    the merchant against the eligibility the customer meets, that redemptions never pass the
    limit, that of two edits prepared on the same version one is refused, and that the code of an
    archived coupon stays taken.
\<close>

section \<open>Schemas\<close>

record create_discount_request =
  cd_code :: string
  cd_name :: string
  cd_description :: "string option"
  cd_discountType :: DiscountType
  cd_discountValue :: string
  cd_minOrderAmount :: "string option"
  cd_maxRedemptions :: "int option"
  cd_startsAt :: "int option"
  cd_endsAt :: "int option"
  cd_scope :: "DiscountScope option"
  cd_applicableTender :: "ApplicableTender option"
  cd_targetCategoryIds :: "string list option"
  cd_targetItemIds :: "string list option"
  cd_isActive :: "bool option"

definition number_in :: "rat \<Rightarrow> string \<Rightarrow> bool" where
  "number_in bound s = (case js_Decimal s of None \<Rightarrow> False | Some v \<Rightarrow> 0 < v \<and> v \<le> bound)"

text \<open>The parsed request: the trimmed strings, with every default filled in.\<close>

definition create_defaults :: "create_discount_request \<Rightarrow> create_discount_request" where
  "create_defaults d = d\<lparr>cd_code := js_trim (cd_code d), cd_name := js_trim (cd_name d),
     cd_description := map_option js_trim (cd_description d),
     cd_minOrderAmount := Some (orElse (cd_minOrderAmount d) ''0''),
     cd_scope := Some (orElse (cd_scope d) ScopeGlobal),
     cd_applicableTender := Some (orElse (cd_applicableTender d) TenderAll),
     cd_targetCategoryIds := Some (orElse (cd_targetCategoryIds d) []),
     cd_targetItemIds := Some (orElse (cd_targetItemIds d) []),
     cd_isActive := Some (orElse (cd_isActive d) True)\<rparr>"

definition ends_after_start :: "int option \<Rightarrow> int option \<Rightarrow> bool" where
  "ends_after_start startsAt endsAt =
     (case (startsAt, endsAt) of (Some a, Some b) \<Rightarrow> a \<le> b | _ \<Rightarrow> True)"

definition CreateDiscountSchema ::
  "(string \<Rightarrow> bool) \<Rightarrow> create_discount_request \<Rightarrow> create_discount_request option" where
  "CreateDiscountSchema isUuid value =
     (let data = create_defaults value in
      if 1 \<le> length (cd_code data) \<and> length (cd_code data) \<le> 50
        \<and> 1 \<le> length (cd_name data) \<and> length (cd_name data) \<le> 100
        \<and> (case cd_description data of None \<Rightarrow> True | Some t \<Rightarrow> length t \<le> 500)
        \<and> decimal_re (cd_discountValue data)
        \<and> decimal_re (the (cd_minOrderAmount data))
        \<and> (case cd_maxRedemptions data of None \<Rightarrow> True | Some m \<Rightarrow> 0 < m)
        \<and> list_all isUuid (the (cd_targetCategoryIds data)) \<and> list_all isUuid (the (cd_targetItemIds data))
        \<and> (if cd_discountType data = Percentage then number_in 100 (cd_discountValue data)
           else number_in 1000000 (cd_discountValue data))
        \<and> ends_after_start (cd_startsAt data) (cd_endsAt data)
        \<and> (cd_scope data = Some ScopeCategory \<longrightarrow> 0 < length (the (cd_targetCategoryIds data)))
        \<and> (cd_scope data = Some ScopeItem \<longrightarrow> 0 < length (the (cd_targetItemIds data)))
      then Some data else None)"

record update_discount_request =
  ud_name :: "string option"
  ud_description :: "string option option"
  ud_discountValue :: "string option"
  ud_minOrderAmount :: "string option"
  ud_maxRedemptions :: "int option option"
  ud_startsAt :: "int option"
  ud_endsAt :: "int option option"
  ud_scope :: "DiscountScope option"
  ud_applicableTender :: "ApplicableTender option"
  ud_targetCategoryIds :: "string list option"
  ud_targetItemIds :: "string list option"
  ud_isActive :: "bool option"
  ud_version :: "int option"

definition UpdateDiscountSchema ::
  "(string \<Rightarrow> bool) \<Rightarrow> update_discount_request \<Rightarrow> update_discount_request option" where
  "UpdateDiscountSchema isUuid value =
     (let data = value\<lparr>ud_name := map_option js_trim (ud_name value),
                       ud_description := map_option (map_option js_trim) (ud_description value)\<rparr> in
      if (case ud_name data of None \<Rightarrow> True | Some n \<Rightarrow> 1 \<le> length n \<and> length n \<le> 100)
        \<and> (case ud_description data of Some (Some t) \<Rightarrow> length t \<le> 500 | _ \<Rightarrow> True)
        \<and> (case ud_discountValue data of None \<Rightarrow> True | Some v \<Rightarrow> decimal_re v)
        \<and> (case ud_minOrderAmount data of None \<Rightarrow> True | Some v \<Rightarrow> decimal_re v)
        \<and> (case ud_maxRedemptions data of Some (Some m) \<Rightarrow> 0 < m | _ \<Rightarrow> True)
        \<and> (case ud_targetCategoryIds data of None \<Rightarrow> True | Some ids \<Rightarrow> list_all isUuid ids)
        \<and> (case ud_targetItemIds data of None \<Rightarrow> True | Some ids \<Rightarrow> list_all isUuid ids)
        \<and> (case ud_version data of None \<Rightarrow> True | Some v \<Rightarrow> 0 < v)
        \<and> (case ud_endsAt data of Some e \<Rightarrow> ends_after_start (ud_startsAt data) e | None \<Rightarrow> True)
      then Some data else None)"

datatype DiscountStatus = DsActive | DsPaused | DsScheduled | DsExpired | DsExhausted

definition calculateDiscountStatus :: "discount_row \<Rightarrow> int \<Rightarrow> DiscountStatus" where
  "calculateDiscountStatus discount now =
     (if \<not> d_isActive discount then DsPaused
      else if now < d_startsAt discount then DsScheduled
      else if (case d_endsAt discount of None \<Rightarrow> False | Some e \<Rightarrow> e < now) then DsExpired
      else if (case d_maxRedemptions discount of None \<Rightarrow> False | Some m \<Rightarrow> m \<le> d_redemptionsCount discount)
      then DsExhausted
      else DsActive)"

definition status_name :: "DiscountStatus \<Rightarrow> string" where
  "status_name st = (case st of DsActive \<Rightarrow> ''active'' | DsPaused \<Rightarrow> ''paused'' | DsScheduled \<Rightarrow> ''scheduled''
     | DsExpired \<Rightarrow> ''expired'' | DsExhausted \<Rightarrow> ''exhausted'')"

text \<open>The output is the row (its money columns in their text form) with its status.\<close>

record discount_output =
  do_row :: discount_row
  do_discountValue :: string
  do_minOrderAmount :: string
  do_status :: DiscountStatus

definition formatDiscountOutput :: "discount_row \<Rightarrow> int \<Rightarrow> discount_output" where
  "formatDiscountOutput discount now =
     \<lparr>do_row = discount, do_discountValue = centsToMoney (d_discountValue discount),
      do_minOrderAmount = centsToMoney (d_minOrderAmount discount),
      do_status = calculateDiscountStatus discount now\<rparr>"

text \<open>A row where \<open>discount.rules.ts\<close> expects a \<open>CouponRuleInput\<close>.\<close>

definition coupon_of :: "discount_row \<Rightarrow> CouponRuleInput" where
  "coupon_of d = \<lparr>cp_id = Some (d_id d), cp_code = d_code d, cp_discountType = d_discountType d,
     cp_discountValue = centsToMoney (d_discountValue d), cp_minOrderAmount = centsToMoney (d_minOrderAmount d),
     cp_maxRedemptions = d_maxRedemptions d, cp_redemptionsCount = Some (d_redemptionsCount d),
     cp_startsAt = Some (d_startsAt d), cp_endsAt = d_endsAt d, cp_scope = d_scope d,
     cp_targetCategoryIds = d_targetCategoryIds d, cp_targetItemIds = d_targetItemIds d,
     cp_isActive = d_isActive d, cp_applicableTender = Some (d_applicableTender d)\<rparr>"

section \<open>Repository\<close>

definition is_hex :: "char \<Rightarrow> bool" where
  "is_hex c \<longleftrightarrow> is_digit c \<or> 97 \<le> (of_char (lower_char c) :: nat) \<and> (of_char (lower_char c) :: nat) \<le> 102"

definition uuid_re :: "string \<Rightarrow> bool" where
  "uuid_re s = (let ps = js_split (CHR ''-'') s in map length ps = [8, 4, 4, 4, 12] \<and> list_all (list_all is_hex) ps)"

text \<open>\<open>insert .. values .. on conflict do nothing\<close> on the two target tables.\<close>

definition insert_targets ::
  "string \<Rightarrow> string \<Rightarrow> string list \<Rightarrow> discount_target_row list \<Rightarrow> discount_target_row list" where
  "insert_targets tid did targets t =
     fold (\<lambda>i t. if List.member t (tid, did, i) then t else t @ [(tid, did, i)]) targets t"

definition delete_targets :: "string \<Rightarrow> string \<Rightarrow> discount_target_row list \<Rightarrow> discount_target_row list" where
  "delete_targets tid did t = filter (\<lambda>r. \<not> (fst r = tid \<and> fst (snd r) = did)) t"

definition discountRow ::
  "env \<Rightarrow> string \<Rightarrow> string \<Rightarrow> create_discount_request \<Rightarrow> int \<Rightarrow> int \<Rightarrow> db \<Rightarrow> discount_row" where
  "discountRow e tid normalizedCode inp discountValue minOrder s =
     \<lparr>d_id = fresh_id e s, d_tenantId = tid, d_code = normalizedCode, d_name = js_trim (cd_name inp),
      d_description = map_option js_trim (cd_description inp), d_discountType = cd_discountType inp,
      d_discountValue = discountValue, d_minOrderAmount = minOrder,
      d_maxRedemptions = cd_maxRedemptions inp, d_redemptionsCount = 0,
      d_startsAt = orElse (cd_startsAt inp) (e_now e), d_endsAt = cd_endsAt inp,
      d_scope = orElse (cd_scope inp) ScopeGlobal,
      d_applicableTender = orElse (cd_applicableTender inp) TenderAll,
      d_targetCategoryIds = orElse (cd_targetCategoryIds inp) [],
      d_targetItemIds = orElse (cd_targetItemIds inp) [],
      d_isActive = orElse (cd_isActive inp) True, d_version = 1, d_deletedAt = None,
      d_createdAt = e_now e, d_updatedAt = e_now e\<rparr>"

definition createDiscountRow ::
  "env \<Rightarrow> string \<Rightarrow> create_discount_request \<Rightarrow> db \<Rightarrow> app_error + discount_row \<times> db" where
  "createDiscountRow e tid inp s =
     (let normalizedCode = to_upper (js_trim (cd_code inp)) in
      if normalizedCode = [] then Inl DiscountEmptyCode
      else bnd (lift_db (numeric_text (cd_discountValue inp))) (\<lambda>discountValue.
        bnd (lift_db (numeric_text (orElse (cd_minOrderAmount inp) ''0''))) (\<lambda>minOrder.
        let created = discountRow e tid normalizedCode inp discountValue minOrder s in
        bnd (lift_db (insert_row discount_check discount_clash created (tb_discounts s))) (\<lambda>t.
          Inr (created, s\<lparr>tb_discounts := t,
            tb_discountCategories := insert_targets tid (d_id created) (orElse (cd_targetCategoryIds inp) [])
              (tb_discountCategories s),
            tb_discountItems := insert_targets tid (d_id created) (orElse (cd_targetItemIds inp) [])
              (tb_discountItems s),
            uuid_next := Suc (uuid_next s)\<rparr>)))))"

definition live_discount :: "string \<Rightarrow> string \<Rightarrow> discount_row \<Rightarrow> bool" where
  "live_discount tid did r \<longleftrightarrow> d_tenantId r = tid \<and> d_id r = lower_ascii did \<and> d_deletedAt r = None"

definition findDiscountById :: "string \<Rightarrow> string \<Rightarrow> db \<Rightarrow> discount_row option" where
  "findDiscountById tid did s =
     (if \<not> uuid_re did then None else sel1 (live_discount tid did) (tb_discounts s))"

definition findDiscountByCode :: "string \<Rightarrow> string \<Rightarrow> db \<Rightarrow> discount_row option" where
  "findDiscountByCode tid code s =
     (let normalizedCode = to_upper (js_trim code) in
      if normalizedCode = [] then None
      else sel1 (\<lambda>r. d_tenantId r = tid \<and> d_code r = normalizedCode \<and> d_deletedAt r = None) (tb_discounts s))"

text \<open>Rows of the same instant are listed in insertion order.\<close>

definition listDiscountRows :: "string \<Rightarrow> int option \<Rightarrow> int option \<Rightarrow> db \<Rightarrow> discount_row list \<times> int" where
  "listDiscountRows tid limitOpt offsetOpt s =
     (let lim = min (max (orElse limitOpt 50) 1) 100;
          off = max (orElse offsetOpt 0) 0;
          rows = filter (\<lambda>r. d_tenantId r = tid \<and> d_deletedAt r = None) (tb_discounts s)
      in (take (nat lim) (drop (nat off) (sort_by (\<lambda>a b. d_createdAt b \<le> d_createdAt a) rows)),
          int (length rows)))"

definition orKeep :: "'a option \<Rightarrow> 'a \<Rightarrow> 'a" where
  "orKeep new old = (case new of None \<Rightarrow> old | Some v \<Rightarrow> v)"

definition discountSet ::
  "env \<Rightarrow> update_discount_request \<Rightarrow> int option \<Rightarrow> int option \<Rightarrow> discount_row \<Rightarrow> discount_row" where
  "discountSet e inp discountValue minOrder r =
     r\<lparr>d_updatedAt := e_now e, d_version := d_version r + 1,
       d_name := orKeep (map_option js_trim (ud_name inp)) (d_name r),
       d_description := orKeep (map_option (map_option js_trim) (ud_description inp)) (d_description r),
       d_discountValue := orKeep discountValue (d_discountValue r),
       d_minOrderAmount := orKeep minOrder (d_minOrderAmount r),
       d_maxRedemptions := orKeep (ud_maxRedemptions inp) (d_maxRedemptions r),
       d_startsAt := orKeep (ud_startsAt inp) (d_startsAt r),
       d_endsAt := orKeep (ud_endsAt inp) (d_endsAt r),
       d_scope := orKeep (ud_scope inp) (d_scope r),
       d_applicableTender := orKeep (ud_applicableTender inp) (d_applicableTender r),
       d_targetCategoryIds := orKeep (ud_targetCategoryIds inp) (d_targetCategoryIds r),
       d_targetItemIds := orKeep (ud_targetItemIds inp) (d_targetItemIds r),
       d_isActive := orKeep (ud_isActive inp) (d_isActive r)\<rparr>"

definition optional_numeric :: "string option \<Rightarrow> db_error + int option" where
  "optional_numeric v = (case v of None \<Rightarrow> Inr None | Some t \<Rightarrow> bnd (numeric_text t) (\<lambda>n. Inr (Some n)))"

definition replace_targets ::
  "string \<Rightarrow> string \<Rightarrow> string list option \<Rightarrow> discount_target_row list \<Rightarrow> discount_target_row list" where
  "replace_targets tid did ids t =
     (case ids of None \<Rightarrow> t | Some targets \<Rightarrow> insert_targets tid did targets (delete_targets tid did t))"

definition updateDiscountRow ::
  "env \<Rightarrow> string \<Rightarrow> string \<Rightarrow> update_discount_request \<Rightarrow> int option \<Rightarrow> db
     \<Rightarrow> app_error + discount_row option \<times> db" where
  "updateDiscountRow e tid did inp currentVersion s =
     (if \<not> uuid_re did then Inr (None, s)
      else bnd (lift_db (optional_numeric (ud_discountValue inp))) (\<lambda>discountValue.
        bnd (lift_db (optional_numeric (ud_minOrderAmount inp))) (\<lambda>minOrder.
        let here = (\<lambda>r. live_discount tid did r
              \<and> (case currentVersion of None \<Rightarrow> True | Some v \<Rightarrow> d_version r = v));
            setValues = discountSet e inp discountValue minOrder
        in bnd (lift_db (update_rows discount_check here setValues (tb_discounts s))) (\<lambda>(ret, t).
             case ret of
               None \<Rightarrow> Inr (None, s)
             | Some updated \<Rightarrow> Inr (Some updated, s\<lparr>tb_discounts := t,
                 tb_discountCategories := replace_targets tid (d_id updated) (ud_targetCategoryIds inp)
                   (tb_discountCategories s),
                 tb_discountItems := replace_targets tid (d_id updated) (ud_targetItemIds inp)
                   (tb_discountItems s)\<rparr>)))))"

definition softDelete :: "env \<Rightarrow> string \<Rightarrow> string \<Rightarrow> db \<Rightarrow> bool \<times> db" where
  "softDelete e tid did s =
     (if \<not> uuid_re did then (False, s)
      else (list_ex (live_discount tid did) (tb_discounts s),
        s\<lparr>tb_discounts := upd (live_discount tid did)
          (\<lambda>r. r\<lparr>d_deletedAt := Some (e_now e), d_updatedAt := e_now e, d_version := d_version r + 1\<rparr>)
          (tb_discounts s)\<rparr>))"

record redemption_input =
  ri_orderId :: string
  ri_cartId :: string
  ri_discountId :: string
  ri_amountDeducted :: int
  ri_codeSnapshot :: string

definition redeemable :: "string \<Rightarrow> string \<Rightarrow> discount_row \<Rightarrow> bool" where
  "redeemable tid did r \<longleftrightarrow> d_tenantId r = tid \<and> d_id r = did
     \<and> (case d_maxRedemptions r of None \<Rightarrow> True | Some m \<Rightarrow> d_redemptionsCount r < m)"

definition redemptionRow :: "env \<Rightarrow> string \<Rightarrow> redemption_input \<Rightarrow> db \<Rightarrow> redemption_row" where
  "redemptionRow e tid inp s =
     \<lparr>rd_id = fresh_id e s, rd_tenantId = tid, rd_discountId = ri_discountId inp,
      rd_orderId = ri_orderId inp, rd_cartId = ri_cartId inp, rd_amountDeducted = ri_amountDeducted inp,
      rd_codeSnapshot = ri_codeSnapshot inp, rd_status = Redeemed, rd_redeemedAt = e_now e\<rparr>"

definition redeem_one :: "env \<Rightarrow> discount_row \<Rightarrow> discount_row" where
  "redeem_one e r = r\<lparr>d_redemptionsCount := d_redemptionsCount r + 1, d_updatedAt := e_now e,
     d_version := d_version r + 1\<rparr>"

definition recordRedemption :: "env \<Rightarrow> string \<Rightarrow> redemption_input \<Rightarrow> db \<Rightarrow> bool \<times> db" where
  "recordRedemption e tid inp s =
     (let here = redeemable tid (ri_discountId inp);
          row = redemptionRow e tid inp s
      in (list_ex here (tb_discounts s),
          s\<lparr>tb_discounts := upd here (redeem_one e) (tb_discounts s),
            tb_redemptions := (if list_ex (redemption_clash row) (tb_redemptions s) then tb_redemptions s
                               else tb_redemptions s @ [row]),
            uuid_next := Suc (uuid_next s)\<rparr>))"

definition markRedemptionCancelled :: "string \<Rightarrow> string \<Rightarrow> db \<Rightarrow> bool \<times> db" where
  "markRedemptionCancelled tid orderId s =
     (let here = (\<lambda>r. rd_tenantId r = tid \<and> rd_orderId r = orderId)
      in (list_ex here (tb_redemptions s),
          s\<lparr>tb_redemptions := upd here (\<lambda>r. r\<lparr>rd_status := OrderCancelled\<rparr>) (tb_redemptions s)\<rparr>))"

section \<open>Service\<close>

definition createDiscount ::
  "(string \<Rightarrow> bool) \<Rightarrow> env \<Rightarrow> TenantContext \<Rightarrow> create_discount_request \<Rightarrow> db
     \<Rightarrow> (app_error + discount_output) \<times> db" where
  "createDiscount isUuid e context value s =
     (case CreateDiscountSchema isUuid value of
        None \<Rightarrow> (Inl ValidationError, s)
      | Some inp \<Rightarrow> with_tenant (\<lambda>s.
          if findDiscountByCode (ctx_tenantId context) (cd_code inp) s \<noteq> None then Inl DiscountConflict
          else bnd (createDiscountRow e (ctx_tenantId context) inp s) (\<lambda>(created, s').
            Inr (formatDiscountOutput created (e_now e), s'))) s)"

definition listDiscounts ::
  "env \<Rightarrow> TenantContext \<Rightarrow> int option \<Rightarrow> int option \<Rightarrow> string option \<Rightarrow> db \<Rightarrow> discount_output list \<times> int" where
  "listDiscounts e context limitOpt offsetOpt status s =
     (let (items, total) = listDiscountRows (ctx_tenantId context) limitOpt offsetOpt s;
          formatted = map (\<lambda>item. formatDiscountOutput item (e_now e)) items
      in if status = None \<or> status = Some [] \<or> status = Some ''all'' then (formatted, total)
         else (let filtered = filter (\<lambda>item. Some (status_name (do_status item)) = status) formatted
               in (filtered, int (length filtered))))"

definition getDiscount :: "env \<Rightarrow> TenantContext \<Rightarrow> string \<Rightarrow> db \<Rightarrow> app_error + discount_output" where
  "getDiscount e context did s =
     (case findDiscountById (ctx_tenantId context) did s of
        None \<Rightarrow> Inl DiscountNotFound
      | Some discount \<Rightarrow> Inr (formatDiscountOutput discount (e_now e)))"

definition updateDiscount ::
  "(string \<Rightarrow> bool) \<Rightarrow> env \<Rightarrow> TenantContext \<Rightarrow> string \<Rightarrow> update_discount_request \<Rightarrow> int option \<Rightarrow> db
     \<Rightarrow> (app_error + discount_output) \<times> db" where
  "updateDiscount isUuid e context did value versionHeader s =
     (case UpdateDiscountSchema isUuid value of
        None \<Rightarrow> (Inl ValidationError, s)
      | Some inp \<Rightarrow>
          (let expectedVersion = (case versionHeader of None \<Rightarrow> ud_version inp | Some v \<Rightarrow> Some v) in
           with_tenant (\<lambda>s.
             case findDiscountById (ctx_tenantId context) did s of
               None \<Rightarrow> Inl DiscountNotFound
             | Some existing \<Rightarrow>
                 if (case expectedVersion of None \<Rightarrow> False | Some v \<Rightarrow> d_version existing \<noteq> v) then Inl DiscountConflict
                 else bnd (updateDiscountRow e (ctx_tenantId context) did inp expectedVersion s) (\<lambda>(updated, s').
                   case updated of
                     None \<Rightarrow> Inl DiscountConflict
                   | Some d \<Rightarrow> Inr (formatDiscountOutput d (e_now e), s'))) s))"

definition archiveDiscount :: "env \<Rightarrow> TenantContext \<Rightarrow> string \<Rightarrow> db \<Rightarrow> (app_error + unit) \<times> db" where
  "archiveDiscount e context did s =
     with_tenant (\<lambda>s.
       case findDiscountById (ctx_tenantId context) did s of
         None \<Rightarrow> Inl DiscountNotFound
       | Some existing \<Rightarrow>
           (let (deleted, s') = softDelete e (ctx_tenantId context) did s
            in if \<not> deleted then Inl DiscountNotFound else Inr ((), s'))) s"

section \<open>Accepted requests in the database\<close>

lemma rev_dropWhile_rev_head: "rev (dropWhile P (rev (x # xs))) = x # rev (dropWhile P (rev xs)) \<or>
    rev (dropWhile P (rev (x # xs))) = []"
  by (cases "\<forall>y \<in> set xs. P y") (auto simp: dropWhile_append)

lemma js_trim_idem [simp]: "js_trim (js_trim s) = js_trim s"
proof -
  define t where "t = dropWhile js_space s"
  have t: "t = [] \<or> \<not> js_space (hd t)"
    unfolding t_def by (induction s) auto
  define u where "u = rev (dropWhile js_space (rev t))"
  have "dropWhile js_space u = u"
    using t rev_dropWhile_rev_head [of js_space "hd t" "tl t"] unfolding u_def by (cases t) auto
  moreover have "dropWhile js_space (rev u) = rev u"
    unfolding u_def by simp
  moreover have "js_trim s = u"
    by (simp add: js_trim_def t_def u_def)
  ultimately show ?thesis
    by (simp add: js_trim_def)
qed

lemma js_Number_zeros: "js_Number ''00'' = Some 0"
  by code_simp

lemma decimal_cents:
  assumes "decimal_re s"
  obtains c where "moneyToCents s = Some c" "0 \<le> c" "js_Decimal s = Some (fl (of_int c / 100))"
proof -
  consider (whole) w where "js_split (CHR ''.'') s = [w]" "w \<noteq> []" "list_all is_digit w"
    | (one) w a where "js_split (CHR ''.'') s = [w, [a]]" "w \<noteq> []" "list_all is_digit w" "is_digit a"
    | (two) w a b where "js_split (CHR ''.'') s = [w, [a, b]]" "w \<noteq> []" "list_all is_digit w" "is_digit a" "is_digit b"
    using assms by (auto simp: decimal_re_def length_Suc_conv numeral_2_eq_2 split: list.splits)
  then show ?thesis
  proof cases
    case whole
    obtain n where n: "dec_val 0 w = Some n"
      using whole dec_val_Some_iff [of 0 w] by auto
    have "dec_rat s = Some (of_int (int n * 100) / 100)"
      using whole n by (simp add: dec_rat_def)
    moreover have "moneyToCents s = Some (int n * 100)"
      using whole n by (simp add: moneyToCents_def Let_def js_Number_digits pad_end_def js_Number_zeros)
    ultimately show ?thesis
      by (intro that [of "int n * 100"] js_Decimal_dec_rat) simp_all
  next
    case one
    obtain n where n: "dec_val 0 w = Some n"
      using one dec_val_Some_iff [of 0 w] by auto
    have zero: "is_digit (CHR ''0'')" "digit_val (CHR ''0'') = 0" by code_simp+
    have "dec_rat s = Some (of_int (int n * 100 + int (10 * digit_val a)) / 100)"
      using one n by (simp add: dec_rat_def dec_val_append field_simps)
    moreover have "moneyToCents s = Some (int n * 100 + int (10 * digit_val a))"
      using one n zero by (simp add: moneyToCents_def Let_def js_Number_digits pad_end_def)
    ultimately show ?thesis
      by (intro that [of "int n * 100 + int (10 * digit_val a)"] js_Decimal_dec_rat) simp_all
  next
    case two
    have s: "s = w @ CHR ''.'' # [a, b]" using js_split_join [of s] two by simp
    obtain n where n: "dec_val 0 w = Some n"
      using two dec_val_Some_iff [of 0 w] by auto
    have "dec_rat s = Some (of_int (int n * 100 + int (10 * digit_val a + digit_val b)) / 100)"
      using two n by (simp add: dec_rat_def dec_val_append field_simps)
    moreover have "moneyToCents s = Some (int n * 100 + int (10 * digit_val a + digit_val b))"
      using two n s by (simp add: moneyToCents_digits)
    ultimately show ?thesis
      by (intro that [of "int n * 100 + int (10 * digit_val a + digit_val b)"] js_Decimal_dec_rat) simp_all
  qed
qed

lemma fl_positive: "0 \<le> x \<Longrightarrow> 0 < fl x \<Longrightarrow> 0 < x"
  by (cases "x = 0") auto

lemma number_in_cents:
  assumes "decimal_re s" "number_in (of_int n) s" "0 < n" "n \<le> 1000000"
  obtains c where "moneyToCents s = Some c" "0 < c" "c \<le> n * 100"
proof -
  obtain c where c: "moneyToCents s = Some c" "0 \<le> c" and d: "js_Decimal s = Some (fl (of_int c / 100))"
    by (rule decimal_cents [OF assms(1)])
  have b: "0 < fl (of_int c / 100)" "fl (of_int c / 100) \<le> of_int n"
    using assms(2) d by (auto simp: number_in_def)
  have pos: "0 < c"
    using fl_positive [OF _ b(1)] c by simp
  have "c \<le> n * 100"
  proof (rule ccontr)
    assume "\<not> c \<le> n * 100"
    then have "(of_int (n * 100 + 1) :: rat) \<le> of_int c" by (simp only: of_int_le_iff)
    then have le: "of_int n + 1 / 100 \<le> (of_int c / 100 :: rat)" by (simp add: field_simps)
    have "of_int c / 100 - fl (of_int c / 100) \<le> (of_int c / 100) / 2 ^ 53"
      using fl_err [of "of_int c / 100"] c(2) abs_ge_minus_self [of "fl (of_int c / 100) - of_int c / 100"]
      by (simp add: abs_of_nonneg)
    then have "(of_int c / 100) * (1 - 1 / 2 ^ 53) \<le> (of_int n :: rat)"
      using b(2) by (simp add: algebra_simps)
    moreover have "(of_int n + 1 / 100) * (1 - 1 / 2 ^ 53) \<le> (of_int c / 100 :: rat) * (1 - 1 / 2 ^ 53)"
      using le by (intro mult_right_mono) auto
    moreover have "(of_int n :: rat) < (of_int n + 1 / 100) * (1 - 1 / 2 ^ 53)"
    proof -
      have "(of_int n :: rat) \<le> 1000000" using assms(4) by (metis of_int_le_iff of_int_numeral)
      then show ?thesis by (simp add: algebra_simps)
    qed
    ultimately show False by linarith
  qed
  then show ?thesis using that c(1) pos by blast
qed

lemma schema_accepts:
  assumes "CreateDiscountSchema isUuid value = Some inp"
  obtains v where "numeric_text (cd_discountValue inp) = Inr v" "0 < v"
    "cd_discountType inp = Percentage \<Longrightarrow> v \<le> 10000" "v \<le> 100000000"
    "to_upper (js_trim (cd_code inp)) \<noteq> []" "js_trim (cd_code inp) = cd_code inp"
    "ends_after_start (cd_startsAt inp) (cd_endsAt inp)"
    "decimal_re (orElse (cd_minOrderAmount inp) ''0'')"
    "\<And>m. cd_maxRedemptions inp = Some m \<Longrightarrow> 0 < m"
proof -
  have inp: "inp = create_defaults value"
    using assms by (auto simp: CreateDiscountSchema_def Let_def split: if_splits)
  have re: "decimal_re (cd_discountValue inp)"
    and num: "if cd_discountType inp = Percentage then number_in (of_int 100) (cd_discountValue inp)
           else number_in (of_int 1000000) (cd_discountValue inp)"
    using assms by (auto simp: CreateDiscountSchema_def Let_def split: if_splits)
  obtain v where v: "moneyToCents (cd_discountValue inp) = Some v" "0 < v" "v \<le> 100000000"
    "cd_discountType inp = Percentage \<Longrightarrow> v \<le> 10000"
  proof (cases "cd_discountType inp = Percentage")
    case True
    then show ?thesis using number_in_cents [OF re, of 100] num that by force
  next
    case False
    then show ?thesis using number_in_cents [OF re, of 1000000] num that by force
  qed
  have "1 \<le> length (cd_code inp)" "decimal_re (the (cd_minOrderAmount inp))"
    "ends_after_start (cd_startsAt inp) (cd_endsAt inp)"
    "case cd_maxRedemptions inp of None \<Rightarrow> True | Some m \<Rightarrow> 0 < m"
    using assms by (auto simp: CreateDiscountSchema_def Let_def split: if_splits)
  moreover have "numeric_text (cd_discountValue inp) = Inr v"
    using v re by (simp add: numeric_text_def numeric12_2_def)
  ultimately show ?thesis
    using v inp by (intro that [of v]) (auto simp: create_defaults_def orElse_def to_upper_def)
qed

text \<open>
  What becomes of a request to create a coupon that the schema accepted, whose minimum order
  fits the column: it is refused as a conflict when a live coupon has the code; it fails on the
  table's check exactly when the end it names is already past and no start is named; it fails on
  the table's key when the code is that of an archived coupon; otherwise the coupon is stored,
  with version 1 and no redemption. No other failure is possible: in particular the bounds the
  schema puts on the value are those of the table.
\<close>

theorem create_outcome:
  assumes "CreateDiscountSchema isUuid value = Some inp"
    and "numeric_text (orElse (cd_minOrderAmount inp) ''0'') = Inr minOrder"
    and "fresh_id e s \<notin> d_id ` set (tb_discounts s)"
  shows "case fst (createDiscount isUuid e ctx value s) of
      Inl err \<Rightarrow>
        if list_ex (\<lambda>r. d_tenantId r = ctx_tenantId ctx \<and> d_code r = to_upper (cd_code inp) \<and> d_deletedAt r = None)
             (tb_discounts s)
        then err = DiscountConflict
        else if \<not> ends_after_start (Some (orElse (cd_startsAt inp) (e_now e))) (cd_endsAt inp)
        then err = DbError CheckViolation \<and> cd_startsAt inp = None
        else err = DbError UniqueViolation
          \<and> list_ex (\<lambda>r. d_tenantId r = ctx_tenantId ctx \<and> d_code r = to_upper (cd_code inp)) (tb_discounts s)
    | Inr out \<Rightarrow> tb_discounts (snd (createDiscount isUuid e ctx value s)) = tb_discounts s @ [do_row out]
        \<and> d_code (do_row out) = to_upper (cd_code inp) \<and> d_version (do_row out) = 1
        \<and> d_redemptionsCount (do_row out) = 0 \<and> discount_check (do_row out)
        \<and> \<not> list_ex (\<lambda>r. d_tenantId r = ctx_tenantId ctx \<and> d_code r = to_upper (cd_code inp)) (tb_discounts s)"
proof -
  let ?tid = "ctx_tenantId ctx"
  obtain v where v: "numeric_text (cd_discountValue inp) = Inr v" "0 < v"
    "cd_discountType inp = Percentage \<Longrightarrow> v \<le> 10000" "v \<le> 100000000"
    and code: "to_upper (cd_code inp) \<noteq> []" "js_trim (cd_code inp) = cd_code inp"
    and ends: "ends_after_start (cd_startsAt inp) (cd_endsAt inp)"
    and maxr: "\<And>m. cd_maxRedemptions inp = Some m \<Longrightarrow> 0 < m"
    using schema_accepts [OF assms(1)] by metis
  let ?row = "discountRow e ?tid (to_upper (cd_code inp)) inp v minOrder s"
  have m: "0 \<le> minOrder" "numeric12_2 minOrder"
    using assms(2) decimal_cents [of "orElse (cd_minOrderAmount inp) ''0''"]
    by (auto simp: numeric_text_def split: if_splits option.splits)
  have chk: "discount_check ?row \<longleftrightarrow> ends_after_start (Some (orElse (cd_startsAt inp) (e_now e))) (cd_endsAt inp)"
    using v m maxr
    by (auto simp: discount_check_def discountRow_def numeric12_2_def ends_after_start_def split: option.splits
      dest: less_imp_le)
  have clash: "list_ex (discount_clash ?row) (tb_discounts s) \<longleftrightarrow>
      list_ex (\<lambda>r. d_tenantId r = ?tid \<and> d_code r = to_upper (cd_code inp)) (tb_discounts s)"
    using assms(3) unfolding list_ex_iff discount_clash_def discountRow_def by simp (metis imageI)
  have found: "findDiscountByCode ?tid (cd_code inp) s \<noteq> None \<longleftrightarrow>
      list_ex (\<lambda>r. d_tenantId r = ?tid \<and> d_code r = to_upper (cd_code inp) \<and> d_deletedAt r = None) (tb_discounts s)"
    using code by (auto simp: findDiscountByCode_def Let_def list_ex_iff sel1_None)
  have create: "createDiscountRow e ?tid inp s = bnd (lift_db (insert_row discount_check discount_clash ?row (tb_discounts s)))
      (\<lambda>t. Inr (?row, s\<lparr>tb_discounts := t,
            tb_discountCategories := insert_targets ?tid (d_id ?row) (orElse (cd_targetCategoryIds inp) [])
              (tb_discountCategories s),
            tb_discountItems := insert_targets ?tid (d_id ?row) (orElse (cd_targetItemIds inp) [])
              (tb_discountItems s),
            uuid_next := Suc (uuid_next s)\<rparr>))"
    using code v(1) assms(2) by (simp add: createDiscountRow_def lift_db_def Let_def)
  have row: "d_code ?row = to_upper (cd_code inp)" "d_version ?row = 1" "d_redemptionsCount ?row = 0"
    by (simp_all add: discountRow_def)
  have start: "\<not> ends_after_start (Some (orElse (cd_startsAt inp) (e_now e))) (cd_endsAt inp) \<Longrightarrow> cd_startsAt inp = None"
    using ends by (auto simp: ends_after_start_def orElse_def split: option.splits)
  show ?thesis
  proof (cases "findDiscountByCode ?tid (cd_code inp) s = None")
    case False
    then show ?thesis
      using found assms(1) by (simp add: createDiscount_def with_tenant_def transact_def)
  next
    case True
    have run: "createDiscount isUuid e ctx value s = transact (\<lambda>s'.
        bnd (createDiscountRow e ?tid inp s) (\<lambda>(created, s'). Inr (formatDiscountOutput created (e_now e), s'))) s"
      using True assms(1) by (simp add: createDiscount_def with_tenant_def transact_def)
    show ?thesis
      unfolding run create insert_row_def transact_def
      using True found chk clash start row by (auto simp: lift_db_def formatDiscountOutput_def)
  qed
qed

section \<open>Status and eligibility\<close>

text \<open>
  The status the merchant sees is the verdict the customer meets: for a tender the coupon
  admits, the eligibility check of a stored coupon is decided by its status, and an active coupon
  is refused only for the selection (nothing qualifies, or less than the minimum order).
\<close>

theorem status_is_verdict:
  assumes "discount_check d"
    and "d_applicableTender d = TenderCash \<longrightarrow> tender = None \<or> tender = Some Cash"
  shows "evaluateCouponEligibility (coupon_of d) subtotal now tender =
    (case calculateDiscountStatus d now of
       DsPaused \<Rightarrow> Some DISCOUNT_INACTIVE
     | DsScheduled \<Rightarrow> Some DISCOUNT_SCHEDULED
     | DsExpired \<Rightarrow> Some DISCOUNT_EXPIRED
     | DsExhausted \<Rightarrow> Some DISCOUNT_LIMIT_REACHED
     | DsActive \<Rightarrow> if subtotal \<le> 0 then Some NO_QUALIFYING_ITEMS
                 else if subtotal < d_minOrderAmount d then Some MIN_ORDER_NOT_MET else None)"
proof -
  have m: "moneyToCents (centsToMoney (d_minOrderAmount d)) = Some (d_minOrderAmount d)"
    using assms(1) by (intro moneyToCents_centsToMoney) (simp add: discount_check_def)
  have ne: "centsToMoney (d_minOrderAmount d) \<noteq> []"
    by (simp add: centsToMoney_def)
  show ?thesis
    using assms(2) m ne
    by (auto simp: evaluateCouponEligibility_def calculateDiscountStatus_def coupon_of_def Let_def
      split: option.splits)
qed

section \<open>Redemptions\<close>

fun redeem_all :: "string \<Rightarrow> (env \<times> redemption_input) list \<Rightarrow> db \<Rightarrow> bool list \<times> db" where
  "redeem_all tid [] s = ([], s)"
| "redeem_all tid ((e, inp) # xs) s =
     (let (redeemed, s1) = recordRedemption e tid inp s; (rest, s2) = redeem_all tid xs s1
      in (redeemed # rest, s2))"

abbreviation discount_key :: "discount_row \<Rightarrow> string \<times> string" where
  "discount_key r \<equiv> (d_tenantId r, d_id r)"

lemma discount_unique:
  "uniq discount_key t \<Longrightarrow> r \<in> set t \<Longrightarrow> q \<in> set t \<Longrightarrow> d_tenantId r = d_tenantId q \<Longrightarrow> d_id r = d_id q \<Longrightarrow> r = q"
  by (erule uniq_eq) auto

definition discount_at :: "string \<Rightarrow> string \<Rightarrow> db \<Rightarrow> discount_row option" where
  "discount_at tid did s = sel1 (\<lambda>r. d_tenantId r = tid \<and> d_id r = did) (tb_discounts s)"

lemma recordRedemption_at:
  assumes "uniq discount_key (tb_discounts s)" "recordRedemption e tid inp s = (b, s')"
  shows "uniq discount_key (tb_discounts s')"
    and "discount_at tid did s' = map_option (\<lambda>d. if redeemable tid (ri_discountId inp) d then redeem_one e d else d)
           (discount_at tid did s)"
    and "b \<longleftrightarrow> (case discount_at tid (ri_discountId inp) s of None \<Rightarrow> False
           | Some d \<Rightarrow> redeemable tid (ri_discountId inp) d)"
proof -
  have s': "tb_discounts s' = upd (redeemable tid (ri_discountId inp)) (redeem_one e) (tb_discounts s)"
    and b: "b \<longleftrightarrow> list_ex (redeemable tid (ri_discountId inp)) (tb_discounts s)"
    using assms(2) by (auto simp: recordRedemption_def Let_def)
  show "uniq discount_key (tb_discounts s')"
    unfolding s' using assms(1) by (simp add: uniq_upd redeem_one_def)
  show "discount_at tid did s' = map_option (\<lambda>d. if redeemable tid (ri_discountId inp) d then redeem_one e d else d)
           (discount_at tid did s)"
    unfolding discount_at_def s' by (rule sel1_upd) (simp add: redeem_one_def)
  show "b \<longleftrightarrow> (case discount_at tid (ri_discountId inp) s of None \<Rightarrow> False
           | Some d \<Rightarrow> redeemable tid (ri_discountId inp) d)"
  proof (cases "discount_at tid (ri_discountId inp) s")
    case None
    then have "\<not> list_ex (redeemable tid (ri_discountId inp)) (tb_discounts s)"
      by (auto simp: discount_at_def sel1_None list_ex_iff redeemable_def)
    then show ?thesis by (simp add: b None)
  next
    case (Some d)
    have d: "d \<in> set (tb_discounts s)" "d_tenantId d = tid" "d_id d = ri_discountId inp"
      using Some by (auto simp: discount_at_def dest: sel1_Some_in sel1_Some_P)
    have "r = d" if "r \<in> set (tb_discounts s)" "redeemable tid (ri_discountId inp) r" for r
      using that d assms(1) unfolding redeemable_def by (intro discount_unique) auto
    then show ?thesis
      using Some b by (auto simp: discount_at_def list_ex_iff dest: sel1_SomeD)
  qed
qed

definition remaining :: "discount_row \<Rightarrow> nat \<Rightarrow> nat" where
  "remaining d n = (case d_maxRedemptions d of None \<Rightarrow> n | Some m \<Rightarrow> min n (nat (m - d_redemptionsCount d)))"


section \<open>Edits\<close>

definition discounts_ok :: "db \<Rightarrow> bool" where
  "discounts_ok s \<longleftrightarrow> uniq discount_key (tb_discounts s)"

definition discount_version :: "string \<Rightarrow> string \<Rightarrow> db \<Rightarrow> int option" where
  "discount_version tid did s = map_option d_version (sel1 (live_discount tid did) (tb_discounts s))"

text \<open>An edit sent with the version it was prepared on, in the \<open>If-Match\<close> header.\<close>

definition edit_with_version ::
  "(string \<Rightarrow> bool) \<Rightarrow> TenantContext \<Rightarrow> string \<Rightarrow> env \<times> update_discount_request \<Rightarrow> int \<Rightarrow> db
     \<Rightarrow> app_error + discount_output \<times> db" where
  "edit_with_version isUuid ctx did x version s =
     (case updateDiscount isUuid (fst x) ctx did (snd x) (Some version) s of
        (Inl err, s') \<Rightarrow> Inl err
      | (Inr out, s') \<Rightarrow> Inr (out, s'))"

lemma discountSet_key [simp]:
  "d_tenantId (discountSet e inp v m r) = d_tenantId r" "d_id (discountSet e inp v m r) = d_id r"
  "d_deletedAt (discountSet e inp v m r) = d_deletedAt r" "d_version (discountSet e inp v m r) = d_version r + 1"
  by (simp_all add: discountSet_def)

lemma updateDiscountRow_step:
  assumes "updateDiscountRow e tid did inp (Some v) s = Inr (Some d, s')" "discounts_ok s"
  shows "discount_version tid did s = Some v" "discount_version tid did s' = Some (v + 1)" "discounts_ok s'"
proof -
  let ?here = "\<lambda>r. live_discount tid did r \<and> d_version r = v"
  obtain dv mo where s': "tb_discounts s' = upd ?here (discountSet e inp dv mo) (tb_discounts s)"
    and d: "map_option (discountSet e inp dv mo) (sel1 ?here (tb_discounts s)) = Some d"
    using assms(1) by (auto simp: updateDiscountRow_def Let_def update_rows_Inr split: if_splits option.splits)
  then obtain r where r: "sel1 ?here (tb_discounts s) = Some r" by auto
  then have rin: "r \<in> set (tb_discounts s)" "live_discount tid did r" "d_version r = v"
    by (auto dest: sel1_SomeD)
  obtain q where q: "sel1 (live_discount tid did) (tb_discounts s) = Some q"
    using rin by (cases "sel1 (live_discount tid did) (tb_discounts s)") (auto simp: sel1_None)
  then have "q = r"
    using rin assms(2) sel1_SomeD [OF q] unfolding discounts_ok_def live_discount_def
    by (intro discount_unique) auto
  then show v: "discount_version tid did s = Some v"
    using q rin by (simp add: discount_version_def)
  have "sel1 (live_discount tid did) (tb_discounts s') =
      map_option (\<lambda>r. if ?here r then discountSet e inp dv mo r else r) (sel1 (live_discount tid did) (tb_discounts s))"
    unfolding s' by (rule sel1_upd) (simp add: live_discount_def)
  then show "discount_version tid did s' = Some (v + 1)"
    using q \<open>q = r\<close> rin by (simp add: discount_version_def)
  show "discounts_ok s'"
    using assms(2) s' by (simp add: discounts_ok_def uniq_upd)
qed

interpretation discount_edit: versioned_write discounts_ok "discount_version (ctx_tenantId ctx) did"
  "edit_with_version isUuid ctx did" for isUuid ctx did
proof
  fix s i v r s'
  assume ok: "discounts_ok s" and run: "edit_with_version isUuid ctx did i v s = Inr (r, s')"
  obtain inp d where "updateDiscountRow (fst i) (ctx_tenantId ctx) did inp (Some v) s = Inr (Some d, s')"
    using run by (auto simp: edit_with_version_def updateDiscount_def with_tenant_def transact_def Let_def
        split: option.splits prod.splits sum.splits if_splits)
  from updateDiscountRow_step [OF this ok]
  show "discount_version (ctx_tenantId ctx) did s = Some v
      \<and> discount_version (ctx_tenantId ctx) did s' = Some (v + 1) \<and> discounts_ok s'"
    by simp
qed

text \<open>
  Edits of a coupon are serialised: of any sequence of edits of one coupon, each sent with
  the version its author had read, those that take effect were prepared on consecutive versions,
  starting with the current one; so no edit overwrites one its author had not seen.
\<close>

theorem edits_serialised:
  assumes "discounts_ok s" "discount_version (ctx_tenantId ctx) did s = Some n"
  shows "let (accepted, s') = run_writes (edit_with_version isUuid ctx did) edits s in
    accepted = map (\<lambda>k. n + int k) [0..<length accepted]
    \<and> discount_version (ctx_tenantId ctx) did s' = Some (n + int (length accepted))"
  using discount_edit.run_consecutive [OF assms, of isUuid edits] by (simp add: case_prod_unfold Let_def)

section \<open>The properties at concrete inputs\<close>

definition sample_request :: create_discount_request where
  "sample_request = \<lparr>cd_code = '' promo10 '', cd_name = ''Promo'', cd_description = None,
     cd_discountType = Percentage, cd_discountValue = ''10'', cd_minOrderAmount = Some ''100.5'',
     cd_maxRedemptions = Some 2, cd_startsAt = None, cd_endsAt = None, cd_scope = None,
     cd_applicableTender = None, cd_targetCategoryIds = None, cd_targetItemIds = None, cd_isActive = None\<rparr>"

definition sample_discount :: discount_row where
  "sample_discount = discountRow sample_env ''t1'' ''PROMO10'' (create_defaults sample_request) 1000 10050 empty_db"

definition discount_db :: db where
  "discount_db = empty_db\<lparr>tb_discounts := [sample_discount], uuid_next := 1\<rparr>"

definition sample_redemption :: "string \<Rightarrow> env \<times> redemption_input" where
  "sample_redemption oid = (sample_env, \<lparr>ri_orderId = oid, ri_cartId = ''c'', ri_discountId = d_id sample_discount,
     ri_amountDeducted = 500, ri_codeSnapshot = ''PROMO10''\<rparr>)"


end
