(* ===== verification/Catalogue.thy ===== *)
theory Catalogue
  imports Search Discounts
begin

text \<open>
  The catalogue in the database: \<open>src/features/catalog/infrastructure/catalog.repository.ts\<close>.

  \<^item> Every update carries the version its caller read, and sets the columns its caller gives
    (the argument \<open>values\<close>, or the set fields of the request).
  \<^item> The ids of a request are uuids in canonical form; integers are checked against the range
    of their columns (\<open>int4\<close>), and a version is taken not to reach it.
  \<^item> The column \<open>destination_station\<close>, which no service writes, is left out.
\<close>

section \<open>Repository\<close>

definition hasCatalogEntitlement :: "string \<Rightarrow> db \<Rightarrow> bool" where
  "hasCatalogEntitlement tid s =
     (case sel1 (\<lambda>r. en_tenantId r = tid \<and> en_supersededAt r = None) (tb_entitlements s) of
        None \<Rightarrow> False | Some snapshot \<Rightarrow> ent_catalogManagement (en_entitlements snapshot))"

definition int4 :: "int \<Rightarrow> bool" where
  "int4 n \<longleftrightarrow> - (2 ^ 31) \<le> n \<and> n < 2 ^ 31"

text \<open>Numbers written to \<open>integer\<close> columns.\<close>

definition int4_all :: "int option list \<Rightarrow> db_error + unit" where
  "int4_all ns = (if list_all (opt_all int4) ns then Inr () else Inl InvalidNumeric)"

text \<open>\<open>insert .. values\<close> of several rows: all of them or none.\<close>

fun insert_rows ::
  "('r \<Rightarrow> bool) \<Rightarrow> ('r \<Rightarrow> 'r \<Rightarrow> bool) \<Rightarrow> 'r list \<Rightarrow> 'r list \<Rightarrow> db_error + 'r list" where
  "insert_rows chk clash [] t = Inr t"
| "insert_rows chk clash (r # rs) t = bnd (insert_row chk clash r t) (insert_rows chk clash rs)"

text \<open>\<open>update .. set f where P returning\<close> of a row found by its key, against the unique keys.\<close>

definition update_unique ::
  "('r \<Rightarrow> bool) \<Rightarrow> ('r \<Rightarrow> 'r \<Rightarrow> bool) \<Rightarrow> ('r \<Rightarrow> bool) \<Rightarrow> ('r \<Rightarrow> 'r) \<Rightarrow> 'r list \<Rightarrow> db_error + 'r option \<times> 'r list" where
  "update_unique chk clash P f t =
     (case sel1 P t of
        None \<Rightarrow> Inr (None, t)
      | Some r \<Rightarrow> if \<not> chk (f r) then Inl CheckViolation
          else if list_ex (\<lambda>q. \<not> P q \<and> clash (f r) q) t then Inl UniqueViolation
          else Inr (Some (f r), upd P f t))"

text \<open>\<open>order by sort_order, name\<close>.\<close>

definition by_order :: "env \<Rightarrow> ('r \<Rightarrow> int) \<Rightarrow> ('r \<Rightarrow> string) \<Rightarrow> 'r list \<Rightarrow> 'r list" where
  "by_order e order name rows =
     sort_by (\<lambda>a b. order a < order b \<or> order a = order b \<and> e_collate e (name a) (name b)) rows"

definition listCategoryRows :: "env \<Rightarrow> string \<Rightarrow> db \<Rightarrow> category_row list" where
  "listCategoryRows e tid s = by_order e cc_sortOrder cc_name (filter (\<lambda>c. cc_tenantId c = tid) (tb_categories s))"

definition findCategory :: "string \<Rightarrow> string \<Rightarrow> db \<Rightarrow> category_row option" where
  "findCategory tid cid s = sel1 (\<lambda>c. cc_tenantId c = tid \<and> cc_id c = cid) (tb_categories s)"

definition categoryRow :: "env \<Rightarrow> string \<Rightarrow> category_request \<Rightarrow> db \<Rightarrow> category_row" where
  "categoryRow e tid inp s =
     \<lparr>cc_id = fresh_id e s, cc_tenantId = tid, cc_name = the (kq_name inp),
      cc_normalizedName = normalizeCatalogName (the (kq_name inp)), cc_description = orElse (kq_description inp) None,
      cc_sortOrder = the (kq_sortOrder inp), cc_status = the (kq_status inp), cc_version = 1, cc_archivedAt = None,
      cc_updatedAt = e_now e\<rparr>"

definition createCategoryRow ::
  "env \<Rightarrow> string \<Rightarrow> category_request \<Rightarrow> db \<Rightarrow> app_error + category_row \<times> db" where
  "createCategoryRow e tid inp s =
     (let row = categoryRow e tid inp s in
      bnd (lift_db (int4_all [kq_sortOrder inp])) (\<lambda>_.
      bnd (lift_db (insert_row category_check category_clash row (tb_categories s))) (\<lambda>t.
        Inr (row, s\<lparr>tb_categories := t, uuid_next := Suc (uuid_next s)\<rparr>))))"

definition updateCategoryRow ::
  "env \<Rightarrow> string \<Rightarrow> string \<Rightarrow> int \<Rightarrow> int option list \<Rightarrow> (category_row \<Rightarrow> category_row) \<Rightarrow> db
     \<Rightarrow> app_error + category_row option \<times> db" where
  "updateCategoryRow e tid cid version numbers values s =
     bnd (lift_db (int4_all (Some version # numbers))) (\<lambda>_.
     bnd (lift_db (update_unique category_check category_clash
         (\<lambda>r. cc_tenantId r = tid \<and> cc_id r = cid \<and> cc_version r = version)
         (\<lambda>r. (values r)\<lparr>cc_version := cc_version r + 1, cc_updatedAt := e_now e\<rparr>) (tb_categories s))) (\<lambda>(ret, t).
       Inr (ret, s\<lparr>tb_categories := t\<rparr>)))"

definition countCategoryChildren :: "string \<Rightarrow> string \<Rightarrow> db \<Rightarrow> nat" where
  "countCategoryChildren tid cid s =
     length (filter (\<lambda>i. ci_tenantId i = tid \<and> ci_categoryId i = cid \<and> ci_status i \<noteq> Archived) (tb_items s))
     + length (filter (\<lambda>b. cb_tenantId b = tid \<and> cb_categoryId b = cid \<and> cb_status b \<noteq> Archived) (tb_combos s))"

definition findMedia :: "string \<Rightarrow> string option \<Rightarrow> db \<Rightarrow> media_row option" where
  "findMedia tid mid s =
     (case mid of None \<Rightarrow> None | Some aid \<Rightarrow> sel1 (\<lambda>m. ma_tenantId m = tid \<and> ma_id m = aid) (tb_media s))"

definition listItemRows :: "env \<Rightarrow> string \<Rightarrow> db \<Rightarrow> catalog_item_row list" where
  "listItemRows e tid s = by_order e ci_sortOrder ci_name (filter (\<lambda>i. ci_tenantId i = tid) (tb_items s))"

definition findItem :: "string \<Rightarrow> string \<Rightarrow> db \<Rightarrow> catalog_item_row option" where
  "findItem tid iid s = sel1 (\<lambda>i. ci_tenantId i = tid \<and> ci_id i = iid) (tb_items s)"

definition findItemByBarcode :: "string \<Rightarrow> string \<Rightarrow> db \<Rightarrow> catalog_item_row option" where
  "findItemByBarcode tid barcode s =
     sel1 (\<lambda>i. ci_tenantId i = tid \<and> ci_barcode i = Some barcode \<and> ci_archivedAt i = None) (tb_items s)"

definition findWeightedItemByPlu :: "string \<Rightarrow> string \<Rightarrow> db \<Rightarrow> catalog_item_row option" where
  "findWeightedItemByPlu tid pluCode s =
     sel1 (\<lambda>i. ci_tenantId i = tid \<and> ci_itemType i = Weighted \<and> ci_barcode i = Some pluCode \<and> ci_archivedAt i = None) (tb_items s)"

definition findItems :: "string \<Rightarrow> string list \<Rightarrow> db \<Rightarrow> catalog_item_row list" where
  "findItems tid ids s = filter (\<lambda>i. ci_tenantId i = tid \<and> List.member ids (ci_id i)) (tb_items s)"

text \<open>\<open>[...new Set(xs)]\<close>: the first occurrences.\<close>

definition js_set :: "'a list \<Rightarrow> 'a list" where
  "js_set xs = rev (remdups (rev xs))"

definition linkRows :: "string \<Rightarrow> string \<Rightarrow> string list \<Rightarrow> item_addon_row list" where
  "linkRows tid iid ids =
     map (\<lambda>(g, n). \<lparr>iag_tenantId = tid, iag_itemId = iid, iag_addonGroupId = g, iag_sortOrder = int n\<rparr>)
       (zip ids [0..<length ids])"

text \<open>The value of a field that may be \<open>undefined\<close> or \<open>null\<close>.\<close>

definition or_null :: "'a option option \<Rightarrow> 'a option" where
  "or_null x = (case x of None \<Rightarrow> None | Some v \<Rightarrow> v)"

definition itemRow ::
  "env \<Rightarrow> string \<Rightarrow> item_request \<Rightarrow> int \<Rightarrow> string option \<Rightarrow> bool \<Rightarrow> db \<Rightarrow> catalog_item_row" where
  "itemRow e tid inp price barcode isWeighted s =
     \<lparr>ci_id = fresh_id e s, ci_tenantId = tid, ci_categoryId = the (iq_categoryId inp), ci_name = the (iq_name inp),
      ci_normalizedName = normalizeCatalogName (the (iq_name inp)), ci_description = or_null (iq_description inp),
      ci_price = price, ci_currency = the (iq_currency inp), ci_itemType = the (iq_itemType inp), ci_barcode = barcode,
      ci_isGeneric = (if isWeighted then False else the (iq_isGeneric inp)),
      ci_genericIcon = (if isWeighted then None else or_null (iq_genericIcon inp)),
      ci_trackStock = (if isWeighted then False else the (iq_trackStock inp)),
      ci_stockQuantity = (if isWeighted then 0 else the (iq_stockQuantity inp)),
      ci_imageAssetId = or_null (iq_imageAssetId inp), ci_videoAssetId = or_null (iq_videoAssetId inp),
      ci_status = the (iq_status inp), ci_sortOrder = the (iq_sortOrder inp), ci_version = 1, ci_archivedAt = None,
      ci_updatedAt = e_now e\<rparr>"

definition createItemRow ::
  "env \<Rightarrow> string \<Rightarrow> item_request \<Rightarrow> string option \<Rightarrow> bool \<Rightarrow> db \<Rightarrow> app_error + catalog_item_row \<times> db" where
  "createItemRow e tid inp barcode isWeighted s =
     bnd (lift_db (numeric_text (the (iq_price inp)))) (\<lambda>price.
     let row = itemRow e tid inp price barcode isWeighted s in
     bnd (lift_db (int4_all [Some (ci_stockQuantity row), Some (ci_sortOrder row)])) (\<lambda>_.
     bnd (lift_db (insert_row catalog_item_check catalog_item_clash row (tb_items s))) (\<lambda>t.
     bnd (lift_db (insert_rows (\<lambda>_. True) item_addon_clash
         (linkRows tid (ci_id row) (js_set (the (iq_addonGroupIds inp)))) (tb_itemAddonGroups s))) (\<lambda>links.
       Inr (row, s\<lparr>tb_items := t, tb_itemAddonGroups := links, uuid_next := Suc (uuid_next s)\<rparr>)))))"

definition replace_links :: "string \<Rightarrow> string \<Rightarrow> string list \<Rightarrow> item_addon_row list \<Rightarrow> db_error + item_addon_row list" where
  "replace_links tid iid ids t =
     insert_rows (\<lambda>_. True) item_addon_clash (linkRows tid iid ids)
       (filter (\<lambda>r. \<not> (iag_tenantId r = tid \<and> iag_itemId r = iid)) t)"

definition item_at :: "string \<Rightarrow> string \<Rightarrow> int \<Rightarrow> catalog_item_row \<Rightarrow> bool" where
  "item_at tid iid version r \<longleftrightarrow> ci_tenantId r = tid \<and> ci_id r = iid \<and> ci_version r = version"

definition updateItemRow ::
  "env \<Rightarrow> string \<Rightarrow> string \<Rightarrow> int \<Rightarrow> int option list \<Rightarrow> (catalog_item_row \<Rightarrow> catalog_item_row) \<Rightarrow> string list option \<Rightarrow> db
     \<Rightarrow> app_error + catalog_item_row option \<times> db" where
  "updateItemRow e tid iid version numbers values addonGroupIds s =
     bnd (lift_db (int4_all (Some version # numbers))) (\<lambda>_.
     bnd (lift_db (update_unique catalog_item_check catalog_item_clash (item_at tid iid version)
         (\<lambda>r. (values r)\<lparr>ci_version := ci_version r + 1, ci_updatedAt := e_now e\<rparr>) (tb_items s))) (\<lambda>(ret, t).
       case ret of
         None \<Rightarrow> Inr (None, s\<lparr>tb_items := t\<rparr>)
       | Some item \<Rightarrow> (case addonGroupIds of
           None \<Rightarrow> Inr (Some item, s\<lparr>tb_items := t\<rparr>)
         | Some ids \<Rightarrow> bnd (lift_db (replace_links tid iid ids (tb_itemAddonGroups s))) (\<lambda>links.
             Inr (Some item, s\<lparr>tb_items := t, tb_itemAddonGroups := links\<rparr>)))))"

definition findAddonGroups :: "string \<Rightarrow> string list \<Rightarrow> db \<Rightarrow> addon_group_row list" where
  "findAddonGroups tid ids s = filter (\<lambda>g. agr_tenantId g = tid \<and> List.member ids (agr_id g)) (tb_addonGroups s)"

definition findAddonGroup :: "string \<Rightarrow> string \<Rightarrow> db \<Rightarrow> addon_group_row option" where
  "findAddonGroup tid gid s = sel1 (\<lambda>g. agr_tenantId g = tid \<and> agr_id g = gid) (tb_addonGroups s)"

definition optionRow :: "env \<Rightarrow> string \<Rightarrow> string \<Rightarrow> addon_option_request \<Rightarrow> int \<Rightarrow> db \<Rightarrow> addon_option_row" where
  "optionRow e tid gid opt price s =
     \<lparr>aor_id = fresh_id e s, aor_tenantId = tid, aor_groupId = gid, aor_name = aq_name opt,
      aor_description = or_null (aq_description opt), aor_priceDelta = price, aor_status = the (aq_status opt),
      aor_sortOrder = the (aq_sortOrder opt), aor_version = 1, aor_archivedAt = None, aor_updatedAt = e_now e\<rparr>"

fun insertOptions :: "env \<Rightarrow> string \<Rightarrow> string \<Rightarrow> addon_option_request list \<Rightarrow> db \<Rightarrow> app_error + db" where
  "insertOptions e tid gid [] s = Inr s"
| "insertOptions e tid gid (opt # opts) s =
     bnd (lift_db (numeric_text (aq_priceDelta opt))) (\<lambda>price.
     bnd (lift_db (int4_all [aq_sortOrder opt])) (\<lambda>_.
     bnd (lift_db (insert_row addon_option_check (\<lambda>r q. aor_id r = aor_id q) (optionRow e tid gid opt price s) (tb_addonOptions s))) (\<lambda>t.
       insertOptions e tid gid opts (s\<lparr>tb_addonOptions := t, uuid_next := Suc (uuid_next s)\<rparr>))))"

definition groupRow :: "env \<Rightarrow> string \<Rightarrow> addon_group_request \<Rightarrow> db \<Rightarrow> addon_group_row" where
  "groupRow e tid inp s =
     \<lparr>agr_id = fresh_id e s, agr_tenantId = tid, agr_name = the (gq_name inp), agr_minSelected = the (gq_minSelected inp),
      agr_maxSelected = the (gq_maxSelected inp), agr_sortOrder = the (gq_sortOrder inp), agr_status = the (gq_status inp),
      agr_version = 1, agr_archivedAt = None, agr_updatedAt = e_now e\<rparr>"

definition options_of :: "string \<Rightarrow> string \<Rightarrow> db \<Rightarrow> addon_option_row list" where
  "options_of tid gid s = filter (\<lambda>r. aor_tenantId r = tid \<and> aor_groupId r = gid) (tb_addonOptions s)"

definition createAddonGroupRow ::
  "env \<Rightarrow> string \<Rightarrow> addon_group_request \<Rightarrow> db \<Rightarrow> app_error + (addon_group_row \<times> addon_option_row list) \<times> db" where
  "createAddonGroupRow e tid inp s =
     (let row = groupRow e tid inp s in
      bnd (lift_db (int4_all [gq_minSelected inp, gq_maxSelected inp, gq_sortOrder inp])) (\<lambda>_.
      bnd (lift_db (insert_row addon_group_check (\<lambda>r q. agr_id r = agr_id q) row (tb_addonGroups s))) (\<lambda>t.
      bnd (insertOptions e tid (agr_id row) (the (gq_options inp))
          (s\<lparr>tb_addonGroups := t, uuid_next := Suc (uuid_next s)\<rparr>)) (\<lambda>s1.
        Inr ((row, options_of tid (agr_id row) s1), s1)))))"

definition archiveOptions :: "env \<Rightarrow> string \<Rightarrow> string \<Rightarrow> db \<Rightarrow> db" where
  "archiveOptions e tid gid s =
     s\<lparr>tb_addonOptions := upd (\<lambda>r. aor_tenantId r = tid \<and> aor_groupId r = gid \<and> aor_status r \<noteq> Archived)
       (\<lambda>r. r\<lparr>aor_status := Archived, aor_archivedAt := Some (e_now e), aor_updatedAt := e_now e\<rparr>) (tb_addonOptions s)\<rparr>"

definition live_options :: "env \<Rightarrow> string \<Rightarrow> string \<Rightarrow> db \<Rightarrow> addon_option_row list" where
  "live_options e tid gid s =
     by_order e aor_sortOrder aor_name (filter (\<lambda>r. aor_status r \<noteq> Archived) (options_of tid gid s))"

definition groupSet :: "addon_group_request \<Rightarrow> addon_group_row \<Rightarrow> addon_group_row" where
  "groupSet p r = r\<lparr>agr_name := orElse (gq_name p) (agr_name r), agr_minSelected := orElse (gq_minSelected p) (agr_minSelected r),
     agr_maxSelected := orElse (gq_maxSelected p) (agr_maxSelected r),
     agr_sortOrder := orElse (gq_sortOrder p) (agr_sortOrder r), agr_status := orElse (gq_status p) (agr_status r)\<rparr>"

definition updateAddonGroupRow ::
  "env \<Rightarrow> string \<Rightarrow> string \<Rightarrow> addon_group_request \<Rightarrow> db \<Rightarrow> app_error + (addon_group_row \<times> addon_option_row list option) option \<times> db" where
  "updateAddonGroupRow e tid gid p s =
     bnd (lift_db (int4_all [gq_version p, gq_minSelected p, gq_maxSelected p, gq_sortOrder p])) (\<lambda>_.
     bnd (lift_db (update_unique addon_group_check (\<lambda>r q. agr_id r = agr_id q)
         (\<lambda>r. agr_tenantId r = tid \<and> agr_id r = gid \<and> agr_version r = the (gq_version p))
         (\<lambda>r. (groupSet p r)\<lparr>agr_version := agr_version r + 1, agr_updatedAt := e_now e\<rparr>) (tb_addonGroups s))) (\<lambda>(ret, t).
       let s1 = s\<lparr>tb_addonGroups := t\<rparr> in
       case ret of
         None \<Rightarrow> Inr (None, s1)
       | Some g \<Rightarrow> (case gq_options p of
           None \<Rightarrow> Inr (Some (g, None), s1)
         | Some opts \<Rightarrow> bnd (insertOptions e tid gid opts (archiveOptions e tid gid s1)) (\<lambda>s2.
             Inr (Some (g, Some (live_options e tid gid s2)), s2)))))"

definition comboRow :: "env \<Rightarrow> string \<Rightarrow> combo_request \<Rightarrow> int \<Rightarrow> db \<Rightarrow> combo_row" where
  "comboRow e tid inp price s =
     \<lparr>cb_id = fresh_id e s, cb_tenantId = tid, cb_categoryId = the (bq_categoryId inp), cb_name = the (bq_name inp),
      cb_normalizedName = normalizeCatalogName (the (bq_name inp)), cb_description = or_null (bq_description inp),
      cb_price = price, cb_currency = the (bq_currency inp), cb_imageAssetId = or_null (bq_imageAssetId inp),
      cb_status = the (bq_status inp), cb_version = 1, cb_archivedAt = None, cb_updatedAt = e_now e\<rparr>"

definition comboLineRows :: "string \<Rightarrow> string \<Rightarrow> combo_line_request list \<Rightarrow> combo_item_row list" where
  "comboLineRows tid cid ls =
     map (\<lambda>l. \<lparr>cbi_tenantId = tid, cbi_comboId = cid, cbi_itemId = lq_itemId l, cbi_quantity = lq_quantity l,
       cbi_sortOrder = the (lq_sortOrder l)\<rparr>) ls"

definition insertComboLines ::
  "string \<Rightarrow> string \<Rightarrow> combo_line_request list \<Rightarrow> combo_item_row list \<Rightarrow> app_error + combo_item_row list" where
  "insertComboLines tid cid ls t =
     bnd (lift_db (int4_all (map (\<lambda>l. Some (lq_quantity l)) ls @ map lq_sortOrder ls))) (\<lambda>_.
       lift_db (insert_rows combo_item_check combo_item_clash (comboLineRows tid cid ls) t))"

definition createComboRow ::
  "env \<Rightarrow> string \<Rightarrow> combo_request \<Rightarrow> db \<Rightarrow> app_error + combo_row \<times> db" where
  "createComboRow e tid inp s =
     bnd (lift_db (numeric_text (the (bq_price inp)))) (\<lambda>price.
     let row = comboRow e tid inp price s in
     bnd (lift_db (insert_row combo_check combo_clash row (tb_combos s))) (\<lambda>t.
     bnd (insertComboLines tid (cb_id row) (the (bq_items inp)) (tb_comboItems s)) (\<lambda>ls.
       Inr (row, s\<lparr>tb_combos := t, tb_comboItems := ls, uuid_next := Suc (uuid_next s)\<rparr>))))"

definition findCombo :: "string \<Rightarrow> string \<Rightarrow> db \<Rightarrow> combo_row option" where
  "findCombo tid cid s = sel1 (\<lambda>b. cb_tenantId b = tid \<and> cb_id b = cid) (tb_combos s)"

definition findComboItems :: "string \<Rightarrow> string \<Rightarrow> db \<Rightarrow> combo_item_row list" where
  "findComboItems tid cid s =
     sort_by (\<lambda>a b. cbi_sortOrder a \<le> cbi_sortOrder b)
       (filter (\<lambda>l. cbi_tenantId l = tid \<and> cbi_comboId l = cid) (tb_comboItems s))"

definition comboSet :: "combo_request \<Rightarrow> int option \<Rightarrow> combo_row \<Rightarrow> combo_row" where
  "comboSet p price r = r\<lparr>cb_categoryId := orElse (bq_categoryId p) (cb_categoryId r), cb_name := orElse (bq_name p) (cb_name r),
     cb_normalizedName := (case bq_name p of None \<Rightarrow> cb_normalizedName r | Some n \<Rightarrow> normalizeCatalogName n),
     cb_description := orElse (bq_description p) (cb_description r), cb_price := orElse price (cb_price r),
     cb_currency := orElse (bq_currency p) (cb_currency r), cb_imageAssetId := orElse (bq_imageAssetId p) (cb_imageAssetId r),
     cb_status := orElse (bq_status p) (cb_status r)\<rparr>"

definition updateComboRow ::
  "env \<Rightarrow> string \<Rightarrow> string \<Rightarrow> combo_request \<Rightarrow> db \<Rightarrow> app_error + combo_row option \<times> db" where
  "updateComboRow e tid cid p s =
     bnd (lift_db (optional_numeric (bq_price p))) (\<lambda>price.
     bnd (lift_db (int4_all [bq_version p])) (\<lambda>_.
     bnd (lift_db (update_unique combo_check combo_clash
         (\<lambda>r. cb_tenantId r = tid \<and> cb_id r = cid \<and> cb_version r = the (bq_version p))
         (\<lambda>r. (comboSet p price r)\<lparr>cb_version := cb_version r + 1, cb_updatedAt := e_now e\<rparr>) (tb_combos s))) (\<lambda>(ret, t).
       case ret of
         None \<Rightarrow> Inr (None, s\<lparr>tb_combos := t\<rparr>)
       | Some c \<Rightarrow> (case bq_items p of
           None \<Rightarrow> Inr (Some c, s\<lparr>tb_combos := t\<rparr>)
         | Some ls \<Rightarrow>
             bnd (insertComboLines tid cid ls (filter (\<lambda>l. \<not> (cbi_tenantId l = tid \<and> cbi_comboId l = cid)) (tb_comboItems s))) (\<lambda>lines.
               Inr (Some c, s\<lparr>tb_combos := t, tb_comboItems := lines\<rparr>))))))"

text \<open>The lists of the back office.\<close>

definition ready_url :: "media_row option \<Rightarrow> string option" where
  "ready_url m = (case m of None \<Rightarrow> None | Some m \<Rightarrow> if ma_status m = MediaReady then ma_publicUrl m else None)"

record item_listing =
  il_item :: catalog_item_row
  il_imageUrl :: "string option"
  il_videoUrl :: "string option"
  il_addonGroupIds :: "string list"

definition listItemRowsWithMedia :: "env \<Rightarrow> string \<Rightarrow> db \<Rightarrow> item_listing list" where
  "listItemRowsWithMedia e tid s =
     map (\<lambda>i. \<lparr>il_item = i, il_imageUrl = ready_url (findMedia tid (ci_imageAssetId i) s),
       il_videoUrl = ready_url (findMedia tid (ci_videoAssetId i) s),
       il_addonGroupIds = map iag_addonGroupId (sort_by (\<lambda>a b. iag_sortOrder a \<le> iag_sortOrder b)
         (filter (\<lambda>l. iag_tenantId l = tid \<and> iag_itemId l = ci_id i) (tb_itemAddonGroups s)))\<rparr>)
       (listItemRows e tid s)"

definition listAddonGroupsWithOptions :: "env \<Rightarrow> string \<Rightarrow> db \<Rightarrow> (addon_group_row \<times> addon_option_row list) list" where
  "listAddonGroupsWithOptions e tid s =
     map (\<lambda>g. (g, live_options e tid (agr_id g) s))
       (by_order e agr_sortOrder agr_name (filter (\<lambda>g. agr_tenantId g = tid) (tb_addonGroups s)))"

record combo_listing =
  bl_combo :: combo_row
  bl_imageUrl :: "string option"
  bl_items :: "(combo_item_row \<times> string) list"

definition listCombosWithItems :: "env \<Rightarrow> string \<Rightarrow> db \<Rightarrow> combo_listing list" where
  "listCombosWithItems e tid s =
     map (\<lambda>b. \<lparr>bl_combo = b, bl_imageUrl = ready_url (findMedia tid (cb_imageAssetId b) s),
       bl_items = concat (map (\<lambda>l. case findItem tid (cbi_itemId l) s of None \<Rightarrow> [] | Some i \<Rightarrow> [(l, ci_name i)])
         (findComboItems tid (cb_id b) s))\<rparr>)
       (sort_by (\<lambda>a b. e_collate e (cb_name a) (cb_name b)) (filter (\<lambda>b. cb_tenantId b = tid) (tb_combos s)))"

end
