(* ===== verification/CatalogService.thy ===== *)
theory CatalogService
  imports Catalogue
begin

text \<open>
  The merchant's side of the catalogue: \<open>src/features/catalog/application/catalog.service.ts\<close>,
  \<open>src/features/catalog/application/barcode-lookup.service.ts\<close>, and the media uploads of
  \<open>src/features/catalog/infrastructure/media.repository.ts\<close> with the two routes that call them.

  \<^item> A write of the catalogue is one transaction; the search projection is kept up in a second
    one, whose errors are swallowed (\<open>after_commit\<close>).
  \<^item> \<open>object_storage\<close> is the client of the object store, with its base address and what it
    answers; a checksum is kept in its hexadecimal form. \<open>fetchProduct\<close> is the public product
    service: the product it answers with, or \<open>None\<close> for no answer.
  \<^item> The lemmas: a product sold by weight always carries a valid product code and no stock; a product
    that is published has an active category and verified media; what archiving a product changes; and
    that the failure of an upload is not recorded.
\<close>

section \<open>Steps the services share\<close>

definition requireCatalogManagement :: "string \<Rightarrow> db \<Rightarrow> app_error + unit" where
  "requireCatalogManagement tid s =
     (if hasCatalogEntitlement tid s then Inr () else Inl (CatalogError CatalogEntitlementDenied))"

definition recordMutation :: "env \<Rightarrow> TenantContext \<Rightarrow> string \<Rightarrow> string \<Rightarrow> string \<Rightarrow> db \<Rightarrow> app_error + db" where
  "recordMutation e ctx action resourceType resourceId s =
     appendOutboxEvent e ctx resourceType resourceId action (JObj [])
       (appendAuditEvent e ctx action resourceType resourceId Allowed (JObj []) s)"

definition versionedArchiveInput :: "int \<Rightarrow> app_error + int" where
  "versionedArchiveInput version = (if whole 1 version then Inr version else Inl ValidationError)"

text \<open>A second transaction, after a first one that was committed.\<close>

fun after_commit :: "('a \<Rightarrow> db \<Rightarrow> db) \<Rightarrow> (app_error + 'a) \<times> db \<Rightarrow> (app_error + 'a) \<times> db" where
  "after_commit f (Inl err, s) = (Inl err, s)"
| "after_commit f (Inr x, s) = (Inr x, f x s)"

definition as_unit :: "app_error + db \<Rightarrow> app_error + unit \<times> db" where
  "as_unit m = bnd m (\<lambda>s. Inr ((), s))"

abbreviation parsed :: "'a option \<Rightarrow> app_error + 'a" where
  "parsed x \<equiv> opt_or ValidationError x"

text \<open>A read of the catalogue.\<close>

definition catalog_read :: "TenantContext \<Rightarrow> (string \<Rightarrow> db \<Rightarrow> 'a) \<Rightarrow> db \<Rightarrow> app_error + 'a" where
  "catalog_read ctx query s =
     bnd (requireCatalogManagement (ctx_tenantId ctx) s) (\<lambda>_. Inr (query (ctx_tenantId ctx) s))"

definition listCategories :: "env \<Rightarrow> TenantContext \<Rightarrow> db \<Rightarrow> app_error + category_row list" where
  "listCategories e ctx s = catalog_read ctx (listCategoryRows e) s"

definition listItems :: "env \<Rightarrow> TenantContext \<Rightarrow> db \<Rightarrow> app_error + catalog_item_row list" where
  "listItems e ctx s = catalog_read ctx (listItemRows e) s"

definition listItemsWithMedia :: "env \<Rightarrow> TenantContext \<Rightarrow> db \<Rightarrow> app_error + item_listing list" where
  "listItemsWithMedia e ctx s = catalog_read ctx (listItemRowsWithMedia e) s"

definition listAddonGroups :: "env \<Rightarrow> TenantContext \<Rightarrow> db \<Rightarrow> app_error + (addon_group_row \<times> addon_option_row list) list" where
  "listAddonGroups e ctx s = catalog_read ctx (listAddonGroupsWithOptions e) s"

definition listCombos :: "env \<Rightarrow> TenantContext \<Rightarrow> db \<Rightarrow> app_error + combo_listing list" where
  "listCombos e ctx s = catalog_read ctx (listCombosWithItems e) s"

section \<open>Categories\<close>

definition createCategory ::
  "env \<Rightarrow> TenantContext \<Rightarrow> category_request \<Rightarrow> db \<Rightarrow> (app_error + category_row) \<times> db" where
  "createCategory e ctx value s = with_tenant (\<lambda>s.
     bnd (parsed (categoryInputSchema value)) (\<lambda>inp.
     bnd (requireCatalogManagement (ctx_tenantId ctx) s) (\<lambda>_.
     bnd (createCategoryRow e (ctx_tenantId ctx) inp s) (\<lambda>(category, s1).
     bnd (recordMutation e ctx ''catalog.category.created'' ''catalog_category'' (cc_id category) s1) (\<lambda>s2.
       Inr (category, s2)))))) s"

definition categorySet :: "category_request \<Rightarrow> category_row \<Rightarrow> category_row" where
  "categorySet p r = r\<lparr>cc_name := orElse (kq_name p) (cc_name r),
     cc_normalizedName := (case kq_name p of None \<Rightarrow> cc_normalizedName r | Some n \<Rightarrow> normalizeCatalogName n),
     cc_description := orElse (kq_description p) (cc_description r),
     cc_sortOrder := orElse (kq_sortOrder p) (cc_sortOrder r), cc_status := orElse (kq_status p) (cc_status r)\<rparr>"

definition updateCategoryIn ::
  "env \<Rightarrow> TenantContext \<Rightarrow> string \<Rightarrow> category_request \<Rightarrow> db \<Rightarrow> app_error + category_row \<times> db" where
  "updateCategoryIn e ctx categoryId p s =
     (let tid = ctx_tenantId ctx in
      bnd (requireCatalogManagement tid s) (\<lambda>_.
      bnd (opt_or (CatalogError CatalogNotFound) (findCategory tid categoryId s)) (\<lambda>_.
      bnd (updateCategoryRow e tid categoryId (the (kq_version p)) [kq_sortOrder p] (categorySet p) s) (\<lambda>(ret, s1).
      bnd (opt_or (CatalogError CatalogConflict) ret) (\<lambda>category.
      bnd (recordMutation e ctx ''catalog.category.updated'' ''catalog_category'' (cc_id category) s1) (\<lambda>s2.
        Inr (category, s2)))))))"

definition updateCategory ::
  "bool \<Rightarrow> env \<Rightarrow> TenantContext \<Rightarrow> string \<Rightarrow> category_request \<Rightarrow> db \<Rightarrow> (app_error + category_row) \<times> db" where
  "updateCategory dfl e ctx categoryId value s =
     (case categoryPatchSchema dfl value of
        None \<Rightarrow> (Inl ValidationError, s)
      | Some p \<Rightarrow> after_commit (\<lambda>category s1. if kq_name p = None then s1 else
            syncCategoryRename e (ctx_tenantId ctx) categoryId (cc_name category) s1)
          (with_tenant (updateCategoryIn e ctx categoryId p) s))"

definition archiveCategory ::
  "env \<Rightarrow> TenantContext \<Rightarrow> string \<Rightarrow> int \<Rightarrow> db \<Rightarrow> (app_error + unit) \<times> db" where
  "archiveCategory e ctx categoryId value s = with_tenant (\<lambda>s.
     let tid = ctx_tenantId ctx in
     bnd (versionedArchiveInput value) (\<lambda>version.
     bnd (requireCatalogManagement tid s) (\<lambda>_.
     bnd (opt_or (CatalogError CatalogNotFound) (findCategory tid categoryId s)) (\<lambda>_.
     bnd (assertArchivableCategory (countCategoryChildren tid categoryId s)) (\<lambda>_.
     bnd (updateCategoryRow e tid categoryId version [] (\<lambda>r. r\<lparr>cc_status := Archived, cc_archivedAt := Some (e_now e)\<rparr>) s) (\<lambda>(ret, s1).
     bnd (opt_or (CatalogError CatalogConflict) ret) (\<lambda>archived.
     bnd (recordMutation e ctx ''catalog.category.archived'' ''catalog_category'' (cc_id archived) s1) (\<lambda>s2.
       Inr ((), s2))))))))) s"

section \<open>Items\<close>

text \<open>The category, the picture and the video of an item; every relationship must exist.\<close>

definition itemRelations ::
  "string \<Rightarrow> string \<Rightarrow> string option \<Rightarrow> string option \<Rightarrow> string list option \<Rightarrow> db
     \<Rightarrow> app_error + category_row \<times> media_row option \<times> media_row option" where
  "itemRelations tid categoryId imageAssetId videoAssetId addonGroupIds s =
     (case findCategory tid categoryId s of
        None \<Rightarrow> Inl (CatalogError CatalogNotFound)
      | Some category \<Rightarrow>
          if (case addonGroupIds of None \<Rightarrow> False
              | Some ids \<Rightarrow> length (findAddonGroups tid ids s) \<noteq> length (js_set ids)) then Inl (CatalogError CatalogNotFound)
          else if imageAssetId \<noteq> None \<and> findMedia tid imageAssetId s = None then Inl (CatalogError CatalogNotFound)
          else if videoAssetId \<noteq> None \<and> findMedia tid videoAssetId s = None then Inl (CatalogError CatalogNotFound)
          else Inr (category, findMedia tid imageAssetId s, findMedia tid videoAssetId s))"

definition itemPublishable ::
  "CatalogStatus \<Rightarrow> category_row \<Rightarrow> media_row option \<Rightarrow> media_row option \<Rightarrow> app_error + unit" where
  "itemPublishable status category media video =
     (if status \<noteq> Active then Inr ()
      else bnd (assertPublishableItem (cc_status category) (map_option ma_status media)) (\<lambda>_.
        case video of None \<Rightarrow> Inr () | Some v \<Rightarrow> assertPublishableItem (cc_status category) (Some (ma_status v))))"

definition itemBarcode :: "ItemType \<Rightarrow> string option \<Rightarrow> app_error + string option" where
  "itemBarcode itemType barcode =
     (if itemType = Weighted
      then (let normalizedBarcode = normalizePluCode (case barcode of None \<Rightarrow> [] | Some b \<Rightarrow> b)
            in if plu_re normalizedBarcode then Inr (Some normalizedBarcode) else Inl (CatalogError CatalogRuleViolation))
      else Inr barcode)"

definition createItemIn ::
  "env \<Rightarrow> TenantContext \<Rightarrow> item_request \<Rightarrow> db \<Rightarrow> app_error + catalog_item_row \<times> db" where
  "createItemIn e ctx inp s =
     (let tid = ctx_tenantId ctx in
      bnd (requireCatalogManagement tid s) (\<lambda>_.
      bnd (itemRelations tid (the (iq_categoryId inp)) (or_null (iq_imageAssetId inp)) (or_null (iq_videoAssetId inp))
          (iq_addonGroupIds inp) s) (\<lambda>(category, media, video).
      bnd (itemPublishable (the (iq_status inp)) category media video) (\<lambda>_.
      bnd (itemBarcode (the (iq_itemType inp)) (or_null (iq_barcode inp))) (\<lambda>barcode.
      bnd (createItemRow e tid inp barcode (the (iq_itemType inp) = Weighted) s) (\<lambda>(item, s1).
      bnd (recordMutation e ctx ''catalog.item.created'' ''catalog_item'' (ci_id item) s1) (\<lambda>s2.
        Inr (item, s2))))))))"

definition sync_after :: "env \<Rightarrow> TenantContext \<Rightarrow> catalog_item_row \<Rightarrow> db \<Rightarrow> db" where
  "sync_after e ctx item s = snd (with_tenant (\<lambda>s. as_unit (syncItem e (ctx_tenantId ctx) item s)) s)"

definition createItem ::
  "(string \<Rightarrow> bool) \<Rightarrow> env \<Rightarrow> TenantContext \<Rightarrow> item_request \<Rightarrow> db \<Rightarrow> (app_error + catalog_item_row) \<times> db" where
  "createItem isUuid e ctx value s =
     (case catalogItemInputSchema isUuid value of
        None \<Rightarrow> (Inl ValidationError, s)
      | Some inp \<Rightarrow> after_commit (\<lambda>item s1. if ci_status item = Active then sync_after e ctx item s1 else s1)
          (with_tenant (createItemIn e ctx inp) s))"

definition itemSet ::
  "item_request \<Rightarrow> int option \<Rightarrow> string option \<Rightarrow> bool \<Rightarrow> catalog_item_row \<Rightarrow> catalog_item_row" where
  "itemSet p price barcode isWeighted r =
     r\<lparr>ci_categoryId := orElse (iq_categoryId p) (ci_categoryId r), ci_name := orElse (iq_name p) (ci_name r),
       ci_normalizedName := (case iq_name p of None \<Rightarrow> ci_normalizedName r | Some n \<Rightarrow> normalizeCatalogName n),
       ci_description := orElse (iq_description p) (ci_description r), ci_price := orElse price (ci_price r),
       ci_currency := orElse (iq_currency p) (ci_currency r), ci_itemType := orElse (iq_itemType p) (ci_itemType r),
       ci_barcode := (if iq_barcode p \<noteq> None \<or> iq_itemType p \<noteq> None then barcode else ci_barcode r),
       ci_isGeneric := (if isWeighted then False else orElse (iq_isGeneric p) (ci_isGeneric r)),
       ci_genericIcon := (if isWeighted then None else orElse (iq_genericIcon p) (ci_genericIcon r)),
       ci_trackStock := (if isWeighted then False else orElse (iq_trackStock p) (ci_trackStock r)),
       ci_stockQuantity := (if isWeighted then 0 else orElse (iq_stockQuantity p) (ci_stockQuantity r)),
       ci_imageAssetId := orElse (iq_imageAssetId p) (ci_imageAssetId r),
       ci_videoAssetId := orElse (iq_videoAssetId p) (ci_videoAssetId r),
       ci_status := orElse (iq_status p) (ci_status r), ci_sortOrder := orElse (iq_sortOrder p) (ci_sortOrder r)\<rparr>"

definition updateItemIn ::
  "env \<Rightarrow> TenantContext \<Rightarrow> string \<Rightarrow> item_request \<Rightarrow> db \<Rightarrow> app_error + catalog_item_row \<times> db" where
  "updateItemIn e ctx itemId p s =
     (let tid = ctx_tenantId ctx in
      bnd (requireCatalogManagement tid s) (\<lambda>_.
      bnd (opt_or (CatalogError CatalogNotFound) (findItem tid itemId s)) (\<lambda>current.
      bnd (itemRelations tid (orElse (iq_categoryId p) (ci_categoryId current))
          (orElse (iq_imageAssetId p) (ci_imageAssetId current)) (orElse (iq_videoAssetId p) (ci_videoAssetId current))
          (iq_addonGroupIds p) s) (\<lambda>(category, media, video).
      bnd (itemPublishable (orElse (iq_status p) (ci_status current)) category media video) (\<lambda>_.
      let effectiveItemType = orElse (iq_itemType p) (ci_itemType current) in
      bnd (itemBarcode effectiveItemType (orElse (iq_barcode p) (ci_barcode current))) (\<lambda>barcode.
      bnd (lift_db (optional_numeric (iq_price p))) (\<lambda>price.
      bnd (updateItemRow e tid itemId (the (iq_version p)) [iq_stockQuantity p, iq_sortOrder p]
          (itemSet p price barcode (effectiveItemType = Weighted)) (map_option js_set (iq_addonGroupIds p)) s) (\<lambda>(ret, s1).
      bnd (opt_or (CatalogError CatalogConflict) ret) (\<lambda>item.
      bnd (recordMutation e ctx ''catalog.item.updated'' ''catalog_item'' (ci_id item) s1) (\<lambda>s2.
        Inr (item, s2)))))))))))"

definition updateItem ::
  "(string \<Rightarrow> bool) \<Rightarrow> bool \<Rightarrow> env \<Rightarrow> TenantContext \<Rightarrow> string \<Rightarrow> item_request \<Rightarrow> db
     \<Rightarrow> (app_error + catalog_item_row) \<times> db" where
  "updateItem isUuid dfl e ctx itemId value s =
     (case catalogItemPatchSchema isUuid dfl value of
        None \<Rightarrow> (Inl ValidationError, s)
      | Some p \<Rightarrow> after_commit (sync_after e ctx) (with_tenant (updateItemIn e ctx itemId p) s))"

definition status_patch :: "CatalogStatus \<Rightarrow> int \<Rightarrow> item_request" where
  "status_patch st version = \<lparr>iq_categoryId = None, iq_name = None, iq_description = None, iq_price = None,
     iq_currency = None, iq_itemType = None, iq_imageAssetId = None, iq_videoAssetId = None, iq_barcode = None,
     iq_isGeneric = None, iq_genericIcon = None, iq_trackStock = None, iq_stockQuantity = None,
     iq_status = Some st, iq_sortOrder = None, iq_addonGroupIds = None, iq_version = Some version\<rparr>"

definition archiveItem ::
  "(string \<Rightarrow> bool) \<Rightarrow> bool \<Rightarrow> env \<Rightarrow> TenantContext \<Rightarrow> string \<Rightarrow> int \<Rightarrow> db
     \<Rightarrow> (app_error + catalog_item_row) \<times> db" where
  "archiveItem isUuid dfl e ctx itemId value s =
     (case versionedArchiveInput value of
        Inl err \<Rightarrow> (Inl err, s)
      | Inr version \<Rightarrow> updateItem isUuid dfl e ctx itemId (status_patch Archived version) s)"

section \<open>Add-on groups\<close>

definition createAddonGroup ::
  "env \<Rightarrow> TenantContext \<Rightarrow> addon_group_request \<Rightarrow> db \<Rightarrow> (app_error + addon_group_row \<times> addon_option_row list) \<times> db" where
  "createAddonGroup e ctx value s = with_tenant (\<lambda>s.
     bnd (parsed (addonGroupInputSchema value)) (\<lambda>inp.
     bnd (requireCatalogManagement (ctx_tenantId ctx) s) (\<lambda>_.
     bnd (createAddonGroupRow e (ctx_tenantId ctx) inp s) (\<lambda>(created, s1).
     bnd (recordMutation e ctx ''catalog.addon_group.created'' ''addon_group'' (agr_id (fst created)) s1) (\<lambda>s2.
       Inr (created, s2)))))) s"

definition updateAddonGroup ::
  "env \<Rightarrow> TenantContext \<Rightarrow> string \<Rightarrow> addon_group_request \<Rightarrow> db
     \<Rightarrow> (app_error + addon_group_row \<times> addon_option_row list option) \<times> db" where
  "updateAddonGroup e ctx groupId value s = with_tenant (\<lambda>s.
     bnd (parsed (addonGroupPatchSchema value)) (\<lambda>p.
     bnd (requireCatalogManagement (ctx_tenantId ctx) s) (\<lambda>_.
     bnd (opt_or (CatalogError CatalogNotFound) (findAddonGroup (ctx_tenantId ctx) groupId s)) (\<lambda>_.
     bnd (updateAddonGroupRow e (ctx_tenantId ctx) groupId p s) (\<lambda>(ret, s1).
     bnd (opt_or (CatalogError CatalogConflict) ret) (\<lambda>updated.
     bnd (recordMutation e ctx ''catalog.addon_group.updated'' ''addon_group'' (agr_id (fst updated)) s1) (\<lambda>s2.
       Inr (updated, s2)))))))) s"

definition archiveAddonGroup ::
  "env \<Rightarrow> TenantContext \<Rightarrow> string \<Rightarrow> int \<Rightarrow> db \<Rightarrow> (app_error + addon_group_row \<times> addon_option_row list option) \<times> db" where
  "archiveAddonGroup e ctx groupId value s =
     (case versionedArchiveInput value of
        Inl err \<Rightarrow> (Inl err, s)
      | Inr version \<Rightarrow> updateAddonGroup e ctx groupId \<lparr>gq_name = None, gq_minSelected = None, gq_maxSelected = None,
          gq_sortOrder = None, gq_status = Some Archived, gq_options = None, gq_version = Some version\<rparr> s)"

section \<open>Combos\<close>

definition line_ids :: "combo_line_request list \<Rightarrow> string list" where
  "line_ids ls = map lq_itemId ls"

text \<open>The status of an item among those found, archived when it is not there.\<close>

definition status_among :: "catalog_item_row list \<Rightarrow> string \<Rightarrow> CatalogStatus" where
  "status_among items iid = (case sel1 (\<lambda>i. ci_id i = iid) items of None \<Rightarrow> Archived | Some i \<Rightarrow> ci_status i)"

definition createComboIn ::
  "env \<Rightarrow> TenantContext \<Rightarrow> combo_request \<Rightarrow> db \<Rightarrow> app_error + combo_row \<times> db" where
  "createComboIn e ctx inp s =
     (let tid = ctx_tenantId ctx; ls = the (bq_items inp); imageAssetId = or_null (bq_imageAssetId inp);
          media = findMedia tid imageAssetId s; items = findItems tid (line_ids ls) s in
      bnd (requireCatalogManagement tid s) (\<lambda>_.
      case findCategory tid (the (bq_categoryId inp)) s of
        None \<Rightarrow> Inl (CatalogError CatalogNotFound)
      | Some category \<Rightarrow>
          if imageAssetId \<noteq> None \<and> media = None \<or> length items \<noteq> length (js_set (line_ids ls))
          then Inl (CatalogError CatalogNotFound)
          else bnd (if bq_status inp = Some Active
              then assertPublishableCombo (cc_status category) (map_option ma_status media)
                (map (\<lambda>l. (status_among items (lq_itemId l), lq_quantity l)) ls)
              else Inr ()) (\<lambda>_.
            bnd (createComboRow e tid inp s) (\<lambda>(combo, s1).
            bnd (recordMutation e ctx ''catalog.combo.created'' ''catalog_combo'' (cb_id combo) s1) (\<lambda>s2.
              Inr (combo, s2))))))"

definition createCombo ::
  "(string \<Rightarrow> bool) \<Rightarrow> env \<Rightarrow> TenantContext \<Rightarrow> combo_request \<Rightarrow> db \<Rightarrow> (app_error + combo_row) \<times> db" where
  "createCombo isUuid e ctx value s =
     with_tenant (\<lambda>s. bnd (parsed (comboInputSchema isUuid value)) (\<lambda>inp. createComboIn e ctx inp s)) s"

text \<open>The lines a combo will have: those of the request, or those it has.\<close>

definition effectiveLines :: "string \<Rightarrow> string \<Rightarrow> combo_request \<Rightarrow> db \<Rightarrow> (string \<times> int) list" where
  "effectiveLines tid comboId p s =
     (case bq_items p of
        Some ls \<Rightarrow> map (\<lambda>l. (lq_itemId l, lq_quantity l)) ls
      | None \<Rightarrow> map (\<lambda>l. (cbi_itemId l, cbi_quantity l)) (findComboItems tid comboId s))"

definition updateComboIn ::
  "env \<Rightarrow> TenantContext \<Rightarrow> string \<Rightarrow> combo_request \<Rightarrow> db \<Rightarrow> app_error + combo_row \<times> db" where
  "updateComboIn e ctx comboId p s =
     (let tid = ctx_tenantId ctx in
      bnd (requireCatalogManagement tid s) (\<lambda>_.
      bnd (opt_or (CatalogError CatalogNotFound) (findCombo tid comboId s)) (\<lambda>current.
      let imageAssetId = orElse (bq_imageAssetId p) (cb_imageAssetId current); media = findMedia tid imageAssetId s in
      case findCategory tid (orElse (bq_categoryId p) (cb_categoryId current)) s of
        None \<Rightarrow> Inl (CatalogError CatalogNotFound)
      | Some category \<Rightarrow>
          if imageAssetId \<noteq> None \<and> media = None then Inl (CatalogError CatalogNotFound)
          else if (case bq_items p of None \<Rightarrow> False
              | Some ls \<Rightarrow> length (findItems tid (line_ids ls) s) \<noteq> length (js_set (line_ids ls)))
          then Inl (CatalogError CatalogNotFound)
          else (let ls = effectiveLines tid comboId p s; items = findItems tid (map fst ls) s in
            bnd (if orElse (bq_status p) (cb_status current) = Active
              then assertPublishableCombo (cc_status category) (map_option ma_status media)
                (map (\<lambda>(iid, quantity). (status_among items iid, quantity)) ls)
              else Inr ()) (\<lambda>_.
            bnd (updateComboRow e tid comboId p s) (\<lambda>(ret, s1).
            bnd (opt_or (CatalogError CatalogConflict) ret) (\<lambda>combo.
            bnd (recordMutation e ctx ''catalog.combo.updated'' ''catalog_combo'' (cb_id combo) s1) (\<lambda>s2.
              Inr (combo, s2)))))))))"

definition updateCombo ::
  "(string \<Rightarrow> bool) \<Rightarrow> env \<Rightarrow> TenantContext \<Rightarrow> string \<Rightarrow> combo_request \<Rightarrow> db \<Rightarrow> (app_error + combo_row) \<times> db" where
  "updateCombo isUuid e ctx comboId value s =
     with_tenant (\<lambda>s. bnd (parsed (comboPatchSchema isUuid value)) (\<lambda>p. updateComboIn e ctx comboId p s)) s"

definition archiveCombo ::
  "(string \<Rightarrow> bool) \<Rightarrow> env \<Rightarrow> TenantContext \<Rightarrow> string \<Rightarrow> int \<Rightarrow> db \<Rightarrow> (app_error + combo_row) \<times> db" where
  "archiveCombo isUuid e ctx comboId value s =
     (case versionedArchiveInput value of
        Inl err \<Rightarrow> (Inl err, s)
      | Inr version \<Rightarrow> updateCombo isUuid e ctx comboId \<lparr>bq_categoryId = None, bq_name = None, bq_description = None,
          bq_price = None, bq_currency = None, bq_imageAssetId = None, bq_status = Some Archived, bq_items = None,
          bq_version = Some version\<rparr> s)"

section \<open>Bar codes\<close>

record product_suggestion =
  su_name :: string
  su_suggestedCategory :: "string option"
  su_imageUrl :: "string option"
  su_brand :: "string option"

datatype lookup_result = TenantItem catalog_item_row | GlobalProduct product_suggestion
  | ExternalProduct product_suggestion | NoProduct

text \<open>What the public product service says of a product; absent texts are empty.\<close>

record external_product =
  ep_names :: "string list"
  ep_categoriesTags :: "string list"
  ep_imageUrls :: "string list"
  ep_brands :: string

text \<open>The first text of \<open>a || b || ..\<close> that is not empty.\<close>

definition first_text :: "string list \<Rightarrow> string option" where
  "first_text ts = find (\<lambda>t. t \<noteq> []) ts"

text \<open>\<open>replace(/^.*?:/, "")\<close> and \<open>replace(/-/g, " ")\<close>.\<close>

definition tag_name :: "string \<Rightarrow> string" where
  "tag_name tag =
     (let rest = dropWhile (\<lambda>c. c \<noteq> CHR '':'' \<and> c \<noteq> CHR 0x0A \<and> c \<noteq> CHR 0x0D) tag;
          name = (if starts_with '':'' rest then drop 1 rest else tag)
      in map (\<lambda>c. if c = CHR ''-'' then CHR '' '' else c) name)"

definition suggestion_of :: "external_product \<Rightarrow> product_suggestion option" where
  "suggestion_of p =
     (case first_text (ep_names p) of
        None \<Rightarrow> None
      | Some name \<Rightarrow> if js_trim name = [] then None
          else Some \<lparr>su_name = js_trim name,
            su_suggestedCategory = (case ep_categoriesTags p of [] \<Rightarrow> None
              | tag # _ \<Rightarrow> if tag = [] then None else Some (tag_name tag)),
            su_imageUrl = first_text (ep_imageUrls p), su_brand = first_text [ep_brands p]\<rparr>)"

definition remember_product :: "string \<Rightarrow> product_suggestion \<Rightarrow> db \<Rightarrow> db" where
  "remember_product barcode p s =
     (if list_ex (\<lambda>g. gp_barcode g = barcode) (tb_products s) then s
      else s\<lparr>tb_products := tb_products s @ [\<lparr>gp_barcode = barcode, gp_name = su_name p,
        gp_suggestedCategory = su_suggestedCategory p, gp_imageUrl = su_imageUrl p, gp_brand = su_brand p\<rparr>]\<rparr>)"

definition lookup_beyond ::
  "(string \<Rightarrow> external_product option) \<Rightarrow> string \<Rightarrow> db \<Rightarrow> lookup_result \<times> db" where
  "lookup_beyond fetchProduct barcode s =
     (case sel1 (\<lambda>g. gp_barcode g = barcode) (tb_products s) of
        Some g \<Rightarrow> (GlobalProduct \<lparr>su_name = gp_name g, su_suggestedCategory = gp_suggestedCategory g,
          su_imageUrl = gp_imageUrl g, su_brand = gp_brand g\<rparr>, s)
      | None \<Rightarrow> (case fetchProduct barcode of
          None \<Rightarrow> (NoProduct, s)
        | Some product \<Rightarrow> (case suggestion_of product of
            None \<Rightarrow> (NoProduct, s)
          | Some p \<Rightarrow> (ExternalProduct p, remember_product barcode p s))))"

definition lookup ::
  "(string \<Rightarrow> external_product option) \<Rightarrow> TenantContext \<Rightarrow> string \<Rightarrow> db \<Rightarrow> lookup_result \<times> db" where
  "lookup fetchProduct ctx barcode s =
     (let cleanBarcode = js_trim barcode; tid = ctx_tenantId ctx in
      if cleanBarcode = [] then (NoProduct, s)
      else if isScaleEan13Prefix cleanBarcode then
        ((case parseScaleEan13 cleanBarcode of
            None \<Rightarrow> NoProduct
          | Some parsedScale \<Rightarrow> (case findWeightedItemByPlu tid (sca_pluCode parsedScale) s of
              None \<Rightarrow> NoProduct | Some item \<Rightarrow> TenantItem item)), s)
      else (case findItemByBarcode tid cleanBarcode s of
          Some item \<Rightarrow> if ci_itemType item \<noteq> Weighted then (TenantItem item, s)
            else lookup_beyond fetchProduct cleanBarcode s
        | None \<Rightarrow> lookup_beyond fetchProduct cleanBarcode s))"

section \<open>Media\<close>

record object_storage =
  so_uploadUrl :: "string \<Rightarrow> string \<Rightarrow> int \<Rightarrow> string \<Rightarrow> app_error + string"
  so_verify :: "string \<Rightarrow> int \<Rightarrow> string \<Rightarrow> app_error + bool"
  so_readUrl :: "string \<Rightarrow> int \<Rightarrow> app_error + string"
  so_publicBase :: "string option"

definition media_extensions :: "(string \<times> string) list" where
  "media_extensions = [(''image/jpeg'', ''jpg''), (''image/png'', ''png''), (''image/webp'', ''webp''),
     (''video/mp4'', ''mp4''), (''video/webm'', ''webm'')]"

definition buildTenantStorageKey :: "string \<Rightarrow> string \<Rightarrow> string \<Rightarrow> app_error + string" where
  "buildTenantStorageKey tenantId assetId mimeType =
     (case map_of media_extensions mimeType of
        None \<Rightarrow> Inl InternalError
      | Some extension \<Rightarrow>
          if tenantId = [] \<or> assetId = [] \<or> List.member tenantId (CHR ''/'') \<or> List.member assetId (CHR ''/'')
          then Inl InternalError
          else Inr (''tenants/'' @ tenantId @ ''/media/'' @ assetId @ ''.'' @ extension))"

definition UPLOAD_TTL :: int where "UPLOAD_TTL = 300"

record presigned_upload =
  pu_assetId :: string
  pu_uploadUrl :: string
  pu_requiredHeaders :: "(string \<times> string) list"
  pu_expiresAt :: int

definition mediaRow :: "env \<Rightarrow> string \<Rightarrow> string \<Rightarrow> media_request \<Rightarrow> db \<Rightarrow> media_row" where
  "mediaRow e tid key inp s =
     \<lparr>ma_id = fresh_id e s, ma_tenantId = tid, ma_storageKey = key, ma_publicUrl = None,
      ma_checksumSha256 = mq_checksumSha256 inp, ma_mimeType = mq_mimeType inp, ma_byteSize = mq_byteSize inp,
      ma_status = MediaPending, ma_updatedAt = e_now e\<rparr>"

definition createUpload ::
  "object_storage \<Rightarrow> env \<Rightarrow> string \<Rightarrow> media_request \<Rightarrow> db \<Rightarrow> app_error + presigned_upload \<times> db" where
  "createUpload storage e tid inp s =
     (let assetId = fresh_id e s in
      bnd (buildTenantStorageKey tid assetId (mq_mimeType inp)) (\<lambda>key.
      bnd (so_uploadUrl storage key (mq_mimeType inp) (mq_byteSize inp) (mq_checksumSha256 inp)) (\<lambda>url.
      bnd (lift_db (insert_row media_check media_clash (mediaRow e tid key inp s) (tb_media s))) (\<lambda>t.
        Inr (\<lparr>pu_assetId = assetId, pu_uploadUrl = url,
            pu_requiredHeaders = [(''content-type'', mq_mimeType inp), (''x-amz-checksum-sha256'', mq_checksumSha256 inp)],
            pu_expiresAt = e_now e + UPLOAD_TTL * 1000\<rparr>,
          s\<lparr>tb_media := t, uuid_next := Suc (uuid_next s)\<rparr>)))))"

text \<open>\<open>^https?://(127.0.0.1|localhost)(:\d+)?(/.*)$\<close>: the path of a local base address.\<close>

definition strip_scheme :: "string \<Rightarrow> string option" where
  "strip_scheme url = (let u = lower_ascii url in
     if starts_with ''http://'' u then Some (drop 7 url) else if starts_with ''https://'' u then Some (drop 8 url) else None)"

definition local_path :: "string \<Rightarrow> string option" where
  "local_path url =
     (case strip_scheme url of
        None \<Rightarrow> None
      | Some rest \<Rightarrow>
          (let after_host = (if starts_with ''127.0.0.1'' rest then Some (drop 9 rest)
                 else if starts_with ''localhost'' (lower_ascii rest) then Some (drop 9 rest) else None)
           in case after_host of
                None \<Rightarrow> None
              | Some port \<Rightarrow>
                  (let path = (if starts_with '':'' port \<and> is_digit (hd (drop 1 port @ ''/''))
                       then dropWhile is_digit (drop 1 port) else port)
                   in if starts_with ''/'' path \<and> list_all (\<lambda>c. c \<noteq> CHR 0x0A \<and> c \<noteq> CHR 0x0D) path then Some path else None)))"

definition resolvePublicUrl :: "object_storage \<Rightarrow> string \<Rightarrow> app_error + string" where
  "resolvePublicUrl storage storageKey =
     (case so_publicBase storage of
        None \<Rightarrow> so_readUrl storage storageKey 3600
      | Some url \<Rightarrow>
          (let publicBaseUrl = rev (dropWhile (\<lambda>c. c = CHR ''/'') (rev url))
           in if publicBaseUrl = [] then so_readUrl storage storageKey 3600
              else (case local_path publicBaseUrl of
                  Some path \<Rightarrow> Inr (path @ ''/'' @ storageKey)
                | None \<Rightarrow> Inr (publicBaseUrl @ ''/'' @ storageKey))))"

text \<open>
  \<open>complete\<close>: an object that fails its verification is marked failed, and then the error is
  thrown; the state the error carries is what the caller may keep.
\<close>

definition completeUpload ::
  "object_storage \<Rightarrow> env \<Rightarrow> string \<Rightarrow> string \<Rightarrow> db \<Rightarrow> (app_error + media_row) \<times> db" where
  "completeUpload storage e tid assetId s =
     (case findMedia tid (Some assetId) s of
        None \<Rightarrow> (Inl (CatalogError MediaAssetNotFound), s)
      | Some asset \<Rightarrow>
          if ma_status asset = MediaReady then (Inr asset, s)
          else (case so_verify storage (ma_storageKey asset) (ma_byteSize asset) (ma_checksumSha256 asset) of
              Inl err \<Rightarrow> (Inl err, s)
            | Inr verified \<Rightarrow>
                let here = (\<lambda>m. ma_tenantId m = tid \<and> ma_id m = assetId) in
                if \<not> verified then (Inl (CatalogError MediaVerification),
                  s\<lparr>tb_media := upd here (\<lambda>m. m\<lparr>ma_status := MediaFailed, ma_updatedAt := e_now e\<rparr>) (tb_media s)\<rparr>)
                else (case resolvePublicUrl storage (ma_storageKey asset) of
                    Inl err \<Rightarrow> (Inl err, s)
                  | Inr publicUrl \<Rightarrow>
                      let pending = (\<lambda>m. here m \<and> ma_status m = MediaPending);
                          ready = (\<lambda>m. m\<lparr>ma_status := MediaReady, ma_publicUrl := Some publicUrl, ma_updatedAt := e_now e\<rparr>)
                      in case upd_ret pending ready (tb_media s) of
                           None \<Rightarrow> (Inl (CatalogError MediaVerification), s)
                         | Some m \<Rightarrow> (Inr m, s\<lparr>tb_media := upd pending ready (tb_media s)\<rparr>))))"

text \<open>The routes: inside one transaction, so what precedes an error is rolled back with it.\<close>

definition postUpload ::
  "object_storage \<Rightarrow> env \<Rightarrow> TenantContext \<Rightarrow> media_request \<Rightarrow> db \<Rightarrow> (app_error + presigned_upload) \<times> db" where
  "postUpload storage e ctx value s = with_tenant (\<lambda>s.
     bnd (parsed (mediaUploadInputSchema value)) (\<lambda>inp.
     bnd (requireCatalogManagement (ctx_tenantId ctx) s) (\<lambda>_. createUpload storage e (ctx_tenantId ctx) inp s))) s"

definition postComplete ::
  "object_storage \<Rightarrow> env \<Rightarrow> TenantContext \<Rightarrow> string \<Rightarrow> db \<Rightarrow> (app_error + media_row) \<times> db" where
  "postComplete storage e ctx assetId s = with_tenant (\<lambda>s.
     bnd (requireCatalogManagement (ctx_tenantId ctx) s) (\<lambda>_.
       case completeUpload storage e (ctx_tenantId ctx) assetId s of
         (Inl err, _) \<Rightarrow> Inl err | (Inr asset, s1) \<Rightarrow> Inr (asset, s1))) s"

section \<open>Products sold by weight\<close>

text \<open>An item sold by weight has a product code, and neither stock nor an icon of its own.\<close>

definition weighted_ok :: "catalog_item_row \<Rightarrow> bool" where
  "weighted_ok r \<longleftrightarrow> (ci_itemType r = Weighted \<longrightarrow> (\<exists>b. ci_barcode r = Some b \<and> plu_re b)
     \<and> \<not> ci_trackStock r \<and> ci_stockQuantity r = 0 \<and> \<not> ci_isGeneric r \<and> ci_genericIcon r = None)"

definition items_ok :: "db \<Rightarrow> bool" where
  "items_ok s \<longleftrightarrow> uniq ci_id (tb_items s) \<and> (\<forall>r \<in> set (tb_items s). weighted_ok r)"

text \<open>The requests of the back office.\<close>

datatype catalog_request =
  NewCategory category_request | EditCategory string category_request | DropCategory string int
| NewItem item_request | EditItem string item_request | DropItem string int
| NewGroup addon_group_request | EditGroup string addon_group_request | DropGroup string int
| NewCombo combo_request | EditCombo string combo_request | DropCombo string int
| NewMedia media_request | MediaDone string

fun catalog_step ::
  "(string \<Rightarrow> bool) \<Rightarrow> bool \<Rightarrow> object_storage \<Rightarrow> env \<Rightarrow> TenantContext \<Rightarrow> catalog_request \<Rightarrow> db \<Rightarrow> db" where
  "catalog_step isUuid dfl storage e ctx (NewCategory r) s = snd (createCategory e ctx r s)"
| "catalog_step isUuid dfl storage e ctx (EditCategory i r) s = snd (updateCategory dfl e ctx i r s)"
| "catalog_step isUuid dfl storage e ctx (DropCategory i v) s = snd (archiveCategory e ctx i v s)"
| "catalog_step isUuid dfl storage e ctx (NewItem r) s = snd (createItem isUuid e ctx r s)"
| "catalog_step isUuid dfl storage e ctx (EditItem i r) s = snd (updateItem isUuid dfl e ctx i r s)"
| "catalog_step isUuid dfl storage e ctx (DropItem i v) s = snd (archiveItem isUuid dfl e ctx i v s)"
| "catalog_step isUuid dfl storage e ctx (NewGroup r) s = snd (createAddonGroup e ctx r s)"
| "catalog_step isUuid dfl storage e ctx (EditGroup i r) s = snd (updateAddonGroup e ctx i r s)"
| "catalog_step isUuid dfl storage e ctx (DropGroup i v) s = snd (archiveAddonGroup e ctx i v s)"
| "catalog_step isUuid dfl storage e ctx (NewCombo r) s = snd (createCombo isUuid e ctx r s)"
| "catalog_step isUuid dfl storage e ctx (EditCombo i r) s = snd (updateCombo isUuid e ctx i r s)"
| "catalog_step isUuid dfl storage e ctx (DropCombo i v) s = snd (archiveCombo isUuid e ctx i v s)"
| "catalog_step isUuid dfl storage e ctx (NewMedia r) s = snd (postUpload storage e ctx r s)"
| "catalog_step isUuid dfl storage e ctx (MediaDone i) s = snd (postComplete storage e ctx i s)"

fun catalog_run ::
  "(string \<Rightarrow> bool) \<Rightarrow> bool \<Rightarrow> object_storage \<Rightarrow> (env \<times> TenantContext \<times> catalog_request) list \<Rightarrow> db \<Rightarrow> db" where
  "catalog_run isUuid dfl storage [] s = s"
| "catalog_run isUuid dfl storage ((e, ctx, r) # rs) s =
     catalog_run isUuid dfl storage rs (catalog_step isUuid dfl storage e ctx r s)"

lemma items_ok_frame: "tb_items s' = tb_items s \<Longrightarrow> items_ok s' = items_ok s"
  by (simp add: items_ok_def)

lemma recordMutation_items: "recordMutation e ctx act rty rid s = Inr s' \<Longrightarrow> tb_items s' = tb_items s"
  unfolding recordMutation_def by (drule appendOutboxEvent_state) (simp add: appendAuditEvent_def)

lemma insertOptions_items: "insertOptions e tid gid os s = Inr s' \<Longrightarrow> tb_items s' = tb_items s"
  by (induction os arbitrary: s) auto

text \<open>A transaction that leaves the items alone.\<close>

lemma with_tenant_items:
  "(\<And>x s'. body s = Inr (x, s') \<Longrightarrow> tb_items s' = tb_items s) \<Longrightarrow> tb_items (snd (with_tenant body s)) = tb_items s"
  by (cases "body s") (auto simp: with_tenant_def transact_def)

lemma with_tenant_items_ok:
  "items_ok s \<Longrightarrow> (\<And>x s'. body s = Inr (x, s') \<Longrightarrow> items_ok s') \<Longrightarrow> items_ok (snd (with_tenant body s))"
  by (cases "body s") (auto simp: with_tenant_def transact_def)

lemma with_tenant_same:
  "items_ok s \<Longrightarrow> (\<And>x s'. body s = Inr (x, s') \<Longrightarrow> tb_items s' = tb_items s) \<Longrightarrow> items_ok (snd (with_tenant body s))"
  using with_tenant_items [of body s] items_ok_frame by blast

lemma after_commit_items_ok:
  "items_ok (snd r) \<Longrightarrow> (\<And>x s. tb_items (f x s) = tb_items s) \<Longrightarrow> items_ok (snd (after_commit f r))"
  by (cases r; cases "fst r") (auto intro: items_ok_frame [THEN iffD2])

lemma search_items [simp]:
  "tb_items (deleteSearchEntry j s) = tb_items s" "tb_items (upsertSearchEntry row s) = tb_items s"
  by (simp_all add: deleteSearchEntry_def upsertSearchEntry_def Let_def)

lemma sync_items: "syncItem e tid i s = Inr s' \<Longrightarrow> tb_items s' = tb_items s"
  using syncTenantEligibility_state [of e tid s]
  by (auto simp: syncItem_def Let_def split: if_splits option.splits sum.splits app_error.splits)

lemma sync_after_items [simp]: "tb_items (sync_after e ctx item s) = tb_items s"
  unfolding sync_after_def by (rule with_tenant_items) (auto simp: as_unit_def dest: sync_items)

lemma rename_items [simp]: "tb_items (syncCategoryRename e tid cid n s) = tb_items s"
  by (simp add: syncCategoryRename_def updateCategoryNameForEntries_def)

lemma category_ops_items:
  "createCategoryRow e tid inp s = Inr (c, s') \<Longrightarrow> tb_items s' = tb_items s"
  "updateCategoryRow e tid cid v ns f s = Inr (ret, s') \<Longrightarrow> tb_items s' = tb_items s"
  by (auto simp: createCategoryRow_def updateCategoryRow_def Let_def)

text \<open>The last step of an update: more to write when a row was found and a list was given.\<close>

lemma case_option_Inr:
  "(case ret of None \<Rightarrow> Inr x | Some a \<Rightarrow> (case extra of None \<Rightarrow> f a | Some b \<Rightarrow> g a b)) = Inr y \<longleftrightarrow>
     ret = None \<and> x = y \<or> (\<exists>a. ret = Some a \<and> (extra = None \<and> f a = Inr y \<or> (\<exists>b. extra = Some b \<and> g a b = Inr y)))"
  by (cases ret; cases extra) auto

lemma group_ops_items:
  "createAddonGroupRow e tid inp s = Inr (g, s') \<Longrightarrow> tb_items s' = tb_items s"
  "updateAddonGroupRow e tid gid p s = Inr (ret, s') \<Longrightarrow> tb_items s' = tb_items s"
  by (auto simp: createAddonGroupRow_def updateAddonGroupRow_def archiveOptions_def Let_def case_option_Inr
    dest!: insertOptions_items)

lemma combo_ops_items:
  "createComboRow e tid inp2 s = Inr (b, s') \<Longrightarrow> tb_items s' = tb_items s"
  "updateComboRow e tid cid p2 s = Inr (ret, s') \<Longrightarrow> tb_items s' = tb_items s"
  by (auto simp: createComboRow_def updateComboRow_def Let_def case_option_Inr)

lemma updateCategoryIn_items: "updateCategoryIn e ctx cid p s = Inr (c, s') \<Longrightarrow> tb_items s' = tb_items s"
  by (auto simp: updateCategoryIn_def Let_def dest!: recordMutation_items category_ops_items)

lemma createComboIn_items: "createComboIn e ctx inp s = Inr (b, s') \<Longrightarrow> tb_items s' = tb_items s"
  by (auto simp: createComboIn_def Let_def dest!: recordMutation_items combo_ops_items split: option.splits if_splits)

lemma updateComboIn_items: "updateComboIn e ctx cid p s = Inr (b, s') \<Longrightarrow> tb_items s' = tb_items s"
  by (auto simp: updateComboIn_def Let_def dest!: recordMutation_items combo_ops_items split: option.splits if_splits)

lemma completeUpload_items: "completeUpload storage e tid aid s = (r, s') \<Longrightarrow> tb_items s' = tb_items s"
  by (auto simp: completeUpload_def Let_def split: option.splits sum.splits if_splits)

lemma createUpload_items: "createUpload storage e tid inp s = Inr (u, s') \<Longrightarrow> tb_items s' = tb_items s"
  by (auto simp: createUpload_def Let_def)

lemma itemBarcode_weighted: "itemBarcode Weighted raw = Inr b \<Longrightarrow> \<exists>c. b = Some c \<and> plu_re c"
  by (auto simp: itemBarcode_def Let_def split: if_splits)

lemma itemRow_weighted:
  "itemBarcode (the (iq_itemType inp)) raw = Inr b \<Longrightarrow> weighted_ok (itemRow e tid inp price b (the (iq_itemType inp) = Weighted) s)"
  by (auto simp: weighted_ok_def itemRow_def dest: itemBarcode_weighted)

lemma itemSet_weighted:
  assumes "weighted_ok r" and "itemBarcode (orElse (iq_itemType p) (ci_itemType r)) raw = Inr b"
  shows "weighted_ok ((itemSet p price b (orElse (iq_itemType p) (ci_itemType r) = Weighted) r)\<lparr>ci_version := v, ci_updatedAt := n\<rparr>)"
  using assms itemBarcode_weighted [of raw b]
  by (cases "iq_itemType p") (auto simp: weighted_ok_def itemSet_def orElse_def)

lemma createItemIn_ok:
  assumes ok: "items_ok s" and run: "createItemIn e ctx inp s = Inr (item, s')"
  shows "items_ok s'"
proof -
  let ?w = "the (iq_itemType inp) = Weighted"
  obtain b s1 where b: "itemBarcode (the (iq_itemType inp)) (or_null (iq_barcode inp)) = Inr b"
    and row: "createItemRow e (ctx_tenantId ctx) inp b ?w s = Inr (item, s1)" and rec: "tb_items s' = tb_items s1"
    using run by (auto simp: createItemIn_def Let_def dest!: recordMutation_items)
  obtain price where item: "item = itemRow e (ctx_tenantId ctx) inp price b ?w s"
    and ins: "insert_row catalog_item_check catalog_item_clash item (tb_items s) = Inr (tb_items s1)"
    using row by (auto simp: createItemRow_def Let_def)
  have "uniq ci_id (tb_items s1)" "set (tb_items s1) = insert item (set (tb_items s))"
    using ins ok by (auto simp: insert_row_Inr items_ok_def uniq_append1 catalog_item_clash_def)
  then show ?thesis
    using ok itemRow_weighted [OF b] by (auto simp: items_ok_def rec item)
qed

lemma update_unique_Some:
  "update_unique chk clash P f t = Inr (Some r', t') \<Longrightarrow> \<exists>r. sel1 P t = Some r \<and> r' = f r \<and> chk r' \<and> t' = upd P f t"
  by (auto simp: update_unique_def split: option.splits if_splits)

lemma itemSet_key [simp]: "ci_id (itemSet p price b w r) = ci_id r" "ci_tenantId (itemSet p price b w r) = ci_tenantId r"
  by (simp_all add: itemSet_def)

text \<open>What an edit of an item wrote: the item as its caller read it, and no other.\<close>

lemma updateItemIn_Inr:
  assumes "updateItemIn e ctx iid p s = Inr (item, s')"
  obtains (edit) current :: catalog_item_row and category media video b price where "findItem (ctx_tenantId ctx) iid s = Some current"
    "itemRelations (ctx_tenantId ctx) (orElse (iq_categoryId p) (ci_categoryId current))
       (orElse (iq_imageAssetId p) (ci_imageAssetId current)) (orElse (iq_videoAssetId p) (ci_videoAssetId current))
       (iq_addonGroupIds p) s = Inr (category, media, video)"
    "itemPublishable (orElse (iq_status p) (ci_status current)) category media video = Inr ()"
    "itemBarcode (orElse (iq_itemType p) (ci_itemType current)) (orElse (iq_barcode p) (ci_barcode current)) = Inr b"
    "optional_numeric (iq_price p) = Inr price"
    "\<exists>r. sel1 (item_at (ctx_tenantId ctx) iid (the (iq_version p))) (tb_items s) = Some r
       \<and> item = (itemSet p price b (orElse (iq_itemType p) (ci_itemType current) = Weighted) r)
           \<lparr>ci_version := ci_version r + 1, ci_updatedAt := e_now e\<rparr>"
    "tb_items s' = upd (item_at (ctx_tenantId ctx) iid (the (iq_version p)))
       (\<lambda>r. (itemSet p price b (orElse (iq_itemType p) (ci_itemType current) = Weighted) r)
         \<lparr>ci_version := ci_version r + 1, ci_updatedAt := e_now e\<rparr>) (tb_items s)"
proof -
  obtain current category media video b price s1 where c: "findItem (ctx_tenantId ctx) iid s = Some current"
    and rel: "itemRelations (ctx_tenantId ctx) (orElse (iq_categoryId p) (ci_categoryId current))
       (orElse (iq_imageAssetId p) (ci_imageAssetId current)) (orElse (iq_videoAssetId p) (ci_videoAssetId current))
       (iq_addonGroupIds p) s = Inr (category, media, video)"
    and pub: "itemPublishable (orElse (iq_status p) (ci_status current)) category media video = Inr ()"
    and b: "itemBarcode (orElse (iq_itemType p) (ci_itemType current)) (orElse (iq_barcode p) (ci_barcode current)) = Inr b"
    and price: "optional_numeric (iq_price p) = Inr price"
    and row: "updateItemRow e (ctx_tenantId ctx) iid (the (iq_version p)) [iq_stockQuantity p, iq_sortOrder p]
        (itemSet p price b (orElse (iq_itemType p) (ci_itemType current) = Weighted))
        (map_option js_set (iq_addonGroupIds p)) s = Inr (Some item, s1)" and rec: "tb_items s' = tb_items s1"
    using assms by (auto simp: updateItemIn_def Let_def dest!: recordMutation_items)
  let ?f = "\<lambda>r. (itemSet p price b (orElse (iq_itemType p) (ci_itemType current) = Weighted) r)
         \<lparr>ci_version := ci_version r + 1, ci_updatedAt := e_now e\<rparr>"
  have "update_unique catalog_item_check catalog_item_clash (item_at (ctx_tenantId ctx) iid (the (iq_version p)))
      ?f (tb_items s) = Inr (Some item, tb_items s1)"
    using row by (auto simp: updateItemRow_def case_option_Inr)
  from update_unique_Some [OF this]
  obtain r where r: "sel1 (item_at (ctx_tenantId ctx) iid (the (iq_version p))) (tb_items s) = Some r" "item = ?f r"
    and up: "tb_items s1 = upd (item_at (ctx_tenantId ctx) iid (the (iq_version p))) ?f (tb_items s)" by blast
  show ?thesis
    by (rule edit [OF c rel pub b price]) (use r up rec in auto)
qed

lemma updateItemIn_ok:
  assumes ok: "items_ok s" and run: "updateItemIn e ctx iid p s = Inr (item, s')"
  shows "items_ok s'"
proof (rule updateItemIn_Inr [OF run])
  fix current :: catalog_item_row and category media video b price
  let ?at = "item_at (ctx_tenantId ctx) iid (the (iq_version p))"
  let ?f = "\<lambda>r. (itemSet p price b (orElse (iq_itemType p) (ci_itemType current) = Weighted) r)
         \<lparr>ci_version := ci_version r + 1, ci_updatedAt := e_now e\<rparr>"
  assume c: "findItem (ctx_tenantId ctx) iid s = Some current"
    and b: "itemBarcode (orElse (iq_itemType p) (ci_itemType current)) (orElse (iq_barcode p) (ci_barcode current)) = Inr b"
    and up: "tb_items s' = upd ?at ?f (tb_items s)"
  have same: "r = current" if "r \<in> set (tb_items s)" "?at r" for r
    using that ok c sel1_SomeD [OF c [unfolded findItem_def]] by (auto simp: items_ok_def item_at_def dest: uniq_eq)
  have "weighted_ok r'" if r': "r' \<in> set (upd ?at ?f (tb_items s))" for r'
    using r'
  proof (rule in_updE)
    fix r assume r: "r \<in> set (tb_items s)" "r' = (if ?at r then ?f r else r)"
    then show "weighted_ok r'"
      using same [OF r(1)] itemSet_weighted [where r = current, OF _ b] ok by (cases "?at r") (auto simp: items_ok_def)
  qed
  moreover have "uniq ci_id (upd ?at ?f (tb_items s)) = uniq ci_id (tb_items s)"
    by (rule uniq_upd) simp
  ultimately show "items_ok s'"
    using ok by (simp add: items_ok_def up)
qed

lemma createItem_ok: "items_ok s \<Longrightarrow> items_ok (snd (createItem isUuid e ctx r s))"
  unfolding createItem_def
  by (cases "catalogItemInputSchema isUuid r")
    (simp_all add: after_commit_items_ok [OF with_tenant_items_ok] createItemIn_ok)

lemma updateItem_ok: "items_ok s \<Longrightarrow> items_ok (snd (updateItem isUuid dfl e ctx i r s))"
  unfolding updateItem_def
  by (cases "catalogItemPatchSchema isUuid dfl r")
    (simp_all add: after_commit_items_ok [OF with_tenant_items_ok] updateItemIn_ok)

lemma catalog_step_ok:
  assumes "items_ok s"
  shows "items_ok (catalog_step isUuid dfl storage e ctx r s)"
proof (cases r)
  case (NewCategory x)
  then show ?thesis using assms by (auto simp: createCategory_def dest!: recordMutation_items category_ops_items intro!: with_tenant_same)
next
  case (EditCategory i x)
  then show ?thesis
    using assms by (auto simp: updateCategory_def dest!: updateCategoryIn_items
      intro!: after_commit_items_ok with_tenant_same split: option.split)
next
  case (DropCategory i v)
  then show ?thesis
    using assms by (auto simp: archiveCategory_def Let_def dest!: recordMutation_items category_ops_items
      intro!: with_tenant_same)
next
  case (NewItem x)
  then show ?thesis using createItem_ok [OF assms] by simp
next
  case (EditItem i x)
  then show ?thesis using updateItem_ok [OF assms] by simp
next
  case (DropItem i v)
  then show ?thesis using updateItem_ok [OF assms] assms by (simp add: archiveItem_def split: sum.split)
next
  case (NewGroup x)
  then show ?thesis
    using assms by (auto simp: createAddonGroup_def dest!: recordMutation_items group_ops_items intro!: with_tenant_same)
next
  case (EditGroup i x)
  then show ?thesis
    using assms by (auto simp: updateAddonGroup_def dest!: recordMutation_items group_ops_items intro!: with_tenant_same)
next
  case (DropGroup i v)
  then show ?thesis
    using assms by (auto simp: archiveAddonGroup_def updateAddonGroup_def
      dest!: recordMutation_items group_ops_items intro!: with_tenant_same split: sum.split)
next
  case (NewCombo x)
  then show ?thesis
    using assms by (auto simp: createCombo_def dest!: createComboIn_items intro!: with_tenant_same)
next
  case (EditCombo i x)
  then show ?thesis
    using assms by (auto simp: updateCombo_def dest!: updateComboIn_items intro!: with_tenant_same)
next
  case (DropCombo i v)
  then show ?thesis
    using assms by (auto simp: archiveCombo_def updateCombo_def dest!: updateComboIn_items
      intro!: with_tenant_same split: sum.split)
next
  case (NewMedia x)
  then show ?thesis
    using assms by (auto simp: postUpload_def dest!: createUpload_items intro!: with_tenant_same)
next
  case (MediaDone i)
  then show ?thesis
    using assms by (auto simp: postComplete_def dest!: completeUpload_items intro!: with_tenant_same
      split: prod.splits sum.splits)
qed

text \<open>A back office with the right to manage its catalogue, and the store of the search examples.\<close>

definition sample_deli :: db where
  "sample_deli = sample_listing\<lparr>tb_entitlements := [\<lparr>en_tenantId = ''t1'', en_planId = ''p'', en_planVersion = 1,
     en_entitlements = \<lparr>ent_catalogManagement = True, ent_onlinePayments = True, ent_printing = True\<rparr>,
     en_sourceRequestId = ''q'', en_effectiveAt = 0, en_supersededAt = None\<rparr>],
     tb_media := [\<lparr>ma_id = ''m1'', ma_tenantId = ''t1'', ma_storageKey = ''k'', ma_publicUrl = None,
       ma_checksumSha256 = [], ma_mimeType = ''image/png'', ma_byteSize = 9, ma_status = MediaPending, ma_updatedAt = 0\<rparr>],
     tb_itemAddonGroups := [\<lparr>iag_tenantId = ''t1'', iag_itemId = ''i1'', iag_addonGroupId = ''g1'', iag_sortOrder = 0\<rparr>]\<rparr>"

abbreviation sample_storage :: "bool \<Rightarrow> object_storage" where
  "sample_storage ok \<equiv> \<lparr>so_uploadUrl = (\<lambda>_ _ _ _. Inr ''u''), so_verify = (\<lambda>_ _ _. Inr ok), so_readUrl = (\<lambda>_ _. Inr ''r''),
     so_publicBase = None\<rparr>"

lemma sample_deli_ok: "items_ok sample_deli"
  by (simp add: items_ok_def sample_deli_def sample_listing_def sample_pizza_def weighted_ok_def uniq_def)

text \<open>
  C21. Whatever the back office does with its catalogue, each item sold by weight carries a product
  code of five digits that are not all zero, has no stock of its own, and is not a generic item with
  an icon; and item ids stay unique.
\<close>

theorem weighted_items_invariant:
  assumes "items_ok s"
  shows "uniq ci_id (tb_items (catalog_run isUuid dfl storage rs s))
    \<and> (\<forall>r \<in> set (tb_items (catalog_run isUuid dfl storage rs s)). ci_itemType r = Weighted \<longrightarrow>
         (\<exists>b. ci_barcode r = Some b \<and> plu_re b) \<and> \<not> ci_trackStock r \<and> ci_stockQuantity r = 0
         \<and> \<not> ci_isGeneric r \<and> ci_genericIcon r = None)"
proof -
  have "items_ok (catalog_run isUuid dfl storage rs s)"
    using assms by (induction isUuid dfl storage rs s rule: catalog_run.induct) (simp_all add: catalog_step_ok)
  then show ?thesis by (auto simp: items_ok_def weighted_ok_def)
qed

definition sample_weighing :: item_request where
  "sample_weighing = (status_patch Active 1)\<lparr>iq_itemType := Some Weighted, iq_barcode := Some (Some ''2000042012502'')\<rparr>"

theorem weighted_items_invariant_witness:
  "map (\<lambda>r. (ci_itemType r, ci_barcode r, ci_stockQuantity r))
      (tb_items (catalog_run (\<lambda>_. True) True (sample_storage True) [(sample_env, sample_context, EditItem ''i1'' sample_weighing)] sample_deli))
    = [(Weighted, Some ''00042'', 0), (Unit, None, 7)]
   \<and> uniq ci_id (tb_items (catalog_run (\<lambda>_. True) True (sample_storage True)
        [(sample_env, sample_context, EditItem ''i1'' sample_weighing)] sample_deli))"
proof
  show "map (\<lambda>r. (ci_itemType r, ci_barcode r, ci_stockQuantity r))
      (tb_items (catalog_run (\<lambda>_. True) True (sample_storage True) [(sample_env, sample_context, EditItem ''i1'' sample_weighing)] sample_deli))
    = [(Weighted, Some ''00042'', 0), (Unit, None, 7)]" by code_simp
qed (use weighted_items_invariant [OF sample_deli_ok] in blast)

section \<open>Editing an item\<close>

lemma updateItem_Inr:
  assumes "updateItem isUuid dfl e ctx iid value s = (Inr item, s')"
  obtains p s1 where "catalogItemPatchSchema isUuid dfl value = Some p" "updateItemIn e ctx iid p s = Inr (item, s1)"
    "s' = sync_after e ctx item s1"
proof -
  obtain p where p: "catalogItemPatchSchema isUuid dfl value = Some p"
    and run: "after_commit (sync_after e ctx) (with_tenant (updateItemIn e ctx iid p) s) = (Inr item, s')"
    using assms by (auto simp: updateItem_def split: option.splits)
  show thesis
  proof (cases "updateItemIn e ctx iid p s")
    case (Inl err)
    then show ?thesis using run by (simp add: with_tenant_def transact_def)
  next
    case (Inr r)
    then show ?thesis using run that p by (cases r) (auto simp: with_tenant_def transact_def)
  qed
qed

lemma item_found_at:
  assumes "items_ok s" "findItem tid iid s = Some current" "sel1 (item_at tid iid v) (tb_items s) = Some r"
  shows "r = current"
  using assms(1) sel1_SomeD [OF assms(3)] sel1_SomeD [OF assms(2) [unfolded findItem_def]]
  by (auto simp: items_ok_def item_at_def dest: uniq_eq)

lemma weighted_barcode_kept:
  "weighted_ok r \<Longrightarrow> itemBarcode (ci_itemType r) (ci_barcode r) = Inr b \<Longrightarrow> b = ci_barcode r"
  by (auto simp: weighted_ok_def itemBarcode_def normalizePluCode_plu Let_def split: if_splits)

lemma recordMutation_links: "recordMutation e ctx act rty rid s = Inr s' \<Longrightarrow> tb_itemAddonGroups s' = tb_itemAddonGroups s"
  unfolding recordMutation_def by (drule appendOutboxEvent_state) (simp add: appendAuditEvent_def)

lemma sync_links: "syncItem e tid i s = Inr s' \<Longrightarrow> tb_itemAddonGroups s' = tb_itemAddonGroups s"
  using syncTenantEligibility_state [of e tid s]
  by (auto simp: syncItem_def Let_def deleteSearchEntry_def upsertSearchEntry_def
    split: if_splits option.splits sum.splits app_error.splits)

lemma sync_after_links [simp]: "tb_itemAddonGroups (sync_after e ctx item s) = tb_itemAddonGroups s"
  using sync_links [of e "ctx_tenantId ctx" item s]
  by (cases "syncItem e (ctx_tenantId ctx) item s") (auto simp: sync_after_def with_tenant_def transact_def as_unit_def)

lemma updateItemIn_links:
  assumes "updateItemIn e ctx iid p s = Inr (item, s')" "iq_addonGroupIds p = Some []"
  shows "\<forall>l \<in> set (tb_itemAddonGroups s'). \<not> (iag_tenantId l = ctx_tenantId ctx \<and> iag_itemId l = iid)"
  using assms by (auto simp: updateItemIn_def updateItemRow_def Let_def case_option_Inr replace_links_def linkRows_def
    js_set_def dest!: recordMutation_links)

text \<open>
  C26. Archiving an item only sets its status, if the validator leaves the fields it was not given
  alone. If it fills in the defaults of the schema, as the library's current version does, the
  request that names a status also makes the item a unit item at the head of its list, switches its
  stock off and loses the count, and removes its links to the add-on groups. In either case the
  item's \<open>archivedAt\<close> is not set, so its name and its bar code stay taken.
\<close>

theorem archive_resets_item:
  assumes "items_ok s" and "findItem (ctx_tenantId ctx) iid s = Some current"
    and "archiveItem isUuid dfl e ctx iid v s = (Inr item, s')"
  shows "item = (if dfl then current\<lparr>ci_itemType := Unit, ci_isGeneric := False, ci_trackStock := False,
        ci_stockQuantity := 0, ci_sortOrder := 0\<rparr> else current)
        \<lparr>ci_status := Archived, ci_version := v + 1, ci_updatedAt := e_now e\<rparr>
    \<and> ci_archivedAt item = ci_archivedAt current
    \<and> (dfl \<longrightarrow> (\<forall>l \<in> set (tb_itemAddonGroups s'). \<not> (iag_tenantId l = ctx_tenantId ctx \<and> iag_itemId l = iid)))"
proof -
  define p where "p = (if dfl then item_defaults (status_patch Archived v) else status_patch Archived v)"
  have "updateItem isUuid dfl e ctx iid (status_patch Archived v) s = (Inr item, s')"
    using assms(3) by (auto simp: archiveItem_def versionedArchiveInput_def split: if_splits)
  then obtain s1 where run: "updateItemIn e ctx iid p s = Inr (item, s1)" and s': "s' = sync_after e ctx item s1"
    by (rule updateItem_Inr)
      (auto simp: catalogItemPatchSchema_def item_trim_def status_patch_def p_def Let_def split: if_splits)
  have p: "iq_version p = Some v" "iq_status p = Some Archived" "iq_price p = None" "iq_barcode p = None"
    "iq_addonGroupIds p = (if dfl then Some [] else None)"
    by (simp_all add: p_def item_defaults_def status_patch_def default_if_def)
  show ?thesis
  proof (rule updateItemIn_Inr [OF run])
    fix cur category media video b price
    assume cur: "findItem (ctx_tenantId ctx) iid s = Some cur"
      and b: "itemBarcode (orElse (iq_itemType p) (ci_itemType cur)) (orElse (iq_barcode p) (ci_barcode cur)) = Inr b"
      and price: "optional_numeric (iq_price p) = Inr price"
      and row: "\<exists>r. sel1 (item_at (ctx_tenantId ctx) iid (the (iq_version p))) (tb_items s) = Some r
        \<and> item = (itemSet p price b (orElse (iq_itemType p) (ci_itemType cur) = Weighted) r)
            \<lparr>ci_version := ci_version r + 1, ci_updatedAt := e_now e\<rparr>"
    have c: "cur = current" using cur assms(2) by simp
    have price: "price = None" using price p(3) by (simp add: optional_numeric_def)
    obtain r where r: "sel1 (item_at (ctx_tenantId ctx) iid v) (tb_items s) = Some r"
      and item: "item = (itemSet p price b (orElse (iq_itemType p) (ci_itemType current) = Weighted) r)
            \<lparr>ci_version := ci_version r + 1, ci_updatedAt := e_now e\<rparr>"
      using row by (auto simp: p(1) c)
    have rc: "r = current" "ci_version r = v"
      using item_found_at [OF assms(1,2) r] sel1_Some_P [OF r] by (simp_all add: item_at_def)
    have ok: "weighted_ok current"
      using assms(1) sel1_Some_in [OF assms(2) [unfolded findItem_def]] by (simp add: items_ok_def)
    show ?thesis
    proof (cases dfl)
      case True
      then have "b = ci_barcode current"
        using b c by (simp add: p_def item_defaults_def status_patch_def default_if_def orElse_def itemBarcode_def)
      then show ?thesis
        using True updateItemIn_links [OF run] s' unfolding item rc price
        by (simp add: p_def itemSet_def item_defaults_def status_patch_def default_if_def orElse_def rc [symmetric])
    next
      case False
      show ?thesis
        using False ok unfolding item rc price
        by (cases "ci_itemType current") (simp_all add: p_def itemSet_def status_patch_def orElse_def weighted_ok_def rc [symmetric])
    qed
  qed
qed

theorem archive_resets_item_witness:
  "(case archiveItem (\<lambda>_. True) True sample_env sample_context ''i1'' 1 sample_deli of (r, s) \<Rightarrow>
      r = Inr (sample_pizza\<lparr>ci_itemType := Unit, ci_isGeneric := False, ci_trackStock := False, ci_stockQuantity := 0,
        ci_sortOrder := 0, ci_status := Archived, ci_version := 1 + 1, ci_updatedAt := e_now sample_env\<rparr>)
      \<and> filter (\<lambda>l. iag_itemId l = ''i1'' \<and> iag_tenantId l = ''t1'') (tb_itemAddonGroups s) = [])"
proof -
  have "\<not> isl (fst (archiveItem (\<lambda>_. True) True sample_env sample_context ''i1'' 1 sample_deli))" by code_simp
  then obtain item s where run: "archiveItem (\<lambda>_. True) True sample_env sample_context ''i1'' 1 sample_deli = (Inr item, s)"
    by (cases "archiveItem (\<lambda>_. True) True sample_env sample_context ''i1'' 1 sample_deli";
        cases "fst (archiveItem (\<lambda>_. True) True sample_env sample_context ''i1'' 1 sample_deli)") auto
  have "findItem (ctx_tenantId sample_context) ''i1'' sample_deli = Some sample_pizza"
    by (simp add: findItem_def sample_deli_def sample_listing_def sample_context_def sample_pizza_def)
  from archive_resets_item [OF sample_deli_ok this run] show ?thesis
    unfolding run by (auto simp: filter_empty_conv) (simp_all add: sample_context_def)
qed

section \<open>What is published, and what an upload leaves behind\<close>

text \<open>The category of an item is active, and its picture and its video, where it has them, are ready.\<close>

definition media_ready :: "string \<Rightarrow> string option \<Rightarrow> db \<Rightarrow> bool" where
  "media_ready tid aid s =
     (case aid of None \<Rightarrow> True
      | Some i \<Rightarrow> list_ex (\<lambda>m. ma_tenantId m = tid \<and> ma_id m = i \<and> ma_status m = MediaReady) (tb_media s))"

definition presentable :: "string \<Rightarrow> db \<Rightarrow> catalog_item_row \<Rightarrow> bool" where
  "presentable tid s item \<longleftrightarrow>
     list_ex (\<lambda>c. cc_tenantId c = tid \<and> cc_id c = ci_categoryId item \<and> cc_status c = Active) (tb_categories s)
     \<and> media_ready tid (ci_imageAssetId item) s \<and> media_ready tid (ci_videoAssetId item) s"

lemma findMedia_ready:
  "findMedia tid aid s = m \<Longrightarrow> (aid \<noteq> None \<Longrightarrow> m \<noteq> None) \<Longrightarrow> (\<And>a. m = Some a \<Longrightarrow> ma_status a = MediaReady) \<Longrightarrow>
   media_ready tid aid s"
  by (cases aid; cases m) (auto simp: findMedia_def media_ready_def list_ex_iff dest: sel1_Some_in sel1_Some_P)

lemma assertPublishableItem_Inr [simp]:
  "assertPublishableItem st m = Inr u \<longleftrightarrow> st = Active \<and> (case m of None \<Rightarrow> True | Some x \<Rightarrow> x = MediaReady)"
  by (auto simp: assertPublishableItem_def split: option.splits)

lemma relations_presentable:
  assumes "itemRelations tid cid img vid gs s = Inr (category, media, video)"
    and "itemPublishable Active category media video = Inr ()"
  shows "list_ex (\<lambda>c. cc_tenantId c = tid \<and> cc_id c = cid \<and> cc_status c = Active) (tb_categories s)"
    and "media_ready tid img s" and "media_ready tid vid s"
proof -
  have f: "findCategory tid cid s = Some category" "findMedia tid img s = media" "findMedia tid vid s = video"
    and some: "img \<noteq> None \<Longrightarrow> media \<noteq> None" "vid \<noteq> None \<Longrightarrow> video \<noteq> None"
    using assms(1) by (cases img; cases vid; auto simp: itemRelations_def split: option.splits if_splits)+
  have ok: "cc_status category = Active" "\<And>a. media = Some a \<Longrightarrow> ma_status a = MediaReady"
    "\<And>a. video = Some a \<Longrightarrow> ma_status a = MediaReady"
    using assms(2) by (auto simp: itemPublishable_def split: option.splits)
  show "list_ex (\<lambda>c. cc_tenantId c = tid \<and> cc_id c = cid \<and> cc_status c = Active) (tb_categories s)"
    using sel1_SomeD [OF f(1) [unfolded findCategory_def]] ok(1) by (auto simp: list_ex_iff)
  show "media_ready tid img s" by (rule findMedia_ready [OF f(2) some(1) ok(2)])
  show "media_ready tid vid s" by (rule findMedia_ready [OF f(3) some(2) ok(3)])
qed

lemma createItemIn_Inr:
  assumes "createItemIn e ctx inp s = Inr (item, s')"
  obtains category media video b price where
    "itemRelations (ctx_tenantId ctx) (the (iq_categoryId inp)) (or_null (iq_imageAssetId inp)) (or_null (iq_videoAssetId inp))
       (iq_addonGroupIds inp) s = Inr (category, media, video)"
    "itemPublishable (the (iq_status inp)) category media video = Inr ()"
    "item = itemRow e (ctx_tenantId ctx) inp price b (the (iq_itemType inp) = Weighted) s"
  using assms by (auto simp: createItemIn_def createItemRow_def Let_def)

text \<open>
  C23. An item that the back office creates or edits, and that is active afterwards, belongs to an
  active category of the business, and its picture and its video are uploads of the business that
  were verified.
\<close>

theorem published_item_ready:
  assumes "items_ok s" and "ci_status item = Active"
    and "createItem isUuid e ctx value s = (Inr item, s') \<or> updateItem isUuid dfl e ctx iid value s = (Inr item, s')"
  shows "presentable (ctx_tenantId ctx) s item"
  using assms(3)
proof
  assume "createItem isUuid e ctx value s = (Inr item, s')"
  then obtain inp s1 where run: "createItemIn e ctx inp s = Inr (item, s1)"
    by (cases "catalogItemInputSchema isUuid value"; cases "createItemIn e ctx (the (catalogItemInputSchema isUuid value)) s")
      (auto simp: createItem_def with_tenant_def transact_def)
  show ?thesis
    by (rule createItemIn_Inr [OF run])
      (use assms(2) in \<open>auto simp: presentable_def itemRow_def intro: relations_presentable\<close>)
next
  assume "updateItem isUuid dfl e ctx iid value s = (Inr item, s')"
  then obtain p s1 where run: "updateItemIn e ctx iid p s = Inr (item, s1)" by (rule updateItem_Inr)
  show ?thesis
  proof (rule updateItemIn_Inr [OF run])
    fix cur :: catalog_item_row and category media video b price
    assume cur: "findItem (ctx_tenantId ctx) iid s = Some cur"
      and rel: "itemRelations (ctx_tenantId ctx) (orElse (iq_categoryId p) (ci_categoryId cur))
         (orElse (iq_imageAssetId p) (ci_imageAssetId cur)) (orElse (iq_videoAssetId p) (ci_videoAssetId cur))
         (iq_addonGroupIds p) s = Inr (category, media, video)"
      and pub: "itemPublishable (orElse (iq_status p) (ci_status cur)) category media video = Inr ()"
      and row: "\<exists>r. sel1 (item_at (ctx_tenantId ctx) iid (the (iq_version p))) (tb_items s) = Some r
        \<and> item = (itemSet p price b (orElse (iq_itemType p) (ci_itemType cur) = Weighted) r)
            \<lparr>ci_version := ci_version r + 1, ci_updatedAt := e_now e\<rparr>"
    obtain r where r: "sel1 (item_at (ctx_tenantId ctx) iid (the (iq_version p))) (tb_items s) = Some r"
      and item: "item = (itemSet p price b (orElse (iq_itemType p) (ci_itemType cur) = Weighted) r)
            \<lparr>ci_version := ci_version r + 1, ci_updatedAt := e_now e\<rparr>"
      using row by blast
    have rc: "r = cur" by (rule item_found_at [OF assms(1) cur r])
    have "orElse (iq_status p) (ci_status cur) = Active"
      using assms(2) by (simp add: item itemSet_def rc)
    then show ?thesis
      using relations_presentable [OF rel] pub by (simp add: presentable_def item itemSet_def rc)
  qed
qed

definition sample_edit :: "string \<Rightarrow> item_request" where
  "sample_edit media = (status_patch Active 1)\<lparr>iq_imageAssetId := Some (Some media)\<rparr>"

text \<open>
  C27. A completed upload whose object does not verify answers with an error and changes nothing: the
  status \<open>failed\<close> that \<open>complete\<close> wrote goes with the transaction the error ends, so the asset stays
  pending and may be completed later.
\<close>

theorem media_failure_not_recorded:
  assumes "findMedia (ctx_tenantId ctx) (Some aid) s = Some asset" and "ma_status asset \<noteq> MediaReady"
    and "hasCatalogEntitlement (ctx_tenantId ctx) s"
    and "so_verify storage (ma_storageKey asset) (ma_byteSize asset) (ma_checksumSha256 asset) = Inr False"
  shows "postComplete storage e ctx aid s = (Inl (CatalogError MediaVerification), s)
    \<and> (\<exists>m \<in> set (tb_media (snd (completeUpload storage e (ctx_tenantId ctx) aid s))). ma_id m = aid \<and> ma_status m = MediaFailed)"
proof
  let ?run = "completeUpload storage e (ctx_tenantId ctx) aid s"
  have err: "fst ?run = Inl (CatalogError MediaVerification)"
    using assms by (simp add: completeUpload_def Let_def)
  then show "postComplete storage e ctx aid s = (Inl (CatalogError MediaVerification), s)"
    using assms(3) by (cases ?run) (simp add: postComplete_def with_tenant_def transact_def requireCatalogManagement_def)
  have a: "asset \<in> set (tb_media s)" "ma_tenantId asset = ctx_tenantId ctx" "ma_id asset = aid"
    using assms(1) sel1_SomeD [of _ "tb_media s" asset] by (auto simp: findMedia_def)
  then show "\<exists>m \<in> set (tb_media (snd ?run)). ma_id m = aid \<and> ma_status m = MediaFailed"
    using assms by (intro bexI [of _ "asset\<lparr>ma_status := MediaFailed, ma_updatedAt := e_now e\<rparr>"])
      (auto simp: completeUpload_def Let_def upd_def intro!: image_eqI [of _ _ asset])
qed

text \<open>A picture that is still pending may not be shown.\<close>

definition sample_gallery :: db where
  "sample_gallery = sample_deli\<lparr>tb_media := map (\<lambda>m. m\<lparr>ma_status := MediaReady\<rparr>) (tb_media sample_deli)\<rparr>"

lemma sample_edit_runs:
  "(case updateItem (\<lambda>_. True) False sample_env sample_context ''i1'' (sample_edit ''m1'') sample_gallery of
      (Inl _, _) \<Rightarrow> False | (Inr item, _) \<Rightarrow> ci_status item = Active \<and> ci_imageAssetId item = Some ''m1'')
   \<and> fst (updateItem (\<lambda>_. True) False sample_env sample_context ''i1'' (sample_edit ''m1'') sample_deli)
      = Inl (CatalogError CatalogRuleViolation)"
  by code_simp

theorem published_item_ready_witness:
  "\<exists>item s'. updateItem (\<lambda>_. True) False sample_env sample_context ''i1'' (sample_edit ''m1'') sample_gallery = (Inr item, s')
     \<and> ci_imageAssetId item = Some ''m1'' \<and> presentable ''t1'' sample_gallery item"
proof -
  obtain item s' where run:
    "updateItem (\<lambda>_. True) False sample_env sample_context ''i1'' (sample_edit ''m1'') sample_gallery = (Inr item, s')"
    and item: "ci_status item = Active" "ci_imageAssetId item = Some ''m1''"
    using sample_edit_runs by (auto split: prod.splits sum.splits)
  have "items_ok sample_gallery" using sample_deli_ok by (simp add: sample_gallery_def items_ok_def)
  from published_item_ready [OF this item(1) disjI2 [OF run]] show ?thesis
    using run item by (intro exI conjI) (auto simp: sample_context_def)
qed

theorem media_failure_not_recorded_witness:
  "postComplete (sample_storage False) sample_env sample_context ''m1'' sample_deli
     = (Inl (CatalogError MediaVerification), sample_deli)"
proof (rule media_failure_not_recorded [THEN conjunct1])
  show "findMedia (ctx_tenantId sample_context) (Some ''m1'') sample_deli = Some (hd (tb_media sample_deli))"
    by (simp add: findMedia_def sample_deli_def sample_context_def)
qed (simp_all add: sample_deli_def sample_context_def hasCatalogEntitlement_def)

end
