(* ===== verification/RateLimit.thy ===== *)
theory RateLimit
  imports Prelude
begin

text \<open>
  The in-memory rate limiters: \<open>DiscountRateLimiter\<close> (\<open>src/features/discounts/infrastructure\<close>),
  \<open>PinAttemptRateLimiter\<close> and \<open>PublicOrderRateLimiter\<close> (\<open>src/features/orders/infrastructure\<close>) and
  \<open>SearchRateLimiter\<close> (\<open>src/features/search/infrastructure\<close>).

  \<^item> The private \<open>Map\<close> of a limiter is its state; a check may drop or trim an entry.
  \<^item> The locale \<open>limiter\<close> is what the routes rely on: from the first counted request on, every
    request of the window is counted, and a request is let through only while the count is
    below the maximum. Its lemma bounds the requests let through in a window.
\<close>

section \<open>The interface\<close>

type_synonym verdict = "bool \<times> int"

text \<open>Requests at the times \<open>ts\<close>, each counted when it was let through; how many were.\<close>

fun let_through ::
  "('s \<Rightarrow> 'k \<Rightarrow> int \<Rightarrow> verdict \<times> 's) \<Rightarrow> ('s \<Rightarrow> 'k \<Rightarrow> int \<Rightarrow> 's) \<Rightarrow> 's \<Rightarrow> 'k \<Rightarrow> int list \<Rightarrow> nat" where
  "let_through check record_hit s k [] = 0"
| "let_through check record_hit s k (t # ts) =
     (if fst (fst (check s k t))
      then Suc (let_through check record_hit (record_hit (snd (check s k t)) k t) k ts)
      else let_through check record_hit (snd (check s k t)) k ts)"

locale limiter =
  fixes check :: "'s \<Rightarrow> 'k \<Rightarrow> int \<Rightarrow> verdict \<times> 's"
    and record_hit :: "'s \<Rightarrow> 'k \<Rightarrow> int \<Rightarrow> 's"
    and counted :: "'s \<Rightarrow> 'k \<Rightarrow> int \<Rightarrow> nat \<Rightarrow> bool"
    and max_hits :: nat
    and window :: int
  assumes count_check: "counted s k t0 n \<Longrightarrow> t0 \<le> t \<Longrightarrow> t < t0 + window \<Longrightarrow>
      (fst (fst (check s k t)) \<longrightarrow> n < max_hits) \<and> counted (snd (check s k t)) k t0 n"
    and count_record: "counted s k t0 n \<Longrightarrow> t0 \<le> t \<Longrightarrow> t < t0 + window \<Longrightarrow>
      counted (record_hit s k t) k t0 (Suc n)"
begin

lemma let_through_le:
  assumes "counted s k t0 n" "\<And>t. t \<in> set ts \<Longrightarrow> t0 \<le> t \<and> t < t0 + window" "n \<le> max_hits"
  shows "n + let_through check record_hit s k ts \<le> max_hits"
  using assms
proof (induction ts arbitrary: s n)
  case Nil
  then show ?case by simp
next
  case (Cons t ts)
  have t: "t0 \<le> t" "t < t0 + window" using Cons.prems(2) by auto
  note c = count_check [OF Cons.prems(1) t]
  show ?case
  proof (cases "fst (fst (check s k t))")
    case True
    then have "Suc n + let_through check record_hit (record_hit (snd (check s k t)) k t) k ts \<le> max_hits"
      using Cons.prems(2) c t by (intro Cons.IH count_record) auto
    then show ?thesis using c True by simp
  next
    case False
    then have "n + let_through check record_hit (snd (check s k t)) k ts \<le> max_hits"
      using Cons.prems c by (intro Cons.IH) auto
    then show ?thesis using c False by simp
  qed
qed

end

section \<open>Counters with a fixed window\<close>

record AttemptRecord =
  failures :: nat
  windowStart :: int

type_synonym attempts = "string \<Rightarrow> AttemptRecord option"

text \<open>\<open>Math.max(1, Math.ceil(remainingMs / 1000))\<close>.\<close>

definition retryAfter :: "int \<Rightarrow> int" where
  "retryAfter remainingMs = max 1 (- ((- remainingMs) div 1000))"

definition checkAttempts :: "nat \<Rightarrow> int \<Rightarrow> attempts \<Rightarrow> string \<Rightarrow> int \<Rightarrow> verdict \<times> attempts" where
  "checkAttempts maxFailures windowMs s key now =
     (case s key of
        None \<Rightarrow> ((True, 0), s)
      | Some r \<Rightarrow>
          if windowMs < now - windowStart r then ((True, 0), s(key := None))
          else if maxFailures \<le> failures r
            then ((False, retryAfter (windowMs - (now - windowStart r))), s)
          else ((True, 0), s))"

definition recordFailure :: "int \<Rightarrow> attempts \<Rightarrow> string \<Rightarrow> int \<Rightarrow> attempts" where
  "recordFailure windowMs s key now =
     (case s key of
        None \<Rightarrow> s(key \<mapsto> \<lparr>failures = 1, windowStart = now\<rparr>)
      | Some r \<Rightarrow>
          if windowMs < now - windowStart r then s(key \<mapsto> \<lparr>failures = 1, windowStart = now\<rparr>)
          else s(key \<mapsto> r\<lparr>failures := failures r + 1\<rparr>))"

definition recordSuccess :: "attempts \<Rightarrow> string \<Rightarrow> attempts" where
  "recordSuccess s key = s(key := None)"

definition discountCheckRateLimit :: "attempts \<Rightarrow> string \<Rightarrow> int \<Rightarrow> verdict \<times> attempts" where
  "discountCheckRateLimit = checkAttempts 5 60000"

definition discountRecordFailure :: "attempts \<Rightarrow> string \<Rightarrow> int \<Rightarrow> attempts" where
  "discountRecordFailure = recordFailure 60000"

definition pinCheckRateLimit :: "attempts \<Rightarrow> string \<Rightarrow> int \<Rightarrow> verdict \<times> attempts" where
  "pinCheckRateLimit = checkAttempts 8 (10 * 60000)"

definition pinRecordFailure :: "attempts \<Rightarrow> string \<Rightarrow> int \<Rightarrow> attempts" where
  "pinRecordFailure = recordFailure (10 * 60000)"

text \<open>\<open>PublicOrderRateLimiter\<close> never drops an entry in its check.\<close>

definition publicCheckRateLimit :: "attempts \<Rightarrow> string \<Rightarrow> int \<Rightarrow> verdict \<times> attempts" where
  "publicCheckRateLimit s key now =
     (case s key of
        None \<Rightarrow> ((True, 0), s)
      | Some r \<Rightarrow>
          if 60 * 60000 < now - windowStart r then ((True, 0), s)
          else if 20 \<le> failures r
            then ((False, retryAfter (60 * 60000 - (now - windowStart r))), s)
          else ((True, 0), s))"

definition publicRecord :: "attempts \<Rightarrow> string \<Rightarrow> int \<Rightarrow> attempts" where
  "publicRecord = recordFailure (60 * 60000)"

definition window_counted :: "attempts \<Rightarrow> string \<Rightarrow> int \<Rightarrow> nat \<Rightarrow> bool" where
  "window_counted s k t0 n \<longleftrightarrow> s k = Some \<lparr>failures = n, windowStart = t0\<rparr>"

lemma first_failure: "s k = None \<Longrightarrow> window_counted (recordFailure w s k t0) k t0 1"
  by (simp add: window_counted_def recordFailure_def)

interpretation discount_limit: limiter discountCheckRateLimit discountRecordFailure window_counted 5 60000
  by unfold_locales
    (auto simp: discountCheckRateLimit_def checkAttempts_def discountRecordFailure_def recordFailure_def window_counted_def)

interpretation pin_limit: limiter pinCheckRateLimit pinRecordFailure window_counted 8 "10 * 60000"
  by unfold_locales
    (auto simp: pinCheckRateLimit_def checkAttempts_def pinRecordFailure_def recordFailure_def window_counted_def)

interpretation public_limit: limiter publicCheckRateLimit publicRecord window_counted 20 "60 * 60000"
  by unfold_locales
    (auto simp: publicCheckRateLimit_def publicRecord_def recordFailure_def window_counted_def)

section \<open>The sliding window of the search\<close>

type_synonym clients = "string \<Rightarrow> int list option"

definition searchCheckRateLimit ::
  "nat \<Rightarrow> int \<Rightarrow> clients \<Rightarrow> string \<Rightarrow> int \<Rightarrow> verdict \<times> clients" where
  "searchCheckRateLimit maxRequests windowMs s key now =
     (case s key of
        None \<Rightarrow> ((True, 0), s)
      | Some timestamps \<Rightarrow>
          let validTimestamps = filter (\<lambda>ts. now - ts < windowMs) timestamps;
              s' = s(key \<mapsto> validTimestamps)
          in if maxRequests \<le> length validTimestamps
             then ((False, retryAfter (windowMs - (now - hd validTimestamps))), s')
             else ((True, 0), s'))"

definition searchRecordRequest :: "int \<Rightarrow> clients \<Rightarrow> string \<Rightarrow> int \<Rightarrow> clients" where
  "searchRecordRequest windowMs s key now =
     (case s key of
        None \<Rightarrow> s(key \<mapsto> [now])
      | Some timestamps \<Rightarrow> s(key \<mapsto> filter (\<lambda>ts. now - ts < windowMs) timestamps @ [now]))"

definition search_counted :: "clients \<Rightarrow> string \<Rightarrow> int \<Rightarrow> nat \<Rightarrow> bool" where
  "search_counted s k t0 n \<longleftrightarrow>
     n \<le> length (filter (\<lambda>x. t0 \<le> x) (case s k of None \<Rightarrow> [] | Some ts \<Rightarrow> ts))"

lemma filter_window:
  assumes "t0 \<le> t" "t < t0 + (w::int)"
  shows "filter (\<lambda>x. t0 \<le> x) (filter (\<lambda>ts. t - ts < w) xs) = filter (\<lambda>x. t0 \<le> x) xs"
  using assms by (induction xs) auto

interpretation search_limit: limiter "searchCheckRateLimit 30 60000" "searchRecordRequest 60000" search_counted 30 60000
proof unfold_locales
  fix s :: clients and k t0 n t
  assume c: "search_counted s k t0 n" and t: "t0 \<le> t" "t < t0 + 60000"
  note fw = filter_window [OF t]
  show "(fst (fst (searchCheckRateLimit 30 60000 s k t)) \<longrightarrow> n < 30)
    \<and> search_counted (snd (searchCheckRateLimit 30 60000 s k t)) k t0 n"
  proof (cases "s k")
    case None
    then show ?thesis using c by (simp add: searchCheckRateLimit_def search_counted_def)
  next
    case (Some xs)
    have "length (filter (\<lambda>x. t0 \<le> x) xs) \<le> length (filter (\<lambda>ts. t - ts < 60000) xs)"
      using length_filter_le [of "\<lambda>x. t0 \<le> x" "filter (\<lambda>ts. t - ts < 60000) xs"] fw [of xs] by simp
    then show ?thesis
      using c Some fw [of xs] by (auto simp: searchCheckRateLimit_def search_counted_def Let_def)
  qed
  show "search_counted (searchRecordRequest 60000 s k t) k t0 (Suc n)"
    using c t fw by (auto simp: searchRecordRequest_def search_counted_def split: option.splits)
qed

text \<open>From a window that opened within the span, and from one that opened before it.\<close>

lemma fresh_window_le:
  assumes "\<forall>t \<in> set ts. T \<le> t \<and> t \<le> T + 10 * 60000"
    and "case s key of None \<Rightarrow> f = 0 | Some r \<Rightarrow> T \<le> windowStart r \<and> f = failures r"
  shows "let_through pinCheckRateLimit pinRecordFailure s key ts \<le> 8 - f"
  using assms
proof (induction ts arbitrary: s f)
  case (Cons t ts)
  show ?case
  proof (cases "fst (fst (pinCheckRateLimit s key t))")
    case True
    let ?s = "pinRecordFailure (snd (pinCheckRateLimit s key t)) key t"
    have "case ?s key of None \<Rightarrow> Suc f = 0 | Some r \<Rightarrow> T \<le> windowStart r \<and> Suc f = failures r" "f < 8"
      using True Cons.prems
      by (auto simp: pinCheckRateLimit_def checkAttempts_def pinRecordFailure_def recordFailure_def split: option.splits if_splits)
    then show ?thesis using Cons.IH [of "Suc f" ?s] Cons.prems(1) True by simp
  next
    case False
    have "snd (pinCheckRateLimit s key t) = s"
      using False by (auto simp: pinCheckRateLimit_def checkAttempts_def split: option.splits if_splits)
    then show ?thesis using Cons.IH [of f s] Cons.prems False by simp
  qed
qed simp

lemma old_window_le:
  assumes "\<forall>t \<in> set ts. T \<le> t \<and> t \<le> T + 10 * 60000" and "s key = Some r"
  shows "let_through pinCheckRateLimit pinRecordFailure s key ts \<le> (8 - failures r) + 8"
  using assms
proof (induction ts arbitrary: s r)
  case (Cons t ts)
  let ?check = "pinCheckRateLimit s key t"
  let ?s = "pinRecordFailure (snd ?check) key t"
  consider (expired) "10 * 60000 < t - windowStart r" | (blocked) "\<not> 10 * 60000 < t - windowStart r" "8 \<le> failures r"
    | (counted) "\<not> 10 * 60000 < t - windowStart r" "failures r < 8" by linarith
  then show ?case
  proof cases
    case expired
    then have "fst (fst ?check)" "?s key = Some \<lparr>failures = 1, windowStart = t\<rparr>"
      using Cons.prems(2) by (simp_all add: pinCheckRateLimit_def checkAttempts_def pinRecordFailure_def recordFailure_def)
    then show ?thesis using fresh_window_le [of ts T 1 ?s key] Cons.prems(1) by simp
  next
    case blocked
    then have "\<not> fst (fst ?check)" "snd ?check = s"
      using Cons.prems(2) by (simp_all add: pinCheckRateLimit_def checkAttempts_def)
    then show ?thesis using Cons.IH [of s r] Cons.prems by simp
  next
    case counted
    then have "fst (fst ?check)" "?s key = Some (r\<lparr>failures := failures r + 1\<rparr>)"
      using Cons.prems(2) by (simp_all add: pinCheckRateLimit_def checkAttempts_def pinRecordFailure_def recordFailure_def)
    then show ?thesis using Cons.IH [of ?s "r\<lparr>failures := failures r + 1\<rparr>"] Cons.prems(1) counted by simp
  qed
qed simp



text \<open>
  The search limiter is a true sliding window: from any state, any sixty seconds see at
  most thirty requests of one client let through.
\<close>

theorem search_sliding_window:
  assumes "\<forall>t \<in> set ts. t0 \<le> t \<and> t < t0 + 60000"
  shows "let_through (searchCheckRateLimit 30 60000) (searchRecordRequest 60000) s key ts \<le> 30"
  using search_limit.let_through_le [of s key t0 0 ts] assms by (simp add: search_counted_def)

text \<open>
  The limiter of the public order endpoints is not the sliding window its comment
  promises: thirty-nine requests within two milliseconds are let through although the limit is
  twenty an hour, when the first of them fall at the end of a window.
\<close>

theorem public_limit_not_sliding:
  "let_through publicCheckRateLimit publicRecord (publicRecord (\<lambda>_. None) ''ip'' 0) ''ip''
     (replicate 19 3600000 @ replicate 20 3600001) = 39"
  by code_simp

text \<open>A client that waits longer than the advised time is let through again.\<close>

lemma retryAfter_enough: "remaining \<le> 1000 * retryAfter remaining"
proof -
  have "(- remaining) div 1000 * 1000 \<le> - remaining"
    using div_mult_mod_eq [of "- remaining" 1000] pos_mod_sign [of 1000 "- remaining"] by linarith
  then show ?thesis unfolding retryAfter_def by linarith
qed

text \<open>
  The waiting time a blocked customer is told is enough: once more than that has passed
  without another failure the check lets the next attempt through.
\<close>

theorem retry_after_sufficient:
  assumes "checkAttempts maxF w s key t = ((False, r), s')" and "t + 1000 * r < t'"
  shows "fst (fst (checkAttempts maxF w s' key t'))"
  using assms retryAfter_enough [of "w - (t - windowStart (the (s key)))"]
  by (auto simp: checkAttempts_def split: option.splits if_splits)

theorem retry_after_sufficient_witness:
  "fst (fst (checkAttempts 5 60000 [''k'' \<mapsto> \<lparr>failures = 5, windowStart = 0\<rparr>] ''k'' 60501))"
proof -
  have "checkAttempts 5 60000 [''k'' \<mapsto> \<lparr>failures = 5, windowStart = 0\<rparr>] ''k'' 58500
      = ((False, 2), [''k'' \<mapsto> \<lparr>failures = 5, windowStart = 0\<rparr>])"
    by (simp add: checkAttempts_def retryAfter_def)
  from retry_after_sufficient [OF this, of 60501] show ?thesis
    by (simp add: checkAttempts_def)
qed

end
