(* ===== verification/Idempotency.thy ===== *)
theory Idempotency
  imports Db
begin

text \<open>
  \<open>src/lib/idempotency/idempotency.service.ts\<close>: the record a client's idempotency key claims,
  completes and replays.

  \<^item> \<open>claim\<close> inserts the record, or finds it and replays, refuses or reclaims; \<open>completeClaim\<close> stores
    the response; \<open>failClaim\<close> releases the claim. \<open>idempotent\<close> is the pattern every service uses:
    claim, answer a replay from the record, otherwise do the work and complete. The
    maintenance that deletes expired records is not part of the model: a record stays.
  \<^item> The locale \<open>idempotent_store\<close> is what the services rely on: after a completed claim the
    same request is answered from the record and the state is left as it is. Its client lemma
    is that running a service twice is running it once.
\<close>

section \<open>The interface\<close>

datatype 'r claim_result = Replayed 'r | Claimed string

definition idempotent ::
  "('s \<Rightarrow> 'e + 'r claim_result \<times> 's) \<Rightarrow> (string \<Rightarrow> 'r \<Rightarrow> 's \<Rightarrow> 's) \<Rightarrow> ('s \<Rightarrow> 'e + 'r \<times> 's)
     \<Rightarrow> 's \<Rightarrow> 'e + 'r \<times> 's" where
  "idempotent clm finish work s =
     bnd (clm s) (\<lambda>(c, s1).
       case c of
         Replayed body \<Rightarrow> Inr (body, s1)
       | Claimed recordId \<Rightarrow> bnd (work s1) (\<lambda>(body, s2). Inr (body, finish recordId body s2)))"

locale idempotent_store =
  fixes clm :: "'k \<Rightarrow> 's \<Rightarrow> 'e + 'r claim_result \<times> 's"
    and finish :: "'k \<Rightarrow> string \<Rightarrow> 'r \<Rightarrow> 's \<Rightarrow> 's"
    and records :: "'s \<Rightarrow> 't"
    and same :: "'k \<Rightarrow> 'k \<Rightarrow> bool"
  assumes claim_replays: "clm k s = Inr (Replayed body, s1) \<Longrightarrow> s1 = s"
    and replays_again: "clm k s = Inr (Replayed body, s) \<Longrightarrow> same k k' \<Longrightarrow> clm k' s = Inr (Replayed body, s)"
    and claim_completed: "clm k s = Inr (Claimed recordId, s1) \<Longrightarrow> records s2 = records s1 \<Longrightarrow> same k k' \<Longrightarrow>
      clm k' (finish k recordId body s2) = Inr (Replayed body, finish k recordId body s2)"
begin

lemma run_twice:
  assumes run: "idempotent (clm k) (finish k) work s = Inr (body, s')"
    and frame: "\<And>s1 body s2. work s1 = Inr (body, s2) \<Longrightarrow> records s2 = records s1"
    and same: "same k k'"
  shows "idempotent (clm k') (finish k') work' s' = Inr (body, s')"
proof -
  obtain c s1 where c: "clm k s = Inr (c, s1)"
    using run by (auto simp: idempotent_def)
  have "clm k' s' = Inr (Replayed body, s')"
  proof (cases c)
    case (Replayed b)
    then show ?thesis
      using run c claim_replays [of k s b s1] replays_again [OF _ same, of s b] by (simp add: idempotent_def)
  next
    case (Claimed recordId)
    then obtain s2 where w: "work s1 = Inr (body, s2)" and s': "s' = finish k recordId body s2"
      using run c by (auto simp: idempotent_def)
    show ?thesis
      unfolding s' using c Claimed frame [OF w] same by (auto intro: claim_completed)
  qed
  then show ?thesis by (simp add: idempotent_def)
qed

text \<open>What a run returns is what the work returned, or what the record holds.\<close>

lemma run_cases:
  assumes "idempotent (clm k) (finish k) work s = Inr (body, s')"
  shows "clm k s = Inr (Replayed body, s) \<and> s' = s
    \<or> (\<exists>recordId s1 s2. clm k s = Inr (Claimed recordId, s1) \<and> work s1 = Inr (body, s2)
         \<and> s' = finish k recordId body s2)"
proof -
  obtain c s1 where c: "clm k s = Inr (c, s1)"
    using assms by (auto simp: idempotent_def)
  show ?thesis
  proof (cases c)
    case (Replayed b)
    then show ?thesis
      using assms c claim_replays [of k s b s1] by (simp add: idempotent_def)
  next
    case (Claimed recordId)
    then show ?thesis
      using assms c by (auto simp: idempotent_def)
  qed
qed

end

section \<open>The service\<close>

record claim_input =
  k_tenantId :: "string option"
  k_scope :: string
  k_key :: string
  k_request :: json
  k_lockSeconds :: "int option"
  k_retentionSeconds :: "int option"

type_synonym stored_response = "int \<times> json"

definition recordIdentity :: "string option \<Rightarrow> string \<Rightarrow> string \<Rightarrow> idempotency_row \<Rightarrow> bool" where
  "recordIdentity tenantId scope key r \<longleftrightarrow>
     ir_tenantId r = tenantId \<and> ir_scope r = scope \<and> ir_idempotencyKey r = key"

definition requestHash :: "env \<Rightarrow> json \<Rightarrow> string" where
  "requestHash e value = hashIdempotencyRequest (e_collate e) (e_hash e) value"

definition claimRow :: "env \<Rightarrow> claim_input \<Rightarrow> db \<Rightarrow> idempotency_row" where
  "claimRow e inp s =
     \<lparr>ir_id = fresh_id e s, ir_tenantId = k_tenantId inp, ir_scope = k_scope inp,
      ir_idempotencyKey = js_trim (k_key inp), ir_requestHash = requestHash e (k_request inp),
      ir_state = Processing, ir_responseStatus = None, ir_responseBody = None,
      ir_lockedUntil = e_now e + orElse (k_lockSeconds inp) 30 * 1000,
      ir_expiresAt = e_now e + orElse (k_retentionSeconds inp) 86400 * 1000,
      ir_updatedAt = e_now e\<rparr>"

definition claimExisting ::
  "env \<Rightarrow> claim_input \<Rightarrow> idempotency_row \<Rightarrow> db \<Rightarrow> app_error + stored_response claim_result \<times> db" where
  "claimExisting e inp record s =
     (let now = e_now e;
          lockUntil = now + orElse (k_lockSeconds inp) 30 * 1000;
          hash = requestHash e (k_request inp)
      in if ir_requestHash record \<noteq> hash then Inl IdempotencyConflict
         else if ir_state record = Completed
           then Inr (Replayed (orElse (ir_responseStatus record) 200, orElse (ir_responseBody record) JNull), s)
         else if now < ir_lockedUntil record then Inl IdempotencyInProgress
         else if \<not> list_ex (\<lambda>r. ir_id r = ir_id record \<and> ir_lockedUntil r < now) (tb_idempotency s)
           then Inl IdempotencyInProgress
         else Inr (Claimed (ir_id record),
           s\<lparr>tb_idempotency := upd (\<lambda>r. ir_id r = ir_id record \<and> ir_lockedUntil r < now)
               (\<lambda>r. r\<lparr>ir_state := Processing, ir_lockedUntil := lockUntil, ir_updatedAt := now\<rparr>)
               (tb_idempotency s)\<rparr>))"

definition claim :: "env \<Rightarrow> claim_input \<Rightarrow> db \<Rightarrow> app_error + stored_response claim_result \<times> db" where
  "claim e inp s =
     (let key = js_trim (k_key inp) in
      if key = [] \<or> 255 < length key then Inl IdempotencyConflict
      else
        (case insert_row (\<lambda>_. True) idempotency_clash (claimRow e inp s) (tb_idempotency s) of
           Inr t \<Rightarrow> Inr (Claimed (ir_id (claimRow e inp s)),
                      s\<lparr>tb_idempotency := t, uuid_next := Suc (uuid_next s)\<rparr>)
         | Inl _ \<Rightarrow>
             (case sel1 (recordIdentity (k_tenantId inp) (k_scope inp) key) (tb_idempotency s) of
                None \<Rightarrow> Inl IdempotencyLost
              | Some record \<Rightarrow> claimExisting e inp record s)))"

definition completeClaim :: "env \<Rightarrow> string \<Rightarrow> stored_response \<Rightarrow> db \<Rightarrow> db" where
  "completeClaim e recordId response s =
     s\<lparr>tb_idempotency := upd (\<lambda>r. ir_id r = recordId)
        (\<lambda>r. r\<lparr>ir_state := Completed, ir_responseStatus := Some (fst response),
              ir_responseBody := Some (snd response), ir_updatedAt := e_now e\<rparr>) (tb_idempotency s)\<rparr>"

definition failClaim :: "env \<Rightarrow> string \<Rightarrow> db \<Rightarrow> db" where
  "failClaim e recordId s =
     s\<lparr>tb_idempotency := upd (\<lambda>r. ir_id r = recordId)
        (\<lambda>r. r\<lparr>ir_state := Failed, ir_lockedUntil := 0, ir_updatedAt := e_now e\<rparr>) (tb_idempotency s)\<rparr>"

section \<open>The service keeps the contract\<close>

text \<open>Keys are unique in the table; the claims keep it so.\<close>

definition idem_ok :: "db \<Rightarrow> bool" where
  "idem_ok s \<longleftrightarrow> distinct (map ir_id (tb_idempotency s))
     \<and> distinct (map (\<lambda>r. (ir_tenantId r, ir_scope r, ir_idempotencyKey r)) (tb_idempotency s))"

lemma claimRow_simps [simp]:
  "ir_id (claimRow e inp s) = fresh_id e s" "ir_tenantId (claimRow e inp s) = k_tenantId inp"
  "ir_scope (claimRow e inp s) = k_scope inp" "ir_idempotencyKey (claimRow e inp s) = js_trim (k_key inp)"
  "ir_requestHash (claimRow e inp s) = requestHash e (k_request inp)"
  by (simp_all add: claimRow_def)

lemma claim_replays_state: "claim e inp s = Inr (Replayed b, s1) \<Longrightarrow> s1 = s"
  by (auto simp: claim_def claimExisting_def Let_def split: sum.splits option.splits if_splits)

text \<open>
  A claim leaves one row under its identity, with the request's hash; it is the row it returned,
  and the first with that identity.
\<close>

lemma claim_row:
  assumes "claim e inp s = Inr (Claimed rid, s1)"
  shows "\<exists>r. sel1 (recordIdentity (k_tenantId inp) (k_scope inp) (js_trim (k_key inp))) (tb_idempotency s1) = Some r
    \<and> ir_id r = rid \<and> ir_requestHash r = requestHash e (k_request inp)
    \<and> js_trim (k_key inp) \<noteq> [] \<and> length (js_trim (k_key inp)) \<le> 255"
proof (cases "insert_row (\<lambda>_. True) idempotency_clash (claimRow e inp s) (tb_idempotency s)")
  case (Inr t)
  then have "sel1 (recordIdentity (k_tenantId inp) (k_scope inp) (js_trim (k_key inp))) (tb_idempotency s) = None"
    by (auto simp: insert_row_Inr sel1_None recordIdentity_def idempotency_clash_def)
  moreover have "rid = ir_id (claimRow e inp s)" "tb_idempotency s1 = t"
    "js_trim (k_key inp) \<noteq> []" "length (js_trim (k_key inp)) \<le> 255"
    using assms Inr by (auto simp: claim_def Let_def split: if_splits)
  moreover have "t = tb_idempotency s @ [claimRow e inp s]"
    using Inr by (simp add: insert_row_Inr)
  ultimately show ?thesis
    by (simp add: recordIdentity_def)
next
  case (Inl err)
  let ?id = "recordIdentity (k_tenantId inp) (k_scope inp) (js_trim (k_key inp))"
  obtain row where rec: "sel1 ?id (tb_idempotency s) = Some row"
    and cl: "claimExisting e inp row s = Inr (Claimed rid, s1)"
    and k: "js_trim (k_key inp) \<noteq> []" "length (js_trim (k_key inp)) \<le> 255"
    using assms Inl by (auto simp: claim_def Let_def split: if_splits option.splits)
  let ?P = "\<lambda>r. ir_id r = ir_id row \<and> ir_lockedUntil r < e_now e"
  let ?f = "\<lambda>r. r\<lparr>ir_state := Processing, ir_lockedUntil := e_now e + orElse (k_lockSeconds inp) 30 * 1000,
    ir_updatedAt := e_now e\<rparr>"
  have s1: "tb_idempotency s1 = upd ?P ?f (tb_idempotency s)" "rid = ir_id row"
    "ir_requestHash row = requestHash e (k_request inp)"
    using cl by (auto simp: claimExisting_def Let_def split: if_splits)
  have "sel1 ?id (upd ?P ?f (tb_idempotency s)) = map_option (\<lambda>r. if ?P r then ?f r else r) (sel1 ?id (tb_idempotency s))"
    by (rule sel1_upd) (simp add: recordIdentity_def)
  then show ?thesis using rec s1 k by auto
qed

lemma completeClaim_row:
  "sel1 (recordIdentity t sc key) (tb_idempotency (completeClaim e rid resp s)) =
     map_option (\<lambda>r. if ir_id r = rid then r\<lparr>ir_state := Completed, ir_responseStatus := Some (fst resp),
       ir_responseBody := Some (snd resp), ir_updatedAt := e_now e\<rparr> else r)
     (sel1 (recordIdentity t sc key) (tb_idempotency s))"
  unfolding completeClaim_def by (simp, rule sel1_upd) (simp add: recordIdentity_def)

definition same_request :: "env \<times> claim_input \<Rightarrow> env \<times> claim_input \<Rightarrow> bool" where
  "same_request k k' \<longleftrightarrow> k_tenantId (snd k) = k_tenantId (snd k') \<and> k_scope (snd k) = k_scope (snd k')
     \<and> js_trim (k_key (snd k)) = js_trim (k_key (snd k'))
     \<and> requestHash (fst k) (k_request (snd k)) = requestHash (fst k') (k_request (snd k'))"

lemma claim_found:
  assumes "sel1 (recordIdentity (k_tenantId inp) (k_scope inp) (js_trim (k_key inp))) (tb_idempotency s) = Some r"
    and "js_trim (k_key inp) \<noteq> []" "length (js_trim (k_key inp)) \<le> 255"
  shows "claim e inp s = claimExisting e inp r s"
proof -
  have "list_ex (idempotency_clash (claimRow e inp s)) (tb_idempotency s)"
    using sel1_SomeD [OF assms(1)] unfolding list_ex_iff idempotency_clash_def recordIdentity_def
    by (intro bexI [of _ r]) simp_all
  then show ?thesis using assms by (simp add: claim_def insert_row_def)
qed

interpretation idem: idempotent_store
  "\<lambda>k. claim (fst k) (snd k)" "\<lambda>k. completeClaim (fst k)" tb_idempotency same_request
proof
  show "claim (fst k) (snd k) s = Inr (Replayed body, s1) \<Longrightarrow> s1 = s" for k s body s1
    by (rule claim_replays_state)
next
  fix k k' s and body :: stored_response
  assume c: "claim (fst k) (snd k) s = Inr (Replayed body, s)" and same: "same_request k k'"
  let ?i = "snd k"
  have key: "js_trim (k_key ?i) \<noteq> []" "length (js_trim (k_key ?i)) \<le> 255"
    using c by (auto simp: claim_def Let_def split: if_splits)
  obtain r where r: "sel1 (recordIdentity (k_tenantId ?i) (k_scope ?i) (js_trim (k_key ?i))) (tb_idempotency s) = Some r"
    and ex: "claimExisting (fst k) ?i r s = Inr (Replayed body, s)"
    using c by (auto simp: claim_def Let_def split: if_splits option.splits sum.splits)
  have "claim (fst k') (snd k') s = claimExisting (fst k') (snd k') r s"
    using r key same by (intro claim_found) (auto simp: same_request_def)
  then show "claim (fst k') (snd k') s = Inr (Replayed body, s)"
    using ex same by (auto simp: claimExisting_def same_request_def Let_def split: if_splits)
next
  fix k k' s rid s1 and s2 :: db and body :: stored_response
  assume c: "claim (fst k) (snd k) s = Inr (Claimed rid, s1)" and fr: "tb_idempotency s2 = tb_idempotency s1"
    and same: "same_request k k'"
  let ?i = "snd k" and ?s = "completeClaim (fst k) rid body s2"
  obtain r where r: "sel1 (recordIdentity (k_tenantId ?i) (k_scope ?i) (js_trim (k_key ?i))) (tb_idempotency s1) = Some r"
    "ir_id r = rid" "ir_requestHash r = requestHash (fst k) (k_request ?i)"
    and key: "js_trim (k_key ?i) \<noteq> []" "length (js_trim (k_key ?i)) \<le> 255"
    using claim_row [OF c] by blast
  let ?r = "r\<lparr>ir_state := Completed, ir_responseStatus := Some (fst body), ir_responseBody := Some (snd body),
    ir_updatedAt := e_now (fst k)\<rparr>"
  have "claim (fst k') (snd k') ?s = claimExisting (fst k') (snd k') ?r ?s"
    using r key same fr by (intro claim_found) (auto simp: same_request_def completeClaim_row)
  then show "claim (fst k') (snd k') ?s = Inr (Replayed body, ?s)"
    using r same by (simp add: claimExisting_def same_request_def orElse_def)
qed

text \<open>The claims of a tenant touch no record of another, and nothing but the records.\<close>

lemma claim_state:
  "claim e inp s = Inr (c, s1) \<Longrightarrow>
     s1 = s\<lparr>tb_idempotency := tb_idempotency s1, uuid_next := uuid_next s1\<rparr>"
  by (auto simp: claim_def claimExisting_def Let_def split: sum.splits option.splits if_splits)

text \<open>
  C32. A request is served once. Whatever the work is, as long as it leaves the idempotency
  records alone: when a request that carried a key has returned a response, the same request
  (same tenant, scope and trimmed key, a body with the same hash) sent again at any later time,
  by any process, returns that response and leaves the whole state as it is.
\<close>

theorem served_once:
  assumes "idempotent (claim e inp) (completeClaim e) work s = Inr (response, s')"
    and "\<And>s1 r s2. work s1 = Inr (r, s2) \<Longrightarrow> tb_idempotency s2 = tb_idempotency s1"
    and "same_request (e, inp) (e', inp')"
  shows "idempotent (claim e' inp') (completeClaim e') work' s' = Inr (response, s')"
  using idem.run_twice [of "(e, inp)" work s response s' "(e', inp')" work'] assms by simp

definition sample_claim :: claim_input where
  "sample_claim = \<lparr>k_tenantId = Some ''t1'', k_scope = ''orders'', k_key = '' k1 '', k_request = JNull,
     k_lockSeconds = None, k_retentionSeconds = None\<rparr>"

theorem served_once_witness:
  "\<exists>s'. idempotent (claim sample_env sample_claim) (completeClaim sample_env)
       (\<lambda>s. Inr ((201, JStr ''done''), s)) empty_db = Inr ((201, JStr ''done''), s')
     \<and> idempotent (claim sample_env (sample_claim\<lparr>k_key := ''k1''\<rparr>)) (completeClaim sample_env)
       (\<lambda>s. Inl OrderNotFound) s' = Inr ((201, JStr ''done''), s')"
proof -
  have "claim sample_env sample_claim empty_db =
      Inr (Claimed (fresh_id sample_env empty_db), empty_db\<lparr>tb_idempotency := [claimRow sample_env sample_claim empty_db], uuid_next := 1\<rparr>)"
    by code_simp
  then have run: "idempotent (claim sample_env sample_claim) (completeClaim sample_env)
      (\<lambda>s. Inr ((201, JStr ''done''), s)) empty_db = Inr ((201, JStr ''done''),
        completeClaim sample_env (fresh_id sample_env empty_db) (201, JStr ''done'')
          (empty_db\<lparr>tb_idempotency := [claimRow sample_env sample_claim empty_db], uuid_next := 1\<rparr>))"
    by (simp add: idempotent_def)
  moreover have "same_request (sample_env, sample_claim) (sample_env, sample_claim\<lparr>k_key := ''k1''\<rparr>)"
    by code_simp
  ultimately show ?thesis
    using served_once [OF run] by blast
qed

end
