(* ===== verification/Carts.thy ===== *)
theory Carts
  imports Discounts Tenancy Idempotency RateLimit
begin

text \<open>
  The cart of the storefront: \<open>src/features/cart/infrastructure/cart.repository.ts\<close> and
  \<open>src/features/cart/application/cart.service.ts\<close>.

  \<^item> \<open>CartSelectionCatalog\<close> extends the \<open>RevalidationCatalog\<close> of the rules, as in the source.
  \<^item> Rows of one transaction share its timestamp; the database returns them in insertion order.
  \<^item> \<open>money_text\<close> is \<open>centsToMoney\<close> on a number that may be \<open>NaN\<close>: its text \<open>NaN.NaN\<close> is no
    numeric, so the insert fails. Ids in requests are in the canonical lower case.
  \<^item> The limiter on coupon guesses lives in the memory of the process: it is a state of its own,
    which a rolled back transaction leaves as it is.
  \<^item> The lemmas: what is priced and stored agrees (\<open>carts_ok\<close>: subtotal, discount, total and
    lines), every operation of the service keeps it, a repeated request creates one cart, and a
    customer has five guesses at a coupon a minute.
\<close>

section \<open>Reading the catalogue\<close>

record CartSelectionCatalog = RevalidationCatalog +
  csc_kind :: SelectionKind
  csc_id :: string
  csc_name :: string
  csc_imageUrl :: "string option"
  csc_categoryId :: "string option"

definition media_of :: "string \<Rightarrow> string option \<Rightarrow> db \<Rightarrow> media_row option" where
  "media_of tid assetId s =
     (case assetId of None \<Rightarrow> None
      | Some a \<Rightarrow> sel1 (\<lambda>m. ma_tenantId m = tid \<and> ma_id m = a) (tb_media s))"

definition ready_url :: "media_row option \<Rightarrow> string option" where
  "ready_url m = (case m of None \<Rightarrow> None
     | Some m \<Rightarrow> if ma_status m = MediaReady then ma_publicUrl m else None)"

definition is_ready :: "media_row option \<Rightarrow> bool" where
  "is_ready m = (case m of None \<Rightarrow> False | Some m \<Rightarrow> ma_status m = MediaReady)"

definition combo_components :: "string \<Rightarrow> string \<Rightarrow> db \<Rightarrow> catalog_item_row list" where
  "combo_components tid cid s =
     List.map_filter (\<lambda>r. sel1 (\<lambda>i. ci_tenantId i = tid \<and> ci_id i = cbi_itemId r) (tb_items s))
       (sort_by (\<lambda>a b. cbi_sortOrder a \<le> cbi_sortOrder b)
         (filter (\<lambda>r. cbi_tenantId r = tid \<and> cbi_comboId r = cid) (tb_comboItems s)))"

definition loadComboSelection :: "string \<Rightarrow> string \<Rightarrow> db \<Rightarrow> CartSelectionCatalog option" where
  "loadComboSelection tid cid s =
     (case sel1 (\<lambda>r. cb_tenantId r = tid \<and> cb_id r = cid) (tb_combos s) of
        None \<Rightarrow> None
      | Some resource \<Rightarrow>
          (let components = combo_components tid cid s;
               image = (\<lambda>i. media_of tid (ci_imageAssetId i) s);
               fallbackComponentImage =
                 (case find (\<lambda>i. nonempty (ready_url (image i))) components of
                    None \<Rightarrow> None | Some i \<Rightarrow> ready_url (image i));
               media = media_of tid (cb_imageAssetId resource) s
           in Some \<lparr>cat_status = (if 0 < length components \<and> list_all (\<lambda>i. ci_status i = Active) components
                                 then cb_status resource else Unavailable),
                cat_itemType = Some Unit, cat_price = centsToMoney (cb_price resource),
                cat_currency = cb_currency resource, addonGroups = [],
                csc_kind = Combo, csc_id = cb_id resource, csc_name = cb_name resource,
                csc_imageUrl = (if is_ready media then ready_url media else fallbackComponentImage),
                csc_categoryId = Some (cb_categoryId resource)\<rparr>))"

definition item_addon_groups :: "string \<Rightarrow> string \<Rightarrow> db \<Rightarrow> addon_group list" where
  "item_addon_groups tid iid s =
     (let groupIds = map iag_addonGroupId (filter (\<lambda>j. iag_tenantId j = tid \<and> iag_itemId j = iid) (tb_itemAddonGroups s));
          groups = filter (\<lambda>g. agr_tenantId g = tid \<and> List.member groupIds (agr_id g) \<and> agr_status g = Active) (tb_addonGroups s);
          options = filter (\<lambda>p. aor_tenantId p = tid \<and> List.member groupIds (aor_groupId p) \<and> aor_status p = Active) (tb_addonOptions s)
      in map (\<lambda>g. \<lparr>ag_id = agr_id g, minSelected = agr_minSelected g, maxSelected = agr_maxSelected g,
           ag_options = map (\<lambda>p. \<lparr>ao_id = aor_id p, ao_name = aor_name p, priceDelta = centsToMoney (aor_priceDelta p)\<rparr>)
             (filter (\<lambda>p. aor_groupId p = agr_id g) options)\<rparr>) groups)"

definition loadItemSelection :: "string \<Rightarrow> string \<Rightarrow> db \<Rightarrow> CartSelectionCatalog option" where
  "loadItemSelection tid iid s =
     (case sel1 (\<lambda>r. ci_tenantId r = tid \<and> ci_id r = iid) (tb_items s) of
        None \<Rightarrow> None
      | Some resource \<Rightarrow> Some
          \<lparr>cat_status = ci_status resource, cat_itemType = Some (ci_itemType resource),
           cat_price = centsToMoney (ci_price resource), cat_currency = ci_currency resource,
           addonGroups = item_addon_groups tid iid s,
           csc_kind = Item, csc_id = ci_id resource, csc_name = ci_name resource,
           csc_imageUrl = ready_url (media_of tid (ci_imageAssetId resource) s),
           csc_categoryId = Some (ci_categoryId resource)\<rparr>)"

definition first_some :: "'a option \<Rightarrow> 'a option \<Rightarrow> 'a option" where
  "first_some a b = (case a of None \<Rightarrow> b | Some x \<Rightarrow> Some x)"

definition loadSelection :: "string \<Rightarrow> SelectionKind \<Rightarrow> string \<Rightarrow> db \<Rightarrow> CartSelectionCatalog option" where
  "loadSelection tid kind rid s =
     (case kind of
        Combo \<Rightarrow> first_some (loadComboSelection tid rid s) (loadItemSelection tid rid s)
      | Item \<Rightarrow> first_some (loadItemSelection tid rid s) (loadComboSelection tid rid s))"

section \<open>The repository\<close>

record new_line =
  nl_kind :: SelectionKind
  nl_resourceId :: string
  nl_itemType :: ItemType
  nl_quantity :: int
  nl_name :: string
  nl_unitPrice :: string
  nl_lineTotal :: string
  nl_imageUrl :: "string option"
  nl_note :: "string option"
  nl_options :: "chosen_option list"

record new_cart =
  nc_locationId :: string
  nc_currency :: string
  nc_subtotal :: string
  nc_discountTotal :: string
  nc_total :: string
  nc_appliedDiscountCodeId :: "string option"
  nc_discountMetadata :: "discount_metadata option"
  nc_expiresAt :: int
  nc_lines :: "new_line list"

record stored_cart =
  sc_cart :: cart_row
  sc_lines :: "(cart_line_row \<times> cart_line_option_row list) list"

definition findCart :: "string \<Rightarrow> string \<Rightarrow> db \<Rightarrow> stored_cart option" where
  "findCart tid cartId s =
     (case sel1 (\<lambda>r. c_tenantId r = tid \<and> c_id r = cartId) (tb_carts s) of
        None \<Rightarrow> None
      | Some cart \<Rightarrow> Some \<lparr>sc_cart = cart,
          sc_lines = map (\<lambda>l. (l, filter (\<lambda>p. clo_tenantId p = tid \<and> clo_cartLineId p = cl_id l) (tb_cartLineOptions s)))
            (sort_by (\<lambda>a b. cl_createdAt a \<le> cl_createdAt b)
              (filter (\<lambda>l. cl_tenantId l = tid \<and> cl_cartId l = cartId) (tb_cartLines s)))\<rparr>)"

definition lineOptionRow :: "env \<Rightarrow> string \<Rightarrow> string \<Rightarrow> chosen_option \<Rightarrow> int \<Rightarrow> db \<Rightarrow> cart_line_option_row" where
  "lineOptionRow e tid lineId opt delta s =
     \<lparr>clo_id = fresh_id e s, clo_tenantId = tid, clo_cartLineId = lineId,
      clo_addonGroupId = co_groupId opt, clo_addonOptionId = co_optionId opt,
      clo_nameSnapshot = co_name opt, clo_priceDeltaSnapshot = delta, clo_quantity = 1\<rparr>"

fun insertLineOptions :: "env \<Rightarrow> string \<Rightarrow> string \<Rightarrow> chosen_option list \<Rightarrow> db \<Rightarrow> app_error + db" where
  "insertLineOptions e tid lineId [] s = Inr s"
| "insertLineOptions e tid lineId (opt # opts) s =
     bnd (lift_db (numeric_text (co_priceDelta opt))) (\<lambda>delta.
     bnd (lift_db (insert_row cart_line_option_check cart_line_option_clash
            (lineOptionRow e tid lineId opt delta s) (tb_cartLineOptions s))) (\<lambda>t.
     insertLineOptions e tid lineId opts (s\<lparr>tb_cartLineOptions := t, uuid_next := Suc (uuid_next s)\<rparr>)))"

definition cartLineRow :: "env \<Rightarrow> string \<Rightarrow> string \<Rightarrow> new_line \<Rightarrow> int \<Rightarrow> int \<Rightarrow> db \<Rightarrow> cart_line_row" where
  "cartLineRow e tid cartId line unitPrice lineTotal s =
     \<lparr>cl_id = fresh_id e s, cl_tenantId = tid, cl_cartId = cartId,
      cl_itemId = (if nl_kind line = Item then Some (nl_resourceId line) else None),
      cl_comboId = (if nl_kind line = Combo then Some (nl_resourceId line) else None),
      cl_itemType = nl_itemType line, cl_quantity = nl_quantity line, cl_nameSnapshot = nl_name line,
      cl_unitPriceSnapshot = unitPrice, cl_lineTotal = lineTotal,
      cl_imageUrlSnapshot = nl_imageUrl line, cl_note = nl_note line, cl_createdAt = e_now e\<rparr>"

fun insertLines :: "env \<Rightarrow> string \<Rightarrow> string \<Rightarrow> new_line list \<Rightarrow> db \<Rightarrow> app_error + db" where
  "insertLines e tid cartId [] s = Inr s"
| "insertLines e tid cartId (line # rest) s =
     bnd (lift_db (numeric_text (nl_unitPrice line))) (\<lambda>unitPrice.
     bnd (lift_db (numeric_text (nl_lineTotal line))) (\<lambda>lineTotal.
     let created = cartLineRow e tid cartId line unitPrice lineTotal s in
     bnd (lift_db (insert_row cart_line_check cart_line_clash created (tb_cartLines s))) (\<lambda>t.
     bnd (insertLineOptions e tid (cl_id created) (nl_options line)
            (s\<lparr>tb_cartLines := t, uuid_next := Suc (uuid_next s)\<rparr>)) (\<lambda>s'.
     insertLines e tid cartId rest s'))))"

definition cartRow :: "env \<Rightarrow> string \<Rightarrow> new_cart \<Rightarrow> int \<Rightarrow> int \<Rightarrow> int \<Rightarrow> db \<Rightarrow> cart_row" where
  "cartRow e tid inp subtotal discountTotal totalCents s =
     \<lparr>c_id = fresh_id e s, c_tenantId = tid, c_locationId = nc_locationId inp, c_status = CartValidated,
      c_currency = nc_currency inp, c_subtotal = subtotal, c_discountTotal = discountTotal, c_total = totalCents,
      c_appliedDiscountCodeId = nc_appliedDiscountCodeId inp, c_discountMetadata = nc_discountMetadata inp,
      c_catalogRevision = 1, c_verifiedAt = Some (e_now e), c_expiresAt = nc_expiresAt inp, c_version = 1,
      c_createdAt = e_now e, c_updatedAt = e_now e\<rparr>"

definition createCart :: "env \<Rightarrow> string \<Rightarrow> new_cart \<Rightarrow> db \<Rightarrow> app_error + stored_cart option \<times> db" where
  "createCart e tid inp s =
     bnd (lift_db (numeric_text (nc_subtotal inp))) (\<lambda>subtotal.
     bnd (lift_db (numeric_text (nc_discountTotal inp))) (\<lambda>discountTotal.
     bnd (lift_db (numeric_text (nc_total inp))) (\<lambda>totalCents.
     let cart = cartRow e tid inp subtotal discountTotal totalCents s in
     bnd (lift_db (insert_row cart_check cart_clash cart (tb_carts s))) (\<lambda>t.
     bnd (insertLines e tid (c_id cart) (nc_lines inp) (s\<lparr>tb_carts := t, uuid_next := Suc (uuid_next s)\<rparr>)) (\<lambda>s'.
     Inr (findCart tid (c_id cart) s', s'))))))"

record discount_data =
  dd_discountTotal :: string
  dd_total :: string
  dd_appliedDiscountCodeId :: string
  dd_discountMetadata :: discount_metadata

definition applyDiscountSet :: "env \<Rightarrow> discount_data \<Rightarrow> int \<Rightarrow> int \<Rightarrow> cart_row \<Rightarrow> cart_row" where
  "applyDiscountSet e data discountTotal totalCents r =
     r\<lparr>c_discountTotal := discountTotal, c_total := totalCents,
       c_appliedDiscountCodeId := Some (dd_appliedDiscountCodeId data),
       c_discountMetadata := Some (dd_discountMetadata data),
       c_updatedAt := e_now e, c_version := c_version r + 1\<rparr>"

definition updateCart ::
  "string \<Rightarrow> string \<Rightarrow> (cart_row \<Rightarrow> cart_row) \<Rightarrow> db \<Rightarrow> app_error + stored_cart option \<times> db" where
  "updateCart tid cartId setValues s =
     bnd (lift_db (update_rows cart_check (\<lambda>r. c_tenantId r = tid \<and> c_id r = cartId) setValues (tb_carts s))) (\<lambda>(ret, t).
       case ret of
         None \<Rightarrow> Inr (None, s)
       | Some _ \<Rightarrow> Inr (findCart tid cartId (s\<lparr>tb_carts := t\<rparr>), s\<lparr>tb_carts := t\<rparr>))"

definition applyDiscountToCart ::
  "env \<Rightarrow> string \<Rightarrow> string \<Rightarrow> discount_data \<Rightarrow> db \<Rightarrow> app_error + stored_cart option \<times> db" where
  "applyDiscountToCart e tid cartId data s =
     bnd (lift_db (numeric_text (dd_discountTotal data))) (\<lambda>discountTotal.
     bnd (lift_db (numeric_text (dd_total data))) (\<lambda>totalCents.
     updateCart tid cartId (applyDiscountSet e data discountTotal totalCents) s))"

definition removeDiscountSet :: "env \<Rightarrow> int \<Rightarrow> cart_row \<Rightarrow> cart_row" where
  "removeDiscountSet e totalCents r =
     r\<lparr>c_discountTotal := 0, c_total := totalCents, c_appliedDiscountCodeId := None,
       c_discountMetadata := None, c_updatedAt := e_now e, c_version := c_version r + 1\<rparr>"

definition removeDiscountFromCart ::
  "env \<Rightarrow> string \<Rightarrow> string \<Rightarrow> string \<Rightarrow> db \<Rightarrow> app_error + stored_cart option \<times> db" where
  "removeDiscountFromCart e tid cartId restoredTotal s =
     bnd (lift_db (numeric_text restoredTotal)) (\<lambda>totalCents.
     updateCart tid cartId (removeDiscountSet e totalCents) s)"

section \<open>The service\<close>

text \<open>Cents that may be \<open>NaN\<close>, and their text.\<close>

definition money_text :: "int option \<Rightarrow> string" where
  "money_text c = (case c of None \<Rightarrow> ''NaN.NaN'' | Some n \<Rightarrow> centsToMoney n)"

datatype invalidation = DiscountNotFoundReason | IneligibleReason "IneligibilityReason option"

record cart_view =
  cv_cart :: stored_cart
  cv_invalidated :: "invalidation option"
  cv_openingHours :: "OpeningHours option"
  cv_timezone :: "string option"

definition withStoreSchedule :: "stored_cart \<Rightarrow> invalidation option \<Rightarrow> PublicTenant \<Rightarrow> cart_view" where
  "withStoreSchedule cart reason tenant =
     \<lparr>cv_cart = cart, cv_invalidated = reason,
      cv_openingHours = st_openingHours tenant, cv_timezone = st_timezone tenant\<rparr>"

definition opt_field :: "string \<Rightarrow> string option \<Rightarrow> (string \<times> json) list" where
  "opt_field key v = (case v of None \<Rightarrow> [] | Some t \<Rightarrow> [(key, JStr t)])"

definition selection_json :: "CartSelection \<Rightarrow> json" where
  "selection_json l = JObj ([(''kind'', JStr (if sel_kind l = Item then ''item'' else ''combo'')),
     (''resourceId'', JStr (sel_resourceId l)), (''quantity'', JNum (sel_quantity l)),
     (''optionIds'', JArr (map JStr (sel_optionIds l)))]
     @ opt_field ''note'' (sel_note l) @ opt_field ''confirmedUnitPrice'' (sel_confirmedUnitPrice l)
     @ opt_field ''calculatedSubtotal'' (sel_calculatedSubtotal l))"

definition create_cart_json :: "CartSelection list \<times> string option \<Rightarrow> json" where
  "create_cart_json request = JObj ((''lines'', JArr (map selection_json (fst request)))
     # opt_field ''discountCode'' (snd request))"

definition cartClaim :: "string \<Rightarrow> string \<Rightarrow> CartSelection list \<times> string option \<Rightarrow> claim_input" where
  "cartClaim tid key request =
     \<lparr>k_tenantId = Some tid, k_scope = ''create-cart'', k_key = key, k_request = create_cart_json request,
      k_lockSeconds = None, k_retentionSeconds = Some (60 * 60)\<rparr>"

text \<open>The priced line of a selection, with its total in cents.\<close>

definition priceLine ::
  "PublicTenant \<Rightarrow> CartSelection \<Rightarrow> db \<Rightarrow> app_error + new_line \<times> int option" where
  "priceLine tenant selection s =
     (case loadSelection (st_id tenant) (sel_kind selection) (sel_resourceId selection) s of
        None \<Rightarrow> Inl (CartRevalidation ResourceUnavailable)
      | Some catalog \<Rightarrow>
          if cat_currency catalog \<noteq> st_currency tenant then Inl (CartRevalidation ResourceUnavailable)
          else (case revalidateCartSelection selection (RevalidationCatalog.truncate catalog) of
                  Inl err \<Rightarrow> Inl (CartRevalidation err)
                | Inr validated \<Rightarrow>
                    let lineTotalCents = map_option (\<lambda>c. c * sel_quantity selection) (rv_unitPriceCents validated)
                    in Inr (\<lparr>nl_kind = csc_kind catalog, nl_resourceId = sel_resourceId selection,
                         nl_itemType = rv_itemType validated, nl_quantity = sel_quantity selection,
                         nl_name = csc_name catalog, nl_unitPrice = money_text (rv_unitPriceCents validated),
                         nl_lineTotal = money_text lineTotalCents, nl_imageUrl = csc_imageUrl catalog,
                         nl_note = sel_note selection, nl_options = rv_options validated\<rparr>, lineTotalCents)))"

fun priceLines ::
  "PublicTenant \<Rightarrow> CartSelection list \<Rightarrow> int option \<Rightarrow> db \<Rightarrow> app_error + new_line list \<times> int option" where
  "priceLines tenant [] subtotalCents s = Inr ([], subtotalCents)"
| "priceLines tenant (selection # rest) subtotalCents s =
     bnd (priceLine tenant selection s) (\<lambda>(line, lineTotalCents).
     bnd (priceLines tenant rest (nan_plus subtotalCents lineTotalCents) s) (\<lambda>(lines, total).
       Inr (line # lines, total)))"

text \<open>
  Neither the lines of a request nor those of a stored cart carry the category here, so a coupon
  for categories finds no qualifying line.
\<close>

definition request_line :: "nat \<Rightarrow> new_line \<Rightarrow> CartLineForDiscount" where
  "request_line index line =
     \<lparr>dl_id = ''line-'' @ nat_str index, dl_resourceId = Some (nl_resourceId line), dl_categoryId = None,
      dl_quantity = nl_quantity line, dl_unitPriceCents = cents (nl_unitPrice line),
      dl_lineTotalCents = cents (nl_lineTotal line)\<rparr>"

definition stored_line :: "cart_line_row \<Rightarrow> CartLineForDiscount" where
  "stored_line l =
     \<lparr>dl_id = cl_id l, dl_resourceId = (case cl_itemId l of None \<Rightarrow> cl_comboId l | Some i \<Rightarrow> Some i),
      dl_categoryId = None, dl_quantity = cl_quantity l,
      dl_unitPriceCents = cents (centsToMoney (cl_unitPriceSnapshot l)),
      dl_lineTotalCents = cents (centsToMoney (cl_lineTotal l))\<rparr>"

definition cart_discount_lines :: "stored_cart \<Rightarrow> CartLineForDiscount list" where
  "cart_discount_lines cart = map (\<lambda>(l, _). stored_line l) (sc_lines cart)"

definition discount_metadata_of :: "discount_row \<Rightarrow> DiscountCalculationResult \<Rightarrow> discount_metadata" where
  "discount_metadata_of discount calc =
     \<lparr>dm_code = d_code discount, dm_name = d_name discount, dm_discountType = d_discountType discount,
      dm_discountValue = centsToMoney (d_discountValue discount), dm_savingsAmount = dr_discountTotal calc,
      dm_tenderRestriction = (if d_applicableTender discount = TenderCash then Some ''cash'' else None)\<rparr>"

definition discount_data_of :: "discount_row \<Rightarrow> DiscountCalculationResult \<Rightarrow> discount_data" where
  "discount_data_of discount calc =
     \<lparr>dd_discountTotal = dr_discountTotal calc, dd_total = dr_total calc,
      dd_appliedDiscountCodeId = d_id discount, dd_discountMetadata = discount_metadata_of discount calc\<rparr>"

text \<open>
  The initial discount: its text, the total in cents, the coupon. A result that is not a number
  makes the insert of the cart fail.
\<close>

definition initialDiscount ::
  "env \<Rightarrow> string \<Rightarrow> string option \<Rightarrow> new_line list \<Rightarrow> int \<Rightarrow> db
     \<Rightarrow> app_error + string \<times> int \<times> (string \<times> discount_metadata) option" where
  "initialDiscount e tid discountCode lines subtotalCents s =
     (if \<not> nonempty discountCode then Inr (''0'', subtotalCents, None)
      else case findDiscountByCode tid (the discountCode) s of
        None \<Rightarrow> Inr (''0'', subtotalCents, None)
      | Some discount \<Rightarrow>
          (case calculateDiscountAmounts (map (\<lambda>(i, l). request_line i l) (enumerate 0 lines))
                  (coupon_of discount) (e_now e) None of
             None \<Rightarrow> Inl (DbError InvalidNumeric)
           | Some calc \<Rightarrow>
               if dr_isEligible calc
               then Inr (dr_discountTotal calc, dr_totalCents calc,
                      Some (d_id discount, discount_metadata_of discount calc))
               else Inr (''0'', subtotalCents, None)))"

definition buildCart ::
  "env \<Rightarrow> PublicTenant \<Rightarrow> CartSelection list \<times> string option \<Rightarrow> db \<Rightarrow> app_error + new_cart" where
  "buildCart e tenant request s =
     bnd (priceLines tenant (fst request) (Some 0) s) (\<lambda>(lines, subtotal).
       case subtotal of
         None \<Rightarrow> Inl (DbError InvalidNumeric)
       | Some subtotalCents \<Rightarrow>
           bnd (initialDiscount e (st_id tenant) (snd request) lines subtotalCents s) (\<lambda>(discountTotal, totalCents, applied).
             Inr \<lparr>nc_locationId = st_locationId tenant, nc_currency = st_currency tenant,
               nc_subtotal = centsToMoney subtotalCents, nc_discountTotal = discountTotal,
               nc_total = centsToMoney totalCents, nc_appliedDiscountCodeId = map_option fst applied,
               nc_discountMetadata = map_option snd applied,
               nc_expiresAt = e_now e + 30 * 60 * 1000, nc_lines = lines\<rparr>))"

text \<open>The body stored for a replay, and reading it back.\<close>

definition cart_body :: "string \<Rightarrow> json" where
  "cart_body cartId = JObj [(''cartId'', JStr cartId)]"

definition body_cart :: "json \<Rightarrow> string option" where
  "body_cart body = (case body of
     JObj fs \<Rightarrow> (case map_of fs ''cartId'' of Some (JStr i) \<Rightarrow> if i = [] then None else Some i | _ \<Rightarrow> None)
   | _ \<Rightarrow> None)"

definition createCartIn ::
  "env \<Rightarrow> PublicTenant \<Rightarrow> CartSelection list \<times> string option \<Rightarrow> string \<Rightarrow> db
     \<Rightarrow> app_error + cart_view \<times> db" where
  "createCartIn e tenant request key s =
     bnd (fetchTenantReadiness e (st_id tenant) s) (\<lambda>eligibility.
     if \<not> te_orderingAvailable eligibility then Inl (CartRevalidation OrderingUnavailable)
     else bnd (claim e (cartClaim (st_id tenant) key request) s) (\<lambda>(c, s1).
       case c of
         Replayed response \<Rightarrow>
           (case Option.bind (body_cart (snd response)) (\<lambda>i. findCart (st_id tenant) i s1) of
              None \<Rightarrow> Inl CartNotFound
            | Some cart \<Rightarrow> Inr (withStoreSchedule cart None tenant, s1))
       | Claimed recordId \<Rightarrow>
           bnd (buildCart e tenant request s1) (\<lambda>new.
           bnd (createCart e (st_id tenant) new s1) (\<lambda>(created, s2).
             case created of
               None \<Rightarrow> Inl InternalError
             | Some cart \<Rightarrow> Inr (withStoreSchedule cart None tenant,
                 completeClaim e recordId (201, cart_body (c_id (sc_cart cart))) s2)))))"

definition cartCreate ::
  "(string \<Rightarrow> bool) \<Rightarrow> env \<Rightarrow> string \<Rightarrow> string \<Rightarrow> CartSelection list \<times> string option \<Rightarrow> string \<Rightarrow> db
     \<Rightarrow> (app_error + cart_view) \<times> db" where
  "cartCreate isUuid e correlationId slug value key s =
     (case createCartSchema isUuid value of
        None \<Rightarrow> (Inl ValidationError, s)
      | Some request \<Rightarrow>
          (case bnd (resolveStorefront e slug s) (\<lambda>tenant. bnd (publicContext tenant correlationId) (\<lambda>_. Inr tenant)) of
             Inl err \<Rightarrow> (Inl err, s)
           | Inr tenant \<Rightarrow> with_tenant (createCartIn e tenant request key) s))"

text \<open>A cart past its time is not found, whatever its row says.\<close>

definition liveCart :: "env \<Rightarrow> string \<Rightarrow> string \<Rightarrow> db \<Rightarrow> app_error + stored_cart" where
  "liveCart e tid cartId s =
     (case findCart tid cartId s of
        None \<Rightarrow> Inl CartNotFound
      | Some cart \<Rightarrow>
          if c_expiresAt (sc_cart cart) \<le> e_now e \<or> c_status (sc_cart cart) = CartExpired then Inl CartNotFound
          else Inr cart)"

definition removeInvalid ::
  "env \<Rightarrow> PublicTenant \<Rightarrow> string \<Rightarrow> stored_cart \<Rightarrow> invalidation \<Rightarrow> db \<Rightarrow> app_error + cart_view \<times> db" where
  "removeInvalid e tenant cartId cart reason s =
     bnd (removeDiscountFromCart e (st_id tenant) cartId (centsToMoney (c_subtotal (sc_cart cart))) s) (\<lambda>(updated, s').
       case updated of
         None \<Rightarrow> Inl InternalError
       | Some cart' \<Rightarrow> Inr (withStoreSchedule cart' (Some reason) tenant, s'))"

definition getCartIn :: "env \<Rightarrow> PublicTenant \<Rightarrow> string \<Rightarrow> db \<Rightarrow> app_error + cart_view \<times> db" where
  "getCartIn e tenant cartId s =
     bnd (liveCart e (st_id tenant) cartId s) (\<lambda>cart.
       if \<not> nonempty (c_appliedDiscountCodeId (sc_cart cart))
       then Inr (withStoreSchedule cart None tenant, s)
       else case findDiscountById (st_id tenant) (the (c_appliedDiscountCodeId (sc_cart cart))) s of
         None \<Rightarrow> removeInvalid e tenant cartId cart DiscountNotFoundReason s
       | Some discount \<Rightarrow>
           (case calculateDiscountAmounts (cart_discount_lines cart) (coupon_of discount) (e_now e) None of
              None \<Rightarrow> Inl (DbError InvalidNumeric)
            | Some calc \<Rightarrow>
                if \<not> dr_isEligible calc
                then removeInvalid e tenant cartId cart (IneligibleReason (dr_ineligibilityReason calc)) s
                else if dr_discountTotal calc \<noteq> centsToMoney (c_discountTotal (sc_cart cart))
                      \<or> dr_total calc \<noteq> centsToMoney (c_total (sc_cart cart))
                then bnd (applyDiscountToCart e (st_id tenant) cartId (discount_data_of discount calc) s) (\<lambda>(updated, s').
                       case updated of
                         None \<Rightarrow> Inl InternalError
                       | Some cart' \<Rightarrow> Inr (withStoreSchedule cart' None tenant, s'))
                else Inr (withStoreSchedule cart None tenant, s)))"

definition as_visitor ::
  "env \<Rightarrow> string \<Rightarrow> string \<Rightarrow> (PublicTenant \<Rightarrow> db \<Rightarrow> app_error + 'a \<times> db) \<Rightarrow> db \<Rightarrow> (app_error + 'a) \<times> db" where
  "as_visitor e correlationId slug body s =
     (case bnd (resolveStorefront e slug s) (\<lambda>tenant. bnd (publicContext tenant correlationId) (\<lambda>_. Inr tenant)) of
        Inl err \<Rightarrow> (Inl err, s)
      | Inr tenant \<Rightarrow> with_tenant (body tenant) s)"

definition cartGet :: "env \<Rightarrow> string \<Rightarrow> string \<Rightarrow> string \<Rightarrow> db \<Rightarrow> (app_error + cart_view) \<times> db" where
  "cartGet e correlationId slug cartId s =
     as_visitor e correlationId slug (\<lambda>tenant. getCartIn e tenant cartId) s"

text \<open>
  Inside the transaction the verdict on the guess is reported to the limiter: \<open>Some True\<close> a
  success, \<open>Some False\<close> a failure, before the result of the writes is known.
\<close>

definition couponFor ::
  "env \<Rightarrow> PublicTenant \<Rightarrow> string \<Rightarrow> string \<Rightarrow> db
     \<Rightarrow> (app_error + discount_data) \<times> bool option" where
  "couponFor e tenant cartId code s =
     (case liveCart e (st_id tenant) cartId s of
        Inl err \<Rightarrow> (Inl err, None)
      | Inr cart \<Rightarrow>
          (case findDiscountByCode (st_id tenant) code s of
             None \<Rightarrow> (Inl DiscountNotFound, Some False)
           | Some discount \<Rightarrow>
               (case calculateDiscountAmounts (cart_discount_lines cart) (coupon_of discount) (e_now e) None of
                  None \<Rightarrow> (Inl (DbError InvalidNumeric), Some True)
                | Some calc \<Rightarrow>
                    if \<not> dr_isEligible calc then (Inl (CartDiscountIneligible (dr_ineligibilityReason calc)), Some False)
                    else (Inr (discount_data_of discount calc), Some True))))"

definition applyDiscountIn ::
  "env \<Rightarrow> PublicTenant \<Rightarrow> string \<Rightarrow> discount_data \<Rightarrow> db \<Rightarrow> app_error + cart_view \<times> db" where
  "applyDiscountIn e tenant cartId data s =
     bnd (applyDiscountToCart e (st_id tenant) cartId data s) (\<lambda>(updated, s').
       case updated of
         None \<Rightarrow> Inl InternalError
       | Some cart' \<Rightarrow> Inr (withStoreSchedule cart' None tenant, s'))"

definition couponKey :: "string \<Rightarrow> string \<Rightarrow> string" where
  "couponKey clientIp slug = clientIp @ '':'' @ slug"

definition reportGuess :: "bool option \<Rightarrow> string \<Rightarrow> int \<Rightarrow> attempts \<Rightarrow> attempts" where
  "reportGuess verdict key now m =
     (case verdict of None \<Rightarrow> m | Some True \<Rightarrow> recordSuccess m key | Some False \<Rightarrow> discountRecordFailure m key now)"

definition cartApplyDiscount ::
  "env \<Rightarrow> string \<Rightarrow> string \<Rightarrow> string \<Rightarrow> string \<Rightarrow> string \<Rightarrow> attempts \<times> db
     \<Rightarrow> (app_error + cart_view) \<times> attempts \<times> db" where
  "cartApplyDiscount e correlationId slug cartId code clientIp = (\<lambda>(m, s).
     let key = couponKey clientIp slug;
         ((allowed, retry), m1) = discountCheckRateLimit m key (e_now e)
     in if \<not> allowed then (Inl (RateLimited retry), m1, s)
        else case bnd (resolveStorefront e slug s) (\<lambda>tenant. bnd (publicContext tenant correlationId) (\<lambda>_. Inr tenant)) of
          Inl err \<Rightarrow> (Inl err, m1, s)
        | Inr tenant \<Rightarrow>
            (let (found, verdict) = couponFor e tenant cartId code s;
                 m2 = reportGuess verdict key (e_now e) m1
             in case found of
                  Inl err \<Rightarrow> (Inl err, m2, s)
                | Inr data \<Rightarrow> (let (res, s') = with_tenant (applyDiscountIn e tenant cartId data) s in (res, m2, s'))))"

definition removeDiscountIn :: "env \<Rightarrow> PublicTenant \<Rightarrow> string \<Rightarrow> db \<Rightarrow> app_error + cart_view \<times> db" where
  "removeDiscountIn e tenant cartId s =
     bnd (liveCart e (st_id tenant) cartId s) (\<lambda>cart.
     bnd (removeDiscountFromCart e (st_id tenant) cartId (centsToMoney (c_subtotal (sc_cart cart))) s) (\<lambda>(updated, s').
       case updated of
         None \<Rightarrow> Inl InternalError
       | Some cart' \<Rightarrow> Inr (withStoreSchedule cart' None tenant, s')))"

definition cartRemoveDiscount ::
  "env \<Rightarrow> string \<Rightarrow> string \<Rightarrow> string \<Rightarrow> db \<Rightarrow> (app_error + cart_view) \<times> db" where
  "cartRemoveDiscount e correlationId slug cartId s =
     as_visitor e correlationId slug (\<lambda>tenant. removeDiscountIn e tenant cartId) s"

section \<open>Money texts the database accepts\<close>

lemma numeric_text_money:
  assumes "numeric_text (centsToMoney n) = Inr m"
  shows "m = n \<and> 0 \<le> n"
proof (cases "0 \<le> n")
  case True
  then show ?thesis
    using assms by (auto simp: numeric_text_def moneyToCents_centsToMoney split: if_splits)
next
  case False
  then have "n div 100 < 0" by simp
  then obtain w where w: "centsToMoney n = CHR ''-'' # w"
    unfolding centsToMoney_def js_str_def by simp
  have "\<not> decimal_re (CHR ''-'' # w)"
    by (cases "js_split (CHR ''.'') w")
      (auto simp: decimal_re_def is_digit_def js_split_nonempty split: list.splits)
  then show ?thesis using assms by (simp add: numeric_text_def w)
qed

lemma cents_money [simp]: "0 \<le> n \<Longrightarrow> cents (centsToMoney n) = n"
  by (simp add: cents_def moneyToCents_centsToMoney)

lemma numeric_zero: "numeric_text ''0'' = Inr m \<Longrightarrow> m = 0"
proof -
  have "moneyToCents ''0'' = Some 0" by code_simp
  then show "numeric_text ''0'' = Inr m \<Longrightarrow> m = 0"
    by (auto simp: numeric_text_def split: if_splits)
qed

section \<open>Carts whose amounts agree\<close>

definition lines_of :: "cart_row \<Rightarrow> db \<Rightarrow> cart_line_row list" where
  "lines_of c s = filter (\<lambda>l. cl_tenantId l = c_tenantId c \<and> cl_cartId l = c_id c) (tb_cartLines s)"

definition discounted :: "cart_row \<Rightarrow> bool" where
  "discounted c \<longleftrightarrow> 0 \<le> c_discountTotal c \<and> c_discountTotal c \<le> c_subtotal c
     \<and> c_total c = c_subtotal c - c_discountTotal c"

definition line_priced :: "cart_line_row \<Rightarrow> bool" where
  "line_priced l \<longleftrightarrow> cart_line_check l \<and> cl_lineTotal l = cl_unitPriceSnapshot l * cl_quantity l"

definition carts_ok :: "db \<Rightarrow> bool" where
  "carts_ok s \<longleftrightarrow> uniq c_id (tb_carts s)
     \<and> list_all line_priced (tb_cartLines s)
     \<and> list_all (\<lambda>l. list_ex (\<lambda>c. c_tenantId c = cl_tenantId l \<and> c_id c = cl_cartId l) (tb_carts s)) (tb_cartLines s)
     \<and> list_all (\<lambda>c. discounted c \<and> c_subtotal c = (\<Sum>l\<leftarrow>lines_of c s. cl_lineTotal l)) (tb_carts s)"

lemma carts_ok_frame:
  "tb_carts s' = tb_carts s \<Longrightarrow> tb_cartLines s' = tb_cartLines s \<Longrightarrow> carts_ok s' = carts_ok s"
  by (simp add: carts_ok_def lines_of_def)

text \<open>A write that keeps a cart's identity and subtotal and sets a consistent discount.\<close>

lemma updateCart_ok:
  assumes ok: "carts_ok s" and run: "updateCart tid cid f s = Inr (ret, s')"
    and keep: "\<And>c. c_id (f c) = c_id c \<and> c_tenantId (f c) = c_tenantId c \<and> c_subtotal (f c) = c_subtotal c"
    and disc: "\<And>c. c \<in> set (tb_carts s) \<Longrightarrow> c_tenantId c = tid \<Longrightarrow> c_id c = cid \<Longrightarrow> discounted (f c)"
  shows "carts_ok s'"
proof -
  let ?P = "\<lambda>r. c_tenantId r = tid \<and> c_id r = cid"
  have s': "s' = s \<or> s' = s\<lparr>tb_carts := upd ?P f (tb_carts s)\<rparr>"
    using run by (auto simp: updateCart_def update_rows_Inr split: option.splits)
  define g where "g = (\<lambda>c. if ?P c then f c else c)"
  have g: "c_id (g c) = c_id c" "c_tenantId (g c) = c_tenantId c" "c_subtotal (g c) = c_subtotal c" for c
    by (simp_all add: g_def keep)
  have t: "upd ?P f (tb_carts s) = map g (tb_carts s)" by (simp add: upd_def g_def)
  have "c_id \<circ> g = c_id" using g by auto
  moreover have "lines_of (g c) (s\<lparr>tb_carts := t\<rparr>) = lines_of c s" for c t
    by (simp add: lines_of_def g)
  moreover have "discounted (g c)" if "c \<in> set (tb_carts s)" for c
    using that disc ok by (auto simp: g_def carts_ok_def list_all_iff)
  ultimately have "carts_ok (s\<lparr>tb_carts := map g (tb_carts s)\<rparr>)"
    using ok by (simp add: carts_ok_def uniq_def list_all_iff list_ex_iff g)
  then show ?thesis using s' ok unfolding t by (cases "s' = s") simp_all
qed

lemma liveCart_found:
  assumes "liveCart e tid cid s = Inr cart"
  shows "findCart tid cid s = Some cart"
  using assms by (auto simp: liveCart_def split: option.splits if_splits)

text \<open>The lines of a found cart, as the discount rules see them.\<close>

lemma found_lines:
  assumes ok: "carts_ok s" and f: "findCart tid cid s = Some cart"
  shows "sc_cart cart \<in> set (tb_carts s)" "c_tenantId (sc_cart cart) = tid" "c_id (sc_cart cart) = cid"
    "lines_nonneg (cart_discount_lines cart)" "totals (cart_discount_lines cart) = c_subtotal (sc_cart cart)"
proof -
  let ?le = "\<lambda>a b. cl_createdAt a \<le> cl_createdAt b"
  obtain c where c: "sel1 (\<lambda>r. c_tenantId r = tid \<and> c_id r = cid) (tb_carts s) = Some c"
    using f by (auto simp: findCart_def split: option.splits)
  have key: "c_tenantId c = tid" "c_id c = cid" using sel1_Some_P [OF c] by simp_all
  have cart: "sc_cart cart = c" and lines: "map fst (sc_lines cart) = sort_by ?le (lines_of c s)"
    using f by (auto simp: findCart_def c lines_of_def key o_def)
  show in_c: "sc_cart cart \<in> set (tb_carts s)" and "c_tenantId (sc_cart cart) = tid" "c_id (sc_cart cart) = cid"
    using sel1_Some_in [OF c] sel1_Some_P [OF c] cart by auto
  have nn: "0 \<le> cl_lineTotal l" if "l \<in> set (lines_of c s)" for l
    using that ok by (auto simp: carts_ok_def lines_of_def list_all_iff line_priced_def cart_line_check_def)
  have map_lines: "cart_discount_lines cart = map stored_line (sort_by ?le (lines_of c s))"
    unfolding lines [symmetric] by (simp add: cart_discount_lines_def o_def case_prod_unfold)
  show "lines_nonneg (cart_discount_lines cart)"
    unfolding map_lines using nn by (auto simp: lines_nonneg_def stored_line_def)
  have "totals (cart_discount_lines cart) = (\<Sum>l\<leftarrow>sort_by ?le (lines_of c s). cl_lineTotal l)"
    unfolding map_lines map_map o_def
    by (rule arg_cong [of _ _ sum_list], rule map_cong [OF refl]) (use nn in \<open>simp add: stored_line_def\<close>)
  also have "\<dots> = c_subtotal (sc_cart cart)"
    using ok in_c cart by (simp add: sum_sort_by carts_ok_def list_all_iff)
  finally show "totals (cart_discount_lines cart) = c_subtotal (sc_cart cart)" .
qed

lemma numeric_text_cents: "numeric_text t = Inr v \<Longrightarrow> moneyToCents t = Some v"
  by (auto simp: numeric_text_def split: if_splits option.splits)

text \<open>A discount computed on a found cart may be written to it.\<close>

lemma applyDiscount_ok:
  assumes ok: "carts_ok s" and f: "findCart tid cid s = Some cart"
    and calc: "calculateDiscountAmounts (cart_discount_lines cart) coupon now tender = Some calc"
    and run: "applyDiscountToCart e tid cid (discount_data_of d calc) s = Inr (ret, s')"
  shows "carts_ok s'"
proof -
  note found = found_lines [OF ok f]
  have amounts: "0 \<le> dr_discountTotalCents calc" "dr_discountTotalCents calc \<le> c_subtotal (sc_cart cart)"
    "dr_totalCents calc = c_subtotal (sc_cart cart) - dr_discountTotalCents calc"
    "moneyToCents (dr_discountTotal calc) = Some (dr_discountTotalCents calc)"
    "moneyToCents (dr_total calc) = Some (dr_totalCents calc)"
    using discount_amounts [OF found(4) calc] found(5) by auto
  obtain x y where xy: "numeric_text (dr_discountTotal calc) = Inr x" "numeric_text (dr_total calc) = Inr y"
    and run0: "updateCart tid cid (applyDiscountSet e (discount_data_of d calc) x y) s = Inr (ret, s')"
    using run by (auto simp: applyDiscountToCart_def discount_data_of_def)
  have "x = dr_discountTotalCents calc" "y = dr_totalCents calc"
    using xy [THEN numeric_text_cents] amounts by simp_all
  then have run': "updateCart tid cid (applyDiscountSet e (discount_data_of d calc) (dr_discountTotalCents calc) (dr_totalCents calc)) s
      = Inr (ret, s')" using run0 by simp
  show ?thesis
  proof (rule updateCart_ok [OF ok run'])
    fix c assume "c \<in> set (tb_carts s)" "c_tenantId c = tid" "c_id c = cid"
    then have "c = sc_cart cart"
      using found ok by (metis carts_ok_def uniq_eq)
    then show "discounted (applyDiscountSet e (discount_data_of d calc) (dr_discountTotalCents calc) (dr_totalCents calc) c)"
      using amounts by (simp add: discounted_def applyDiscountSet_def)
  qed (simp add: applyDiscountSet_def)
qed

lemma removeDiscount_ok:
  assumes ok: "carts_ok s" and f: "findCart tid cid s = Some cart"
    and run: "removeDiscountFromCart e tid cid (centsToMoney (c_subtotal (sc_cart cart))) s = Inr (ret, s')"
  shows "carts_ok s'"
proof -
  note found = found_lines [OF ok f]
  obtain n where n: "numeric_text (centsToMoney (c_subtotal (sc_cart cart))) = Inr n"
    and run': "updateCart tid cid (removeDiscountSet e n) s = Inr (ret, s')"
    using run by (auto simp: removeDiscountFromCart_def)
  note n = numeric_text_money [OF n]
  show ?thesis
  proof (rule updateCart_ok [OF ok run'])
    fix c assume "c \<in> set (tb_carts s)" "c_tenantId c = tid" "c_id c = cid"
    then have "c = sc_cart cart"
      using found ok by (metis carts_ok_def uniq_eq)
    then show "discounted (removeDiscountSet e n c)"
      using n by (simp add: discounted_def removeDiscountSet_def)
  qed (simp add: removeDiscountSet_def)
qed

lemma removeInvalid_ok:
  "carts_ok s \<Longrightarrow> findCart (st_id tenant) cid s = Some cart \<Longrightarrow>
     removeInvalid e tenant cid cart reason s = Inr (v, s') \<Longrightarrow> carts_ok s'"
  by (auto simp: removeInvalid_def dest: removeDiscount_ok split: option.splits)

lemma getCartIn_ok:
  assumes "carts_ok s" "getCartIn e tenant cid s = Inr (v, s')"
  shows "carts_ok s'"
proof -
  obtain cart where l: "liveCart e (st_id tenant) cid s = Inr cart"
    using assms(2) by (auto simp: getCartIn_def)
  note f = liveCart_found [OF l]
  show ?thesis
    using assms(2) l assms(1)
    by (auto simp: getCartIn_def dest: removeInvalid_ok [OF assms(1) f] applyDiscount_ok [OF assms(1) f]
        split: if_splits option.splits)
qed

lemma removeDiscountIn_ok:
  assumes "carts_ok s" "removeDiscountIn e tenant cid s = Inr (v, s')"
  shows "carts_ok s'"
proof -
  obtain cart where l: "liveCart e (st_id tenant) cid s = Inr cart"
    using assms(2) by (auto simp: removeDiscountIn_def)
  show ?thesis
    using assms(2) l
    by (auto simp: removeDiscountIn_def dest: removeDiscount_ok [OF assms(1) liveCart_found [OF l]]
        split: option.splits)
qed

lemma couponFor_ok:
  assumes ok: "carts_ok s" and found: "couponFor e tenant cid code s = (Inr data, v)"
    and run: "applyDiscountIn e tenant cid data s = Inr (w, s')"
  shows "carts_ok s'"
proof -
  obtain cart d calc where l: "liveCart e (st_id tenant) cid s = Inr cart"
    and calc: "calculateDiscountAmounts (cart_discount_lines cart) (coupon_of d) (e_now e) None = Some calc"
    and data: "data = discount_data_of d calc"
    using found by (auto simp: couponFor_def split: sum.splits option.splits if_splits)
  show ?thesis
    using run applyDiscount_ok [OF ok liveCart_found [OF l] calc]
    by (auto simp: applyDiscountIn_def data split: option.splits)
qed

section \<open>A new cart\<close>

text \<open>The lines of a request with the prices they were given.\<close>

definition line_at :: "new_line \<Rightarrow> int \<Rightarrow> bool" where
  "line_at l u \<longleftrightarrow> nl_unitPrice l = centsToMoney u \<and> nl_lineTotal l = centsToMoney (u * nl_quantity l)"

abbreviation priced_sum :: "new_line list \<Rightarrow> int list \<Rightarrow> int" where
  "priced_sum ls us \<equiv> (\<Sum>(l, u)\<leftarrow>zip ls us. u * nl_quantity l)"

lemma nan_plus_Some [simp]: "nan_plus a b = Some n \<longleftrightarrow> (\<exists>x y. a = Some x \<and> b = Some y \<and> n = x + y)"
  by (cases a; cases b) auto

lemma priceLines_NaN: "priceLines tenant sels None s = Inr (ls, t) \<Longrightarrow> t = None"
  by (induction sels arbitrary: ls) auto

lemma priceLines_priced:
  assumes "priceLines tenant sels (Some a) s = Inr (ls, Some n)"
  shows "\<exists>us. list_all2 line_at ls us \<and> n = a + priced_sum ls us"
  using assms
proof (induction sels arbitrary: a ls)
  case Nil
  then show ?case by simp
next
  case (Cons sel sels)
  obtain l t rest where l: "priceLine tenant sel s = Inr (l, t)"
    and rest: "priceLines tenant sels (nan_plus (Some a) t) s = Inr (rest, Some n)" and ls: "ls = l # rest"
    using Cons.prems by auto
  obtain y where t: "t = Some y" using rest priceLines_NaN by (cases t) fastforce+
  then obtain u where u: "line_at l u" "y = u * nl_quantity l"
    using l by (auto simp: priceLine_def line_at_def money_text_def Let_def
        split: option.splits if_splits sum.splits)
  obtain us where "list_all2 line_at rest us" "n = a + y + priced_sum rest us"
    using Cons.IH [of "a + y" rest] rest t by auto
  then show ?case using u ls by (intro exI [of _ "u # us"]) simp
qed

lemma insertLineOptions_state:
  "insertLineOptions e tid lid opts s = Inr s' \<Longrightarrow>
     \<exists>t n. s' = s\<lparr>tb_cartLineOptions := t, uuid_next := n\<rparr>
       \<and> filter (\<lambda>p. clo_tenantId p \<noteq> tid) t = filter (\<lambda>p. clo_tenantId p \<noteq> tid) (tb_cartLineOptions s)"
proof (induction opts arbitrary: s)
  case Nil
  then show ?case by (intro exI [of _ "tb_cartLineOptions s"] exI [of _ "uuid_next s"]) simp
next
  case (Cons opt opts)
  then obtain t delta where t: "insertLineOptions e tid lid opts (s\<lparr>tb_cartLineOptions := t, uuid_next := Suc (uuid_next s)\<rparr>) = Inr s'"
    and ins: "insert_row cart_line_option_check cart_line_option_clash (lineOptionRow e tid lid opt delta s) (tb_cartLineOptions s) = Inr t"
    by auto
  have "filter (\<lambda>p. clo_tenantId p \<noteq> tid) t = filter (\<lambda>p. clo_tenantId p \<noteq> tid) (tb_cartLineOptions s)"
    using ins by (simp add: insert_row_Inr lineOptionRow_def)
  then show ?case using Cons.IH [OF t] by auto
qed

text \<open>What inserting priced lines adds to the table.\<close>

lemma insertLines_priced:
  assumes "insertLines e tid cid ls s = Inr s'" "list_all2 line_at ls us"
  shows "\<exists>new opts n. s' = s\<lparr>tb_cartLines := tb_cartLines s @ new, tb_cartLineOptions := opts, uuid_next := n\<rparr>
    \<and> list_all (\<lambda>l. line_priced l \<and> cl_tenantId l = tid \<and> cl_cartId l = cid) new
    \<and> (\<Sum>l\<leftarrow>new. cl_lineTotal l) = priced_sum ls us
    \<and> filter (\<lambda>p. clo_tenantId p \<noteq> tid) opts = filter (\<lambda>p. clo_tenantId p \<noteq> tid) (tb_cartLineOptions s)"
  using assms
proof (induction ls arbitrary: s us)
  case Nil
  then show ?case
    by (intro exI [of _ "[]"] exI [of _ "tb_cartLineOptions s"] exI [of _ "uuid_next s"]) simp
next
  case (Cons l ls)
  obtain u us' where us: "us = u # us'" "line_at l u" "list_all2 line_at ls us'"
    using Cons.prems(2) by (auto simp: list_all2_Cons1)
  obtain x y t s1 where n: "numeric_text (nl_unitPrice l) = Inr x" "numeric_text (nl_lineTotal l) = Inr y"
    and t: "insert_row cart_line_check cart_line_clash (cartLineRow e tid cid l x y s) (tb_cartLines s) = Inr t"
    and s1: "insertLineOptions e tid (cl_id (cartLineRow e tid cid l x y s)) (nl_options l)
      (s\<lparr>tb_cartLines := t, uuid_next := Suc (uuid_next s)\<rparr>) = Inr s1"
    and rest: "insertLines e tid cid ls s1 = Inr s'"
    using Cons.prems(1) by (auto simp: Let_def)
  let ?row = "cartLineRow e tid cid l x y s"
  have xy: "x = u" "y = u * nl_quantity l"
    using n us(2) by (auto simp: line_at_def dest: numeric_text_money)
  have row: "cart_line_check ?row" "t = tb_cartLines s @ [?row]"
    using t by (auto simp: insert_row_Inr)
  obtain o1 n1 where s1': "s1 = s\<lparr>tb_cartLines := t, tb_cartLineOptions := o1, uuid_next := n1\<rparr>"
    and o1: "filter (\<lambda>p. clo_tenantId p \<noteq> tid) o1 = filter (\<lambda>p. clo_tenantId p \<noteq> tid) (tb_cartLineOptions s)"
    using insertLineOptions_state [OF s1] by auto
  obtain new opts n where IH: "s' = s1\<lparr>tb_cartLines := tb_cartLines s1 @ new, tb_cartLineOptions := opts, uuid_next := n\<rparr>"
    "list_all (\<lambda>l. line_priced l \<and> cl_tenantId l = tid \<and> cl_cartId l = cid) new"
    "(\<Sum>l\<leftarrow>new. cl_lineTotal l) = priced_sum ls us'"
    "filter (\<lambda>p. clo_tenantId p \<noteq> tid) opts = filter (\<lambda>p. clo_tenantId p \<noteq> tid) (tb_cartLineOptions s1)"
    using Cons.IH [OF rest us(3)] by blast
  have "line_priced ?row" "cl_tenantId ?row = tid" "cl_cartId ?row = cid" "cl_lineTotal ?row = u * nl_quantity l"
    using row(1) xy by (simp_all add: line_priced_def cartLineRow_def)
  moreover have "filter (\<lambda>p. clo_tenantId p \<noteq> tid) opts = filter (\<lambda>p. clo_tenantId p \<noteq> tid) (tb_cartLineOptions s)"
    using IH(4) o1 by (simp add: s1')
  ultimately show ?case
    using IH(2,3) us(1)
    by (intro exI [of _ "?row # new"] exI [of _ opts] exI [of _ n]) (simp add: IH(1) s1' row(2))
qed

lemma insertLines_nonneg:
  assumes "insertLines e tid cid ls s = Inr s'" "list_all2 line_at ls us"
  shows "list_all (\<lambda>(l, u). 0 \<le> u * nl_quantity l) (zip ls us)"
  using assms
proof (induction ls arbitrary: s us)
  case Nil
  then show ?case by simp
next
  case (Cons l ls)
  obtain u us' where us: "us = u # us'" "line_at l u" "list_all2 line_at ls us'"
    using Cons.prems(2) by (auto simp: list_all2_Cons1)
  obtain y s1 where y: "numeric_text (nl_lineTotal l) = Inr y" and rest: "insertLines e tid cid ls s1 = Inr s'"
    using Cons.prems(1) by (auto simp: Let_def)
  show ?case
    using us(1,2) y Cons.IH [OF rest us(3)]
    by (auto simp: line_at_def dest: numeric_text_money)
qed

text \<open>The discount a new cart starts with.\<close>

lemma initialDiscount_ok:
  assumes run: "initialDiscount e tid code ls n s = Inr (dt, t, applied)"
    and nn: "list_all (\<lambda>l. 0 \<le> cents (nl_lineTotal l)) ls" "(\<Sum>l\<leftarrow>ls. cents (nl_lineTotal l)) = n"
    and dt: "numeric_text dt = Inr d"
  shows "0 \<le> d \<and> d \<le> n \<and> t = n - d"
proof -
  let ?lines = "map (\<lambda>(i, l). request_line i l) (enumerate 0 ls)"
  have "map dl_lineTotalCents (map (\<lambda>(i, l). request_line i l) (enumerate k ls)) = map (\<lambda>l. cents (nl_lineTotal l)) ls" for k
    by (induction ls arbitrary: k) (simp_all add: request_line_def)
  then have m: "map dl_lineTotalCents ?lines = map (\<lambda>l. cents (nl_lineTotal l)) ls" .
  have "0 \<le> x" if "x \<in> set (map dl_lineTotalCents ?lines)" for x
    using that nn(1) unfolding m by (auto simp: list_all_iff)
  then have lines: "lines_nonneg ?lines" "totals ?lines = n"
    using m nn(2) by (auto simp: lines_nonneg_def)
  have n0: "0 \<le> n" using lines totals_nonneg by blast
  show ?thesis
  proof (cases "dt = ''0'' \<and> t = n")
    case True
    then show ?thesis using dt n0 by (auto dest: numeric_zero)
  next
    case False
    then obtain c calc where "calculateDiscountAmounts ?lines c (e_now e) None = Some calc"
      and r: "dt = dr_discountTotal calc" "t = dr_totalCents calc"
      using run by (auto simp: initialDiscount_def split: if_splits option.splits)
    then show ?thesis
      using discount_amounts [OF lines(1)] lines(2) numeric_text_cents [OF dt] by fastforce
  qed
qed

lemma cartRow_simps [simp]:
  "c_id (cartRow e tid inp sub dis tot s) = fresh_id e s" "c_tenantId (cartRow e tid inp sub dis tot s) = tid"
  "c_subtotal (cartRow e tid inp sub dis tot s) = sub" "c_discountTotal (cartRow e tid inp sub dis tot s) = dis"
  "c_total (cartRow e tid inp sub dis tot s) = tot" "c_status (cartRow e tid inp sub dis tot s) = CartValidated"
  "c_expiresAt (cartRow e tid inp sub dis tot s) = nc_expiresAt inp" "c_version (cartRow e tid inp sub dis tot s) = 1"
  by (simp_all add: cartRow_def)

text \<open>A new cart and its lines, added to carts whose amounts agree.\<close>

lemma carts_ok_add:
  assumes ok: "carts_ok s" and c: "\<forall>q \<in> set (tb_carts s). c_id q \<noteq> c_id c" "discounted c"
    and new: "list_all (\<lambda>l. line_priced l \<and> cl_tenantId l = c_tenantId c \<and> cl_cartId l = c_id c) new"
    and sub: "c_subtotal c = (\<Sum>l\<leftarrow>new. cl_lineTotal l)"
  shows "carts_ok (s\<lparr>tb_carts := tb_carts s @ [c], tb_cartLines := tb_cartLines s @ new\<rparr>)"
proof -
  let ?s = "s\<lparr>tb_carts := tb_carts s @ [c], tb_cartLines := tb_cartLines s @ new\<rparr>"
  have "cl_cartId l \<noteq> c_id c" if "l \<in> set (tb_cartLines s)" for l
    using that ok c(1) by (fastforce simp: carts_ok_def list_all_iff list_ex_iff)
  then have "lines_of c ?s = new"
    using new by (simp add: lines_of_def list_all_iff filter_False filter_True)
  moreover have "lines_of q ?s = lines_of q s" if "q \<in> set (tb_carts s)" for q
  proof -
    have "filter (\<lambda>l. cl_tenantId l = c_tenantId q \<and> cl_cartId l = c_id q) new = []"
      using that new c(1) by (auto simp: list_all_iff filter_empty_conv)
    then show ?thesis by (simp add: lines_of_def)
  qed
  ultimately show ?thesis
    using ok c new sub
    by (auto simp: carts_ok_def uniq_append1 list_all_iff list_ex_iff)
qed

text \<open>What creating a cart leaves in the state, and that its amounts agree.\<close>

lemma createCart_amounts:
  assumes ok: "carts_ok s" and us: "list_all2 line_at ls us"
    and inp: "nc_subtotal inp = centsToMoney (priced_sum ls us)" "nc_total inp = centsToMoney tt" "nc_lines inp = ls"
    and disc: "\<And>d. numeric_text (nc_discountTotal inp) = Inr d \<Longrightarrow> list_all (\<lambda>l. 0 \<le> cents (nl_lineTotal l)) ls \<Longrightarrow>
      (\<Sum>l\<leftarrow>ls. cents (nl_lineTotal l)) = priced_sum ls us \<Longrightarrow> 0 \<le> d \<and> d \<le> priced_sum ls us \<and> tt = priced_sum ls us - d"
    and run: "createCart e tid inp s = Inr (created, s')"
  obtains c new opts n where "s' = s\<lparr>tb_carts := tb_carts s @ [c], tb_cartLines := tb_cartLines s @ new,
      tb_cartLineOptions := opts, uuid_next := n\<rparr>"
    "carts_ok s'" "c_tenantId c = tid" "c_id c = fresh_id e s" "created = findCart tid (fresh_id e s) s'"
    "list_all (\<lambda>l. cl_tenantId l = tid) new" "filter (\<lambda>p. clo_tenantId p \<noteq> tid) opts = filter (\<lambda>p. clo_tenantId p \<noteq> tid) (tb_cartLineOptions s)"
proof -
  obtain x y z t where n: "numeric_text (nc_subtotal inp) = Inr x" "numeric_text (nc_discountTotal inp) = Inr y"
      "numeric_text (nc_total inp) = Inr z"
    and t: "insert_row cart_check cart_clash (cartRow e tid inp x y z s) (tb_carts s) = Inr t"
    and l: "insertLines e tid (fresh_id e s) ls (s\<lparr>tb_carts := t, uuid_next := Suc (uuid_next s)\<rparr>) = Inr s'"
    and created: "created = findCart tid (fresh_id e s) s'"
    using run by (auto simp: createCart_def Let_def inp(3))
  let ?c = "cartRow e tid inp x y z s"
  have xz: "x = priced_sum ls us" "z = tt" using n(1,3) inp by (auto dest: numeric_text_money)
  obtain new opts m where s': "s' = s\<lparr>tb_carts := tb_carts s @ [?c], tb_cartLines := tb_cartLines s @ new,
      tb_cartLineOptions := opts, uuid_next := m\<rparr>"
    and new: "list_all (\<lambda>l. line_priced l \<and> cl_tenantId l = tid \<and> cl_cartId l = fresh_id e s) new"
      "(\<Sum>l\<leftarrow>new. cl_lineTotal l) = priced_sum ls us"
      "filter (\<lambda>p. clo_tenantId p \<noteq> tid) opts = filter (\<lambda>p. clo_tenantId p \<noteq> tid) (tb_cartLineOptions s)"
    using insertLines_priced [OF l us] t by (auto simp: insert_row_Inr)
  have pos: "0 \<le> u * nl_quantity l" if "(l, u) \<in> set (zip ls us)" for l u
    using insertLines_nonneg [OF l us] that by (auto simp: list_all_iff)
  have cents: "list_all (\<lambda>l. 0 \<le> cents (nl_lineTotal l)) ls" "(\<Sum>l\<leftarrow>ls. cents (nl_lineTotal l)) = priced_sum ls us"
    using us pos by (induction rule: list_all2_induct) (auto simp: line_at_def)
  have "0 \<le> y \<and> y \<le> priced_sum ls us \<and> tt = priced_sum ls us - y" by (rule disc [OF n(2) cents])
  then have "discounted ?c" by (simp add: discounted_def xz)
  moreover have "\<forall>q \<in> set (tb_carts s). c_id q \<noteq> c_id ?c"
    using t by (auto simp: insert_row_Inr cart_clash_def)
  ultimately have "carts_ok (s\<lparr>tb_carts := tb_carts s @ [?c], tb_cartLines := tb_cartLines s @ new\<rparr>)"
    using new by (intro carts_ok_add [OF ok]) (simp_all add: xz)
  then have "carts_ok s'" by (subst carts_ok_frame) (simp_all add: s')
  moreover have "list_all (\<lambda>l. cl_tenantId l = tid) new" using new(1) by (simp add: list_all_iff)
  ultimately show ?thesis using s' created new(3) by (intro that [of m opts new ?c]) (simp_all only: cartRow_simps)
qed

lemma createCart_ok:
  assumes ok: "carts_ok s" and b: "buildCart e tenant request s0 = Inr inp"
    and run: "createCart e tid inp s = Inr (created, s')"
  obtains c new opts n where "s' = s\<lparr>tb_carts := tb_carts s @ [c], tb_cartLines := tb_cartLines s @ new,
      tb_cartLineOptions := opts, uuid_next := n\<rparr>"
    "carts_ok s'" "c_tenantId c = tid" "c_id c = fresh_id e s" "created = findCart tid (fresh_id e s) s'"
    "list_all (\<lambda>l. cl_tenantId l = tid) new" "filter (\<lambda>p. clo_tenantId p \<noteq> tid) opts = filter (\<lambda>p. clo_tenantId p \<noteq> tid) (tb_cartLineOptions s)"
proof -
  obtain ls sub dt tt app where pl: "priceLines tenant (fst request) (Some 0) s0 = Inr (ls, Some sub)"
    and ini: "initialDiscount e (st_id tenant) (snd request) ls sub s0 = Inr (dt, tt, app)"
    and inp: "nc_subtotal inp = centsToMoney sub" "nc_discountTotal inp = dt" "nc_total inp = centsToMoney tt"
      "nc_lines inp = ls"
    using b by (auto simp: buildCart_def split: option.splits)
  obtain us where us: "list_all2 line_at ls us" "sub = priced_sum ls us"
    using priceLines_priced [OF pl] by auto
  have disc: "0 \<le> d \<and> d \<le> priced_sum ls us \<and> tt = priced_sum ls us - d"
    if d: "numeric_text (nc_discountTotal inp) = Inr d" "list_all (\<lambda>l. 0 \<le> cents (nl_lineTotal l)) ls"
      "(\<Sum>l\<leftarrow>ls. cents (nl_lineTotal l)) = priced_sum ls us" for d
    using initialDiscount_ok [OF ini [unfolded us(2)] d(2,3) d(1) [unfolded inp(2)]] .
  show ?thesis
    by (rule createCart_amounts [OF ok us(1) inp(1) [unfolded us(2)] inp(3,4) _ run])
      ((rule disc, assumption+), (rule that, assumption+))
qed

lemma claim_carts: "claim e inp s = Inr (c, s1) \<Longrightarrow> carts_ok s1 = carts_ok s"
  by (rule carts_ok_frame) (subst claim_state, assumption, simp)+

lemma completeClaim_carts: "carts_ok (completeClaim e rid resp s) = carts_ok s"
  by (rule carts_ok_frame) (simp_all add: completeClaim_def)

lemma createCartIn_ok:
  assumes ok: "carts_ok s" and run: "createCartIn e tenant request key s = Inr (v, s')"
  shows "carts_ok s'"
proof -
  obtain c s1 where c: "claim e (cartClaim (st_id tenant) key request) s = Inr (c, s1)"
    using run by (auto simp: createCartIn_def split: if_splits)
  have ok1: "carts_ok s1" using ok claim_carts [OF c] by simp
  show ?thesis
  proof (cases c)
    case (Replayed body)
    then show ?thesis using run c ok1 by (auto simp: createCartIn_def split: if_splits option.splits)
  next
    case (Claimed rid)
    then obtain inp created s2 body where b: "buildCart e tenant request s1 = Inr inp"
      and cr: "createCart e (st_id tenant) inp s1 = Inr (created, s2)"
      and s': "s' = completeClaim e rid body s2"
      using run c by (auto simp: createCartIn_def split: if_splits option.splits)
    have "carts_ok s2" by (rule createCart_ok [OF ok1 b cr])
    then show ?thesis by (simp add: s' completeClaim_carts)
  qed
qed

section \<open>Every use of the service keeps the amounts\<close>

lemma with_tenant_inv:
  assumes "I s" "\<And>r s'. body s = Inr (r, s') \<Longrightarrow> I s'"
  shows "I (snd (with_tenant body s))"
  using assms by (auto simp: with_tenant_def transact_def split: sum.split)

lemma as_visitor_inv:
  assumes "I s" "\<And>tenant r s'. body tenant s = Inr (r, s') \<Longrightarrow> I s'"
  shows "I (snd (as_visitor e cid slug body s))"
  using assms by (auto simp: as_visitor_def split: sum.split intro: with_tenant_inv)

text \<open>The requests of customers, in any order, on the limiter and the database.\<close>

inductive cart_step :: "(string \<Rightarrow> bool) \<Rightarrow> attempts \<times> db \<Rightarrow> attempts \<times> db \<Rightarrow> bool" for isUuid where
  create: "cart_step isUuid (m, s) (m, snd (cartCreate isUuid e cid slug request key s))"
| get: "cart_step isUuid (m, s) (m, snd (cartGet e cid slug cartId s))"
| apply_coupon: "cart_step isUuid (m, s) (snd (cartApplyDiscount e cid slug cartId code ip (m, s)))"
| remove_coupon: "cart_step isUuid (m, s) (m, snd (cartRemoveDiscount e cid slug cartId s))"

inductive cart_run :: "(string \<Rightarrow> bool) \<Rightarrow> attempts \<times> db \<Rightarrow> attempts \<times> db \<Rightarrow> bool" for isUuid where
  stay: "cart_run isUuid x x"
| step: "cart_run isUuid x y \<Longrightarrow> cart_step isUuid y z \<Longrightarrow> cart_run isUuid x z"

lemma cartCreate_ok: "carts_ok s \<Longrightarrow> carts_ok (snd (cartCreate isUuid e cid slug request key s))"
  by (auto simp: cartCreate_def split: option.split sum.split intro: with_tenant_inv createCartIn_ok)

lemma cartApplyDiscount_ok:
  assumes "carts_ok s"
  shows "carts_ok (snd (snd (cartApplyDiscount e cid slug cartId code ip (m, s))))"
proof -
  have "carts_ok (snd (with_tenant (applyDiscountIn e tenant cartId data) s))"
    if "couponFor e tenant cartId code s = (Inr data, v)" for tenant data v
    by (rule with_tenant_inv [of carts_ok]) (use assms that in \<open>auto intro: couponFor_ok\<close>)
  then show ?thesis
    using assms by (auto simp: cartApplyDiscount_def Let_def case_prod_unfold split: sum.split)
      (metis prod.collapse)
qed

lemma cart_step_ok: "cart_step isUuid x y \<Longrightarrow> carts_ok (snd x) \<Longrightarrow> carts_ok (snd y)"
proof (induction rule: cart_step.induct)
  case (get m s e cid slug cartId)
  then show ?case unfolding cartGet_def by (auto intro: as_visitor_inv getCartIn_ok)
next
  case (remove_coupon m s e cid slug cartId)
  then show ?case unfolding cartRemoveDiscount_def by (auto intro: as_visitor_inv removeDiscountIn_ok)
qed (auto intro: cartCreate_ok cartApplyDiscount_ok)

text \<open>
  C28. Whatever customers send, in any order and any number of times (carts created, read back,
  coupons applied and removed, requests that fail half way and are rolled back): every stored
  cart's subtotal is the sum of its lines, each line the unit price times the quantity, the
  discount lies between nothing and the subtotal, and the total is their difference.
\<close>

theorem cart_amounts_invariant:
  assumes "cart_run isUuid x y" and "carts_ok (snd x)"
  shows "carts_ok (snd y)"
  using assms by (induction rule: cart_run.induct) (auto intro: cart_step_ok)

section \<open>A sample store\<close>

definition sample_store :: db where
  "sample_store = empty_db\<lparr>
     tb_tenants := [\<lparr>t_id = ''t1'', t_name = ''La Pizza'', t_slug = ''la-pizza'', t_normalizedSlug = ''la-pizza'',
       t_status = ActiveTenant, t_preset = Gastronomy, t_defaultCurrency = ''ARS'',
       t_defaultTimezone = ''America/Argentina/Buenos_Aires'', t_version = 1, t_activatedAt = None, t_suspendedAt = None,
       t_updatedAt = 0\<rparr>],
     tb_locations := [\<lparr>tl_id = ''l1'', tl_tenantId = ''t1'', tl_name = ''Centro'',
       tl_timezone = ''America/Argentina/Buenos_Aires'', tl_active = True, tl_isPrimary = True,
       tl_address = Some \<lparr>la_lat = Some 0, la_lng = Some 0, la_formattedAddress = None\<rparr>,
       tl_openingHours = (\<lambda>_. None), tl_updatedAt = 0\<rparr>],
     tb_settings := [\<lparr>ts_tenantId = ''t1'', ts_contactName = None, ts_contactEmail = None, ts_contactPhone = None,
       ts_salesEnabled = True, ts_printingEnabled = False, ts_orderPrefix = ''K'', ts_menuTheme = ClassicTheme,
       ts_slackCashAlertWebhookUrl = None, ts_ownerCashAlertWhatsAppPhone = None, ts_version = 1, ts_updatedAt = 0\<rparr>],
     tb_integrations := [\<lparr>ia_id = ''i1'', ia_tenantId = ''t1'', ia_providerAccountId = ''mp1'', ia_status = IaActive,
       ia_envelope = ''sealed'', ia_keyVersion = 1, ia_scopes = [], ia_expiresAt = None, ia_lastVerifiedAt = None,
       ia_webhookRoutingKey = ''k'', ia_version = 1, ia_updatedAt = 0\<rparr>],
     tb_items := [\<lparr>ci_id = ''p1'', ci_tenantId = ''t1'', ci_categoryId = ''c1'', ci_name = ''Muzzarella'',
       ci_normalizedName = ''muzzarella'', ci_description = None, ci_price = 100000, ci_currency = ''ARS'',
       ci_itemType = Unit, ci_barcode = None, ci_isGeneric = False,
       ci_genericIcon = None, ci_trackStock = True, ci_stockQuantity = 5, ci_imageAssetId = None,
       ci_videoAssetId = None, ci_status = Active, ci_sortOrder = 0, ci_version = 1, ci_archivedAt = None,
       ci_updatedAt = 0\<rparr>]\<rparr>"

definition sample_order :: "CartSelection list \<times> string option" where
  "sample_order = ([\<lparr>sel_kind = Item, sel_resourceId = ''p1'', sel_quantity = 2, sel_optionIds = [],
     sel_note = None, sel_confirmedUnitPrice = Some ''1000.00'', sel_calculatedSubtotal = None\<rparr>], None)"

lemma sample_created:
  "\<exists>v s'. cartCreate (\<lambda>_. True) sample_env ''r1'' ''la-pizza'' sample_order ''k1'' sample_store = (Inr v, s')
     \<and> c_total (sc_cart (cv_cart v)) = 200000"
proof -
  have "case fst (cartCreate (\<lambda>_. True) sample_env ''r1'' ''la-pizza'' sample_order ''k1'' sample_store) of
      Inl e \<Rightarrow> False | Inr v \<Rightarrow> c_total (sc_cart (cv_cart v)) = 200000" by code_simp
  then obtain v where "fst (cartCreate (\<lambda>_. True) sample_env ''r1'' ''la-pizza'' sample_order ''k1'' sample_store) = Inr v"
    "c_total (sc_cart (cv_cart v)) = 200000"
    by (cases "fst (cartCreate (\<lambda>_. True) sample_env ''r1'' ''la-pizza'' sample_order ''k1'' sample_store)")
      (simp_all only: sum.case)
  then show ?thesis by (metis prod.collapse)
qed

lemma sample_store_ok: "carts_ok sample_store"
  by (simp add: carts_ok_def sample_store_def empty_db_def)

theorem cart_amounts_invariant_witness:
  "\<exists>v s'. cartCreate (\<lambda>_. True) sample_env ''r1'' ''la-pizza'' sample_order ''k1'' sample_store = (Inr v, s')
     \<and> c_total (sc_cart (cv_cart v)) = 200000 \<and> carts_ok s'"
proof -
  obtain v s' where c: "cartCreate (\<lambda>_. True) sample_env ''r1'' ''la-pizza'' sample_order ''k1'' sample_store = (Inr v, s')"
    "c_total (sc_cart (cv_cart v)) = 200000" using sample_created by blast
  have "cart_run (\<lambda>_. True) (\<lambda>_. None, sample_store) (\<lambda>_. None, s')"
    using cart_run.step [OF cart_run.stay cart_step.create] c(1) by (metis snd_conv)
  from cart_amounts_invariant [OF this] c sample_store_ok show ?thesis by auto
qed

section \<open>A request creates one cart\<close>

lemma insertLines_state:
  "insertLines e tid cid ls s = Inr s' \<Longrightarrow>
     \<exists>t opts n. s' = s\<lparr>tb_cartLines := t, tb_cartLineOptions := opts, uuid_next := n\<rparr>"
proof (induction ls arbitrary: s)
  case Nil
  then show ?case
    by (intro exI [of _ "tb_cartLines s"] exI [of _ "tb_cartLineOptions s"] exI [of _ "uuid_next s"]) simp
next
  case (Cons l ls)
  obtain lid t s1 where o1: "insertLineOptions e tid lid (nl_options l)
      (s\<lparr>tb_cartLines := t, uuid_next := Suc (uuid_next s)\<rparr>) = Inr s1"
    and rest: "insertLines e tid cid ls s1 = Inr s'"
    using Cons.prems by (auto simp: Let_def)
  obtain u m where "s1 = s\<lparr>tb_cartLines := t, tb_cartLineOptions := u, uuid_next := m\<rparr>"
    using insertLineOptions_state [OF o1] by auto
  moreover obtain t' opts n where "s' = s1\<lparr>tb_cartLines := t', tb_cartLineOptions := opts, uuid_next := n\<rparr>"
    using Cons.IH [OF rest] by blast
  ultimately show ?case by (intro exI [of _ t'] exI [of _ opts] exI [of _ n]) simp
qed

lemma createCart_state:
  assumes "createCart e tid inp s = Inr (created, s')"
  obtains c t opts n where "s' = s\<lparr>tb_carts := tb_carts s @ [c], tb_cartLines := t, tb_cartLineOptions := opts, uuid_next := n\<rparr>"
    "c_id c = fresh_id e s" "c_tenantId c = tid" "created = findCart tid (fresh_id e s) s'"
proof -
  obtain x y z t where t: "insert_row cart_check cart_clash (cartRow e tid inp x y z s) (tb_carts s) = Inr t"
    and l: "insertLines e tid (fresh_id e s) (nc_lines inp) (s\<lparr>tb_carts := t, uuid_next := Suc (uuid_next s)\<rparr>) = Inr s'"
    and created: "created = findCart tid (fresh_id e s) s'"
    using assms by (auto simp: createCart_def Let_def)
  obtain t' opts n where "s' = s\<lparr>tb_carts := t, uuid_next := Suc (uuid_next s),
      tb_cartLines := t', tb_cartLineOptions := opts, uuid_next := n\<rparr>"
    using insertLines_state [OF l] by blast
  then have "s' = s\<lparr>tb_carts := tb_carts s @ [cartRow e tid inp x y z s], tb_cartLines := t',
      tb_cartLineOptions := opts, uuid_next := n\<rparr>"
    using t by (simp add: insert_row_Inr)
  then show ?thesis using created by (rule that [OF _ cartRow_simps(1,2)])
qed

lemma findCart_id: "findCart tid i s = Some cart \<Longrightarrow> c_id (sc_cart cart) = i"
  by (auto simp: findCart_def split: option.splits dest: sel1_Some_P)

lemma findCart_frame:
  "tb_carts s' = tb_carts s \<Longrightarrow> tb_cartLines s' = tb_cartLines s \<Longrightarrow> tb_cartLineOptions s' = tb_cartLineOptions s
     \<Longrightarrow> findCart tid i s' = findCart tid i s"
  by (simp add: findCart_def split: option.split)

lemma body_cart_body [simp]: "i \<noteq> [] \<Longrightarrow> body_cart (cart_body i) = Some i"
  by (simp add: body_cart_def cart_body_def)

text \<open>What the visits of a store read of the database, and that creating a cart leaves it alone.\<close>

definition store_view where
  "store_view s = (tb_tenants s, tb_locations s, tb_settings s, tb_integrations s, tb_items s)"

lemma readiness_frame:
  "store_view s' = store_view s \<Longrightarrow> e_collate e' = e_collate e \<Longrightarrow>
     fetchTenantReadiness e' tid s' = fetchTenantReadiness e tid s"
  by (simp add: store_view_def fetchTenantReadiness_def readiness_checks_def primary_location_def Let_def
      cong: option.case_cong)

lemma storefront_frame:
  "store_view s' = store_view s \<Longrightarrow> e_collate e' = e_collate e \<Longrightarrow>
     resolveStorefront e' slug s' = resolveStorefront e slug s"
  by (simp add: store_view_def resolveStorefront_def primary_location_def cong: option.case_cong)

lemma claim_store_view: "claim e inp s = Inr (c, s1) \<Longrightarrow> store_view s1 = store_view s"
  by (subst claim_state, assumption) (simp add: store_view_def)

lemma createCartIn_twice:
  assumes run: "createCartIn e tenant request key s = Inr (v, s')"
    and ids: "\<And>n. e_uuid e n \<noteq> []"
    and env: "e_collate e' = e_collate e" "e_hash e' = e_hash e" "js_trim key' = js_trim key"
  shows "createCartIn e' tenant request key' s' = Inr (v, s') \<and> store_view s' = store_view s"
proof -
  let ?i = "cartClaim (st_id tenant) key request" and ?i' = "cartClaim (st_id tenant) key' request"
  have same: "same_request (e, ?i) (e', ?i')"
    using env by (simp add: same_request_def cartClaim_def requestHash_def)
  obtain el c s1 where el: "fetchTenantReadiness e (st_id tenant) s = Inr el" "te_orderingAvailable el"
    and c: "claim e ?i s = Inr (c, s1)"
    using run by (auto simp: createCartIn_def split: if_splits)
  obtain body where again: "claim e' ?i' s' = Inr (Replayed body, s')" "store_view s' = store_view s"
    "Option.bind (body_cart (snd body)) (\<lambda>i. findCart (st_id tenant) i s') = Some (cv_cart v)"
    "v = withStoreSchedule (cv_cart v) None tenant"
  proof (cases c)
    case (Replayed body)
    have s1: "s1 = s" using c Replayed claim_replays_state by blast
    have s': "s' = s" "Option.bind (body_cart (snd body)) (\<lambda>i. findCart (st_id tenant) i s) = Some (cv_cart v)"
      "v = withStoreSchedule (cv_cart v) None tenant"
      using run el c by (auto simp: createCartIn_def Replayed s1 withStoreSchedule_def split: option.splits)
    have "claim e' ?i' s = Inr (Replayed body, s)"
      using idem.replays_again [OF _ same, of s body] c by (simp add: Replayed s1)
    then show ?thesis using that s' by simp
  next
    case (Claimed rid)
    obtain inp cart s2 where cr: "createCart e (st_id tenant) inp s1 = Inr (Some cart, s2)"
      and s': "s' = completeClaim e rid (201, cart_body (c_id (sc_cart cart))) s2"
      and v: "v = withStoreSchedule cart None tenant"
      using run el c by (auto simp: createCartIn_def Claimed split: option.splits)
    obtain t l opts n where s2: "s2 = s1\<lparr>tb_carts := t, tb_cartLines := l, tb_cartLineOptions := opts, uuid_next := n\<rparr>"
      and cart: "Some cart = findCart (st_id tenant) (fresh_id e s1) s2"
      by (rule createCart_state [OF cr]) blast
    have id: "c_id (sc_cart cart) = fresh_id e s1" using findCart_id cart by metis
    have "claim e' ?i' s' = Inr (Replayed (201, cart_body (fresh_id e s1)), s')"
      using idem.claim_completed [OF _ _ same, of s rid s1 s2] c by (simp add: s' s2 id Claimed)
    moreover have "findCart (st_id tenant) (fresh_id e s1) s' = Some cart"
      unfolding cart s' by (rule findCart_frame) (simp_all add: completeClaim_def)
    moreover have "store_view s' = store_view s"
      unfolding s' s2 using claim_store_view [OF c] by (simp add: completeClaim_def store_view_def)
    ultimately show ?thesis
      using that ids [of "uuid_next s1"] v by (simp add: fresh_id_def withStoreSchedule_def)
  qed
  have "fetchTenantReadiness e' (st_id tenant) s' = Inr el"
    using readiness_frame [OF again(2) env(1)] el(1) by simp
  then show ?thesis
    using again el(2) by (simp add: createCartIn_def split: option.splits)
qed

text \<open>
  C29. One request, one cart. A customer's request that was answered with a cart and is sent again
  under the same key (after a lost answer, by a second click, to another process, at any later
  time) is answered with that cart and changes nothing: no second cart, no new line.
\<close>

theorem cart_created_once:
  assumes "cartCreate isUuid e cid slug value key s = (Inr v, s')" and "\<And>n. e_uuid e n \<noteq> []"
    and "e_collate e' = e_collate e" "e_hash e' = e_hash e" and "js_trim key' = js_trim key" and "cid' \<noteq> []"
  shows "cartCreate isUuid e' cid' slug value key' s' = (Inr v, s')"
proof -
  obtain request tenant where r: "createCartSchema isUuid value = Some request"
    and t: "resolveStorefront e slug s = Inr tenant" "\<exists>ctx. publicContext tenant cid = Inr ctx"
    and run: "createCartIn e tenant request key s = Inr (v, s')"
    using assms(1) by (auto simp: cartCreate_def with_tenant_def transact_commit split: option.splits sum.splits)
  note twice = createCartIn_twice [OF run assms(2-5)]
  have "resolveStorefront e' slug s' = Inr tenant"
    using storefront_frame [of s' s e' e] twice assms(3) t(1) by simp
  moreover have "\<exists>ctx. publicContext tenant cid' = Inr ctx"
    using t(2) assms(6) by (auto simp: publicContext_def createVerifiedTenantContext_def split: if_splits)
  ultimately show ?thesis
    using r twice by (auto simp: cartCreate_def with_tenant_def transact_def)
qed

theorem cart_created_once_witness:
  "\<exists>v s'. cartCreate (\<lambda>_. True) sample_env ''r1'' ''la-pizza'' sample_order ''k1'' sample_store = (Inr v, s')
     \<and> cartCreate (\<lambda>_. True) (sample_env\<lparr>e_now := 1800000000000\<rparr>) ''r2'' ''la-pizza'' sample_order '' k1'' s' = (Inr v, s')"
proof -
  obtain v s' where c: "cartCreate (\<lambda>_. True) sample_env ''r1'' ''la-pizza'' sample_order ''k1'' sample_store = (Inr v, s')"
    using sample_created by blast
  have "js_trim '' k1'' = js_trim ''k1''" by code_simp
  then show ?thesis
    using cart_created_once [OF c, of "sample_env\<lparr>e_now := 1800000000000\<rparr>" "'' k1''" "''r2''"] c
    by (auto simp: sample_env_def)
qed

section \<open>Guessing coupons\<close>

lemma discountCheck_fresh: "m key = None \<Longrightarrow> discountCheckRateLimit m key now = ((True, 0), m)"
  by (simp add: discountCheckRateLimit_def checkAttempts_def)

text \<open>
  The limit on coupon guesses counts per spelling of the store's name in the address, before
  the name is normalised: a customer who is blocked asks again under another spelling of the same
  store and is answered exactly as a customer who never guessed, whatever the limiter has counted
  under the first spelling.
\<close>

theorem coupon_limit_per_spelling:
  assumes "normalizeTenantSlug slug' = normalizeTenantSlug slug" and "m (couponKey ip slug') = None"
  shows "fst (cartApplyDiscount e cid slug' cartId code ip (m, s))
    = fst (cartApplyDiscount e cid slug cartId code ip (m(couponKey ip slug := None), s))"
proof -
  have "resolveStorefront e slug' s = resolveStorefront e slug s"
    using assms(1) by (simp add: resolveStorefront_def)
  moreover have "discountCheckRateLimit m (couponKey ip slug') (e_now e) = ((True, 0), m)"
    "discountCheckRateLimit (m(couponKey ip slug := None)) (couponKey ip slug) (e_now e)
      = ((True, 0), m(couponKey ip slug := None))"
    using assms(2) by (simp_all add: discountCheck_fresh)
  ultimately show ?thesis
    by (cases "bnd (resolveStorefront e slug s) (\<lambda>tenant. bnd (publicContext tenant cid) (\<lambda>_. Inr tenant))")
      (simp_all add: cartApplyDiscount_def Let_def case_prod_unfold del: bnd_Inr_iff split: sum.split)
qed

theorem coupon_limit_per_spelling_witness:
  "let m = (\<lambda>_. None)(''ip:la-pizza'' := Some \<lparr>failures = 5, windowStart = 0\<rparr>); e = sample_env\<lparr>e_now := 1000\<rparr> in
     fst (cartApplyDiscount e ''r'' ''la-pizza'' ''c'' ''X'' ''ip'' (m, empty_db)) = Inl (RateLimited 59)
     \<and> fst (cartApplyDiscount e ''r'' ''La-Pizza'' ''c'' ''X'' ''ip'' (m, empty_db)) = Inl StorefrontNotFound"
proof -
  define m :: attempts where "m = (\<lambda>_. None)(''ip:la-pizza'' := Some \<lparr>failures = 5, windowStart = 0\<rparr>)"
  define e where "e = sample_env\<lparr>e_now := 1000\<rparr>"
  have "fst (cartApplyDiscount e ''r'' ''la-pizza'' ''c'' ''X'' ''ip'' (m, empty_db)) = Inl (RateLimited 59)"
    unfolding m_def e_def by code_simp
  moreover have "normalizeTenantSlug ''La-Pizza'' = normalizeTenantSlug ''la-pizza''"
    "m (couponKey ''ip'' ''La-Pizza'') = None"
    unfolding m_def by code_simp+
  from coupon_limit_per_spelling [of "''La-Pizza''" "''la-pizza''" m "''ip''", OF this]
  have "fst (cartApplyDiscount e ''r'' ''La-Pizza'' ''c'' ''X'' ''ip'' (m, empty_db))
    = fst (cartApplyDiscount e ''r'' ''la-pizza'' ''c'' ''X'' ''ip'' (m(couponKey ''ip'' ''la-pizza'' := None), empty_db))" .
  moreover have "fst (cartApplyDiscount e ''r'' ''la-pizza'' ''c'' ''X'' ''ip''
      (m(couponKey ''ip'' ''la-pizza'' := None), empty_db)) = Inl StorefrontNotFound"
    unfolding m_def e_def by code_simp
  ultimately show ?thesis by (simp add: m_def e_def Let_def)
qed

end
