(* ===== verification/OrderRepo.thy ===== *)
theory OrderRepo
  imports Carts
begin

text \<open>
  \<open>src/features/orders/infrastructure/order.repository.ts\<close>: orders made from a cart, their
  status, and the log of their events.

  \<^item> An order as returned is its row with its lines and their options; the columns' text forms
    (money, instants) are those of \<open>Schema\<close>. The counters and \<open>appendEvent\<close> are in \<open>Db\<close>.
  \<^item> A parameter that may be \<open>undefined\<close> or \<open>null\<close> is an option of an option.
  \<^item> What these operations leave in each table is stated in \<open>Effects\<close> and \<open>Sales\<close>; that the logs stay
    numbered without gaps in \<open>Frames\<close>; that orders agree with their lines in \<open>Shop\<close>.
\<close>

section \<open>Views\<close>

record order_view =
  ov_order :: order_row
  ov_lines :: "(order_line_row \<times> order_line_option_row list) list"

definition serializeOrder :: "order_row \<Rightarrow> order_line_row list \<Rightarrow> order_line_option_row list \<Rightarrow> order_view" where
  "serializeOrder order lines options =
     \<lparr>ov_order = order,
      ov_lines = map (\<lambda>line. (line, filter (\<lambda>p. olo_orderLineId p = ol_id line) options)) lines\<rparr>"

definition hydrate :: "string \<Rightarrow> order_row \<Rightarrow> db \<Rightarrow> order_view" where
  "hydrate tid order s =
     (let lines = sort_by (\<lambda>a b. ol_createdAt a \<le> ol_createdAt b)
            (filter (\<lambda>l. ol_tenantId l = tid \<and> ol_orderId l = o_id order) (tb_orderLines s));
          options = filter (\<lambda>p. olo_tenantId p = tid \<and> List.member (map ol_id lines) (olo_orderLineId p))
            (tb_orderLineOptions s)
      in serializeOrder order lines options)"

definition order_key :: "string \<Rightarrow> string \<Rightarrow> order_row \<Rightarrow> bool" where
  "order_key tid orderId r \<longleftrightarrow> o_tenantId r = tid \<and> o_id r = orderId"

definition loadCart :: "TenantContext \<Rightarrow> string \<Rightarrow> db \<Rightarrow> stored_cart option" where
  "loadCart context cartId s = findCart (ctx_tenantId context) cartId s"

definition loadPaymentAttempt :: "TenantContext \<Rightarrow> string \<Rightarrow> db \<Rightarrow> payment_attempt_row option" where
  "loadPaymentAttempt context attemptId s =
     sel1 (\<lambda>r. pa_tenantId r = ctx_tenantId context \<and> pa_id r = attemptId) (tb_attempts s)"

definition findOrder :: "TenantContext \<Rightarrow> string \<Rightarrow> db \<Rightarrow> order_view option" where
  "findOrder context orderId s =
     map_option (\<lambda>r. hydrate (ctx_tenantId context) r s) (sel1 (order_key (ctx_tenantId context) orderId) (tb_orders s))"

definition findByIdempotencyKey :: "TenantContext \<Rightarrow> string \<Rightarrow> db \<Rightarrow> order_view option" where
  "findByIdempotencyKey context key s =
     map_option (\<lambda>r. hydrate (ctx_tenantId context) r s)
       (sel1 (\<lambda>r. o_tenantId r = ctx_tenantId context \<and> o_idempotencyKey r = key) (tb_orders s))"

section \<open>Lists\<close>

text \<open>The order of \<open>uuid\<close> values is that of their canonical text.\<close>

fun text_le :: "string \<Rightarrow> string \<Rightarrow> bool" where
  "text_le [] _ \<longleftrightarrow> True"
| "text_le (c # cs) [] \<longleftrightarrow> False"
| "text_le (c # cs) (d # ds) \<longleftrightarrow>
     (of_char c :: nat) < of_char d \<or> c = d \<and> text_le cs ds"

datatype list_scope = Kitchen | AllOrders

record list_input =
  li_status :: "FulfillmentStatus option"
  li_scope :: "list_scope option"
  li_paymentStatus :: "PaymentStatus option"
  li_cursor :: "int option"
  li_limit :: "int option"

definition list_condition :: "string \<Rightarrow> list_input \<Rightarrow> order_row \<Rightarrow> bool" where
  "list_condition tid inp r \<longleftrightarrow>
     o_tenantId r = tid
     \<and> (if li_scope inp = Some Kitchen
        then o_paymentStatus r = Paid
          \<and> (case li_status inp of None \<Rightarrow> True | Some st \<Rightarrow> o_fulfillmentStatus r = st)
          \<and> (o_fulfillmentStatus r = Approved \<or> o_fulfillmentStatus r = Preparing)
        else (case li_paymentStatus inp of None \<Rightarrow> True | Some st \<Rightarrow> o_paymentStatus r = st)
          \<and> (case li_status inp of
               None \<Rightarrow> o_fulfillmentStatus r = Approved \<or> o_fulfillmentStatus r = Preparing \<or> o_fulfillmentStatus r = Ready
             | Some st \<Rightarrow> o_fulfillmentStatus r = st))
     \<and> (case li_cursor inp of None \<Rightarrow> True | Some c \<Rightarrow> o_createdAt r < c)"

definition created_le :: "order_row \<Rightarrow> order_row \<Rightarrow> bool" where
  "created_le a b \<longleftrightarrow> o_createdAt a < o_createdAt b \<or> o_createdAt a = o_createdAt b \<and> text_le (o_id a) (o_id b)"

definition listOrders :: "TenantContext \<Rightarrow> list_input \<Rightarrow> db \<Rightarrow> order_view list \<times> int option" where
  "listOrders context inp s =
     (let n = nat (orElse (li_limit inp) 50);
          le = (if li_scope inp = Some Kitchen then created_le else (\<lambda>a b. created_le b a));
          rows = take (n + 1) (sort_by le (filter (list_condition (ctx_tenantId context) inp) (tb_orders s)));
          page = take n rows
      in (map (\<lambda>r. hydrate (ctx_tenantId context) r s) page,
          if n < length rows \<and> page \<noteq> [] then Some (o_createdAt (last page)) else None))"

section \<open>An order from a cart\<close>

record new_order =
  no_cart :: stored_cart
  no_source :: OrderSource
  no_paymentStatus :: PaymentStatus
  no_tender :: "OrderTender option"
  no_customer :: json
  no_notes :: "string option"
  no_idempotencyKey :: string
  no_paymentAttemptId :: "string option"
  no_approvedAt :: "int option"
  no_pickupPin :: "string option option"
  no_estimatedWaitMinutes :: "int option option"
  no_estimatedReadyAt :: "int option option"
  no_scheduledFor :: "int option"
  no_paymentExpiresAt :: "int option"

definition activeCount :: "string \<Rightarrow> string \<Rightarrow> db \<Rightarrow> int" where
  "activeCount tid locationId s =
     int (length (filter (\<lambda>r. o_tenantId r = tid \<and> o_locationId r = locationId
       \<and> (o_fulfillmentStatus r = Approved \<or> o_fulfillmentStatus r = Preparing)) (tb_orders s)))"

definition estimatedWait :: "new_order \<Rightarrow> int \<Rightarrow> int option" where
  "estimatedWait inp active =
     (case no_estimatedWaitMinutes inp of Some w \<Rightarrow> w | None \<Rightarrow> Some (15 + active * 3))"

definition estimatedReady :: "new_order \<Rightarrow> int option \<Rightarrow> int \<Rightarrow> int option" where
  "estimatedReady inp wait now =
     (case no_estimatedReadyAt inp of
        Some r \<Rightarrow> r
      | None \<Rightarrow> (case no_scheduledFor inp of
                   Some t \<Rightarrow> Some t
                 | None \<Rightarrow> Some (now + orElse wait 15 * 60 * 1000)))"

definition discountSnapshot :: "cart_row \<Rightarrow> discount_snapshot option" where
  "discountSnapshot cart =
     (case (c_appliedDiscountCodeId cart, c_discountMetadata cart) of
        (Some did, Some m) \<Rightarrow>
          if did = [] then None
          else Some \<lparr>ds_discountId = did, ds_code = dm_code m, ds_name = dm_name m,
            ds_discountType = dm_discountType m, ds_discountValue = dm_discountValue m,
            ds_amountDeducted = c_discountTotal cart\<rparr>
      | _ \<Rightarrow> None)"

definition orderRow :: "env \<Rightarrow> string \<Rightarrow> new_order \<Rightarrow> int \<Rightarrow> int \<Rightarrow> db \<Rightarrow> order_row" where
  "orderRow e tid inp purchaseNumber active s =
     (let cart = sc_cart (no_cart inp); now = e_now e; wait = estimatedWait inp active in
      \<lparr>o_id = fresh_id e s, o_tenantId = tid, o_locationId = c_locationId cart, o_cartId = c_id cart,
       o_paymentAttemptId = no_paymentAttemptId inp, o_purchaseNumber = purchaseNumber,
       o_source = no_source inp, o_fulfillmentStatus = Approved, o_paymentStatus = no_paymentStatus inp,
       o_tender = orElse (no_tender inp) TCash, o_customerSnapshot = no_customer inp, o_notes = no_notes inp,
       o_subtotal = c_subtotal cart, o_discountTotal = c_discountTotal cart, o_total = c_total cart,
       o_discountSnapshot = discountSnapshot cart,
       o_pickupPin = (case no_pickupPin inp of Some p \<Rightarrow> p | None \<Rightarrow> Some (e_pin e)),
       o_estimatedWaitMinutes = wait, o_estimatedReadyAt = estimatedReady inp wait now,
       o_scheduledFor = no_scheduledFor inp, o_paymentExpiresAt = no_paymentExpiresAt inp,
       o_currency = c_currency cart, o_idempotencyKey = no_idempotencyKey inp,
       o_approvedAt = Some (orElse (no_approvedAt inp) now), o_deliveredAt = None, o_version = 1,
       o_createdAt = now, o_updatedAt = now\<rparr>)"

text \<open>The guarded update of the stock, and the check that it was not the guard that failed.\<close>

definition deductStock :: "env \<Rightarrow> string \<Rightarrow> cart_line_row \<Rightarrow> db \<Rightarrow> app_error + db" where
  "deductStock e tid line s =
     (if \<not> nonempty (cl_itemId line) \<or> cl_itemType line = Weighted then Inr s
      else
        (let iid = the (cl_itemId line);
             here = (\<lambda>r. ci_tenantId r = tid \<and> ci_id r = iid \<and> ci_trackStock r \<and> cl_quantity line \<le> ci_stockQuantity r);
             take_stock = (\<lambda>r. r\<lparr>ci_stockQuantity := ci_stockQuantity r - cl_quantity line, ci_updatedAt := e_now e\<rparr>);
             deducted = list_ex here (tb_items s);
             items = upd here take_stock (tb_items s)
         in case sel1 (\<lambda>r. ci_tenantId r = tid \<and> ci_id r = iid) items of
              Some itemCheck \<Rightarrow>
                if ci_trackStock itemCheck \<and> \<not> deducted then Inl (OrderConflict (InsufficientStock (cl_nameSnapshot line)))
                else Inr (s\<lparr>tb_items := items\<rparr>)
            | None \<Rightarrow> Inr (s\<lparr>tb_items := items\<rparr>)))"

definition orderLineRow :: "env \<Rightarrow> string \<Rightarrow> string \<Rightarrow> cart_line_row \<Rightarrow> db \<Rightarrow> order_line_row" where
  "orderLineRow e tid orderId line s =
     \<lparr>ol_id = fresh_id e s, ol_tenantId = tid, ol_orderId = orderId, ol_sourceItemId = cl_itemId line,
      ol_sourceComboId = cl_comboId line, ol_itemType = cl_itemType line, ol_name = cl_nameSnapshot line,
      ol_quantity = cl_quantity line, ol_unitPrice = cl_unitPriceSnapshot line, ol_lineTotal = cl_lineTotal line,
      ol_imageUrl = cl_imageUrlSnapshot line, ol_note = cl_note line, ol_createdAt = e_now e\<rparr>"

definition orderLineOptionRow :: "env \<Rightarrow> string \<Rightarrow> string \<Rightarrow> cart_line_option_row \<Rightarrow> db \<Rightarrow> order_line_option_row" where
  "orderLineOptionRow e tid lineId opt s =
     \<lparr>olo_id = fresh_id e s, olo_tenantId = tid, olo_orderLineId = lineId,
      olo_addonGroupId = Some (clo_addonGroupId opt), olo_addonOptionId = Some (clo_addonOptionId opt),
      olo_name = clo_nameSnapshot opt, olo_priceDelta = clo_priceDeltaSnapshot opt, olo_quantity = clo_quantity opt\<rparr>"

fun copyOptions :: "env \<Rightarrow> string \<Rightarrow> string \<Rightarrow> cart_line_option_row list \<Rightarrow> db \<Rightarrow> app_error + db" where
  "copyOptions e tid lineId [] s = Inr s"
| "copyOptions e tid lineId (opt # opts) s =
     bnd (lift_db (insert_row order_line_option_check order_line_option_clash
            (orderLineOptionRow e tid lineId opt s) (tb_orderLineOptions s))) (\<lambda>t.
     copyOptions e tid lineId opts (s\<lparr>tb_orderLineOptions := t, uuid_next := Suc (uuid_next s)\<rparr>))"

fun copyLines ::
  "env \<Rightarrow> string \<Rightarrow> string \<Rightarrow> (cart_line_row \<times> cart_line_option_row list) list \<Rightarrow> db \<Rightarrow> app_error + db" where
  "copyLines e tid orderId [] s = Inr s"
| "copyLines e tid orderId ((line, opts) # rest) s =
     bnd (deductStock e tid line s) (\<lambda>s1.
     let created = orderLineRow e tid orderId line s1 in
     bnd (lift_db (insert_row order_line_check order_line_clash created (tb_orderLines s1))) (\<lambda>t.
     bnd (copyOptions e tid (ol_id created) opts (s1\<lparr>tb_orderLines := t, uuid_next := Suc (uuid_next s1)\<rparr>)) (\<lambda>s2.
     copyLines e tid orderId rest s2)))"

definition convertCart :: "env \<Rightarrow> string \<Rightarrow> string \<Rightarrow> db \<Rightarrow> db" where
  "convertCart e tid cartId s =
     s\<lparr>tb_carts := upd (\<lambda>r. c_tenantId r = tid \<and> c_id r = cartId)
        (\<lambda>r. r\<lparr>c_status := CartConverted, c_updatedAt := e_now e\<rparr>) (tb_carts s)\<rparr>"

definition redeemCoupon :: "env \<Rightarrow> string \<Rightarrow> string \<Rightarrow> cart_row \<Rightarrow> db \<Rightarrow> db" where
  "redeemCoupon e tid orderId cart s =
     (if nonempty (c_appliedDiscountCodeId cart) \<and> 0 < c_discountTotal cart
      then snd (recordRedemption e tid
        \<lparr>ri_orderId = orderId, ri_cartId = c_id cart, ri_discountId = the (c_appliedDiscountCodeId cart),
         ri_amountDeducted = c_discountTotal cart,
         ri_codeSnapshot = (case c_discountMetadata cart of None \<Rightarrow> ''DISCOUNT'' | Some m \<Rightarrow> dm_code m)\<rparr> s)
      else s)"

fun source_name :: "OrderSource \<Rightarrow> string" where
  "source_name MercadopagoWebhook = ''mercadopago_webhook''"
| "source_name AdminDirect = ''admin_direct''"
| "source_name StorefrontCash = ''storefront_cash''"

fun payment_name :: "PaymentStatus \<Rightarrow> string" where
  "payment_name Pending = ''pending''"
| "payment_name Paid = ''paid''"
| "payment_name PayFailed = ''failed''"
| "payment_name Refunded = ''refunded''"
| "payment_name VerificationRequired = ''verification_required''"

definition createOrderRow ::
  "env \<Rightarrow> TenantContext \<Rightarrow> new_order \<Rightarrow> db \<Rightarrow> app_error + order_row \<times> db" where
  "createOrderRow e context inp s =
     (let tid = ctx_tenantId context;
          (purchaseNumber, s1) = nextCounter tid ''purchase_number'' s;
          order = orderRow e tid inp purchaseNumber (activeCount tid (c_locationId (sc_cart (no_cart inp))) s1) s1
      in bnd (lift_db (insert_row order_check order_clash order (tb_orders s1))) (\<lambda>t.
           Inr (order, s1\<lparr>tb_orders := t, uuid_next := Suc (uuid_next s1)\<rparr>)))"

definition createFromCartSnapshot ::
  "env \<Rightarrow> TenantContext \<Rightarrow> new_order \<Rightarrow> db \<Rightarrow> app_error + (order_view \<times> bool) \<times> db" where
  "createFromCartSnapshot e context inp s =
     (let tid = ctx_tenantId context; cart = sc_cart (no_cart inp) in
      case findByIdempotencyKey context (no_idempotencyKey inp) s of
        Some existing \<Rightarrow> Inr ((existing, False), s)
      | None \<Rightarrow>
          (case sel1 (\<lambda>r. c_tenantId r = tid \<and> c_id r = c_id cart) (tb_carts s) of
             None \<Rightarrow> Inl (OrderConflict CartAlreadyConverted)
           | Some cartCheck \<Rightarrow>
               if c_status cartCheck = CartConverted then Inl (OrderConflict CartAlreadyConverted)
               else bnd (createOrderRow e context inp s) (\<lambda>(order, s1).
                 bnd (copyLines e tid (o_id order) (sc_lines (no_cart inp)) s1) (\<lambda>s2.
                 let s3 = redeemCoupon e tid (o_id order) cart (convertCart e tid (c_id cart) s2);
                     hydrated = hydrate tid order s3
                 in bnd (appendEvent e context (o_id order) ''order.created'' None (Some Approved)
                           (JObj [(''source'', JStr (source_name (no_source inp))),
                                  (''paymentStatus'', JStr (payment_name (no_paymentStatus inp)))]) s3) (\<lambda>s4.
                      Inr ((hydrated, True), s4))))))"

section \<open>Changing an order\<close>

definition transitionSet :: "env \<Rightarrow> FulfillmentStatus \<Rightarrow> PaymentStatus option \<Rightarrow> order_row \<Rightarrow> order_row" where
  "transitionSet e nextStatus paymentStatus r =
     r\<lparr>o_fulfillmentStatus := nextStatus,
       o_deliveredAt := (if nextStatus = Delivered then Some (e_now e) else o_deliveredAt r),
       o_version := o_version r + 1, o_updatedAt := e_now e,
       o_paymentStatus := (case paymentStatus of None \<Rightarrow> o_paymentStatus r | Some p \<Rightarrow> p)\<rparr>"

definition transitionOrder ::
  "env \<Rightarrow> TenantContext \<Rightarrow> string \<Rightarrow> int \<Rightarrow> FulfillmentStatus \<Rightarrow> PaymentStatus option \<Rightarrow> db \<Rightarrow> order_row option \<times> db" where
  "transitionOrder e context orderId expectedVersion nextStatus paymentStatus s =
     (let here = (\<lambda>r. order_key (ctx_tenantId context) orderId r \<and> o_version r = expectedVersion)
      in (upd_ret here (transitionSet e nextStatus paymentStatus) (tb_orders s),
          s\<lparr>tb_orders := upd here (transitionSet e nextStatus paymentStatus) (tb_orders s)\<rparr>))"

definition updatePaymentStatus ::
  "env \<Rightarrow> TenantContext \<Rightarrow> string \<Rightarrow> PaymentStatus \<Rightarrow> db \<Rightarrow> order_row option \<times> db" where
  "updatePaymentStatus e context orderId paymentStatus s =
     (let setStatus = (\<lambda>r. r\<lparr>o_paymentStatus := paymentStatus, o_version := o_version r + 1, o_updatedAt := e_now e\<rparr>)
      in (upd_ret (order_key (ctx_tenantId context) orderId) setStatus (tb_orders s),
          s\<lparr>tb_orders := upd (order_key (ctx_tenantId context) orderId) setStatus (tb_orders s)\<rparr>))"

section \<open>Reading the event log\<close>

definition listEventsAfter :: "TenantContext \<Rightarrow> int \<Rightarrow> nat \<Rightarrow> db \<Rightarrow> order_event_row list" where
  "listEventsAfter context sequence maxRows s =
     take maxRows (sort_by (\<lambda>a b. oe_sequence a \<le> oe_sequence b)
       (filter (\<lambda>r. oe_tenantId r = ctx_tenantId context \<and> sequence < oe_sequence r) (tb_orderEvents s)))"

definition currentEventSequence :: "TenantContext \<Rightarrow> db \<Rightarrow> int" where
  "currentEventSequence context s = counter (ctx_tenantId context) ''order_event_sequence'' s"

section \<open>Samples\<close>

definition sample_cart :: cart_row where
  "sample_cart = cartRow sample_env ''t1'' \<lparr>nc_locationId = ''l1'', nc_currency = ''ARS'', nc_subtotal = [],
     nc_discountTotal = [], nc_total = [], nc_appliedDiscountCodeId = None, nc_discountMetadata = None,
     nc_expiresAt = 1800000000000, nc_lines = []\<rparr> 200000 0 200000 empty_db"

definition sample_new_order :: "OrderSource \<Rightarrow> PaymentStatus \<Rightarrow> new_order" where
  "sample_new_order source paid =
     \<lparr>no_cart = \<lparr>sc_cart = sample_cart, sc_lines = []\<rparr>, no_source = source, no_paymentStatus = paid,
      no_tender = Some TCash, no_customer = JObj [(''name'', JStr ''Ana'')], no_notes = None,
      no_idempotencyKey = ''k1'', no_paymentAttemptId = None, no_approvedAt = None, no_pickupPin = None,
      no_estimatedWaitMinutes = None, no_estimatedReadyAt = None, no_scheduledFor = None,
      no_paymentExpiresAt = None\<rparr>"

definition sample_order_row :: "OrderSource \<Rightarrow> PaymentStatus \<Rightarrow> order_row" where
  "sample_order_row source paid = orderRow sample_env ''t1'' (sample_new_order source paid) 1 0 empty_db"

lemma sample_order_fields [simp]:
  "o_total (sample_order_row source paid) = 200000" "o_subtotal (sample_order_row source paid) = 200000"
  "o_discountTotal (sample_order_row source paid) = 0" "o_tenantId (sample_order_row source paid) = ''t1''"
  "o_currency (sample_order_row source paid) = ''ARS''" "o_source (sample_order_row source paid) = source"
  "o_paymentStatus (sample_order_row source paid) = paid" "o_tender (sample_order_row source paid) = TCash"
  "o_id (sample_order_row source paid) = fresh_id sample_env empty_db"
  by (simp_all add: sample_order_row_def orderRow_def sample_new_order_def sample_cart_def cartRow_def orElse_def Let_def)

end
