(* ===== verification/Printing.thy ===== *)
theory Printing
  imports OrderRepo
begin

text \<open>
  The print queue: \<open>src/features/printing/infrastructure/print-job.repository.ts\<close> and
  \<open>src/features/printing/application/print-job.service.ts\<close>.

  \<^item> A job is claimed under a lease by a print agent, printed or failed by the agent that holds the
    current attempt, and claimed again when its lease runs out. The columns of the destination
    station, which no code here writes, are left out. Transactions are serial: \<open>skip locked\<close>
    does not show.
  \<^item> The context of an agent is resolved from its token by \<open>PrintAgentService\<close>; the operations
    here take the context.
  \<^item> Text is UTF-8: the dash between the notes of a ticket is three characters.
  \<^item> The lemmas: while leases run no job is handed out twice, a report is accepted only for the
    attempt the agent holds, and an unpaid cash order is never sent to the kitchen.
\<close>

section \<open>The repository\<close>

record print_job_claim =
  jc_id :: string
  jc_orderId :: string
  jc_attemptNumber :: int
  jc_payload :: json
  jc_leaseExpiresAt :: int

definition agentId :: "TenantContext \<Rightarrow> string option" where
  "agentId context = (case ctx_actor context of AgentActor a _ \<Rightarrow> Some a | _ \<Rightarrow> None)"

definition agentLocationId :: "TenantContext \<Rightarrow> string option" where
  "agentLocationId context = (case ctx_actor context of AgentActor _ l \<Rightarrow> Some l | _ \<Rightarrow> ctx_locationId context)"

definition retryDate :: "int \<Rightarrow> int \<Rightarrow> int" where
  "retryDate now attemptNumber = now + 15 * 2 ^ nat (max (attemptNumber - 1) 0) * 1000"

definition tenantPrintingEnabled :: "string \<Rightarrow> db \<Rightarrow> bool" where
  "tenantPrintingEnabled tid s =
     (case sel1 (\<lambda>r. ts_tenantId r = tid) (tb_settings s) of None \<Rightarrow> False | Some r \<Rightarrow> ts_printingEnabled r)"

definition printJobRow :: "env \<Rightarrow> string \<Rightarrow> string \<Rightarrow> string \<Rightarrow> string \<Rightarrow> json \<Rightarrow> db \<Rightarrow> print_job_row" where
  "printJobRow e tid locationId orderId key payload s =
     \<lparr>pj_id = fresh_id e s, pj_tenantId = tid, pj_locationId = locationId, pj_orderId = orderId,
      pj_status = PjPending, pj_idempotencyKey = key, pj_payload = payload, pj_attemptCount = 0,
      pj_claimedByAgentId = None, pj_leaseExpiresAt = None, pj_nextAttemptAt = Some (e_now e),
      pj_printedAt = None, pj_lastErrorCode = None, pj_lastErrorMessage = None,
      pj_createdAt = e_now e, pj_updatedAt = e_now e\<rparr>"

text \<open>\<open>on conflict do nothing\<close>, then the row that was there.\<close>

definition createPrintJob ::
  "env \<Rightarrow> string \<Rightarrow> string \<Rightarrow> string \<Rightarrow> string \<Rightarrow> json \<Rightarrow> db \<Rightarrow> print_job_row option \<times> db" where
  "createPrintJob e tid locationId orderId key payload s =
     (let row = printJobRow e tid locationId orderId key payload s;
          s1 = s\<lparr>uuid_next := Suc (uuid_next s)\<rparr>
      in case insert_row (\<lambda>_. True) print_job_clash row (tb_printJobs s) of
           Inr t \<Rightarrow> (Some row, s1\<lparr>tb_printJobs := t\<rparr>)
         | Inl _ \<Rightarrow> (sel1 (\<lambda>r. pj_tenantId r = tid \<and> pj_idempotencyKey r = key) (tb_printJobs s), s1))"

definition due :: "int option \<Rightarrow> int \<Rightarrow> bool" where
  "due t now = (case t of None \<Rightarrow> True | Some x \<Rightarrow> x \<le> now)"

definition claimable :: "string \<Rightarrow> string \<Rightarrow> int \<Rightarrow> print_job_row \<Rightarrow> bool" where
  "claimable tid locationId now r \<longleftrightarrow> pj_tenantId r = tid \<and> pj_locationId r = locationId
     \<and> ((pj_status r = PjPending \<or> pj_status r = PjFailed) \<and> due (pj_nextAttemptAt r) now
        \<or> pj_status r = PjProcessing \<and> (case pj_leaseExpiresAt r of None \<Rightarrow> False | Some x \<Rightarrow> x \<le> now))"

definition queue_le :: "print_job_row \<Rightarrow> print_job_row \<Rightarrow> bool" where
  "queue_le a b =
     (case (pj_nextAttemptAt a, pj_nextAttemptAt b) of
        (None, None) \<Rightarrow> pj_createdAt a \<le> pj_createdAt b
      | (None, Some _) \<Rightarrow> True
      | (Some _, None) \<Rightarrow> False
      | (Some x, Some y) \<Rightarrow> x < y \<or> x = y \<and> pj_createdAt a \<le> pj_createdAt b)"

definition claimJob :: "env \<Rightarrow> string \<Rightarrow> int \<Rightarrow> print_job_row \<Rightarrow> print_job_row" where
  "claimJob e currentAgentId leaseSeconds r =
     r\<lparr>pj_status := PjProcessing, pj_attemptCount := pj_attemptCount r + 1,
       pj_claimedByAgentId := Some currentAgentId, pj_leaseExpiresAt := Some (e_now e + leaseSeconds * 1000),
       pj_nextAttemptAt := None, pj_updatedAt := e_now e\<rparr>"

definition insertAttempt ::
  "env \<Rightarrow> string \<Rightarrow> string \<Rightarrow> string \<Rightarrow> int \<Rightarrow> PrintAttemptStatus \<Rightarrow> string option \<Rightarrow> string option \<Rightarrow> int option \<Rightarrow> db \<Rightarrow> db" where
  "insertAttempt e tid jobId currentAgentId attemptNumber status errorCode errorMessage finishedAt s =
     (let row = \<lparr>pt_id = fresh_id e s, pt_tenantId = tid, pt_printJobId = jobId, pt_agentId = currentAgentId,
            pt_attemptNumber = attemptNumber, pt_status = status, pt_errorCode = errorCode,
            pt_errorMessage = errorMessage, pt_finishedAt = finishedAt\<rparr>
      in s\<lparr>tb_printAttempts := (if list_ex (print_attempt_clash row) (tb_printAttempts s) then tb_printAttempts s
                                else tb_printAttempts s @ [row]),
           uuid_next := Suc (uuid_next s)\<rparr>)"

definition touchAgent :: "env \<Rightarrow> string \<Rightarrow> string \<Rightarrow> db \<Rightarrow> db" where
  "touchAgent e tid currentAgentId s =
     s\<lparr>tb_printAgents := upd (\<lambda>r. ag_tenantId r = tid \<and> ag_rowId r = currentAgentId)
        (\<lambda>r. r\<lparr>ag_lastSeenAt := Some (e_now e), ag_updatedAt := e_now e\<rparr>) (tb_printAgents s)\<rparr>"

definition serializeClaim :: "print_job_row \<Rightarrow> app_error + print_job_claim" where
  "serializeClaim job =
     (case pj_leaseExpiresAt job of
        None \<Rightarrow> Inl LeaseMissing
      | Some lease \<Rightarrow> Inr \<lparr>jc_id = pj_id job, jc_orderId = pj_orderId job, jc_attemptNumber = pj_attemptCount job,
          jc_payload = pj_payload job, jc_leaseExpiresAt = lease\<rparr>)"

definition claimNext ::
  "env \<Rightarrow> TenantContext \<Rightarrow> int \<Rightarrow> db \<Rightarrow> app_error + print_job_claim option \<times> db" where
  "claimNext e context leaseSeconds s =
     (if \<not> nonempty (agentId context) \<or> \<not> nonempty (agentLocationId context) then Inl PrintContextRequired
      else
        (let tid = ctx_tenantId context; currentAgentId = the (agentId context);
             currentLocationId = the (agentLocationId context)
         in case sort_by queue_le (filter (claimable tid currentLocationId (e_now e)) (tb_printJobs s)) of
              [] \<Rightarrow> Inr (None, s)
            | candidate # _ \<Rightarrow>
                (let row = claimJob e currentAgentId leaseSeconds candidate;
                     s1 = s\<lparr>tb_printJobs := upd (\<lambda>r. pj_id r = pj_id candidate)
                       (claimJob e currentAgentId leaseSeconds) (tb_printJobs s)\<rparr>;
                     s2 = insertAttempt e tid (pj_id row) currentAgentId (pj_attemptCount row) PatClaimed None None None s1;
                     s3 = touchAgent e tid currentAgentId s2
                 in bnd (serializeClaim row) (\<lambda>c. Inr (Some c, s3)))))"

datatype report_status = ReportPrinted | ReportFailed

record print_report =
  pr_jobId :: string
  pr_attemptNumber :: int
  pr_status :: report_status
  pr_errorCode :: "string option"
  pr_errorMessage :: "string option"

definition reportSet :: "env \<Rightarrow> print_report \<Rightarrow> print_job_row \<Rightarrow> print_job_row" where
  "reportSet e inp r =
     (if pr_status inp = ReportPrinted
      then r\<lparr>pj_status := PjPrinted, pj_claimedByAgentId := None, pj_leaseExpiresAt := None,
             pj_nextAttemptAt := None, pj_printedAt := Some (e_now e), pj_lastErrorCode := None,
             pj_lastErrorMessage := None, pj_updatedAt := e_now e\<rparr>
      else r\<lparr>pj_status := PjFailed, pj_claimedByAgentId := None, pj_leaseExpiresAt := None,
             pj_nextAttemptAt := Some (retryDate (e_now e) (pr_attemptNumber inp)),
             pj_lastErrorCode := Some (orElse (pr_errorCode inp) ''worker_failed''),
             pj_lastErrorMessage := Some (orElse (pr_errorMessage inp) ''Print worker reported failure.''),
             pj_updatedAt := e_now e\<rparr>)"

definition reportResult ::
  "env \<Rightarrow> TenantContext \<Rightarrow> print_report \<Rightarrow> db \<Rightarrow> app_error + print_job_row option \<times> db" where
  "reportResult e context inp s =
     (if \<not> nonempty (agentId context) \<or> \<not> nonempty (agentLocationId context) then Inl PrintContextRequired
      else
        (let tid = ctx_tenantId context; currentAgentId = the (agentId context);
             currentLocationId = the (agentLocationId context);
             job = (\<lambda>r. pj_tenantId r = tid \<and> pj_locationId r = currentLocationId \<and> pj_id r = pr_jobId inp)
         in case sel1 job (tb_printJobs s) of
              None \<Rightarrow> Inr (None, s)
            | Some existing \<Rightarrow>
                if pj_status existing = PjPrinted \<and> pr_status inp = ReportPrinted
                  \<and> pj_attemptCount existing = pr_attemptNumber inp
                then Inr (Some existing, s)
                else if pj_claimedByAgentId existing \<noteq> Some currentAgentId
                  \<or> pj_attemptCount existing \<noteq> pr_attemptNumber inp
                then Inr (None, s)
                else
                  (let here = (\<lambda>r. job r \<and> pj_claimedByAgentId r = Some currentAgentId
                                 \<and> pj_attemptCount r = pr_attemptNumber inp);
                       s1 = s\<lparr>tb_printJobs := upd here (reportSet e inp) (tb_printJobs s)\<rparr>
                   in case upd_ret here (reportSet e inp) (tb_printJobs s) of
                        None \<Rightarrow> Inr (None, s)
                      | Some updated \<Rightarrow> Inr (Some updated,
                          insertAttempt e tid (pj_id updated) currentAgentId (pr_attemptNumber inp)
                            (if pr_status inp = ReportPrinted then PatPrinted else PatFailed)
                            (pr_errorCode inp) (pr_errorMessage inp) (Some (e_now e)) s1))))"

section \<open>The service\<close>

definition claimPrintJob :: "env \<Rightarrow> TenantContext \<Rightarrow> db \<Rightarrow> (app_error + print_job_claim option) \<times> db" where
  "claimPrintJob e context s = with_tenant (claimNext e context 60) s"

definition printJobResultSchema :: "print_report \<Rightarrow> print_report option" where
  "printJobResultSchema value =
     (let data = value\<lparr>pr_errorCode := map_option js_trim (pr_errorCode value),
                       pr_errorMessage := map_option js_trim (pr_errorMessage value)\<rparr>
      in if 0 < pr_attemptNumber data
           \<and> (case pr_errorCode data of None \<Rightarrow> True | Some c \<Rightarrow> length c \<le> 120)
           \<and> (case pr_errorMessage data of None \<Rightarrow> True | Some m \<Rightarrow> length m \<le> 500)
         then Some data else None)"

fun job_status_name :: "PrintJobStatus \<Rightarrow> string" where
  "job_status_name PjPending = ''pending''"
| "job_status_name PjProcessing = ''processing''"
| "job_status_name PjPrinted = ''printed''"
| "job_status_name PjFailed = ''failed''"
| "job_status_name PjCancelled = ''cancelled''"

definition opt_num :: "int option \<Rightarrow> json" where
  "opt_num v = (case v of None \<Rightarrow> JNull | Some n \<Rightarrow> JNum n)"

definition report_json :: "print_report \<Rightarrow> json" where
  "report_json r = JObj ([(''status'', JStr (if pr_status r = ReportPrinted then ''printed'' else ''failed'')),
     (''attemptNumber'', JNum (pr_attemptNumber r))]
     @ opt_field ''errorCode'' (pr_errorCode r) @ opt_field ''errorMessage'' (pr_errorMessage r))"

definition printResultClaim :: "string \<Rightarrow> string \<Rightarrow> print_report \<Rightarrow> claim_input" where
  "printResultClaim tid key request =
     \<lparr>k_tenantId = Some tid,
      k_scope = ''print-result:'' @ pr_jobId request @ '':'' @ js_str (pr_attemptNumber request),
      k_key = key, k_request = report_json request, k_lockSeconds = None,
      k_retentionSeconds = Some (7 * 24 * 60 * 60)\<rparr>"

definition report_response :: "print_job_row \<Rightarrow> json" where
  "report_response job = JObj [(''jobId'', JStr (pj_id job)), (''status'', JStr (job_status_name (pj_status job))),
     (''attemptNumber'', JNum (pj_attemptCount job)), (''printedAt'', opt_num (pj_printedAt job)),
     (''nextAttemptAt'', opt_num (pj_nextAttemptAt job))]"

definition reportWork :: "env \<Rightarrow> TenantContext \<Rightarrow> print_report \<Rightarrow> db \<Rightarrow> app_error + stored_response \<times> db" where
  "reportWork e context request s =
     bnd (reportResult e context request s) (\<lambda>(job, s1).
       case job of None \<Rightarrow> Inl PrintJobNotFound | Some j \<Rightarrow> Inr ((200, report_response j), s1))"

definition reportPrintResult ::
  "env \<Rightarrow> TenantContext \<Rightarrow> print_report \<Rightarrow> string \<Rightarrow> db \<Rightarrow> (app_error + stored_response) \<times> db" where
  "reportPrintResult e context body key s =
     (case printJobResultSchema body of
        None \<Rightarrow> (Inl ValidationError, s)
      | Some request \<Rightarrow> with_tenant
          (idempotent (claim e (printResultClaim (ctx_tenantId context) key request)) (completeClaim e)
             (reportWork e context request)) s)"

definition em_dash :: string where
  "em_dash = map char_of [0xE2 :: nat, 0x80, 0x94]"

definition ticket_notes :: "env \<Rightarrow> order_row \<Rightarrow> string" where
  "ticket_notes e order =
     (let scheduledNote = (case o_scheduledFor order of None \<Rightarrow> []
            | Some t \<Rightarrow> ''[PROGRAMADO: '' @ e_ticketDate e t @ '']'');
          notes = (case o_notes order of None \<Rightarrow> [] | Some n \<Rightarrow> n)
      in if scheduledNote = [] then notes else if notes = [] then scheduledNote
         else scheduledNote @ '' '' @ em_dash @ '' '' @ notes)"

definition ticket_option :: "order_line_option_row \<Rightarrow> json" where
  "ticket_option p = JObj [(''name'', JStr (olo_name p)), (''priceDelta'', JStr (centsToMoney (olo_priceDelta p))),
     (''quantity'', JNum (olo_quantity p))]"

definition ticket_line :: "order_line_row \<times> order_line_option_row list \<Rightarrow> json" where
  "ticket_line = (\<lambda>(l, opts). JObj ([(''id'', JStr (case ol_sourceItemId l of Some i \<Rightarrow> i
        | None \<Rightarrow> (case ol_sourceComboId l of Some c \<Rightarrow> c | None \<Rightarrow> ol_id l))),
     (''name'', JStr (ol_name l)), (''itemType'', JStr (if ol_itemType l = Unit then ''unit'' else ''weighted'')),
     (''quantity'', JNum (ol_quantity l)), (''unitPrice'', JStr (centsToMoney (ol_unitPrice l))),
     (''lineTotal'', JStr (centsToMoney (ol_lineTotal l)))]
     @ opt_field ''note'' (ol_note l) @ [(''options'', JArr (map ticket_option opts))]))"

definition buildTicketPayload :: "env \<Rightarrow> order_view \<Rightarrow> string option \<Rightarrow> json" where
  "buildTicketPayload e view tenantName =
     (let order = ov_order view; notes = ticket_notes e order in
      JObj ([(''orderId'', JStr (o_id order)), (''purchaseNumber'', JStr (js_str (o_purchaseNumber order))),
        (''source'', JStr (source_name (o_source order))), (''copies'', JNum (if o_source order = AdminDirect then 2 else 1)),
        (''tenant'', JStr (orElse tenantName ''Komanda'')), (''customer'', o_customerSnapshot order)]
        @ (if notes = [] then [] else [(''notes'', JStr notes)])
        @ (case o_scheduledFor order of None \<Rightarrow> [] | Some t \<Rightarrow> [(''scheduledFor'', JNum t)])
        @ [(''currency'', JStr (o_currency order)), (''amount'', JStr (centsToMoney (o_total order))),
           (''approvedAt'', JNum (orElse (o_approvedAt order) (o_createdAt order))),
           (''items'', JArr (map ticket_line (ov_lines view))),
           (''summary'', JObj [(''subtotal'', JStr (centsToMoney (o_subtotal order))),
              (''discountTotal'', JStr (centsToMoney (o_discountTotal order))),
              (''total'', JStr (centsToMoney (o_total order)))])]))"

definition enqueueOrderTicket :: "env \<Rightarrow> TenantContext \<Rightarrow> order_view \<Rightarrow> db \<Rightarrow> print_job_row option \<times> db" where
  "enqueueOrderTicket e context view s =
     (let order = ov_order view; tid = ctx_tenantId context in
      if o_tender order = TCash \<and> o_paymentStatus order \<noteq> Paid then (None, s)
      else if \<not> tenantPrintingEnabled tid s then (None, s)
      else createPrintJob e tid (o_locationId order) (o_id order) (''order:'' @ o_id order @ '':kitchen-ticket'')
             (buildTicketPayload e view (map_option t_name (sel1 (\<lambda>r. t_id r = tid) (tb_tenants s)))) s)"

section \<open>Leases\<close>

lemma claimJob_simps [simp]:
  "pj_id (claimJob e a lease r) = pj_id r" "pj_attemptCount (claimJob e a lease r) = pj_attemptCount r + 1"
  "pj_status (claimJob e a lease r) = PjProcessing"
  by (simp_all add: claimJob_def)

lemma createPrintJob_has:
  assumes "createPrintJob e tid l oid key payload s = (Some job, s')"
  shows "\<exists>q \<in> set (tb_printJobs s'). pj_tenantId q = tid \<and> pj_idempotencyKey q = key"
proof (cases "insert_row (\<lambda>_. True) print_job_clash (printJobRow e tid l oid key payload s) (tb_printJobs s)")
  case (Inl err)
  then have "sel1 (\<lambda>r. pj_tenantId r = tid \<and> pj_idempotencyKey r = key) (tb_printJobs s) = Some job"
    "tb_printJobs s' = tb_printJobs s"
    using assms by (auto simp: createPrintJob_def Let_def)
  then show ?thesis using sel1_Some_in [of _ "tb_printJobs s" job] sel1_Some_P [of _ "tb_printJobs s" job] by fastforce
next
  case (Inr t)
  then have "tb_printJobs s' = t" using assms by (auto simp: createPrintJob_def Let_def)
  moreover have "t = tb_printJobs s @ [printJobRow e tid l oid key payload s]"
    using Inr by (simp add: insert_row_Inr)
  ultimately show ?thesis by (simp add: printJobRow_def)
qed

definition jobs_ok :: "db \<Rightarrow> bool" where
  "jobs_ok s \<longleftrightarrow> uniq pj_id (tb_printJobs s)"

lemma claimNext_Some:
  assumes "claimNext e ctx lease s = Inr (Some c, s')" "jobs_ok s"
  obtains r a where "r \<in> set (tb_printJobs s)" "agentId ctx = Some a" "pj_id r = jc_id c"
    "claimable (ctx_tenantId ctx) (the (agentLocationId ctx)) (e_now e) r"
    "tb_printJobs s' = upd (\<lambda>q. pj_id q = jc_id c) (claimJob e a lease) (tb_printJobs s)"
    "jc_attemptNumber c = pj_attemptCount r + 1" "jobs_ok s'"
proof -
  let ?q = "sort_by queue_le (filter (claimable (ctx_tenantId ctx) (the (agentLocationId ctx)) (e_now e)) (tb_printJobs s))"
  obtain a where a: "agentId ctx = Some a"
    using assms(1) by (auto simp: claimNext_def nonempty_def split: if_splits)
  obtain r rest where q: "?q = r # rest"
    using assms(1) by (cases ?q) (auto simp: claimNext_def split: if_splits)
  have "r \<in> set ?q" by (simp add: q)
  then have r: "r \<in> set (tb_printJobs s)" "claimable (ctx_tenantId ctx) (the (agentLocationId ctx)) (e_now e) r"
    by auto
  have c: "jc_id c = pj_id r" "jc_attemptNumber c = pj_attemptCount r + 1"
    and t: "tb_printJobs s' = upd (\<lambda>q. pj_id q = pj_id r) (claimJob e a lease) (tb_printJobs s)"
    using assms(1) a q
    by (auto simp: claimNext_def Let_def serializeClaim_def claimJob_def insertAttempt_def touchAgent_def
        split: if_splits)
  have "jobs_ok s'" using assms(2) unfolding jobs_ok_def t
    by (subst uniq_upd) (auto simp: claimJob_def)
  then show ?thesis using that r a c t by simp
qed

text \<open>Claims by any agents at any times, one after the other; the jobs they were handed.\<close>

fun claim_all :: "(env \<times> TenantContext \<times> int) list \<Rightarrow> db \<Rightarrow> string list" where
  "claim_all [] s = []"
| "claim_all ((e, ctx, lease) # rest) s =
     (case claimNext e ctx lease s of
        Inl _ \<Rightarrow> claim_all rest s
      | Inr (None, s') \<Rightarrow> claim_all rest s'
      | Inr (Some c, s') \<Rightarrow> jc_id c # claim_all rest s')"

definition leased :: "int \<Rightarrow> print_job_row \<Rightarrow> bool" where
  "leased t r \<longleftrightarrow> pj_status r = PjProcessing \<and> (case pj_leaseExpiresAt r of None \<Rightarrow> False | Some x \<Rightarrow> t \<le> x)"

definition leased_until :: "int \<Rightarrow> string \<Rightarrow> db \<Rightarrow> bool" where
  "leased_until t i s \<longleftrightarrow> (\<forall>r \<in> set (tb_printJobs s). pj_id r = i \<longrightarrow> leased t r)"

lemma leased_claimJob [simp]: "leased t (claimJob e a lease r) \<longleftrightarrow> t \<le> e_now e + lease * 1000"
  by (simp add: leased_def claimJob_def)

lemma leased_not_claimable: "leased t r \<Longrightarrow> now < t \<Longrightarrow> \<not> claimable tid l now r"
  by (auto simp: leased_def claimable_def split: option.splits)

lemma claim_all_Cons:
  assumes "jobs_ok s"
  obtains (idle) "claim_all ((e, ctx, lease) # cs) s = claim_all cs s"
  | (handed) c :: print_job_claim and r a s' where "claim_all ((e, ctx, lease) # cs) s = jc_id c # claim_all cs s'"
      "r \<in> set (tb_printJobs s)" "pj_id r = jc_id c"
      "claimable (ctx_tenantId ctx) (the (agentLocationId ctx)) (e_now e) r"
      "tb_printJobs s' = upd (\<lambda>q. pj_id q = jc_id c) (claimJob e a lease) (tb_printJobs s)" "jobs_ok s'"
proof (cases "claimNext e ctx lease s")
  case (Inl err)
  then show ?thesis by (intro idle) simp
next
  case (Inr p)
  show ?thesis
  proof (cases "fst p")
    case None
    then have "snd p = s"
      using Inr by (cases p) (auto simp: claimNext_def Let_def split: if_splits list.splits)
    then show ?thesis using Inr None by (intro idle) (cases p, simp)
  next
    case (Some c)
    then have cl: "claimNext e ctx lease s = Inr (Some c, snd p)" using Inr by (cases p) simp
    obtain r a where r: "r \<in> set (tb_printJobs s)" "pj_id r = jc_id c"
      "claimable (ctx_tenantId ctx) (the (agentLocationId ctx)) (e_now e) r"
      "tb_printJobs (snd p) = upd (\<lambda>q. pj_id q = jc_id c) (claimJob e a lease) (tb_printJobs s)" "jobs_ok (snd p)"
      by (rule claimNext_Some [OF cl assms])
    show ?thesis by (rule handed [OF _ r]) (simp add: cl)
  qed
qed

lemma leased_claimed:
  "t \<le> e_now e + lease * 1000 \<Longrightarrow>
     tb_printJobs s' = upd (\<lambda>q. pj_id q = i) (claimJob e a lease) (tb_printJobs s) \<Longrightarrow>
     leased_until t i s' \<and> (leased_until t j s \<longrightarrow> leased_until t j s')"
  unfolding leased_until_def by (auto elim!: in_updE)

definition before_expiry :: "int \<Rightarrow> env \<times> TenantContext \<times> int \<Rightarrow> bool" where
  "before_expiry t = (\<lambda>(e, _, lease). e_now e < t \<and> t \<le> e_now e + lease * 1000)"

lemma claim_all_keeps:
  assumes "jobs_ok s" "leased_until t i s" "list_all (before_expiry t) cs"
  shows "i \<notin> set (claim_all cs s)"
  using assms
proof (induction cs arbitrary: s)
  case Nil
  then show ?case by simp
next
  case (Cons x cs)
  obtain e ctx lease where x: "x = (e, ctx, lease)" by (cases x)
  show ?case
  proof (cases rule: claim_all_Cons [OF Cons.prems(1), of e ctx lease cs, case_names idle handed])
    case idle
    then show ?thesis using Cons x by simp
  next
    case (handed c r a s')
    have "jc_id c \<noteq> i"
      using handed(2-4) Cons.prems(2,3) x leased_not_claimable
      by (fastforce simp: leased_until_def before_expiry_def)
    moreover have "leased_until t i s'"
      using leased_claimed [OF _ handed(5)] Cons.prems(2,3) x by (simp add: before_expiry_def)
    ultimately show ?thesis using Cons.IH [OF handed(6)] Cons.prems(3) handed(1) x by simp
  qed
qed

text \<open>
  C39. While leases run, no job is handed to two agents: over any sequence of claims, by any
  agents of any stores, all made before time \<open>t\<close> under leases that reach \<open>t\<close>, the jobs handed out
  are distinct.
\<close>

theorem claims_exclusive:
  assumes "jobs_ok s" and "list_all (before_expiry t) cs"
  shows "distinct (claim_all cs s)"
  using assms
proof (induction cs arbitrary: s)
  case Nil
  then show ?case by simp
next
  case (Cons x cs)
  obtain e ctx lease where x: "x = (e, ctx, lease)" by (cases x)
  show ?case
  proof (cases rule: claim_all_Cons [OF Cons.prems(1), of e ctx lease cs, case_names idle handed])
    case idle
    then show ?thesis using Cons x by simp
  next
    case (handed c r a s')
    have "leased_until t (jc_id c) s'"
      using leased_claimed [OF _ handed(5)] Cons.prems(2) x by (simp add: before_expiry_def)
    then show ?thesis
      using Cons.IH [OF handed(6)] claim_all_keeps [OF handed(6)] Cons.prems(2) handed(1) x by simp
  qed
qed

definition sample_job :: print_job_row where
  "sample_job = printJobRow (sample_env\<lparr>e_now := 0\<rparr>) ''t1'' ''l1'' ''o1'' ''order:o1:kitchen-ticket'' JNull empty_db"

definition sample_queue :: db where
  "sample_queue = empty_db\<lparr>tb_printJobs := [sample_job]\<rparr>"

definition agent_context :: "string \<Rightarrow> TenantContext" where
  "agent_context a = \<lparr>ctx_tenantId = ''t1'', ctx_correlationId = ''r'', ctx_source = SrcAgent,
     ctx_actor = AgentActor a ''l1'', ctx_locationId = Some ''l1''\<rparr>"

theorem claims_exclusive_witness:
  "let cs = [(sample_env\<lparr>e_now := 1000\<rparr>, agent_context ''a'', 60), (sample_env\<lparr>e_now := 2000\<rparr>, agent_context ''b'', 60)] in
     distinct (claim_all cs sample_queue) \<and> claim_all cs sample_queue = [pj_id sample_job]"
proof -
  define cs where "cs = [(sample_env\<lparr>e_now := 1000\<rparr>, agent_context ''a'', 60 :: int),
    (sample_env\<lparr>e_now := 2000\<rparr>, agent_context ''b'', 60)]"
  have "jobs_ok sample_queue" by (simp add: jobs_ok_def sample_queue_def uniq_def)
  moreover have "list_all (before_expiry 60000) cs" by (simp add: before_expiry_def cs_def)
  ultimately have "distinct (claim_all cs sample_queue)" by (rule claims_exclusive)
  moreover have "claim_all cs sample_queue = [pj_id sample_job]" unfolding cs_def by code_simp
  ultimately show ?thesis by (simp add: cs_def Let_def)
qed

text \<open>
  A report is fenced by the attempt: once an agent's lease ran out and the job was claimed
  again, by whichever agent, the report of the earlier attempt, whatever it says and whenever it
  arrives, is refused and changes nothing.
\<close>

theorem stale_report_refused:
  assumes "jobs_ok s" and "claimNext e1 ctx1 lease1 s = Inr (Some c1, s1)"
    and "claimNext e2 ctx2 lease2 s1 = Inr (Some c2, s2)" and "jc_id c2 = jc_id c1"
    and "pr_jobId inp = jc_id c1" and "pr_attemptNumber inp = jc_attemptNumber c1"
  shows "reportResult e3 ctx1 inp s2 = Inr (None, s2)"
proof -
  obtain r1 a1 where r1: "r1 \<in> set (tb_printJobs s)" "pj_id r1 = jc_id c1" "jc_attemptNumber c1 = pj_attemptCount r1 + 1"
    and s1: "tb_printJobs s1 = upd (\<lambda>q. pj_id q = jc_id c1) (claimJob e1 a1 lease1) (tb_printJobs s)" "jobs_ok s1"
    by (rule claimNext_Some [OF assms(2,1)])
  obtain a2 where s2: "tb_printJobs s2 = upd (\<lambda>q. pj_id q = jc_id c1) (claimJob e2 a2 lease2) (tb_printJobs s1)"
    by (rule claimNext_Some [OF assms(3) s1(2)]) (simp add: assms(4))
  have "pj_attemptCount q = jc_attemptNumber c1 + 1 \<and> pj_status q = PjProcessing"
    if q: "q \<in> set (tb_printJobs s2)" "pj_id q = jc_id c1" for q
  proof -
    obtain q1 where q1: "q1 \<in> set (tb_printJobs s1)" "q = (if pj_id q1 = jc_id c1 then claimJob e2 a2 lease2 q1 else q1)"
      using q(1) unfolding s2 set_upd by blast
    obtain q0 where q0: "q0 \<in> set (tb_printJobs s)" "q1 = (if pj_id q0 = jc_id c1 then claimJob e1 a1 lease1 q0 else q0)"
      using q1(1) unfolding s1(1) set_upd by blast
    have "pj_id q0 = jc_id c1" using q(2) q0(2) q1(2) by (auto split: if_splits)
    then have "q0 = r1"
      using assms(1) r1(1,2) q0(1) by (auto simp: jobs_ok_def dest: uniq_eq)
    then show ?thesis using r1(2,3) q0(2) q1(2) by simp
  qed
  then have job: "pj_attemptCount q = jc_attemptNumber c1 + 1 \<and> pj_status q = PjProcessing"
    if "sel1 (\<lambda>r. pj_tenantId r = tid \<and> pj_locationId r = l \<and> pj_id r = jc_id c1) (tb_printJobs s2) = Some q" for q tid l
    using sel1_SomeD [OF that] by auto
  have "nonempty (agentId ctx1)" "nonempty (agentLocationId ctx1)"
    using assms(2) by (auto simp: claimNext_def split: if_splits)
  then show ?thesis
    using assms(5,6) job by (auto simp: reportResult_def Let_def split: option.split)
qed

theorem stale_report_refused_witness:
  "\<exists>c1 s1 c2 s2. claimNext (sample_env\<lparr>e_now := 1000\<rparr>) (agent_context ''a'') 60 sample_queue = Inr (Some c1, s1)
     \<and> claimNext (sample_env\<lparr>e_now := 61000\<rparr>) (agent_context ''b'') 60 s1 = Inr (Some c2, s2)
     \<and> reportResult (sample_env\<lparr>e_now := 62000\<rparr>) (agent_context ''a'')
         \<lparr>pr_jobId = jc_id c1, pr_attemptNumber = jc_attemptNumber c1, pr_status = ReportPrinted,
          pr_errorCode = None, pr_errorMessage = None\<rparr> s2 = Inr (None, s2)"
proof -
  let ?e1 = "sample_env\<lparr>e_now := 1000\<rparr>" and ?e2 = "sample_env\<lparr>e_now := 61000\<rparr>"
  define j1 where "j1 = claimJob ?e1 ''a'' 60 sample_job"
  define j2 where "j2 = claimJob ?e2 ''b'' 60 j1"
  have ctx: "agentId (agent_context a) = Some a" "agentLocationId (agent_context a) = Some ''l1''"
    "ctx_tenantId (agent_context a) = ''t1''" for a
    by (simp_all add: agentId_def agentLocationId_def agent_context_def)
  have c1: "claimable ''t1'' ''l1'' 1000 sample_job"
    by (simp add: claimable_def sample_job_def printJobRow_def due_def)
  have c2: "claimable ''t1'' ''l1'' 61000 j1"
    by (simp add: claimable_def j1_def claimJob_def sample_job_def printJobRow_def)
  obtain k1 s1 where k1: "claimNext ?e1 (agent_context ''a'') 60 sample_queue = Inr (Some k1, s1)"
    "jc_id k1 = pj_id sample_job" "tb_printJobs s1 = [j1]"
    using c1 by (simp add: claimNext_def ctx nonempty_def sample_queue_def sort_by_def Let_def serializeClaim_def
        claimJob_def insertAttempt_def touchAgent_def j1_def)
  obtain k2 s2 where k2: "claimNext ?e2 (agent_context ''b'') 60 s1 = Inr (Some k2, s2)" "jc_id k2 = pj_id j1"
    using c2 k1(3) by (simp add: claimNext_def ctx nonempty_def sort_by_def Let_def serializeClaim_def claimJob_def)
  have "jobs_ok sample_queue" by (simp add: jobs_ok_def sample_queue_def uniq_def)
  moreover have "jc_id k2 = jc_id k1" using k1(2) k2(2) by (simp add: j1_def claimJob_def)
  ultimately show ?thesis
    using stale_report_refused [OF _ k1(1) k2(1)] k1(1) k2(1) by force
qed

text \<open>
  The kitchen is told of no cash order that is not paid: enqueuing the ticket of an order
  leaves the queue of a store alone unless printing is on and the order is paid or not a cash
  order; and enqueuing it again, for instance when a request is retried, adds no second ticket.
\<close>

theorem ticket_once_and_paid:
  "let (job, s1) = enqueueOrderTicket e ctx view s; (job', s2) = enqueueOrderTicket e' ctx view' s1 in
     (o_tender (ov_order view) = TCash \<and> o_paymentStatus (ov_order view) \<noteq> Paid
        \<or> \<not> tenantPrintingEnabled (ctx_tenantId ctx) s \<longrightarrow> job = None \<and> s1 = s)
     \<and> length (tb_printJobs s1) \<le> length (tb_printJobs s) + 1
     \<and> (job \<noteq> None \<and> o_id (ov_order view') = o_id (ov_order view) \<longrightarrow> tb_printJobs s2 = tb_printJobs s1)"
proof -
  let ?key = "''order:'' @ o_id (ov_order view) @ '':kitchen-ticket''" and ?tid = "ctx_tenantId ctx"
  obtain job s1 where 1: "enqueueOrderTicket e ctx view s = (job, s1)" by (cases "enqueueOrderTicket e ctx view s")
  obtain job' s2 where 2: "enqueueOrderTicket e' ctx view' s1 = (job', s2)" by (cases "enqueueOrderTicket e' ctx view' s1")
  have clash: "\<exists>q \<in> set (tb_printJobs s1). pj_tenantId q = ?tid \<and> pj_idempotencyKey q = ?key" if "job \<noteq> None"
    using 1 that by (auto simp: enqueueOrderTicket_def Let_def split: if_splits dest: createPrintJob_has)
  have "tb_printJobs s2 = tb_printJobs s1" if job: "job \<noteq> None" and same: "o_id (ov_order view') = o_id (ov_order view)"
  proof -
    have "list_ex (print_job_clash (printJobRow e' ?tid l oi ?key p s1)) (tb_printJobs s1)" for l oi p
    proof -
      obtain q where "q \<in> set (tb_printJobs s1)" "pj_tenantId q = ?tid" "pj_idempotencyKey q = ?key"
        using clash [OF job] by blast
      then show ?thesis
        unfolding list_ex_iff by (intro bexI [of _ q]) (simp_all add: print_job_clash_def printJobRow_def)
    qed
    then show ?thesis
      using 2 same by (auto simp: enqueueOrderTicket_def createPrintJob_def Let_def insert_row_def split: if_splits)
  qed
  moreover have "length (tb_printJobs s1) \<le> length (tb_printJobs s) + 1"
    using 1 by (auto simp: enqueueOrderTicket_def createPrintJob_def Let_def insert_row_Inr split: if_splits sum.splits)
  moreover have "job = None \<and> s1 = s" if "o_tender (ov_order view) = TCash \<and> o_paymentStatus (ov_order view) \<noteq> Paid
      \<or> \<not> tenantPrintingEnabled ?tid s"
    using 1 that by (auto simp: enqueueOrderTicket_def Let_def split: if_splits)
  ultimately show ?thesis by (simp add: 1 2)
qed

end
