(* ===== verification/Billing.thy ===== *)
theory Billing
  imports OrderRepo
begin

text \<open>
  Billing documents and the figures of a period:
  \<open>src/features/billing/infrastructure/billing.repository.ts\<close>.

  \<^item> An amount of a row is read as a double (\<open>Number\<close> of its text, the double nearest to the
    cents over a hundred); \<open>to_fixed2\<close> is \<open>toFixed(2)\<close>, in cents, on the exact value of the double.
  \<^item> The groups of a \<open>group by\<close> are listed in the order of the enumeration of sources. The timeline
    and the ranking of products, reports of the same rows grouped by database functions, are
    not modelled.
  \<^item> The lemmas: net and VAT of a document add up to its total to the cent and the net is the total
    without 21% VAT to within a cent; documents of a point of sale and type are numbered without
    gaps or repetitions; the revenue by source adds up to the revenue.
\<close>

section \<open>Amounts\<close>

definition number_of_cents :: "int \<Rightarrow> rat" where
  "number_of_cents t = fl (of_int t / 100)"

definition to_fixed2 :: "rat \<Rightarrow> int" where
  "to_fixed2 x = (if x < 0 then - math_round (- x * 100) else math_round (x * 100))"

definition net_cents :: "int \<Rightarrow> int" where
  "net_cents t = to_fixed2 (fl (number_of_cents t / fl (121 / 100)))"

definition vat_cents :: "int \<Rightarrow> int" where
  "vat_cents t = to_fixed2 (fl (number_of_cents t - number_of_cents (net_cents t)))"

section \<open>Documents\<close>

record issue_input =
  is_orderId :: string
  is_locationId :: "string option"
  is_documentType :: "FiscalDocumentType option"
  is_pointOfSale :: "int option"
  is_customerDocType :: "CustomerDocType option"
  is_customerDocNumber :: "string option"
  is_customerName :: "string option"

definition document_series :: "string \<Rightarrow> int \<Rightarrow> FiscalDocumentType \<Rightarrow> billing_row \<Rightarrow> bool" where
  "document_series tid pointOfSale documentType r \<longleftrightarrow>
     bd_tenantId r = tid \<and> bd_pointOfSale r = pointOfSale \<and> bd_documentType r = documentType"

definition getNextDocumentNumber :: "string \<Rightarrow> int \<Rightarrow> FiscalDocumentType \<Rightarrow> db \<Rightarrow> int" where
  "getNextDocumentNumber tid pointOfSale documentType s =
     (case map bd_documentNumber (filter (document_series tid pointOfSale documentType) (tb_billing s)) of
        [] \<Rightarrow> 0 + 1 | n # ns \<Rightarrow> foldl max n ns + 1)"

definition billingRow :: "env \<Rightarrow> string \<Rightarrow> issue_input \<Rightarrow> order_row \<Rightarrow> db \<Rightarrow> billing_row" where
  "billingRow e tid inp order s =
     (let documentType = orElse (is_documentType inp) TicketInterno;
          pointOfSale = orElse (is_pointOfSale inp) 1;
          net = net_cents (o_total order); vat = vat_cents (o_total order)
      in \<lparr>bd_id = fresh_id e s, bd_tenantId = tid,
          bd_locationId = Some (orElse (is_locationId inp) (o_locationId order)), bd_orderId = o_id order,
          bd_documentType = documentType, bd_pointOfSale = pointOfSale,
          bd_documentNumber = getNextDocumentNumber tid pointOfSale documentType s,
          bd_currency = o_currency order, bd_netAmount = to_fixed2 (number_of_cents net),
          bd_vatAmount = to_fixed2 (number_of_cents vat),
          bd_discountAmount = to_fixed2 (number_of_cents (o_discountTotal order)),
          bd_totalAmount = o_total order, bd_customerDocType = orElse (is_customerDocType inp) CF,
          bd_customerDocNumber = is_customerDocNumber inp, bd_customerName = is_customerName inp,
          bd_issuedAt = e_now e\<rparr>)"

definition issueDocument :: "env \<Rightarrow> string \<Rightarrow> issue_input \<Rightarrow> db \<Rightarrow> app_error + billing_row \<times> db" where
  "issueDocument e tid inp s =
     (case sel1 (order_key tid (is_orderId inp)) (tb_orders s) of
        None \<Rightarrow> Inl BillingOrderNotFound
      | Some order \<Rightarrow>
          (let row = billingRow e tid inp order s
           in bnd (lift_db (insert_row billing_check billing_clash row (tb_billing s))) (\<lambda>t.
                Inr (row, s\<lparr>tb_billing := t, uuid_next := Suc (uuid_next s)\<rparr>))))"

section \<open>The figures of a period\<close>

record source_revenue =
  sr_source :: OrderSource
  sr_revenue :: int
  sr_orders :: int

record financial_summary =
  fs_totalRevenue :: int
  fs_subtotal :: int
  fs_totalDiscounts :: int
  fs_paidOrdersCount :: int
  fs_avgOrderValue :: int
  fs_revenueBySource :: "source_revenue list"

definition summary_condition :: "string \<Rightarrow> int \<Rightarrow> int \<Rightarrow> OrderSource option \<Rightarrow> order_row \<Rightarrow> bool" where
  "summary_condition tid from_date to_date sourceFilter r \<longleftrightarrow> o_tenantId r = tid
     \<and> from_date \<le> o_createdAt r \<and> o_createdAt r \<le> to_date \<and> o_paymentStatus r = Paid
     \<and> o_fulfillmentStatus r \<noteq> Cancelled
     \<and> (case sourceFilter of None \<Rightarrow> True | Some src \<Rightarrow> o_source r = src)"

definition revenue_of :: "order_row list \<Rightarrow> OrderSource \<Rightarrow> source_revenue" where
  "revenue_of rows src =
     (let mine = filter (\<lambda>r. o_source r = src) rows
      in \<lparr>sr_source = src, sr_revenue = (\<Sum>r\<leftarrow>mine. o_total r), sr_orders = int (length mine)\<rparr>)"

definition getFinancialSummary :: "string \<Rightarrow> int \<Rightarrow> int \<Rightarrow> OrderSource option \<Rightarrow> db \<Rightarrow> financial_summary" where
  "getFinancialSummary tid from_date to_date sourceFilter s =
     (let rows = filter (summary_condition tid from_date to_date sourceFilter) (tb_orders s);
          revenue = (\<Sum>r\<leftarrow>rows. o_total r); n = int (length rows)
      in \<lparr>fs_totalRevenue = revenue, fs_subtotal = (\<Sum>r\<leftarrow>rows. o_subtotal r),
          fs_totalDiscounts = (\<Sum>r\<leftarrow>rows. o_discountTotal r), fs_paidOrdersCount = n,
          fs_avgOrderValue = (if n = 0 then 0 else math_round (of_int revenue / of_int n)),
          fs_revenueBySource = filter (\<lambda>g. 0 < sr_orders g)
            (map (revenue_of rows) [MercadopagoWebhook, AdminDirect, StorefrontCash])\<rparr>)"

section \<open>Net and VAT\<close>

lemma math_round_eq: "\<bar>x - of_int n\<bar> < 1 / 2 \<Longrightarrow> math_round x = n"
  unfolding math_round_def by (rule floor_unique; linarith)

lemma to_fixed2_eq: "\<bar>100 * x - of_int n\<bar> < 1 / 2 \<Longrightarrow> to_fixed2 x = n"
proof (cases "x < 0")
  case True
  assume "\<bar>100 * x - of_int n\<bar> < 1 / 2"
  then have "math_round (- x * 100) = - n" by (intro math_round_eq) (simp add: abs_if split: if_splits)
  then show ?thesis using True by (simp add: to_fixed2_def)
next
  case False
  assume "\<bar>100 * x - of_int n\<bar> < 1 / 2"
  then have "math_round (x * 100) = n" by (intro math_round_eq) (simp add: mult.commute)
  then show ?thesis using False by (simp add: to_fixed2_def)
qed

lemma number_of_cents_err: "\<bar>100 * number_of_cents n - of_int n\<bar> \<le> \<bar>of_int n\<bar> / 2 ^ 53"
proof -
  have "\<bar>number_of_cents n - of_int n / 100\<bar> \<le> \<bar>of_int n / 100\<bar> / 2 ^ 53"
    unfolding number_of_cents_def by (rule fl_err)
  then have "100 * \<bar>number_of_cents n - of_int n / 100\<bar> \<le> 100 * (\<bar>of_int n / 100\<bar> / 2 ^ 53)"
    by (rule mult_left_mono) simp
  then show ?thesis by (simp add: abs_if split: if_splits)
qed

lemma to_fixed2_number: "\<bar>n\<bar> < 2 ^ 50 \<Longrightarrow> to_fixed2 (number_of_cents n) = n"
proof (rule to_fixed2_eq)
  assume "\<bar>n\<bar> < 2 ^ 50"
  then have "\<bar>of_int n :: rat\<bar> < 2 ^ 50" by (metis of_int_abs of_int_less_iff of_int_numeral of_int_power)
  then show "\<bar>100 * number_of_cents n - of_int n\<bar> < 1 / 2" using number_of_cents_err [of n] by simp
qed

lemma close_bounds:
  assumes "\<bar>fl x - x\<bar> \<le> \<bar>x\<bar> / 2 ^ 53" "0 \<le> x"
  shows "x * (1 - 1 / 2 ^ 53) \<le> fl x" "fl x \<le> x * (1 + 1 / 2 ^ 53)"
proof -
  have "fl x - x \<le> x / 2 ^ 53 \<and> - (fl x - x) \<le> x / 2 ^ 53"
    using assms by (metis abs_le_iff abs_of_nonneg)
  then show "x * (1 - 1 / 2 ^ 53) \<le> fl x" "fl x \<le> x * (1 + 1 / 2 ^ 53)"
    by (auto simp: algebra_simps)
qed

text \<open>The quotient before it is rounded to cents.\<close>

lemma quotient_close:
  fixes t :: int
  assumes "0 \<le> t"
  defines "q \<equiv> fl (number_of_cents t / fl (121 / 100))"
  shows "\<bar>100 * q - of_int t / (121 / 100)\<bar> \<le> of_int t / 2 ^ 51"
proof -
  define T :: rat where "T = of_int t / 100"
  define u :: rat where "u = 1 / 2 ^ 53"
  define c where "c = fl (121 / 100)"
  define x where "x = fl T"
  have T: "0 \<le> T" using assms by (simp add: T_def)
  have x: "T * (1 - u) \<le> x" "x \<le> T * (1 + u)"
    using close_bounds [OF fl_err T] by (simp_all add: x_def u_def)
  have c: "121 / 100 * (1 - u) \<le> c" "c \<le> 121 / 100 * (1 + u)"
    using close_bounds [OF fl_err, of "121 / 100"] by (simp_all add: c_def u_def)
  have u: "0 < u" "u < 1 / 1000" by (simp_all add: u_def)
  have c0: "0 < c" using c(1) u by (simp add: algebra_simps)
  have "0 \<le> T * (1 - u)" using T u by simp
  then have x0: "0 \<le> x" using x(1) by linarith
  define y where "y = x / c"
  have y0: "0 \<le> y" using x0 c0 by (simp add: y_def)
  have q: "y * (1 - u) \<le> q" "q \<le> y * (1 + u)"
    using close_bounds [OF fl_err y0] by (simp_all add: q_def y_def x_def c_def T_def u_def number_of_cents_def)
  define z where "z = T / (121 / 100)"
  have z: "0 \<le> z" "T = 121 / 100 * z" using T by (simp_all add: z_def)
  have "y \<le> T * (1 + u) / (121 / 100 * (1 - u))"
    unfolding y_def using x(2) c(1) u T by (intro frac_le) auto
  also have "\<dots> = z * ((1 + u) / (1 - u))"
    by (simp add: z_def)
  finally have yu: "y \<le> z * ((1 + u) / (1 - u))" .
  have yl: "z * ((1 - u) / (1 + u)) \<le> y"
  proof -
    have "z * ((1 - u) / (1 + u)) = T * (1 - u) / (121 / 100 * (1 + u))" by (simp add: z_def)
    also have "\<dots> \<le> y" unfolding y_def using x(1) c(2) c0 x0 T u by (intro frac_le) auto
    finally show ?thesis .
  qed
  have r: "(1 + u) / (1 - u) * (1 + u) \<le> 1 + 19 / 5 * u" "1 - 19 / 5 * u \<le> (1 - u) / (1 + u) * (1 - u)"
    by (simp_all add: u_def)
  have "q \<le> z * ((1 + u) / (1 - u)) * (1 + u)"
    using q(2) yu u by (meson add_pos_pos less_eq_rat_def mult_right_mono order_trans zero_less_one)
  also have "\<dots> \<le> z * (1 + 19 / 5 * u)"
    using mult_left_mono [OF r(1) z(1)] by (simp add: mult.assoc)
  finally have 1: "q - z \<le> 19 / 5 * u * z" by (simp add: algebra_simps)
  have "z * (1 - 19 / 5 * u) \<le> z * ((1 - u) / (1 + u)) * (1 - u)"
    using mult_left_mono [OF r(2) z(1)] by (simp add: mult.assoc)
  also have "\<dots> \<le> y * (1 - u)"
    using yl u by (intro mult_right_mono) auto
  finally have 2: "z - q \<le> 19 / 5 * u * z" using q(1) by (simp add: algebra_simps)
  have "\<bar>q - z\<bar> \<le> 19 / 5 * u * z" using 1 2 by linarith
  then have "\<bar>100 * q - 100 * z\<bar> \<le> 100 * (19 / 5 * u * z)" by linarith
  moreover have "100 * z = of_int t / (121 / 100)" by (simp add: z_def T_def)
  moreover have "100 * (19 / 5 * u * z) \<le> of_int t / 2 ^ 51"
    using assms by (simp add: z_def T_def u_def field_simps)
  ultimately show ?thesis by simp
qed

lemma net_bounds:
  assumes "0 \<le> t" "t < 2 ^ 48"
  shows "0 \<le> net_cents t" "net_cents t \<le> t" "\<bar>of_int (net_cents t) - of_int t / (121 / 100)\<bar> < (1 :: rat)"
proof -
  define q where "q = fl (number_of_cents t / fl (121 / 100))"
  define z :: rat where "z = of_int t / (121 / 100)"
  have t48: "(of_int t :: rat) < 2 ^ 48" using assms(2) by (metis of_int_less_iff of_int_numeral of_int_power)
  have q: "\<bar>100 * q - z\<bar> \<le> of_int t / 2 ^ 51"
    using quotient_close [OF assms(1)] by (simp add: q_def z_def)
  have small: "(of_int t :: rat) / 2 ^ 51 < 1 / 4" using t48 by simp
  have n: "\<bar>of_int (net_cents t) - 100 * q\<bar> \<le> 1 / 2"
    using math_round_close [of "q * 100"] math_round_close [of "- q * 100"]
    by (simp add: net_cents_def q_def [symmetric] to_fixed2_def mult.commute abs_if split: if_splits)
  have z: "0 \<le> z" "z \<le> of_int t * (4 / 5) + of_int t * (3 / 100)" using assms(1) by (simp_all add: z_def)
  show "\<bar>of_int (net_cents t) - of_int t / (121 / 100)\<bar> < (1 :: rat)"
    using q n small unfolding z_def [symmetric] by linarith
  have "(-1 :: rat) < of_int (net_cents t)"
    using q n small z(1) by linarith
  then have "(of_int (-1) :: rat) < of_int (net_cents t)" by simp
  then show "0 \<le> net_cents t" by (simp only: of_int_less_iff)
  have "of_int (net_cents t) \<le> of_int t * (5 / 6) + (1 / 2 :: rat)"
  proof -
    have "(of_int t :: rat) / 2 ^ 51 \<le> of_int t * (1 / 1000)" using assms(1) by simp
    moreover have "(0 :: rat) \<le> of_int t" using assms(1) by simp
    ultimately show ?thesis using q n z(2) by linarith
  qed
  then have "(of_int (6 * net_cents t) :: rat) \<le> of_int (5 * t + 3)" by simp
  then have "6 * net_cents t \<le> 5 * t + 3" by (simp only: of_int_le_iff)
  then show "net_cents t \<le> t" using assms(1) by linarith
qed

lemma vat_exact:
  assumes "0 \<le> t" "t < 2 ^ 48"
  shows "vat_cents t = t - net_cents t"
  unfolding vat_cents_def
proof (rule to_fixed2_eq)
  define n where "n = net_cents t"
  have n: "0 \<le> n" "n \<le> t" using net_bounds [OF assms] by (simp_all add: n_def)
  have b: "(of_int t :: rat) < 2 ^ 48" "(0 :: rat) \<le> of_int n" "(of_int n :: rat) \<le> of_int t"
  proof -
    show "(of_int t :: rat) < 2 ^ 48" using assms(2) by (metis of_int_less_iff of_int_numeral of_int_power)
  qed (use n in simp_all)
  define d where "d = number_of_cents t - number_of_cents n"
  have "\<bar>100 * number_of_cents t - of_int t\<bar> \<le> 1 / 32" "\<bar>100 * number_of_cents n - of_int n\<bar> \<le> 1 / 32"
    using number_of_cents_err [of t] number_of_cents_err [of n] b by simp_all
  then have d: "\<bar>100 * d - of_int (t - n)\<bar> \<le> 1 / 16"
    unfolding d_def of_int_diff right_diff_distrib by linarith
  have "\<bar>fl d - d\<bar> \<le> \<bar>d\<bar> / 2 ^ 53" by (rule fl_err)
  moreover have "\<bar>d\<bar> \<le> 2 ^ 42"
  proof -
    have "(2 :: rat) ^ 48 + 1 \<le> 100 * 2 ^ 42" "(1 :: rat) \<le> 2 ^ 42" by simp_all
    then show ?thesis using d b unfolding of_int_diff by linarith
  qed
  ultimately have "\<bar>fl d - d\<bar> \<le> 1 / 2048" by simp
  then show "\<bar>100 * fl (number_of_cents t - number_of_cents (net_cents t)) - of_int (t - net_cents t)\<bar> < 1 / 2"
    using d unfolding d_def n_def right_diff_distrib by linarith
qed

section \<open>Documents of a tenant\<close>

text \<open>The numbers of a point of sale and document type, in the order the documents were issued.\<close>

definition series_numbers :: "string \<Rightarrow> int \<Rightarrow> FiscalDocumentType \<Rightarrow> db \<Rightarrow> int list" where
  "series_numbers tid pointOfSale documentType s =
     map bd_documentNumber (filter (document_series tid pointOfSale documentType) (tb_billing s))"

definition numbers_ok :: "db \<Rightarrow> bool" where
  "numbers_ok s \<longleftrightarrow> (\<forall>tid p d. series_numbers tid p d s = [1..int (length (series_numbers tid p d s))])"

lemma foldl_max_upto: "foldl max m [a..b] = (if a \<le> b then max m b else m)" for m :: int
proof (induction a b arbitrary: m rule: upto.induct)
  case (1 i j)
  then show ?case by (cases "i < j") (auto simp: upto.simps [of i j] upto.simps [of "i + 1" j] simp del: upto_rec_numeral)
qed

lemma next_number:
  assumes "series_numbers tid p d s = [1..int n]"
  shows "getNextDocumentNumber tid p d s = int n + 1"
proof (cases n)
  case (Suc k)
  then have "[1..int n] = 1 # [2..int n]" by (simp add: upto.simps [of 1])
  then show ?thesis using Suc foldl_max_upto [of 1 2 "int n"] assms
    by (simp add: getNextDocumentNumber_def series_numbers_def max_def)
qed (use assms in \<open>simp add: getNextDocumentNumber_def series_numbers_def\<close>)

lemma issueDocument_Inr:
  assumes "issueDocument e tid inp s = Inr (row, s')"
  obtains order where "sel1 (order_key tid (is_orderId inp)) (tb_orders s) = Some order"
    "row = billingRow e tid inp order s"
    "s' = s\<lparr>tb_billing := tb_billing s @ [row], uuid_next := Suc (uuid_next s)\<rparr>"
    "billing_check row"
  using assms
  by (auto simp: issueDocument_def Let_def insert_row_Inr split: option.splits)

lemma issueDocument_numbers:
  assumes "numbers_ok s" "issueDocument e tid inp s = Inr (row, s')"
  shows "numbers_ok s'"
  using assms(2)
proof (rule issueDocument_Inr)
  fix order
  assume r: "row = billingRow e tid inp order s"
    and s': "s' = s\<lparr>tb_billing := tb_billing s @ [row], uuid_next := Suc (uuid_next s)\<rparr>"
  show ?thesis unfolding numbers_ok_def
  proof (intro allI)
    fix tid' p d
    obtain n where n: "series_numbers tid' p d s = [1..int n]" using assms(1) unfolding numbers_ok_def by blast
    show "series_numbers tid' p d s' = [1..int (length (series_numbers tid' p d s'))]"
    proof (cases "document_series tid' p d row")
      case True
      then have "bd_documentNumber row = getNextDocumentNumber tid' p d s"
        by (simp add: r billingRow_def Let_def document_series_def)
      then have "series_numbers tid' p d s' = [1..int n] @ [int n + 1]"
        using True n next_number [OF n] by (simp add: s' series_numbers_def)
      then show ?thesis by (simp add: upto_rec2 add.commute)
    next
      case False
      then show ?thesis using n by (simp add: s' series_numbers_def)
    qed
  qed
qed

text \<open>The requests of the tenants, one after the other; a request that fails leaves the state.\<close>

definition issue_step :: "env \<times> string \<times> issue_input \<Rightarrow> db \<Rightarrow> db" where
  "issue_step q s = (case q of (e, tid, inp) \<Rightarrow>
     (case issueDocument e tid inp s of Inl _ \<Rightarrow> s | Inr (_, s') \<Rightarrow> s'))"

lemma issue_run_numbers: "numbers_ok s \<Longrightarrow> numbers_ok (fold issue_step qs s)"
proof (induction qs arbitrary: s)
  case (Cons q qs)
  have "numbers_ok (issue_step q s)"
    using Cons.prems by (auto simp: issue_step_def issueDocument_numbers split: prod.split sum.split)
  then show ?case using Cons.IH by simp
qed simp

section \<open>Properties\<close>

text \<open>
  A document that is issued splits its total exactly: net and VAT are nonnegative, add up to the
  total to the cent, and the net is the total without 21% VAT to within a cent, although the code
  computes both in floating point and rounds twice.
\<close>

theorem fiscal_split_exact:
  assumes "issueDocument e tid inp s = Inr (row, s')"
  shows "bd_netAmount row + bd_vatAmount row = bd_totalAmount row
    \<and> 0 \<le> bd_netAmount row \<and> 0 \<le> bd_vatAmount row
    \<and> \<bar>of_int (bd_netAmount row) - of_int (bd_totalAmount row) / (121 / 100)\<bar> < (1 :: rat)"
  using assms
proof (rule issueDocument_Inr)
  fix order
  assume r: "row = billingRow e tid inp order s" and c: "billing_check row"
  define t where "t = bd_totalAmount row"
  have t: "0 \<le> t" "t < 2 ^ 48" using c by (simp_all add: t_def billing_check_def numeric12_2_def)
  have n: "0 \<le> net_cents t" "net_cents t \<le> t" using net_bounds [OF t] by simp_all
  have "bd_netAmount row = net_cents t" "bd_vatAmount row = t - net_cents t"
    using n t by (simp_all add: r t_def billingRow_def Let_def vat_exact to_fixed2_number)
  then show ?thesis using net_bounds [OF t] by (simp add: t_def)
qed

definition sample_issue :: issue_input where
  "sample_issue = \<lparr>is_orderId = o_id (sample_order_row AdminDirect Paid), is_locationId = None, is_documentType = None,
     is_pointOfSale = None, is_customerDocType = None, is_customerDocNumber = None, is_customerName = None\<rparr>"

definition sample_books :: db where
  "sample_books = empty_db\<lparr>tb_orders := [sample_order_row AdminDirect Paid]\<rparr>"

lemma sample_issued:
  "issueDocument sample_env ''t1'' sample_issue sample_books =
     (let row = billingRow sample_env ''t1'' sample_issue (sample_order_row AdminDirect Paid) sample_books
      in Inr (row, sample_books\<lparr>tb_billing := [row], uuid_next := Suc (uuid_next sample_books)\<rparr>))"
  "bd_totalAmount (billingRow sample_env ''t1'' sample_issue (sample_order_row AdminDirect Paid) sample_books) = 200000"
proof -
  define order where "order = sample_order_row AdminDirect Paid"
  have o: "o_total order = 200000" "o_discountTotal order = 0" "o_tenantId order = ''t1''" "o_currency order = ''ARS''"
    "o_id order = is_orderId sample_issue"
    by (simp_all add: order_def sample_issue_def)
  let ?row = "billingRow sample_env ''t1'' sample_issue order sample_books"
  have n: "0 \<le> net_cents 200000" "net_cents 200000 \<le> 200000" "vat_cents 200000 = 200000 - net_cents 200000"
    using net_bounds [of 200000] vat_exact [of 200000] by simp_all
  have "to_fixed2 (number_of_cents 0) = 0" by (rule to_fixed2_number) simp
  moreover have "getNextDocumentNumber ''t1'' 1 TicketInterno sample_books = 1"
    by (simp add: getNextDocumentNumber_def sample_books_def empty_db_def)
  ultimately have "billing_check ?row"
    using n o by (simp add: billing_check_def billingRow_def Let_def numeric12_2_def to_fixed2_number sample_issue_def orElse_def)
  moreover have "sel1 (order_key ''t1'' (is_orderId sample_issue)) (tb_orders sample_books) = Some order"
    using o by (simp add: sample_books_def order_def [symmetric] sel1_def order_key_def)
  moreover have "tb_billing sample_books = []" by (simp add: sample_books_def empty_db_def)
  ultimately show "issueDocument sample_env ''t1'' sample_issue sample_books =
     (let row = billingRow sample_env ''t1'' sample_issue (sample_order_row AdminDirect Paid) sample_books
      in Inr (row, sample_books\<lparr>tb_billing := [row], uuid_next := Suc (uuid_next sample_books)\<rparr>))"
    by (simp add: issueDocument_def Let_def insert_row_def lift_db_def order_def [symmetric])
  show "bd_totalAmount (billingRow sample_env ''t1'' sample_issue (sample_order_row AdminDirect Paid) sample_books) = 200000"
    using o by (simp add: billingRow_def Let_def order_def [symmetric])
qed

theorem fiscal_split_exact_witness:
  "\<exists>row s'. issueDocument sample_env ''t1'' sample_issue sample_books = Inr (row, s')
     \<and> bd_netAmount row + bd_vatAmount row = 200000"
proof -
  obtain row s' where i: "issueDocument sample_env ''t1'' sample_issue sample_books = Inr (row, s')"
    "bd_totalAmount row = 200000"
    using sample_issued by (auto simp: Let_def)
  show ?thesis using fiscal_split_exact [OF i(1)] i by auto
qed

text \<open>
  C40. The documents of each tenant, point of sale and type carry the numbers 1 to n in the order they
  were issued, without a gap or a repetition, after any sequence of requests (the ones that fail
  included) on a database without documents.
\<close>

theorem fiscal_numbers_gapless:
  assumes "tb_billing s = []"
  shows "series_numbers tid p d (fold issue_step qs s)
    = [1..int (length (series_numbers tid p d (fold issue_step qs s)))]"
proof -
  have "numbers_ok s" using assms by (simp add: numbers_ok_def series_numbers_def)
  then show ?thesis using issue_run_numbers unfolding numbers_ok_def by blast
qed

theorem fiscal_numbers_gapless_witness:
  "series_numbers ''t1'' 1 TicketInterno (fold issue_step
     [(sample_env, ''t1'', sample_issue), (sample_env, ''t1'', sample_issue\<lparr>is_orderId := ''none''\<rparr>)] sample_books) = [1]"
proof -
  let ?s = "fold issue_step
     [(sample_env, ''t1'', sample_issue), (sample_env, ''t1'', sample_issue\<lparr>is_orderId := ''none''\<rparr>)] sample_books"
  have "tb_billing sample_books = []" by (simp add: sample_books_def empty_db_def)
  moreover have "length (series_numbers ''t1'' 1 TicketInterno ?s) = 1"
  proof -
    have fresh: "fresh_id sample_env empty_db \<noteq> ''none''" by code_simp
    have "issueDocument e ''t1'' (sample_issue\<lparr>is_orderId := ''none''\<rparr>) (sample_books\<lparr>tb_billing := b, uuid_next := n\<rparr>)
        = Inl BillingOrderNotFound" for e b n
      using fresh by (simp add: issueDocument_def sample_books_def sel1_def order_key_def)
    moreover have "is_pointOfSale sample_issue = None" "is_documentType sample_issue = None"
      by (simp_all add: sample_issue_def)
    ultimately show ?thesis
      by (simp add: issue_step_def sample_issued Let_def series_numbers_def document_series_def billingRow_def orElse_def)
  qed
  moreover from calculation(1) have "series_numbers ''t1'' 1 TicketInterno ?s
      = [1..int (length (series_numbers ''t1'' 1 TicketInterno ?s))]"
    by (rule fiscal_numbers_gapless)
  ultimately show ?thesis by (metis One_nat_def of_nat_1 upto_single)
qed

lemma sum_by_source:
  "(\<Sum>g \<leftarrow> filter (\<lambda>g. 0 < sr_orders g) (map (revenue_of rows) [MercadopagoWebhook, AdminDirect, StorefrontCash]). sr_revenue g)
     = (\<Sum>r \<leftarrow> rows. o_total r)" (is "?sum rows = _")
proof -
  have empty: "sr_revenue (revenue_of rows src) = 0" if "\<not> 0 < sr_orders (revenue_of rows src)" for src
    using that by (simp add: revenue_of_def Let_def)
  have "?sum rows = (\<Sum>g \<leftarrow> map (revenue_of rows) [MercadopagoWebhook, AdminDirect, StorefrontCash]. sr_revenue g)"
    by (simp add: empty)
  also have "\<dots> = (\<Sum>r \<leftarrow> rows. o_total r)"
  proof (induction rows)
    case (Cons r rows)
    then show ?case by (cases "o_source r") (simp_all add: revenue_of_def Let_def)
  qed (simp add: revenue_of_def)
  finally show ?thesis .
qed

lemma count_by_source:
  "(\<Sum>g \<leftarrow> filter (\<lambda>g. 0 < sr_orders g) (map (revenue_of rows) [MercadopagoWebhook, AdminDirect, StorefrontCash]). sr_orders g)
     = int (length rows)" (is "?sum rows = _")
proof -
  have empty: "sr_orders (revenue_of rows src) = 0" if "\<not> 0 < sr_orders (revenue_of rows src)" for src
    using that by (simp add: revenue_of_def Let_def)
  have "?sum rows = (\<Sum>g \<leftarrow> map (revenue_of rows) [MercadopagoWebhook, AdminDirect, StorefrontCash]. sr_orders g)"
    by (simp add: empty)
  also have "\<dots> = int (length rows)"
  proof (induction rows)
    case (Cons r rows)
    then show ?case by (cases "o_source r") (simp_all add: revenue_of_def Let_def)
  qed (simp add: revenue_of_def)
  finally show ?thesis .
qed

text \<open>
  The revenue by source of a period adds up to its total revenue and the orders by source to its
  count of paid orders, whatever the filter.
\<close>

theorem summary_adds_up:
  "(\<Sum>g \<leftarrow> fs_revenueBySource (getFinancialSummary tid a b f s). sr_revenue g)
     = fs_totalRevenue (getFinancialSummary tid a b f s)
   \<and> (\<Sum>g \<leftarrow> fs_revenueBySource (getFinancialSummary tid a b f s). sr_orders g)
     = fs_paidOrdersCount (getFinancialSummary tid a b f s)"
  unfolding getFinancialSummary_def Let_def
  by (simp only: financial_summary.simps sum_by_source count_by_source)

end
