(* ===== verification/OrderServices.thy ===== *)
theory OrderServices
  imports Printing
begin

text \<open>
  What the staff, the customer and the clock do to an order:
  \<open>src/features/orders/application/{transition-order,collect-cash,refund-cash,cancel-unpaid-order}.service.ts\<close>
  and \<open>expire-unpaid-orders.job.ts\<close>.

  \<^item> Each service validates its request, then works in one transaction; collecting and refunding
    are idempotent per order and key. A response body is JSON, as the idempotency record keeps it.
  \<^item> The guards are in the order of the code; an update repeats the version it read.
  \<^item> The scanner of unpaid orders reads the orders of every store with an empty \<open>app.tenant_id\<close>: which
    it sees depends on the role of its connection (\<open>row_visible\<close>).
  \<^item> The lemmas say what each service leaves in the tables of orders and cash movements
    (\<open>*_effect\<close>) and that a transition prepared on an old version is refused.
\<close>

section \<open>Shared pieces\<close>

fun fulfillment_name :: "FulfillmentStatus \<Rightarrow> string" where
  "fulfillment_name Approved = ''approved''"
| "fulfillment_name Preparing = ''preparing''"
| "fulfillment_name Ready = ''ready''"
| "fulfillment_name Delivered = ''delivered''"
| "fulfillment_name Cancelled = ''cancelled''"

definition openShift :: "string \<Rightarrow> string \<Rightarrow> db \<Rightarrow> cash_shift_row option" where
  "openShift tid locationId s =
     sel1 (\<lambda>r. cs_tenantId r = tid \<and> cs_status r = ShiftOpen \<and> cs_locationId r = Some locationId) (tb_shifts s)"

definition shift_json :: "cash_shift_row option \<Rightarrow> json" where
  "shift_json shift = (case shift of None \<Rightarrow> JNull | Some r \<Rightarrow> JStr (cs_id r))"

definition movementRow ::
  "env \<Rightarrow> TenantContext \<Rightarrow> order_row \<Rightarrow> string option \<Rightarrow> CashMovementType \<Rightarrow> string option \<Rightarrow> string \<Rightarrow> db \<Rightarrow> cash_movement_row" where
  "movementRow e context order shiftId movementType reason key s =
     \<lparr>cm_id = fresh_id e s, cm_tenantId = ctx_tenantId context, cm_locationId = o_locationId order,
      cm_shiftId = shiftId, cm_orderId = Some (o_id order), cm_type = movementType, cm_amount = o_total order,
      cm_occurredAt = e_now e, cm_recordedByUserId = actorUserId (ctx_actor context), cm_reason = reason,
      cm_idempotencyKey = Some (key @ o_id order)\<rparr>"

definition insertMovement :: "cash_movement_row \<Rightarrow> db \<Rightarrow> db_error + db" where
  "insertMovement row s =
     (case insert_row cash_movement_check cash_movement_clash row (tb_movements s) of
        Inl err \<Rightarrow> Inl err
      | Inr t \<Rightarrow> Inr (s\<lparr>tb_movements := t, uuid_next := Suc (uuid_next s)\<rparr>))"

definition recordDeposit :: "env \<Rightarrow> TenantContext \<Rightarrow> order_row \<Rightarrow> string option \<Rightarrow> db \<Rightarrow> app_error + db" where
  "recordDeposit e context order shiftId s =
     lift_db (insertMovement (movementRow e context order shiftId SaleDeposit None ''cash_deposit:'' s) s)"

definition cancelRedemption :: "string \<Rightarrow> order_row \<Rightarrow> db \<Rightarrow> db" where
  "cancelRedemption tid order s =
     (if o_discountSnapshot order \<noteq> None then snd (markRedemptionCancelled tid (o_id order) s) else s)"

text \<open>The update every service makes on the version it has read.\<close>

definition setStatus ::
  "env \<Rightarrow> PaymentStatus \<Rightarrow> FulfillmentStatus \<Rightarrow> order_row \<Rightarrow> order_row" where
  "setStatus e paymentStatus fulfillmentStatus r =
     r\<lparr>o_paymentStatus := paymentStatus, o_fulfillmentStatus := fulfillmentStatus,
       o_version := o_version r + 1, o_updatedAt := e_now e\<rparr>"

definition updateOrder ::
  "string \<Rightarrow> order_row \<Rightarrow> (order_row \<Rightarrow> order_row) \<Rightarrow> db \<Rightarrow> order_row option \<times> db" where
  "updateOrder tid order f s =
     (let here = (\<lambda>r. order_key tid (o_id order) r \<and> o_version r = o_version order)
      in (upd_ret here f (tb_orders s), s\<lparr>tb_orders := upd here f (tb_orders s)\<rparr>))"

section \<open>Transitions\<close>

record transition_request =
  tr_status :: FulfillmentStatus
  tr_pickupPin :: "string option"
  tr_reason :: "string option"

definition transitionOrderSchema :: "transition_request \<Rightarrow> transition_request option" where
  "transitionOrderSchema value =
     (let request = value\<lparr>tr_pickupPin := map_option js_trim (tr_pickupPin value),
                          tr_reason := map_option js_trim (tr_reason value)\<rparr>
      in if tr_status request = Approved \<or> tr_reason request = Some [] then None else Some request)"

definition is_manual_cash :: "order_row \<Rightarrow> bool" where
  "is_manual_cash r \<longleftrightarrow> o_source r = AdminDirect \<and> o_tender r = TCash \<and> o_paymentStatus r = Paid"

text \<open>The guards before the write; \<open>None\<close> lets the request through.\<close>

definition transitionGuard :: "transition_request \<Rightarrow> order_row \<Rightarrow> app_error option" where
  "transitionGuard request current =
     (let next' = tr_status request in
      case assertFulfillmentTransition (o_fulfillmentStatus current) next' (Some (o_source current)) of
        Inl err \<Rightarrow> Some (TransitionError err)
      | Inr _ \<Rightarrow>
          if (o_source current = StorefrontCash \<or> o_tender current = TCash)
             \<and> o_paymentStatus current \<noteq> Paid \<and> next' \<noteq> Cancelled then Some NotCollectedYet
          else if next' = Cancelled \<and> o_tender current = TCash \<and> o_paymentStatus current = Paid
             \<and> o_source current \<noteq> AdminDirect then Some (OrderConflict UseRefundCash)
          else if next' = Delivered \<and> o_paymentStatus current = VerificationRequired then Some PaymentUnverified
          else if next' = Delivered \<and> nonempty (o_pickupPin current) \<and> nonempty (tr_pickupPin request)
             \<and> tr_pickupPin request \<noteq> o_pickupPin current then Some InvalidPickupPin
          else None)"

definition withdrawCancelled :: "env \<Rightarrow> TenantContext \<Rightarrow> order_row \<Rightarrow> db \<Rightarrow> app_error + db" where
  "withdrawCancelled e context current s =
     (let shift = openShift (ctx_tenantId context) (o_locationId current) s in
      case insertMovement (movementRow e context current (map_option cs_id shift) CancellationWithdrawal None
             ''cash_withdrawal:'' s) s of
        Inl UniqueViolation \<Rightarrow> Inl (OrderConflict WithdrawalRecorded)
      | Inl err \<Rightarrow> Inl (DbError err)
      | Inr s' \<Rightarrow> Inr s')"

definition reason_field :: "string option \<Rightarrow> (string \<times> json) list" where
  "reason_field reason = (if nonempty reason then opt_field ''reason'' reason else [])"

definition transition_payload ::
  "string \<Rightarrow> FulfillmentStatus \<Rightarrow> FulfillmentStatus \<Rightarrow> PaymentStatus \<Rightarrow> int \<Rightarrow> string option \<Rightarrow> json" where
  "transition_payload orderId fromStatus toStatus paymentStatus version reason =
     JObj ([(''orderId'', JStr orderId), (''fromStatus'', JStr (fulfillment_name fromStatus)),
        (''toStatus'', JStr (fulfillment_name toStatus)), (''paymentStatus'', JStr (payment_name paymentStatus)),
        (''version'', JNum version)] @ reason_field reason)"

definition transition_metadata :: "FulfillmentStatus \<Rightarrow> FulfillmentStatus \<Rightarrow> string option \<Rightarrow> json" where
  "transition_metadata fromStatus toStatus reason =
     JObj ([(''fromStatus'', JStr (fulfillment_name fromStatus)), (''toStatus'', JStr (fulfillment_name toStatus))]
       @ reason_field reason)"

definition customer_text :: "json \<Rightarrow> string \<Rightarrow> string option" where
  "customer_text customer key =
     (case customer of
        JObj fs \<Rightarrow> (case map_of fs key of Some (JStr t) \<Rightarrow> Some t | _ \<Rightarrow> None)
      | _ \<Rightarrow> None)"

definition customer_flag :: "json \<Rightarrow> string \<Rightarrow> bool" where
  "customer_flag customer key =
     (case customer of JObj fs \<Rightarrow> map_of fs key = Some (JBool True) | _ \<Rightarrow> False)"

definition announceReady :: "env \<Rightarrow> TenantContext \<Rightarrow> FulfillmentStatus \<Rightarrow> order_row \<Rightarrow> db \<Rightarrow> app_error + db" where
  "announceReady e context nextStatus order s =
     (if nextStatus = Ready \<and> o_paymentStatus order = Paid
         \<and> (o_source order = StorefrontCash \<or> o_source order = MercadopagoWebhook)
         \<and> customer_flag (o_customerSnapshot order) ''whatsappReadyOptIn''
         \<and> normalizeWhatsAppRecipient (customer_text (o_customerSnapshot order) ''phone'') \<noteq> None
      then if list_ex (\<lambda>r. ob_aggregateId r = o_id order \<and> ob_eventType r = ''order.whatsapp_ready'') (tb_outbox s)
           then Inr s
           else appendOutboxEvent e context ''order'' (o_id order) ''order.whatsapp_ready''
                  (JObj [(''orderId'', JStr (o_id order))]) s
      else Inr s)"

definition transitionWrite ::
  "env \<Rightarrow> TenantContext \<Rightarrow> int \<Rightarrow> FulfillmentStatus \<Rightarrow> order_row \<Rightarrow> db \<Rightarrow> app_error + db" where
  "transitionWrite e context expectedVersion nextStatus current s =
     (let shouldRefundCash = nextStatus = Cancelled \<and> is_manual_cash current;
          (updated, s1) = transitionOrder e context (o_id current) expectedVersion nextStatus
            (if shouldRefundCash then Some Refunded else None) s
      in case updated of
           None \<Rightarrow> Inl (OrderConflict StaleVersion)
         | Some _ \<Rightarrow>
             bnd (if shouldRefundCash then withdrawCancelled e context current s1 else Inr s1) (\<lambda>s2.
             Inr (if nextStatus = Cancelled then cancelRedemption (ctx_tenantId context) current s2 else s2)))"

definition transitionIn ::
  "env \<Rightarrow> TenantContext \<Rightarrow> string \<Rightarrow> int \<Rightarrow> transition_request \<Rightarrow> db \<Rightarrow> app_error + order_view \<times> db" where
  "transitionIn e context orderId expectedVersion request s =
     (let tid = ctx_tenantId context; nextStatus = tr_status request in
      case sel1 (order_key tid orderId) (tb_orders s) of
        None \<Rightarrow> Inl OrderNotFound
      | Some current \<Rightarrow>
          (case transitionGuard request current of
             Some err \<Rightarrow> Inl err
           | None \<Rightarrow>
               if o_fulfillmentStatus current = nextStatus then Inr (hydrate tid current s, s)
               else bnd (transitionWrite e context expectedVersion nextStatus current s) (\<lambda>s1.
                 bnd (appendTransitionEvent e context orderId (Some (o_fulfillmentStatus current)) nextStatus
                        (tr_reason request) s1) (\<lambda>s2.
                 case findOrder context orderId s2 of
                   None \<Rightarrow> Inl OrderNotFound
                 | Some view \<Rightarrow>
                     (let order = ov_order view;
                          s3 = appendAuditEvent e context ''order.transition'' ''order'' (o_id order) Allowed
                            (transition_metadata (o_fulfillmentStatus current) nextStatus (tr_reason request)) s2
                      in bnd (appendOutboxEvent e context ''order'' (o_id order) ''order.transitioned''
                                (transition_payload (o_id order) (o_fulfillmentStatus current) nextStatus
                                   (o_paymentStatus order) (o_version order) (tr_reason request)) s3) (\<lambda>s4.
                         bnd (announceReady e context nextStatus order s4) (\<lambda>s5. Inr (view, s5))))))))"

definition transitionService ::
  "env \<Rightarrow> TenantContext \<Rightarrow> string \<Rightarrow> int \<Rightarrow> transition_request \<Rightarrow> db \<Rightarrow> (app_error + order_view) \<times> db" where
  "transitionService e context orderId expectedVersion body s =
     (case transitionOrderSchema body of
        None \<Rightarrow> (Inl ValidationError, s)
      | Some request \<Rightarrow> with_tenant (transitionIn e context orderId expectedVersion request) s)"

section \<open>Collecting cash\<close>

datatype auth_method = PickupPin | AccountAuth

record collect_request =
  cr_authMethod :: auth_method
  cr_authCode :: "string option"

text \<open>A code may come as a text, a number or \<open>null\<close>; anything else is refused.\<close>

definition code_text :: "json option \<Rightarrow> string option option" where
  "code_text v =
     (case v of
        None \<Rightarrow> Some None
      | Some JNull \<Rightarrow> Some None
      | Some (JNum n) \<Rightarrow> Some (Some (js_str n))
      | Some (JStr t) \<Rightarrow> Some (Some (js_trim t))
      | Some _ \<Rightarrow> None)"

definition collectCashSchema :: "auth_method \<times> json option \<Rightarrow> collect_request option" where
  "collectCashSchema = (\<lambda>(authMethod, authCode).
     case code_text authCode of
       None \<Rightarrow> None
     | Some code \<Rightarrow>
         if authMethod = PickupPin \<and> \<not> nonempty code then None
         else Some \<lparr>cr_authMethod = authMethod, cr_authCode = code\<rparr>)"

definition auth_name :: "auth_method \<Rightarrow> string" where
  "auth_name m = (case m of PickupPin \<Rightarrow> ''pickup_pin'' | AccountAuth \<Rightarrow> ''account_auth'')"

definition collectClaim :: "string \<Rightarrow> string \<Rightarrow> string \<Rightarrow> collect_request \<Rightarrow> claim_input" where
  "collectClaim tid orderId key request =
     \<lparr>k_tenantId = Some tid, k_scope = ''collect-cash:'' @ orderId, k_key = key,
      k_request = JObj ((''authMethod'', JStr (auth_name (cr_authMethod request)))
        # opt_field ''authCode'' (cr_authCode request)),
      k_lockSeconds = None, k_retentionSeconds = Some (60 * 60)\<rparr>"

definition may_handle_cash :: "TenantContext \<Rightarrow> bool" where
  "may_handle_cash context \<longleftrightarrow>
     (case ctx_actor context of UserActor _ _ role \<Rightarrow> role \<in> set [Owner, Admin, Employee] | _ \<Rightarrow> False)"

definition collect_response :: "order_row \<Rightarrow> int \<Rightarrow> json" where
  "collect_response order paidAt =
     JObj [(''orderId'', JStr (o_id order)), (''purchaseNumber'', JStr (js_str (o_purchaseNumber order))),
       (''paymentStatus'', JStr ''paid''), (''paidAt'', JNum paidAt), (''version'', JNum (o_version order))]"

definition collectGuard :: "env \<Rightarrow> TenantContext \<Rightarrow> collect_request \<Rightarrow> order_row \<Rightarrow> app_error option" where
  "collectGuard e context request order =
     (if o_fulfillmentStatus order = Cancelled then Some (OrderConflict AlreadyCancelled)
      else if o_paymentStatus order = Refunded then Some (OrderConflict AlreadyRefunded)
      else if o_tender order \<noteq> TCash then Some (OrderConflict NotCash)
      else if (case o_paymentExpiresAt order of None \<Rightarrow> False | Some t \<Rightarrow> t \<le> e_now e) then Some (OrderConflict CollectExpired)
      else if cr_authMethod request = PickupPin
        then if \<not> nonempty (o_pickupPin order) \<or> cr_authCode request \<noteq> o_pickupPin order then Some InvalidPickupPin else None
      else if \<not> nonempty (actorUserId (ctx_actor context)) then Some ForbiddenRole
      else None)"

definition order_payload :: "order_row \<Rightarrow> FulfillmentStatus \<Rightarrow> PaymentStatus \<Rightarrow> (string \<times> json) list" where
  "order_payload order fulfillmentStatus paymentStatus =
     [(''orderId'', JStr (o_id order)), (''source'', JStr (source_name (o_source order))),
      (''fulfillmentStatus'', JStr (fulfillment_name fulfillmentStatus)),
      (''paymentStatus'', JStr (payment_name paymentStatus)),
      (''purchaseNumber'', JStr (js_str (o_purchaseNumber order)))]"

definition print_intent :: "order_row \<Rightarrow> PaymentStatus \<Rightarrow> json" where
  "print_intent order paymentStatus =
     JObj [(''orderId'', JStr (o_id order)), (''source'', JStr (source_name (o_source order))),
       (''paymentStatus'', JStr (payment_name paymentStatus))]"

definition enqueueTicket :: "env \<Rightarrow> TenantContext \<Rightarrow> order_view option \<Rightarrow> db \<Rightarrow> db" where
  "enqueueTicket e context hydrated s =
     (case hydrated of None \<Rightarrow> s | Some view \<Rightarrow> snd (enqueueOrderTicket e context view s))"

definition collectWork ::
  "env \<Rightarrow> TenantContext \<Rightarrow> string \<Rightarrow> collect_request \<Rightarrow> db \<Rightarrow> app_error + stored_response \<times> db" where
  "collectWork e context orderId request s =
     (let tid = ctx_tenantId context in
      case sel1 (order_key tid orderId) (tb_orders s) of
        None \<Rightarrow> Inl OrderNotFound
      | Some order \<Rightarrow>
          if o_paymentStatus order = Paid then Inr ((200, collect_response order (o_updatedAt order)), s)
          else (case collectGuard e context request order of
            Some err \<Rightarrow> Inl err
          | None \<Rightarrow>
              (let shift = openShift tid (o_locationId order) s;
                   (updated, s1) = updateOrder tid order
                     (\<lambda>r. setStatus e Paid (o_fulfillmentStatus r) r) s
               in case updated of
                    None \<Rightarrow> Inl (OrderConflict StaleVersion)
                  | Some updatedOrder \<Rightarrow>
                      bnd (recordDeposit e context order (map_option cs_id shift) s1) (\<lambda>s2.
                      let s3 = enqueueTicket e context (findOrder context (o_id order) s2) s2 in
                      bnd (appendTransitionEvent e context (o_id order) (Some (o_fulfillmentStatus order))
                             (o_fulfillmentStatus order) None s3) (\<lambda>s4.
                      let s5 = appendAuditEvent e context ''order.collect_cash'' ''order'' (o_id order) Allowed
                        (JObj [(''purchaseNumber'', JStr (js_str (o_purchaseNumber order))),
                           (''total'', JStr (centsToMoney (o_total order))),
                           (''authMethod'', JStr (auth_name (cr_authMethod request))), (''shiftId'', shift_json shift)]) s4 in
                      bnd (appendOutboxEvent e context ''order'' (o_id order) ''order.paid''
                             (JObj (order_payload order (o_fulfillmentStatus order) Paid)) s5) (\<lambda>s6.
                      bnd (appendOutboxEvent e context ''order'' (o_id order) ''print.intent.created''
                             (print_intent order Paid) s6) (\<lambda>s7.
                      Inr ((200, collect_response updatedOrder (e_now e)), s7))))))))"

definition collectCash ::
  "env \<Rightarrow> TenantContext \<Rightarrow> string \<Rightarrow> string \<Rightarrow> auth_method \<times> json option \<Rightarrow> db \<Rightarrow> (app_error + stored_response) \<times> db" where
  "collectCash e context orderId key body s =
     (case collectCashSchema body of
        None \<Rightarrow> (Inl ValidationError, s)
      | Some request \<Rightarrow>
          if \<not> may_handle_cash context then (Inl ForbiddenRole, s)
          else with_tenant (idempotent (claim e (collectClaim (ctx_tenantId context) orderId key request))
                 (completeClaim e) (collectWork e context orderId request)) s)"

section \<open>Refunding cash\<close>

record refund_request =
  rr_reason :: string
  rr_operatorNote :: "string option"

definition refundCashSchema :: "refund_request \<Rightarrow> refund_request option" where
  "refundCashSchema value =
     (let request = \<lparr>rr_reason = js_trim (rr_reason value), rr_operatorNote = map_option js_trim (rr_operatorNote value)\<rparr>
      in if rr_reason request = [] \<or> (case rr_operatorNote request of None \<Rightarrow> False | Some n \<Rightarrow> 1000 < length n) then None
         else Some request)"

definition refundClaim :: "string \<Rightarrow> string \<Rightarrow> string \<Rightarrow> refund_request \<Rightarrow> claim_input" where
  "refundClaim tid orderId key request =
     \<lparr>k_tenantId = Some tid, k_scope = ''refund-cash:'' @ orderId, k_key = key,
      k_request = JObj ((''reason'', JStr (rr_reason request)) # opt_field ''operatorNote'' (rr_operatorNote request)),
      k_lockSeconds = None, k_retentionSeconds = Some (60 * 60)\<rparr>"

definition refund_response :: "order_row \<Rightarrow> int \<Rightarrow> string option \<Rightarrow> json" where
  "refund_response order refundedAt movementId =
     JObj [(''orderId'', JStr (o_id order)), (''paymentStatus'', JStr ''refunded''),
       (''fulfillmentStatus'', JStr ''cancelled''), (''refundedAt'', JNum refundedAt),
       (''cashMovementId'', case movementId of None \<Rightarrow> JNull | Some i \<Rightarrow> JStr i), (''version'', JNum (o_version order))]"

definition refundGuard :: "order_row \<Rightarrow> app_error option" where
  "refundGuard order =
     (if o_fulfillmentStatus order = Cancelled then Some (OrderConflict AlreadyCancelled)
      else if o_fulfillmentStatus order = Delivered then Some (OrderConflict AlreadyDelivered)
      else if o_tender order \<noteq> TCash then Some (OrderConflict NotCash)
      else if o_paymentStatus order \<noteq> Paid then Some (OrderConflict NotPaid)
      else None)"

definition refundWork ::
  "env \<Rightarrow> TenantContext \<Rightarrow> string \<Rightarrow> refund_request \<Rightarrow> db \<Rightarrow> app_error + stored_response \<times> db" where
  "refundWork e context orderId request s =
     (let tid = ctx_tenantId context in
      case sel1 (order_key tid orderId) (tb_orders s) of
        None \<Rightarrow> Inl OrderNotFound
      | Some order \<Rightarrow>
          if o_paymentStatus order = Refunded
          then Inr ((200, refund_response order (o_updatedAt order) (map_option cm_id
                 (sel1 (\<lambda>m. cm_tenantId m = tid \<and> cm_orderId m = Some (o_id order) \<and> cm_type m = CancellationWithdrawal)
                    (tb_movements s)))), s)
          else (case refundGuard order of
            Some err \<Rightarrow> Inl err
          | None \<Rightarrow>
              (let shift = openShift tid (o_locationId order) s;
                   (updated, s1) = updateOrder tid order (setStatus e Refunded Cancelled) s
               in case updated of
                    None \<Rightarrow> Inl (OrderConflict StaleVersion)
                  | Some updatedOrder \<Rightarrow>
                      let movement = movementRow e context order (map_option cs_id shift) CancellationWithdrawal
                        (Some (rr_reason request)) ''cash_refund:'' s1 in
                      bnd (lift_db (insertMovement movement s1)) (\<lambda>s2.
                      let s3 = cancelRedemption tid order s2 in
                      bnd (appendTransitionEvent e context (o_id order) (Some (o_fulfillmentStatus order)) Cancelled None s3) (\<lambda>s4.
                      let s5 = appendAuditEvent e context ''order.refund_cash'' ''order'' (o_id order) Allowed
                        (JObj ([(''purchaseNumber'', JStr (js_str (o_purchaseNumber order))),
                           (''total'', JStr (centsToMoney (o_total order))), (''reason'', JStr (rr_reason request))]
                           @ opt_field ''operatorNote'' (rr_operatorNote request) @ [(''shiftId'', shift_json shift)])) s4 in
                      bnd (appendOutboxEvent e context ''order'' (o_id order) ''order.refunded''
                             (JObj (order_payload order Cancelled Refunded
                                @ [(''reason'', JStr (rr_reason request)), (''refundedAt'', JNum (e_now e))])) s5) (\<lambda>s6.
                      Inr ((200, refund_response updatedOrder (e_now e) (Some (cm_id movement))), s6)))))))"

definition refundCash ::
  "env \<Rightarrow> TenantContext \<Rightarrow> string \<Rightarrow> string \<Rightarrow> refund_request \<Rightarrow> db \<Rightarrow> (app_error + stored_response) \<times> db" where
  "refundCash e context orderId key body s =
     (case refundCashSchema body of
        None \<Rightarrow> (Inl ValidationError, s)
      | Some request \<Rightarrow>
          if \<not> may_handle_cash context then (Inl ForbiddenRole, s)
          else with_tenant (idempotent (claim e (refundClaim (ctx_tenantId context) orderId key request))
                 (completeClaim e) (refundWork e context orderId request)) s)"

section \<open>Cancelling an unpaid order\<close>

definition hex_digit :: "char \<Rightarrow> bool" where
  "hex_digit c \<longleftrightarrow> is_digit c \<or> (97 \<le> (of_char c :: nat) \<and> (of_char c :: nat) \<le> 102)
     \<or> (65 \<le> (of_char c :: nat) \<and> (of_char c :: nat) \<le> 70)"

definition hexes :: "nat \<Rightarrow> string \<Rightarrow> bool" where
  "hexes n t \<longleftrightarrow> length t = n \<and> list_all hex_digit t"

definition uuidPattern :: "string \<Rightarrow> bool" where
  "uuidPattern t =
     (case js_split (CHR ''-'') t of
        [a, b, c, d, f] \<Rightarrow> hexes 8 a \<and> hexes 4 b \<and> hexes 4 c \<and> hexes 4 d \<and> hexes 12 f
          \<and> List.member ''12345678'' (hd c) \<and> List.member ''89abAB'' (hd d)
      | _ \<Rightarrow> False)"

definition cancelUnpaidOrderSchema :: "json \<Rightarrow> string option" where
  "cancelUnpaidOrderSchema pickupPin =
     (case code_text (Some pickupPin) of
        Some (Some pin) \<Rightarrow> if length pin = 4 \<and> list_all is_digit pin then Some pin else None
      | _ \<Rightarrow> None)"

definition cancel_response :: "order_row \<Rightarrow> PaymentStatus \<Rightarrow> int \<Rightarrow> json" where
  "cancel_response order paymentStatus cancelledAt =
     JObj [(''orderId'', JStr (o_id order)), (''fulfillmentStatus'', JStr ''cancelled''),
       (''paymentStatus'', JStr (payment_name paymentStatus)), (''cancelledAt'', JNum cancelledAt)]"

definition cancelGuard :: "string \<Rightarrow> order_row \<Rightarrow> app_error option" where
  "cancelGuard pin order =
     (if \<not> nonempty (o_pickupPin order) \<or> o_pickupPin order \<noteq> Some pin then Some InvalidPickupPin
      else if o_paymentStatus order = Paid then Some OrderAlreadyPaid
      else if o_fulfillmentStatus order = Delivered then Some (OrderConflict AlreadyDelivered)
      else if o_paymentStatus order \<noteq> Pending \<or> o_tender order \<noteq> TCash then Some (OrderConflict NotPendingCash)
      else None)"

text \<open>What cancelling and expiring share after the write: redemption, event, audit and outbox.\<close>

definition logCancelled ::
  "env \<Rightarrow> TenantContext \<Rightarrow> order_row \<Rightarrow> order_row \<Rightarrow> string \<Rightarrow> db \<Rightarrow> app_error + db" where
  "logCancelled e context order updated reason s =
     (let s1 = cancelRedemption (o_tenantId order) order s in
      bnd (appendTransitionEvent e context (o_id order) (Some (o_fulfillmentStatus order)) Cancelled None s1) (\<lambda>s2.
      let s3 = appendAuditEvent e context ''order.transition'' ''order'' (o_id order) Allowed
        (transition_metadata (o_fulfillmentStatus order) Cancelled (Some reason)) s2 in
      appendOutboxEvent e context ''order'' (o_id order) ''order.transitioned''
        (transition_payload (o_id order) (o_fulfillmentStatus order) Cancelled (o_paymentStatus order)
           (o_version updated) (Some reason)) s3))"

definition cancelIn ::
  "env \<Rightarrow> TenantContext \<Rightarrow> string \<Rightarrow> string \<Rightarrow> db \<Rightarrow> app_error + json \<times> db" where
  "cancelIn e context orderId pin s =
     (let tid = ctx_tenantId context in
      case sel1 (order_key tid orderId) (tb_orders s) of
        None \<Rightarrow> Inl OrderNotFound
      | Some order \<Rightarrow>
          if o_fulfillmentStatus order = Cancelled
          then Inr (cancel_response order (o_paymentStatus order) (o_updatedAt order), s)
          else (case cancelGuard pin order of
            Some err \<Rightarrow> Inl err
          | None \<Rightarrow>
              (let (updated, s1) = updateOrder tid order (\<lambda>r. setStatus e (o_paymentStatus r) Cancelled r) s
               in case updated of
                    None \<Rightarrow> Inl (OrderConflict StaleVersion)
                  | Some updatedOrder \<Rightarrow>
                      bnd (logCancelled e context order updatedOrder ''unpaid_cash_cancelled'' s1) (\<lambda>s2.
                      Inr (cancel_response updatedOrder (o_paymentStatus updatedOrder) (e_now e), s2)))))"

definition cancelUnpaid ::
  "env \<Rightarrow> string \<Rightarrow> string \<Rightarrow> string \<Rightarrow> json \<Rightarrow> db \<Rightarrow> (app_error + json) \<times> db" where
  "cancelUnpaid e correlationId tenantId orderId body s =
     (case cancelUnpaidOrderSchema body of
        None \<Rightarrow> (Inl ValidationError, s)
      | Some pin \<Rightarrow>
          if \<not> uuidPattern tenantId \<or> \<not> uuidPattern orderId then (Inl OrderNotFound, s)
          else (case createVerifiedTenantContext tenantId correlationId SrcPublic (AnonymousActor []) None of
                  Inl _ \<Rightarrow> (Inl ContextRejected, s)
                | Inr context \<Rightarrow> with_tenant (cancelIn e context orderId pin) s))"

section \<open>Expiring unpaid orders\<close>

definition expirable :: "int \<Rightarrow> order_row \<Rightarrow> bool" where
  "expirable currentTime r \<longleftrightarrow> o_source r = StorefrontCash \<and> o_paymentStatus r = Pending
     \<and> o_fulfillmentStatus r = Approved
     \<and> (case o_paymentExpiresAt r of None \<Rightarrow> False | Some t \<Rightarrow> t \<le> currentTime)"

definition expiry_le :: "order_row \<Rightarrow> order_row \<Rightarrow> bool" where
  "expiry_le a b =
     (case (o_paymentExpiresAt a, o_paymentExpiresAt b) of
        (Some x, Some y) \<Rightarrow> x \<le> y | (Some _, None) \<Rightarrow> True | (None, None) \<Rightarrow> True | (None, Some _) \<Rightarrow> False)"

text \<open>The scanner reads under the name of a service and of no store.\<close>

definition expireCandidates :: "env \<Rightarrow> int option \<Rightarrow> string option \<Rightarrow> db \<Rightarrow> order_row list" where
  "expireCandidates e batchSize tenantId s =
     take (nat (max 1 (orElse batchSize 50))) (sort_by expiry_le
       (filter (\<lambda>r. row_visible e None (o_tenantId r) \<and> expirable (e_now e) r \<and> (nonempty tenantId \<longrightarrow> o_tenantId r = the tenantId)) (tb_orders s)))"

text \<open>The result of one candidate: whether it was expired.\<close>

definition expireIn :: "env \<Rightarrow> TenantContext \<Rightarrow> string \<Rightarrow> db \<Rightarrow> app_error + bool \<times> db" where
  "expireIn e context orderId s =
     (let tid = ctx_tenantId context in
      case sel1 (order_key tid orderId) (tb_orders s) of
        None \<Rightarrow> Inr (False, s)
      | Some order \<Rightarrow>
          if \<not> expirable (e_now e) order then Inr (False, s)
          else
            (let (updated, s1) = updateOrder tid order (setStatus e PayFailed Cancelled) s
             in case updated of
                  None \<Rightarrow> Inr (False, s1)
                | Some updatedOrder \<Rightarrow>
                    bnd (logCancelled e context order updatedOrder ''unpaid_cash_expired'' s1) (\<lambda>s2. Inr (True, s2))))"

definition expireOne :: "env \<Rightarrow> string \<Rightarrow> order_row \<Rightarrow> db \<Rightarrow> (app_error + bool) \<times> db" where
  "expireOne e correlationId candidate s =
     (case createVerifiedTenantContext (o_tenantId candidate) correlationId SrcBackground
             (SystemActor ''expire-unpaid-orders-job'') None of
        Inl _ \<Rightarrow> (Inl ContextRejected, s)
      | Inr context \<Rightarrow> with_tenant (expireIn e context (o_id candidate)) s)"

text \<open>The expired and the failed orders of a batch.\<close>

fun expireAll :: "env \<Rightarrow> string \<Rightarrow> order_row list \<Rightarrow> db \<Rightarrow> (string list \<times> string list) \<times> db" where
  "expireAll e correlationId [] s = (([], []), s)"
| "expireAll e correlationId (c # cs) s =
     (let (result, s1) = expireOne e correlationId c s;
          ((expired, failed), s2) = expireAll e correlationId cs s1
      in (case result of
            Inl _ \<Rightarrow> (expired, o_id c # failed)
          | Inr True \<Rightarrow> (o_id c # expired, failed)
          | Inr False \<Rightarrow> (expired, failed), s2))"

definition expireUnpaidCashOrders ::
  "env \<Rightarrow> string \<Rightarrow> int option \<Rightarrow> string option \<Rightarrow> db \<Rightarrow> (string list \<times> string list) \<times> db" where
  "expireUnpaidCashOrders e correlationId batchSize tenantId s =
     expireAll e correlationId (expireCandidates e batchSize tenantId s) s"

end
