(* ===== verification/CreateOrders.thy ===== *)
theory CreateOrders
  imports OrderServices Billing
begin

text \<open>
  The four ways an order is made: \<open>create-cash-order.service.ts\<close> (a customer who pays at the
  counter) and \<open>create-order.service.ts\<close> (\<open>createDirect\<close> and \<open>createDirectFromItems\<close> by the
  staff, \<open>createPaidFromPaymentAttempt\<close> by the payment webhook), in
  \<open>src/features/orders/application\<close>.

  \<^item> All go through \<open>createFromCartSnapshot\<close>; what follows a new order (deposit, audit, outbox,
    ticket, document) is \<open>announceOrder\<close>. The environment's PIN is \<open>randomInt(1000, 10000)\<close>.
  \<^item> \<open>isUuid\<close> and \<open>isEmail\<close> are the validation library's checks. A customer is the JSON the
    request parses to. A line total that is not a number makes the insert of the cart fail.
\<close>

section \<open>Requests\<close>

definition blank_none :: "string option \<Rightarrow> string option" where
  "blank_none v = (case v of None \<Rightarrow> None | Some t \<Rightarrow> if js_trim t = [] then None else Some (js_trim t))"

record direct_customer =
  dc_name :: "string option"
  dc_email :: "string option"
  dc_phone :: "string option"

definition customerSchema :: "(string \<Rightarrow> bool) \<Rightarrow> direct_customer \<Rightarrow> json option" where
  "customerSchema isEmail value =
     (let email = blank_none (dc_email value) in
      if (case email of None \<Rightarrow> False | Some m \<Rightarrow> \<not> isEmail m) then None
      else Some (JObj ((''name'', JStr (orElse (blank_none (dc_name value)) ''NN''))
        # opt_field ''email'' email @ opt_field ''phone'' (blank_none (dc_phone value)))))"

record direct_request =
  dq_cartId :: string
  dq_customer :: direct_customer
  dq_notes :: "string option"

definition notes_ok :: "nat \<Rightarrow> string option \<Rightarrow> bool" where
  "notes_ok n v \<longleftrightarrow> (case v of None \<Rightarrow> True | Some t \<Rightarrow> length t \<le> n)"

definition createDirectOrderSchema ::
  "(string \<Rightarrow> bool) \<Rightarrow> (string \<Rightarrow> bool) \<Rightarrow> direct_request \<Rightarrow> (string \<times> json \<times> string option) option" where
  "createDirectOrderSchema isUuid isEmail value =
     (case customerSchema isEmail (dq_customer value) of
        None \<Rightarrow> None
      | Some customer \<Rightarrow>
          if isUuid (dq_cartId value) \<and> notes_ok 1000 (blank_none (dq_notes value))
          then Some (dq_cartId value, customer, blank_none (dq_notes value)) else None)"

record direct_item =
  di_kind :: "SelectionKind option"
  di_resourceId :: "string option"
  di_catalogItemId :: "string option"
  di_quantity :: int
  di_optionIds :: "string list option"
  di_note :: "string option"
  di_calculatedSubtotal :: "string option"

definition uuid_field :: "(string \<Rightarrow> bool) \<Rightarrow> string option \<Rightarrow> bool" where
  "uuid_field isUuid v \<longleftrightarrow> (case v of None \<Rightarrow> True | Some i \<Rightarrow> isUuid i)"

definition directOrderItemSchema :: "(string \<Rightarrow> bool) \<Rightarrow> direct_item \<Rightarrow> CartSelection option" where
  "directOrderItemSchema isUuid item =
     (let note = map_option js_trim (di_note item); ids = orElse (di_optionIds item) [] in
      if uuid_field isUuid (di_resourceId item) \<and> uuid_field isUuid (di_catalogItemId item)
         \<and> 0 < di_quantity item \<and> di_quantity item \<le> 50
         \<and> length ids \<le> 50 \<and> list_all isUuid ids \<and> notes_ok 500 note
         \<and> (case di_calculatedSubtotal item of None \<Rightarrow> True | Some p \<Rightarrow> money_re p)
         \<and> (nonempty (di_resourceId item) \<or> nonempty (di_catalogItemId item))
      then Some \<lparr>sel_kind = orElse (di_kind item) Item,
        sel_resourceId = (case di_resourceId item of Some i \<Rightarrow> i | None \<Rightarrow> orElse (di_catalogItemId item) []),
        sel_quantity = di_quantity item, sel_optionIds = ids, sel_note = note,
        sel_confirmedUnitPrice = None, sel_calculatedSubtotal = di_calculatedSubtotal item\<rparr>
      else None)"

record direct_items_request =
  dir_items :: "direct_item list"
  dir_customer :: "direct_customer option"
  dir_tender :: "OrderTender option"
  dir_paymentStatus :: "PaymentStatus option"
  dir_notes :: "string option"
  dir_discountCode :: "string option"

record items_order =
  io_items :: "CartSelection list"
  io_customer :: json
  io_tender :: OrderTender
  io_paymentStatus :: PaymentStatus
  io_notes :: "string option"
  io_discountCode :: "string option"

fun parse_all :: "('a \<Rightarrow> 'b option) \<Rightarrow> 'a list \<Rightarrow> 'b list option" where
  "parse_all f [] = Some []"
| "parse_all f (x # xs) =
     (case f x of None \<Rightarrow> None | Some y \<Rightarrow> (case parse_all f xs of None \<Rightarrow> None | Some ys \<Rightarrow> Some (y # ys)))"

definition createDirectOrderSchemaFromItems ::
  "(string \<Rightarrow> bool) \<Rightarrow> (string \<Rightarrow> bool) \<Rightarrow> direct_items_request \<Rightarrow> items_order option" where
  "createDirectOrderSchemaFromItems isUuid isEmail value =
     (let n = length (dir_items value); payment = orElse (dir_paymentStatus value) Paid;
          notes = blank_none (dir_notes value); code = blank_none (dir_discountCode value);
          customer = (case dir_customer value of
            None \<Rightarrow> Some (JObj [(''name'', JStr ''NN'')]) | Some c \<Rightarrow> customerSchema isEmail c)
      in if n < 1 \<or> 100 < n \<or> \<not> (payment = Paid \<or> payment = Pending \<or> payment = VerificationRequired)
           \<or> \<not> notes_ok 1000 notes \<or> \<not> notes_ok 50 code then None
         else (case (parse_all (directOrderItemSchema isUuid) (dir_items value), customer) of
           (Some items, Some c) \<Rightarrow> Some \<lparr>io_items = items, io_customer = c,
             io_tender = orElse (dir_tender value) TCash, io_paymentStatus = payment,
             io_notes = notes, io_discountCode = code\<rparr>
         | _ \<Rightarrow> None))"

section \<open>What follows a new order\<close>

text \<open>\<open>String(value)\<close> of a JSON value.\<close>

fun js_string :: "json \<Rightarrow> string" where
  "js_string JNull = ''null''"
| "js_string (JBool b) = (if b then ''true'' else ''false'')"
| "js_string (JNum n) = js_str n"
| "js_string (JStr t) = t"
| "js_string (JArr vs) = join_with '','' (map (\<lambda>v. if v = JNull then [] else js_string v) vs)"
| "js_string (JObj fs) = ''[object Object]''"

definition customer_name :: "json \<Rightarrow> string option" where
  "customer_name customer =
     (case customer of JObj fs \<Rightarrow> map_option js_string (map_of fs ''name'') | _ \<Rightarrow> None)"

definition created_payload :: "order_row \<Rightarrow> (string \<times> json) list \<Rightarrow> json" where
  "created_payload order attempt =
     JObj ([(''orderId'', JStr (o_id order)), (''source'', JStr (source_name (o_source order)))] @ attempt
       @ [(''fulfillmentStatus'', JStr (fulfillment_name (o_fulfillmentStatus order))),
          (''paymentStatus'', JStr (payment_name (o_paymentStatus order)))])"

definition order_document :: "order_row \<Rightarrow> issue_input" where
  "order_document order =
     \<lparr>is_orderId = o_id order, is_locationId = Some (o_locationId order), is_documentType = Some TicketInterno,
      is_pointOfSale = None, is_customerDocType = Some CF, is_customerDocNumber = None,
      is_customerName = customer_name (o_customerSnapshot order)\<rparr>"

definition issueFor :: "env \<Rightarrow> TenantContext \<Rightarrow> issue_input \<Rightarrow> db \<Rightarrow> app_error + db" where
  "issueFor e context inp s = bnd (issueDocument e (ctx_tenantId context) inp s) (\<lambda>(_, s'). Inr s')"

text \<open>
  Audit, outbox, print intent, ticket and document of a new order: \<open>attempt\<close> is the payment
  attempt the payloads name, \<open>document\<close> the document to issue.
\<close>

definition announceOrder ::
  "env \<Rightarrow> TenantContext \<Rightarrow> string \<Rightarrow> (string \<times> json) list \<Rightarrow> string \<Rightarrow> order_view \<Rightarrow> issue_input option \<Rightarrow> db
     \<Rightarrow> app_error + db" where
  "announceOrder e context action attempt cartId view document s =
     (let order = ov_order view;
          s1 = appendAuditEvent e context action ''order'' (o_id order) Allowed
            (JObj ([(''cartId'', JStr cartId)] @ attempt
               @ [(''purchaseNumber'', JStr (js_str (o_purchaseNumber order)))])) s
      in bnd (appendOutboxEvent e context ''order'' (o_id order) ''order.created'' (created_payload order attempt) s1) (\<lambda>s2.
         bnd (appendOutboxEvent e context ''order'' (o_id order) ''print.intent.created''
                (print_intent order (o_paymentStatus order)) s2) (\<lambda>s3.
         let s4 = snd (enqueueOrderTicket e context view s3) in
         case document of None \<Rightarrow> Inr s4 | Some inp \<Rightarrow> issueFor e context inp s4)))"

section \<open>From the staff's cart\<close>

definition direct_order :: "env \<Rightarrow> stored_cart \<Rightarrow> PaymentStatus \<Rightarrow> OrderTender \<Rightarrow> json \<Rightarrow> string option \<Rightarrow> string \<Rightarrow> new_order" where
  "direct_order e cart paymentStatus tender customer notes key =
     \<lparr>no_cart = cart, no_source = AdminDirect, no_paymentStatus = paymentStatus, no_tender = Some tender,
      no_customer = customer, no_notes = notes, no_idempotencyKey = key, no_paymentAttemptId = None,
      no_approvedAt = Some (e_now e), no_pickupPin = None, no_estimatedWaitMinutes = None,
      no_estimatedReadyAt = None, no_scheduledFor = None, no_paymentExpiresAt = None\<rparr>"

definition createDirectIn ::
  "env \<Rightarrow> TenantContext \<Rightarrow> string \<times> json \<times> string option \<Rightarrow> string \<Rightarrow> db \<Rightarrow> app_error + order_view \<times> db" where
  "createDirectIn e context request key s =
     (case request of (cartId, customer, notes) \<Rightarrow>
      (case loadCart context cartId s of
         None \<Rightarrow> Inl OrderNotFound
       | Some cart \<Rightarrow>
           if c_status (sc_cart cart) = CartExpired then Inl OrderNotFound
           else if c_status (sc_cart cart) = CartConverted \<or> sc_lines cart = [] then Inl (OrderConflict CartUnusable)
           else bnd (createFromCartSnapshot e context (direct_order e cart Paid TCash customer notes key) s)
             (\<lambda>((view, created), s1).
               if created
               then bnd (recordDeposit e context (ov_order view) None s1) (\<lambda>s2.
                    bnd (announceOrder e context ''order.create_direct'' [] (c_id (sc_cart cart)) view
                           (Some (order_document (ov_order view))) s2) (\<lambda>s3. Inr (view, s3)))
               else Inr (view, s1))))"

definition createDirect ::
  "(string \<Rightarrow> bool) \<Rightarrow> (string \<Rightarrow> bool) \<Rightarrow> env \<Rightarrow> TenantContext \<Rightarrow> direct_request \<Rightarrow> string \<Rightarrow> db
     \<Rightarrow> (app_error + order_view) \<times> db" where
  "createDirect isUuid isEmail e context value key s =
     (case createDirectOrderSchema isUuid isEmail value of
        None \<Rightarrow> (Inl ValidationError, s)
      | Some request \<Rightarrow> with_tenant (createDirectIn e context request key) s)"

section \<open>From items\<close>

text \<open>The line of a selection, the category of its product and the line's total in cents.\<close>

definition directLine ::
  "string \<Rightarrow> string \<Rightarrow> CartSelection \<Rightarrow> db \<Rightarrow> app_error + (new_line \<times> string option) \<times> int option" where
  "directLine tid currency selection s =
     (case loadSelection tid (sel_kind selection) (sel_resourceId selection) s of
        None \<Rightarrow> Inl (OrderConflict (ProductUnavailable (sel_resourceId selection)))
      | Some catalog \<Rightarrow>
          if cat_currency catalog \<noteq> currency then Inl (OrderConflict (ProductUnavailable (sel_resourceId selection)))
          else (case revalidateCartSelection selection (RevalidationCatalog.truncate catalog) of
                  Inl err \<Rightarrow> Inl (CartRevalidation err)
                | Inr validated \<Rightarrow>
                    let effectiveQuantity = (if rv_itemType validated = Weighted then 1 else sel_quantity selection);
                        lineTotalCents = map_option (\<lambda>c. c * effectiveQuantity) (rv_unitPriceCents validated)
                    in Inr ((\<lparr>nl_kind = csc_kind catalog, nl_resourceId = sel_resourceId selection,
                         nl_itemType = rv_itemType validated, nl_quantity = effectiveQuantity,
                         nl_name = csc_name catalog, nl_unitPrice = money_text (rv_unitPriceCents validated),
                         nl_lineTotal = money_text lineTotalCents, nl_imageUrl = csc_imageUrl catalog,
                         nl_note = sel_note selection, nl_options = rv_options validated\<rparr>,
                        csc_categoryId catalog), lineTotalCents)))"

fun directLines ::
  "string \<Rightarrow> string \<Rightarrow> CartSelection list \<Rightarrow> int option \<Rightarrow> db
     \<Rightarrow> app_error + (new_line \<times> string option) list \<times> int option" where
  "directLines tid currency [] subtotalCents s = Inr ([], subtotalCents)"
| "directLines tid currency (selection # rest) subtotalCents s =
     bnd (directLine tid currency selection s) (\<lambda>(line, lineTotalCents).
     bnd (directLines tid currency rest (nan_plus subtotalCents lineTotalCents) s) (\<lambda>(lines, subtotal).
       Inr (line # lines, subtotal)))"

text \<open>The category map holds the last category seen for a resource.\<close>

definition category_of :: "(new_line \<times> string option) list \<Rightarrow> string \<Rightarrow> string option" where
  "category_of lines resourceId =
     (case map_of (rev (map (\<lambda>(l, c). (nl_resourceId l, c)) lines)) resourceId of None \<Rightarrow> None | Some c \<Rightarrow> c)"

definition direct_discount_lines :: "(new_line \<times> string option) list \<Rightarrow> CartLineForDiscount list" where
  "direct_discount_lines lines =
     map (\<lambda>(i, l). (request_line i l)\<lparr>dl_categoryId := category_of lines (nl_resourceId l)\<rparr>)
       (enumerate 0 (map fst lines))"

definition directDiscount ::
  "env \<Rightarrow> string \<Rightarrow> OrderTender \<Rightarrow> string option \<Rightarrow> (new_line \<times> string option) list \<Rightarrow> int \<Rightarrow> db
     \<Rightarrow> app_error + string \<times> int \<times> (string \<times> discount_metadata) option" where
  "directDiscount e tid tender discountCode lines subtotalCents s =
     (if \<not> nonempty discountCode then Inr (''0.00'', subtotalCents, None)
      else case findDiscountByCode tid (the discountCode) s of
        None \<Rightarrow> Inl (OrderConflict CouponUnknown)
      | Some discount \<Rightarrow>
          (case calculateDiscountAmounts (direct_discount_lines lines) (coupon_of discount) (e_now e)
                  (Some (if tender = TCash then Cash else Posnet)) of
             None \<Rightarrow> Inl (DbError InvalidNumeric)
           | Some calc \<Rightarrow>
               if dr_isEligible calc
               then Inr (dr_discountTotal calc, dr_totalCents calc,
                      Some (d_id discount, discount_metadata_of discount calc))
               else if dr_ineligibilityReason calc = Some COUPON_TENDER_MISMATCH then Inl (OrderConflict CouponCashOnly)
               else Inl (OrderConflict CouponUnknown)))"

definition directCart ::
  "env \<Rightarrow> string \<Rightarrow> string \<Rightarrow> string \<Rightarrow> items_order \<Rightarrow> db \<Rightarrow> app_error + new_cart" where
  "directCart e tid currency locationId request s =
     bnd (directLines tid currency (io_items request) (Some 0) s) (\<lambda>(lines, subtotal).
       case subtotal of
         None \<Rightarrow> Inl (DbError InvalidNumeric)
       | Some subtotalCents \<Rightarrow>
           bnd (directDiscount e tid (io_tender request) (io_discountCode request) lines subtotalCents s)
             (\<lambda>(discountTotal, totalCents, applied).
             Inr \<lparr>nc_locationId = locationId, nc_currency = currency,
               nc_subtotal = centsToMoney subtotalCents, nc_discountTotal = discountTotal,
               nc_total = centsToMoney totalCents, nc_appliedDiscountCodeId = map_option fst applied,
               nc_discountMetadata = map_option snd applied,
               nc_expiresAt = e_now e + 30 * 60 * 1000, nc_lines = map fst lines\<rparr>))"

definition notifyOwner :: "env \<Rightarrow> TenantContext \<Rightarrow> order_row \<Rightarrow> db \<Rightarrow> app_error + db" where
  "notifyOwner e context order s =
     (let tid = ctx_tenantId context;
          preset = map_option t_preset (sel1 (\<lambda>r. t_id r = tid) (tb_tenants s));
          phone = Option.bind (sel1 (\<lambda>r. ts_tenantId r = tid) (tb_settings s)) ts_ownerCashAlertWhatsAppPhone
      in if canNotifyOwnerOfCashOrder preset phone (Some (if o_tender order = TCash then ''cash'' else ''posnet''))
              (Some (payment_name (o_paymentStatus order)))
         then appendOutboxEvent e context ''order'' (o_id order) ''order.whatsapp_owner_cash_pending''
                (JObj [(''orderId'', JStr (o_id order))]) s
         else Inr s)"

definition createItemsIn ::
  "env \<Rightarrow> TenantContext \<Rightarrow> items_order \<Rightarrow> string \<Rightarrow> db \<Rightarrow> app_error + order_view \<times> db" where
  "createItemsIn e context request key s =
     (let tid = ctx_tenantId context in
      case sel1 (\<lambda>r. t_id r = tid) (tb_tenants s) of
        None \<Rightarrow> Inl OrderNotFound
      | Some tenantRow \<Rightarrow>
          (case sel1 (\<lambda>r. tl_tenantId r = tid \<and> tl_isPrimary r \<and> tl_active r) (tb_locations s) of
             None \<Rightarrow> Inl OrderNotFound
           | Some location \<Rightarrow>
               bnd (directCart e tid (t_defaultCurrency tenantRow) (tl_id location) request s) (\<lambda>inp.
               bnd (createCart e tid inp s) (\<lambda>(cart, s1).
               case cart of
                 None \<Rightarrow> Inl InternalError
               | Some c \<Rightarrow>
                   bnd (createFromCartSnapshot e context
                          (direct_order e c (io_paymentStatus request) (io_tender request) (io_customer request)
                             (io_notes request) key) s1) (\<lambda>((view, created), s2).
                     let order = ov_order view in
                     if \<not> created then Inr (view, s2)
                     else
                       bnd (if io_tender request = TCash \<and> io_paymentStatus request = Paid
                            then recordDeposit e context order None s2 else Inr s2) (\<lambda>s3.
                       bnd (announceOrder e context ''order.create_direct'' [] (c_id (sc_cart c)) view
                              (if io_paymentStatus request = Paid
                               then Some ((order_document order)\<lparr>is_documentType := None, is_customerDocType := None\<rparr>)
                               else None) s3) (\<lambda>s4.
                       bnd (notifyOwner e context order s4) (\<lambda>s5. Inr (view, s5)))))))))"

definition createDirectFromItems ::
  "(string \<Rightarrow> bool) \<Rightarrow> (string \<Rightarrow> bool) \<Rightarrow> env \<Rightarrow> TenantContext \<Rightarrow> direct_items_request \<Rightarrow> string \<Rightarrow> db
     \<Rightarrow> (app_error + order_view) \<times> db" where
  "createDirectFromItems isUuid isEmail e context value key s =
     (case createDirectOrderSchemaFromItems isUuid isEmail value of
        None \<Rightarrow> (Inl ValidationError, s)
      | Some request \<Rightarrow> with_tenant (createItemsIn e context request key) s)"

section \<open>From an approved payment\<close>

definition paid_order :: "env \<Rightarrow> stored_cart \<Rightarrow> payment_attempt_row \<Rightarrow> int option \<Rightarrow> new_order" where
  "paid_order e cart attempt approvedAt =
     \<lparr>no_cart = cart, no_source = MercadopagoWebhook, no_paymentStatus = Paid, no_tender = None,
      no_customer = pa_customerSnapshot attempt, no_notes = pa_notes attempt,
      no_idempotencyKey = ''payment-attempt:'' @ pa_id attempt, no_paymentAttemptId = Some (pa_id attempt),
      no_approvedAt = Some (case approvedAt of Some t \<Rightarrow> t | None \<Rightarrow> orElse (pa_processedAt attempt) (e_now e)),
      no_pickupPin = None, no_estimatedWaitMinutes = None,
      no_estimatedReadyAt = map_option Some (pa_scheduledFor attempt), no_scheduledFor = pa_scheduledFor attempt,
      no_paymentExpiresAt = None\<rparr>"

definition createPaidIn ::
  "env \<Rightarrow> TenantContext \<Rightarrow> string \<Rightarrow> int option \<Rightarrow> db \<Rightarrow> app_error + order_view \<times> db" where
  "createPaidIn e context paymentAttemptId approvedAt s =
     (case loadPaymentAttempt context paymentAttemptId s of
        None \<Rightarrow> Inl OrderNotFound
      | Some attempt \<Rightarrow>
          if pa_status attempt \<noteq> PaApproved then Inl (OrderConflict AttemptNotApproved)
          else (case loadCart context (pa_cartId attempt) s of
            None \<Rightarrow> Inl OrderNotFound
          | Some cart \<Rightarrow>
              bnd (createFromCartSnapshot e context (paid_order e cart attempt approvedAt) s) (\<lambda>((view, created), s1).
                if created
                then bnd (announceOrder e context ''order.create_paid'' [(''paymentAttemptId'', JStr (pa_id attempt))]
                            (c_id (sc_cart cart)) view (Some (order_document (ov_order view))) s1) (\<lambda>s2.
                       Inr (view, s2))
                else Inr (view, s1))))"

definition createPaidFromPaymentAttempt ::
  "env \<Rightarrow> TenantContext \<Rightarrow> string \<Rightarrow> int option \<Rightarrow> db \<Rightarrow> (app_error + order_view) \<times> db" where
  "createPaidFromPaymentAttempt e context paymentAttemptId approvedAt s =
     with_tenant (createPaidIn e context paymentAttemptId approvedAt) s"

section \<open>From a customer who pays at the counter\<close>

record cash_customer =
  cu_name :: string
  cu_phone :: "string option"
  cu_whatsappReadyOptIn :: "bool option"

record cash_request =
  cq_customer :: cash_customer
  cq_notes :: "string option"
  cq_scheduledFor :: "string option option"
  cq_cartVersion :: "int option"

definition createCashOrderSchema :: "(string \<Rightarrow> bool) \<Rightarrow> cash_request \<Rightarrow> cash_request option" where
  "createCashOrderSchema isDatetime value =
     (let c = cq_customer value;
          customer = \<lparr>cu_name = js_trim (cu_name c), cu_phone = blank_none (cu_phone c),
            cu_whatsappReadyOptIn = cu_whatsappReadyOptIn c\<rparr>
      in if cu_name customer = []
           \<or> (cu_whatsappReadyOptIn customer = Some True \<and> \<not> nonempty (normalizeWhatsAppRecipient (cu_phone customer)))
           \<or> (case cq_scheduledFor value of Some (Some t) \<Rightarrow> \<not> isDatetime t | _ \<Rightarrow> False)
           \<or> (case cq_cartVersion value of Some v \<Rightarrow> v \<le> 0 | None \<Rightarrow> False)
         then None
         else Some (value\<lparr>cq_customer := customer, cq_notes := blank_none (cq_notes value)\<rparr>))"

definition cash_request_json :: "cash_request \<Rightarrow> json" where
  "cash_request_json r =
     (let c = cq_customer r in
      JObj ([(''customer'', JObj ([(''name'', JStr (cu_name c))] @ opt_field ''phone'' (cu_phone c)
          @ (case cu_whatsappReadyOptIn c of None \<Rightarrow> [] | Some b \<Rightarrow> [(''whatsappReadyOptIn'', JBool b)])))]
        @ opt_field ''notes'' (cq_notes r)
        @ (case cq_scheduledFor r of None \<Rightarrow> [] | Some None \<Rightarrow> [(''scheduledFor'', JNull)]
           | Some (Some t) \<Rightarrow> [(''scheduledFor'', JStr t)])
        @ (case cq_cartVersion r of None \<Rightarrow> [] | Some v \<Rightarrow> [(''cartVersion'', JNum v)])))"

definition cashClaim :: "string \<Rightarrow> string \<Rightarrow> string \<Rightarrow> cash_request \<Rightarrow> claim_input" where
  "cashClaim tid cartId key request =
     \<lparr>k_tenantId = Some tid, k_scope = ''cash-order:'' @ cartId, k_key = key, k_request = cash_request_json request,
      k_lockSeconds = None, k_retentionSeconds = Some (60 * 60)\<rparr>"

definition secondsRemaining :: "int \<Rightarrow> int \<Rightarrow> int" where
  "secondsRemaining expiresAt now = max 0 ((expiresAt - now) div 1000)"

text \<open>A stored response, with the seconds that remain at the time it is asked for again.\<close>

definition refreshed :: "int \<Rightarrow> json \<Rightarrow> json" where
  "refreshed now cached =
     (case cached of
        JObj fs \<Rightarrow>
          (case map_of fs ''expiresAt'' of
             Some (JNum t) \<Rightarrow> JObj (map (\<lambda>(k, v). if k = ''secondsRemaining''
                then (k, JNum (secondsRemaining t now)) else (k, v)) fs)
           | _ \<Rightarrow> cached)
      | _ \<Rightarrow> cached)"

definition couponStillValid :: "env \<Rightarrow> string \<Rightarrow> stored_cart \<Rightarrow> db \<Rightarrow> app_error option" where
  "couponStillValid e tid cart s =
     (if \<not> nonempty (c_appliedDiscountCodeId (sc_cart cart)) then None
      else case findDiscountById tid (the (c_appliedDiscountCodeId (sc_cart cart))) s of
        None \<Rightarrow> None
      | Some discount \<Rightarrow>
          (let applicableSubtotalCents = (\<Sum>(l, opts)\<leftarrow>sc_lines cart. cents (centsToMoney (cl_lineTotal l))) in
           case evaluateCouponEligibility (coupon_of discount) applicableSubtotalCents (e_now e) (Some Cash) of
             None \<Rightarrow> None
           | Some reason \<Rightarrow>
               Some (if reason = COUPON_TENDER_MISMATCH then CouponTenderMismatch else OrderConflict (CouponInvalid reason))))"

definition cash_customer_json :: "cash_customer \<Rightarrow> json" where
  "cash_customer_json c =
     JObj ([(''name'', JStr (cu_name c))] @ opt_field ''phone'' (cu_phone c)
       @ (if cu_whatsappReadyOptIn c = Some True then [(''whatsappReadyOptIn'', JBool True)] else []))"

definition paymentDeadline :: "int \<Rightarrow> int option \<Rightarrow> int" where
  "paymentDeadline now scheduledDate =
     (case scheduledDate of
        Some t \<Rightarrow> max (now + 60 * 60 * 1000) (t + 30 * 60 * 1000)
      | None \<Rightarrow> now + 60 * 60 * 1000)"

definition cash_order :: "env \<Rightarrow> stored_cart \<Rightarrow> cash_request \<Rightarrow> int option \<Rightarrow> string \<Rightarrow> new_order" where
  "cash_order e cart request scheduledDate key =
     \<lparr>no_cart = cart, no_source = StorefrontCash, no_paymentStatus = Pending, no_tender = Some TCash,
      no_customer = cash_customer_json (cq_customer request), no_notes = cq_notes request,
      no_idempotencyKey = key, no_paymentAttemptId = None, no_approvedAt = None,
      no_pickupPin = Some (Some (e_pin e)), no_estimatedWaitMinutes = None,
      no_estimatedReadyAt = map_option Some scheduledDate, no_scheduledFor = scheduledDate,
      no_paymentExpiresAt = Some (paymentDeadline (e_now e) scheduledDate)\<rparr>"

definition cash_response :: "env \<Rightarrow> string \<Rightarrow> order_row \<Rightarrow> int \<Rightarrow> json" where
  "cash_response e tid order paymentExpiresAt =
     JObj [(''orderId'', JStr (o_id order)), (''tenantId'', JStr tid),
       (''purchaseNumber'', JStr (js_str (o_purchaseNumber order))),
       (''pickupPin'', JStr (orElse (o_pickupPin order) (e_pin e))), (''total'', JStr (centsToMoney (o_total order))),
       (''paymentStatus'', JStr ''pending''), (''scheduledFor'', opt_num (o_scheduledFor order)),
       (''expiresAt'', JNum paymentExpiresAt), (''secondsRemaining'', JNum (secondsRemaining paymentExpiresAt (e_now e)))]"

definition cashGuard :: "env \<Rightarrow> string \<Rightarrow> cash_request \<Rightarrow> stored_cart option \<Rightarrow> db \<Rightarrow> app_error option" where
  "cashGuard e tid request found s =
     (case found of
        None \<Rightarrow> Some CashOrderCartUnavailable
      | Some cart \<Rightarrow>
          if c_expiresAt (sc_cart cart) \<le> e_now e \<or> c_status (sc_cart cart) = CartExpired then Some CashOrderCartUnavailable
          else if c_status (sc_cart cart) = CartConverted then Some (OrderConflict CartAlreadyConverted)
          else if cq_cartVersion request \<noteq> None \<and> cq_cartVersion request \<noteq> Some (c_version (sc_cart cart)) then Some CartVersionMismatch
          else if sc_lines cart = [] then Some (OrderConflict CartEmpty)
          else couponStillValid e tid cart s)"

definition cashWork ::
  "env \<Rightarrow> PublicTenant \<Rightarrow> TenantContext \<Rightarrow> string \<Rightarrow> string \<Rightarrow> cash_request \<Rightarrow> db \<Rightarrow> app_error + stored_response \<times> db" where
  "cashWork e tenant context cartId key request s =
     (let found = findCart (st_id tenant) cartId s in
      case cashGuard e (st_id tenant) request found s of
        Some err \<Rightarrow> Inl err
      | None \<Rightarrow>
          (case validateScheduledPickupTime (e_parseDate e) (e_zone e) (e_collate e)
                  (case cq_scheduledFor request of Some (Some t) \<Rightarrow> ScheduleString t | _ \<Rightarrow> NoSchedule)
                  \<lparr>so_now = e_now e, so_openingHours = st_openingHours tenant, so_timezone = st_timezone tenant\<rparr> of
             Inl err \<Rightarrow> Inl (SchedulingError err)
           | Inr scheduledDate \<Rightarrow>
               bnd (createFromCartSnapshot e context (cash_order e (the found) request scheduledDate key) s) (\<lambda>((view, created), s1).
                 Inr ((201, cash_response e (st_id tenant) (ov_order view) (paymentDeadline (e_now e) scheduledDate)), s1))))"

definition cashOrderIn ::
  "env \<Rightarrow> PublicTenant \<Rightarrow> TenantContext \<Rightarrow> string \<Rightarrow> string \<Rightarrow> cash_request \<Rightarrow> db \<Rightarrow> app_error + json \<times> db" where
  "cashOrderIn e tenant context cartId key request s =
     (if (case sel1 (\<lambda>r. ts_tenantId r = st_id tenant) (tb_settings s) of None \<Rightarrow> False | Some r \<Rightarrow> \<not> ts_salesEnabled r)
      then Inl BusinessClosed
      else bnd (claim e (cashClaim (st_id tenant) cartId key request) s) (\<lambda>(c, s1).
        case c of
          Replayed response \<Rightarrow> Inr (refreshed (e_now e) (snd response), s1)
        | Claimed recordId \<Rightarrow>
            bnd (cashWork e tenant context cartId key request s1) (\<lambda>(response, s2).
              Inr (snd response, completeClaim e recordId response s2))))"

definition createCashOrder ::
  "(string \<Rightarrow> bool) \<Rightarrow> env \<Rightarrow> string \<Rightarrow> string \<Rightarrow> string \<Rightarrow> string \<Rightarrow> cash_request \<Rightarrow> db
     \<Rightarrow> (app_error + json) \<times> db" where
  "createCashOrder isDatetime e correlationId slug cartId key body s =
     (case createCashOrderSchema isDatetime body of
        None \<Rightarrow> (Inl ValidationError, s)
      | Some request \<Rightarrow>
          (case resolveStorefront e slug s of
             Inl err \<Rightarrow> (Inl err, s)
           | Inr tenant \<Rightarrow>
               if st_preset tenant = ExpressRetail then (Inl OrderingNotSupported, s)
               else (case publicContext tenant correlationId of
                       Inl err \<Rightarrow> (Inl err, s)
                     | Inr context \<Rightarrow> with_tenant (cashOrderIn e tenant context cartId key request) s)))"

end
