(* ===== verification/CashShift.thy ===== *)
theory CashShift
  imports Billing
begin

text \<open>
  \<open>src/features/commerce/application/cash-shift.service.ts\<close>: opening and closing the register,
  and the cash it should hold.

  \<^item> The totals are added by the database; the opening balance and their sum are added as doubles
    and printed with two decimals (\<open>to_fixed2\<close> of \<open>Billing\<close>).
  \<^item> An opening looks for an open shift and then inserts one, without a lock: \<open>readOpen\<close> and
    \<open>insertShift\<close>. The requests of the other theories run one after another; what two openings
    that interleave may do is stated here.
  \<^item> The lemmas: what is expected is the opening balance plus the sales to the cent; one after the
    other, openings leave a store with at most one open shift, interleaved they need not; a shift
    is closed once.
\<close>

section \<open>Requests\<close>

record open_shift =
  op_openingBalance :: string
  op_locationId :: "string option"
  op_notes :: "string option"

record close_shift =
  cl_closingBalance :: string
  cl_notes :: "string option"

definition balance_re :: "string \<Rightarrow> bool" where
  "balance_re t =
     (case js_split (CHR ''.'') t of
        [w] \<Rightarrow> w \<noteq> [] \<and> list_all is_digit w
      | [w, f] \<Rightarrow> w \<noteq> [] \<and> list_all is_digit w \<and> length f = 2 \<and> list_all is_digit f
      | _ \<Rightarrow> False)"

definition short_notes :: "string option \<Rightarrow> bool" where
  "short_notes v \<longleftrightarrow> (case v of None \<Rightarrow> True | Some t \<Rightarrow> length t \<le> 1000)"

definition openShiftSchema :: "(string \<Rightarrow> bool) \<Rightarrow> open_shift \<Rightarrow> bool" where
  "openShiftSchema isUuid inp \<longleftrightarrow> balance_re (op_openingBalance inp)
     \<and> (case op_locationId inp of None \<Rightarrow> True | Some l \<Rightarrow> isUuid l) \<and> short_notes (op_notes inp)"

definition closeShiftSchema :: "close_shift \<Rightarrow> bool" where
  "closeShiftSchema inp \<longleftrightarrow> balance_re (cl_closingBalance inp) \<and> short_notes (cl_notes inp)"

definition formatted :: "string \<Rightarrow> string" where
  "formatted t = (if List.member t (CHR ''.'') then t else t @ ''.00'')"

section \<open>Cash sales\<close>

text \<open>Paid orders tendered in cash from an instant on, up to another if there is one.\<close>

definition cash_sale :: "string \<Rightarrow> int \<Rightarrow> int option \<Rightarrow> order_row \<Rightarrow> bool" where
  "cash_sale tid openedAt until r \<longleftrightarrow> o_tenantId r = tid \<and> o_tender r = TCash \<and> o_paymentStatus r = Paid
     \<and> openedAt \<le> o_createdAt r \<and> (case until of None \<Rightarrow> True | Some t \<Rightarrow> o_createdAt r \<le> t)"

definition cash_sales :: "string \<Rightarrow> int \<Rightarrow> int option \<Rightarrow> db \<Rightarrow> int \<times> int" where
  "cash_sales tid openedAt until s =
     (let rows = filter (cash_sale tid openedAt until) (tb_orders s)
      in (\<Sum>r\<leftarrow>rows. o_total r, int (length rows)))"

definition expectedCash :: "int \<Rightarrow> int \<Rightarrow> int" where
  "expectedCash opening sales = to_fixed2 (fl (number_of_cents opening + number_of_cents sales))"

section \<open>Service\<close>

record shift_view =
  sv_shift :: cash_shift_row
  sv_cashSales :: int
  sv_orderCount :: int
  sv_expectedCash :: int

definition open_of :: "string \<Rightarrow> cash_shift_row \<Rightarrow> bool" where
  "open_of tid r \<longleftrightarrow> cs_tenantId r = tid \<and> cs_status r = ShiftOpen"

definition currentShift :: "TenantContext \<Rightarrow> db \<Rightarrow> shift_view option" where
  "currentShift context s =
     map_option (\<lambda>shift.
       let (sales, n) = cash_sales (ctx_tenantId context) (cs_openedAt shift) None s
       in \<lparr>sv_shift = shift, sv_cashSales = sales, sv_orderCount = n,
           sv_expectedCash = expectedCash (cs_openingBalance shift) sales\<rparr>)
     (sel1 (open_of (ctx_tenantId context)) (tb_shifts s))"

definition shiftRow :: "env \<Rightarrow> TenantContext \<Rightarrow> open_shift \<Rightarrow> int \<Rightarrow> db \<Rightarrow> cash_shift_row" where
  "shiftRow e context inp opening s =
     \<lparr>cs_id = fresh_id e s, cs_tenantId = ctx_tenantId context, cs_locationId = op_locationId inp,
      cs_registerIdentifier = ''default'', cs_openedByUserId = orElse (actorUserId (ctx_actor context)) ''system'',
      cs_openingBalance = opening, cs_closingBalance = None, cs_expectedCash = None, cs_status = ShiftOpen,
      cs_openedAt = e_now e, cs_closedAt = None, cs_notes = op_notes inp, cs_updatedAt = e_now e\<rparr>"

text \<open>The two statements of an opening: the look for an open shift, and the insertion.\<close>

definition readOpen :: "TenantContext \<Rightarrow> db \<Rightarrow> cash_shift_row option" where
  "readOpen context s = sel1 (open_of (ctx_tenantId context)) (tb_shifts s)"

definition insertShift :: "env \<Rightarrow> TenantContext \<Rightarrow> open_shift \<Rightarrow> db \<Rightarrow> app_error + cash_shift_row \<times> db" where
  "insertShift e context inp s =
     bnd (lift_db (numeric_text (formatted (op_openingBalance inp)))) (\<lambda>opening.
       let row = shiftRow e context inp opening s in
       bnd (lift_db (insert_row cash_shift_check cash_shift_clash row (tb_shifts s))) (\<lambda>t.
         Inr (row, s\<lparr>tb_shifts := t, uuid_next := Suc (uuid_next s)\<rparr>)))"

definition openShiftIn :: "env \<Rightarrow> TenantContext \<Rightarrow> open_shift \<Rightarrow> db \<Rightarrow> app_error + cash_shift_row \<times> db" where
  "openShiftIn e context inp s =
     (if readOpen context s \<noteq> None then Inl CashShiftConflict else insertShift e context inp s)"

definition openShiftService ::
  "(string \<Rightarrow> bool) \<Rightarrow> env \<Rightarrow> TenantContext \<Rightarrow> open_shift \<Rightarrow> db \<Rightarrow> (app_error + cash_shift_row) \<times> db" where
  "openShiftService isUuid e context inp s =
     (if \<not> openShiftSchema isUuid inp then (Inl ValidationError, s)
      else with_tenant (openShiftIn e context inp) s)"

definition closeSet :: "env \<Rightarrow> int \<Rightarrow> int \<Rightarrow> string option \<Rightarrow> cash_shift_row \<Rightarrow> cash_shift_row" where
  "closeSet e closing expected notes r =
     r\<lparr>cs_status := ShiftClosed, cs_closingBalance := Some closing, cs_expectedCash := Some expected,
       cs_closedAt := Some (e_now e), cs_notes := notes, cs_updatedAt := e_now e\<rparr>"

definition closeShiftIn ::
  "env \<Rightarrow> TenantContext \<Rightarrow> string \<Rightarrow> close_shift \<Rightarrow> db \<Rightarrow> app_error + shift_view option \<times> db" where
  "closeShiftIn e context shiftId inp s =
     (let tid = ctx_tenantId context in
      case sel1 (\<lambda>r. cs_tenantId r = tid \<and> cs_id r = shiftId) (tb_shifts s) of
        None \<Rightarrow> Inl CashShiftNotFound
      | Some shift \<Rightarrow>
          if cs_status shift \<noteq> ShiftOpen then Inl CashShiftConflict
          else
            (let (sales, n) = cash_sales tid (cs_openedAt shift) (Some (e_now e)) s;
                 expected = expectedCash (cs_openingBalance shift) sales;
                 notes = (case cl_notes inp of Some t \<Rightarrow> Some t | None \<Rightarrow> cs_notes shift)
             in bnd (lift_db (numeric_text (formatted (cl_closingBalance inp)))) (\<lambda>closing.
                bnd (lift_db (update_rows cash_shift_check (\<lambda>r. cs_id r = shiftId) (closeSet e closing expected notes)
                       (tb_shifts s))) (\<lambda>(updated, t).
                  Inr (map_option (\<lambda>r. \<lparr>sv_shift = r, sv_cashSales = sales, sv_orderCount = n,
                         sv_expectedCash = expected\<rparr>) updated, s\<lparr>tb_shifts := t\<rparr>)))))"

definition closeShiftService ::
  "env \<Rightarrow> TenantContext \<Rightarrow> string \<Rightarrow> close_shift \<Rightarrow> db \<Rightarrow> (app_error + shift_view option) \<times> db" where
  "closeShiftService e context shiftId inp s =
     (if \<not> closeShiftSchema inp then (Inl ValidationError, s)
      else with_tenant (closeShiftIn e context shiftId inp) s)"

section \<open>Amounts\<close>

lemma cents_close: "\<bar>n\<bar> \<le> 2 ^ 48 \<Longrightarrow> \<bar>100 * number_of_cents n - of_int n\<bar> \<le> 1 / 32"
proof -
  assume "\<bar>n\<bar> \<le> 2 ^ 48"
  then have "\<bar>of_int n :: rat\<bar> \<le> 2 ^ 48" by (metis of_int_abs of_int_le_iff of_int_numeral of_int_power)
  then show ?thesis using number_of_cents_err [of n] by simp
qed

lemma close_step: "\<bar>x - y\<bar> \<le> 1 / 2048 \<Longrightarrow> \<bar>100 * y - z\<bar> \<le> 1 / 16 \<Longrightarrow> \<bar>100 * x - z\<bar> < 1 / 2" for x y z :: rat
  by linarith

lemma expectedCash_exact:
  assumes "0 \<le> a" "a \<le> 2 ^ 47" "0 \<le> b" "b \<le> 2 ^ 47"
  shows "expectedCash a b = a + b"
  unfolding expectedCash_def
proof (rule to_fixed2_eq)
  define d where "d = number_of_cents a + number_of_cents b"
  have ab: "\<bar>a\<bar> \<le> 2 ^ 48" "\<bar>b\<bar> \<le> 2 ^ 48" using assms by simp_all
  have 1: "\<bar>100 * number_of_cents a - of_int a\<bar> \<le> 1 / 32" "\<bar>100 * number_of_cents b - of_int b\<bar> \<le> 1 / 32"
    using ab by (simp_all only: cents_close)
  then have d: "\<bar>100 * d - of_int (a + b)\<bar> \<le> 1 / 16"
    unfolding d_def of_int_add distrib_left by linarith
  have "of_int (a + b) \<le> (2 ^ 48 :: rat)" "(0 :: rat) \<le> of_int (a + b)"
  proof -
    have "a + b \<le> 2 ^ 48" using assms by simp
    then show "of_int (a + b) \<le> (2 ^ 48 :: rat)" by (metis of_int_le_iff of_int_numeral of_int_power)
  qed (use assms in simp)
  moreover have "(2 :: rat) ^ 48 + 1 \<le> 100 * 2 ^ 42" "(1 :: rat) \<le> 2 ^ 42" by simp_all
  ultimately have "\<bar>d\<bar> \<le> 2 ^ 42" using d by linarith
  then have "\<bar>fl d - d\<bar> \<le> 1 / 2048" using fl_err [of d] by simp
  then show "\<bar>100 * fl (number_of_cents a + number_of_cents b) - of_int (a + b)\<bar> < 1 / 2"
    using d unfolding d_def by (rule close_step)
qed

section \<open>One open shift\<close>

definition shifts_ok :: "db \<Rightarrow> bool" where
  "shifts_ok s \<longleftrightarrow> uniq cs_id (tb_shifts s) \<and> (\<forall>tid. length (filter (open_of tid) (tb_shifts s)) \<le> 1)"

lemma openShiftIn_state:
  assumes "openShiftIn e context inp s = Inr (row, s')"
  shows "s' = s\<lparr>tb_shifts := tb_shifts s @ [row], uuid_next := Suc (uuid_next s)\<rparr>"
    "\<not> list_ex (open_of (ctx_tenantId context)) (tb_shifts s)" "open_of (ctx_tenantId context) row"
    "\<forall>q \<in> set (tb_shifts s). cs_id row \<noteq> cs_id q"
  using assms
  by (auto simp: openShiftIn_def readOpen_def insertShift_def Let_def insert_row_Inr sel1_None list_ex_iff shiftRow_def open_of_def
      cash_shift_clash_def split: if_splits)

lemma openShiftIn_ok:
  assumes ok: "shifts_ok s" and run: "openShiftIn e context inp s = Inr (row, s')"
  shows "shifts_ok s'"
proof -
  note st = openShiftIn_state [OF run]
  have "length (filter (open_of tid) (tb_shifts s @ [row])) \<le> 1" for tid
  proof (cases "open_of tid row")
    case True
    then have "tid = ctx_tenantId context" using st(3) by (simp add: open_of_def)
    then have "filter (open_of tid) (tb_shifts s) = []" using st(2) by (simp add: filter_empty_conv list_ex_iff)
    then show ?thesis by simp
  next
    case False
    then show ?thesis using ok by (simp add: shifts_ok_def)
  qed
  moreover have "cs_id row \<notin> cs_id ` set (tb_shifts s)" using st(4) by auto
  ultimately show ?thesis using ok st(1) by (simp add: shifts_ok_def uniq_append1)
qed

lemma filter_upd_le:
  "(\<And>r. P r \<Longrightarrow> \<not> Q (f r)) \<Longrightarrow> length (filter Q (upd P f t)) \<le> length (filter Q t)"
  by (induction t) (auto simp: le_SucI)

lemma closeShiftIn_state:
  assumes "closeShiftIn e context shiftId inp s = Inr (v, s')"
  obtains closing expected memo shift where
    "s' = s\<lparr>tb_shifts := upd (\<lambda>r. cs_id r = shiftId) (closeSet e closing expected memo) (tb_shifts s)\<rparr>"
    "sel1 (\<lambda>r. cs_tenantId r = ctx_tenantId context \<and> cs_id r = shiftId) (tb_shifts s) = Some shift"
    "cs_status shift = ShiftOpen"
    "v = map_option (\<lambda>r. \<lparr>sv_shift = r, sv_cashSales = fst (cash_sales (ctx_tenantId context) (cs_openedAt shift) (Some (e_now e)) s),
        sv_orderCount = snd (cash_sales (ctx_tenantId context) (cs_openedAt shift) (Some (e_now e)) s), sv_expectedCash = expected\<rparr>)
        (map_option (closeSet e closing expected memo) (sel1 (\<lambda>r. cs_id r = shiftId) (tb_shifts s)))"
    "expected = expectedCash (cs_openingBalance shift)
        (fst (cash_sales (ctx_tenantId context) (cs_openedAt shift) (Some (e_now e)) s))"
  using assms
  by (auto simp: closeShiftIn_def Let_def update_rows_Inr case_prod_unfold split: option.splits if_splits)

lemma closeShiftIn_ok:
  assumes ok: "shifts_ok s" and run: "closeShiftIn e context shiftId inp s = Inr (v, s')"
  shows "shifts_ok s'"
  using run
proof (rule closeShiftIn_state)
  fix closing expected memo
  assume s': "s' = s\<lparr>tb_shifts := upd (\<lambda>r. cs_id r = shiftId) (closeSet e closing expected memo) (tb_shifts s)\<rparr>"
  have "length (filter (open_of tid) (tb_shifts s')) \<le> 1" for tid
  proof -
    have "length (filter (open_of tid) (tb_shifts s')) \<le> length (filter (open_of tid) (tb_shifts s))"
      unfolding s' by (simp add: filter_upd_le open_of_def closeSet_def)
    also have "\<dots> \<le> 1" using ok by (simp add: shifts_ok_def)
    finally show ?thesis .
  qed
  moreover have "uniq cs_id (tb_shifts s')"
    using ok unfolding s' by (simp add: shifts_ok_def uniq_upd closeSet_def)
  ultimately show ?thesis by (simp add: shifts_ok_def)
qed

section \<open>Two openings at once\<close>

text \<open>
  C9. Two members of staff open a register at once, and neither sees the other's shift when it looks. The
  index of open shifts is the only guard left: it refuses the second insertion when both name the same
  location, and when no location is named, or another one, the store ends up with two open shifts. Had
  the second opening started after the first had ended it would have been refused in every case.
\<close>

theorem open_shift_race:
  assumes "readOpen c1 s = None" and first: "insertShift e1 c1 inp1 s = Inr (r1, s1)"
    and tid: "ctx_tenantId c2 = ctx_tenantId c1"
    and amount: "numeric_text (formatted (op_openingBalance inp2)) = Inr opening"
    and valid: "cash_shift_check (shiftRow e2 c2 inp2 opening s1)" "fresh_id e2 s1 \<notin> cs_id ` set (tb_shifts s1)"
  shows "openShiftIn e2 c2 inp2 s1 = Inl CashShiftConflict
    \<and> (if op_locationId inp2 \<noteq> None \<and> op_locationId inp2 = op_locationId inp1
       then insertShift e2 c2 inp2 s1 = Inl (DbError UniqueViolation)
       else \<exists>r2 s2. insertShift e2 c2 inp2 s1 = Inr (r2, s2)
         \<and> filter (open_of (ctx_tenantId c1)) (tb_shifts s2) = [r1, r2])"
proof -
  obtain o1 where r1: "r1 = shiftRow e1 c1 inp1 o1 s" and s1: "tb_shifts s1 = tb_shifts s @ [r1]"
    using first by (auto simp: insertShift_def Let_def insert_row_Inr)
  have none: "filter (open_of (ctx_tenantId c1)) (tb_shifts s) = []" "q \<in> set (tb_shifts s) \<Longrightarrow> \<not> open_of (ctx_tenantId c1) q" for q
    using assms(1) by (auto simp: readOpen_def sel1_None filter_empty_conv)
  have opn: "open_of (ctx_tenantId c1) r1" by (simp add: r1 shiftRow_def open_of_def)
  let ?row = "shiftRow e2 c2 inp2 opening s1"
  have "readOpen c2 s1 \<noteq> None" using opn by (auto simp: readOpen_def tid sel1_None s1)
  then have serial: "openShiftIn e2 c2 inp2 s1 = Inl CashShiftConflict" by (simp add: openShiftIn_def)
  have clash: "list_ex (cash_shift_clash ?row) (tb_shifts s1) \<longleftrightarrow> op_locationId inp2 \<noteq> None \<and> op_locationId inp2 = op_locationId inp1"
    using valid(2) none(2) tid
    by (auto simp: s1 cash_shift_clash_def r1 shiftRow_def list_ex_iff open_of_def)
  show ?thesis
  proof (cases "op_locationId inp2 \<noteq> None \<and> op_locationId inp2 = op_locationId inp1")
    case True
    then have "list_ex (cash_shift_clash ?row) (tb_shifts s1)" using clash by blast
    then have "insertShift e2 c2 inp2 s1 = Inl (DbError UniqueViolation)"
      by (simp add: insertShift_def amount insert_row_def lift_db_def Let_def valid(1))
    then show ?thesis unfolding if_P [OF True] using serial by blast
  next
    case False
    then have "\<not> list_ex (cash_shift_clash ?row) (tb_shifts s1)" using clash by blast
    then have "insertShift e2 c2 inp2 s1 = Inr (?row, s1\<lparr>tb_shifts := tb_shifts s1 @ [?row], uuid_next := Suc (uuid_next s1)\<rparr>)"
      by (simp add: insertShift_def amount insert_row_def lift_db_def Let_def valid(1))
    moreover have "open_of (ctx_tenantId c1) ?row" by (simp add: shiftRow_def open_of_def tid)
    ultimately show ?thesis unfolding if_not_P [OF False] using serial none(1) opn by (simp add: s1)
  qed
qed

abbreviation sample_opening :: "string option \<Rightarrow> open_shift" where
  "sample_opening location \<equiv> \<lparr>op_openingBalance = ''500.00'', op_locationId = location, op_notes = None\<rparr>"

theorem open_shift_race_witness:
  "(case insertShift sample_env sample_context (sample_opening None) empty_db of Inl _ \<Rightarrow> False | Inr (r1, s1) \<Rightarrow>
     openShiftIn sample_env sample_context (sample_opening None) s1 = Inl CashShiftConflict
     \<and> (case insertShift sample_env sample_context (sample_opening None) s1 of Inl _ \<Rightarrow> False
        | Inr (r2, s2) \<Rightarrow> filter (open_of ''t1'') (tb_shifts s2) = [r1, r2]))"
proof -
  have run: "case insertShift sample_env sample_context (sample_opening None) empty_db of Inl _ \<Rightarrow> False | Inr (r1, s1) \<Rightarrow>
      numeric_text (formatted ''500.00'') = Inr 50000 \<and> ctx_tenantId sample_context = ''t1''
      \<and> cash_shift_check (shiftRow sample_env sample_context (sample_opening None) 50000 s1)
      \<and> \<not> List.member (map cs_id (tb_shifts s1)) (fresh_id sample_env s1)"
    by code_simp
  obtain r1 s1 where f: "insertShift sample_env sample_context (sample_opening None) empty_db = Inr (r1, s1)"
    using run by (auto split: sum.splits)
  have n: "readOpen sample_context empty_db = None" by (simp add: readOpen_def empty_db_def)
  from run have v: "numeric_text (formatted (op_openingBalance (sample_opening None))) = Inr 50000"
    "cash_shift_check (shiftRow sample_env sample_context (sample_opening None) 50000 s1)"
    "fresh_id sample_env s1 \<notin> cs_id ` set (tb_shifts s1)" "ctx_tenantId sample_context = ''t1''"
    by (simp_all add: f List.member_iff)
  from open_shift_race [OF n f refl v(1-3)] show ?thesis by (auto simp: f v(4))
qed

end
