(* ===== verification/Ledger.thy ===== *)
theory Ledger
  imports OrderRepo
begin

text \<open>
  What the cash register promises, as a transition system on the two tables that carry it: the
  orders and the cash movements. An order is opened, collected, refunded or moved on; each step
  says what it may change and which movement it records. The services refine it (\<open>Shop\<close>).

  \<^item> \<open>ledger_ok\<close>: an order paid in cash has exactly one deposit of its total, a refunded order
    exactly one withdrawal, and no other order has any. Orders of the payment provider are the
    exception: they are paid without a deposit and, since their tender defaults to cash, can be
    refunded in cash; the invariant says nothing of their movements.
  \<^item> Every step keeps it, and it gives the balance of the register from the orders alone.
\<close>

record ledger =
  lg_orders :: "order_row list"
  lg_moves :: "cash_movement_row list"

definition ledger_of :: "db \<Rightarrow> ledger" where
  "ledger_of s = \<lparr>lg_orders = tb_orders s, lg_moves = tb_movements s\<rparr>"

lemma ledger_of_simps [simp]:
  "lg_orders (ledger_of s) = tb_orders s" "lg_moves (ledger_of s) = tb_movements s"
  by (simp_all add: ledger_of_def)

text \<open>A movement of an order, and the orders that owe the register a deposit.\<close>

definition move_of :: "order_row \<Rightarrow> CashMovementType \<Rightarrow> cash_movement_row \<Rightarrow> bool" where
  "move_of r t m \<longleftrightarrow> cm_tenantId m = o_tenantId r \<and> cm_orderId m = Some (o_id r) \<and> cm_type m = t"

definition provider :: "order_row \<Rightarrow> bool" where
  "provider r \<longleftrightarrow> o_source r = MercadopagoWebhook"

definition owes_deposit :: "order_row \<Rightarrow> bool" where
  "owes_deposit r \<longleftrightarrow> o_tender r = TCash \<and> \<not> provider r"

definition settled :: "order_row \<Rightarrow> bool" where
  "settled r \<longleftrightarrow> o_paymentStatus r = Paid \<or> o_paymentStatus r = Refunded"

text \<open>What an update of an order keeps.\<close>

definition same_sale :: "order_row \<Rightarrow> order_row \<Rightarrow> bool" where
  "same_sale r r' \<longleftrightarrow> o_id r' = o_id r \<and> o_tenantId r' = o_tenantId r \<and> o_total r' = o_total r
     \<and> o_tender r' = o_tender r \<and> o_source r' = o_source r"

definition replace_order :: "order_row \<Rightarrow> order_row list \<Rightarrow> order_row list" where
  "replace_order r' rs = map (\<lambda>q. if o_id q = o_id r' then r' else q) rs"

definition records :: "order_row \<Rightarrow> CashMovementType \<Rightarrow> cash_movement_row \<Rightarrow> bool" where
  "records r t m \<longleftrightarrow> move_of r t m \<and> cm_amount m = o_total r"

section \<open>The steps\<close>

inductive ledger_step :: "ledger \<Rightarrow> ledger \<Rightarrow> bool" where
  open_sale: "\<forall>q \<in> set (lg_orders l). o_id q \<noteq> o_id r \<Longrightarrow> o_paymentStatus r \<noteq> Refunded \<Longrightarrow>
    \<not> (owes_deposit r \<and> o_paymentStatus r = Paid) \<Longrightarrow>
    ledger_step l (l\<lparr>lg_orders := lg_orders l @ [r]\<rparr>)"
| open_paid: "\<forall>q \<in> set (lg_orders l). o_id q \<noteq> o_id r \<Longrightarrow> owes_deposit r \<Longrightarrow> o_paymentStatus r = Paid \<Longrightarrow>
    records r SaleDeposit m \<Longrightarrow>
    ledger_step l \<lparr>lg_orders = lg_orders l @ [r], lg_moves = lg_moves l @ [m]\<rparr>"
| collect: "r \<in> set (lg_orders l) \<Longrightarrow> same_sale r r' \<Longrightarrow> o_tender r = TCash \<Longrightarrow> \<not> settled r \<Longrightarrow>
    o_paymentStatus r' = Paid \<Longrightarrow> records r SaleDeposit m \<Longrightarrow>
    ledger_step l \<lparr>lg_orders = replace_order r' (lg_orders l), lg_moves = lg_moves l @ [m]\<rparr>"
| refund: "r \<in> set (lg_orders l) \<Longrightarrow> same_sale r r' \<Longrightarrow> o_tender r = TCash \<Longrightarrow> o_paymentStatus r = Paid \<Longrightarrow>
    o_paymentStatus r' = Refunded \<Longrightarrow> records r CancellationWithdrawal m \<Longrightarrow>
    ledger_step l \<lparr>lg_orders = replace_order r' (lg_orders l), lg_moves = lg_moves l @ [m]\<rparr>"
| advance: "r \<in> set (lg_orders l) \<Longrightarrow> same_sale r r' \<Longrightarrow>
    o_paymentStatus r' = o_paymentStatus r \<or> \<not> settled r \<and> \<not> settled r' \<or> provider r \<Longrightarrow>
    ledger_step l (l\<lparr>lg_orders := replace_order r' (lg_orders l)\<rparr>)"

section \<open>The invariant\<close>

definition moves_of :: "order_row \<Rightarrow> CashMovementType \<Rightarrow> cash_movement_row list \<Rightarrow> cash_movement_row list" where
  "moves_of r t ms = filter (move_of r t) ms"

definition booked :: "cash_movement_row list \<Rightarrow> order_row \<Rightarrow> bool" where
  "booked ms r \<longleftrightarrow> provider r \<or>
     map cm_amount (moves_of r SaleDeposit ms) = (if owes_deposit r \<and> settled r then [o_total r] else [])
     \<and> map cm_amount (moves_of r CancellationWithdrawal ms) = (if o_paymentStatus r = Refunded then [o_total r] else [])
     \<and> (o_paymentStatus r = Refunded \<longrightarrow> o_tender r = TCash)"

definition of_order :: "cash_movement_row \<Rightarrow> order_row \<Rightarrow> bool" where
  "of_order m r \<longleftrightarrow> cm_tenantId m = o_tenantId r \<and> cm_orderId m = Some (o_id r)"

definition ledger_ok :: "ledger \<Rightarrow> bool" where
  "ledger_ok l \<longleftrightarrow> uniq o_id (lg_orders l)
     \<and> (\<forall>r \<in> set (lg_orders l). booked (lg_moves l) r)
     \<and> (\<forall>m \<in> set (lg_moves l). \<exists>r \<in> set (lg_orders l). of_order m r)"

lemma moves_of_append [simp]:
  "moves_of r t (ms @ ns) = moves_of r t ms @ moves_of r t ns"
  "moves_of r t [m] = (if move_of r t m then [m] else [])"
  by (simp_all add: moves_of_def)

lemma move_of_records [simp]:
  "records r t m \<Longrightarrow> move_of q t' m \<longleftrightarrow> o_tenantId q = o_tenantId r \<and> o_id q = o_id r \<and> t' = t"
  "records r t m \<Longrightarrow> cm_amount m = o_total r" "records r t m \<Longrightarrow> of_order m r"
  by (auto simp: records_def move_of_def of_order_def)

lemma same_saleD [dest]:
  assumes "same_sale r r'"
  shows "o_id r' = o_id r" "o_tenantId r' = o_tenantId r" "o_total r' = o_total r" "o_tender r' = o_tender r"
    "provider r' \<longleftrightarrow> provider r" "owes_deposit r' \<longleftrightarrow> owes_deposit r"
  using assms by (simp_all add: same_sale_def provider_def owes_deposit_def)

lemma same_sale_moves:
  assumes "same_sale r r'"
  shows "move_of r' t m \<longleftrightarrow> move_of r t m" "moves_of r' t ms = moves_of r t ms" "of_order m r' \<longleftrightarrow> of_order m r"
    "records r' t m \<longleftrightarrow> records r t m"
proof -
  have 1: "move_of r' t m \<longleftrightarrow> move_of r t m" for m
    unfolding move_of_def same_saleD(1,2) [OF assms] by (rule refl)
  then have "move_of r' t = move_of r t" by (intro ext)
  then show "moves_of r' t ms = moves_of r t ms" by (simp only: moves_of_def)
  show "move_of r' t m \<longleftrightarrow> move_of r t m" by (rule 1)
  show "of_order m r' \<longleftrightarrow> of_order m r" "records r' t m \<longleftrightarrow> records r t m"
    unfolding of_order_def records_def 1 same_saleD(1-3) [OF assms] by (rule refl)+
qed

lemma replace_order_uniq: "uniq o_id rs \<Longrightarrow> uniq o_id (replace_order r' rs)"
proof -
  have "map o_id (replace_order r' rs) = map o_id rs" by (simp add: replace_order_def)
  then show "uniq o_id rs \<Longrightarrow> uniq o_id (replace_order r' rs)" by (simp add: uniq_def)
qed

lemma in_replace_order:
  "q \<in> set (replace_order r' rs) \<Longrightarrow> q = r' \<or> q \<in> set rs \<and> o_id q \<noteq> o_id r'"
  by (auto simp: replace_order_def)

lemma of_order_replace:
  assumes "uniq o_id rs" "r \<in> set rs" "same_sale r r'" "\<exists>q \<in> set rs. of_order m q"
  shows "\<exists>q \<in> set (replace_order r' rs). of_order m q"
proof -
  obtain q where q: "q \<in> set rs" "of_order m q" using assms(4) by blast
  show ?thesis
  proof (cases "o_id q = o_id r'")
    case True
    then have "q = r" using assms(1-3) q(1) by (auto simp: same_sale_def dest: uniq_eq)
    then have "of_order m r'" using q(2) assms(3) by (simp add: same_sale_moves)
    moreover have "r' \<in> set (replace_order r' rs)" using q(1) True by (force simp: replace_order_def)
    ultimately show ?thesis by blast
  next
    case False
    then have "q \<in> set (replace_order r' rs)" using q(1) by (force simp: replace_order_def)
    then show ?thesis using q(2) by blast
  qed
qed

text \<open>A new order has no movements yet.\<close>

lemma new_order_moves:
  assumes "\<forall>m \<in> set ms. \<exists>q \<in> set rs. of_order m q" "\<forall>q \<in> set rs. o_id q \<noteq> o_id r"
  shows "moves_of r t ms = []"
proof -
  have "\<not> move_of r t m" if "m \<in> set ms" for m
    using assms that by (fastforce simp: of_order_def move_of_def)
  then show ?thesis by (simp add: moves_of_def filter_empty_conv)
qed

lemma booked_other:
  "records r t m \<Longrightarrow> o_id q \<noteq> o_id r \<Longrightarrow> booked (ms @ [m]) q = booked ms q"
  by (simp add: booked_def)

text \<open>An update of one order, with the movement it records if any.\<close>

lemma replace_ok:
  assumes ok: "ledger_ok l" and r: "r \<in> set (lg_orders l)" "same_sale r r'"
    and new: "booked (lg_moves l @ ns) r'" "\<forall>n \<in> set ns. \<exists>t. records r t n"
  shows "ledger_ok \<lparr>lg_orders = replace_order r' (lg_orders l), lg_moves = lg_moves l @ ns\<rparr>"
proof -
  have u: "uniq o_id (lg_orders l)" using ok by (simp add: ledger_ok_def)
  have "booked (lg_moves l @ ns) q" if q: "q \<in> set (lg_orders l)" "o_id q \<noteq> o_id r'" for q
  proof -
    have "moves_of q t ns = []" for t
      using new(2) q(2) same_saleD(1) [OF r(2)] by (force simp: moves_of_def filter_empty_conv)
    moreover have "booked (lg_moves l) q" using q ok by (simp add: ledger_ok_def)
    ultimately show ?thesis by (simp add: booked_def)
  qed
  moreover have "\<exists>q \<in> set (replace_order r' (lg_orders l)). of_order n q" if "n \<in> set (lg_moves l @ ns)" for n
  proof (rule of_order_replace [OF u r])
    show "\<exists>q \<in> set (lg_orders l). of_order n q"
      using that ok r(1) new(2) by (auto simp: ledger_ok_def) (meson move_of_records(3))
  qed
  ultimately show ?thesis
    using u new(1) by (auto simp: ledger_ok_def replace_order_uniq dest!: in_replace_order)
qed

lemma open_ok:
  assumes ok: "ledger_ok l" and r: "\<forall>q \<in> set (lg_orders l). o_id q \<noteq> o_id r"
    and new: "booked ns r" "\<forall>n \<in> set ns. \<exists>t. records r t n"
  shows "ledger_ok \<lparr>lg_orders = lg_orders l @ [r], lg_moves = lg_moves l @ ns\<rparr>"
proof -
  have "moves_of r t (lg_moves l) = []" for t
    using ok r by (intro new_order_moves [of _ "lg_orders l"]) (auto simp: ledger_ok_def)
  then have "booked (lg_moves l @ ns) r" using new(1) by (simp add: booked_def)
  moreover have "booked (lg_moves l @ ns) q" if q: "q \<in> set (lg_orders l)" for q
  proof -
    have "moves_of q t ns = []" for t
      using new(2) q r by (force simp: moves_of_def filter_empty_conv)
    moreover have "booked (lg_moves l) q" using q ok by (simp add: ledger_ok_def)
    ultimately show ?thesis by (simp add: booked_def)
  qed
  ultimately show ?thesis
    using ok r new(2) by (auto simp: ledger_ok_def uniq_append1)
qed

lemma booked_record:
  "booked ms r \<Longrightarrow> same_sale r r' \<Longrightarrow> o_tender r = TCash \<Longrightarrow> \<not> settled r \<Longrightarrow> o_paymentStatus r' = Paid \<Longrightarrow>
     records r SaleDeposit m \<Longrightarrow> booked (ms @ [m]) r'"
  "booked ms r \<Longrightarrow> same_sale r r' \<Longrightarrow> o_tender r = TCash \<Longrightarrow> o_paymentStatus r = Paid \<Longrightarrow> o_paymentStatus r' = Refunded \<Longrightarrow>
     records r CancellationWithdrawal m \<Longrightarrow> booked (ms @ [m]) r'"
  by (frule same_saleD(2), frule same_saleD(1), frule same_saleD(3), frule same_saleD(4),
      auto simp: booked_def same_sale_moves settled_def owes_deposit_def)+

lemma ledger_step_ok: "ledger_step l l' \<Longrightarrow> ledger_ok l \<Longrightarrow> ledger_ok l'"
proof (induction rule: ledger_step.induct)
  case (open_sale l r)
  have "booked [] r" using open_sale.hyps by (auto simp: booked_def settled_def moves_of_def)
  then show ?case using open_ok [OF open_sale.prems open_sale.hyps(1), of "[]"] by (cases l) simp
next
  case (open_paid l r m)
  have "booked [m] r"
    using open_paid.hyps(2-4) by (simp add: booked_def settled_def moves_of_def owes_deposit_def)
  then show ?case using open_ok [OF open_paid.prems open_paid.hyps(1), of "[m]"] open_paid.hyps(4) by auto
next
  case (collect r l r' m)
  have "booked (lg_moves l) r" using collect by (simp add: ledger_ok_def)
  then have "booked (lg_moves l @ [m]) r'" using collect.hyps(2-6) by (rule booked_record)
  then show ?case using replace_ok [OF collect.prems collect.hyps(1,2), of "[m]"] collect.hyps(6) by auto
next
  case (refund r l r' m)
  have "booked (lg_moves l) r" using refund by (simp add: ledger_ok_def)
  then have "booked (lg_moves l @ [m]) r'" using refund.hyps(2-6) by (rule booked_record)
  then show ?case using replace_ok [OF refund.prems refund.hyps(1,2), of "[m]"] refund.hyps(6) by auto
next
  case (advance r l r')
  have "booked (lg_moves l) r" using advance by (simp add: ledger_ok_def)
  then have "booked (lg_moves l) r'"
    using advance.hyps by (auto simp: booked_def same_sale_moves same_saleD [OF advance.hyps(2)] settled_def)
  then show ?case using replace_ok [OF advance.prems advance.hyps(1,2), of "[]"] by (cases l) simp
qed

section \<open>The balance\<close>

definition cash_effect :: "cash_movement_row \<Rightarrow> int" where
  "cash_effect m =
     (if cm_type m = SaleDeposit then cm_amount m
      else if cm_type m = CancellationWithdrawal then - cm_amount m else 0)"

definition order_cash :: "cash_movement_row list \<Rightarrow> order_row \<Rightarrow> int" where
  "order_cash ms r = (\<Sum>m\<leftarrow>filter (\<lambda>m. of_order m r) ms. cash_effect m)"

definition register_cash :: "string \<Rightarrow> cash_movement_row list \<Rightarrow> int" where
  "register_cash tid ms = (\<Sum>m\<leftarrow>filter (\<lambda>m. cm_tenantId m = tid) ms. cash_effect m)"

lemma order_cash_split:
  "order_cash ms r = (\<Sum>a\<leftarrow>map cm_amount (moves_of r SaleDeposit ms). a)
     - (\<Sum>a\<leftarrow>map cm_amount (moves_of r CancellationWithdrawal ms). a)"
  by (induction ms) (auto simp: order_cash_def moves_of_def cash_effect_def of_order_def move_of_def)

lemma order_cash_booked:
  "booked ms r \<Longrightarrow> \<not> provider r \<Longrightarrow>
     order_cash ms r = (if o_tender r = TCash \<and> o_paymentStatus r = Paid then o_total r else 0)"
  by (auto simp: order_cash_split booked_def settled_def owes_deposit_def)

lemma one_order:
  assumes "uniq o_id rs" "r0 \<in> set rs" "of_order m r0"
  shows "(\<Sum>r\<leftarrow>filter (\<lambda>r. o_tenantId r = tid) rs. if of_order m r then c else 0)
    = (if cm_tenantId m = tid then c else (0 :: int))"
  using assms
proof (induction rs)
  case (Cons r rs)
  have u: "uniq o_id rs" "o_id r \<notin> o_id ` set rs" using Cons.prems(1) by (simp_all add: uniq_def)
  show ?case
  proof (cases "r0 = r")
    case True
    have "\<not> of_order m q" if "q \<in> set rs" for q
      using that u(2) Cons.prems(3) True by (force simp: of_order_def)
    then have "(\<Sum>q\<leftarrow>filter (\<lambda>q. o_tenantId q = tid) rs. if of_order m q then c else 0) = 0"
      by (induction rs) auto
    then show ?thesis using Cons.prems(3) True by (auto simp: of_order_def)
  next
    case False
    then have "r0 \<in> set rs" using Cons.prems(2) by simp
    moreover have "\<not> of_order m r"
      using calculation u(2) Cons.prems(3) by (auto simp: of_order_def) (metis imageI)
    ultimately show ?thesis using Cons.IH [OF u(1)] Cons.prems(3) by simp
  qed
qed simp

lemma register_by_order:
  assumes u: "uniq o_id rs" and all: "\<forall>m \<in> set ms. \<exists>r \<in> set rs. of_order m r"
  shows "register_cash tid ms = (\<Sum>r\<leftarrow>filter (\<lambda>r. o_tenantId r = tid) rs. order_cash ms r)"
  using all
proof (induction ms)
  case Nil
  then show ?case by (simp add: register_cash_def order_cash_def)
next
  case (Cons m ms)
  obtain r0 where r0: "r0 \<in> set rs" "of_order m r0" using Cons.prems by auto
  have "order_cash (m # ms) r = (if of_order m r then cash_effect m else 0) + order_cash ms r" for r
    by (simp add: order_cash_def)
  then have "(\<Sum>r\<leftarrow>filter (\<lambda>r. o_tenantId r = tid) rs. order_cash (m # ms) r)
    = (\<Sum>r\<leftarrow>filter (\<lambda>r. o_tenantId r = tid) rs. if of_order m r then cash_effect m else 0)
      + (\<Sum>r\<leftarrow>filter (\<lambda>r. o_tenantId r = tid) rs. order_cash ms r)"
    by (simp add: sum_list_addf)
  also have "\<dots> = (if cm_tenantId m = tid then cash_effect m else 0) + register_cash tid ms"
    using one_order [OF u r0] Cons.IH Cons.prems by simp
  finally show ?case by (simp add: register_cash_def)
qed

lemma register_balance:
  assumes "ledger_ok l"
  shows "register_cash tid (lg_moves l)
    = (\<Sum>r\<leftarrow>filter (\<lambda>r. o_tenantId r = tid \<and> owes_deposit r \<and> o_paymentStatus r = Paid) (lg_orders l). o_total r)
      + (\<Sum>r\<leftarrow>filter (\<lambda>r. o_tenantId r = tid \<and> provider r) (lg_orders l). order_cash (lg_moves l) r)"
proof -
  have "register_cash tid (lg_moves l)
      = (\<Sum>r\<leftarrow>filter (\<lambda>r. o_tenantId r = tid) (lg_orders l). order_cash (lg_moves l) r)"
    using assms by (intro register_by_order) (auto simp: ledger_ok_def)
  also have "\<dots> = (\<Sum>r\<leftarrow>filter (\<lambda>r. o_tenantId r = tid) (lg_orders l).
      (if owes_deposit r \<and> o_paymentStatus r = Paid then o_total r else 0)
      + (if provider r then order_cash (lg_moves l) r else 0))"
    using assms
    by (intro arg_cong [of _ _ sum_list] map_cong)
      (auto simp: ledger_ok_def order_cash_booked owes_deposit_def)
  also have "\<dots> = (\<Sum>r\<leftarrow>filter (\<lambda>r. owes_deposit r \<and> o_paymentStatus r = Paid)
        (filter (\<lambda>r. o_tenantId r = tid) (lg_orders l)). o_total r)
      + (\<Sum>r\<leftarrow>filter provider (filter (\<lambda>r. o_tenantId r = tid) (lg_orders l)). order_cash (lg_moves l) r)"
    by (simp only: sum_list_addf sum_list_map_filter')
  finally show ?thesis by (simp add: conj_commute)
qed

end
