(* ===== verification/Frames.thy ===== *)
theory Frames
  imports CreateOrders
begin

text \<open>
  What an operation leaves alone, and the logs it extends.

  \<^item> \<open>log_ok\<close>: the events and the outbox of every store are numbered 1, 2, 3 and so on, in the
    order they were appended, and its counters stand at the last numbers.
  \<^item> \<open>tame tid\<close>: from one state to the next the logs stay numbered, nothing of another store than
    \<open>tid\<close> changes and the idempotency records are as they were. \<open>quiet tid\<close>: moreover the tables
    of sales (\<open>core\<close>) and the purchase numbers are as they were. Both compose.
  \<^item> Every log, ticket, document and redemption operation of the services is quiet; the services'
    own effects are then what they write to the tables of sales.
\<close>

section \<open>Numbered logs\<close>

definition event_numbers :: "string \<Rightarrow> db \<Rightarrow> int list" where
  "event_numbers tid s = map oe_sequence (filter (\<lambda>r. oe_tenantId r = tid) (tb_orderEvents s))"

definition outbox_numbers :: "string \<Rightarrow> db \<Rightarrow> int list" where
  "outbox_numbers tid s = map ob_sequence (filter (\<lambda>r. ob_tenantId r = tid) (tb_outbox s))"

definition log_ok :: "db \<Rightarrow> bool" where
  "log_ok s \<longleftrightarrow> (\<forall>tid ct. 0 \<le> counter tid ct s)
     \<and> (\<forall>tid. event_numbers tid s = [1..counter tid ''order_event_sequence'' s]
          \<and> outbox_numbers tid s = [1..counter tid ''outbox_sequence'' s])"

lemma counter_frame: "tb_counters s' = tb_counters s \<Longrightarrow> counter tid ct s' = counter tid ct s"
  by (simp add: counter_def)

lemma log_ok_frame:
  "tb_counters s' = tb_counters s \<Longrightarrow> tb_orderEvents s' = tb_orderEvents s \<Longrightarrow> tb_outbox s' = tb_outbox s
     \<Longrightarrow> log_ok s' = log_ok s"
  by (simp add: log_ok_def event_numbers_def outbox_numbers_def counter_frame [of s' s])

lemma counter_bump:
  "tb_counters s' = bump tid ct s \<Longrightarrow>
     counter tid' ct' s' = (if tid' = tid \<and> ct' = ct then counter tid ct s + 1 else counter tid' ct' s)"
proof -
  assume "tb_counters s' = bump tid ct s"
  then have "counter tid' ct' s' = counter tid' ct' (snd (nextCounter tid ct s))"
    by (intro counter_frame) (simp add: bump_def)
  then show ?thesis by (simp add: nextCounter_counter)
qed

lemma upto_snoc: "0 \<le> n \<Longrightarrow> [1..n] @ [n + 1] = [1..n + 1]" for n :: int
  by (simp add: upto_rec2)

lemma log_ok_event:
  assumes ok: "log_ok s" and c: "tb_counters s' = bump tid ''order_event_sequence'' s"
    and e: "tb_orderEvents s' = tb_orderEvents s @ [r]" "oe_tenantId r = tid"
      "oe_sequence r = counter tid ''order_event_sequence'' s + 1"
    and ob: "tb_outbox s' = tb_outbox s"
  shows "log_ok s'"
  using ok unfolding log_ok_def counter_bump [OF c]
  by (auto simp: event_numbers_def outbox_numbers_def e ob upto_snoc)

lemma log_ok_outbox:
  assumes ok: "log_ok s" and c: "tb_counters s' = bump tid ''outbox_sequence'' s"
    and e: "tb_outbox s' = tb_outbox s @ [r]" "ob_tenantId r = tid"
      "ob_sequence r = counter tid ''outbox_sequence'' s + 1"
    and ev: "tb_orderEvents s' = tb_orderEvents s"
  shows "log_ok s'"
  using ok unfolding log_ok_def counter_bump [OF c]
  by (auto simp: event_numbers_def outbox_numbers_def e ev upto_snoc)

lemma log_ok_purchase:
  assumes ok: "log_ok s" and c: "tb_counters s' = bump tid ''purchase_number'' s"
    and e: "tb_orderEvents s' = tb_orderEvents s" "tb_outbox s' = tb_outbox s"
  shows "log_ok s'"
  using ok unfolding log_ok_def counter_bump [OF c]
  by (auto simp: event_numbers_def outbox_numbers_def e)

section \<open>Tame and quiet operations\<close>

definition core where
  "core s = (tb_orders s, tb_orderLines s, tb_carts s, tb_cartLines s, tb_movements s, tb_items s, tb_shifts s)"

definition tame :: "string \<Rightarrow> db \<Rightarrow> db \<Rightarrow> bool" where
  "tame tid s s' \<longleftrightarrow> (log_ok s \<longrightarrow> log_ok s') \<and> others tid s' = others tid s \<and> tb_idempotency s' = tb_idempotency s"

definition quiet :: "string \<Rightarrow> db \<Rightarrow> db \<Rightarrow> bool" where
  "quiet tid s s' \<longleftrightarrow> tame tid s s' \<and> core s' = core s
     \<and> (\<forall>t. counter t ''purchase_number'' s' = counter t ''purchase_number'' s)"

named_theorems quiet_intros

lemma tame_refl [simp]: "tame tid s s" by (simp add: tame_def)
lemma quiet_refl [simp, quiet_intros]: "quiet tid s s" by (simp add: quiet_def)

lemma tame_trans: "tame tid s s1 \<Longrightarrow> tame tid s1 s2 \<Longrightarrow> tame tid s s2"
  by (simp add: tame_def)

lemma quiet_trans: "quiet tid s s1 \<Longrightarrow> quiet tid s1 s2 \<Longrightarrow> quiet tid s s2"
  by (auto simp: quiet_def intro: tame_trans)

lemma quiet_tame: "quiet tid s s' \<Longrightarrow> tame tid s s'" by (simp add: quiet_def)
lemma quiet_core: "quiet tid s s' \<Longrightarrow> core s' = core s" by (simp add: quiet_def)

text \<open>An update of tables that are neither logs, nor counters, nor sales.\<close>

lemma quiet_frame:
  assumes "tb_counters s' = tb_counters s" "tb_orderEvents s' = tb_orderEvents s" "tb_outbox s' = tb_outbox s"
    "core s' = core s" "others tid s' = others tid s" "tb_idempotency s' = tb_idempotency s"
  shows "quiet tid s s'"
  using assms log_ok_frame [OF assms(1-3)] counter_frame [OF assms(1)] by (simp add: quiet_def tame_def)

lemma row_sequences [simp]:
  "oe_sequence (orderEventRow e ctx oid ety fs ts md n s) = n"
  "ob_sequence (outboxRow e ctx aty aid oty pl n s) = n"
  by (simp_all add: orderEventRow_def outboxRow_def)

lemma quiet_appendEvent [quiet_intros]:
  assumes "appendEvent e ctx oid ety fs ts md s = Inr s'"
  shows "quiet (ctx_tenantId ctx) s s'"
proof -
  note st = appendEvent_state [OF assms]
  have "log_ok s \<longrightarrow> log_ok s'"
    by (intro impI, erule log_ok_event [OF _ _ _ row_tenants(2) row_sequences(1)]) (simp_all add: st)
  moreover have "counter t ''purchase_number'' s' = counter t ''purchase_number'' s" for t
    by (subst counter_bump [of s' "ctx_tenantId ctx" "''order_event_sequence''" s]) (simp_all add: st)
  moreover have "core s' = core s" "tb_idempotency s' = tb_idempotency s" by (simp_all add: st core_def)
  ultimately show ?thesis using others_appendEvent [OF assms] by (simp add: quiet_def tame_def)
qed

lemma quiet_appendTransitionEvent [quiet_intros]:
  "appendTransitionEvent e ctx oid fs ts r s = Inr s' \<Longrightarrow> quiet (ctx_tenantId ctx) s s'"
  unfolding appendTransitionEvent_def by (rule quiet_appendEvent)

lemma quiet_appendOutboxEvent [quiet_intros]:
  assumes "appendOutboxEvent e ctx aty aid ety pl s = Inr s'"
  shows "quiet (ctx_tenantId ctx) s s'"
proof -
  note st = appendOutboxEvent_state [OF assms]
  have "log_ok s \<longrightarrow> log_ok s'"
    by (intro impI, erule log_ok_outbox [OF _ _ _ row_tenants(1) row_sequences(2)]) (simp_all add: st)
  moreover have "counter t ''purchase_number'' s' = counter t ''purchase_number'' s" for t
    by (subst counter_bump [of s' "ctx_tenantId ctx" "''outbox_sequence''" s]) (simp_all add: st)
  moreover have "core s' = core s" "tb_idempotency s' = tb_idempotency s" by (simp_all add: st core_def)
  ultimately show ?thesis using others_appendOutboxEvent [OF assms] by (simp add: quiet_def tame_def)
qed

lemma quiet_appendAuditEvent [quiet_intros]:
  "quiet (ctx_tenantId ctx) s (appendAuditEvent e ctx act rty rid out md s)"
  by (rule quiet_frame) (simp_all add: appendAuditEvent_def core_def)

lemma quiet_markRedemptionCancelled: "quiet tid s (snd (markRedemptionCancelled tid oid s))"
proof (rule quiet_frame)
  have "filter (\<lambda>r. rd_tenantId r \<noteq> tid) (upd (\<lambda>r. rd_tenantId r = tid \<and> rd_orderId r = oid)
      (\<lambda>r. r\<lparr>rd_status := OrderCancelled\<rparr>) t) = filter (\<lambda>r. rd_tenantId r \<noteq> tid) t" for t
    by (rule filter_upd_other) auto
  then show "others tid (snd (markRedemptionCancelled tid oid s)) = others tid s"
    unfolding markRedemptionCancelled_def Let_def snd_conv by (rule others_upd)
qed (simp_all add: markRedemptionCancelled_def Let_def core_def)

lemma quiet_cancelRedemption [quiet_intros]: "quiet tid s (cancelRedemption tid order s)"
  by (simp add: cancelRedemption_def quiet_markRedemptionCancelled)

lemma quiet_recordRedemption: "quiet tid s (snd (recordRedemption e tid inp s))"
proof (rule quiet_frame)
  have "filter (\<lambda>r. d_tenantId r \<noteq> tid) (upd (redeemable tid i) (redeem_one e) t) = filter (\<lambda>r. d_tenantId r \<noteq> tid) t" for i t
    by (rule filter_upd_other) (auto simp: redeemable_def redeem_one_def)
  then show "others tid (snd (recordRedemption e tid inp s)) = others tid s"
    by (simp add: recordRedemption_def Let_def redemptionRow_def)
qed (simp_all add: recordRedemption_def Let_def core_def)

lemma quiet_enqueueOrderTicket [quiet_intros]:
  "quiet (ctx_tenantId ctx) s (snd (enqueueOrderTicket e ctx view s))"
  by (rule quiet_frame)
    (auto simp: enqueueOrderTicket_def createPrintJob_def printJobRow_def insert_row_def core_def Let_def split: sum.split)

lemma quiet_enqueueTicket [quiet_intros]: "quiet (ctx_tenantId ctx) s (enqueueTicket e ctx h s)"
  by (simp add: enqueueTicket_def quiet_enqueueOrderTicket split: option.split)

lemma quiet_issueFor [quiet_intros]:
  assumes "issueFor e ctx inp s = Inr s'"
  shows "quiet (ctx_tenantId ctx) s s'"
proof -
  obtain row where "issueDocument e (ctx_tenantId ctx) inp s = Inr (row, s')"
    using assms by (auto simp: issueFor_def)
  then show ?thesis
    by (rule issueDocument_Inr) (rule quiet_frame, simp_all add: core_def billingRow_def Let_def)
qed

lemma quiet_announceReady [quiet_intros]:
  "announceReady e ctx st order s = Inr s' \<Longrightarrow> quiet (ctx_tenantId ctx) s s'"
  by (auto simp: announceReady_def split: if_splits intro: quiet_intros)

lemma quiet_notifyOwner [quiet_intros]:
  "notifyOwner e ctx order s = Inr s' \<Longrightarrow> quiet (ctx_tenantId ctx) s s'"
  by (auto simp: notifyOwner_def Let_def split: if_splits intro: quiet_intros)

lemma quiet_announceOrder [quiet_intros]:
  assumes "announceOrder e ctx act att cid view doc s = Inr s'"
  shows "quiet (ctx_tenantId ctx) s s'"
proof -
  let ?s1 = "appendAuditEvent e ctx act ''order'' (o_id (ov_order view)) Allowed
    (JObj ([(''cartId'', JStr cid)] @ att @ [(''purchaseNumber'', JStr (js_str (o_purchaseNumber (ov_order view))))])) s"
  obtain s2 s3 where o1: "appendOutboxEvent e ctx ''order'' (o_id (ov_order view)) ''order.created''
      (created_payload (ov_order view) att) ?s1 = Inr s2"
    and o2: "appendOutboxEvent e ctx ''order'' (o_id (ov_order view)) ''print.intent.created''
      (print_intent (ov_order view) (o_paymentStatus (ov_order view))) s2 = Inr s3"
    and d: "(case doc of None \<Rightarrow> Inr (snd (enqueueOrderTicket e ctx view s3))
      | Some inp \<Rightarrow> issueFor e ctx inp (snd (enqueueOrderTicket e ctx view s3))) = Inr s'"
    using assms unfolding announceOrder_def Let_def by auto
  have "quiet (ctx_tenantId ctx) (snd (enqueueOrderTicket e ctx view s3)) s'"
    using d by (auto intro: quiet_issueFor split: option.splits)
  then show ?thesis
    by (intro quiet_trans [OF quiet_appendAuditEvent quiet_trans [OF quiet_appendOutboxEvent [OF o1]
          quiet_trans [OF quiet_appendOutboxEvent [OF o2] quiet_trans [OF quiet_enqueueOrderTicket]]]])
qed

lemma quiet_logCancelled [quiet_intros]:
  assumes "logCancelled e ctx order updated reason s = Inr s'" "o_tenantId order = ctx_tenantId ctx"
  shows "quiet (ctx_tenantId ctx) s s'"
  using assms
  by (auto simp: logCancelled_def Let_def
      intro: quiet_trans [OF quiet_cancelRedemption quiet_trans [OF quiet_appendTransitionEvent
          quiet_trans [OF quiet_appendAuditEvent quiet_appendOutboxEvent]]])

end
