(* ===== verification/Effects.thy ===== *)
theory Effects
  imports Frames Ledger
begin

text \<open>
  What each service on an existing order leaves in the tables of sales: nothing, or one order
  with another status and version and the movement that goes with it, which is one step of the
  ledger (\<open>staff_effect\<close>).
\<close>

section \<open>Another status\<close>

definition restatus :: "order_row \<Rightarrow> order_row \<Rightarrow> bool" where
  "restatus r r' \<longleftrightarrow> (\<exists>p f d u. r' = r\<lparr>o_paymentStatus := p, o_fulfillmentStatus := f, o_deliveredAt := d,
     o_version := o_version r + 1, o_updatedAt := u\<rparr>)"

lemma restatus_simps:
  assumes "restatus r r'"
  shows "o_id r' = o_id r" "o_tenantId r' = o_tenantId r" "same_sale r r'" "o_version r' = o_version r + 1"
    "o_cartId r' = o_cartId r" "o_subtotal r' = o_subtotal r" "o_discountTotal r' = o_discountTotal r"
    "o_total r' = o_total r" "o_purchaseNumber r' = o_purchaseNumber r" "o_idempotencyKey r' = o_idempotencyKey r"
  using assms by (auto simp: restatus_def same_sale_def)

lemma restatus_setStatus [simp]: "restatus r (setStatus e p f r)"
  unfolding restatus_def setStatus_def
  by (intro exI [of _ p] exI [of _ f] exI [of _ "o_deliveredAt r"] exI [of _ "e_now e"]) simp

lemma restatus_transitionSet [simp]: "restatus r (transitionSet e st p r)"
  unfolding restatus_def transitionSet_def
  by (intro exI [of _ "case p of None \<Rightarrow> o_paymentStatus r | Some q \<Rightarrow> q"] exI [of _ st]
      exI [of _ "if st = Delivered then Some (e_now e) else o_deliveredAt r"] exI [of _ "e_now e"]) simp

definition with_update :: "order_row \<Rightarrow> cash_movement_row list \<Rightarrow> db \<Rightarrow> db" where
  "with_update r' ms s =
     s\<lparr>tb_orders := replace_order r' (tb_orders s), tb_movements := tb_movements s @ ms\<rparr>"

definition staff_effect :: "string \<Rightarrow> db \<Rightarrow> db \<Rightarrow> bool" where
  "staff_effect tid s s' \<longleftrightarrow> tame tid s s'
     \<and> (\<forall>t. counter t ''purchase_number'' s' = counter t ''purchase_number'' s)
     \<and> (core s' = core s
        \<or> (\<exists>r r' ms. r \<in> set (tb_orders s) \<and> o_tenantId r = tid \<and> restatus r r'
             \<and> core s' = core (with_update r' ms s)
             \<and> ledger_step (ledger_of s) (ledger_of (with_update r' ms s))))"

lemma staff_effect_quiet: "quiet tid s s' \<Longrightarrow> staff_effect tid s s'"
  by (simp add: staff_effect_def quiet_def)

lemma core_ledger: "core s' = core s \<Longrightarrow> ledger_of s' = ledger_of s"
  by (simp add: core_def ledger_of_def)

section \<open>The guarded update\<close>

lemma upd_one_order:
  assumes u: "uniq o_id (tb_orders s)" and r: "order \<in> set (tb_orders s)" "o_id (f order) = o_id order"
    and here: "\<And>q. here q \<longleftrightarrow> order_key tid (o_id order) q \<and> o_version q = v"
    and ret: "upd_ret here f (tb_orders s) = Some r'"
  shows "r' = f order" "upd here f (tb_orders s) = replace_order (f order) (tb_orders s)" "o_version order = v"
    "o_tenantId order = tid"
proof -
  obtain q where q: "sel1 here (tb_orders s) = Some q" "r' = f q" using ret by (auto simp: upd_ret_sel1)
  have hq: "here q" "q \<in> set (tb_orders s)" using sel1_SomeD [OF q(1)] by auto
  then have "q = order" using u r(1) by (auto simp: here order_key_def dest: uniq_eq)
  then show "r' = f order" "o_version order = v" "o_tenantId order = tid"
    using q(2) hq(1) by (auto simp: here order_key_def)
  have "(if here x then f x else x) = (if o_id x = o_id (f order) then f order else x)" if "x \<in> set (tb_orders s)" for x
  proof (cases "o_id x = o_id order")
    case True
    then have "x = order" using u r(1) that by (auto dest: uniq_eq)
    then show ?thesis using hq(1) \<open>q = order\<close> r(2) by simp
  next
    case False
    then show ?thesis by (simp add: here order_key_def r(2))
  qed
  then show "upd here f (tb_orders s) = replace_order (f order) (tb_orders s)"
    by (simp add: upd_def replace_order_def)
qed

lemma tame_order_update:
  assumes "\<And>q. here q \<Longrightarrow> o_tenantId q = tid" "\<And>q. o_tenantId (f q) = o_tenantId q"
  shows "tame tid s (s\<lparr>tb_orders := upd here f (tb_orders s)\<rparr>)"
proof -
  have "filter (\<lambda>r. o_tenantId r \<noteq> tid) (upd here f (tb_orders s)) = filter (\<lambda>r. o_tenantId r \<noteq> tid) (tb_orders s)"
    by (rule filter_upd_other) (use assms in auto)
  moreover have "log_ok (s\<lparr>tb_orders := t\<rparr>) = log_ok s" for t by (rule log_ok_frame) simp_all
  ultimately show ?thesis by (simp add: tame_def)
qed

lemma updateOrder_Some:
  assumes "uniq o_id (tb_orders s)" "order \<in> set (tb_orders s)" "\<And>q. restatus q (f q)"
    "updateOrder tid order f s = (Some r', s1)"
  shows "r' = f order" "s1 = s\<lparr>tb_orders := replace_order (f order) (tb_orders s)\<rparr>" "tame tid s s1"
proof -
  have 1: "upd_ret (\<lambda>r. order_key tid (o_id order) r \<and> o_version r = o_version order) f (tb_orders s) = Some r'"
    "s1 = s\<lparr>tb_orders := upd (\<lambda>r. order_key tid (o_id order) r \<and> o_version r = o_version order) f (tb_orders s)\<rparr>"
    using assms(4) by (simp_all add: updateOrder_def Let_def)
  show "tame tid s s1" unfolding 1(2)
    by (rule tame_order_update) (use assms(3) in \<open>auto simp: order_key_def restatus_simps\<close>)
  show "r' = f order" "s1 = s\<lparr>tb_orders := replace_order (f order) (tb_orders s)\<rparr>"
    using upd_one_order [OF assms(1,2) restatus_simps(1) [OF assms(3)] refl 1(1)] 1(2) by simp_all
qed

lemma movementRow_simps [simp]:
  "cm_tenantId (movementRow e ctx order sh t rs key s) = ctx_tenantId ctx"
  "cm_orderId (movementRow e ctx order sh t rs key s) = Some (o_id order)"
  "cm_type (movementRow e ctx order sh t rs key s) = t"
  "cm_amount (movementRow e ctx order sh t rs key s) = o_total order"
  by (simp_all add: movementRow_def)

lemma records_movementRow:
  "o_tenantId order = ctx_tenantId ctx \<Longrightarrow> records order t (movementRow e ctx order sh t rs key s)"
  by (simp add: records_def move_of_def)

lemma insertMovement_state:
  assumes "insertMovement m s = Inr s'"
  shows "s' = s\<lparr>tb_movements := tb_movements s @ [m], uuid_next := Suc (uuid_next s)\<rparr>"
  using assms by (auto simp: insertMovement_def insert_row_Inr split: sum.splits)

lemma tame_insertMovement: "insertMovement m s = Inr s' \<Longrightarrow> cm_tenantId m = tid \<Longrightarrow> tame tid s s'"
  using log_ok_frame [of s' s] by (auto simp: tame_def dest!: insertMovement_state)

lemma recordDeposit_state:
  assumes "recordDeposit e ctx order sh s = Inr s'"
  shows "s' = s\<lparr>tb_movements := tb_movements s @ [movementRow e ctx order sh SaleDeposit None ''cash_deposit:'' s],
      uuid_next := Suc (uuid_next s)\<rparr>" "tame (ctx_tenantId ctx) s s'"
  using assms by (auto simp: recordDeposit_def dest: insertMovement_state intro: tame_insertMovement)

lemma withdrawCancelled_state:
  assumes "withdrawCancelled e ctx order s = Inr s'"
  obtains sh where "s' = s\<lparr>tb_movements := tb_movements s @ [movementRow e ctx order sh CancellationWithdrawal None ''cash_withdrawal:'' s],
      uuid_next := Suc (uuid_next s)\<rparr>" "tame (ctx_tenantId ctx) s s'"
proof -
  let ?sh = "map_option cs_id (openShift (ctx_tenantId ctx) (o_locationId order) s)"
  have "insertMovement (movementRow e ctx order ?sh CancellationWithdrawal None ''cash_withdrawal:'' s) s = Inr s'"
    using assms by (auto simp: withdrawCancelled_def Let_def split: sum.splits db_error.splits)
  then show ?thesis by (intro that [of ?sh]) (simp_all add: insertMovement_state tame_insertMovement)
qed

text \<open>An update of one order, its movements, then only quiet operations.\<close>

lemma staff_effect_update:
  assumes "tame tid s s1" "tame tid s1 s2" "quiet tid s2 s'" "tb_counters s2 = tb_counters s"
    and "core s2 = core (with_update r' ms s)" "r \<in> set (tb_orders s)" "o_tenantId r = tid" "restatus r r'"
    and "ledger_step (ledger_of s) (ledger_of (with_update r' ms s))"
  shows "staff_effect tid s s'"
proof -
  have "tame tid s s'" using assms(1,2) quiet_tame [OF assms(3)] by (blast intro: tame_trans)
  moreover have "core s' = core (with_update r' ms s)" using assms(5) quiet_core [OF assms(3)] by simp
  moreover have "counter t ''purchase_number'' s' = counter t ''purchase_number'' s" for t
    using assms(3,4) counter_frame [of s2 s] by (simp add: quiet_def)
  ultimately show ?thesis using assms(6-) unfolding staff_effect_def by blast
qed

lemma ledger_of_with_update:
  "ledger_of (with_update r' ms s) = \<lparr>lg_orders = replace_order r' (tb_orders s), lg_moves = tb_movements s @ ms\<rparr>"
  by (simp add: ledger_of_def with_update_def)

lemma advance_effect:
  assumes "r \<in> set (tb_orders s)" "restatus r r'"
    "o_paymentStatus r' = o_paymentStatus r \<or> \<not> settled r \<and> \<not> settled r'"
  shows "ledger_step (ledger_of s) (ledger_of (with_update r' [] s))"
proof -
  have "ledger_step (ledger_of s) ((ledger_of s)\<lparr>lg_orders := replace_order r' (lg_orders (ledger_of s))\<rparr>)"
    using assms by (intro advance [of r]) (auto simp: restatus_simps)
  then show ?thesis by (simp add: ledger_of_def with_update_def)
qed

section \<open>The services\<close>

lemma transitionWrite_effect:
  assumes run: "transitionWrite e ctx v st cur s = Inr s2" and q: "quiet (ctx_tenantId ctx) s2 s'"
    and u: "uniq o_id (tb_orders s)" "cur \<in> set (tb_orders s)"
  shows "staff_effect (ctx_tenantId ctx) s s' \<and> o_version cur = v"
proof -
  let ?tid = "ctx_tenantId ctx" and ?refund = "st = Cancelled \<and> is_manual_cash cur"
  define p where "p = (if ?refund then Some Refunded else None)"
  let ?here = "\<lambda>r. order_key ?tid (o_id cur) r \<and> o_version r = v"
  let ?r = "transitionSet e st p cur"
  define s0 where "s0 = s\<lparr>tb_orders := upd ?here (transitionSet e st p) (tb_orders s)\<rparr>"
  note run' = run [unfolded transitionWrite_def transitionOrder_def Let_def split, folded p_def, folded s0_def]
  obtain r' where ret: "upd_ret ?here (transitionSet e st p) (tb_orders s) = Some r'"
    using run' by (cases "upd_ret ?here (transitionSet e st p) (tb_orders s)") simp_all
  obtain s1 where w: "(if ?refund then withdrawCancelled e ctx cur s0 else Inr s0) = Inr s1"
    and s2: "s2 = (if st = Cancelled then cancelRedemption ?tid cur s1 else s1)"
    using run' unfolding ret option.case bnd_Inr_iff by (elim exE conjE) (erule that, drule sum.inject(2) [THEN iffD1], erule sym)
  have one: "upd ?here (transitionSet e st p) (tb_orders s) = replace_order ?r (tb_orders s)" "o_version cur = v"
    "o_tenantId cur = ?tid"
    using upd_one_order [OF u restatus_simps(1) [OF restatus_transitionSet] refl ret] by simp_all
  have t1: "tame ?tid s s0" unfolding s0_def by (rule tame_order_update) (auto simp: order_key_def transitionSet_def)
  have "quiet ?tid s1 s2" unfolding s2 by (simp add: quiet_cancelRedemption)
  then have q1: "quiet ?tid s1 s'" using q by (rule quiet_trans)
  have r: "restatus cur ?r" by simp
  have "staff_effect ?tid s s'"
  proof (cases ?refund)
    case True
    have "withdrawCancelled e ctx cur s0 = Inr s1" using w True by simp
    then obtain sh where s1: "s1 = s0\<lparr>tb_movements := tb_movements s0 @ [movementRow e ctx cur sh CancellationWithdrawal None ''cash_withdrawal:'' s0],
        uuid_next := Suc (uuid_next s0)\<rparr>" "tame ?tid s0 s1"
      by (rule withdrawCancelled_state)
    let ?m = "movementRow e ctx cur sh CancellationWithdrawal None ''cash_withdrawal:'' s0"
    have p: "o_paymentStatus ?r = Refunded" "o_tender cur = TCash" "o_paymentStatus cur = Paid"
      using True by (simp_all add: p_def transitionSet_def is_manual_cash_def)
    have "ledger_step (ledger_of s) (ledger_of (with_update ?r [?m] s))"
      unfolding ledger_of_with_update
      using refund [of cur "ledger_of s" ?r ?m] u(2) p one(3) r by (simp add: restatus_simps records_movementRow)
    moreover have "core s1 = core (with_update ?r [?m] s)"
      by (simp add: s1(1) s0_def core_def with_update_def one(1))
    moreover have "tb_counters s1 = tb_counters s" by (simp add: s1(1) s0_def)
    ultimately show ?thesis
      by (intro staff_effect_update [OF t1 s1(2) q1 _ _ u(2) one(3) r])
  next
    case False
    then have s1: "s1 = s0" using w by auto
    have "o_paymentStatus ?r = o_paymentStatus cur" using False by (auto simp: p_def transitionSet_def)
    then have "ledger_step (ledger_of s) (ledger_of (with_update ?r [] s))"
      using advance_effect [OF u(2) r] by blast
    moreover have "core s0 = core (with_update ?r [] s)"
      by (simp add: s0_def core_def with_update_def one(1))
    moreover have "tb_counters s0 = tb_counters s" by (simp add: s0_def)
    ultimately show ?thesis
      using q1 unfolding s1 by (intro staff_effect_update [OF t1 tame_refl _ _ _ u(2) one(3) r])
  qed
  then show ?thesis using one(2) by simp
qed

lemma transitionWrite_orders:
  assumes run: "transitionWrite e ctx v st cur s = Inr s'" and u: "uniq o_id (tb_orders s)" "cur \<in> set (tb_orders s)"
  shows "\<exists>p. tb_orders s' = replace_order (transitionSet e st p cur) (tb_orders s)"
proof -
  define p where "p = (if st = Cancelled \<and> is_manual_cash cur then Some Refunded else None)"
  let ?here = "\<lambda>r. order_key (ctx_tenantId ctx) (o_id cur) r \<and> o_version r = v"
  obtain r' s1 where ret: "upd_ret ?here (transitionSet e st p) (tb_orders s) = Some r'"
    and w: "(if st = Cancelled \<and> is_manual_cash cur then withdrawCancelled e ctx cur else Inr)
      (s\<lparr>tb_orders := upd ?here (transitionSet e st p) (tb_orders s)\<rparr>) = Inr s1"
    and s': "s' = (if st = Cancelled then cancelRedemption (ctx_tenantId ctx) cur s1 else s1)"
    using run unfolding transitionWrite_def transitionOrder_def Let_def split p_def [symmetric]
    by (cases "upd_ret ?here (transitionSet e st p) (tb_orders s)") (auto split: if_split_asm)
  have "tb_orders s1 = upd ?here (transitionSet e st p) (tb_orders s)"
    using w by (auto elim!: withdrawCancelled_state split: if_split_asm)
  moreover have "tb_orders s' = tb_orders s1"
    unfolding s' using quiet_core [OF quiet_cancelRedemption [of "ctx_tenantId ctx" s1 cur]] by (simp add: core_def)
  ultimately show ?thesis
    using upd_one_order(2) [OF u restatus_simps(1) [OF restatus_transitionSet] refl ret] by auto
qed

lemma transitionIn_effect:
  assumes run: "transitionIn e ctx oid v req s = Inr (view, s')" and u: "uniq o_id (tb_orders s)"
  shows "staff_effect (ctx_tenantId ctx) s s'"
proof -
  let ?tid = "ctx_tenantId ctx" and ?st = "tr_status req"
  obtain cur where cur: "sel1 (order_key ?tid oid) (tb_orders s) = Some cur" "transitionGuard req cur = None"
    using run by (auto simp: transitionIn_def Let_def split: option.splits)
  show ?thesis
  proof (cases "o_fulfillmentStatus cur = ?st")
    case True
    then show ?thesis using run cur by (simp add: transitionIn_def Let_def staff_effect_quiet)
  next
    case False
    obtain s1 s2 s4 where w: "transitionWrite e ctx v ?st cur s = Inr s1"
      and t: "appendTransitionEvent e ctx oid (Some (o_fulfillmentStatus cur)) ?st (tr_reason req) s1 = Inr s2"
      and ob: "appendOutboxEvent e ctx ''order'' (o_id (ov_order view)) ''order.transitioned''
        (transition_payload (o_id (ov_order view)) (o_fulfillmentStatus cur) ?st (o_paymentStatus (ov_order view))
          (o_version (ov_order view)) (tr_reason req))
        (appendAuditEvent e ctx ''order.transition'' ''order'' (o_id (ov_order view)) Allowed
          (transition_metadata (o_fulfillmentStatus cur) ?st (tr_reason req)) s2) = Inr s4"
      and a: "announceReady e ctx ?st (ov_order view) s4 = Inr s'"
      using run cur False by (auto simp: transitionIn_def Let_def split: option.splits)
    have "quiet ?tid s1 s'"
      by (rule quiet_trans [OF quiet_appendTransitionEvent [OF t] quiet_trans [OF quiet_appendAuditEvent
            quiet_trans [OF quiet_appendOutboxEvent [OF ob] quiet_announceReady [OF a]]]])
    then show ?thesis using transitionWrite_effect [OF w _ u sel1_Some_in [OF cur(1)]] by blast
  qed
qed

lemma order_key_D: "sel1 (order_key tid oid) t = Some r \<Longrightarrow> r \<in> set t \<and> o_tenantId r = tid \<and> o_id r = oid"
  using sel1_SomeD [of "order_key tid oid" t r] by (simp add: order_key_def)

lemma collectWork_effect:
  assumes run: "collectWork e ctx oid req s = Inr (resp, s')" and u: "uniq o_id (tb_orders s)"
  shows "staff_effect (ctx_tenantId ctx) s s'"
proof -
  let ?tid = "ctx_tenantId ctx"
  obtain order where o: "sel1 (order_key ?tid oid) (tb_orders s) = Some order"
    using run by (auto simp: collectWork_def Let_def split: option.splits)
  note ord = order_key_D [OF o]
  show ?thesis
  proof (cases "o_paymentStatus order = Paid")
    case True
    then show ?thesis using run o by (simp add: collectWork_def Let_def staff_effect_quiet)
  next
    case False
    have g: "collectGuard e ctx req order = None"
      using run o False by (auto simp: collectWork_def Let_def split: option.splits)
    define f where "f = (\<lambda>r. setStatus e Paid (o_fulfillmentStatus r) r)"
    have rf: "restatus q (f q)" for q by (simp add: f_def)
    define sh where "sh = openShift ?tid (o_locationId order) s"
    obtain upd' s1 where up: "updateOrder ?tid order f s = (Some upd', s1)"
      using run o False g by (cases "updateOrder ?tid order f s")
        (auto simp: collectWork_def Let_def f_def split: option.splits)
    let ?aud = "\<lambda>s4. appendAuditEvent e ctx ''order.collect_cash'' ''order'' (o_id order) Allowed
        (JObj [(''purchaseNumber'', JStr (js_str (o_purchaseNumber order))), (''total'', JStr (centsToMoney (o_total order))),
           (''authMethod'', JStr (auth_name (cr_authMethod req))), (''shiftId'', shift_json sh)]) s4"
    obtain s2 s4 s6 where d: "recordDeposit e ctx order (map_option cs_id sh) s1 = Inr s2"
      and t: "appendTransitionEvent e ctx (o_id order) (Some (o_fulfillmentStatus order)) (o_fulfillmentStatus order) None
        (enqueueTicket e ctx (findOrder ctx (o_id order) s2) s2) = Inr s4"
      and o1: "appendOutboxEvent e ctx ''order'' (o_id order) ''order.paid''
        (JObj (order_payload order (o_fulfillmentStatus order) Paid)) (?aud s4) = Inr s6"
      and o2: "appendOutboxEvent e ctx ''order'' (o_id order) ''print.intent.created'' (print_intent order Paid) s6 = Inr s'"
      using run o False g up by (auto simp: collectWork_def Let_def f_def sh_def)
    note st = updateOrder_Some [OF u conjunct1 [OF ord] rf up]
    have q: "quiet ?tid s2 s'"
      by (rule quiet_trans [OF quiet_enqueueTicket quiet_trans [OF quiet_appendTransitionEvent [OF t]
            quiet_trans [OF quiet_appendAuditEvent quiet_trans [OF quiet_appendOutboxEvent [OF o1]
              quiet_appendOutboxEvent [OF o2]]]]])
    let ?m = "movementRow e ctx order (map_option cs_id sh) SaleDeposit None ''cash_deposit:'' s1"
    have ns: "o_tender order = TCash" "\<not> settled order"
      using g False by (auto simp: collectGuard_def settled_def split: if_splits)
    moreover have "o_paymentStatus (f order) = Paid" by (simp add: f_def setStatus_def)
    moreover have "records order SaleDeposit ?m" using ord by (simp add: records_movementRow)
    ultimately have "ledger_step (ledger_of s) (ledger_of (with_update (f order) [?m] s))"
      unfolding ledger_of_with_update
      using collect [of order "ledger_of s" "f order" ?m] ord restatus_simps(3) [OF rf [of order]] by simp
    moreover have "core s2 = core (with_update (f order) [?m] s)" "tb_counters s2 = tb_counters s"
      by (simp_all add: recordDeposit_state(1) [OF d] st(2) core_def with_update_def)
    ultimately show ?thesis
      using ord by (intro staff_effect_update [OF st(3) recordDeposit_state(2) [OF d] q _ _ _ _ rf]) simp_all
  qed
qed

lemma refundWork_effect:
  assumes run: "refundWork e ctx oid req s = Inr (resp, s')" and u: "uniq o_id (tb_orders s)"
  shows "staff_effect (ctx_tenantId ctx) s s'"
proof -
  let ?tid = "ctx_tenantId ctx"
  obtain order where o: "sel1 (order_key ?tid oid) (tb_orders s) = Some order"
    using run by (auto simp: refundWork_def Let_def split: option.splits)
  note ord = order_key_D [OF o]
  show ?thesis
  proof (cases "o_paymentStatus order = Refunded")
    case True
    then show ?thesis using run o by (simp add: refundWork_def Let_def staff_effect_quiet)
  next
    case False
    have g: "refundGuard order = None"
      using run o False by (auto simp: refundWork_def Let_def split: option.splits)
    define f where "f = setStatus e Refunded Cancelled"
    have rf: "restatus q (f q)" for q by (simp add: f_def)
    define sh where "sh = openShift ?tid (o_locationId order) s"
    obtain upd' s1 where up: "updateOrder ?tid order f s = (Some upd', s1)"
      using run o False g by (cases "updateOrder ?tid order f s")
        (auto simp: refundWork_def Let_def f_def split: option.splits)
    let ?m = "movementRow e ctx order (map_option cs_id sh) CancellationWithdrawal (Some (rr_reason req)) ''cash_refund:'' s1"
    let ?aud = "\<lambda>s4. appendAuditEvent e ctx ''order.refund_cash'' ''order'' (o_id order) Allowed
        (JObj ([(''purchaseNumber'', JStr (js_str (o_purchaseNumber order))), (''total'', JStr (centsToMoney (o_total order))),
           (''reason'', JStr (rr_reason req))] @ opt_field ''operatorNote'' (rr_operatorNote req) @ [(''shiftId'', shift_json sh)])) s4"
    obtain s2 s4 where d: "insertMovement ?m s1 = Inr s2"
      and t: "appendTransitionEvent e ctx (o_id order) (Some (o_fulfillmentStatus order)) Cancelled None
        (cancelRedemption ?tid order s2) = Inr s4"
      and o1: "appendOutboxEvent e ctx ''order'' (o_id order) ''order.refunded''
        (JObj (order_payload order Cancelled Refunded @ [(''reason'', JStr (rr_reason req)), (''refundedAt'', JNum (e_now e))]))
        (?aud s4) = Inr s'"
      using run o False g up by (auto simp: refundWork_def Let_def f_def sh_def)
    note st = updateOrder_Some [OF u conjunct1 [OF ord] rf up]
    have q: "quiet ?tid s2 s'"
      by (rule quiet_trans [OF quiet_cancelRedemption quiet_trans [OF quiet_appendTransitionEvent [OF t]
            quiet_trans [OF quiet_appendAuditEvent quiet_appendOutboxEvent [OF o1]]]])
    have "o_tender order = TCash" "o_paymentStatus order = Paid"
      using g by (auto simp: refundGuard_def split: if_splits)
    moreover have "o_paymentStatus (f order) = Refunded" by (simp add: f_def setStatus_def)
    moreover have "records order CancellationWithdrawal ?m" using ord by (simp add: records_movementRow)
    ultimately have "ledger_step (ledger_of s) (ledger_of (with_update (f order) [?m] s))"
      unfolding ledger_of_with_update
      using refund [of order "ledger_of s" "f order" ?m] ord restatus_simps(3) [OF rf [of order]] by simp
    moreover have "core s2 = core (with_update (f order) [?m] s)" "tb_counters s2 = tb_counters s"
      by (simp_all add: insertMovement_state [OF d] st(2) core_def with_update_def)
    moreover have "tame ?tid s1 s2" by (rule tame_insertMovement [OF d]) simp
    ultimately show ?thesis
      using ord by (intro staff_effect_update [OF st(3) _ q _ _ _ _ rf]) simp_all
  qed
qed

text \<open>Cancelling and expiring: the update, then the log of it.\<close>

lemma cancelled_effect:
  assumes u: "uniq o_id (tb_orders s)" and ord: "order \<in> set (tb_orders s)" "o_tenantId order = ctx_tenantId ctx"
    and rf: "\<And>q. restatus q (f q)" and ns: "\<not> settled order" "\<not> settled (f order)"
    and up: "updateOrder (ctx_tenantId ctx) order f s = (Some r', s1)"
    and log: "logCancelled e ctx order r' reason s1 = Inr s'"
  shows "staff_effect (ctx_tenantId ctx) s s'"
proof -
  note st = updateOrder_Some [OF u ord(1) rf up]
  have "core s1 = core (with_update (f order) [] s)" "tb_counters s1 = tb_counters s"
    by (simp_all add: st(2) core_def with_update_def)
  moreover have "ledger_step (ledger_of s) (ledger_of (with_update (f order) [] s))"
    using advance_effect [OF ord(1) rf] ns by blast
  ultimately show ?thesis
    by (intro staff_effect_update [OF st(3) tame_refl quiet_logCancelled [OF log ord(2)] _ _ ord rf])
qed

lemma cancelIn_effect:
  assumes run: "cancelIn e ctx oid pin s = Inr (resp, s')" and u: "uniq o_id (tb_orders s)"
  shows "staff_effect (ctx_tenantId ctx) s s'"
proof -
  let ?tid = "ctx_tenantId ctx" and ?f = "\<lambda>r. setStatus e (o_paymentStatus r) Cancelled r"
  obtain order where o: "sel1 (order_key ?tid oid) (tb_orders s) = Some order"
    using run by (auto simp: cancelIn_def Let_def split: option.splits)
  note ord = order_key_D [OF o]
  show ?thesis
  proof (cases "o_fulfillmentStatus order = Cancelled")
    case True
    then show ?thesis using run o by (simp add: cancelIn_def Let_def staff_effect_quiet)
  next
    case False
    have g: "cancelGuard pin order = None"
      using run o False by (auto simp: cancelIn_def Let_def split: option.splits)
    obtain r' s1 where up: "updateOrder ?tid order ?f s = (Some r', s1)"
      and log: "logCancelled e ctx order r' ''unpaid_cash_cancelled'' s1 = Inr s'"
      using run o False g by (cases "updateOrder ?tid order ?f s")
        (auto simp: cancelIn_def Let_def split: option.splits)
    have "\<not> settled order" "\<not> settled (?f order)"
      using g by (auto simp: cancelGuard_def settled_def setStatus_def split: if_splits)
    then show ?thesis using ord by (intro cancelled_effect [OF u _ _ _ _ _ up log]) simp_all
  qed
qed

lemma expireIn_effect:
  assumes run: "expireIn e ctx oid s = Inr (done', s')" and u: "uniq o_id (tb_orders s)"
  shows "staff_effect (ctx_tenantId ctx) s s'"
proof -
  let ?tid = "ctx_tenantId ctx" and ?f = "setStatus e PayFailed Cancelled"
  show ?thesis
  proof (cases "sel1 (order_key ?tid oid) (tb_orders s)")
    case None
    then show ?thesis using run by (simp add: expireIn_def staff_effect_quiet)
  next
    case (Some order)
    note ord = order_key_D [OF Some]
    show ?thesis
    proof (cases "expirable (e_now e) order")
      case False
      then show ?thesis using run Some by (simp add: expireIn_def staff_effect_quiet)
    next
      case True
      obtain r' s1 where up: "updateOrder ?tid order ?f s = (r', s1)" by fastforce
      have "sel1 (\<lambda>r. order_key ?tid (o_id order) r \<and> o_version r = o_version order) (tb_orders s) \<noteq> None"
        using ord unfolding sel1_None by (auto simp: order_key_def)
      then have "r' \<noteq> None" using up by (auto simp: updateOrder_def upd_ret_sel1 Let_def)
      then obtain r where r: "r' = Some r" by blast
      have log: "logCancelled e ctx order r ''unpaid_cash_expired'' s1 = Inr s'"
        using run Some True up r by (auto simp: expireIn_def)
      have "\<not> settled order" "\<not> settled (?f order)"
        using True by (auto simp: expirable_def settled_def setStatus_def)
      then show ?thesis using ord up r by (intro cancelled_effect [OF u _ _ _ _ _ _ log]) simp_all
    qed
  qed
qed

end
