(* ===== verification/Sales.thy ===== *)
theory Sales
  imports Effects
begin

text \<open>
  What making an order leaves in the tables of sales.

  \<^item> \<open>createFromCartSnapshot_effect\<close>: the order and its lines are added, the cart is converted,
    the stock of the tracked products goes down by what was sold (\<open>sold\<close>), nothing else of the
    sales changes.
\<close>

section \<open>Stock\<close>

definition sold :: "string \<Rightarrow> (cart_line_row \<times> cart_line_option_row list) list \<Rightarrow> int" where
  "sold itemId lines =
     (\<Sum>(l, opts)\<leftarrow>lines. if itemId \<noteq> [] \<and> cl_itemId l = Some itemId \<and> cl_itemType l \<noteq> Weighted then cl_quantity l else 0)"

definition takes :: "string \<Rightarrow> (cart_line_row \<times> cart_line_option_row list) list \<Rightarrow> catalog_item_row \<Rightarrow> catalog_item_row \<Rightarrow> bool" where
  "takes tid lines r r' \<longleftrightarrow> ci_id r' = ci_id r \<and> ci_tenantId r' = ci_tenantId r \<and> ci_trackStock r' = ci_trackStock r
     \<and> ci_stockQuantity r' = ci_stockQuantity r - (if ci_tenantId r = tid \<and> ci_trackStock r then sold (ci_id r) lines else 0)
     \<and> (0 \<le> ci_stockQuantity r \<longrightarrow> 0 \<le> ci_stockQuantity r')"

lemma takes_Nil: "takes tid [] r r"
  by (simp add: takes_def sold_def)

lemma sold_Cons: "sold i (x # xs) = sold i [x] + sold i xs"
  by (simp add: sold_def)

lemma takes_step: "takes tid [x] r r1 \<Longrightarrow> takes tid xs r1 r2 \<Longrightarrow> takes tid (x # xs) r r2"
  by (auto simp: takes_def sold_Cons [of _ x xs])

lemma takes_all_trans:
  "list_all2 (takes tid [x]) t t1 \<Longrightarrow> list_all2 (takes tid xs) t1 t2 \<Longrightarrow> list_all2 (takes tid (x # xs)) t t2"
  using list_all2_trans [of "takes tid [x]" "takes tid xs" "takes tid (x # xs)" t t1 t2] takes_step by blast

lemma list_all2_upd: "(\<And>r. r \<in> set t \<Longrightarrow> R r (if P r then f r else r)) \<Longrightarrow> list_all2 R t (upd P f t)"
  by (induction t) auto

lemma deductStock_effect:
  assumes run: "deductStock e tid line s = Inr s'" and u: "uniq ci_id (tb_items s)"
  shows "s' = s\<lparr>tb_items := tb_items s'\<rparr>" "list_all2 (takes tid [(line, opts)]) (tb_items s) (tb_items s')"
    "filter (\<lambda>r. ci_tenantId r \<noteq> tid) (tb_items s') = filter (\<lambda>r. ci_tenantId r \<noteq> tid) (tb_items s)"
proof -
  let ?iid = "the (cl_itemId line)" and ?q = "cl_quantity line"
  let ?here = "\<lambda>r. ci_tenantId r = tid \<and> ci_id r = ?iid \<and> ci_trackStock r \<and> ?q \<le> ci_stockQuantity r"
  let ?f = "\<lambda>r. r\<lparr>ci_stockQuantity := ci_stockQuantity r - ?q, ci_updatedAt := e_now e\<rparr>"
  have "s' = s\<lparr>tb_items := tb_items s'\<rparr> \<and> list_all2 (takes tid [(line, opts)]) (tb_items s) (tb_items s')
    \<and> filter (\<lambda>r. ci_tenantId r \<noteq> tid) (tb_items s') = filter (\<lambda>r. ci_tenantId r \<noteq> tid) (tb_items s)"
  proof (cases "\<not> nonempty (cl_itemId line) \<or> cl_itemType line = Weighted")
    case True
    then have "sold i [(line, opts)] = 0" for i by (auto simp: sold_def nonempty_def)
    then have "list_all2 (takes tid [(line, opts)]) (tb_items s) (tb_items s)"
      by (intro list.rel_refl_strong) (simp add: takes_def)
    then show ?thesis using run True by (auto simp: deductStock_def)
  next
    case False
    have s': "s' = s\<lparr>tb_items := upd ?here ?f (tb_items s)\<rparr>"
      and chk: "\<And>r. sel1 (\<lambda>r. ci_tenantId r = tid \<and> ci_id r = ?iid) (upd ?here ?f (tb_items s)) = Some r \<Longrightarrow>
        ci_trackStock r \<Longrightarrow> list_ex ?here (tb_items s)"
      using run False by (auto simp: deductStock_def Let_def split: option.splits if_splits)
    have sold: "sold i [(line, opts)] = (if i = ?iid then ?q else 0)" for i
      using False by (auto simp: sold_def nonempty_def)
    have "takes tid [(line, opts)] r (if ?here r then ?f r else r)" if r: "r \<in> set (tb_items s)" for r
    proof (cases "ci_tenantId r = tid \<and> ci_id r = ?iid \<and> ci_trackStock r \<and> \<not> ?q \<le> ci_stockQuantity r")
      case True
      have none: "\<not> list_ex ?here (tb_items s)"
      proof
        assume "list_ex ?here (tb_items s)"
        then obtain q where "q \<in> set (tb_items s)" "?here q" by (auto simp: list_ex_iff)
        then show False using True u r by (auto dest: uniq_eq)
      qed
      then have up: "upd ?here ?f (tb_items s) = tb_items s"
        by (intro upd_none) (simp add: list_ex_iff)
      obtain q where q: "sel1 (\<lambda>r. ci_tenantId r = tid \<and> ci_id r = ?iid) (tb_items s) = Some q"
        using True r by (cases "sel1 (\<lambda>r. ci_tenantId r = tid \<and> ci_id r = ?iid) (tb_items s)") (auto simp: sel1_None)
      then have "q = r" using True u r sel1_SomeD [OF q] by (auto dest: uniq_eq)
      then have False using chk [of q] q True none unfolding up by simp
      then show ?thesis ..
    next
      case False
      then show ?thesis by (auto simp: takes_def sold)
    qed
    then have "list_all2 (takes tid [(line, opts)]) (tb_items s) (upd ?here ?f (tb_items s))"
      by (rule list_all2_upd)
    moreover have "filter (\<lambda>r. ci_tenantId r \<noteq> tid) (upd ?here ?f (tb_items s)) = filter (\<lambda>r. ci_tenantId r \<noteq> tid) (tb_items s)"
      by (rule filter_upd_other) auto
    ultimately show ?thesis by (simp add: s')
  qed
  then show "s' = s\<lparr>tb_items := tb_items s'\<rparr>" "list_all2 (takes tid [(line, opts)]) (tb_items s) (tb_items s')"
    "filter (\<lambda>r. ci_tenantId r \<noteq> tid) (tb_items s') = filter (\<lambda>r. ci_tenantId r \<noteq> tid) (tb_items s)" by blast+
qed

lemma takes_uniq: "list_all2 (takes tid ls) t t' \<Longrightarrow> uniq ci_id t \<Longrightarrow> uniq ci_id t'"
proof -
  assume l: "list_all2 (takes tid ls) t t'" and u: "uniq ci_id t"
  have "map ci_id t' = map ci_id t" using l by (induction rule: list_all2_induct) (auto simp: takes_def)
  then show ?thesis using u by (simp add: uniq_def)
qed

section \<open>Copying the lines\<close>

lemma copyOptions_effect:
  "copyOptions e tid lid opts s = Inr s' \<Longrightarrow>
     s' = s\<lparr>tb_orderLineOptions := tb_orderLineOptions s', uuid_next := uuid_next s'\<rparr>
     \<and> filter (\<lambda>r. olo_tenantId r \<noteq> tid) (tb_orderLineOptions s') = filter (\<lambda>r. olo_tenantId r \<noteq> tid) (tb_orderLineOptions s)"
proof (induction opts arbitrary: s)
  case (Cons opt opts)
  obtain t where t: "insert_row order_line_option_check order_line_option_clash (orderLineOptionRow e tid lid opt s)
      (tb_orderLineOptions s) = Inr t"
    and rest: "copyOptions e tid lid opts (s\<lparr>tb_orderLineOptions := t, uuid_next := Suc (uuid_next s)\<rparr>) = Inr s'"
    using Cons.prems by auto
  have "t = tb_orderLineOptions s @ [orderLineOptionRow e tid lid opt s]" using t by (simp add: insert_row_Inr)
  then show ?case using Cons.IH [OF rest] by (simp add: orderLineOptionRow_def)
qed simp

definition copied :: "string \<Rightarrow> string \<Rightarrow> (cart_line_row \<times> cart_line_option_row list) \<Rightarrow> order_line_row \<Rightarrow> bool" where
  "copied tid orderId x l \<longleftrightarrow> ol_tenantId l = tid \<and> ol_orderId l = orderId \<and> ol_quantity l = cl_quantity (fst x)
     \<and> ol_unitPrice l = cl_unitPriceSnapshot (fst x) \<and> ol_lineTotal l = cl_lineTotal (fst x)"

lemma copyLines_effect:
  assumes "copyLines e tid oid xs s = Inr s'" "uniq ci_id (tb_items s)"
  shows "\<exists>new opts items n. s' = s\<lparr>tb_items := items, tb_orderLines := tb_orderLines s @ new, tb_orderLineOptions := opts, uuid_next := n\<rparr>
    \<and> list_all2 (copied tid oid) xs new \<and> list_all2 (takes tid xs) (tb_items s) items
    \<and> filter (\<lambda>r. ci_tenantId r \<noteq> tid) items = filter (\<lambda>r. ci_tenantId r \<noteq> tid) (tb_items s)
    \<and> filter (\<lambda>r. olo_tenantId r \<noteq> tid) opts = filter (\<lambda>r. olo_tenantId r \<noteq> tid) (tb_orderLineOptions s)"
  using assms
proof (induction xs arbitrary: s)
  case Nil
  have "list_all2 (takes tid []) (tb_items s) (tb_items s)"
    by (intro list.rel_refl_strong) (simp add: takes_Nil)
  then show ?case
    using Nil by (intro exI [of _ "[]"] exI [of _ "tb_orderLineOptions s"] exI [of _ "tb_items s"] exI [of _ "uuid_next s"]) simp
next
  case (Cons x xs)
  obtain line opts where x: "x = (line, opts)" by (cases x)
  obtain s1 t s2 where d: "deductStock e tid line s = Inr s1"
    and t: "insert_row order_line_check order_line_clash (orderLineRow e tid oid line s1) (tb_orderLines s1) = Inr t"
    and o: "copyOptions e tid (ol_id (orderLineRow e tid oid line s1)) opts
      (s1\<lparr>tb_orderLines := t, uuid_next := Suc (uuid_next s1)\<rparr>) = Inr s2"
    and rest: "copyLines e tid oid xs s2 = Inr s'"
    using Cons.prems(1) x by (auto simp: Let_def)
  let ?row = "orderLineRow e tid oid line s1"
  have t': "t = tb_orderLines s1 @ [?row]" using t by (simp add: insert_row_Inr)
  note de = deductStock_effect(1) [OF d Cons.prems(2)] deductStock_effect(2) [OF d Cons.prems(2), of opts]
    deductStock_effect(3) [OF d Cons.prems(2)]
  note oe = copyOptions_effect [OF o]
  have it: "tb_items s2 = tb_items s1" using arg_cong [OF conjunct1 [OF oe], of tb_items] by simp
  have ol1: "tb_orderLines s1 = tb_orderLines s" by (subst de(1)) simp
  have s2: "s2 = s\<lparr>tb_items := tb_items s1, tb_orderLines := tb_orderLines s @ [?row],
      tb_orderLineOptions := tb_orderLineOptions s2, uuid_next := uuid_next s2\<rparr>"
    by (subst conjunct1 [OF oe], subst de(1)) (subst (2) de(1), simp add: t' ol1)
  have ol: "tb_orderLines s2 = tb_orderLines s @ [?row]" by (subst s2) simp
  have u: "uniq ci_id (tb_items s2)" unfolding it by (rule takes_uniq [OF de(2) Cons.prems(2)])
  obtain new opts' items n where IH:
    "s' = s2\<lparr>tb_items := items, tb_orderLines := tb_orderLines s2 @ new, tb_orderLineOptions := opts', uuid_next := n\<rparr>"
    "list_all2 (copied tid oid) xs new" "list_all2 (takes tid xs) (tb_items s2) items"
    "filter (\<lambda>r. ci_tenantId r \<noteq> tid) items = filter (\<lambda>r. ci_tenantId r \<noteq> tid) (tb_items s2)"
    "filter (\<lambda>r. olo_tenantId r \<noteq> tid) opts' = filter (\<lambda>r. olo_tenantId r \<noteq> tid) (tb_orderLineOptions s2)"
    using Cons.IH [OF rest u] by blast
  have "s' = s\<lparr>tb_items := items, tb_orderLines := tb_orderLines s @ (?row # new), tb_orderLineOptions := opts', uuid_next := n\<rparr>"
    unfolding IH(1) ol by (subst s2) simp
  moreover have "list_all2 (copied tid oid) (x # xs) (?row # new)"
    using IH(2) by (simp add: x copied_def orderLineRow_def)
  moreover have "list_all2 (takes tid (x # xs)) (tb_items s) items"
    using takes_all_trans [OF de(2) [folded x]] IH(3) by (simp add: it)
  moreover have "filter (\<lambda>r. olo_tenantId r \<noteq> tid) (tb_orderLineOptions s2) = filter (\<lambda>r. olo_tenantId r \<noteq> tid) (tb_orderLineOptions s)"
  proof -
    have "tb_orderLineOptions s1 = tb_orderLineOptions s" by (subst de(1)) simp
    then show ?thesis using oe by simp
  qed
  ultimately show ?case using IH(4,5) de(3) it by metis
qed

section \<open>A new order\<close>

definition converted :: "env \<Rightarrow> string \<Rightarrow> string \<Rightarrow> cart_row list \<Rightarrow> cart_row list" where
  "converted e tid cartId t = upd (\<lambda>r. c_tenantId r = tid \<and> c_id r = cartId)
     (\<lambda>r. r\<lparr>c_status := CartConverted, c_updatedAt := e_now e\<rparr>) t"

text \<open>The order as it is inserted, the rows of its lines and the movements it comes with.\<close>

definition sale_effect ::
  "string \<Rightarrow> order_row \<Rightarrow> (cart_line_row \<times> cart_line_option_row list) list \<Rightarrow> cash_movement_row list \<Rightarrow> db \<Rightarrow> db \<Rightarrow> bool" where
  "sale_effect tid order xs ms s s' \<longleftrightarrow> tame tid s s'
     \<and> (\<forall>t. counter t ''purchase_number'' s' = counter t ''purchase_number'' s + (if t = tid then 1 else 0))
     \<and> o_purchaseNumber order = counter tid ''purchase_number'' s + 1 \<and> o_tenantId order = tid
     \<and> order_check order \<and> (\<forall>q \<in> set (tb_orders s). \<not> order_clash order q)
     \<and> (\<exists>c. sel1 (\<lambda>r. c_tenantId r = tid \<and> c_id r = o_cartId order) (tb_carts s) = Some c \<and> c_status c \<noteq> CartConverted)
     \<and> tb_orders s' = tb_orders s @ [order]
     \<and> (\<exists>new. tb_orderLines s' = tb_orderLines s @ new \<and> list_all2 (copied tid (o_id order)) xs new)
     \<and> (\<exists>e. tb_carts s' = converted e tid (o_cartId order) (tb_carts s))
     \<and> list_all2 (takes tid xs) (tb_items s) (tb_items s')
     \<and> tb_cartLines s' = tb_cartLines s \<and> tb_shifts s' = tb_shifts s \<and> tb_movements s' = tb_movements s @ ms"

lemma sale_effect_quiet:
  assumes "sale_effect tid order xs ms s s1" "quiet tid s1 s'"
  shows "sale_effect tid order xs ms s s'"
proof -
  have "tb_orders s' = tb_orders s1" "tb_orderLines s' = tb_orderLines s1" "tb_carts s' = tb_carts s1"
    "tb_cartLines s' = tb_cartLines s1" "tb_movements s' = tb_movements s1" "tb_items s' = tb_items s1" "tb_shifts s' = tb_shifts s1"
    using quiet_core [OF assms(2)] by (simp_all add: core_def)
  moreover have "counter t ''purchase_number'' s' = counter t ''purchase_number'' s1" for t
    using assms(2) by (simp add: quiet_def)
  ultimately show ?thesis
    using assms(1) tame_trans [OF _ quiet_tame [OF assms(2)]] unfolding sale_effect_def by simp
qed

lemma sale_effect_deposit:
  assumes "sale_effect (ctx_tenantId ctx) order xs [] s s1" "recordDeposit e ctx order sh s1 = Inr s'"
  shows "\<exists>m. sale_effect (ctx_tenantId ctx) order xs [m] s s' \<and> records order SaleDeposit m"
proof -
  note d = recordDeposit_state [OF assms(2)]
  let ?m = "movementRow e ctx order sh SaleDeposit None ''cash_deposit:'' s1"
  have "o_tenantId order = ctx_tenantId ctx" using assms(1) by (simp add: sale_effect_def)
  then have "records order SaleDeposit ?m" by (rule records_movementRow)
  moreover have "counter t ct s' = counter t ct s1" for t ct by (rule counter_frame) (simp add: d(1))
  ultimately show ?thesis
    using assms(1) tame_trans [OF _ d(2)] unfolding sale_effect_def
    by (intro exI [of _ ?m]) (simp add: d(1))
qed

lemma orderRow_simps [simp]:
  "o_tenantId (orderRow e tid inp n a s) = tid" "o_purchaseNumber (orderRow e tid inp n a s) = n"
  "o_cartId (orderRow e tid inp n a s) = c_id (sc_cart (no_cart inp))" "o_id (orderRow e tid inp n a s) = fresh_id e s"
  "o_source (orderRow e tid inp n a s) = no_source inp" "o_paymentStatus (orderRow e tid inp n a s) = no_paymentStatus inp"
  "o_tender (orderRow e tid inp n a s) = orElse (no_tender inp) TCash"
  "o_subtotal (orderRow e tid inp n a s) = c_subtotal (sc_cart (no_cart inp))"
  "o_discountTotal (orderRow e tid inp n a s) = c_discountTotal (sc_cart (no_cart inp))"
  "o_total (orderRow e tid inp n a s) = c_total (sc_cart (no_cart inp))"
  "o_idempotencyKey (orderRow e tid inp n a s) = no_idempotencyKey inp"
  by (simp_all add: orderRow_def Let_def)

text \<open>The fields of a new order that come from the request and the cart.\<close>

definition made_from :: "new_order \<Rightarrow> order_row \<Rightarrow> bool" where
  "made_from inp order \<longleftrightarrow> o_cartId order = c_id (sc_cart (no_cart inp)) \<and> o_source order = no_source inp
     \<and> o_paymentStatus order = no_paymentStatus inp \<and> o_tender order = orElse (no_tender inp) TCash
     \<and> o_subtotal order = c_subtotal (sc_cart (no_cart inp)) \<and> o_discountTotal order = c_discountTotal (sc_cart (no_cart inp))
     \<and> o_total order = c_total (sc_cart (no_cart inp)) \<and> o_idempotencyKey order = no_idempotencyKey inp"

lemma quiet_redeemCoupon: "quiet tid s (redeemCoupon e tid oid cart s)"
  by (simp add: redeemCoupon_def quiet_recordRedemption)

lemma createFromCartSnapshot_effect:
  assumes run: "createFromCartSnapshot e ctx inp s = Inr ((view, created), s')" and u: "uniq ci_id (tb_items s)"
  shows "\<not> created \<and> s' = s
    \<or> created \<and> made_from inp (ov_order view) \<and> sale_effect (ctx_tenantId ctx) (ov_order view) (sc_lines (no_cart inp)) [] s s'"
proof (cases "findByIdempotencyKey ctx (no_idempotencyKey inp) s")
  case (Some existing)
  then show ?thesis using run by (simp add: createFromCartSnapshot_def Let_def)
next
  case None
  let ?tid = "ctx_tenantId ctx" and ?cart = "sc_cart (no_cart inp)" and ?n = "counter (ctx_tenantId ctx) ''purchase_number'' s"
  define s1 where "s1 = s\<lparr>tb_counters := bump ?tid ''purchase_number'' s\<rparr>"
  define order where "order = orderRow e ?tid inp (?n + 1) (activeCount ?tid (c_locationId ?cart) s1) s1"
  define s2 where "s2 = s1\<lparr>tb_orders := tb_orders s @ [order], uuid_next := Suc (uuid_next s1)\<rparr>"
  obtain cc where cc: "sel1 (\<lambda>r. c_tenantId r = ?tid \<and> c_id r = c_id ?cart) (tb_carts s) = Some cc" "c_status cc \<noteq> CartConverted"
    using run None by (auto simp: createFromCartSnapshot_def Let_def split: option.splits if_splits)
  obtain order' s2' s3 where cr: "createOrderRow e ctx inp s = Inr (order', s2')"
    and cl: "copyLines e ?tid (o_id order') (sc_lines (no_cart inp)) s2' = Inr s3"
    and ev: "appendEvent e ctx (o_id order') ''order.created'' None (Some Approved)
        (JObj [(''source'', JStr (source_name (no_source inp))), (''paymentStatus'', JStr (payment_name (no_paymentStatus inp)))])
        (redeemCoupon e ?tid (o_id order') ?cart (convertCart e ?tid (c_id ?cart) s3)) = Inr s'"
    and view: "view = hydrate ?tid order' (redeemCoupon e ?tid (o_id order') ?cart (convertCart e ?tid (c_id ?cart) s3))" "created"
    using run None cc by (auto simp: createFromCartSnapshot_def Let_def)
  have o: "order' = order" "s2' = s2" "order_check order" "\<forall>q \<in> set (tb_orders s). \<not> order_clash order q"
    using cr by (auto simp: createOrderRow_def nextCounter_eq Let_def insert_row_Inr order_def s1_def s2_def)
  have "uniq ci_id (tb_items s2)" using u by (simp add: s2_def s1_def)
  from copyLines_effect [OF cl [unfolded o] this] obtain new opts items n where s3:
    "s3 = s2\<lparr>tb_items := items, tb_orderLines := tb_orderLines s2 @ new, tb_orderLineOptions := opts, uuid_next := n\<rparr>"
    and new: "list_all2 (copied ?tid (o_id order)) (sc_lines (no_cart inp)) new"
    and it: "list_all2 (takes ?tid (sc_lines (no_cart inp))) (tb_items s2) items"
    "filter (\<lambda>r. ci_tenantId r \<noteq> ?tid) items = filter (\<lambda>r. ci_tenantId r \<noteq> ?tid) (tb_items s2)"
    "filter (\<lambda>r. olo_tenantId r \<noteq> ?tid) opts = filter (\<lambda>r. olo_tenantId r \<noteq> ?tid) (tb_orderLineOptions s2)"
    by blast
  define s4 where "s4 = convertCart e ?tid (c_id ?cart) s3"
  have ovl: "ov_order view = order" by (simp add: view(1) o hydrate_def serializeOrder_def Let_def)
  have q: "quiet ?tid s4 s'"
    using quiet_trans [OF quiet_redeemCoupon quiet_appendEvent [OF ev]] by (simp add: s4_def)
  have s4: "s4 = s\<lparr>tb_counters := bump ?tid ''purchase_number'' s, tb_orders := tb_orders s @ [order], tb_items := items,
      tb_orderLines := tb_orderLines s @ new, tb_orderLineOptions := opts,
      tb_carts := converted e ?tid (c_id ?cart) (tb_carts s), uuid_next := n\<rparr>"
    by (simp add: s4_def s3 s2_def s1_def convertCart_def converted_def)
  have "filter (\<lambda>l. ol_tenantId l \<noteq> ?tid) new = []"
    using new by (induction rule: list_all2_induct) (auto simp: copied_def)
  moreover have "filter (\<lambda>r. c_tenantId r \<noteq> ?tid) (converted e ?tid (c_id ?cart) (tb_carts s)) = filter (\<lambda>r. c_tenantId r \<noteq> ?tid) (tb_carts s)"
    unfolding converted_def by (rule filter_upd_other) auto
  ultimately have "others ?tid s4 = others ?tid s"
    using it by (simp add: s4 s2_def s1_def order_def)
  moreover have "log_ok s \<longrightarrow> log_ok s4" by (intro impI, erule log_ok_purchase) (simp_all add: s4)
  moreover have "counter t ''purchase_number'' s4 = counter t ''purchase_number'' s + (if t = ?tid then 1 else 0)" for t
    by (subst counter_bump [of s4 ?tid "''purchase_number''" s]) (simp_all add: s4)
  moreover have "tb_idempotency s4 = tb_idempotency s" by (simp add: s4)
  ultimately have "sale_effect ?tid order (sc_lines (no_cart inp)) [] s s4"
    using o(3,4) cc new it(1) unfolding sale_effect_def
    by (auto simp: s4 tame_def order_def s2_def s1_def)
  then have "sale_effect ?tid order (sc_lines (no_cart inp)) [] s s'" using q by (rule sale_effect_quiet)
  moreover have "made_from inp order" by (simp add: made_from_def order_def)
  ultimately show ?thesis using view(2) ovl by simp
qed

end
