(* ===== verification/Shop.thy ===== *)
theory Shop
  imports Sales CashShift
begin

text \<open>
  The shop as a whole: its invariant and the requests that act on it.

  \<^item> \<open>shop_ok\<close> puts together the cash ledger, the numbered logs, the orders and their carts, the
    amounts of carts, the stock and the shifts; every request of a customer, of the staff, of the
    payment provider and of the clock keeps it (\<open>Steps\<close>, \<open>Notifications\<close> and \<open>Requests\<close>).
  \<^item> A failed request leaves the state; a request of one store leaves the rows of the others.
\<close>

section \<open>Orders and their carts\<close>

definition line_of :: "order_row \<Rightarrow> order_line_row \<Rightarrow> bool" where
  "line_of r l \<longleftrightarrow> ol_tenantId l = o_tenantId r \<and> ol_orderId l = o_id r"

definition order_priced :: "order_line_row list \<Rightarrow> order_row \<Rightarrow> bool" where
  "order_priced ls r \<longleftrightarrow> 0 \<le> o_discountTotal r \<and> o_discountTotal r \<le> o_subtotal r
     \<and> o_total r = o_subtotal r - o_discountTotal r
     \<and> o_subtotal r = (\<Sum>l\<leftarrow>filter (line_of r) ls. ol_lineTotal l)
     \<and> list_all (\<lambda>l. ol_lineTotal l = ol_unitPrice l * ol_quantity l) (filter (line_of r) ls)"

definition cart_used :: "cart_row list \<Rightarrow> order_row \<Rightarrow> bool" where
  "cart_used cs r \<longleftrightarrow> (\<exists>c \<in> set cs. c_tenantId c = o_tenantId r \<and> c_id c = o_cartId r \<and> c_status c = CartConverted)"

definition orders_ok :: "db \<Rightarrow> bool" where
  "orders_ok s \<longleftrightarrow> uniq (\<lambda>r. (o_tenantId r, o_cartId r)) (tb_orders s)
     \<and> (\<forall>r \<in> set (tb_orders s). order_priced (tb_orderLines s) r \<and> cart_used (tb_carts s) r)
     \<and> (\<forall>l \<in> set (tb_orderLines s). \<exists>r \<in> set (tb_orders s). line_of r l)
     \<and> (\<forall>tid. map o_purchaseNumber (filter (\<lambda>r. o_tenantId r = tid) (tb_orders s))
          = [1..counter tid ''purchase_number'' s])"

definition stock_ok :: "db \<Rightarrow> bool" where
  "stock_ok s \<longleftrightarrow> uniq ci_id (tb_items s) \<and> (\<forall>r \<in> set (tb_items s). 0 \<le> ci_stockQuantity r)"

definition shop_ok :: "db \<Rightarrow> bool" where
  "shop_ok s \<longleftrightarrow> ledger_ok (ledger_of s) \<and> log_ok s \<and> orders_ok s \<and> carts_ok s \<and> stock_ok s \<and> shifts_ok s \<and> idem_ok s"

lemma shop_okD:
  assumes "shop_ok s"
  shows "ledger_ok (ledger_of s)" "log_ok s" "orders_ok s" "carts_ok s" "stock_ok s" "shifts_ok s" "idem_ok s"
    "uniq o_id (tb_orders s)" "uniq ci_id (tb_items s)" "uniq c_id (tb_carts s)"
  using assms by (simp_all add: shop_ok_def ledger_ok_def stock_ok_def carts_ok_def)

text \<open>The parts of the state the invariant looks at.\<close>

lemma shop_ok_core:
  assumes "core s' = core s" "\<And>t. counter t ''purchase_number'' s' = counter t ''purchase_number'' s" "log_ok s \<longrightarrow> log_ok s'"
    and "idem_ok s \<longrightarrow> idem_ok s'" and "shop_ok s"
  shows "shop_ok s'"
proof -
  have "tb_orders s' = tb_orders s" "tb_orderLines s' = tb_orderLines s" "tb_carts s' = tb_carts s"
    "tb_cartLines s' = tb_cartLines s" "tb_movements s' = tb_movements s" "tb_items s' = tb_items s" "tb_shifts s' = tb_shifts s"
    using assms(1) by (simp_all add: core_def)
  note t = this
  have "carts_ok s' = carts_ok s" using t by (intro carts_ok_frame) simp_all
  moreover have "orders_ok s' = orders_ok s" "stock_ok s' = stock_ok s" "shifts_ok s' = shifts_ok s"
    using assms(2) by (simp_all add: orders_ok_def stock_ok_def shifts_ok_def t)
  ultimately show ?thesis
    using assms(3-5) unfolding shop_ok_def core_ledger [OF assms(1)] by blast
qed

lemma tame_idem: "tame tid s s' \<Longrightarrow> idem_ok s \<longrightarrow> idem_ok s'"
  unfolding tame_def idem_ok_def by (elim conjE) simp

lemma shop_ok_quiet:
  assumes "quiet tid s s'"
  shows "shop_ok s \<Longrightarrow> shop_ok s'"
proof (rule shop_ok_core)
  show "core s' = core s" by (rule quiet_core [OF assms])
  show "counter t ''purchase_number'' s' = counter t ''purchase_number'' s" for t using assms by (simp add: quiet_def)
  show "log_ok s \<longrightarrow> log_ok s'" "idem_ok s \<longrightarrow> idem_ok s'"
    using quiet_tame [OF assms] tame_idem by (simp_all add: tame_def)
qed

section \<open>An order moves on\<close>

lemma restatus_line_of: "restatus r r' \<Longrightarrow> line_of r' = line_of r"
  by (simp add: fun_eq_iff line_of_def restatus_simps)

lemma orders_ok_update:
  assumes ok: "orders_ok s" and u: "uniq o_id (tb_orders s)" and r: "r \<in> set (tb_orders s)" "restatus r r'"
    and s': "tb_orders s' = replace_order r' (tb_orders s)" "tb_orderLines s' = tb_orderLines s" "tb_carts s' = tb_carts s"
      "\<And>t. counter t ''purchase_number'' s' = counter t ''purchase_number'' s"
  shows "orders_ok s'"
proof -
  note rs = restatus_simps [OF r(2)]
  have eq: "g (if o_id q = o_id r' then r' else q) = g q" if "g r' = g r" "q \<in> set (tb_orders s)" for g :: "order_row \<Rightarrow> 'a" and q
    using that r(1) u rs(1) by (auto dest: uniq_eq)
  have maps: "map g (tb_orders s') = map g (tb_orders s)" if "g r' = g r" for g :: "order_row \<Rightarrow> 'a"
    unfolding s'(1) replace_order_def by (simp add: eq [OF that])
  have "uniq (\<lambda>r. (o_tenantId r, o_cartId r)) (tb_orders s')"
    using ok rs maps [of "\<lambda>r. (o_tenantId r, o_cartId r)"] by (simp add: orders_ok_def uniq_def)
  moreover have "order_priced (tb_orderLines s') q \<and> cart_used (tb_carts s') q" if "q \<in> set (tb_orders s')" for q
  proof -
    have "order_priced (tb_orderLines s) r' = order_priced (tb_orderLines s) r" "cart_used (tb_carts s) r' = cart_used (tb_carts s) r"
      by (simp_all add: order_priced_def cart_used_def rs restatus_line_of [OF r(2)])
    then show ?thesis
      using that ok r(1) unfolding s' by (auto simp: orders_ok_def dest!: in_replace_order)
  qed
  moreover have "\<exists>q \<in> set (tb_orders s'). line_of q l" if l: "l \<in> set (tb_orderLines s')" for l
  proof -
    have "\<forall>l \<in> set (tb_orderLines s). \<exists>r \<in> set (tb_orders s). line_of r l"
      using ok unfolding orders_ok_def by (elim conjE) assumption
    then obtain q where q: "q \<in> set (tb_orders s)" "line_of q l" using l unfolding s'(2) by blast
    let ?q = "if o_id q = o_id r' then r' else q"
    have "?q \<in> set (tb_orders s')" using q(1) unfolding s'(1) replace_order_def by auto
    moreover have "line_of ?q = line_of q" by (rule eq [OF restatus_line_of [OF r(2)] q(1)])
    ultimately show ?thesis using q(2) by metis
  qed
  moreover have "map o_purchaseNumber (filter (\<lambda>r. o_tenantId r = tid) (tb_orders s'))
      = map o_purchaseNumber (filter (\<lambda>r. o_tenantId r = tid) (tb_orders s))" for tid
  proof -
    have m: "map o_purchaseNumber (filter (\<lambda>r. o_tenantId r = tid) t)
        = map snd (filter (\<lambda>p. fst p = tid) (map (\<lambda>r. (o_tenantId r, o_purchaseNumber r)) t))" for t
      by (induction t) auto
    have "map (\<lambda>r. (o_tenantId r, o_purchaseNumber r)) (tb_orders s') = map (\<lambda>r. (o_tenantId r, o_purchaseNumber r)) (tb_orders s)"
      by (rule maps) (simp add: rs)
    then show ?thesis unfolding m by (simp only:)
  qed
  ultimately show ?thesis using ok s'(4) unfolding orders_ok_def by simp
qed

lemma shop_ok_staff:
  assumes eff: "staff_effect tid s s'" and ok: "shop_ok s"
  shows "shop_ok s'"
proof -
  note d = shop_okD [OF ok]
  have cnt: "\<And>t. counter t ''purchase_number'' s' = counter t ''purchase_number'' s" and lg: "log_ok s \<longrightarrow> log_ok s'"
    and im: "idem_ok s \<longrightarrow> idem_ok s'"
    using eff tame_idem by (auto simp: staff_effect_def tame_def)
  show ?thesis
  proof (cases "core s' = core s")
    case True
    then show ?thesis using shop_ok_core [OF _ cnt lg im ok] by simp
  next
    case False
    then obtain r r' ms where r: "r \<in> set (tb_orders s)" "restatus r r'" and c: "core s' = core (with_update r' ms s)"
      and l: "ledger_step (ledger_of s) (ledger_of (with_update r' ms s))"
      using eff unfolding staff_effect_def by blast
    have f: "tb_orders s' = replace_order r' (tb_orders s)" "tb_orderLines s' = tb_orderLines s" "tb_carts s' = tb_carts s"
      "tb_cartLines s' = tb_cartLines s" "tb_items s' = tb_items s" "tb_shifts s' = tb_shifts s"
      using c by (simp_all add: core_def with_update_def)
    have "ledger_ok (ledger_of s')" using ledger_step_ok [OF l d(1)] core_ledger [OF c] by simp
    moreover have "orders_ok s'" by (rule orders_ok_update [OF d(3,8) r f(1-3) cnt])
    moreover have "carts_ok s'" using d(4) carts_ok_frame [of s' s] f by simp
    ultimately show ?thesis using d(2,5,6,7) lg im f by (simp add: shop_ok_def stock_ok_def shifts_ok_def)
  qed
qed

section \<open>An order is made\<close>

lemma found_cart:
  assumes ok: "carts_ok s" and f: "findCart tid cid s = Some cart"
  shows "(\<Sum>(l, opts)\<leftarrow>sc_lines cart. cl_lineTotal l) = c_subtotal (sc_cart cart)"
    "discounted (sc_cart cart)" "list_all (\<lambda>(l, opts). line_priced l) (sc_lines cart)"
proof -
  let ?le = "\<lambda>a b. cl_createdAt a \<le> cl_createdAt b"
  obtain c where c: "sel1 (\<lambda>r. c_tenantId r = tid \<and> c_id r = cid) (tb_carts s) = Some c"
    using f by (auto simp: findCart_def split: option.splits)
  have key: "c_tenantId c = tid" "c_id c = cid" "c \<in> set (tb_carts s)" using sel1_SomeD [OF c] by simp_all
  have cart: "sc_cart cart = c" and lines: "map fst (sc_lines cart) = sort_by ?le (lines_of c s)"
    using f by (auto simp: findCart_def c lines_of_def key o_def)
  have "(\<Sum>(l, opts)\<leftarrow>sc_lines cart. cl_lineTotal l) = (\<Sum>l\<leftarrow>map fst (sc_lines cart). cl_lineTotal l)"
    by (simp add: o_def case_prod_unfold)
  also have "\<dots> = c_subtotal (sc_cart cart)"
    using ok key(3) cart unfolding lines by (simp add: sum_sort_by carts_ok_def list_all_iff)
  finally show "(\<Sum>(l, opts)\<leftarrow>sc_lines cart. cl_lineTotal l) = c_subtotal (sc_cart cart)" .
  show "discounted (sc_cart cart)" using ok key(3) cart by (simp add: carts_ok_def list_all_iff)
  have "line_priced l" if "l \<in> set (map fst (sc_lines cart))" for l
    using that ok unfolding lines by (auto simp: lines_of_def carts_ok_def list_all_iff)
  then show "list_all (\<lambda>(l, opts). line_priced l) (sc_lines cart)" by (force simp: list_all_iff)
qed

lemma carts_ok_converted:
  assumes ok: "carts_ok s" and t: "tb_carts s' = converted e tid cid (tb_carts s)" "tb_cartLines s' = tb_cartLines s"
  shows "carts_ok s'"
proof -
  define g :: "cart_row \<Rightarrow> cart_row" where "g = (\<lambda>c. if c_tenantId c = tid \<and> c_id c = cid then c\<lparr>c_status := CartConverted, c_updatedAt := e_now e\<rparr> else c)"
  have t': "tb_carts s' = map g (tb_carts s)" using t(1) by (simp add: converted_def upd_def g_def)
  have g: "c_id (g c) = c_id c" "c_tenantId (g c) = c_tenantId c" "discounted (g c) = discounted c" "c_subtotal (g c) = c_subtotal c"
    "lines_of (g c) s' = lines_of c s" for c
    using t(2) by (auto simp: discounted_def lines_of_def g_def)
  have "c_id \<circ> g = c_id" using g by auto
  then show ?thesis
    using ok by (simp add: carts_ok_def t' t(2) uniq_def list_all_iff list_ex_iff g)
qed

lemma in_converted:
  "c \<in> set cs \<Longrightarrow> \<exists>c' \<in> set (converted e tid cid cs). c_id c' = c_id c \<and> c_tenantId c' = c_tenantId c
     \<and> (c_status c = CartConverted \<or> c_tenantId c = tid \<and> c_id c = cid \<longrightarrow> c_status c' = CartConverted)"
  unfolding converted_def set_upd by (intro bexI [OF _ imageI [of c]]) simp_all

lemma cart_used_converted: "cart_used cs r \<Longrightarrow> cart_used (converted e tid cid cs) r"
  unfolding cart_used_def by (metis in_converted)

lemma copied_lines:
  assumes "list_all2 (copied tid oid) xs new"
  shows "(\<Sum>l\<leftarrow>new. ol_lineTotal l) = (\<Sum>(l, opts)\<leftarrow>xs. cl_lineTotal l)"
    "list_all (\<lambda>(l, opts). line_priced l) xs \<Longrightarrow> list_all (\<lambda>l. ol_lineTotal l = ol_unitPrice l * ol_quantity l) new"
    "\<forall>l \<in> set new. ol_tenantId l = tid \<and> ol_orderId l = oid"
  using assms by (induction rule: list_all2_induct) (auto simp: copied_def line_priced_def split: prod.splits)

lemma orders_ok_sale:
  assumes eff: "sale_effect tid order (sc_lines cart) ms s s'" and ok: "orders_ok s" "carts_ok s" "log_ok s"
    and cart: "findCart tid (o_cartId order) s = Some cart"
      "o_subtotal order = c_subtotal (sc_cart cart)" "o_discountTotal order = c_discountTotal (sc_cart cart)"
      "o_total order = c_total (sc_cart cart)"
  shows "orders_ok s'"
proof -
  obtain new e c where o: "tb_orders s' = tb_orders s @ [order]" "o_tenantId order = tid"
      "o_purchaseNumber order = counter tid ''purchase_number'' s + 1" "\<forall>q \<in> set (tb_orders s). \<not> order_clash order q"
    and l: "tb_orderLines s' = tb_orderLines s @ new" "list_all2 (copied tid (o_id order)) (sc_lines cart) new"
    and cv: "tb_carts s' = converted e tid (o_cartId order) (tb_carts s)"
    and cnt: "\<And>t. counter t ''purchase_number'' s' = counter t ''purchase_number'' s + (if t = tid then 1 else 0)"
    and c: "sel1 (\<lambda>r. c_tenantId r = tid \<and> c_id r = o_cartId order) (tb_carts s) = Some c" "c_status c \<noteq> CartConverted"
    using eff unfolding sale_effect_def by blast
  have cin: "c \<in> set (tb_carts s)" "c_tenantId c = tid" "c_id c = o_cartId order" using sel1_SomeD [OF c(1)] by auto
  have fresh: "o_id q \<noteq> o_id order" if "q \<in> set (tb_orders s)" for q
    using o(4) that by (auto simp: order_clash_def)
  have nocart: "(o_tenantId q, o_cartId q) \<noteq> (tid, o_cartId order)" if q: "q \<in> set (tb_orders s)" for q
  proof
    assume "(o_tenantId q, o_cartId q) = (tid, o_cartId order)"
    moreover obtain c' where "c' \<in> set (tb_carts s)" "c_tenantId c' = o_tenantId q" "c_id c' = o_cartId q" "c_status c' = CartConverted"
      using ok(1) q by (auto simp: orders_ok_def cart_used_def)
    moreover have "uniq c_id (tb_carts s)" using ok(2) by (simp add: carts_ok_def)
    ultimately show False using cin c(2) by (auto dest: uniq_eq)
  qed
  note new = copied_lines [OF l(2)]
  have old: "filter (line_of order) (tb_orderLines s) = []"
    using ok(1) fresh by (fastforce simp: filter_empty_conv orders_ok_def line_of_def)
  have mine: "filter (line_of order) new = new"
    using new(3) o(2) by (intro filter_True) (simp add: line_of_def)
  have "order_priced (tb_orderLines s') order"
    using found_cart [OF ok(2) cart(1)] new(1,2) cart(2-4) by (simp add: order_priced_def l(1) old mine discounted_def)
  moreover have "cart_used (tb_carts s') order"
    using in_converted [OF cin(1)] cin(2,3) o(2) unfolding cv cart_used_def by metis
  moreover have "order_priced (tb_orderLines s') q = order_priced (tb_orderLines s) q" if "q \<in> set (tb_orders s)" for q
  proof -
    have "filter (line_of q) new = []" using new(3) fresh [OF that] by (auto simp: filter_empty_conv line_of_def)
    then show ?thesis by (simp add: order_priced_def l(1))
  qed
  moreover have "\<exists>r \<in> set (tb_orders s'). line_of r ol" if "ol \<in> set (tb_orderLines s')" for ol
    using that ok(1) new(3) o(1,2) unfolding l(1) orders_ok_def by (auto simp: line_of_def)
  moreover have "uniq (\<lambda>r. (o_tenantId r, o_cartId r)) (tb_orders s')"
  proof -
    have "(o_tenantId order, o_cartId order) \<notin> (\<lambda>r. (o_tenantId r, o_cartId r)) ` set (tb_orders s)"
    proof
      assume "(o_tenantId order, o_cartId order) \<in> (\<lambda>r. (o_tenantId r, o_cartId r)) ` set (tb_orders s)"
      then obtain q where "q \<in> set (tb_orders s)" "(o_tenantId q, o_cartId q) = (tid, o_cartId order)"
        using o(2) by auto
      then show False using nocart by blast
    qed
    then show ?thesis using ok(1) by (simp add: orders_ok_def o(1) uniq_append1)
  qed
  moreover have "map o_purchaseNumber (filter (\<lambda>r. o_tenantId r = t) (tb_orders s')) = [1..counter t ''purchase_number'' s']" for t
    using ok(1,3) o(2,3) cnt [of t] by (auto simp: orders_ok_def o(1) log_ok_def upto_snoc)
  ultimately show ?thesis
    using ok(1) cart_used_converted unfolding orders_ok_def o(1) cv by auto
qed

lemma stock_ok_takes: "stock_ok s \<Longrightarrow> list_all2 (takes tid xs) (tb_items s) (tb_items s') \<Longrightarrow> stock_ok s'"
proof -
  assume ok: "stock_ok s" and l: "list_all2 (takes tid xs) (tb_items s) (tb_items s')"
  have "\<forall>r \<in> set (tb_items s'). 0 \<le> ci_stockQuantity r"
    using l ok unfolding stock_ok_def by (induction rule: list_all2_induct) (auto simp: takes_def uniq_def)
  then show "stock_ok s'" using ok takes_uniq [OF l] by (simp add: stock_ok_def)
qed

end
