(* ===== verification/Steps.thy ===== *)
theory Steps
  imports Shop
begin

text \<open>
  What one request does to the shop (\<open>step_effect\<close>): the invariant holds after it, no row of
  another store has changed, and the ledger has stood still or made one of its steps. Claims,
  carts, sales, the staff's services and the shifts, each body of a transaction in turn.
\<close>

definition step_effect :: "string \<Rightarrow> db \<Rightarrow> db \<Rightarrow> bool" where
  "step_effect tid s s' \<longleftrightarrow> shop_ok s' \<and> others tid s' = others tid s
     \<and> (ledger_of s' = ledger_of s \<or> ledger_step (ledger_of s) (ledger_of s'))"

lemma step_effect_refl: "shop_ok s \<Longrightarrow> step_effect tid s s"
  by (simp add: step_effect_def)

lemma step_effect_before:
  "step_effect tid s1 s' \<Longrightarrow> others tid s1 = others tid s \<Longrightarrow> ledger_of s1 = ledger_of s \<Longrightarrow> step_effect tid s s'"
  by (simp add: step_effect_def)

lemma step_effect_after:
  "step_effect tid s s1 \<Longrightarrow> shop_ok s' \<Longrightarrow> others tid s' = others tid s1 \<Longrightarrow> ledger_of s' = ledger_of s1 \<Longrightarrow> step_effect tid s s'"
  by (simp add: step_effect_def)

lemma step_effect_quiet:
  assumes "step_effect tid s s1" "quiet tid s1 s'"
  shows "step_effect tid s s'"
proof (rule step_effect_after [OF assms(1)])
  show "shop_ok s'" using shop_ok_quiet [OF assms(2)] assms(1) by (simp add: step_effect_def)
  show "others tid s' = others tid s1" using assms(2) by (simp add: quiet_def tame_def)
  show "ledger_of s' = ledger_of s1" by (rule core_ledger [OF quiet_core [OF assms(2)]])
qed

lemma step_effect_tenant:
  "shop_ok s \<Longrightarrow> (\<And>r s'. body s = Inr (r, s') \<Longrightarrow> step_effect tid s s') \<Longrightarrow> step_effect tid s (snd (with_tenant body s))"
  by (auto simp: with_tenant_def transact_def intro: step_effect_refl split: sum.split)

section \<open>Claims\<close>

definition owned :: "string \<Rightarrow> string \<Rightarrow> db \<Rightarrow> bool" where
  "owned tid rid s \<longleftrightarrow> (\<forall>r \<in> set (tb_idempotency s). ir_id r = rid \<longrightarrow> ir_tenantId r = Some tid)"

lemma idem_upd:
  assumes f: "\<And>r. ir_id (f r) = ir_id r" "\<And>r. ir_tenantId (f r) = ir_tenantId r" "\<And>r. ir_scope (f r) = ir_scope r"
      "\<And>r. ir_idempotencyKey (f r) = ir_idempotencyKey r"
    and mine: "\<And>r. r \<in> set (tb_idempotency s) \<Longrightarrow> P r \<Longrightarrow> ir_tenantId r = Some tid"
  shows "idem_ok (s\<lparr>tb_idempotency := upd P f (tb_idempotency s)\<rparr>) = idem_ok s"
    "others tid (s\<lparr>tb_idempotency := upd P f (tb_idempotency s)\<rparr>) = others tid s"
proof -
  show "idem_ok (s\<lparr>tb_idempotency := upd P f (tb_idempotency s)\<rparr>) = idem_ok s"
    by (simp add: idem_ok_def map_upd_same f)
  have "filter (\<lambda>r. ir_tenantId r \<noteq> Some tid) (upd P f (tb_idempotency s)) = filter (\<lambda>r. ir_tenantId r \<noteq> Some tid) (tb_idempotency s)"
    by (rule filter_upd_other) (simp add: mine f)
  then show "others tid (s\<lparr>tb_idempotency := upd P f (tb_idempotency s)\<rparr>) = others tid s" by simp
qed

lemma claim_step:
  assumes run: "claim e inp s = Inr (c, s1)" and k: "k_tenantId inp = Some tid" and ok: "idem_ok s"
  shows "idem_ok s1 \<and> others tid s1 = others tid s \<and> (\<forall>rid. c = Claimed rid \<longrightarrow> owned tid rid s1)"
proof (cases "insert_row (\<lambda>_. True) idempotency_clash (claimRow e inp s) (tb_idempotency s)")
  case (Inr t)
  have "s1 = s\<lparr>tb_idempotency := t, uuid_next := Suc (uuid_next s)\<rparr>" and c: "c = Claimed (fresh_id e s)"
    using run Inr by (auto simp: claim_def Let_def split: if_splits)
  then have s1: "s1 = s\<lparr>tb_idempotency := tb_idempotency s @ [claimRow e inp s], uuid_next := Suc (uuid_next s)\<rparr>"
    and new: "\<forall>q \<in> set (tb_idempotency s). \<not> idempotency_clash (claimRow e inp s) q"
    using Inr by (simp_all add: insert_row_Inr)
  have "idem_ok s1" using ok new by (auto simp: s1 idem_ok_def idempotency_clash_def)
  moreover have "others tid s1 = others tid s" by (simp add: s1 k)
  moreover have "owned tid (fresh_id e s) s1" using new by (auto simp: s1 owned_def k idempotency_clash_def)
  ultimately show ?thesis using c by simp
next
  case (Inl err)
  let ?P = "\<lambda>row r. ir_id r = ir_id row \<and> ir_lockedUntil r < e_now e"
  let ?f = "\<lambda>r. r\<lparr>ir_state := Processing, ir_lockedUntil := e_now e + orElse (k_lockSeconds inp) 30 * 1000,
    ir_updatedAt := e_now e\<rparr>"
  obtain row where row: "sel1 (recordIdentity (Some tid) (k_scope inp) (js_trim (k_key inp))) (tb_idempotency s) = Some row"
    and cl: "claimExisting e inp row s = Inr (c, s1)"
    using run Inl k by (auto simp: claim_def Let_def split: if_splits option.splits)
  have mine: "r \<in> set (tb_idempotency s) \<Longrightarrow> ir_id r = ir_id row \<Longrightarrow> ir_tenantId r = Some tid" for r
    using sel1_SomeD [OF row] ok uniq_eq [of ir_id "tb_idempotency s" r row] by (simp add: idem_ok_def uniq_def recordIdentity_def)
  show ?thesis
  proof (cases "ir_state row = Completed")
    case True
    then have "s1 = s" "\<forall>rid. c \<noteq> Claimed rid"
      using cl by (simp_all add: claimExisting_def Let_def split: if_split_asm) blast
    then show ?thesis using ok by simp
  next
    case False
    then have 2: "s1 = s\<lparr>tb_idempotency := upd (?P row) ?f (tb_idempotency s)\<rparr>" "c = Claimed (ir_id row)"
      using cl unfolding claimExisting_def Let_def by (simp_all split: if_split_asm)
    have "owned tid (ir_id row) s1" using mine by (auto simp: 2(1) owned_def set_upd)
    then show ?thesis using 2 ok idem_upd [of ?f s "?P row" tid] mine by simp
  qed
qed

lemma completeClaim_step:
  "owned tid rid s \<Longrightarrow> idem_ok (completeClaim e rid resp s) = idem_ok s \<and> others tid (completeClaim e rid resp s) = others tid s"
  unfolding completeClaim_def using idem_upd [of _ s "\<lambda>r. ir_id r = rid" tid] by (simp add: owned_def)

lemma owned_frame: "tb_idempotency s' = tb_idempotency s \<Longrightarrow> owned tid rid s' = owned tid rid s"
  by (simp add: owned_def)

lemma shop_ok_idempotency:
  assumes "s' = s\<lparr>tb_idempotency := i, uuid_next := n\<rparr>" "idem_ok s \<longrightarrow> idem_ok s'"
  shows "shop_ok s \<Longrightarrow> shop_ok s'" "ledger_of s' = ledger_of s"
proof -
  have c: "core s' = core s" by (simp add: assms core_def)
  then show "ledger_of s' = ledger_of s" by (rule core_ledger)
  have "counter t ''purchase_number'' s' = counter t ''purchase_number'' s" for t by (rule counter_frame) (simp add: assms)
  moreover have "log_ok s' = log_ok s" by (rule log_ok_frame) (simp_all add: assms)
  ultimately show "shop_ok s \<Longrightarrow> shop_ok s'" using shop_ok_core [OF c] assms(2) by simp
qed

lemma shop_ok_claim:
  assumes "claim e inp s = Inr (c, s1)" "k_tenantId inp = Some tid" "shop_ok s"
  shows "shop_ok s1" "others tid s1 = others tid s" "ledger_of s1 = ledger_of s" "c = Claimed rid \<Longrightarrow> owned tid rid s1"
  using claim_step [OF assms(1,2)] shop_ok_idempotency [OF claim_state [OF assms(1)]] assms(3)
  by (simp_all add: shop_okD(7))

lemma step_effect_complete:
  assumes "step_effect tid s s'" "owned tid rid s'"
  shows "step_effect tid s (completeClaim e rid resp s')"
proof (rule step_effect_after [OF assms(1)])
  note c = completeClaim_step [OF assms(2), of e resp]
  have eq: "completeClaim e rid resp s' = s'\<lparr>tb_idempotency := tb_idempotency (completeClaim e rid resp s'), uuid_next := uuid_next s'\<rparr>"
    by (simp add: completeClaim_def)
  have "shop_ok s'" using assms(1) by (simp add: step_effect_def)
  then show "shop_ok (completeClaim e rid resp s')" "ledger_of (completeClaim e rid resp s') = ledger_of s'"
    using shop_ok_idempotency [OF eq] c by simp_all
  show "others tid (completeClaim e rid resp s') = others tid s'" using c by simp
qed

text \<open>A service that claims its key, works and completes the claim.\<close>

lemma idempotent_step:
  assumes run: "idempotent (claim e inp) (completeClaim e) work s = Inr (resp, s')"
    and k: "k_tenantId inp = Some tid" and ok: "shop_ok s"
    and work: "\<And>s1 r s2. shop_ok s1 \<Longrightarrow> work s1 = Inr (r, s2) \<Longrightarrow> step_effect tid s1 s2 \<and> tb_idempotency s2 = tb_idempotency s1"
  shows "step_effect tid s s'"
proof -
  obtain c s1 where c: "claim e inp s = Inr (c, s1)" using run by (auto simp: idempotent_def)
  note cl = shop_ok_claim [OF c k ok]
  show ?thesis
  proof (cases c)
    case (Replayed b)
    then have "s' = s1" using run c by (simp add: idempotent_def)
    then show ?thesis using step_effect_before [OF step_effect_refl [OF cl(1)] cl(2,3)] by simp
  next
    case (Claimed rid)
    then obtain s2 where w: "work s1 = Inr (resp, s2)" and s': "s' = completeClaim e rid resp s2"
      using run c by (auto simp: idempotent_def)
    have "owned tid rid s2" using cl(4) [OF Claimed] work [OF cl(1) w] owned_frame [of s2 s1] by simp
    then show ?thesis
      unfolding s' using step_effect_complete step_effect_before [OF _ cl(2,3)] work [OF cl(1) w] by blast
  qed
qed

section \<open>Services on an existing order\<close>

lemma step_effect_staff:
  assumes eff: "staff_effect tid s s'" and ok: "shop_ok s"
  shows "step_effect tid s s'" "tb_idempotency s' = tb_idempotency s"
proof -
  have "ledger_of s' = ledger_of s \<or> ledger_step (ledger_of s) (ledger_of s')"
    using eff core_ledger unfolding staff_effect_def by metis
  moreover have "others tid s' = others tid s" and i: "tb_idempotency s' = tb_idempotency s"
    using eff by (auto simp: staff_effect_def tame_def)
  ultimately show "step_effect tid s s'" using shop_ok_staff [OF eff ok] by (simp add: step_effect_def)
  show "tb_idempotency s' = tb_idempotency s" by (rule i)
qed

lemma step_effect_tenant_staff:
  assumes "shop_ok s" "\<And>r s'. body s = Inr (r, s') \<Longrightarrow> uniq o_id (tb_orders s) \<Longrightarrow> staff_effect tid s s'"
  shows "step_effect tid s (snd (with_tenant body s))"
  using assms by (intro step_effect_tenant step_effect_staff(1)) (auto dest: shop_okD(8))

lemma step_effect_tenant_idempotent:
  assumes "shop_ok s" "k_tenantId inp = Some tid"
    and "\<And>s1 r s2. work s1 = Inr (r, s2) \<Longrightarrow> uniq o_id (tb_orders s1) \<Longrightarrow> staff_effect tid s1 s2"
  shows "step_effect tid s (snd (with_tenant (idempotent (claim e inp) (completeClaim e) work) s))"
  using assms(1)
proof (rule step_effect_tenant)
  fix r s' assume "idempotent (claim e inp) (completeClaim e) work s = Inr (r, s')"
  then show "step_effect tid s s'"
    by (rule idempotent_step [OF _ assms(2,1)]) (blast intro: step_effect_staff assms(3) shop_okD(8))
qed

lemma transition_step: "shop_ok s \<Longrightarrow> step_effect (ctx_tenantId ctx) s (snd (transitionService e ctx oid v body s))"
  unfolding transitionService_def
  by (simp add: step_effect_refl step_effect_tenant_staff transitionIn_effect split: option.split)

lemma collect_step: "shop_ok s \<Longrightarrow> step_effect (ctx_tenantId ctx) s (snd (collectCash e ctx oid key body s))"
proof -
  have "k_tenantId (collectClaim (ctx_tenantId ctx) oid key r) = Some (ctx_tenantId ctx)" for r by (simp add: collectClaim_def)
  then show "shop_ok s \<Longrightarrow> step_effect (ctx_tenantId ctx) s (snd (collectCash e ctx oid key body s))"
    unfolding collectCash_def
    by (simp add: step_effect_refl step_effect_tenant_idempotent collectWork_effect split: option.split)
qed

lemma refund_step: "shop_ok s \<Longrightarrow> step_effect (ctx_tenantId ctx) s (snd (refundCash e ctx oid key body s))"
proof -
  have "k_tenantId (refundClaim (ctx_tenantId ctx) oid key r) = Some (ctx_tenantId ctx)" for r by (simp add: refundClaim_def)
  then show "shop_ok s \<Longrightarrow> step_effect (ctx_tenantId ctx) s (snd (refundCash e ctx oid key body s))"
    unfolding refundCash_def
    by (simp add: step_effect_refl step_effect_tenant_idempotent refundWork_effect split: option.split)
qed

lemma cancel_step:
  assumes "shop_ok s"
  shows "step_effect tenantId s (snd (cancelUnpaid e cid tenantId oid body s))"
proof -
  have "step_effect tenantId s (snd (with_tenant (cancelIn e ctx oid pin) s))" if "ctx_tenantId ctx = tenantId" for ctx pin
    using that by (intro step_effect_tenant_staff [OF assms]) (auto dest: cancelIn_effect)
  then show ?thesis
    using assms by (simp add: cancelUnpaid_def step_effect_refl split: option.split sum.split)
qed

lemma expire_step:
  assumes "shop_ok s"
  shows "step_effect (o_tenantId c) s (snd (expireOne e cid c s))"
proof -
  have "step_effect (o_tenantId c) s (snd (with_tenant (expireIn e ctx oid) s))" if "ctx_tenantId ctx = o_tenantId c" for ctx oid
    using that by (intro step_effect_tenant_staff [OF assms]) (auto dest: expireIn_effect)
  then show ?thesis using assms by (simp add: expireOne_def step_effect_refl split: sum.split)
qed

section \<open>A sale\<close>

lemma sale_ledger:
  assumes eff: "sale_effect tid order xs ms s s'"
    and ms: "ms = [] \<and> o_paymentStatus order \<noteq> Refunded \<and> \<not> (owes_deposit order \<and> o_paymentStatus order = Paid)
      \<or> (\<exists>m. ms = [m] \<and> owes_deposit order \<and> o_paymentStatus order = Paid \<and> records order SaleDeposit m)"
  shows "ledger_step (ledger_of s) (ledger_of s')"
proof -
  have l: "ledger_of s' = \<lparr>lg_orders = tb_orders s @ [order], lg_moves = tb_movements s @ ms\<rparr>"
    and fresh: "\<forall>q \<in> set (lg_orders (ledger_of s)). o_id q \<noteq> o_id order"
    using eff by (auto simp: sale_effect_def ledger_of_def order_clash_def)
  from ms show ?thesis
  proof
    assume "ms = [] \<and> o_paymentStatus order \<noteq> Refunded \<and> \<not> (owes_deposit order \<and> o_paymentStatus order = Paid)"
    then show ?thesis using open_sale [OF fresh] unfolding l by (simp add: ledger_of_def)
  next
    assume "\<exists>m. ms = [m] \<and> owes_deposit order \<and> o_paymentStatus order = Paid \<and> records order SaleDeposit m"
    then show ?thesis using open_paid [OF fresh] by (auto simp: l)
  qed
qed

lemma step_effect_sale:
  assumes eff: "sale_effect tid order (sc_lines cart) ms s s'" and ok: "shop_ok s"
    and cart: "findCart tid cid s = Some cart" "o_cartId order = c_id (sc_cart cart)"
      "o_subtotal order = c_subtotal (sc_cart cart)" "o_discountTotal order = c_discountTotal (sc_cart cart)"
      "o_total order = c_total (sc_cart cart)"
    and ms: "ms = [] \<and> o_paymentStatus order \<noteq> Refunded \<and> \<not> (owes_deposit order \<and> o_paymentStatus order = Paid)
      \<or> (\<exists>m. ms = [m] \<and> owes_deposit order \<and> o_paymentStatus order = Paid \<and> records order SaleDeposit m)"
  shows "step_effect tid s s'"
proof -
  note d = shop_okD [OF ok] and l = sale_ledger [OF eff ms]
  have t: "tame tid s s'" "list_all2 (takes tid (sc_lines cart)) (tb_items s) (tb_items s')" "tb_shifts s' = tb_shifts s"
    "tb_cartLines s' = tb_cartLines s"
    using eff by (simp_all add: sale_effect_def)
  obtain e where cv: "tb_carts s' = converted e tid (o_cartId order) (tb_carts s)"
    using eff by (auto simp: sale_effect_def)
  have "findCart tid (o_cartId order) s = Some cart" using findCart_id [OF cart(1)] cart(1,2) by simp
  then have "orders_ok s'" by (rule orders_ok_sale [OF eff d(3,4,2) _ cart(3-5)])
  moreover have "carts_ok s'" by (rule carts_ok_converted [OF d(4) cv t(4)])
  moreover have "ledger_ok (ledger_of s')" by (rule ledger_step_ok [OF l d(1)])
  moreover have "log_ok s'" "idem_ok s'" "others tid s' = others tid s"
    using t(1) d tame_idem by (auto simp: tame_def)
  moreover have "stock_ok s'" by (rule stock_ok_takes [OF d(5) t(2)])
  moreover have "shifts_ok s'" using d(6) t(3) by (simp add: shifts_ok_def)
  ultimately show ?thesis using l by (simp add: step_effect_def shop_ok_def)
qed

text \<open>An order from a cart, with the deposit it owes.\<close>

lemma made_sale:
  assumes run: "createFromCartSnapshot e ctx inp s = Inr ((view, created), s1)" and ok: "shop_ok s"
    and cart: "findCart (ctx_tenantId ctx) cid s = Some (no_cart inp)" and created: "created"
    and owes: "owes = (orElse (no_tender inp) TCash = TCash \<and> no_source inp \<noteq> MercadopagoWebhook \<and> no_paymentStatus inp = Paid)"
    and paid: "no_paymentStatus inp \<noteq> Refunded"
  shows "\<not> owes \<Longrightarrow> step_effect (ctx_tenantId ctx) s s1"
    "owes \<Longrightarrow> recordDeposit e ctx (ov_order view) sh s1 = Inr s2 \<Longrightarrow> step_effect (ctx_tenantId ctx) s s2"
    "tb_idempotency s1 = tb_idempotency s" "o_tenantId (ov_order view) = ctx_tenantId ctx"
proof -
  let ?tid = "ctx_tenantId ctx" and ?o = "ov_order view"
  have m: "made_from inp ?o" and eff: "sale_effect ?tid ?o (sc_lines (no_cart inp)) [] s s1"
    using createFromCartSnapshot_effect [OF run shop_okD(9) [OF ok]] created by simp_all
  have o: "o_cartId ?o = c_id (sc_cart (no_cart inp))" "o_subtotal ?o = c_subtotal (sc_cart (no_cart inp))"
    "o_discountTotal ?o = c_discountTotal (sc_cart (no_cart inp))" "o_total ?o = c_total (sc_cart (no_cart inp))"
    "o_paymentStatus ?o = no_paymentStatus inp" "owes = (owes_deposit ?o \<and> o_paymentStatus ?o = Paid)"
    using m owes by (auto simp: made_from_def owes_deposit_def provider_def)
  show "tb_idempotency s1 = tb_idempotency s" "o_tenantId ?o = ?tid"
    using eff by (simp_all add: sale_effect_def tame_def)
  show "step_effect ?tid s s1" if "\<not> owes"
    using that paid o(5,6) by (intro step_effect_sale [OF eff ok cart o(1-4)]) simp
  show "step_effect ?tid s s2" if ow: "owes" and d: "recordDeposit e ctx ?o sh s1 = Inr s2"
  proof -
    obtain mv where mv: "sale_effect ?tid ?o (sc_lines (no_cart inp)) [mv] s s2" "records ?o SaleDeposit mv"
      using sale_effect_deposit [OF eff d] by blast
    show ?thesis
      using mv(2) ow o(6) by (intro step_effect_sale [OF mv(1) ok cart o(1-4)]) simp
  qed
qed

lemma unmade_sale:
  "createFromCartSnapshot e ctx inp s = Inr ((view, created), s1) \<Longrightarrow> shop_ok s \<Longrightarrow> \<not> created \<Longrightarrow> s1 = s"
  using createFromCartSnapshot_effect [of e ctx inp s view created s1] by (auto dest: shop_okD(9))

lemma createDirect_step:
  assumes run: "createDirectIn e ctx request key s = Inr (view, s')" and ok: "shop_ok s"
  shows "step_effect (ctx_tenantId ctx) s s'"
proof -
  obtain cartId customer notes' where rq: "request = (cartId, customer, notes')" by (cases request) auto
  obtain cart v created s1 where cart: "findCart (ctx_tenantId ctx) cartId s = Some cart"
    and c: "createFromCartSnapshot e ctx (direct_order e cart Paid TCash customer notes' key) s = Inr ((v, created), s1)"
    and rest: "(if created then bnd (recordDeposit e ctx (ov_order v) None s1) (\<lambda>s2.
        bnd (announceOrder e ctx ''order.create_direct'' [] (c_id (sc_cart cart)) v (Some (order_document (ov_order v))) s2)
          (\<lambda>s3. Inr (v, s3))) else Inr (v, s1)) = Inr (view, s')"
    using run by (auto simp: createDirectIn_def rq loadCart_def split: option.splits if_splits)
  let ?inp = "direct_order e cart Paid TCash customer notes' key"
  show ?thesis
  proof (cases created)
    case True
    obtain s2 where d: "recordDeposit e ctx (ov_order v) None s1 = Inr s2"
      and a: "announceOrder e ctx ''order.create_direct'' [] (c_id (sc_cart cart)) v (Some (order_document (ov_order v))) s2 = Inr s'"
      using rest True by auto
    have "findCart (ctx_tenantId ctx) cartId s = Some (no_cart ?inp)" by (simp add: cart direct_order_def)
    then have "step_effect (ctx_tenantId ctx) s s2"
      by (rule made_sale(2) [OF c ok _ True refl _ _ d]) (simp_all add: direct_order_def orElse_def)
    then show ?thesis by (rule step_effect_quiet) (rule quiet_announceOrder [OF a])
  next
    case False
    then show ?thesis using rest unmade_sale [OF c ok] step_effect_refl [OF ok] by simp
  qed
qed

lemma createPaid_step:
  assumes run: "createPaidIn e ctx attemptId approvedAt s = Inr (view, s')" and ok: "shop_ok s"
  shows "step_effect (ctx_tenantId ctx) s s'"
proof -
  obtain attempt cart v created s1 where cart: "findCart (ctx_tenantId ctx) (pa_cartId attempt) s = Some cart"
    and c: "createFromCartSnapshot e ctx (paid_order e cart attempt approvedAt) s = Inr ((v, created), s1)"
    and rest: "(if created then bnd (announceOrder e ctx ''order.create_paid'' [(''paymentAttemptId'', JStr (pa_id attempt))]
        (c_id (sc_cart cart)) v (Some (order_document (ov_order v))) s1) (\<lambda>s2. Inr (v, s2)) else Inr (v, s1)) = Inr (view, s')"
    using run by (auto simp: createPaidIn_def loadCart_def split: option.splits if_splits)
  let ?inp = "paid_order e cart attempt approvedAt"
  show ?thesis
  proof (cases created)
    case True
    obtain s2 where a: "announceOrder e ctx ''order.create_paid'' [(''paymentAttemptId'', JStr (pa_id attempt))]
        (c_id (sc_cart cart)) v (Some (order_document (ov_order v))) s1 = Inr s'"
      using rest True by auto
    have "findCart (ctx_tenantId ctx) (pa_cartId attempt) s = Some (no_cart ?inp)" by (simp add: cart paid_order_def)
    then have "step_effect (ctx_tenantId ctx) s s1"
      by (rule made_sale(1) [OF c ok _ True refl]) (simp_all add: paid_order_def)
    then show ?thesis by (rule step_effect_quiet) (rule quiet_announceOrder [OF a])
  next
    case False
    then show ?thesis using rest unmade_sale [OF c ok] step_effect_refl [OF ok] by simp
  qed
qed

lemma cashWork_step:
  assumes run: "cashWork e tenant ctx cartId key request s = Inr (resp, s')" and ok: "shop_ok s"
    and t: "ctx_tenantId ctx = st_id tenant"
  shows "step_effect (st_id tenant) s s' \<and> tb_idempotency s' = tb_idempotency s"
proof -
  obtain cart sched v created where cart: "findCart (st_id tenant) cartId s = Some cart"
    and c: "createFromCartSnapshot e ctx (cash_order e cart request sched key) s = Inr ((v, created), s')"
    using run by (auto simp: cashWork_def cashGuard_def Let_def split: option.splits sum.splits)
  show ?thesis
  proof (cases created)
    case True
    have f: "findCart (ctx_tenantId ctx) cartId s = Some (no_cart (cash_order e cart request sched key))"
      by (simp add: cart cash_order_def t)
    have "step_effect (ctx_tenantId ctx) s s'"
      by (rule made_sale(1) [OF c ok f True refl]) (simp_all add: cash_order_def)
    moreover have "tb_idempotency s' = tb_idempotency s"
      by (rule made_sale(3) [OF c ok f True refl]) (simp add: cash_order_def)
    ultimately show ?thesis by (simp add: t)
  next
    case False
    then show ?thesis using unmade_sale [OF c ok] step_effect_refl [OF ok] by simp
  qed
qed

lemma publicContext_Inr: "publicContext tenant cid = Inr ctx \<Longrightarrow> ctx_tenantId ctx = st_id tenant"
  by (auto simp: publicContext_def split: sum.splits)

lemma cashOrder_step:
  assumes run: "cashOrderIn e tenant ctx cartId key request s = Inr (resp, s')" and ok: "shop_ok s"
    and t: "ctx_tenantId ctx = st_id tenant"
  shows "step_effect (st_id tenant) s s'"
proof -
  obtain c s1 where c: "claim e (cashClaim (st_id tenant) cartId key request) s = Inr (c, s1)"
    using run by (auto simp: cashOrderIn_def split: if_splits option.splits)
  have k: "k_tenantId (cashClaim (st_id tenant) cartId key request) = Some (st_id tenant)" by (simp add: cashClaim_def)
  note cl = shop_ok_claim [OF c k ok]
  show ?thesis
  proof (cases c)
    case (Replayed b)
    then have "s' = s1" using run c by (auto simp: cashOrderIn_def split: if_splits option.splits)
    then show ?thesis using step_effect_before [OF step_effect_refl [OF cl(1)] cl(2,3)] by simp
  next
    case (Claimed rid)
    then obtain r s2 where w: "cashWork e tenant ctx cartId key request s1 = Inr (r, s2)" and s': "s' = completeClaim e rid r s2"
      using run c by (auto simp: cashOrderIn_def split: if_splits option.splits)
    note st = cashWork_step [OF w cl(1) t]
    have "owned (st_id tenant) rid s2" using cl(4) [OF Claimed] st owned_frame [of s2 s1] by simp
    then show ?thesis
      unfolding s' using step_effect_complete step_effect_before [OF conjunct1 [OF st] cl(2,3)] by blast
  qed
qed

section \<open>Carts\<close>

text \<open>The carts of one store change; every cart keeps its status.\<close>

definition follow :: "cart_row list \<Rightarrow> cart_row list \<Rightarrow> bool" where
  "follow cs cs' \<longleftrightarrow> (\<forall>c \<in> set cs. \<exists>c' \<in> set cs'. c_id c' = c_id c \<and> c_tenantId c' = c_tenantId c \<and> c_status c' = c_status c)"

lemma follow_cart_used: "follow cs cs' \<Longrightarrow> cart_used cs r \<Longrightarrow> cart_used cs' r"
  unfolding follow_def cart_used_def by metis

definition only_carts :: "db \<Rightarrow> db \<Rightarrow> bool" where
  "only_carts s s' \<longleftrightarrow> tb_orders s' = tb_orders s \<and> tb_orderLines s' = tb_orderLines s \<and> tb_movements s' = tb_movements s
     \<and> tb_items s' = tb_items s \<and> tb_shifts s' = tb_shifts s \<and> tb_counters s' = tb_counters s
     \<and> tb_orderEvents s' = tb_orderEvents s \<and> tb_outbox s' = tb_outbox s \<and> tb_idempotency s' = tb_idempotency s
     \<and> follow (tb_carts s) (tb_carts s')"

lemma step_effect_carts:
  assumes ok: "shop_ok s" and s': "only_carts s s'" and c: "carts_ok s'" and o: "others tid s' = others tid s"
  shows "step_effect tid s s'"
proof -
  note d = shop_okD [OF ok] and t = s' [unfolded only_carts_def]
  have l: "ledger_of s' = ledger_of s" using t by (simp add: ledger_of_def)
  have cnt: "counter t ct s' = counter t ct s" for t ct by (rule counter_frame) (simp add: t)
  have "log_ok s'" using d(2) log_ok_frame [of s' s] t by simp
  moreover have "orders_ok s'"
    using d(3) follow_cart_used t unfolding orders_ok_def cnt by auto
  moreover have "stock_ok s'" "shifts_ok s'" "idem_ok s'"
    using d t by (simp_all add: stock_ok_def shifts_ok_def idem_ok_def)
  ultimately show "step_effect tid s s'" using c o l d(1) by (simp add: step_effect_def shop_ok_def)
qed

lemma follow_append: "follow cs (cs @ new)"
  by (auto simp: follow_def)

lemma updateCart_step:
  assumes run: "updateCart tid cid f s = Inr (ret, s')" and ok: "shop_ok s" "carts_ok s'"
    and keep: "\<And>c. c_id (f c) = c_id c" "\<And>c. c_tenantId (f c) = c_tenantId c" "\<And>c. c_status (f c) = c_status c"
  shows "step_effect tid s s'"
proof -
  let ?P = "\<lambda>r. c_tenantId r = tid \<and> c_id r = cid"
  have "s' = s \<or> s' = s\<lparr>tb_carts := upd ?P f (tb_carts s)\<rparr>"
    using run by (auto simp: updateCart_def update_rows_Inr split: option.splits)
  then show ?thesis
  proof
    assume "s' = s"
    then show ?thesis using step_effect_refl [OF ok(1)] by simp
  next
    assume s': "s' = s\<lparr>tb_carts := upd ?P f (tb_carts s)\<rparr>"
    have f: "follow (tb_carts s) (upd ?P f (tb_carts s))"
      unfolding follow_def set_upd by (intro ballI, rule bexI [OF _ imageI]) (simp_all add: keep)
    have fl: "filter (\<lambda>r. c_tenantId r \<noteq> tid) (upd ?P f (tb_carts s)) = filter (\<lambda>r. c_tenantId r \<noteq> tid) (tb_carts s)"
      by (rule filter_upd_other) (simp add: keep)
    have "only_carts s s'" using f by (simp add: s' only_carts_def)
    moreover have "others tid s' = others tid s" unfolding s' by (rule others_upd) (rule fl)
    ultimately show ?thesis by (intro step_effect_carts ok)
  qed
qed

lemma createCart_step:
  assumes "shop_ok s" "s' = s\<lparr>tb_carts := tb_carts s @ [c], tb_cartLines := tb_cartLines s @ new, tb_cartLineOptions := opts, uuid_next := n\<rparr>"
    "carts_ok s'" "c_tenantId c = tid" "list_all (\<lambda>l. cl_tenantId l = tid) new"
    "filter (\<lambda>p. clo_tenantId p \<noteq> tid) opts = filter (\<lambda>p. clo_tenantId p \<noteq> tid) (tb_cartLineOptions s)"
  shows "step_effect tid s s'" "tb_idempotency s' = tb_idempotency s"
proof -
  have "filter (\<lambda>l. cl_tenantId l \<noteq> tid) new = []" using assms(5) by (auto simp: filter_empty_conv list_all_iff)
  then have o: "others tid s' = others tid s" by (simp add: assms(2,4,6))
  have "only_carts s s'" by (simp add: assms(2) only_carts_def follow_append)
  then show "step_effect tid s s'" by (intro step_effect_carts assms o)
  show "tb_idempotency s' = tb_idempotency s" by (simp add: assms(2))
qed

section \<open>An order from items\<close>

lemma directLines_NaN: "directLines tid cur sels None s = Inr (ls, t) \<Longrightarrow> t = None"
  by (induction sels arbitrary: ls) auto

lemma directLines_priced:
  assumes "directLines tid cur sels (Some a) s = Inr (ls, Some n)"
  shows "\<exists>us. list_all2 line_at (map fst ls) us \<and> n = a + priced_sum (map fst ls) us"
  using assms
proof (induction sels arbitrary: a ls)
  case Nil
  then show ?case by simp
next
  case (Cons sel sels)
  obtain l c t rest where l: "directLine tid cur sel s = Inr ((l, c), t)"
    and rest: "directLines tid cur sels (nan_plus (Some a) t) s = Inr (rest, Some n)" and ls: "ls = (l, c) # rest"
    using Cons.prems by auto
  obtain y where t: "t = Some y"
    using rest directLines_NaN by (cases t) fastforce+
  then obtain u where u: "line_at l u" "y = u * nl_quantity l"
    using l by (auto simp: directLine_def line_at_def money_text_def Let_def split: option.splits if_splits sum.splits)
  obtain us where "list_all2 line_at (map fst rest) us" "n = a + y + priced_sum (map fst rest) us"
    using Cons.IH [of "a + y" rest] rest t by auto
  then show ?case using u ls by (intro exI [of _ "u # us"]) simp
qed

lemma directDiscount_ok:
  assumes run: "directDiscount e tid tender code ls n s = Inr (dt, t, applied)"
    and nn: "list_all (\<lambda>l. 0 \<le> cents (nl_lineTotal l)) (map fst ls)" "(\<Sum>l\<leftarrow>map fst ls. cents (nl_lineTotal l)) = n"
    and dt: "numeric_text dt = Inr d"
  shows "0 \<le> d \<and> d \<le> n \<and> t = n - d"
proof (cases "nonempty code")
  case False
  have z: "centsToMoney 0 = ''0.00''" by code_simp
  have "dt = centsToMoney 0" "t = n" using run False by (simp_all add: directDiscount_def z)
  moreover have "0 \<le> n" using nn by (auto simp: list_all_iff intro!: sum_list_nonneg)
  ultimately show ?thesis using dt numeric_text_money by fastforce
next
  case True
  let ?lines = "direct_discount_lines ls"
  have m: "map dl_lineTotalCents (map (\<lambda>(i, l). (request_line i l)\<lparr>dl_categoryId := f l\<rparr>) (enumerate k xs))
      = map (\<lambda>l. cents (nl_lineTotal l)) xs" for k f xs
    by (induction xs arbitrary: k) (simp_all add: request_line_def)
  have lines: "map dl_lineTotalCents ?lines = map (\<lambda>l. cents (nl_lineTotal l)) (map fst ls)"
    unfolding direct_discount_lines_def by (rule m)
  have "totals ?lines = n" using nn(2) by (simp only: lines)
  moreover have "lines_nonneg ?lines"
  proof -
    have "list_all ((\<le>) 0) (map dl_lineTotalCents ?lines)" using nn(1) unfolding lines by (simp add: list_all_iff)
    then show ?thesis by (simp add: lines_nonneg_def list_all_iff)
  qed
  moreover obtain c tn calc where "calculateDiscountAmounts ?lines c (e_now e) tn = Some calc"
    "dt = dr_discountTotal calc" "t = dr_totalCents calc"
    using run True by (auto simp: directDiscount_def split: option.splits if_splits)
  ultimately show ?thesis
    using discount_amounts [of ?lines c "e_now e" tn calc] numeric_text_cents [OF dt] by auto
qed

text \<open>The cart of an order from items, and the order.\<close>

lemma directCart_step:
  assumes inp: "directCart e tid cur loc request s = Inr inp" and cr: "createCart e tid inp s = Inr (Some cart, s')"
    and ok: "shop_ok s"
  shows "step_effect tid s s'" "ledger_of s' = ledger_of s" "findCart tid (fresh_id e s) s' = Some cart"
proof -
  obtain ls n dt t app where ls: "directLines tid cur (io_items request) (Some 0) s = Inr (ls, Some n)"
    and d: "directDiscount e tid (io_tender request) (io_discountCode request) ls n s = Inr (dt, t, app)"
    and f: "nc_subtotal inp = centsToMoney n" "nc_discountTotal inp = dt" "nc_total inp = centsToMoney t" "nc_lines inp = map fst ls"
    using inp by (auto simp: directCart_def split: option.splits)
  obtain us where us: "list_all2 line_at (map fst ls) us" "n = priced_sum (map fst ls) us"
    using directLines_priced [OF ls] by auto
  have disc: "0 \<le> x \<and> x \<le> priced_sum (map fst ls) us \<and> t = priced_sum (map fst ls) us - x"
    if x: "numeric_text (nc_discountTotal inp) = Inr x" "list_all (\<lambda>l. 0 \<le> cents (nl_lineTotal l)) (map fst ls)"
      "(\<Sum>l\<leftarrow>map fst ls. cents (nl_lineTotal l)) = priced_sum (map fst ls) us" for x
    using directDiscount_ok [OF d [unfolded us(2)] x(2,3) x(1) [unfolded f(2)]] .
  have "step_effect tid s s' \<and> ledger_of s' = ledger_of s \<and> findCart tid (fresh_id e s) s' = Some cart"
  proof (rule createCart_amounts [OF shop_okD(4) [OF ok] us(1) f(1) [unfolded us(2)] f(3,4) _ cr])
    show "0 \<le> x \<and> x \<le> priced_sum (map fst ls) us \<and> t = priced_sum (map fst ls) us - x"
      if "numeric_text (nc_discountTotal inp) = Inr x" "list_all (\<lambda>l. 0 \<le> cents (nl_lineTotal l)) (map fst ls)"
        "(\<Sum>l\<leftarrow>map fst ls. cents (nl_lineTotal l)) = priced_sum (map fst ls) us" for x
      using that by (rule disc)
  next
    fix c new opts m
    assume s': "s' = s\<lparr>tb_carts := tb_carts s @ [c], tb_cartLines := tb_cartLines s @ new, tb_cartLineOptions := opts, uuid_next := m\<rparr>"
      and c: "carts_ok s'" "c_tenantId c = tid" "Some cart = findCart tid (fresh_id e s) s'"
      and l: "list_all (\<lambda>l. cl_tenantId l = tid) new"
        "filter (\<lambda>p. clo_tenantId p \<noteq> tid) opts = filter (\<lambda>p. clo_tenantId p \<noteq> tid) (tb_cartLineOptions s)"
    have "step_effect tid s s'" by (rule createCart_step(1) [OF ok s' c(1,2) l])
    moreover have "ledger_of s' = ledger_of s" by (simp add: s' ledger_of_def)
    ultimately show ?thesis using c(3) by simp
  qed
  then show "step_effect tid s s'" "ledger_of s' = ledger_of s" "findCart tid (fresh_id e s) s' = Some cart" by blast+
qed

lemma createItems_step:
  assumes run: "createItemsIn e ctx request key s = Inr (view, s')" and ok: "shop_ok s"
    and paid: "io_paymentStatus request \<noteq> Refunded"
  shows "step_effect (ctx_tenantId ctx) s s'"
proof -
  let ?tid = "ctx_tenantId ctx"
  let ?inp = "\<lambda>cart. direct_order e cart (io_paymentStatus request) (io_tender request) (io_customer request) (io_notes request) key"
  let ?dep = "io_tender request = TCash \<and> io_paymentStatus request = Paid"
  let ?doc = "\<lambda>v. if io_paymentStatus request = Paid
    then Some ((order_document (ov_order v))\<lparr>is_documentType := None, is_customerDocType := None\<rparr>) else None"
  obtain cur loc inp cart s1 v created s2 where dc: "directCart e ?tid cur loc request s = Inr inp"
    and cr: "createCart e ?tid inp s = Inr (Some cart, s1)"
    and c: "createFromCartSnapshot e ctx (?inp cart) s1 = Inr ((v, created), s2)"
    and rest: "(if \<not> created then Inr (v, s2) else
        bnd (if ?dep then recordDeposit e ctx (ov_order v) None s2 else Inr s2) (\<lambda>s3.
        bnd (announceOrder e ctx ''order.create_direct'' [] (c_id (sc_cart cart)) v (?doc v) s3) (\<lambda>s4.
        bnd (notifyOwner e ctx (ov_order v) s4) (\<lambda>s5. Inr (v, s5))))) = Inr (view, s')"
    using run unfolding createItemsIn_def Let_def by (auto split: option.splits)
  note dstep = directCart_step [OF dc cr ok]
  have ok1: "shop_ok s1" "others ?tid s1 = others ?tid s" using dstep(1) by (simp_all add: step_effect_def)
  have "step_effect ?tid s1 s'"
  proof (cases created)
    case True
    obtain s3 s4 where d: "(if ?dep then recordDeposit e ctx (ov_order v) None s2 else Inr s2) = Inr s3"
      and a: "announceOrder e ctx ''order.create_direct'' [] (c_id (sc_cart cart)) v (?doc v) s3 = Inr s4"
      and n: "notifyOwner e ctx (ov_order v) s4 = Inr s'"
      using rest True by auto
    have f: "findCart ?tid (fresh_id e s) s1 = Some (no_cart (?inp cart))" by (simp add: dstep(3) direct_order_def)
    have "step_effect ?tid s1 s3"
    proof (cases ?dep)
      case True
      then have dd: "recordDeposit e ctx (ov_order v) None s2 = Inr s3" using d by simp
      show ?thesis
        by (rule made_sale(2) [OF c ok1(1) f \<open>created\<close> refl _ _ dd])
          (use True in \<open>simp_all add: direct_order_def orElse_def\<close>)
    next
      case False
      then have "s3 = s2" using d by auto
      moreover have "step_effect ?tid s1 s2"
        by (rule made_sale(1) [OF c ok1(1) f \<open>created\<close> refl])
          (use False paid in \<open>auto simp: direct_order_def orElse_def\<close>)
      ultimately show ?thesis by simp
    qed
    then show ?thesis
      by (rule step_effect_quiet) (rule quiet_trans [OF quiet_announceOrder [OF a] quiet_notifyOwner [OF n]])
  next
    case False
    then show ?thesis using rest unmade_sale [OF c ok1(1)] step_effect_refl [OF ok1(1)] by simp
  qed
  then show ?thesis using step_effect_before ok1(2) dstep(2) by blast
qed

lemma items_payment:
  "createDirectOrderSchemaFromItems isUuid isEmail value = Some request \<Longrightarrow> io_paymentStatus request \<noteq> Refunded"
  by (auto simp: createDirectOrderSchemaFromItems_def Let_def split: if_splits option.splits)

section \<open>Customers' carts\<close>

lemma builtCart_step:
  assumes b: "buildCart e tenant request s0 = Inr inp" and cr: "createCart e tid inp s = Inr (created, s')" and ok: "shop_ok s"
  shows "step_effect tid s s' \<and> tb_idempotency s' = tb_idempotency s"
proof (rule createCart_ok [OF shop_okD(4) [OF ok] b cr])
  fix c new opts n
  assume s': "s' = s\<lparr>tb_carts := tb_carts s @ [c], tb_cartLines := tb_cartLines s @ new, tb_cartLineOptions := opts, uuid_next := n\<rparr>"
    and c: "carts_ok s'" "c_tenantId c = tid" "list_all (\<lambda>l. cl_tenantId l = tid) new"
      "filter (\<lambda>p. clo_tenantId p \<noteq> tid) opts = filter (\<lambda>p. clo_tenantId p \<noteq> tid) (tb_cartLineOptions s)"
  show ?thesis using createCart_step [OF ok s' c] by simp
qed

lemma createCartIn_step:
  assumes run: "createCartIn e tenant request key s = Inr (v, s')" and ok: "shop_ok s"
  shows "step_effect (st_id tenant) s s'"
proof -
  obtain c s1 where c: "claim e (cartClaim (st_id tenant) key request) s = Inr (c, s1)"
    using run by (auto simp: createCartIn_def split: if_splits)
  have k: "k_tenantId (cartClaim (st_id tenant) key request) = Some (st_id tenant)" by (simp add: cartClaim_def)
  note cl = shop_ok_claim [OF c k ok]
  show ?thesis
  proof (cases c)
    case (Replayed body)
    then have "s' = s1" using run c by (auto simp: createCartIn_def split: if_splits option.splits)
    then show ?thesis using step_effect_before [OF step_effect_refl [OF cl(1)] cl(2,3)] by simp
  next
    case (Claimed rid)
    then obtain inp created s2 body where b: "buildCart e tenant request s1 = Inr inp"
      and cr: "createCart e (st_id tenant) inp s1 = Inr (created, s2)" and s': "s' = completeClaim e rid body s2"
      using run c by (auto simp: createCartIn_def split: if_splits option.splits)
    note st = builtCart_step [OF b cr cl(1)]
    have "owned (st_id tenant) rid s2" using cl(4) [OF Claimed] st owned_frame [of s2 s1] by simp
    then show ?thesis
      unfolding s' using step_effect_complete step_effect_before [OF conjunct1 [OF st] cl(2,3)] by blast
  qed
qed

lemma applyToCart_step:
  assumes "applyDiscountToCart e tid cid data s = Inr (ret, s')" "shop_ok s" "carts_ok s'"
  shows "step_effect tid s s'"
proof -
  obtain d t where "updateCart tid cid (applyDiscountSet e data d t) s = Inr (ret, s')"
    using assms(1) by (auto simp: applyDiscountToCart_def)
  then show ?thesis by (rule updateCart_step [OF _ assms(2,3)]) (simp_all add: applyDiscountSet_def)
qed

lemma removeFromCart_step:
  assumes "removeDiscountFromCart e tid cid total' s = Inr (ret, s')" "shop_ok s" "carts_ok s'"
  shows "step_effect tid s s'"
proof -
  obtain t where "updateCart tid cid (removeDiscountSet e t) s = Inr (ret, s')"
    using assms(1) by (auto simp: removeDiscountFromCart_def)
  then show ?thesis by (rule updateCart_step [OF _ assms(2,3)]) (simp_all add: removeDiscountSet_def)
qed

lemma getCartIn_step:
  assumes run: "getCartIn e tenant cid s = Inr (v, s')" and ok: "shop_ok s"
  shows "step_effect (st_id tenant) s s'"
proof -
  have "carts_ok s'" by (rule getCartIn_ok [OF shop_okD(4) [OF ok] run])
  moreover have "s' = s \<or> (\<exists>data ret. applyDiscountToCart e (st_id tenant) cid data s = Inr (ret, s'))
      \<or> (\<exists>t ret. removeDiscountFromCart e (st_id tenant) cid t s = Inr (ret, s'))"
    using run by (auto simp: getCartIn_def removeInvalid_def split: if_splits option.splits)
  ultimately show ?thesis
    using step_effect_refl [OF ok] applyToCart_step [OF _ ok] removeFromCart_step [OF _ ok] by blast
qed

lemma removeDiscountIn_step:
  assumes run: "removeDiscountIn e tenant cid s = Inr (v, s')" and ok: "shop_ok s"
  shows "step_effect (st_id tenant) s s'"
proof -
  have "carts_ok s'" by (rule removeDiscountIn_ok [OF shop_okD(4) [OF ok] run])
  moreover obtain t ret where "removeDiscountFromCart e (st_id tenant) cid t s = Inr (ret, s')"
    using run by (auto simp: removeDiscountIn_def split: option.splits)
  ultimately show ?thesis using removeFromCart_step [OF _ ok] by blast
qed

lemma applyDiscountIn_step:
  assumes found: "couponFor e tenant cid code s = (Inr data, u)" and run: "applyDiscountIn e tenant cid data s = Inr (v, s')"
    and ok: "shop_ok s"
  shows "step_effect (st_id tenant) s s'"
proof -
  have "carts_ok s'" by (rule couponFor_ok [OF shop_okD(4) [OF ok] found run])
  moreover obtain ret where "applyDiscountToCart e (st_id tenant) cid data s = Inr (ret, s')"
    using run by (auto simp: applyDiscountIn_def split: option.splits)
  ultimately show ?thesis using applyToCart_step [OF _ ok] by blast
qed

section \<open>Shifts\<close>

lemma step_effect_shifts:
  assumes ok: "shop_ok s" and s': "s' = s\<lparr>tb_shifts := t, uuid_next := n\<rparr>" and sh: "shifts_ok s'"
    and o: "filter (\<lambda>r. cs_tenantId r \<noteq> tid) t = filter (\<lambda>r. cs_tenantId r \<noteq> tid) (tb_shifts s)"
  shows "step_effect tid s s'"
proof -
  note d = shop_okD [OF ok]
  have l: "ledger_of s' = ledger_of s" by (simp add: s' ledger_of_def)
  have cnt: "counter t ct s' = counter t ct s" for t ct by (rule counter_frame) (simp add: s')
  have "log_ok s'" using d(2) log_ok_frame [of s' s] by (simp add: s')
  moreover have "carts_ok s'" using d(4) carts_ok_frame [of s' s] by (simp add: s')
  moreover have "orders_ok s'" using d(3) unfolding orders_ok_def cnt by (simp add: s')
  moreover have "stock_ok s'" "idem_ok s'" using d by (simp_all add: s' stock_ok_def idem_ok_def)
  moreover have "others tid s' = others tid s" by (simp add: s' o)
  ultimately show ?thesis using sh l d(1) by (simp add: step_effect_def shop_ok_def)
qed

lemma openShift_step:
  assumes run: "openShiftIn e ctx inp s = Inr (row, s')" and ok: "shop_ok s"
  shows "step_effect (ctx_tenantId ctx) s s'"
proof -
  note st = openShiftIn_state [OF run]
  have "cs_tenantId row = ctx_tenantId ctx" using st(3) by (simp add: open_of_def)
  then show ?thesis
    by (intro step_effect_shifts [OF ok st(1) openShiftIn_ok [OF shop_okD(6) [OF ok] run]]) simp
qed

lemma closeShift_step:
  assumes run: "closeShiftIn e ctx shiftId inp s = Inr (v, s')" and ok: "shop_ok s"
  shows "step_effect (ctx_tenantId ctx) s s'"
  using run
proof (rule closeShiftIn_state)
  fix closing expected memo shift
  let ?t = "upd (\<lambda>r. cs_id r = shiftId) (closeSet e closing expected memo) (tb_shifts s)"
  assume s': "s' = s\<lparr>tb_shifts := ?t\<rparr>"
    and sh: "sel1 (\<lambda>r. cs_tenantId r = ctx_tenantId ctx \<and> cs_id r = shiftId) (tb_shifts s) = Some shift"
  have "uniq cs_id (tb_shifts s)" using shop_okD(6) [OF ok] by (simp add: shifts_ok_def)
  then have "cs_tenantId r = ctx_tenantId ctx" if "r \<in> set (tb_shifts s)" "cs_id r = shiftId" for r
    using that sel1_SomeD [OF sh] uniq_eq by fastforce
  then have "filter (\<lambda>r. cs_tenantId r \<noteq> ctx_tenantId ctx) ?t = filter (\<lambda>r. cs_tenantId r \<noteq> ctx_tenantId ctx) (tb_shifts s)"
    by (intro filter_upd_other) (simp add: closeSet_def)
  then show ?thesis
    by (intro step_effect_shifts [where t = ?t and n = "uuid_next s", OF ok] closeShiftIn_ok [OF shop_okD(6) [OF ok] run]) (simp_all add: s')
qed

end
