(* ===== verification/Delivery.thy ===== *)
theory Delivery
  imports OrderServices
begin

text \<open>
  Delivery of the outbox: \<open>src/lib/outbox/outbox-dispatcher.ts\<close> and the two WhatsApp jobs
  \<open>src/features/orders/application/dispatch-ready-whatsapp.job.ts\<close> and
  \<open>dispatch-owner-cash-whatsapp.job.ts\<close>.

  \<^item> A worker takes a batch of events under a lease, hands each to the consumer of its type and marks
    it published, or failed: then it is tried again after a growing pause, and after the last attempt
    it is set aside (dead letter). A consumer is a parameter: it may change the database and fails
    with a message. The clock is read again when the delivery of an event ends. Metrics are left out.
  \<^item> A WhatsApp job does the same with one event at a time, store after store. Whether a message is
    accepted is a parameter; the messages sent are part of the result. The list of articles of a
    message is kept as a list, its text is joined and cut by the code.
  \<^item> The dispatcher sets no \<open>app.tenant_id\<close>, so the policy of \<open>outbox_events\<close> shows it every row or none,
    by the role of its connection (\<open>row_visible\<close>). The jobs ask store by store, inside
    \<open>withTenantIdTransaction\<close>, and see the rows of the store they name.
  \<^item> The lemmas: while a lease runs no other worker is handed the event, however dispatchers and jobs
    interleave; as \<open>komanda_runtime\<close> the dispatcher delivers nothing; with a role that sees every store
    an event is tried at most as often as the limit says, and with pauses long enough between the
    rounds every event ends published or set aside; and the jobs write to those customers only
    that have agreed to it.
\<close>

section \<open>The dispatcher\<close>

record dispatcher =
  dp_workerId :: string
  dp_batchSize :: nat
  dp_leaseMs :: int
  dp_maxAttempts :: int
  dp_consumers :: "string \<Rightarrow> (outbox_row \<Rightarrow> db \<Rightarrow> string option \<times> db) option"
  dp_random :: "string \<Rightarrow> rat"

definition backoffMs :: "int \<Rightarrow> rat \<Rightarrow> int" where
  "backoffMs attempts random =
     (let base = min 60000 (1000 * 2 ^ nat (max 0 (attempts - 1)))
      in base + \<lfloor>fl (random * max 250 (of_int base * (1 / 4)))\<rfloor>)"

definition deliverable :: "int \<Rightarrow> outbox_row \<Rightarrow> bool" where
  "deliverable now r \<longleftrightarrow> ob_publishedAt r = None \<and> ob_deadLetterAt r = None \<and> ob_availableAt r \<le> now
     \<and> (case ob_leasedUntil r of None \<Rightarrow> True | Some t \<Rightarrow> t < now)"

definition sequence_le :: "outbox_row \<Rightarrow> outbox_row \<Rightarrow> bool" where
  "sequence_le a b \<longleftrightarrow> ob_sequence a \<le> ob_sequence b"

definition leaseEvent :: "string \<Rightarrow> int \<Rightarrow> outbox_row \<Rightarrow> outbox_row" where
  "leaseEvent worker until r =
     r\<lparr>ob_claimedBy := Some worker, ob_leasedUntil := Some until, ob_attempts := ob_attempts r + 1\<rparr>"

text \<open>
  The dispatcher speaks to the database outside \<open>withTenantTransaction\<close>: no \<open>app.tenant_id\<close> is set, and
  the policy of \<open>outbox_events\<close> decides by the role alone which rows its statements see.
\<close>

definition visibleOutbox :: "env \<Rightarrow> db \<Rightarrow> outbox_row list" where
  "visibleOutbox e s = filter (\<lambda>r. row_visible e None (ob_tenantId r)) (tb_outbox s)"

definition claimBatch :: "env \<Rightarrow> dispatcher \<Rightarrow> db \<Rightarrow> outbox_row list \<times> db" where
  "claimBatch e w s =
     (let leaseSeconds = max 1 \<lceil>of_int (dp_leaseMs w) / 1000 :: rat\<rceil>;
          candidates = take (dp_batchSize w) (sort_by sequence_le (filter (deliverable (e_now e)) (visibleOutbox e s)));
          lease = leaseEvent (dp_workerId w) (e_now e + leaseSeconds * 1000)
      in (map lease candidates,
          s\<lparr>tb_outbox := upd (\<lambda>r. ob_id r \<in> set (map ob_id candidates)) lease (tb_outbox s)\<rparr>))"

definition markPublished :: "env \<Rightarrow> dispatcher \<Rightarrow> string \<Rightarrow> db \<Rightarrow> db" where
  "markPublished e w eventId s =
     s\<lparr>tb_outbox := upd (\<lambda>r. row_visible e None (ob_tenantId r) \<and> ob_id r = eventId \<and> ob_claimedBy r = Some (dp_workerId w))
        (\<lambda>r. r\<lparr>ob_publishedAt := Some (e_now e), ob_claimedBy := None, ob_leasedUntil := None,
              ob_lastError := None\<rparr>) (tb_outbox s)\<rparr>"

definition failSet :: "env \<Rightarrow> dispatcher \<Rightarrow> outbox_row \<Rightarrow> string \<Rightarrow> outbox_row \<Rightarrow> outbox_row" where
  "failSet e w event message r =
     (let deadLetter = dp_maxAttempts w \<le> ob_attempts event;
          retryMs = backoffMs (ob_attempts event) (dp_random w (ob_id event))
      in r\<lparr>ob_availableAt := (if deadLetter then ob_availableAt r else e_now e + retryMs),
           ob_claimedBy := None, ob_leasedUntil := None, ob_lastError := Some message,
           ob_deadLetterAt := (if deadLetter then Some (e_now e) else ob_deadLetterAt r)\<rparr>)"

definition markFailed :: "env \<Rightarrow> dispatcher \<Rightarrow> outbox_row \<Rightarrow> string \<Rightarrow> db \<Rightarrow> db" where
  "markFailed e w event message s =
     s\<lparr>tb_outbox := upd (\<lambda>r. row_visible e None (ob_tenantId r) \<and> ob_id r = ob_id event \<and> ob_claimedBy r = Some (dp_workerId w))
        (failSet e w event message) (tb_outbox s)\<rparr>"

definition consumeEvent :: "dispatcher \<Rightarrow> outbox_row \<Rightarrow> db \<Rightarrow> string option \<times> db" where
  "consumeEvent w event s =
     (case dp_consumers w (ob_eventType event) of
        None \<Rightarrow> (Some (''No consumer registered for '' @ ob_eventType event @ ''.''), s)
      | Some consumer \<Rightarrow> consumer event s)"

definition deliverEvent :: "env \<Rightarrow> dispatcher \<Rightarrow> outbox_row \<Rightarrow> db \<Rightarrow> bool \<times> db" where
  "deliverEvent e w event s =
     (case consumeEvent w event s of
        (None, s1) \<Rightarrow> (True, markPublished e w (ob_id event) s1)
      | (Some message, s1) \<Rightarrow> (False, markFailed e w event (take 2000 message) s1))"

text \<open>The rounds of the loop; \<open>later\<close> gives what the worker sees of the world when the event is done.\<close>

fun deliverEvents :: "(string \<Rightarrow> env) \<Rightarrow> dispatcher \<Rightarrow> outbox_row list \<Rightarrow> nat \<times> nat \<Rightarrow> db \<Rightarrow> (nat \<times> nat) \<times> db" where
  "deliverEvents later w [] counts s = (counts, s)"
| "deliverEvents later w (event # rest) (succeeded, lost) s =
     (let (ok, s1) = deliverEvent (later (ob_id event)) w event s
      in deliverEvents later w rest (if ok then (succeeded + 1, lost) else (succeeded, lost + 1)) s1)"

definition dispatchOnce :: "env \<Rightarrow> (string \<Rightarrow> env) \<Rightarrow> dispatcher \<Rightarrow> db \<Rightarrow> (nat \<times> nat \<times> nat) \<times> db" where
  "dispatchOnce e later w s =
     (let (events, s1) = claimBatch e w s;
          (counts, s2) = deliverEvents later w events (0, 0) s1
      in ((length events, counts), s2))"

section \<open>The WhatsApp jobs\<close>

record 'm job_result =
  jr_sent :: nat
  jr_skipped :: nat
  jr_failed :: nat
  jr_messages :: "'m list"

definition claimWhatsApp :: "env \<Rightarrow> string \<Rightarrow> string \<Rightarrow> string \<Rightarrow> db \<Rightarrow> outbox_row option \<times> db" where
  "claimWhatsApp e worker eventType tid s =
     (case sort_by sequence_le (filter (\<lambda>r. ob_tenantId r = tid \<and> ob_eventType r = eventType
             \<and> deliverable (e_now e) r) (tb_outbox s)) of
        [] \<Rightarrow> (None, s)
      | candidate # _ \<Rightarrow>
          (let lease = leaseEvent worker (e_now e + 60 * 1000)
           in (Some (lease candidate),
               s\<lparr>tb_outbox := upd (\<lambda>r. ob_id r = ob_id candidate) lease (tb_outbox s)\<rparr>)))"

definition publishWhatsApp :: "env \<Rightarrow> string \<Rightarrow> outbox_row \<Rightarrow> db \<Rightarrow> db" where
  "publishWhatsApp e worker event s =
     s\<lparr>tb_outbox := upd (\<lambda>r. ob_id r = ob_id event \<and> ob_claimedBy r = Some worker)
        (\<lambda>r. r\<lparr>ob_publishedAt := Some (e_now e), ob_claimedBy := None, ob_leasedUntil := None,
              ob_lastError := None\<rparr>) (tb_outbox s)\<rparr>"

definition failWhatsApp :: "env \<Rightarrow> string \<Rightarrow> outbox_row \<Rightarrow> db \<Rightarrow> db" where
  "failWhatsApp e worker event s =
     s\<lparr>tb_outbox := upd (\<lambda>r. ob_id r = ob_id event \<and> ob_claimedBy r = Some worker)
        (\<lambda>r. r\<lparr>ob_claimedBy := None, ob_leasedUntil := None, ob_availableAt := e_now e + 5 * 60 * 1000,
              ob_lastError := Some ''WhatsApp delivery failed'',
              ob_deadLetterAt := (if 5 \<le> ob_attempts r then Some (e_now e) else ob_deadLetterAt r)\<rparr>) (tb_outbox s)\<rparr>"

definition clampBatch :: "int \<Rightarrow> nat" where
  "clampBatch batchSize = nat (max 1 (min 100 batchSize))"

definition readyRecipient :: "order_row \<Rightarrow> string option" where
  "readyRecipient order =
     (let customer = o_customerSnapshot order in
      if customer_flag customer ''whatsappReadyOptIn''
      then normalizeWhatsAppRecipient (customer_text customer ''phone'') else None)"

text \<open>The message of an order that is ready, to the phone with the number of the purchase.\<close>

definition readyMessage :: "string \<Rightarrow> outbox_row \<Rightarrow> db \<Rightarrow> (string \<times> string) option" where
  "readyMessage tid event s =
     (case sel1 (\<lambda>r. o_tenantId r = tid \<and> o_id r = ob_aggregateId event) (tb_orders s) of
        None \<Rightarrow> None
      | Some order \<Rightarrow>
          (case readyRecipient order of
             None \<Rightarrow> None
           | Some phone \<Rightarrow>
               if o_paymentStatus order = Paid \<and> o_fulfillmentStatus order \<noteq> Cancelled
               then Some (phone, js_str (o_purchaseNumber order)) else None))"

definition deliverReady ::
  "env \<Rightarrow> (string \<times> string \<Rightarrow> bool) \<Rightarrow> string \<Rightarrow> string \<Rightarrow> outbox_row
     \<Rightarrow> (string \<times> string) job_result \<Rightarrow> db \<Rightarrow> (string \<times> string) job_result \<times> db" where
  "deliverReady e send worker tid event acc s =
     (case readyMessage tid event s of
        None \<Rightarrow> (acc\<lparr>jr_sent := jr_sent acc + 1\<rparr>, publishWhatsApp e worker event s)
      | Some message \<Rightarrow>
          if send message
          then (acc\<lparr>jr_sent := jr_sent acc + 1, jr_messages := jr_messages acc @ [message]\<rparr>, publishWhatsApp e worker event s)
          else (acc\<lparr>jr_failed := jr_failed acc + 1\<rparr>, failWhatsApp e worker event s))"

fun job_tenant ::
  "(db \<Rightarrow> outbox_row option \<times> db) \<Rightarrow> (outbox_row \<Rightarrow> 'm job_result \<Rightarrow> db \<Rightarrow> 'm job_result \<times> db)
     \<Rightarrow> nat \<Rightarrow> 'm job_result \<Rightarrow> db \<Rightarrow> nat \<times> 'm job_result \<times> db" where
  "job_tenant claimed deliver 0 acc s = (0, acc, s)"
| "job_tenant claimed deliver (Suc rounds) acc s =
     (case claimed s of
        (None, s1) \<Rightarrow> (Suc rounds, acc, s1)
      | (Some event, s1) \<Rightarrow>
          (let (acc1, s2) = deliver event acc s1 in job_tenant claimed deliver rounds acc1 s2))"

fun job_tenants ::
  "(string \<Rightarrow> db \<Rightarrow> outbox_row option \<times> db)
     \<Rightarrow> (string \<Rightarrow> outbox_row \<Rightarrow> 'm job_result \<Rightarrow> db \<Rightarrow> 'm job_result \<times> db)
     \<Rightarrow> string list \<Rightarrow> nat \<Rightarrow> 'm job_result \<Rightarrow> db \<Rightarrow> 'm job_result \<times> db" where
  "job_tenants claimed deliver [] budget acc s = (acc, s)"
| "job_tenants claimed deliver (tid # rest) budget acc s =
     (let (left, acc1, s1) = job_tenant (claimed tid) (deliver tid) budget acc s
      in if left = 0 then (acc1, s1) else job_tenants claimed deliver rest left acc1 s1)"

definition dispatchReadyWhatsApp ::
  "env \<Rightarrow> (string \<times> string \<Rightarrow> bool) \<Rightarrow> int \<Rightarrow> db \<Rightarrow> (string \<times> string) job_result \<times> db" where
  "dispatchReadyWhatsApp e send batchSize s =
     (let worker = ''whatsapp-'' @ fresh_id e s
      in job_tenants (claimWhatsApp e worker ''order.whatsapp_ready'') (deliverReady e send worker)
           (map t_id (tb_tenants s)) (clampBatch batchSize)
           \<lparr>jr_sent = 0, jr_skipped = 0, jr_failed = 0, jr_messages = []\<rparr> (s\<lparr>uuid_next := Suc (uuid_next s)\<rparr>))"

record owner_message =
  om_phone :: string
  om_business :: string
  om_purchaseNumber :: string
  om_amount :: string
  om_items :: "(int \<times> string) list"

definition ownerMessage :: "string \<Rightarrow> outbox_row \<Rightarrow> db \<Rightarrow> owner_message option" where
  "ownerMessage tid event s =
     (case (sel1 (\<lambda>r. t_id r = tid) (tb_tenants s),
            normalizeWhatsAppRecipient (Option.bind (sel1 (\<lambda>r. ts_tenantId r = tid) (tb_settings s)) ts_ownerCashAlertWhatsAppPhone),
            sel1 (\<lambda>r. o_tenantId r = tid \<and> o_id r = ob_aggregateId event) (tb_orders s)) of
        (Some tenant, Some phone, Some order) \<Rightarrow>
          if t_preset tenant \<noteq> ExpressRetail \<or> o_tender order \<noteq> TCash \<or> o_paymentStatus order \<noteq> Pending
            \<or> o_fulfillmentStatus order = Cancelled \<or> o_source order \<noteq> AdminDirect
          then None
          else Some \<lparr>om_phone = phone, om_business = t_name tenant, om_purchaseNumber = js_str (o_purchaseNumber order),
            om_amount = centsToMoney (o_total order) @ '' '' @ o_currency order,
            om_items = map (\<lambda>l. (ol_quantity l, ol_name l))
              (filter (\<lambda>l. ol_tenantId l = tid \<and> ol_orderId l = ob_aggregateId event) (tb_orderLines s))\<rparr>
      | _ \<Rightarrow> None)"

definition deliverOwner ::
  "env \<Rightarrow> (owner_message \<Rightarrow> bool) \<Rightarrow> string \<Rightarrow> string \<Rightarrow> outbox_row
     \<Rightarrow> owner_message job_result \<Rightarrow> db \<Rightarrow> owner_message job_result \<times> db" where
  "deliverOwner e send worker tid event acc s =
     (case ownerMessage tid event s of
        None \<Rightarrow> (acc\<lparr>jr_skipped := jr_skipped acc + 1\<rparr>, publishWhatsApp e worker event s)
      | Some message \<Rightarrow>
          if send message
          then (acc\<lparr>jr_sent := jr_sent acc + 1, jr_messages := jr_messages acc @ [message]\<rparr>, publishWhatsApp e worker event s)
          else (acc\<lparr>jr_failed := jr_failed acc + 1\<rparr>, failWhatsApp e worker event s))"

text \<open>The stores take turns at being first: the start moves on with the clock.\<close>

definition scheduledTenants :: "env \<Rightarrow> nat \<Rightarrow> string list \<Rightarrow> string list" where
  "scheduledTenants e batch tids =
     (let ordered = sort_by (e_collate e) tids;
          offset = (if ordered = [] then 0
                    else nat ((e_now e div (5 * 60 * 1000)) * int batch mod int (length ordered)))
      in drop offset ordered @ take offset ordered)"

definition dispatchOwnerCashWhatsApp ::
  "env \<Rightarrow> (owner_message \<Rightarrow> bool) \<Rightarrow> int \<Rightarrow> db \<Rightarrow> owner_message job_result \<times> db" where
  "dispatchOwnerCashWhatsApp e send batchSize s =
     (let worker = ''owner-cash-whatsapp-'' @ fresh_id e s
      in job_tenants (claimWhatsApp e worker ''order.whatsapp_owner_cash_pending'') (deliverOwner e send worker)
           (scheduledTenants e (clampBatch batchSize) (map t_id (tb_tenants s))) (clampBatch batchSize)
           \<lparr>jr_sent = 0, jr_skipped = 0, jr_failed = 0, jr_messages = []\<rparr> (s\<lparr>uuid_next := Suc (uuid_next s)\<rparr>))"

section \<open>One worker at a time\<close>

text \<open>What the workers do to the outbox, in any order; \<open>handed\<close> are the events they are given.\<close>

datatype delivery_op =
  OpClaim env dispatcher | OpPublish env dispatcher string | OpFail env dispatcher outbox_row string
| OpClaimMessage env string string string | OpPublishMessage env string outbox_row | OpFailMessage env string outbox_row

fun op_now :: "delivery_op \<Rightarrow> int" where
  "op_now (OpClaim e w) = e_now e"
| "op_now (OpPublish e w i) = e_now e"
| "op_now (OpFail e w event message) = e_now e"
| "op_now (OpClaimMessage e worker eventType tid) = e_now e"
| "op_now (OpPublishMessage e worker event) = e_now e"
| "op_now (OpFailMessage e worker event) = e_now e"

fun op_worker :: "delivery_op \<Rightarrow> string" where
  "op_worker (OpClaim e w) = dp_workerId w"
| "op_worker (OpPublish e w i) = dp_workerId w"
| "op_worker (OpFail e w event message) = dp_workerId w"
| "op_worker (OpClaimMessage e worker eventType tid) = worker"
| "op_worker (OpPublishMessage e worker event) = worker"
| "op_worker (OpFailMessage e worker event) = worker"

text \<open>The events an operation marks as done, and may then be handed out again.\<close>

fun op_marks :: "delivery_op \<Rightarrow> string option" where
  "op_marks (OpClaim e w) = None"
| "op_marks (OpPublish e w j) = Some j"
| "op_marks (OpFail e w event message) = Some (ob_id event)"
| "op_marks (OpClaimMessage e worker eventType tid) = None"
| "op_marks (OpPublishMessage e worker event) = Some (ob_id event)"
| "op_marks (OpFailMessage e worker event) = Some (ob_id event)"

definition settles :: "string \<Rightarrow> string \<Rightarrow> delivery_op \<Rightarrow> bool" where
  "settles worker i op \<longleftrightarrow> op_worker op = worker \<and> op_marks op = Some i"

fun run_op :: "delivery_op \<Rightarrow> db \<Rightarrow> string list \<times> db" where
  "run_op (OpClaim e w) s = (let (events, s1) = claimBatch e w s in (map ob_id events, s1))"
| "run_op (OpPublish e w i) s = ([], markPublished e w i s)"
| "run_op (OpFail e w event message) s = ([], markFailed e w event message s)"
| "run_op (OpClaimMessage e worker eventType tid) s =
     (let (event, s1) = claimWhatsApp e worker eventType tid s in (case event of None \<Rightarrow> [] | Some r \<Rightarrow> [ob_id r], s1))"
| "run_op (OpPublishMessage e worker event) s = ([], publishWhatsApp e worker event s)"
| "run_op (OpFailMessage e worker event) s = ([], failWhatsApp e worker event s)"

fun handed :: "delivery_op list \<Rightarrow> db \<Rightarrow> string list" where
  "handed [] s = []"
| "handed (op # ops) s = (let (given, s1) = run_op op s in given @ handed ops s1)"

definition leased :: "string \<Rightarrow> string \<Rightarrow> int \<Rightarrow> db \<Rightarrow> bool" where
  "leased i worker until s \<longleftrightarrow>
     (\<forall>r \<in> set (tb_outbox s). ob_id r = i \<longrightarrow> ob_claimedBy r = Some worker \<and> ob_leasedUntil r = Some until)"

definition lease_end :: "env \<Rightarrow> dispatcher \<Rightarrow> int" where
  "lease_end e w = e_now e + max 1 \<lceil>of_int (dp_leaseMs w) / 1000 :: rat\<rceil> * 1000"

text \<open>Until when the events an operation is handed are its worker's.\<close>

fun op_until :: "delivery_op \<Rightarrow> int" where
  "op_until (OpClaim e w) = lease_end e w"
| "op_until (OpClaimMessage e worker eventType tid) = e_now e + 60 * 1000"
| "op_until op = op_now op"

lemma leaseEvent_simps [simp]:
  "ob_id (leaseEvent w u r) = ob_id r" "ob_attempts (leaseEvent w u r) = ob_attempts r + 1"
  "ob_claimedBy (leaseEvent w u r) = Some w" "ob_leasedUntil (leaseEvent w u r) = Some u"
  "ob_publishedAt (leaseEvent w u r) = ob_publishedAt r" "ob_deadLetterAt (leaseEvent w u r) = ob_deadLetterAt r"
  "ob_availableAt (leaseEvent w u r) = ob_availableAt r" "ob_tenantId (leaseEvent w u r) = ob_tenantId r"
  "ob_sequence (leaseEvent w u r) = ob_sequence r"
  by (simp_all add: leaseEvent_def)

lemma visibleOutbox_runtime: "e_role e = KomandaRuntime \<Longrightarrow> visibleOutbox e s = []"
  by (simp add: visibleOutbox_def row_visible_def)

lemma visibleOutbox_migration: "e_role e = KomandaMigration \<Longrightarrow> visibleOutbox e s = tb_outbox s"
  by (simp add: visibleOutbox_def row_visible_def)

lemma visibleOutbox_subset: "set (visibleOutbox e s) \<subseteq> set (tb_outbox s)"
  by (auto simp: visibleOutbox_def)

lemma claimBatch_rows:
  assumes "claimBatch e w s = (events, s1)"
  obtains batch where "events = map (leaseEvent (dp_workerId w) (lease_end e w)) batch"
    "set batch \<subseteq> set (filter (deliverable (e_now e)) (tb_outbox s))"
    "tb_outbox s1 = upd (\<lambda>r. ob_id r \<in> ob_id ` set batch) (leaseEvent (dp_workerId w) (lease_end e w)) (tb_outbox s)"
    "batch = take (dp_batchSize w) (sort_by sequence_le (filter (deliverable (e_now e)) (visibleOutbox e s)))"
proof
  let ?b = "take (dp_batchSize w) (sort_by sequence_le (filter (deliverable (e_now e)) (visibleOutbox e s)))"
  show "events = map (leaseEvent (dp_workerId w) (lease_end e w)) ?b"
    "tb_outbox s1 = upd (\<lambda>r. ob_id r \<in> ob_id ` set ?b) (leaseEvent (dp_workerId w) (lease_end e w)) (tb_outbox s)"
    using assms by (auto simp: claimBatch_def Let_def lease_end_def)
  have "set ?b \<subseteq> set (filter (deliverable (e_now e)) (visibleOutbox e s))"
    by (metis set_sort_by set_take_subset)
  then show "set ?b \<subseteq> set (filter (deliverable (e_now e)) (tb_outbox s))"
    using visibleOutbox_subset by fastforce
qed simp

lemma claimWhatsApp_rows:
  assumes "claimWhatsApp e worker eventType tid s = (Some event, s1)"
  obtains r where "r \<in> set (tb_outbox s)" "deliverable (e_now e) r" "event = leaseEvent worker (e_now e + 60 * 1000) r"
    "tb_outbox s1 = upd (\<lambda>q. ob_id q = ob_id r) (leaseEvent worker (e_now e + 60 * 1000)) (tb_outbox s)"
proof -
  let ?rows = "filter (\<lambda>r. ob_tenantId r = tid \<and> ob_eventType r = eventType \<and> deliverable (e_now e) r) (tb_outbox s)"
  from assms obtain r rest where c: "sort_by sequence_le ?rows = r # rest"
    by (auto simp: claimWhatsApp_def split: list.splits)
  then have "r \<in> set ?rows" by (metis list.set_intros(1) set_sort_by)
  then show ?thesis using assms by (intro that [of r]) (auto simp: claimWhatsApp_def c Let_def)
qed

lemma claimWhatsApp_none: "claimWhatsApp e worker eventType tid s = (None, s1) \<Longrightarrow> s1 = s"
  by (auto simp: claimWhatsApp_def Let_def split: list.splits)

lemma event_leased_claimed:
  assumes "run_op op s = (given, s1)" "i \<in> set given"
  shows "leased i (op_worker op) (op_until op) s1"
proof (cases op)
  case (OpClaim e w)
  then obtain events where c: "claimBatch e w s = (events, s1)" and g: "given = map ob_id events"
    using assms(1) by (cases "claimBatch e w s") auto
  from c obtain batch where b: "events = map (leaseEvent (dp_workerId w) (lease_end e w)) batch"
    "tb_outbox s1 = upd (\<lambda>r. ob_id r \<in> ob_id ` set batch) (leaseEvent (dp_workerId w) (lease_end e w)) (tb_outbox s)"
    by (rule claimBatch_rows)
  have "i \<in> ob_id ` set batch" using assms(2) by (auto simp: g b(1))
  then show ?thesis by (auto simp: OpClaim leased_def b(2) set_upd split: if_splits)
next
  case (OpClaimMessage e worker eventType tid)
  then obtain event where c: "claimWhatsApp e worker eventType tid s = (Some event, s1)" and g: "i = ob_id event"
    using assms by (cases "claimWhatsApp e worker eventType tid s"; cases "fst (claimWhatsApp e worker eventType tid s)") auto
  from c show ?thesis
    by (rule claimWhatsApp_rows) (auto simp: OpClaimMessage g leased_def set_upd split: if_splits)
qed (use assms in auto)

lemma leased_op:
  assumes l: "leased i worker until s" and n: "op_now op \<le> until" and q: "\<not> settles worker i op"
    and r: "run_op op s = (given, s1)"
  shows "i \<notin> set given \<and> leased i worker until s1"
proof (cases op)
  case (OpClaim e w)
  then obtain events where c: "claimBatch e w s = (events, s1)" and g: "given = map ob_id events"
    using r by (cases "claimBatch e w s") auto
  from c obtain batch where b: "events = map (leaseEvent (dp_workerId w) (lease_end e w)) batch"
    "set batch \<subseteq> set (filter (deliverable (e_now e)) (tb_outbox s))"
    "tb_outbox s1 = upd (\<lambda>r. ob_id r \<in> ob_id ` set batch) (leaseEvent (dp_workerId w) (lease_end e w)) (tb_outbox s)"
    by (rule claimBatch_rows)
  have "ob_id r \<noteq> i" if "r \<in> set batch" for r
    using that b(2) l n OpClaim by (auto simp: leased_def deliverable_def)
  then have "i \<notin> ob_id ` set batch" by auto
  then show ?thesis using l by (auto simp: g b leased_def set_upd split: if_splits)
next
  case (OpPublish e w j)
  then show ?thesis using l q r
    by (auto simp: leased_def settles_def markPublished_def set_upd split: if_splits)
next
  case (OpFail e w event message)
  then show ?thesis using l q r
    by (auto simp: leased_def settles_def markFailed_def failSet_def Let_def set_upd split: if_splits)
next
  case (OpClaimMessage e claimant eventType tid)
  show ?thesis
  proof (cases "fst (claimWhatsApp e claimant eventType tid s)")
    case None
    then have c: "claimWhatsApp e claimant eventType tid s = (None, s1)" "given = []"
      using r OpClaimMessage by (cases "claimWhatsApp e claimant eventType tid s"; auto)+
    show ?thesis using l c(2) by (simp add: claimWhatsApp_none [OF c(1)])
  next
    case (Some event)
    then have c: "claimWhatsApp e claimant eventType tid s = (Some event, s1)" and g: "given = [ob_id event]"
      using r OpClaimMessage by (cases "claimWhatsApp e claimant eventType tid s"; auto)+
    from c obtain x where x: "x \<in> set (tb_outbox s)" "deliverable (e_now e) x"
      "event = leaseEvent claimant (e_now e + 60 * 1000) x"
      "tb_outbox s1 = upd (\<lambda>q. ob_id q = ob_id x) (leaseEvent claimant (e_now e + 60 * 1000)) (tb_outbox s)"
      by (rule claimWhatsApp_rows)
    have "ob_id x \<noteq> i" using x(1,2) l n OpClaimMessage by (auto simp: leased_def deliverable_def)
    then show ?thesis using l by (auto simp: g x(3,4) leased_def set_upd split: if_splits)
  qed
next
  case (OpPublishMessage e claimant event)
  then show ?thesis using l q r
    by (auto simp: leased_def settles_def publishWhatsApp_def set_upd split: if_splits)
next
  case (OpFailMessage e claimant event)
  then show ?thesis using l q r
    by (auto simp: leased_def settles_def failWhatsApp_def set_upd split: if_splits)
qed

lemma leased_ops:
  assumes "leased i worker until s" "\<forall>op \<in> set ops. op_now op \<le> until \<and> \<not> settles worker i op"
  shows "i \<notin> set (handed ops s)"
  using assms
proof (induction ops arbitrary: s)
  case (Cons op ops)
  obtain given s1 where r: "run_op op s = (given, s1)" by (cases "run_op op s")
  have "i \<notin> set given \<and> leased i worker until s1"
    using leased_op [OF Cons.prems(1) _ _ r] Cons.prems(2) by simp
  then show ?case using Cons.IH [of s1] Cons.prems(2) by (simp add: r)
qed simp

section \<open>What a round does to an event\<close>

definition outbox_ok :: "db \<Rightarrow> bool" where
  "outbox_ok s \<longleftrightarrow> uniq ob_id (tb_outbox s)"

text \<open>Consumers leave the outbox alone: they write elsewhere, or only add events to it later.\<close>

definition keeps_outbox :: "dispatcher \<Rightarrow> bool" where
  "keeps_outbox w \<longleftrightarrow> (\<forall>ty consumer event s. dp_consumers w ty = Some consumer \<longrightarrow>
     tb_outbox (snd (consumer event s)) = tb_outbox s)"

definition waiting :: "outbox_row \<Rightarrow> bool" where
  "waiting r \<longleftrightarrow> ob_publishedAt r = None \<and> ob_deadLetterAt r = None"

text \<open>An event that was handed out and is done: published, set aside, or to be tried again by \<open>until\<close>.\<close>

definition done_with :: "int \<Rightarrow> int \<Rightarrow> outbox_row \<Rightarrow> outbox_row \<Rightarrow> bool" where
  "done_with m until r q \<longleftrightarrow> ob_id q = ob_id r \<and> ob_attempts q = ob_attempts r \<and> ob_leasedUntil q = None
     \<and> (waiting q \<longrightarrow> ob_attempts r < m \<and> ob_availableAt q \<le> until)"

lemma backoff_bound:
  assumes "0 \<le> x" "x \<le> 1"
  shows "backoffMs attempts x \<le> 75001"
proof -
  let ?b = "min 60000 (1000 * 2 ^ nat (max 0 (attempts - 1))) :: int"
  let ?y = "x * max 250 (of_int ?b * (1 / 4)) :: rat"
  have b: "?b \<le> 60000" by simp
  define z :: rat where "z = max 250 (of_int ?b * (1 / 4))"
  have "of_int ?b \<le> (60000 :: rat)" using b by (metis of_int_le_iff of_int_numeral)
  then have z: "0 \<le> z" "z \<le> 15000" by (auto simp: z_def)
  then have "x * z \<le> 1 * 15000" using assms by (intro mult_mono) auto
  moreover have "0 \<le> x * z" using assms(1) z(1) by simp
  ultimately have y: "0 \<le> ?y" "?y \<le> 15000" unfolding z_def by simp_all
  have "\<bar>fl ?y - ?y\<bar> \<le> \<bar>?y\<bar> / 2 ^ 53" by (rule fl_err)
  also have "\<dots> \<le> 15000 / 2 ^ 53" using y by (simp add: divide_right_mono)
  also have "\<dots> < 1" by simp
  finally have "fl ?y < 15001" using y by linarith
  then have "\<lfloor>fl ?y\<rfloor> \<le> 15001" by linarith
  then show ?thesis using b unfolding backoffMs_def Let_def by linarith
qed

lemma deliverEvent_row:
  assumes k: "keeps_outbox w" and x: "\<forall>i. 0 \<le> dp_random w i \<and> dp_random w i \<le> 1"
    and v: "e_role e = KomandaMigration" and d: "deliverEvent e w event s = (ok, s1)"
    and c: "\<forall>r \<in> set (tb_outbox s). ob_id r = ob_id event \<longrightarrow>
        ob_claimedBy r = Some (dp_workerId w) \<and> ob_attempts r = ob_attempts event"
  shows "list_all2 (\<lambda>r q. if ob_id r = ob_id event then done_with (dp_maxAttempts w) (e_now e + 75001) r q else q = r)
    (tb_outbox s) (tb_outbox s1)"
proof -
  obtain res s0 where co: "consumeEvent w event s = (res, s0)" by (cases "consumeEvent w event s")
  have o: "tb_outbox s0 = tb_outbox s"
  proof (cases "dp_consumers w (ob_eventType event)")
    case (Some consumer)
    then have "tb_outbox (snd (consumer event s)) = tb_outbox s" using k by (simp add: keeps_outbox_def)
    then show ?thesis using co Some by (simp add: consumeEvent_def)
  qed (use co in \<open>simp add: consumeEvent_def\<close>)
  show ?thesis
  proof (cases res)
    case None
    then have "s1 = markPublished e w (ob_id event) s0" using d co by (simp add: deliverEvent_def)
    then show ?thesis using c
      by (auto simp: markPublished_def row_visible_def v o upd_def list_all2_map2 list_all2_same done_with_def waiting_def)
  next
    case (Some message)
    then have "s1 = markFailed e w event (take 2000 message) s0" using d co by (simp add: deliverEvent_def)
    moreover have "e_now e + backoffMs (ob_attempts event) (dp_random w (ob_id event)) \<le> e_now e + 75001"
      using backoff_bound x by simp
    ultimately show ?thesis using c
      by (auto simp: markFailed_def row_visible_def v o upd_def list_all2_map2 list_all2_same done_with_def waiting_def failSet_def Let_def)
  qed
qed

lemma deliverEvents_rows:
  assumes k: "keeps_outbox w" and x: "\<forall>i. 0 \<le> dp_random w i \<and> dp_random w i \<le> 1"
    and t: "\<forall>i. e_now (later i) \<le> fin \<and> e_role (later i) = KomandaMigration"
    and d: "deliverEvents later w events counts s = (counts', s1)" and u: "distinct (map ob_id events)"
    and c: "\<forall>event \<in> set events. \<forall>r \<in> set (tb_outbox s). ob_id r = ob_id event \<longrightarrow>
        ob_claimedBy r = Some (dp_workerId w) \<and> ob_attempts r = ob_attempts event"
  shows "list_all2 (\<lambda>r q. if ob_id r \<in> ob_id ` set events then done_with (dp_maxAttempts w) (fin + 75001) r q else q = r)
    (tb_outbox s) (tb_outbox s1)"
  using d u c
proof (induction events arbitrary: counts s)
  case Nil
  then show ?case by (simp add: list_all2_same)
next
  case (Cons event rest)
  obtain a b where ab: "counts = (a, b)" by (cases counts)
  obtain ok s2 where v: "deliverEvent (later (ob_id event)) w event s = (ok, s2)"
    by (cases "deliverEvent (later (ob_id event)) w event s")
  have r1: "list_all2 (\<lambda>r q. if ob_id r = ob_id event
      then done_with (dp_maxAttempts w) (e_now (later (ob_id event)) + 75001) r q else q = r) (tb_outbox s) (tb_outbox s2)"
    (is "list_all2 ?R1 _ _")
    by (rule deliverEvent_row [OF k x _ v]) (use Cons.prems(3) t in auto)
  have "\<forall>event' \<in> set rest. \<forall>r \<in> set (tb_outbox s2). ob_id r = ob_id event' \<longrightarrow>
      ob_claimedBy r = Some (dp_workerId w) \<and> ob_attempts r = ob_attempts event'"
  proof (intro ballI impI)
    fix event' q assume e': "event' \<in> set rest" and q: "q \<in> set (tb_outbox s2)" and i: "ob_id q = ob_id event'"
    obtain r where r: "r \<in> set (tb_outbox s)" "?R1 r q"
      using r1 q by (auto simp: list_all2_conv_all_nth in_set_conv_nth) (metis nth_mem)
    have "ob_id event' \<noteq> ob_id event" using Cons.prems(2) imageI [OF e', of ob_id] by auto
    then have "q = r" using r(2) i by (auto simp: done_with_def split: if_splits)
    then show "ob_claimedBy q = Some (dp_workerId w) \<and> ob_attempts q = ob_attempts event'"
      using Cons.prems(3) e' r(1) i by auto
  qed
  moreover have "deliverEvents later w rest (if ok then (a + 1, b) else (a, b + 1)) s2 = (counts', s1)"
    using Cons.prems(1) by (simp add: ab v)
  ultimately have r2: "list_all2 (\<lambda>r q. if ob_id r \<in> ob_id ` set rest then done_with (dp_maxAttempts w) (fin + 75001) r q else q = r)
      (tb_outbox s2) (tb_outbox s1)" (is "list_all2 ?R2 _ _")
    using Cons.IH Cons.prems(2) by simp
  show ?case
  proof (rule list_all2_trans [OF _ r1 r2])
    fix r q p assume "?R1 r q" "?R2 q p"
    moreover have "e_now (later (ob_id event)) \<le> fin" using t by simp
    ultimately show "if ob_id r \<in> ob_id ` set (event # rest) then done_with (dp_maxAttempts w) (fin + 75001) r p else p = r"
      using Cons.prems(2) by (auto simp: done_with_def split: if_splits)
  qed
qed

section \<open>Rounds\<close>

lemma dispatchOnce_runtime:
  assumes "e_role e = KomandaRuntime"
  shows "dispatchOnce e later w s = ((0, 0, 0), s)"
proof -
  have "claimBatch e w s = ([], s)"
    by (simp add: claimBatch_def visibleOutbox_runtime [OF assms] Let_def sort_by_def upd_def)
  then show ?thesis by (simp add: dispatchOnce_def)
qed

lemma round_rows:
  assumes k: "keeps_outbox w" and x: "\<forall>i. 0 \<le> dp_random w i \<and> dp_random w i \<le> 1"
    and t: "\<forall>i. e_now (later i) \<le> fin \<and> e_role (later i) = KomandaMigration" and u: "outbox_ok s"
    and v: "e_role e = KomandaMigration"
    and cl: "claimBatch e w s = (events, s1)" and d: "dispatchOnce e later w s = (n, s2)"
  shows "list_all2 (\<lambda>r q. if ob_id r \<in> ob_id ` set events
      then deliverable (e_now e) r \<and> done_with (dp_maxAttempts w) (fin + 75001) (r\<lparr>ob_attempts := ob_attempts r + 1\<rparr>) q
      else q = r) (tb_outbox s) (tb_outbox s2)"
    and "distinct (map ob_id events)" and "ob_id ` set events \<subseteq> ob_id ` set (tb_outbox s)" and "outbox_ok s2"
    and "0 < dp_batchSize w \<Longrightarrow> \<exists>r \<in> set (tb_outbox s). deliverable (e_now e) r \<Longrightarrow> events \<noteq> []"
proof -
  from cl obtain batch where b: "events = map (leaseEvent (dp_workerId w) (lease_end e w)) batch"
    "set batch \<subseteq> set (filter (deliverable (e_now e)) (tb_outbox s))"
    "tb_outbox s1 = upd (\<lambda>r. ob_id r \<in> ob_id ` set batch) (leaseEvent (dp_workerId w) (lease_end e w)) (tb_outbox s)"
    "batch = take (dp_batchSize w) (sort_by sequence_le (filter (deliverable (e_now e)) (tb_outbox s)))"
    using claimBatch_rows [OF cl] unfolding visibleOutbox_migration [OF v] by blast
  have ids: "ob_id ` set events = ob_id ` set batch" "map ob_id events = map ob_id batch" by (auto simp: b(1) image_image)
  have "distinct (map ob_id (sort_by sequence_le (filter (deliverable (e_now e)) (tb_outbox s))))"
    using u by (auto simp: distinct_sort_by outbox_ok_def uniq_def distinct_map_filter)
  then show di: "distinct (map ob_id events)"
    unfolding ids(2) b(4) take_map [symmetric] by (rule distinct_take)
  show sub: "ob_id ` set events \<subseteq> ob_id ` set (tb_outbox s)" using b(2) by (auto simp: ids)
  have del: "deliverable (e_now e) r" if rin: "r \<in> set (tb_outbox s)" and rb: "ob_id r \<in> ob_id ` set batch" for r
  proof -
    obtain r' where "r' \<in> set batch" "ob_id r = ob_id r'" using rb by auto
    then have "r = r'" using uniq_eq [OF _ rin] b(2) u by (auto simp: outbox_ok_def)
    then show ?thesis using b(2) \<open>r' \<in> set batch\<close> by auto
  qed
  have r1: "list_all2 (\<lambda>r q. q = (if ob_id r \<in> ob_id ` set batch then leaseEvent (dp_workerId w) (lease_end e w) r else r))
      (tb_outbox s) (tb_outbox s1)" (is "list_all2 ?R1 _ _")
    by (simp add: b(3) upd_def list_all2_map2 list_all2_same)
  obtain counts where dd: "deliverEvents later w events (0, 0) s1 = (counts, s2)"
    using cl d by (cases "deliverEvents later w events (0, 0) s1") (simp add: dispatchOnce_def)
  have r2: "list_all2 (\<lambda>r q. if ob_id r \<in> ob_id ` set events then done_with (dp_maxAttempts w) (fin + 75001) r q else q = r)
      (tb_outbox s1) (tb_outbox s2)" (is "list_all2 ?R2 _ _")
  proof (rule deliverEvents_rows [OF k x t dd di], intro ballI impI)
    fix event q assume ev: "event \<in> set events" and q: "q \<in> set (tb_outbox s1)" and i: "ob_id q = ob_id event"
    obtain r' where r': "r' \<in> set batch" "event = leaseEvent (dp_workerId w) (lease_end e w) r'" using ev by (auto simp: b(1))
    obtain r where r: "r \<in> set (tb_outbox s)"
      "q = (if ob_id r \<in> ob_id ` set batch then leaseEvent (dp_workerId w) (lease_end e w) r else r)"
      using q unfolding b(3) by (elim in_updE)
    have "ob_id r = ob_id r'" using i r' r(2) by (auto split: if_splits)
    then have "r = r'" using uniq_eq [OF _ r(1), of ob_id r'] b(2) r'(1) u by (auto simp: outbox_ok_def)
    then show "ob_claimedBy q = Some (dp_workerId w) \<and> ob_attempts q = ob_attempts event"
      using r(2) r' by auto
  qed
  show rows: "list_all2 (\<lambda>r q. if ob_id r \<in> ob_id ` set events
      then deliverable (e_now e) r \<and> done_with (dp_maxAttempts w) (fin + 75001) (r\<lparr>ob_attempts := ob_attempts r + 1\<rparr>) q
      else q = r) (tb_outbox s) (tb_outbox s2)" (is "list_all2 ?R _ _")
  proof -
    have "list_all2 (\<lambda>r q. (r \<in> set (tb_outbox s)) \<and> ?R1 r q) (tb_outbox s) (tb_outbox s1)"
      using r1 by (auto simp: list_all2_conv_all_nth)
    then have "list_all2 (\<lambda>r q. r \<in> set (tb_outbox s) \<longrightarrow> ?R r q) (tb_outbox s) (tb_outbox s2)"
      by (rule list_all2_trans [rotated, OF _ r2]) (auto simp: ids done_with_def intro: del split: if_splits)
    then show ?thesis by (auto simp: list_all2_conv_all_nth)
  qed
  have "map ob_id (tb_outbox s2) = map ob_id (tb_outbox s)"
    using rows by (auto simp: list_all2_conv_all_nth done_with_def intro!: nth_equalityI split: if_splits)
  then show "outbox_ok s2" using u by (simp add: outbox_ok_def uniq_def)
  assume "0 < dp_batchSize w" and "\<exists>r \<in> set (tb_outbox s). deliverable (e_now e) r"
  then obtain r where "r \<in> set (sort_by sequence_le (filter (deliverable (e_now e)) (tb_outbox s)))" by auto
  then have "batch \<noteq> []" using b(4) \<open>0 < dp_batchSize w\<close>
    by (cases "sort_by sequence_le (filter (deliverable (e_now e)) (tb_outbox s))") auto
  then show "events \<noteq> []" by (simp add: b(1))
qed

text \<open>Rounds of one dispatcher configuration, by any workers; \<open>tried\<close> are the events they hand out.\<close>

type_synonym round = "env \<times> (string \<Rightarrow> env) \<times> dispatcher"

fun tried :: "round list \<Rightarrow> db \<Rightarrow> string list" where
  "tried [] s = []"
| "tried ((e, later, w) # rounds) s =
     map ob_id (fst (claimBatch e w s)) @ tried rounds (snd (dispatchOnce e later w s))"

fun after_rounds :: "round list \<Rightarrow> db \<Rightarrow> db" where
  "after_rounds [] s = s"
| "after_rounds ((e, later, w) # rounds) s = after_rounds rounds (snd (dispatchOnce e later w s))"

definition round_ok :: "int \<Rightarrow> round \<Rightarrow> bool" where
  "round_ok m r \<longleftrightarrow> (case r of (e, later, w) \<Rightarrow> keeps_outbox w \<and> dp_maxAttempts w = m \<and> 0 < dp_batchSize w
     \<and> (\<forall>i. 0 \<le> dp_random w i \<and> dp_random w i \<le> 1) \<and> e_role e = KomandaMigration
     \<and> (\<exists>fin. \<forall>i. e_now (later i) \<le> fin \<and> e_role (later i) = KomandaMigration))"

text \<open>How often an event may still be handed out.\<close>

definition tries_left :: "int \<Rightarrow> outbox_row \<Rightarrow> nat" where
  "tries_left m r = (if waiting r then nat (max 1 (m - ob_attempts r)) else 0)"

lemma done_with_tries:
  "deliverable now r \<Longrightarrow> done_with m until (r\<lparr>ob_attempts := ob_attempts r + 1\<rparr>) q \<Longrightarrow> Suc (tries_left m q) \<le> tries_left m r"
  by (auto simp: tries_left_def done_with_def deliverable_def waiting_def nat_le_iff)

lemma count_distinct: "distinct xs \<Longrightarrow> count_list xs x = (if x \<in> set xs then 1 else 0)"
  by (induction xs) auto

lemma tried_le:
  assumes "\<forall>r \<in> set rounds. round_ok m r" "outbox_ok s" "r \<in> set (tb_outbox s)"
  shows "count_list (tried rounds s) (ob_id r) \<le> tries_left m r"
  using assms
proof (induction rounds arbitrary: s r)
  case (Cons round rounds)
  obtain e later w where rd: "round = (e, later, w)" by (cases round)
  obtain events s1 where cl: "claimBatch e w s = (events, s1)" by (cases "claimBatch e w s")
  obtain n s2 where d: "dispatchOnce e later w s = (n, s2)" by (cases "dispatchOnce e later w s")
  have w: "keeps_outbox w" "\<forall>i. 0 \<le> dp_random w i \<and> dp_random w i \<le> 1" "dp_maxAttempts w = m" "e_role e = KomandaMigration"
    using Cons.prems(1) by (simp_all add: round_ok_def rd)
  obtain fin where fin: "\<forall>i. e_now (later i) \<le> fin \<and> e_role (later i) = KomandaMigration" using Cons.prems(1) by (auto simp: round_ok_def rd)
  note rows = round_rows [OF w(1,2) fin Cons.prems(2) w(4) cl d, unfolded w(3)]
  obtain q where q: "q \<in> set (tb_outbox s2)" "if ob_id r \<in> ob_id ` set events
      then deliverable (e_now e) r \<and> done_with m (fin + 75001) (r\<lparr>ob_attempts := ob_attempts r + 1\<rparr>) q else q = r"
    using rows(1) Cons.prems(3) by (auto simp: list_all2_conv_all_nth in_set_conv_nth) (metis nth_mem)
  have i: "ob_id q = ob_id r" using q(2) by (auto simp: done_with_def split: if_splits)
  have IH: "count_list (tried rounds s2) (ob_id q) \<le> tries_left m q"
    by (rule Cons.IH) (use Cons.prems(1) rows(4) q(1) in auto)
  have "count_list (map ob_id events) (ob_id r) = (if ob_id r \<in> ob_id ` set events then 1 else 0)"
    using rows(2) by (simp add: count_distinct)
  then show ?case
    using IH i q(2) done_with_tries [of "e_now e" r m "fin + 75001" q]
    by (auto simp: rd cl d split: if_splits)
qed simp

fun spaced :: "int \<Rightarrow> int \<Rightarrow> round list \<Rightarrow> bool" where
  "spaced d t [] = True"
| "spaced d t ((e, later, w) # rounds) =
     (t \<le> e_now e \<and> (\<forall>i. e_now (later i) \<le> e_now e + d) \<and> spaced d (e_now e + d + 75001) rounds)"

definition rested :: "int \<Rightarrow> db \<Rightarrow> bool" where
  "rested t s \<longleftrightarrow> (\<forall>r \<in> set (tb_outbox s). waiting r \<longrightarrow> ob_leasedUntil r = None \<and> ob_availableAt r \<le> t)"

definition all_tries :: "int \<Rightarrow> db \<Rightarrow> nat" where
  "all_tries m s = sum_list (map (tries_left m) (tb_outbox s))"

lemma all_tries_0: "all_tries m s = 0 \<longleftrightarrow> (\<forall>r \<in> set (tb_outbox s). \<not> waiting r)"
proof -
  have "tries_left m r = 0 \<longleftrightarrow> \<not> waiting r" for r by (simp add: tries_left_def)
  then show ?thesis by (auto simp: all_tries_def)
qed

lemma sum_list_le:
  fixes f :: "'a \<Rightarrow> nat"
  shows "list_all2 (\<lambda>r q. f q \<le> f r) xs ys \<Longrightarrow> sum_list (map f ys) \<le> sum_list (map f xs)"
  by (induction rule: list_all2_induct) auto

lemma sum_list_less:
  fixes f :: "'a \<Rightarrow> nat"
  assumes "list_all2 (\<lambda>r q. f q \<le> f r) xs ys" "\<exists>i < length xs. f (ys ! i) < f (xs ! i)"
  shows "sum_list (map f ys) < sum_list (map f xs)"
  using assms
proof (induction xs ys rule: list_all2_induct)
  case (Cons x xs y ys)
  then have le: "sum_list (map f ys) \<le> sum_list (map f xs)" by (intro sum_list_le)
  from Cons.prems obtain i where i: "i < Suc (length xs)" "f ((y # ys) ! i) < f ((x # xs) ! i)" by auto
  then show ?case using Cons.hyps Cons.IH le by (cases i) (auto intro: add_less_le_mono add_le_less_mono)
qed simp

lemma rounds_drain:
  assumes "\<forall>r \<in> set rounds. round_ok m r" "spaced d t rounds" "0 \<le> d" "rested t s" "outbox_ok s"
  shows "all_tries m (after_rounds rounds s) + length rounds \<le> all_tries m s \<or> all_tries m (after_rounds rounds s) = 0"
  using assms
proof (induction rounds arbitrary: s t)
  case (Cons round rounds)
  obtain e later w where rd: "round = (e, later, w)" by (cases round)
  obtain events s1 where cl: "claimBatch e w s = (events, s1)" by (cases "claimBatch e w s")
  obtain n s2 where dd: "dispatchOnce e later w s = (n, s2)" by (cases "dispatchOnce e later w s")
  have w: "keeps_outbox w" "\<forall>i. 0 \<le> dp_random w i \<and> dp_random w i \<le> 1" "dp_maxAttempts w = m" "0 < dp_batchSize w"
    "e_role e = KomandaMigration" "\<forall>i. e_role (later i) = KomandaMigration"
    using Cons.prems(1) by (auto simp: round_ok_def rd)
  have now: "t \<le> e_now e" "\<forall>i. e_now (later i) \<le> e_now e + d" using Cons.prems(2) by (simp_all add: rd)
  have nows: "\<forall>i. e_now (later i) \<le> e_now e + d \<and> e_role (later i) = KomandaMigration" using now(2) w(6) by simp
  note rows = round_rows [OF w(1,2) nows Cons.prems(5) w(5) cl dd, unfolded w(3)]
  have rest: "rested (e_now e + d + 75001) s2"
    unfolding rested_def
  proof (intro ballI impI)
    fix q assume "q \<in> set (tb_outbox s2)" and wq: "waiting q"
    then obtain r where "r \<in> set (tb_outbox s)" "if ob_id r \<in> ob_id ` set events
      then deliverable (e_now e) r \<and> done_with m (e_now e + d + 75001) (r\<lparr>ob_attempts := ob_attempts r + 1\<rparr>) q else q = r"
      using rows(1) by (auto simp: list_all2_conv_all_nth in_set_conv_nth) (metis nth_mem)
    then show "ob_leasedUntil q = None \<and> ob_availableAt q \<le> e_now e + d + 75001"
      using wq Cons.prems(3,4) now(1) by (auto simp: rested_def done_with_def split: if_splits)
  qed
  have IH: "all_tries m (after_rounds rounds s2) + length rounds \<le> all_tries m s2 \<or> all_tries m (after_rounds rounds s2) = 0"
    by (rule Cons.IH [OF _ _ Cons.prems(3) rest rows(4)]) (use Cons.prems(1,2) in \<open>auto simp: rd\<close>)
  have le: "list_all2 (\<lambda>r q. tries_left m q \<le> tries_left m r) (tb_outbox s) (tb_outbox s2)"
    using rows(1) by (rule list_all2_mono) (auto dest: done_with_tries split: if_splits)
  show ?case
  proof (cases "all_tries m s = 0")
    case True
    then have "all_tries m s2 = 0"
      using sum_list_le [OF le] by (simp only: all_tries_def)
    then show ?thesis using IH by (auto simp: rd dd)
  next
    case False
    then obtain r where r: "r \<in> set (tb_outbox s)" "waiting r" by (auto simp: all_tries_0)
    then have "deliverable (e_now e) r" using Cons.prems(4) now(1)
      by (auto simp: rested_def deliverable_def waiting_def)
    then obtain event where "event \<in> set events" using rows(5) w(4) r(1) by (cases events) auto
    then have "ob_id event \<in> ob_id ` set (tb_outbox s)" using rows(3) by blast
    then obtain q where "q \<in> set (tb_outbox s)" "ob_id q = ob_id event" by auto
    then obtain k where "k < length (tb_outbox s)" "ob_id (tb_outbox s ! k) = ob_id event"
      by (auto simp: in_set_conv_nth)
    then have k: "k < length (tb_outbox s)" "ob_id (tb_outbox s ! k) \<in> ob_id ` set events"
      using \<open>event \<in> set events\<close> by simp_all
    then have "tries_left m (tb_outbox s2 ! k) < tries_left m (tb_outbox s ! k)"
      using list_all2_nthD [OF rows(1) k(1)] done_with_tries by (metis Suc_le_eq)
    then have "all_tries m s2 < all_tries m s"
      unfolding all_tries_def by (intro sum_list_less [OF le]) (use k(1) in auto)
    then show ?thesis using IH by (auto simp: rd dd)
  qed
qed simp

section \<open>Properties\<close>

definition sample_event :: "string \<Rightarrow> string \<Rightarrow> int \<Rightarrow> outbox_row" where
  "sample_event i eventType n = \<lparr>ob_id = i, ob_tenantId = ''t1'', ob_aggregateType = ''order'', ob_aggregateId = ''o1'',
     ob_eventType = eventType, ob_payload = JNull, ob_sequence = n, ob_availableAt = 0, ob_publishedAt = None,
     ob_attempts = 0, ob_claimedBy = None, ob_leasedUntil = None, ob_lastError = None, ob_deadLetterAt = None\<rparr>"

definition sample_outbox :: db where
  "sample_outbox = empty_db\<lparr>tb_outbox := [sample_event ''e1'' ''order.created'' 1, sample_event ''e2'' ''order.lost'' 2]\<rparr>"

definition sample_messages :: db where
  "sample_messages = empty_db\<lparr>tb_outbox := [sample_event ''e1'' ''order.whatsapp_ready'' 1]\<rparr>"

definition sample_worker :: "string \<Rightarrow> dispatcher" where
  "sample_worker i = \<lparr>dp_workerId = i, dp_batchSize = 1, dp_leaseMs = 30000, dp_maxAttempts = 2,
     dp_consumers = (\<lambda>ty. if ty = ''order.created'' then Some (\<lambda>event s. (None, s)) else None),
     dp_random = (\<lambda>_. 0)\<rparr>"

definition maintenance_env :: env where
  "maintenance_env = sample_env\<lparr>e_role := KomandaMigration\<rparr>"

definition sample_round :: "int \<Rightarrow> round" where
  "sample_round now = (maintenance_env\<lparr>e_now := now\<rparr>, \<lambda>_. maintenance_env\<lparr>e_now := now + 1000\<rparr>, sample_worker ''w1'')"

text \<open>
  C14. An event has one worker at a time: once a dispatcher or a job of messages has been handed an
  event, no claim of any of them is handed it while the lease runs, however their claims,
  publications and failures interleave, unless the worker itself has marked it.
\<close>

theorem leased_to_one_worker:
  assumes "run_op op s = (given, s1)" and "i \<in> set given"
    and "\<forall>op' \<in> set ops. op_now op' \<le> op_until op \<and> \<not> settles (op_worker op) i op'"
  shows "i \<notin> set (handed ops s1)"
  using leased_ops [OF event_leased_claimed [OF assms(1,2)] assms(3)] .

definition sample_claims :: "delivery_op list" where
  "sample_claims = [OpClaim (maintenance_env\<lparr>e_now := e_now sample_env + 30000\<rparr>) (sample_worker ''w2''),
     OpPublishMessage sample_env ''w3'' (sample_event ''e1'' ''order.whatsapp_ready'' 1),
     OpClaimMessage (sample_env\<lparr>e_now := e_now sample_env + 60000\<rparr>) ''w3'' ''order.whatsapp_ready'' ''t1'']"

theorem leased_to_one_worker_witness:
  "(case run_op (OpClaimMessage sample_env ''w1'' ''order.whatsapp_ready'' ''t1'') sample_messages of
      (given, s1) \<Rightarrow> given = [''e1''] \<and> ''e1'' \<notin> set (handed sample_claims s1))"
proof -
  let ?op = "OpClaimMessage sample_env ''w1'' ''order.whatsapp_ready'' ''t1''"
  obtain given s1 where c: "run_op ?op sample_messages = (given, s1)"
    by (cases "run_op ?op sample_messages")
  then have g: "given = [''e1'']"
    by (auto simp: claimWhatsApp_def Let_def sample_messages_def sample_event_def sample_env_def
        deliverable_def sort_by_def sequence_le_def leaseEvent_def split: list.splits)
  have ops: "\<forall>op' \<in> set sample_claims. op_now op' \<le> op_until ?op \<and> \<not> settles (op_worker ?op) ''e1'' op'"
    by (simp add: sample_claims_def settles_def)
  have "''e1'' \<notin> set (handed sample_claims s1)"
    by (rule leased_to_one_worker [OF c _ ops]) (simp add: g)
  then show ?thesis by (simp add: c g del: run_op.simps)
qed



text \<open>The messages of a job, counted and judged one by one.\<close>

lemma job_tenant_messages:
  assumes "\<And>s ev s'. claimed s = (ev, s') \<Longrightarrow> I s \<Longrightarrow> I s'"
    and "\<And>ev acc s acc' s'. deliver ev acc s = (acc', s') \<Longrightarrow> I s \<Longrightarrow>
      I s' \<and> set (jr_messages acc') \<subseteq> set (jr_messages acc) \<union> M \<and> length (jr_messages acc') \<le> Suc (length (jr_messages acc))"
    and "job_tenant claimed deliver n acc s = (left, acc', s')" "I s"
  shows "I s' \<and> set (jr_messages acc') \<subseteq> set (jr_messages acc) \<union> M
    \<and> length (jr_messages acc') + left \<le> length (jr_messages acc) + n"
  using assms(3,4)
proof (induction n arbitrary: acc s)
  case (Suc n)
  obtain ev s1 where c: "claimed s = (ev, s1)" by (cases "claimed s")
  have i: "I s1" using assms(1) [OF c Suc.prems(2)] .
  show ?case
  proof (cases ev)
    case None
    then show ?thesis using Suc.prems(1) c i by auto
  next
    case (Some event)
    obtain acc1 s2 where d: "deliver event acc s1 = (acc1, s2)" by (cases "deliver event acc s1")
    from assms(2) [OF d i] Suc.IH [of acc1 s2] show ?thesis
      using Suc.prems(1) by (auto simp: c Some d)
  qed
qed auto

lemma job_tenants_messages:
  assumes "\<And>tid s ev s'. claimed tid s = (ev, s') \<Longrightarrow> I s \<Longrightarrow> I s'"
    and "\<And>tid ev acc s acc' s'. deliver tid ev acc s = (acc', s') \<Longrightarrow> I s \<Longrightarrow>
      I s' \<and> set (jr_messages acc') \<subseteq> set (jr_messages acc) \<union> M \<and> length (jr_messages acc') \<le> Suc (length (jr_messages acc))"
    and "job_tenants claimed deliver tids n acc s = (acc', s')" "I s"
  shows "set (jr_messages acc') \<subseteq> set (jr_messages acc) \<union> M \<and> length (jr_messages acc') \<le> length (jr_messages acc) + n"
  using assms(3,4)
proof (induction tids arbitrary: n acc s)
  case (Cons tid tids)
  obtain left acc1 s1 where j: "job_tenant (claimed tid) (deliver tid) n acc s = (left, acc1, s1)"
    by (cases "job_tenant (claimed tid) (deliver tid) n acc s")
  have one: "I s1 \<and> set (jr_messages acc1) \<subseteq> set (jr_messages acc) \<union> M
      \<and> length (jr_messages acc1) + left \<le> length (jr_messages acc) + n"
    by (rule job_tenant_messages [where claimed = "claimed tid" and deliver = "deliver tid" and I = I, OF _ _ j Cons.prems(2)]) (use assms(1,2) in blast)+
  show ?case
  proof (cases "left = 0")
    case True
    then show ?thesis using one Cons.prems(1) by (auto simp: j)
  next
    case False
    then have "job_tenants claimed deliver tids left acc1 s1 = (acc', s')" using Cons.prems(1) by (simp add: j)
    from Cons.IH [OF this] one show ?thesis by auto
  qed
qed simp

definition consents :: "order_row \<Rightarrow> string \<Rightarrow> bool" where
  "consents order phone \<longleftrightarrow> customer_flag (o_customerSnapshot order) ''whatsappReadyOptIn''
     \<and> normalizeWhatsAppRecipient (customer_text (o_customerSnapshot order) ''phone'') = Some phone"

lemma readyMessage_consents:
  "readyMessage tid event s = Some (phone, number) \<Longrightarrow> \<exists>order \<in> set (tb_orders s).
     consents order phone \<and> o_paymentStatus order = Paid \<and> o_fulfillmentStatus order \<noteq> Cancelled
     \<and> number = js_str (o_purchaseNumber order)"
  by (auto simp: readyMessage_def readyRecipient_def consents_def Let_def dest!: sel1_Some_in split: option.splits if_splits)

lemma job_orders:
  "claimWhatsApp e w ty tid s = (ev, s') \<Longrightarrow> tb_orders s' = tb_orders s"
  "tb_orders (publishWhatsApp e w event s) = tb_orders s" "tb_orders (failWhatsApp e w event s) = tb_orders s"
  by (auto simp: claimWhatsApp_def publishWhatsApp_def failWhatsApp_def Let_def split: list.splits)

text \<open>
  C20. The message that an order is ready goes only to customers that agreed to it: each message sent is
  for a paid order that is not cancelled, to the normalised phone of a customer that opted in, and
  was accepted by the provider; and one run of the job sends at most a hundred messages.
\<close>

theorem ready_messages_consented:
  "let messages = jr_messages (fst (dispatchReadyWhatsApp e send batchSize s)) in
     length messages \<le> 100 \<and> (\<forall>(phone, number) \<in> set messages. send (phone, number) \<and> (\<exists>order \<in> set (tb_orders s).
       consents order phone \<and> o_paymentStatus order = Paid \<and> o_fulfillmentStatus order \<noteq> Cancelled
       \<and> number = js_str (o_purchaseNumber order)))"
proof -
  let ?M = "{(phone, number). send (phone, number) \<and> (\<exists>order \<in> set (tb_orders s).
       consents order phone \<and> o_paymentStatus order = Paid \<and> o_fulfillmentStatus order \<noteq> Cancelled
       \<and> number = js_str (o_purchaseNumber order))}"
  let ?worker = "''whatsapp-'' @ fresh_id e s"
  obtain res s' where d: "dispatchReadyWhatsApp e send batchSize s = (res, s')"
    by (cases "dispatchReadyWhatsApp e send batchSize s")
  have step: "tb_orders s2 = tb_orders s \<and> set (jr_messages acc2) \<subseteq> set (jr_messages acc) \<union> ?M
      \<and> length (jr_messages acc2) \<le> Suc (length (jr_messages acc))"
    if "deliverReady e send ?worker tid ev acc s1 = (acc2, s2)" "tb_orders s1 = tb_orders s" for tid ev acc s1 acc2 s2
    using that readyMessage_consents [of tid ev s1]
    by (cases "readyMessage tid ev s1") (auto simp: deliverReady_def job_orders split: if_splits)
  have "set (jr_messages res) \<subseteq> set [] \<union> ?M \<and> length (jr_messages res) \<le> length ([] :: (string \<times> string) list) + clampBatch batchSize"
    using job_tenants_messages [of "claimWhatsApp e ?worker ''order.whatsapp_ready''" "\<lambda>x. tb_orders x = tb_orders s"
        "deliverReady e send ?worker" ?M "map t_id (tb_tenants s)" "clampBatch batchSize"
        "\<lparr>jr_sent = 0, jr_skipped = 0, jr_failed = 0, jr_messages = []\<rparr>" "s\<lparr>uuid_next := Suc (uuid_next s)\<rparr>" res s']
      step d by (simp add: dispatchReadyWhatsApp_def Let_def job_orders)
  moreover have "clampBatch batchSize \<le> 100" by (simp add: clampBatch_def)
  ultimately show ?thesis by (auto simp: d Let_def)
qed

definition sample_ready :: db where
  "sample_ready = sample_store\<lparr>
     tb_orders := [(sample_order_row MercadopagoWebhook Paid)\<lparr>o_fulfillmentStatus := Ready,
       o_customerSnapshot := JObj [(''phone'', JStr ''11 2233-4455''), (''whatsappReadyOptIn'', JBool True)]\<rparr>],
     tb_outbox := [(sample_event ''e1'' ''order.whatsapp_ready'' 1)\<lparr>ob_aggregateId := fresh_id sample_env empty_db\<rparr>]\<rparr>"

lemma sample_ready_sent:
  "jr_messages (fst (dispatchReadyWhatsApp sample_env (\<lambda>_. True) 25 sample_ready)) = [(''5491122334455'', ''1'')]"
  by code_simp

theorem ready_messages_consented_witness:
  "\<exists>order \<in> set (tb_orders sample_ready). consents order ''5491122334455'' \<and> o_paymentStatus order = Paid"
proof -
  have "(''5491122334455'', ''1'') \<in> set (jr_messages (fst (dispatchReadyWhatsApp sample_env (\<lambda>_. True) 25 sample_ready)))"
    by (simp add: sample_ready_sent)
  with ready_messages_consented [of sample_env "\<lambda>_. True" 25 sample_ready] show ?thesis
    unfolding Let_def by fastforce
qed

end
