(* ===== verification/Payments.thy ===== *)
theory Payments
  imports Shop
begin

text \<open>
  Paying through Mercado Pago: \<open>src/features/payments/infrastructure/integration.repository.ts\<close> and
  \<open>src/features/payments/application/payment-session.service.ts\<close>.

  \<^item> \<open>provider\<close> is the world outside: opening the sealed tokens of an account, creating a checkout
    preference and looking a payment up. A price in a preference is a number with two decimals,
    kept in cents. Addresses (\<open>new URL\<close>) are kept as the parts they are built from.
  \<^item> A session is made in three transactions: the attempt is recorded, the provider is asked outside
    of any transaction, and then its answer is attached, or the claim of the request released.
  \<^item> The lemmas: what the items of a preference add up to. The session itself is in \<open>PaymentSession\<close>.
\<close>

section \<open>The provider\<close>

record mp_tokens =
  tk_accessToken :: string
  tk_expiresIn :: int
  tk_userId :: string
  tk_scopes :: "string list"

record preference_item =
  it_id :: string
  it_title :: string
  it_description :: "string option"
  it_pictureUrl :: "string option"
  it_quantity :: int
  it_currencyId :: string
  it_unitPrice :: int

record preference_request =
  pq_accessToken :: string
  pq_externalReference :: string
  pq_routingKey :: string
  pq_baseUrl :: string
  pq_expirationDateTo :: int
  pq_payerName :: string
  pq_payerSurname :: string
  pq_payerEmail :: string
  pq_payerPhone :: "string option"
  pq_metadata :: json
  pq_items :: "preference_item list"

record preference =
  pf_preferenceId :: string
  pf_redirectUrl :: string
  pf_sandboxRedirectUrl :: "string option"

datatype mp_amount = AmountNumber rat | AmountText string

record mp_fee =
  fee_type :: string
  fee_amount :: mp_amount
  fee_payer :: "string option"

record mp_payment =
  mpp_id :: string
  mpp_status :: "string option"
  mpp_preferenceId :: "string option"
  mpp_metadata :: "(string \<times> json) list"
  mpp_dateApproved :: "string option"
  mpp_transactionAmount :: "mp_amount option"
  mpp_netReceivedAmount :: "mp_amount option"
  mpp_feeDetails :: "mp_fee list"
  mpp_taxesAmount :: "mp_amount option"
  mpp_taxes :: "mp_fee list"
  mpp_moneyReleaseDate :: "string option"
  mpp_moneyReleaseStatus :: "string option"
  mpp_dateReleased :: "string option"

record provider =
  pvd_seal :: "mp_tokens \<Rightarrow> string"
  pvd_keyVersion :: int
  pvd_open :: "string \<Rightarrow> string option"
  pvd_preference :: "preference_request \<Rightarrow> app_error + preference"
  pvd_payment :: "string \<Rightarrow> string \<Rightarrow> app_error + mp_payment"

section \<open>The repository\<close>

definition entitled :: "(entitlements \<Rightarrow> bool) \<Rightarrow> string \<Rightarrow> db \<Rightarrow> bool" where
  "entitled feature tid s =
     (case sel1 (\<lambda>r. en_tenantId r = tid \<and> en_supersededAt r = None) (tb_entitlements s) of
        None \<Rightarrow> False | Some r \<Rightarrow> feature (en_entitlements r))"

definition currentMercadoPago :: "string \<Rightarrow> db \<Rightarrow> integration_row option" where
  "currentMercadoPago tid s = sel1 (\<lambda>r. ia_tenantId r = tid) (tb_integrations s)"

definition decryptTokens :: "provider \<Rightarrow> integration_row \<Rightarrow> app_error + string" where
  "decryptTokens mp account =
     (if pvd_keyVersion mp \<noteq> ia_keyVersion account then Inl InternalError
      else opt_or InternalError (pvd_open mp (ia_envelope account)))"

definition savedSet :: "env \<Rightarrow> provider \<Rightarrow> mp_tokens \<Rightarrow> integration_row \<Rightarrow> integration_row" where
  "savedSet e mp tokens r =
     r\<lparr>ia_providerAccountId := tk_userId tokens, ia_status := IaActive, ia_envelope := pvd_seal mp tokens,
       ia_keyVersion := pvd_keyVersion mp, ia_scopes := tk_scopes tokens,
       ia_expiresAt := Some (e_now e + tk_expiresIn tokens * 1000), ia_lastVerifiedAt := Some (e_now e),
       ia_version := ia_version r + 1, ia_updatedAt := e_now e\<rparr>"

text \<open>A unique key that is hit: another store's seller account, or another conflict.\<close>

definition link_violation :: "integration_row \<Rightarrow> integration_row list \<Rightarrow> app_error" where
  "link_violation row rows =
     (if list_ex (\<lambda>q. integration_live row \<and> integration_live q \<and> ia_providerAccountId row = ia_providerAccountId q) rows
      then PaymentError AccountAlreadyLinked else PaymentError IntegrationConflict)"

definition saveMercadoPago ::
  "env \<Rightarrow> provider \<Rightarrow> string \<Rightarrow> mp_tokens \<Rightarrow> db \<Rightarrow> app_error + integration_row \<times> db" where
  "saveMercadoPago e mp tid tokens s =
     (case currentMercadoPago tid s of
        Some existing \<Rightarrow>
          (let row = savedSet e mp tokens existing;
               rest = filter (\<lambda>q. ia_id q \<noteq> ia_id existing) (tb_integrations s)
           in if \<not> integration_check row then Inl (DbError CheckViolation)
              else if list_ex (integration_clash row) rest then Inl (link_violation row rest)
              else Inr (row, s\<lparr>tb_integrations := upd (\<lambda>r. ia_id r = ia_id existing) (savedSet e mp tokens) (tb_integrations s)\<rparr>))
      | None \<Rightarrow>
          (let row = \<lparr>ia_id = fresh_id e s, ia_tenantId = tid, ia_providerAccountId = tk_userId tokens, ia_status = IaActive,
                 ia_envelope = pvd_seal mp tokens, ia_keyVersion = pvd_keyVersion mp, ia_scopes = tk_scopes tokens,
                 ia_expiresAt = Some (e_now e + tk_expiresIn tokens * 1000), ia_lastVerifiedAt = Some (e_now e),
                 ia_webhookRoutingKey = e_uuid e (Suc (uuid_next s)), ia_version = 1, ia_updatedAt = e_now e\<rparr>
           in if \<not> integration_check row then Inl (DbError CheckViolation)
              else if list_ex (integration_clash row) (tb_integrations s) then Inl (link_violation row (tb_integrations s))
              else Inr (row, s\<lparr>tb_integrations := tb_integrations s @ [row], uuid_next := Suc (Suc (uuid_next s))\<rparr>)))"

definition revokeMercadoPago :: "env \<Rightarrow> string \<Rightarrow> int \<Rightarrow> db \<Rightarrow> integration_row option \<times> db" where
  "revokeMercadoPago e tid version s =
     (let here = (\<lambda>r. ia_tenantId r = tid \<and> ia_version r = version);
          revoked = (\<lambda>r. r\<lparr>ia_status := IaRevoked, ia_version := ia_version r + 1, ia_updatedAt := e_now e\<rparr>)
      in (upd_ret here revoked (tb_integrations s), s\<lparr>tb_integrations := upd here revoked (tb_integrations s)\<rparr>))"

definition attempt_active :: "payment_attempt_row \<Rightarrow> bool" where
  "attempt_active r \<longleftrightarrow> pa_status r = PaInitiated \<or> pa_status r = PaProcessing \<or> pa_status r = PaPending
     \<or> pa_status r = PaVerificationRequired"

definition findActiveByCartId :: "string \<Rightarrow> string \<Rightarrow> db \<Rightarrow> payment_attempt_row option" where
  "findActiveByCartId tid cartId s =
     sel1 (\<lambda>r. pa_tenantId r = tid \<and> pa_cartId r = cartId \<and> attempt_active r) (tb_attempts s)"

record new_attempt =
  na_cartId :: string
  na_integrationAccountId :: string
  na_amount :: int
  na_currency :: string
  na_customer :: json
  na_notes :: "string option"
  na_scheduledFor :: "int option"
  na_idempotencyKey :: string

definition attemptRow :: "env \<Rightarrow> string \<Rightarrow> new_attempt \<Rightarrow> db \<Rightarrow> payment_attempt_row" where
  "attemptRow e tid inp s =
     \<lparr>pa_id = fresh_id e s, pa_tenantId = tid, pa_cartId = na_cartId inp,
      pa_integrationAccountId = na_integrationAccountId inp, pa_providerPreferenceId = None,
      pa_providerPaymentId = None, pa_status = PaInitiated, pa_amount = na_amount inp, pa_currency = na_currency inp,
      pa_customerSnapshot = na_customer inp, pa_notes = na_notes inp, pa_scheduledFor = na_scheduledFor inp,
      pa_idempotencyKey = na_idempotencyKey inp, pa_processedAt = None, pa_failureCode = None,
      pa_createdAt = e_now e, pa_updatedAt = e_now e\<rparr>"

definition createPaymentAttempt ::
  "env \<Rightarrow> string \<Rightarrow> new_attempt \<Rightarrow> db \<Rightarrow> app_error + payment_attempt_row \<times> db" where
  "createPaymentAttempt e tid inp s =
     (let row = attemptRow e tid inp s in
      if \<not> payment_attempt_check row then Inl (DbError CheckViolation)
      else if \<not> list_ex (payment_attempt_clash row) (tb_attempts s)
      then Inr (row, s\<lparr>tb_attempts := tb_attempts s @ [row], uuid_next := Suc (uuid_next s)\<rparr>)
      else (case sel1 (\<lambda>r. pa_tenantId r = tid \<and> pa_idempotencyKey r = na_idempotencyKey inp) (tb_attempts s) of
              None \<Rightarrow> Inl InternalError
            | Some existing \<Rightarrow>
                if pa_cartId existing \<noteq> na_cartId inp then Inl (PaymentError AttemptConflict) else Inr (existing, s)))"

text \<open>\<open>on conflict do nothing\<close>: the key of a route is its type and the provider's id, whatever the store.\<close>

definition insertRoute :: "provider_route_row \<Rightarrow> db \<Rightarrow> db" where
  "insertRoute row s =
     (if list_ex (provider_route_clash row) (tb_routes s) then s else s\<lparr>tb_routes := tb_routes s @ [row]\<rparr>)"

definition own_attempt :: "string \<Rightarrow> string \<Rightarrow> string \<Rightarrow> payment_attempt_row \<Rightarrow> bool" where
  "own_attempt tid accountId attemptId r \<longleftrightarrow>
     pa_tenantId r = tid \<and> pa_id r = attemptId \<and> pa_integrationAccountId r = accountId"

definition attachPreference :: "string \<Rightarrow> string \<Rightarrow> string \<Rightarrow> string \<Rightarrow> db \<Rightarrow> app_error + db" where
  "attachPreference tid attemptId accountId preferenceId s =
     (let here = own_attempt tid accountId attemptId in
      if \<not> list_ex here (tb_attempts s) then Inl (PaymentError AttemptConflict)
      else Inr (insertRoute \<lparr>pv_resourceType = RoutePreference, pv_externalId = preferenceId, pv_tenantId = tid,
             pv_integrationAccountId = accountId, pv_localResourceId = attemptId\<rparr>
           (s\<lparr>tb_attempts := upd here (\<lambda>r. r\<lparr>pa_providerPreferenceId := Some preferenceId, pa_status := PaProcessing\<rparr>)
                (tb_attempts s)\<rparr>)))"

section \<open>The items of a preference\<close>

definition lineResourceId :: "cart_line_row \<Rightarrow> string" where
  "lineResourceId l = (case cl_itemId l of Some i \<Rightarrow> i | None \<Rightarrow> (case cl_comboId l of Some c \<Rightarrow> c | None \<Rightarrow> cl_id l))"

definition preferenceItem :: "string \<Rightarrow> cart_line_row \<Rightarrow> int \<Rightarrow> int \<Rightarrow> preference_item" where
  "preferenceItem currency l quantity priceCents =
     \<lparr>it_id = lineResourceId l, it_title = cl_nameSnapshot l, it_description = cl_note l,
      it_pictureUrl = cl_imageUrlSnapshot l, it_quantity = quantity, it_currencyId = currency,
      it_unitPrice = to_fixed2 (number_of_cents priceCents)\<rparr>"

definition line_cents :: "cart_line_row \<Rightarrow> int" where
  "line_cents l = cents (centsToMoney (cl_lineTotal l))"

fun proratedLines :: "int \<Rightarrow> int \<Rightarrow> int \<Rightarrow> cart_line_row list \<Rightarrow> (cart_line_row \<times> int) list" where
  "proratedLines applicable discountTotal allocated [] = []"
| "proratedLines applicable discountTotal allocated (line # rest) =
     (let isLast = (rest = []);
          share = (if isLast then discountTotal - allocated
                   else math_round (fl (fl (of_int (line_cents line) / of_int (if applicable = 0 then 1 else applicable))
                          * of_int discountTotal)));
          lineDiscountCents = min (line_cents line) (max 0 share)
      in (line, line_cents line - lineDiscountCents)
         # proratedLines applicable discountTotal (allocated + lineDiscountCents) rest)"

definition unitItems :: "string \<Rightarrow> cart_line_row \<times> int \<Rightarrow> preference_item list" where
  "unitItems currency = (\<lambda>(line, discountedLineTotalCents).
     (let qty = cl_quantity line in
      if qty = 1 then [preferenceItem currency line 1 discountedLineTotalCents]
      else (let baseUnitCents = discountedLineTotalCents div qty;
                remainderCents = js_rem discountedLineTotalCents qty
            in map (\<lambda>q. preferenceItem currency line 1 (baseUnitCents + (if int q < remainderCents then 1 else 0)))
                 [0..<nat qty])))"

definition buildMercadoPagoPreferenceItems :: "stored_cart \<Rightarrow> preference_item list" where
  "buildMercadoPagoPreferenceItems cart =
     (let row = sc_cart cart; lines = map fst (sc_lines cart);
          discountTotalCents = (if 0 < c_discountTotal row then cents (centsToMoney (c_discountTotal row)) else 0)
      in if discountTotalCents \<le> 0
         then map (\<lambda>l. preferenceItem (c_currency row) l (cl_quantity l) (cl_unitPriceSnapshot l)) lines
         else concat (map (unitItems (c_currency row))
                (proratedLines (\<Sum>l\<leftarrow>lines. line_cents l) discountTotalCents 0 lines)))"

section \<open>The preference\<close>

record session_customer =
  sk_name :: string
  sk_email :: "string option"
  sk_phone :: "string option"
  sk_whatsappReadyOptIn :: "bool option"

record session_request =
  sq_customer :: session_customer
  sq_notes :: "string option"
  sq_scheduledFor :: "string option option"
  sq_cartVersion :: "int option"

fun name_words :: "string \<Rightarrow> string \<Rightarrow> string list" where
  "name_words w [] = (if w = [] then [] else [rev w])"
| "name_words w (c # cs) =
     (if js_space c then (if w = [] then name_words [] cs else rev w # name_words [] cs) else name_words (c # w) cs)"

definition splitCustomerName :: "string \<Rightarrow> string \<times> string" where
  "splitCustomerName name = (case name_words [] name of [] \<Rightarrow> ([], []) | w # ws \<Rightarrow> (w, join_with '' '' ws))"

definition fallbackPayerEmail :: "string \<Rightarrow> string" where
  "fallbackPayerEmail attemptId = ''checkout+'' @ attemptId @ ''@example.com''"

definition createPreference ::
  "provider \<Rightarrow> string \<Rightarrow> string \<Rightarrow> string \<Rightarrow> stored_cart \<Rightarrow> session_customer \<Rightarrow> string option \<Rightarrow> string
     \<Rightarrow> app_error + preference" where
  "createPreference mp accessToken attemptId routingKey cart customer notes baseUrl =
     (let (firstName, lastName) = splitCustomerName (sk_name customer); row = sc_cart cart in
      pvd_preference mp
        \<lparr>pq_accessToken = accessToken, pq_externalReference = c_id row, pq_routingKey = routingKey, pq_baseUrl = baseUrl,
         pq_expirationDateTo = c_expiresAt row, pq_payerName = firstName, pq_payerSurname = lastName,
         pq_payerEmail = orElse (sk_email customer) (fallbackPayerEmail attemptId),
         pq_payerPhone = (if nonempty (sk_phone customer) then map_option digits_only (sk_phone customer) else None),
         pq_metadata = JObj [(''paymentAttemptId'', JStr attemptId), (''cartId'', JStr (c_id row)),
           (''notes'', case notes of None \<Rightarrow> JNull | Some t \<Rightarrow> JStr t), (''customerName'', JStr (sk_name customer)),
           (''discountCode'', case c_discountMetadata row of None \<Rightarrow> JNull | Some m \<Rightarrow> JStr (dm_code m)),
           (''discountAmount'', JStr (centsToMoney (c_discountTotal row)))],
         pq_items = buildMercadoPagoPreferenceItems cart\<rparr>)"

section \<open>What the items add up to\<close>

definition asked :: "preference_item list \<Rightarrow> int" where
  "asked items = (\<Sum>i\<leftarrow>items. it_quantity i * it_unitPrice i)"

lemma asked_concat: "asked (concat xss) = (\<Sum>xs\<leftarrow>xss. asked xs)"
  by (induction xss) (simp_all add: asked_def)

lemma first_units: "0 \<le> r \<Longrightarrow> (\<Sum>k\<leftarrow>[0..<n]. if int k < r then 1 else 0) = min (int n) r"
  by (induction n) auto

lemma spread_units:
  assumes "0 < q"
  shows "(\<Sum>k\<leftarrow>[0..<nat q]. t div q + (if int k < t mod q then 1 else 0)) = t"
proof -
  have "(\<Sum>k\<leftarrow>[0..<nat q]. t div q + (if int k < t mod q then 1 else 0))
      = q * (t div q) + (\<Sum>k\<leftarrow>[0..<nat q]. if int k < t mod q then 1 else 0)"
    using assms by (simp add: sum_list_addf sum_list_triv)
  also have "\<dots> = q * (t div q) + t mod q" using assms by (simp add: first_units)
  finally show ?thesis by simp
qed

lemma item_simps [simp]:
  "it_quantity (preferenceItem currency l q c) = q"
  "\<bar>c\<bar> < 2 ^ 50 \<Longrightarrow> it_unitPrice (preferenceItem currency l q c) = c"
  by (simp_all add: preferenceItem_def to_fixed2_number)

lemma asked_unitItems:
  assumes "0 < cl_quantity l" "0 \<le> t" "t < 2 ^ 50 - 1"
  shows "asked (unitItems currency (l, t)) = t"
proof (cases "cl_quantity l = 1")
  case True
  then show ?thesis using assms by (simp add: unitItems_def asked_def)
next
  case False
  let ?q = "cl_quantity l"
  have "0 \<le> t div ?q" "t div ?q \<le> t" using assms zdiv_mono2 [of t 1 ?q] by (simp_all add: pos_imp_zdiv_nonneg_iff)
  then have price: "it_unitPrice (preferenceItem currency l 1 (t div ?q + (if int k < t mod ?q then 1 else 0)))
      = t div ?q + (if int k < t mod ?q then 1 else 0)" for k
    using assms by (intro item_simps) auto
  have "asked (unitItems currency (l, t)) = (\<Sum>k\<leftarrow>[0..<nat ?q]. t div ?q + (if int k < t mod ?q then 1 else 0))"
    using False assms by (simp add: unitItems_def asked_def Let_def o_def js_rem_def price)
  then show ?thesis using spread_units assms by simp
qed

text \<open>The lines are discounted as the discount rules do it.\<close>

lemma proratedLines_loop:
  assumes "a \<noteq> 0"
  shows "map snd (proratedLines a d al ls) = map ld_discountedLineTotalCents (prorate_loop a d al (map stored_line ls))"
    "map fst (proratedLines a d al ls) = ls"
  using assms
  by (induction ls arbitrary: al) (simp_all add: Let_def line_share_def line_cents_def stored_line_def)

lemma prorate_complement:
  "lines_nonneg ls \<Longrightarrow> (\<Sum>x\<leftarrow>prorate_loop a d al ls. ld_discountedLineTotalCents x) = totals ls - shares (prorate_loop a d al ls)"
  by (induction ls arbitrary: al) (simp_all add: Let_def)

lemma in_sum_le: "\<forall>y \<in> set xs. (0::int) \<le> f y \<Longrightarrow> x \<in> set xs \<Longrightarrow> f x \<le> (\<Sum>y\<leftarrow>xs. f y)"
proof (induction xs)
  case (Cons y ys)
  have "0 \<le> (\<Sum>y\<leftarrow>ys. f y)" using Cons.prems by (intro sum_list_nonneg) auto
  then show ?case using Cons by auto
qed simp

lemma cart_lines_priced:
  assumes "carts_ok s" "findCart tid cid s = Some cart" "l \<in> set (map fst (sc_lines cart))"
  shows "0 < cl_quantity l" "0 \<le> cl_unitPriceSnapshot l" "cl_lineTotal l = cl_unitPriceSnapshot l * cl_quantity l"
    "0 \<le> cl_lineTotal l" "cl_lineTotal l \<le> c_subtotal (sc_cart cart)" "cl_unitPriceSnapshot l \<le> cl_lineTotal l"
proof -
  have all: "\<forall>k \<in> set (map fst (sc_lines cart)). line_priced k" and sum: "(\<Sum>k\<leftarrow>map fst (sc_lines cart). cl_lineTotal k) = c_subtotal (sc_cart cart)"
    using found_cart [OF assms(1,2)] by (auto simp: list_all_iff o_def case_prod_unfold)
  then show "0 < cl_quantity l" "0 \<le> cl_unitPriceSnapshot l" "cl_lineTotal l = cl_unitPriceSnapshot l * cl_quantity l" "0 \<le> cl_lineTotal l"
    using assms(3) by (auto simp: line_priced_def cart_line_check_def)
  then show "cl_unitPriceSnapshot l \<le> cl_lineTotal l" by (simp add: mult_le_cancel_left1)
  show "cl_lineTotal l \<le> c_subtotal (sc_cart cart)"
    unfolding sum [symmetric] using all by (intro in_sum_le assms(3)) (auto simp: line_priced_def cart_line_check_def)
qed

lemma asked_without_coupon:
  assumes ok: "carts_ok s" "findCart tid cid s = Some cart" "c_discountTotal (sc_cart cart) = 0"
    and num: "numeric12_2 (c_subtotal (sc_cart cart))"
  shows "asked (buildMercadoPagoPreferenceItems cart) = c_total (sc_cart cart)"
proof -
  note l = cart_lines_priced [OF ok(1,2)]
  have each: "it_quantity (preferenceItem c k (cl_quantity k) (cl_unitPriceSnapshot k))
      * it_unitPrice (preferenceItem c k (cl_quantity k) (cl_unitPriceSnapshot k)) = cl_lineTotal k"
    if k: "k \<in> set (map fst (sc_lines cart))" for k c
  proof -
    have "\<bar>cl_unitPriceSnapshot k\<bar> < 2 ^ 50" using l [OF k] num by (simp add: numeric12_2_def)
    then show ?thesis using l(3) [OF k] by (simp add: mult.commute)
  qed
  have "buildMercadoPagoPreferenceItems cart
      = map (\<lambda>k. preferenceItem (c_currency (sc_cart cart)) k (cl_quantity k) (cl_unitPriceSnapshot k)) (map fst (sc_lines cart))"
    by (simp only: buildMercadoPagoPreferenceItems_def Let_def ok(3) less_irrefl if_False order_refl if_True)
  then have "asked (buildMercadoPagoPreferenceItems cart) = (\<Sum>k\<leftarrow>map fst (sc_lines cart). cl_lineTotal k)"
    by (simp only: asked_def map_map o_def) (rule arg_cong [of _ _ sum_list], rule map_cong [OF refl], use each in auto)
  also have "\<dots> = c_total (sc_cart cart)"
    using found_cart [OF ok(1,2)] ok(3) by (simp add: discounted_def o_def case_prod_unfold)
  finally show ?thesis .
qed

lemma asked_with_coupon:
  assumes ok: "carts_ok s" "findCart tid cid s = Some cart" and d: "0 < c_discountTotal (sc_cart cart)"
    and num: "numeric12_2 (c_subtotal (sc_cart cart))"
  shows "asked (buildMercadoPagoPreferenceItems cart) = c_subtotal (sc_cart cart)
    - shares (prorate_loop (c_subtotal (sc_cart cart)) (c_discountTotal (sc_cart cart)) 0 (cart_discount_lines cart))"
proof -
  let ?S = "c_subtotal (sc_cart cart)" and ?d = "c_discountTotal (sc_cart cart)" and ?lines = "map fst (sc_lines cart)"
  note l = cart_lines_priced [OF ok] and found = found_lines [OF ok]
  have ls: "cart_discount_lines cart = map stored_line ?lines"
    by (simp add: cart_discount_lines_def o_def case_prod_unfold)
  have lc: "line_cents k = cl_lineTotal k" if "k \<in> set ?lines" for k
    using l(4) [OF that] by (simp add: line_cents_def)
  have S: "(\<Sum>k\<leftarrow>?lines. line_cents k) = ?S" "0 < ?S"
  proof -
    have "(\<Sum>k\<leftarrow>?lines. line_cents k) = totals (cart_discount_lines cart)"
      by (simp add: ls o_def stored_line_def line_cents_def)
    then show "(\<Sum>k\<leftarrow>?lines. line_cents k) = ?S" using found(5) by simp
    show "0 < ?S" using found_cart(2) [OF ok] d by (simp add: discounted_def)
  qed
  let ?p = "proratedLines ?S ?d 0 ?lines"
  have p: "map snd ?p = map ld_discountedLineTotalCents (prorate_loop ?S ?d 0 (cart_discount_lines cart))" "map fst ?p = ?lines"
    using proratedLines_loop [of ?S ?d 0 ?lines] S(2) by (simp_all add: ls)
  have each: "asked (unitItems cur x) = snd x" if x: "x \<in> set ?p" for x cur
  proof -
    have "list_all2 (\<lambda>k y. 0 \<le> ld_discountedLineTotalCents y \<and> ld_discountedLineTotalCents y \<le> dl_lineTotalCents k)
        (cart_discount_lines cart) (prorate_loop ?S ?d 0 (cart_discount_lines cart))"
      using prorate_loop_bounds [OF found(4)] by (rule list_all2_mono) auto
    then have "list_all2 (\<lambda>k t. 0 \<le> t \<and> t \<le> line_cents k) ?lines (map snd ?p)"
      by (simp add: p(1) ls list_all2_map1 list_all2_map2 stored_line_def line_cents_def)
    then have "list_all2 (\<lambda>k t. 0 \<le> t \<and> t \<le> line_cents k) (map fst ?p) (map snd ?p)" by (simp only: p(2))
    then have b: "0 \<le> snd x \<and> snd x \<le> line_cents (fst x)"
      using x by (auto simp: list_all2_map1 list_all2_map2 list_all2_same)
    have m: "fst x \<in> set ?lines" using x p(2) by (metis image_eqI list.set_map)
    have "snd x \<le> ?S" using b lc [OF m] l(5) [OF m] by simp
    then have "asked (unitItems cur (fst x, snd x)) = snd x"
      using b l(1) [OF m] num by (intro asked_unitItems) (auto simp: numeric12_2_def)
    then show ?thesis by simp
  qed
  have "buildMercadoPagoPreferenceItems cart = concat (map (unitItems (c_currency (sc_cart cart))) ?p)"
    unfolding buildMercadoPagoPreferenceItems_def Let_def S(1) using d by simp
  then have "asked (buildMercadoPagoPreferenceItems cart) = (\<Sum>x\<leftarrow>?p. asked (unitItems (c_currency (sc_cart cart)) x))"
    by (simp only: asked_concat map_map o_def)
  also have "\<dots> = (\<Sum>x\<leftarrow>?p. snd x)"
    by (rule arg_cong [of _ _ sum_list], rule map_cong [OF refl]) (rule each)
  also have "\<dots> = totals (cart_discount_lines cart) - shares (prorate_loop ?S ?d 0 (cart_discount_lines cart))"
    using prorate_complement [OF found(4)] p(1) by simp
  finally show ?thesis using found(5) by simp
qed

text \<open>
  C18. What the items of a checkout preference add up to: exactly the total of the cart when no coupon
  is applied, and otherwise its total to within \<open>n - 2\<close> cents for \<open>n\<close> lines, whatever the rounding of
  the shares and of the unit prices does.
\<close>

theorem preference_adds_up:
  assumes "carts_ok s" and "findCart tid cid s = Some cart" and "sc_lines cart \<noteq> []"
    and "numeric12_2 (c_subtotal (sc_cart cart))"
  shows "(if c_discountTotal (sc_cart cart) = 0
     then asked (buildMercadoPagoPreferenceItems cart) = c_total (sc_cart cart)
     else \<bar>asked (buildMercadoPagoPreferenceItems cart) - c_total (sc_cart cart)\<bar> \<le> max 0 (int (length (sc_lines cart)) - 2))"
proof (cases "c_discountTotal (sc_cart cart) = 0")
  case True
  then show ?thesis using asked_without_coupon assms by simp
next
  case False
  let ?ls = "cart_discount_lines cart"
  note c = found_cart(2) [OF assms(1,2), unfolded discounted_def] and f = found_lines [OF assms(1,2)]
  have n: "?ls \<noteq> []" "length ?ls = length (sc_lines cart)" using assms(3) by (simp_all add: cart_discount_lines_def)
  have "\<bar>shares (prorate_loop (totals ?ls) (c_discountTotal (sc_cart cart)) 0 ?ls) - c_discountTotal (sc_cart cart)\<bar>
      \<le> max 0 (int (length ?ls) - 2)"
    using f(4) n(1) False c assms(4) by (intro prorate_within) (auto simp: f(5) numeric12_2_def)
  then show ?thesis
    using asked_with_coupon [OF assms(1,2) _ assms(4)] False c unfolding f(5) n(2) by auto
qed

definition sample_checkout_line :: "string \<Rightarrow> cart_line_row" where
  "sample_checkout_line lineId = \<lparr>cl_id = lineId, cl_tenantId = ''t1'', cl_cartId = c_id sample_cart, cl_itemId = Some ''p1'',
     cl_comboId = None, cl_itemType = Unit, cl_quantity = 1, cl_nameSnapshot = ''Muzzarella'',
     cl_unitPriceSnapshot = 100000, cl_lineTotal = 100000, cl_imageUrlSnapshot = None, cl_note = None, cl_createdAt = 0\<rparr>"

definition sample_checkout :: "int \<Rightarrow> db" where
  "sample_checkout d = sample_store\<lparr>
     tb_carts := [sample_cart\<lparr>c_discountTotal := d, c_total := 200000 - d\<rparr>],
     tb_cartLines := [sample_checkout_line ''cl1'', sample_checkout_line ''cl2''],
     tb_categories := [\<lparr>cc_id = ''c1'', cc_tenantId = ''t1'', cc_name = ''Pizzas'', cc_normalizedName = ''pizzas'',
       cc_description = None, cc_sortOrder = 0, cc_status = Active, cc_version = 1, cc_archivedAt = None, cc_updatedAt = 0\<rparr>],
     tb_entitlements := [\<lparr>en_tenantId = ''t1'', en_planId = ''starter'', en_planVersion = 1,
       en_entitlements = \<lparr>ent_catalogManagement = True, ent_onlinePayments = True, ent_printing = True\<rparr>,
       en_sourceRequestId = [], en_effectiveAt = 0, en_supersededAt = None\<rparr>],
     uuid_next := 7\<rparr>"

lemma sample_cart_fields:
  "c_subtotal sample_cart = 200000" "c_discountTotal sample_cart = 0" "c_total sample_cart = 200000" "c_tenantId sample_cart = ''t1''"
  by (simp_all add: sample_cart_def cartRow_def)

lemma sample_checkout_ok: "0 \<le> d \<Longrightarrow> d \<le> 200000 \<Longrightarrow> carts_ok (sample_checkout d)"
  by (simp add: carts_ok_def sample_checkout_def uniq_def lines_of_def discounted_def line_priced_def cart_line_check_def
      sample_checkout_line_def sample_cart_fields numeric12_2_def)

lemma sample_checkout_cart:
  "\<exists>cart. findCart ''t1'' (c_id sample_cart) (sample_checkout 50001) = Some cart \<and> c_total (sc_cart cart) = 149999
     \<and> c_subtotal (sc_cart cart) = 200000 \<and> c_discountTotal (sc_cart cart) = 50001 \<and> length (sc_lines cart) = 2"
  by (simp add: findCart_def sample_checkout_def sel1_def sample_cart_fields sample_checkout_line_def sort_by_def)

theorem preference_adds_up_witness:
  "\<exists>cart. findCart ''t1'' (c_id sample_cart) (sample_checkout 50001) = Some cart
     \<and> asked (buildMercadoPagoPreferenceItems cart) = 149999"
proof -
  obtain cart where c: "findCart ''t1'' (c_id sample_cart) (sample_checkout 50001) = Some cart" "c_total (sc_cart cart) = 149999"
    "c_subtotal (sc_cart cart) = 200000" "c_discountTotal (sc_cart cart) = 50001" "length (sc_lines cart) = 2"
    using sample_checkout_cart by blast
  have "sc_lines cart \<noteq> []" "numeric12_2 (c_subtotal (sc_cart cart))" using c by (auto simp: numeric12_2_def)
  from preference_adds_up [OF sample_checkout_ok c(1) this] show ?thesis using c by auto
qed

end
