(* ===== verification/PaymentSession.thy ===== *)
theory PaymentSession
  imports Payments
begin

text \<open>
  The payment session of a cart: \<open>PaymentSessionService\<close> of
  \<open>src/features/payments/application/payment-session.service.ts\<close>.

  \<^item> \<open>createPaymentSession\<close> is \<open>create\<close>: the request is validated, \<open>prepareIn\<close> records the attempt
    in a first transaction, the provider is asked, \<open>finishIn\<close> attaches the preference and completes
    the claim in a second one; after a failure a third one releases the claim.
  \<^item> The lemmas: a request keeps the rule that a cart has at most one active attempt; while one is
    active every request is turned away (\<open>session_while_active\<close>), also after the provider has failed.
\<close>

section \<open>The request\<close>

definition createPaymentSessionSchema ::
  "(string \<Rightarrow> bool) \<Rightarrow> (string \<Rightarrow> bool) \<Rightarrow> session_request \<Rightarrow> session_request option" where
  "createPaymentSessionSchema isEmail isDatetime value =
     (let c = sq_customer value;
          customer = c\<lparr>sk_name := js_trim (sk_name c), sk_email := blank_none (sk_email c), sk_phone := blank_none (sk_phone c)\<rparr>
      in if sk_name customer = []
           \<or> (case sk_email customer of None \<Rightarrow> False | Some m \<Rightarrow> \<not> isEmail m)
           \<or> (sk_whatsappReadyOptIn customer = Some True \<and> \<not> nonempty (normalizeWhatsAppRecipient (sk_phone customer)))
           \<or> (case sq_scheduledFor value of Some (Some t) \<Rightarrow> \<not> isDatetime t | _ \<Rightarrow> False)
           \<or> (case sq_cartVersion value of Some v \<Rightarrow> v \<le> 0 | None \<Rightarrow> False)
         then None
         else Some (value\<lparr>sq_customer := customer, sq_notes := blank_none (sq_notes value)\<rparr>))"

definition session_customer_json :: "session_customer \<Rightarrow> json" where
  "session_customer_json c =
     JObj ([(''name'', JStr (sk_name c))] @ opt_field ''email'' (sk_email c) @ opt_field ''phone'' (sk_phone c)
       @ (case sk_whatsappReadyOptIn c of None \<Rightarrow> [] | Some b \<Rightarrow> [(''whatsappReadyOptIn'', JBool b)]))"

definition session_json :: "session_request \<Rightarrow> json" where
  "session_json r =
     JObj ([(''customer'', session_customer_json (sq_customer r))] @ opt_field ''notes'' (sq_notes r)
       @ (case sq_scheduledFor r of None \<Rightarrow> [] | Some None \<Rightarrow> [(''scheduledFor'', JNull)]
          | Some (Some t) \<Rightarrow> [(''scheduledFor'', JStr t)])
       @ (case sq_cartVersion r of None \<Rightarrow> [] | Some v \<Rightarrow> [(''cartVersion'', JNum v)]))"

definition sessionClaim :: "string \<Rightarrow> string \<Rightarrow> string \<Rightarrow> session_request \<Rightarrow> claim_input" where
  "sessionClaim tid cartId key request =
     \<lparr>k_tenantId = Some tid, k_scope = ''payment-session:'' @ cartId, k_key = key, k_request = session_json request,
      k_lockSeconds = None, k_retentionSeconds = Some (60 * 60)\<rparr>"

section \<open>Preparing\<close>

record ready_session =
  ps_cart :: stored_cart
  ps_attemptId :: string
  ps_integrationAccountId :: string
  ps_webhookRoutingKey :: string
  ps_accessToken :: string
  ps_recordId :: string

datatype prepared_session = SessionReplayed json | SessionReady ready_session

abbreviation session_conflict :: app_error where
  "session_conflict \<equiv> PaymentError SessionConflict"

definition cartPayable :: "env \<Rightarrow> session_request \<Rightarrow> stored_cart option \<Rightarrow> app_error option" where
  "cartPayable e request found =
     (case found of
        None \<Rightarrow> Some (PaymentError SessionCartUnavailable)
      | Some cart \<Rightarrow>
          if c_expiresAt (sc_cart cart) \<le> e_now e \<or> c_status (sc_cart cart) = CartExpired
            \<or> c_status (sc_cart cart) = CartConverted then Some (PaymentError SessionCartUnavailable)
          else if sq_cartVersion request \<noteq> None \<and> sq_cartVersion request \<noteq> Some (c_version (sc_cart cart))
          then Some session_conflict
          else if sc_lines cart = [] \<or> c_total (sc_cart cart) \<le> 0 then Some session_conflict
          else None)"

definition couponPayable :: "env \<Rightarrow> string \<Rightarrow> stored_cart \<Rightarrow> db \<Rightarrow> app_error option" where
  "couponPayable e tid cart s =
     (if \<not> nonempty (c_appliedDiscountCodeId (sc_cart cart)) then None
      else case findDiscountById tid (the (c_appliedDiscountCodeId (sc_cart cart))) s of
        None \<Rightarrow> None
      | Some discount \<Rightarrow>
          (let applicableSubtotalCents = (\<Sum>(l, opts)\<leftarrow>sc_lines cart. line_cents l) in
           case evaluateCouponEligibility (coupon_of discount) applicableSubtotalCents (e_now e) (Some Mercadopago) of
             None \<Rightarrow> None
           | Some reason \<Rightarrow> Some (if reason = COUPON_TENDER_MISMATCH then CouponTenderMismatch else session_conflict)))"

text \<open>Each line is priced again, without the subtotal the client sent for a weighted item.\<close>

definition linePayable :: "string \<Rightarrow> string \<Rightarrow> cart_line_row \<times> cart_line_option_row list \<Rightarrow> db \<Rightarrow> app_error option" where
  "linePayable tid currency = (\<lambda>(line, opts) s.
     (let kind = (if nonempty (cl_itemId line) then Item else Combo);
          resourceId = (case cl_itemId line of Some i \<Rightarrow> Some i | None \<Rightarrow> cl_comboId line)
      in if \<not> nonempty resourceId then Some session_conflict
         else case loadSelection tid kind (the resourceId) s of
           None \<Rightarrow> Some session_conflict
         | Some catalog \<Rightarrow>
             if cat_currency catalog \<noteq> currency then Some session_conflict
             else (case revalidateCartSelection
                     \<lparr>sel_kind = kind, sel_resourceId = the resourceId, sel_quantity = cl_quantity line,
                      sel_optionIds = filter (\<lambda>i. i \<noteq> []) (map clo_addonOptionId opts),
                      sel_note = None, sel_confirmedUnitPrice = None, sel_calculatedSubtotal = None\<rparr>
                     (RevalidationCatalog.truncate catalog) of
                     Inl err \<Rightarrow> Some session_conflict
                   | Inr current \<Rightarrow>
                       if money_text (rv_unitPriceCents current) \<noteq> centsToMoney (cl_unitPriceSnapshot line)
                       then Some session_conflict else None)))"

fun linesPayable :: "string \<Rightarrow> string \<Rightarrow> (cart_line_row \<times> cart_line_option_row list) list \<Rightarrow> db \<Rightarrow> app_error option" where
  "linesPayable tid currency [] s = None"
| "linesPayable tid currency (l # ls) s =
     (case linePayable tid currency l s of Some err \<Rightarrow> Some err | None \<Rightarrow> linesPayable tid currency ls s)"

definition session_attempt ::
  "stored_cart \<Rightarrow> integration_row \<Rightarrow> session_request \<Rightarrow> int option \<Rightarrow> string \<Rightarrow> new_attempt" where
  "session_attempt cart account request scheduledDate key =
     \<lparr>na_cartId = c_id (sc_cart cart), na_integrationAccountId = ia_id account, na_amount = c_total (sc_cart cart),
      na_currency = c_currency (sc_cart cart), na_customer = session_customer_json (sq_customer request),
      na_notes = sq_notes request, na_scheduledFor = scheduledDate, na_idempotencyKey = key\<rparr>"

definition sessionGuard :: "env \<Rightarrow> string \<Rightarrow> session_request \<Rightarrow> stored_cart option \<Rightarrow> db \<Rightarrow> app_error option" where
  "sessionGuard e tid request found s =
     (case cartPayable e request found of
        Some err \<Rightarrow> Some err
      | None \<Rightarrow>
        (let cart = the found in
         case couponPayable e tid cart s of
           Some err \<Rightarrow> Some err
         | None \<Rightarrow>
           (case linesPayable tid (c_currency (sc_cart cart)) (sc_lines cart) s of
              Some err \<Rightarrow> Some err
            | None \<Rightarrow> if findActiveByCartId tid (c_id (sc_cart cart)) s \<noteq> None then Some session_conflict else None)))"

definition scheduledDateOf :: "env \<Rightarrow> PublicTenant \<Rightarrow> session_request \<Rightarrow> OrderSchedulingError + int option" where
  "scheduledDateOf e tenant request =
     validateScheduledPickupTime (e_parseDate e) (e_zone e) (e_collate e)
       (case sq_scheduledFor request of Some (Some t) \<Rightarrow> ScheduleString t | _ \<Rightarrow> NoSchedule)
       \<lparr>so_now = e_now e, so_openingHours = st_openingHours tenant, so_timezone = st_timezone tenant\<rparr>"

definition recordAttempt ::
  "env \<Rightarrow> provider \<Rightarrow> string \<Rightarrow> stored_cart \<Rightarrow> new_attempt \<Rightarrow> integration_row \<Rightarrow> string \<Rightarrow> db
     \<Rightarrow> app_error + prepared_session \<times> db" where
  "recordAttempt e mp tid cart inp account recordId s =
     (case createPaymentAttempt e tid inp s of
        Inl err \<Rightarrow> Inl (if err = PaymentError AttemptConflict then session_conflict else err)
      | Inr (attempt, s1) \<Rightarrow>
          bnd (decryptTokens mp account) (\<lambda>accessToken.
          Inr (SessionReady \<lparr>ps_cart = cart, ps_attemptId = pa_id attempt,
            ps_integrationAccountId = ia_id account, ps_webhookRoutingKey = ia_webhookRoutingKey account,
            ps_accessToken = accessToken, ps_recordId = recordId\<rparr>, s1)))"

definition prepareSession ::
  "env \<Rightarrow> provider \<Rightarrow> PublicTenant \<Rightarrow> string \<Rightarrow> session_request \<Rightarrow> string \<Rightarrow> integration_row \<Rightarrow> string \<Rightarrow> db
     \<Rightarrow> app_error + prepared_session \<times> db" where
  "prepareSession e mp tenant cartId request key account recordId s =
     (let found = findCart (st_id tenant) cartId s in
      case sessionGuard e (st_id tenant) request found s of
        Some err \<Rightarrow> Inl err
      | None \<Rightarrow>
          (case scheduledDateOf e tenant request of
             Inl err \<Rightarrow> Inl (SchedulingError err)
           | Inr scheduledDate \<Rightarrow>
               recordAttempt e mp (st_id tenant) (the found) (session_attempt (the found) account request scheduledDate key)
                 account recordId s))"

definition prepareIn ::
  "env \<Rightarrow> provider \<Rightarrow> PublicTenant \<Rightarrow> string \<Rightarrow> session_request \<Rightarrow> string \<Rightarrow> db \<Rightarrow> app_error + prepared_session \<times> db" where
  "prepareIn e mp tenant cartId request key s =
     (if \<not> entitled ent_onlinePayments (st_id tenant) s then Inl session_conflict
      else case currentMercadoPago (st_id tenant) s of
        None \<Rightarrow> Inl (PaymentError ProviderUnavailable)
      | Some account \<Rightarrow>
          if ia_status account \<noteq> IaActive then Inl (PaymentError ProviderUnavailable)
          else bnd (claim e (sessionClaim (st_id tenant) cartId key request) s) (\<lambda>(c, s1).
            case c of
              Replayed response \<Rightarrow> Inr (SessionReplayed (snd response), s1)
            | Claimed recordId \<Rightarrow> prepareSession e mp tenant cartId request key account recordId s1))"

section \<open>The session\<close>

definition session_response :: "ready_session \<Rightarrow> preference \<Rightarrow> json" where
  "session_response p pref =
     JObj ([(''paymentAttemptId'', JStr (ps_attemptId p)), (''preferenceId'', JStr (pf_preferenceId pref)),
        (''redirectUrl'', JStr (pf_redirectUrl pref))] @ opt_field ''sandboxRedirectUrl'' (pf_sandboxRedirectUrl pref)
        @ [(''cartId'', JStr (c_id (sc_cart (ps_cart p)))), (''amount'', JStr (centsToMoney (c_total (sc_cart (ps_cart p))))),
           (''currency'', JStr (c_currency (sc_cart (ps_cart p))))])"

definition finishIn ::
  "env \<Rightarrow> string \<Rightarrow> ready_session \<Rightarrow> preference \<Rightarrow> db \<Rightarrow> app_error + json \<times> db" where
  "finishIn e tid p pref s =
     bnd (attachPreference tid (ps_attemptId p) (ps_integrationAccountId p) (pf_preferenceId pref) s) (\<lambda>s1.
       Inr (session_response p pref, completeClaim e (ps_recordId p) (201, session_response p pref) s1))"

definition releaseClaim :: "env \<Rightarrow> string \<Rightarrow> db \<Rightarrow> app_error + unit \<times> db" where
  "releaseClaim e recordId s = Inr ((), failClaim e recordId s)"

definition completeSession ::
  "env \<Rightarrow> provider \<Rightarrow> string \<Rightarrow> session_request \<Rightarrow> string \<Rightarrow> ready_session \<Rightarrow> db \<Rightarrow> (app_error + json) \<times> db" where
  "completeSession e mp tid request baseUrl p s =
     (let (result, s1) =
        (case createPreference mp (ps_accessToken p) (ps_attemptId p) (ps_webhookRoutingKey p) (ps_cart p)
                (sq_customer request) (sq_notes request) baseUrl of
           Inl err \<Rightarrow> (Inl err, s)
         | Inr pref \<Rightarrow> with_tenant (finishIn e tid p pref) s)
      in case result of
           Inr body \<Rightarrow> (Inr body, s1)
         | Inl err \<Rightarrow> (Inl err, snd (with_tenant (releaseClaim e (ps_recordId p)) s1)))"

definition createPaymentSession ::
  "(string \<Rightarrow> bool) \<Rightarrow> (string \<Rightarrow> bool) \<Rightarrow> env \<Rightarrow> provider \<Rightarrow> string \<Rightarrow> string \<Rightarrow> string \<Rightarrow> string \<Rightarrow> session_request
     \<Rightarrow> string \<Rightarrow> db \<Rightarrow> (app_error + json) \<times> db" where
  "createPaymentSession isEmail isDatetime e mp correlationId slug cartId key body baseUrl s =
     (case createPaymentSessionSchema isEmail isDatetime body of
        None \<Rightarrow> (Inl ValidationError, s)
      | Some request \<Rightarrow>
          (case resolveStorefront e slug s of
             Inl err \<Rightarrow> (Inl err, s)
           | Inr tenant \<Rightarrow>
               if st_preset tenant = ExpressRetail then (Inl OrderingNotSupported, s)
               else (case publicContext tenant correlationId of
                       Inl err \<Rightarrow> (Inl err, s)
                     | Inr context \<Rightarrow>
                         (case with_tenant (prepareIn e mp tenant cartId request key) s of
                            (Inl err, s1) \<Rightarrow> (Inl err, s1)
                          | (Inr (SessionReplayed body), s1) \<Rightarrow> (Inr body, s1)
                          | (Inr (SessionReady p), s1) \<Rightarrow> completeSession e mp (st_id tenant) request baseUrl p s1))))"

section \<open>One active attempt per cart\<close>

definition attempts_ok :: "db \<Rightarrow> bool" where
  "attempts_ok s \<longleftrightarrow> uniq pa_id (tb_attempts s)
     \<and> (\<forall>r \<in> set (tb_attempts s). \<forall>q \<in> set (tb_attempts s). attempt_active r \<and> attempt_active q
          \<and> pa_tenantId r = pa_tenantId q \<and> pa_cartId r = pa_cartId q \<longrightarrow> pa_id r = pa_id q)"

lemma attempts_okD:
  "attempts_ok s \<Longrightarrow> r \<in> set (tb_attempts s) \<Longrightarrow> q \<in> set (tb_attempts s) \<Longrightarrow> attempt_active r \<Longrightarrow> attempt_active q
     \<Longrightarrow> pa_tenantId r = pa_tenantId q \<Longrightarrow> pa_cartId r = pa_cartId q \<Longrightarrow> pa_id r = pa_id q"
  unfolding attempts_ok_def by blast

lemma attempts_ok_frame: "tb_attempts s' = tb_attempts s \<Longrightarrow> attempts_ok s' = attempts_ok s"
  by (simp add: attempts_ok_def)

lemma findCart_key: "findCart tid cid s = Some cart \<Longrightarrow> c_id (sc_cart cart) = cid"
  by (auto simp: findCart_def split: option.splits dest: sel1_SomeD)

lemma no_active:
  "findActiveByCartId tid cid s = None \<longleftrightarrow>
     (\<forall>r \<in> set (tb_attempts s). pa_tenantId r = tid \<and> pa_cartId r = cid \<longrightarrow> \<not> attempt_active r)"
  by (auto simp: findActiveByCartId_def sel1_None)

lemma createPaymentAttempt_Inr:
  assumes "createPaymentAttempt e tid inp s = Inr (a, s1)"
  shows "a \<in> set (tb_attempts s1)" "pa_tenantId a = tid" "pa_cartId a = na_cartId inp"
    "tb_attempts s1 = tb_attempts s \<or> tb_attempts s1 = tb_attempts s @ [a] \<and> pa_id a \<notin> pa_id ` set (tb_attempts s)"
    "tb_attempts s1 \<noteq> tb_attempts s \<Longrightarrow> attempt_active a"
proof -
  let ?row = "attemptRow e tid inp s"
  have row: "pa_tenantId ?row = tid" "pa_cartId ?row = na_cartId inp" "attempt_active ?row"
    by (simp_all add: attemptRow_def attempt_active_def)
  have "a \<in> set (tb_attempts s1) \<and> pa_tenantId a = tid \<and> pa_cartId a = na_cartId inp
    \<and> (tb_attempts s1 = tb_attempts s \<or> tb_attempts s1 = tb_attempts s @ [a] \<and> pa_id a \<notin> pa_id ` set (tb_attempts s))
    \<and> (tb_attempts s1 \<noteq> tb_attempts s \<longrightarrow> attempt_active a)"
  proof (cases "list_ex (payment_attempt_clash ?row) (tb_attempts s)")
    case True
    then show ?thesis
      using assms by (auto simp: createPaymentAttempt_def Let_def split: if_split_asm option.splits dest: sel1_Some_in sel1_Some_P)
  next
    case False
    then have "a = ?row" "tb_attempts s1 = tb_attempts s @ [?row]"
      using assms by (auto simp: createPaymentAttempt_def Let_def split: if_split_asm)
    then show ?thesis using False row by (auto simp: list_ex_iff payment_attempt_clash_def)
  qed
  then show "a \<in> set (tb_attempts s1)" "pa_tenantId a = tid" "pa_cartId a = na_cartId inp"
    "tb_attempts s1 = tb_attempts s \<or> tb_attempts s1 = tb_attempts s @ [a] \<and> pa_id a \<notin> pa_id ` set (tb_attempts s)"
    "tb_attempts s1 \<noteq> tb_attempts s \<Longrightarrow> attempt_active a"
    by simp_all
qed

text \<open>After the first transaction the cart has one attempt that may become active: the one recorded.\<close>

definition prepared_for :: "string \<Rightarrow> string \<Rightarrow> string \<Rightarrow> db \<Rightarrow> bool" where
  "prepared_for tid cid attemptId s \<longleftrightarrow>
     (\<forall>r \<in> set (tb_attempts s). pa_id r = attemptId \<longrightarrow> pa_tenantId r = tid \<and> pa_cartId r = cid)
     \<and> (\<forall>r \<in> set (tb_attempts s). pa_tenantId r = tid \<and> pa_cartId r = cid \<and> attempt_active r \<longrightarrow> pa_id r = attemptId)"

lemma prepared_forD:
  "prepared_for tid cid a s \<Longrightarrow> r \<in> set (tb_attempts s) \<Longrightarrow> pa_id r = a \<Longrightarrow> pa_tenantId r = tid \<and> pa_cartId r = cid"
  "prepared_for tid cid a s \<Longrightarrow> r \<in> set (tb_attempts s) \<Longrightarrow> pa_tenantId r = tid \<Longrightarrow> pa_cartId r = cid \<Longrightarrow> attempt_active r
     \<Longrightarrow> pa_id r = a"
  unfolding prepared_for_def by blast+

lemma own_attempt_id: "own_attempt tid accountId a r \<Longrightarrow> pa_id r = a"
  by (simp add: own_attempt_def)

lemma prepareSession_run:
  assumes run: "prepareSession e mp tenant cartId request key account recordId s = Inr (res, s1)"
  obtains cart sched a token where "findCart (st_id tenant) cartId s = Some cart"
    "findActiveByCartId (st_id tenant) cartId s = None"
    "createPaymentAttempt e (st_id tenant) (session_attempt cart account request sched key) s = Inr (a, s1)"
    "res = SessionReady \<lparr>ps_cart = cart, ps_attemptId = pa_id a, ps_integrationAccountId = ia_id account,
       ps_webhookRoutingKey = ia_webhookRoutingKey account, ps_accessToken = token, ps_recordId = recordId\<rparr>"
proof -
  let ?tid = "st_id tenant"
  obtain sched where g: "sessionGuard e ?tid request (findCart ?tid cartId s) s = None"
    and rec: "recordAttempt e mp ?tid (the (findCart ?tid cartId s))
      (session_attempt (the (findCart ?tid cartId s)) account request sched key) account recordId s = Inr (res, s1)"
    using run by (auto simp: prepareSession_def Let_def split: option.splits sum.splits)
  obtain cart where c: "findCart ?tid cartId s = Some cart"
    using g by (cases "findCart ?tid cartId s") (simp_all add: sessionGuard_def cartPayable_def)
  note id = findCart_key [OF c]
  have free: "findActiveByCartId ?tid cartId s = None"
    using g unfolding sessionGuard_def Let_def c option.sel id by (simp split: option.splits if_split_asm)
  obtain a token where "createPaymentAttempt e ?tid (session_attempt cart account request sched key) s = Inr (a, s1)"
    "res = SessionReady \<lparr>ps_cart = cart, ps_attemptId = pa_id a, ps_integrationAccountId = ia_id account,
      ps_webhookRoutingKey = ia_webhookRoutingKey account, ps_accessToken = token, ps_recordId = recordId\<rparr>"
    using rec unfolding recordAttempt_def c option.sel by (auto simp: bnd_Inr_iff split: sum.splits)
  then show ?thesis by (rule that [OF c free])
qed

lemma prepareSession_records:
  assumes "prepareSession e mp tenant cartId request key account recordId s = Inr (res, s1)" "tb_attempts s1 \<noteq> tb_attempts s"
  shows "findActiveByCartId (st_id tenant) cartId s1 \<noteq> None"
proof (rule prepareSession_run [OF assms(1)])
  fix cart sched a
  assume c: "findCart (st_id tenant) cartId s = Some cart"
    and a: "createPaymentAttempt e (st_id tenant) (session_attempt cart account request sched key) s = Inr (a, s1)"
  from createPaymentAttempt_Inr [OF a] assms(2) findCart_key [OF c] show ?thesis
    by (auto simp: no_active session_attempt_def)
qed

lemma prepareSession_Inr:
  assumes run: "prepareSession e mp tenant cartId request key account recordId s = Inr (res, s1)" and ok: "attempts_ok s"
  obtains p where "res = SessionReady p" "attempts_ok s1" "prepared_for (st_id tenant) cartId (ps_attemptId p) s1"
    "findActiveByCartId (st_id tenant) cartId s = None"
proof -
  let ?tid = "st_id tenant"
  obtain cart sched a s2 where c: "findCart ?tid cartId s = Some cart" and free: "findActiveByCartId ?tid cartId s = None"
    and a: "createPaymentAttempt e ?tid (session_attempt cart account request sched key) s = Inr (a, s2)"
    and res: "\<exists>token. res = SessionReady \<lparr>ps_cart = cart, ps_attemptId = pa_id a, ps_integrationAccountId = ia_id account,
      ps_webhookRoutingKey = ia_webhookRoutingKey account, ps_accessToken = token, ps_recordId = recordId\<rparr>" "s1 = s2"
    by (rule prepareSession_run [OF run]) blast
  note id = findCart_key [OF c]
  note cr = createPaymentAttempt_Inr [OF a, unfolded session_attempt_def, simplified, unfolded id]
  obtain p where p: "res = SessionReady p" "ps_attemptId p = pa_id a" using res(1) by auto
  have u: "uniq pa_id (tb_attempts s2)" using ok cr(4) by (auto simp: attempts_ok_def uniq_append1)
  have only: "r = a" if "r \<in> set (tb_attempts s2)" "pa_tenantId r = ?tid" "pa_cartId r = cartId" "attempt_active r" for r
    using cr(4) free that by (auto simp: no_active)
  have "attempts_ok s2"
  proof -
    have "pa_id r = pa_id q" if rq: "r \<in> set (tb_attempts s2)" "q \<in> set (tb_attempts s2)" "attempt_active r" "attempt_active q"
      "pa_tenantId r = pa_tenantId q" "pa_cartId r = pa_cartId q" for r q
    proof (cases "pa_tenantId r = ?tid \<and> pa_cartId r = cartId")
      case True
      then show ?thesis using only [of r] only [of q] rq by simp
    next
      case False
      then have "r \<in> set (tb_attempts s)" "q \<in> set (tb_attempts s)" using cr rq by auto
      then show ?thesis by (rule attempts_okD [OF ok]) (rule rq)+
    qed
    then show ?thesis using u unfolding attempts_ok_def by blast
  qed
  moreover have "prepared_for ?tid cartId (pa_id a) s2"
    unfolding prepared_for_def using only uniq_eq [OF u _ cr(1)] cr(2,3) by blast
  ultimately show ?thesis using that p free res(2) by simp
qed

lemma attachPreference_ok:
  assumes run: "attachPreference tid attemptId accountId pref s = Inr s'" and ok: "attempts_ok s" "prepared_for tid cid attemptId s"
  shows "attempts_ok s'"
proof -
  let ?here = "own_attempt tid accountId attemptId"
    and ?f = "\<lambda>r. r\<lparr>pa_providerPreferenceId := Some pref, pa_status := PaProcessing\<rparr>"
  have t: "tb_attempts s' = upd ?here ?f (tb_attempts s)"
    using run by (auto simp: attachPreference_def insertRoute_def Let_def split: if_split_asm)
  have "pa_id r' = pa_id q'" if rq: "r' \<in> set (upd ?here ?f (tb_attempts s))" "q' \<in> set (upd ?here ?f (tb_attempts s))"
    "attempt_active r'" "attempt_active q'" "pa_tenantId r' = pa_tenantId q'" "pa_cartId r' = pa_cartId q'" for r' q'
  proof -
    obtain r q where r: "r \<in> set (tb_attempts s)" "r' = (if ?here r then ?f r else r)"
      and q: "q \<in> set (tb_attempts s)" "q' = (if ?here q then ?f q else q)"
      using rq(1,2) by (auto simp: set_upd)
    have keep: "pa_id (if b then ?f x else x) = pa_id x" "pa_tenantId (if b then ?f x else x) = pa_tenantId x"
      "pa_cartId (if b then ?f x else x) = pa_cartId x" for b x
      by (cases b; simp)+
    have same: "pa_id r' = pa_id r" "pa_id q' = pa_id q" "pa_tenantId r = pa_tenantId q" "pa_cartId r = pa_cartId q"
      using rq(5,6) unfolding r(2) q(2) keep by simp_all
    consider "?here r" | "?here q" | "\<not> ?here r" "\<not> ?here q" by blast
    then have "pa_id r = pa_id q"
    proof cases
      case 1
      then have r1: "pa_id r = attemptId" "pa_tenantId r = tid" "pa_cartId r = cid"
        using prepared_forD(1) [OF ok(2) r(1)] own_attempt_id by blast+
      have "pa_id q = attemptId"
      proof (cases "?here q")
        case True
        then show ?thesis by (rule own_attempt_id)
      next
        case False
        then have "attempt_active q" using q(2) rq(4) by simp
        then show ?thesis using prepared_forD(2) [OF ok(2) q(1)] same r1 by simp
      qed
      then show ?thesis using r1 by simp
    next
      case 2
      then have q1: "pa_id q = attemptId" "pa_tenantId q = tid" "pa_cartId q = cid"
        using prepared_forD(1) [OF ok(2) q(1)] own_attempt_id by blast+
      have "pa_id r = attemptId"
      proof (cases "?here r")
        case True
        then show ?thesis by (rule own_attempt_id)
      next
        case False
        then have "attempt_active r" using r(2) rq(3) by simp
        then show ?thesis using prepared_forD(2) [OF ok(2) r(1)] same q1 by simp
      qed
      then show ?thesis using q1 by simp
    next
      case 3
      then have "attempt_active r" "attempt_active q" using r(2) q(2) rq(3,4) by simp_all
      then show ?thesis by (rule attempts_okD [OF ok(1) r(1) q(1)]) (rule same)+
    qed
    then show ?thesis using same by simp
  qed
  moreover have "uniq pa_id (upd ?here ?f (tb_attempts s))" using ok(1) by (simp add: uniq_upd attempts_ok_def)
  ultimately show ?thesis unfolding attempts_ok_def t by blast
qed

lemma completeSession_ok:
  assumes "attempts_ok s" "prepared_for tid cid (ps_attemptId p) s"
  shows "attempts_ok (snd (completeSession e mp tid request baseUrl p s))"
proof -
  have rel: "attempts_ok (snd (with_tenant (releaseClaim e rid) s1)) = attempts_ok s1" for rid s1
    by (rule attempts_ok_frame) (simp add: with_tenant_def transact_def releaseClaim_def failClaim_def)
  have fin: "attempts_ok (snd (with_tenant (finishIn e tid p pref) s))" for pref
  proof -
    have "attempts_ok s2" if run: "finishIn e tid p pref s = Inr (b, s2)" for b s2
    proof -
      obtain s1 where "attachPreference tid (ps_attemptId p) (ps_integrationAccountId p) (pf_preferenceId pref) s = Inr s1"
        "tb_attempts s2 = tb_attempts s1"
        using run by (auto simp: finishIn_def bnd_Inr_iff completeClaim_def)
      then show ?thesis using attachPreference_ok [OF _ assms] attempts_ok_frame by blast
    qed
    then show ?thesis using assms(1) by (auto simp: with_tenant_def transact_def split: sum.split)
  qed
  show ?thesis
    unfolding completeSession_def Let_def using fin rel assms(1)
    by (auto simp: rel case_prod_unfold split: sum.split)
qed

lemma prepareIn_Inr:
  assumes run: "prepareIn e mp tenant cartId request key s = Inr (res, s1)" and ok: "attempts_ok s"
  shows "(\<exists>b. res = SessionReplayed b) \<and> tb_attempts s1 = tb_attempts s
    \<or> (\<exists>p. res = SessionReady p \<and> attempts_ok s1 \<and> prepared_for (st_id tenant) cartId (ps_attemptId p) s1
        \<and> findActiveByCartId (st_id tenant) cartId s = None)"
proof -
  obtain account c s0 where c: "claim e (sessionClaim (st_id tenant) cartId key request) s = Inr (c, s0)"
    and rest: "(case c of Replayed response \<Rightarrow> Inr (SessionReplayed (snd response), s0)
      | Claimed recordId \<Rightarrow> prepareSession e mp tenant cartId request key account recordId s0) = Inr (res, s1)"
    using run by (auto simp: prepareIn_def bnd_Inr_iff split: option.splits if_split_asm)
  have t: "tb_attempts s0 = tb_attempts s" by (subst claim_state [OF c]) simp
  show ?thesis
  proof (cases c)
    case (Replayed response)
    then show ?thesis using rest t by auto
  next
    case (Claimed rid)
    have ok0: "attempts_ok s0" using ok t attempts_ok_frame by blast
    show ?thesis
      by (rule prepareSession_Inr [OF rest [unfolded Claimed claim_result.case] ok0])
        (use t in \<open>auto simp: findActiveByCartId_def\<close>)
  qed
qed


section \<open>While an attempt is active\<close>

text \<open>The answer kept under a key of the cart's sessions.\<close>

definition stored_answer :: "string \<Rightarrow> string \<Rightarrow> string \<Rightarrow> json \<Rightarrow> db \<Rightarrow> bool" where
  "stored_answer tid cartId key b s \<longleftrightarrow>
     list_ex (\<lambda>r. recordIdentity (Some tid) (''payment-session:'' @ cartId) (js_trim key) r \<and> ir_state r = Completed
        \<and> orElse (ir_responseBody r) JNull = b) (tb_idempotency s)"

text \<open>A request that did nothing: an error, or an answer that had been stored before.\<close>

definition turned_away :: "string \<Rightarrow> string \<Rightarrow> string \<Rightarrow> db \<Rightarrow> (app_error + json) \<times> db \<Rightarrow> bool" where
  "turned_away tid cartId key s run \<longleftrightarrow>
     snd run = s \<and> (case fst run of Inl err \<Rightarrow> True | Inr b \<Rightarrow> stored_answer tid cartId key b s)"

lemma claim_replays_stored:
  assumes "claim e (sessionClaim tid cartId key request) s = Inr (Replayed response, s1)"
  shows "stored_answer tid cartId key (snd response) s"
proof -
  let ?inp = "sessionClaim tid cartId key request"
  obtain r where r: "sel1 (recordIdentity (Some tid) (''payment-session:'' @ cartId) (js_trim key)) (tb_idempotency s) = Some r"
    and c: "claimExisting e ?inp r s = Inr (Replayed response, s1)"
    using assms by (auto simp: claim_def Let_def sessionClaim_def split: sum.splits option.splits if_split_asm)
  have "ir_state r = Completed" "snd response = orElse (ir_responseBody r) JNull"
    using c by (auto simp: claimExisting_def Let_def split: if_split_asm)
  then show ?thesis
    unfolding stored_answer_def list_ex_iff using sel1_Some_P [OF r] by (intro bexI [OF _ sel1_Some_in [OF r]]) simp
qed

lemma prepareIn_active:
  assumes active: "findActiveByCartId (st_id tenant) cartId s \<noteq> None"
    and run: "prepareIn e mp tenant cartId request key s = Inr (res, s1)"
  shows "\<exists>b. res = SessionReplayed b \<and> s1 = s \<and> stored_answer (st_id tenant) cartId key b s"
proof -
  obtain account c s0 where c: "claim e (sessionClaim (st_id tenant) cartId key request) s = Inr (c, s0)"
    and rest: "(case c of Replayed response \<Rightarrow> Inr (SessionReplayed (snd response), s0)
      | Claimed recordId \<Rightarrow> prepareSession e mp tenant cartId request key account recordId s0) = Inr (res, s1)"
    using run by (auto simp: prepareIn_def bnd_Inr_iff split: option.splits if_split_asm)
  show ?thesis
  proof (cases c)
    case (Replayed response)
    then have cl: "claim e (sessionClaim (st_id tenant) cartId key request) s = Inr (Replayed response, s0)" using c by simp
    have "res = SessionReplayed (snd response)" "s1 = s0" using rest Replayed by simp_all
    then show ?thesis using claim_replays_state [OF cl] claim_replays_stored [OF cl] by simp
  next
    case (Claimed rid)
    have "tb_attempts s0 = tb_attempts s" by (subst claim_state [OF c]) simp
    then have "findActiveByCartId (st_id tenant) cartId s0 \<noteq> None" using active by (simp add: findActiveByCartId_def)
    moreover have "findActiveByCartId (st_id tenant) cartId s0 = None"
      by (rule prepareSession_run [OF rest [unfolded Claimed claim_result.case]])
    ultimately show ?thesis by simp
  qed
qed

lemma session_while_active:
  assumes "findActiveByCartId (st_id tenant) cartId s \<noteq> None" "resolveStorefront e slug s = Inr tenant"
  shows "turned_away (st_id tenant) cartId key s
    (createPaymentSession isEmail isDatetime e mp correlationId slug cartId key body baseUrl s)"
proof (cases "createPaymentSessionSchema isEmail isDatetime body")
  case None
  then show ?thesis by (simp add: turned_away_def createPaymentSession_def)
next
  case (Some request)
  show ?thesis
  proof (cases "prepareIn e mp tenant cartId request key s")
    case (Inl err)
    then have "with_tenant (prepareIn e mp tenant cartId request key) s = (Inl err, s)"
      by (simp add: with_tenant_def transact_def)
    then have "\<exists>err. createPaymentSession isEmail isDatetime e mp correlationId slug cartId key body baseUrl s = (Inl err, s)"
      by (auto simp: createPaymentSession_def assms(2) Some split: sum.split)
    then show ?thesis by (auto simp: turned_away_def)
  next
    case (Inr r)
    then obtain b where b: "prepareIn e mp tenant cartId request key s = Inr (SessionReplayed b, s)"
      "stored_answer (st_id tenant) cartId key b s"
      using prepareIn_active [OF assms(1)] by (cases r) blast
    then have "with_tenant (prepareIn e mp tenant cartId request key) s = (Inr (SessionReplayed b), s)"
      by (simp add: with_tenant_def transact_def)
    then have "(\<exists>err. createPaymentSession isEmail isDatetime e mp correlationId slug cartId key body baseUrl s = (Inl err, s))
      \<or> createPaymentSession isEmail isDatetime e mp correlationId slug cartId key body baseUrl s = (Inr b, s)"
      by (auto simp: createPaymentSession_def assms(2) Some split: sum.split)
    then show ?thesis using b(2) by (auto simp: turned_away_def)
  qed
qed

section \<open>When the provider does not answer\<close>

lemma completeSession_fails:
  assumes "completeSession e mp tid request baseUrl p s = (Inl err, s')"
  shows "tb_attempts s' = tb_attempts s"
proof -
  have rel: "tb_attempts (snd (with_tenant (releaseClaim e rid) s1)) = tb_attempts s1" for rid s1
    by (simp add: with_tenant_def transact_def releaseClaim_def failClaim_def)
  let ?pref = "createPreference mp (ps_accessToken p) (ps_attemptId p) (ps_webhookRoutingKey p) (ps_cart p)
    (sq_customer request) (sq_notes request) baseUrl"
  show ?thesis
  proof (cases ?pref)
    case (Inl x)
    have "s' = snd (with_tenant (releaseClaim e (ps_recordId p)) s)"
      using assms by (simp add: completeSession_def Inl)
    then show ?thesis by (simp add: rel)
  next
    case (Inr pref)
    obtain res s1 where w: "with_tenant (finishIn e tid p pref) s = (res, s1)" by fastforce
    with assms have "s' = snd (with_tenant (releaseClaim e (ps_recordId p)) s1)" "isl res"
      by (cases res; simp add: completeSession_def Inr)+
    moreover have "s1 = s" using w \<open>isl res\<close> by (auto simp: with_tenant_def transact_def split: sum.splits)
    ultimately show ?thesis by (simp add: rel)
  qed
qed

lemma failed_session_active:
  assumes "resolveStorefront e slug s = Inr tenant"
    and run: "createPaymentSession isEmail isDatetime e mp correlationId slug cartId key body baseUrl s = (Inl err, s')"
    and changed: "tb_attempts s' \<noteq> tb_attempts s"
  shows "findActiveByCartId (st_id tenant) cartId s' \<noteq> None"
proof -
  obtain request p s1 where prep: "prepareIn e mp tenant cartId request key s = Inr (SessionReady p, s1)"
    and fin: "completeSession e mp (st_id tenant) request baseUrl p s1 = (Inl err, s')"
    using run changed assms(1)
    by (auto simp: createPaymentSession_def with_tenant_def transact_def
        split: option.splits sum.splits if_split_asm prepared_session.splits prod.splits)
  obtain account c s0 where c: "claim e (sessionClaim (st_id tenant) cartId key request) s = Inr (c, s0)"
    and rest: "(case c of Replayed response \<Rightarrow> Inr (SessionReplayed (snd response), s0)
      | Claimed recordId \<Rightarrow> prepareSession e mp tenant cartId request key account recordId s0) = Inr (SessionReady p, s1)"
    using prep by (auto simp: prepareIn_def bnd_Inr_iff split: option.splits if_split_asm)
  obtain rid where p: "prepareSession e mp tenant cartId request key account rid s0 = Inr (SessionReady p, s1)"
    using rest by (cases c) auto
  have "tb_attempts s0 = tb_attempts s" by (subst claim_state [OF c]) simp
  then have "findActiveByCartId (st_id tenant) cartId s1 \<noteq> None"
    using prepareSession_records [OF p] changed completeSession_fails [OF fin] by simp
  then show ?thesis using completeSession_fails [OF fin] by (simp add: findActiveByCartId_def)
qed

definition sample_provider :: "(app_error + preference) \<Rightarrow> (app_error + mp_payment) \<Rightarrow> provider" where
  "sample_provider pref payment = \<lparr>pvd_seal = (\<lambda>_. ''sealed''), pvd_keyVersion = 1, pvd_open = (\<lambda>_. Some ''token''),
     pvd_preference = (\<lambda>_. pref), pvd_payment = (\<lambda>_ _. payment)\<rparr>"

definition sample_session_request :: session_request where
  "sample_session_request = \<lparr>sq_customer = \<lparr>sk_name = ''Ana Paz'', sk_email = None, sk_phone = None,
     sk_whatsappReadyOptIn = None\<rparr>, sq_notes = None, sq_scheduledFor = None, sq_cartVersion = None\<rparr>"

abbreviation sample_session :: "(app_error + preference) \<Rightarrow> string \<Rightarrow> db \<Rightarrow> (app_error + json) \<times> db" where
  "sample_session pref key \<equiv> createPaymentSession (\<lambda>_. True) (\<lambda>_. True) sample_env
     (sample_provider pref (Inl (PaymentError WebhookProvider))) ''r1'' ''la-pizza'' (c_id sample_cart) key
     sample_session_request ''https://shop''"

abbreviation sample_preference :: preference where
  "sample_preference \<equiv> \<lparr>pf_preferenceId = ''pref1'', pf_redirectUrl = ''https://pay'', pf_sandboxRedirectUrl = None\<rparr>"

lemma sample_sessions:
  "(case sample_session (Inr sample_preference) ''k1'' (sample_checkout 0) of (r, s) \<Rightarrow>
     \<not> isl r \<and> map pa_status (tb_attempts s) = [PaProcessing])
   \<and> (case sample_session (Inl (PaymentError ProviderUnavailable)) ''k1'' (sample_checkout 0) of (r, s') \<Rightarrow>
     isl r \<and> length (tb_attempts s') = 1
     \<and> (case resolveStorefront sample_env ''la-pizza'' (sample_checkout 0) of Inl _ \<Rightarrow> False | Inr t \<Rightarrow> st_id t = ''t1'')
     \<and> (case resolveStorefront sample_env ''la-pizza'' s' of Inl _ \<Rightarrow> False | Inr t \<Rightarrow> st_id t = ''t1'')
     \<and> fst (sample_session (Inr sample_preference) ''k2'' s') = Inl (PaymentError SessionConflict))"
  by code_simp

lemmas sample_session_ready = sample_sessions [THEN conjunct1]
lemmas sample_outage = sample_sessions [THEN conjunct2]


text \<open>
  C19. When the provider does not answer, the attempt recorded before it was asked stays active: after
  any request for a session that failed and yet left an attempt behind, every further request for the
  cart, with any key and whatever the provider answers by then, changes nothing and gets an error, or an
  answer that was stored under its key before. (The witness: the same request with a new key is
  refused as a conflict.)
\<close>

theorem provider_outage_blocks_cart:
  assumes "resolveStorefront e slug s = Inr tenant"
    and "createPaymentSession isEmail isDatetime e mp correlationId slug cartId key body baseUrl s = (Inl err, s')"
    and "tb_attempts s' \<noteq> tb_attempts s"
    and "resolveStorefront e' slug' s' = Inr tenant'" and "st_id tenant' = st_id tenant"
  shows "findActiveByCartId (st_id tenant) cartId s' \<noteq> None
    \<and> turned_away (st_id tenant) cartId key' s'
        (createPaymentSession isEmail isDatetime e' mp' correlationId' slug' cartId key' body' baseUrl' s')"
  using failed_session_active [OF assms(1,2,3)] session_while_active [OF _ assms(4)] assms(5) by simp

theorem provider_outage_blocks_cart_witness:
  "(case sample_session (Inl (PaymentError ProviderUnavailable)) ''k1'' (sample_checkout 0) of (r, s') \<Rightarrow>
     isl r \<and> turned_away ''t1'' (c_id sample_cart) ''k2'' s' (sample_session (Inr sample_preference) ''k2'' s')
     \<and> fst (sample_session (Inr sample_preference) ''k2'' s') = Inl (PaymentError SessionConflict))"
proof -
  let ?first = "sample_session (Inl (PaymentError ProviderUnavailable)) ''k1'' (sample_checkout 0)"
  obtain r s' where f: "?first = (r, s')" by (cases ?first)
  note o = sample_outage [unfolded f prod.case]
  obtain err where r: "r = Inl err" using o by (cases r) auto
  obtain tenant where t: "resolveStorefront sample_env ''la-pizza'' (sample_checkout 0) = Inr tenant" "st_id tenant = ''t1''"
    using o by (cases "resolveStorefront sample_env ''la-pizza'' (sample_checkout 0)") auto
  obtain tenant' where t': "resolveStorefront sample_env ''la-pizza'' s' = Inr tenant'" "st_id tenant' = ''t1''"
    using o by (cases "resolveStorefront sample_env ''la-pizza'' s'") auto
  have "tb_attempts s' \<noteq> tb_attempts (sample_checkout 0)"
    using o by (auto simp: sample_checkout_def sample_store_def empty_db_def)
  from provider_outage_blocks_cart [OF t(1) f [unfolded r] this t'(1)] show ?thesis
    using o t(2) t'(2) by (simp add: f)
qed

end
