(* ===== verification/ProviderEvents.thy ===== *)
theory ProviderEvents
  imports PaymentSession
begin

text \<open>
  What the provider tells about a payment: \<open>src/features/payments/application/mercadopago-webhook.service.ts\<close>
  (with the routing part of \<open>infrastructure/integration.repository.ts\<close>) and
  \<open>payment-reconciliation.service.ts\<close>.

  \<^item> A notification names a payment; the payment is looked up at the provider, routed to an attempt,
    and in one transaction the event is stored, the attempt moved on unless the news are older than
    what is known, and, when the payment is approved, the order made and its settlement recorded.
  \<^item> Amounts of the provider are numbers or texts; a text that is not a plain decimal is not a number.
    Metrics are left out. The reconciliation asks for attempts nothing was heard of.
\<close>

section \<open>Routing\<close>

definition resolveAccount :: "string \<Rightarrow> db \<Rightarrow> integration_row option" where
  "resolveAccount routingKey s = sel1 (\<lambda>r. ia_webhookRoutingKey r = routingKey) (tb_integrations s)"

definition findRoute :: "string \<Rightarrow> string \<Rightarrow> RouteType \<Rightarrow> string \<Rightarrow> db \<Rightarrow> provider_route_row option" where
  "findRoute tid accountId resourceType externalId s =
     sel1 (\<lambda>r. pv_resourceType r = resourceType \<and> pv_externalId r = externalId \<and> pv_tenantId r = tid
       \<and> pv_integrationAccountId r = accountId) (tb_routes s)"

definition findPaymentAttempt ::
  "(string \<Rightarrow> bool) \<Rightarrow> string \<Rightarrow> string \<Rightarrow> string option \<Rightarrow> db \<Rightarrow> app_error + payment_attempt_row option" where
  "findPaymentAttempt isUuid tid accountId attemptId s =
     (if \<not> nonempty attemptId then Inr None
      else if \<not> isUuid (the attemptId) then Inl (DbError InvalidUuid)
      else Inr (sel1 (own_attempt tid accountId (the attemptId)) (tb_attempts s)))"

definition updateAttemptFromWebhook ::
  "env \<Rightarrow> string \<Rightarrow> string \<Rightarrow> string \<Rightarrow> string \<Rightarrow> PaymentAttemptStatus \<Rightarrow> int option \<Rightarrow> string option \<Rightarrow> db
     \<Rightarrow> payment_attempt_row option \<times> db" where
  "updateAttemptFromWebhook e tid accountId attemptId paymentId status processed failureCode s =
     (let here = own_attempt tid accountId attemptId;
          moved = (\<lambda>r. r\<lparr>pa_providerPaymentId := Some paymentId, pa_status := status, pa_processedAt := processed,
                    pa_failureCode := failureCode, pa_updatedAt := e_now e\<rparr>)
      in (upd_ret here moved (tb_attempts s), s\<lparr>tb_attempts := upd here moved (tb_attempts s)\<rparr>))"

record webhook_event =
  we_providerEventId :: string
  we_resourceId :: string
  we_topic :: string

definition persistEvent ::
  "env \<Rightarrow> TenantContext \<Rightarrow> webhook_event \<Rightarrow> WebhookStatus \<Rightarrow> json \<Rightarrow> db \<Rightarrow> string option \<times> db" where
  "persistEvent e context event status payload s =
     (let row = \<lparr>wh_id = fresh_id e s, wh_tenantId = ctx_tenantId context, wh_providerEventId = we_providerEventId event,
            wh_topic = we_topic event, wh_signatureValid = True, wh_status = status, wh_payload = payload,
            wh_correlationId = ctx_correlationId context\<rparr>
      in if list_ex (webhook_clash row) (tb_webhooks s) then (None, s)
         else (Some (wh_id row), s\<lparr>tb_webhooks := tb_webhooks s @ [row], uuid_next := Suc (uuid_next s)\<rparr>))"

section \<open>Reading a payment\<close>

definition provider_status :: "string option \<Rightarrow> PaymentAttemptStatus" where
  "provider_status status =
     (if status = Some ''approved'' then PaApproved
      else if status = Some ''rejected'' \<or> status = Some ''cancelled'' then PaRejected
      else if status = Some ''pending'' \<or> status = Some ''in_process'' \<or> status = Some ''authorized'' then PaPending
      else PaFailed)"

fun attempt_priority :: "PaymentAttemptStatus \<Rightarrow> nat" where
  "attempt_priority PaApproved = 4"
| "attempt_priority PaPending = 3"
| "attempt_priority PaProcessing = 3"
| "attempt_priority PaInitiated = 2"
| "attempt_priority _ = 1"

definition metadataString :: "(string \<times> json) list \<Rightarrow> string \<Rightarrow> string option" where
  "metadataString metadata key =
     (case map_of metadata key of Some (JStr v) \<Rightarrow> if js_trim v = [] then None else Some (js_trim v) | _ \<Rightarrow> None)"

definition read_date :: "env \<Rightarrow> string option \<Rightarrow> app_error + int option" where
  "read_date e text =
     (if \<not> nonempty text then Inr None
      else case e_parseDate e (the text) of None \<Rightarrow> Inl (PaymentError InvalidDate) | Some t \<Rightarrow> Inr (Some t))"

definition processedAt :: "env \<Rightarrow> mp_payment \<Rightarrow> PaymentAttemptStatus \<Rightarrow> app_error + int option" where
  "processedAt e payment status =
     (if status = PaApproved
      then bnd (read_date e (mpp_dateApproved payment)) (\<lambda>d. Inr (Some (orElse d (e_now e))))
      else Inr None)"

section \<open>The settlement of a payment\<close>

definition mp_number :: "mp_amount \<Rightarrow> rat option" where
  "mp_number a = (case a of AmountNumber x \<Rightarrow> Some x | AmountText t \<Rightarrow> js_Decimal (js_trim t))"

definition num_plus :: "rat option \<Rightarrow> rat option \<Rightarrow> rat option" where
  "num_plus a b = (case (a, b) of (Some x, Some y) \<Rightarrow> Some (fl (x + y)) | _ \<Rightarrow> None)"

definition num_minus :: "rat option \<Rightarrow> rat option \<Rightarrow> rat option" where
  "num_minus a b = (case (a, b) of (Some x, Some y) \<Rightarrow> Some (fl (x - y)) | _ \<Rightarrow> None)"

definition fee_cents :: "mp_fee \<Rightarrow> int option" where
  "fee_cents f = map_option to_fixed2 (mp_number (fee_amount f))"

definition sum_fees :: "mp_fee list \<Rightarrow> rat option" where
  "sum_fees fees = foldl (\<lambda>acc f. num_plus acc (map_option number_of_cents (fee_cents f))) (Some 0) fees"

definition fixed_text :: "int option \<Rightarrow> string" where
  "fixed_text c = (case c of None \<Rightarrow> ''NaN'' | Some x \<Rightarrow> if x < 0 then CHR ''-'' # centsToMoney (- x) else centsToMoney x)"

definition fee_json :: "string \<Rightarrow> mp_fee \<Rightarrow> (string \<times> json) list" where
  "fee_json fallback f =
     [(''type'', JStr (if fee_type f = [] then fallback else fee_type f)), (''amount'', JStr (fixed_text (fee_cents f)))]"

record settlement =
  sm_gross :: "rat option"
  sm_fee :: "rat option"
  sm_taxes :: "rat option"
  sm_net :: "rat option"

definition settle :: "mp_payment \<Rightarrow> payment_attempt_row \<Rightarrow> settlement" where
  "settle payment attempt =
     (let gross = (case mpp_transactionAmount payment of Some a \<Rightarrow> mp_number a | None \<Rightarrow> Some (number_of_cents (pa_amount attempt)));
          fee = (if mpp_feeDetails payment \<noteq> [] then sum_fees (mpp_feeDetails payment)
                 else case mpp_netReceivedAmount payment of
                   Some n \<Rightarrow> map_option (max 0) (num_minus (num_minus gross (mp_number n))
                     (case mpp_taxesAmount payment of Some t \<Rightarrow> mp_number t | None \<Rightarrow> Some 0))
                 | None \<Rightarrow> Some 0);
          taxes = (case mpp_taxesAmount payment of Some t \<Rightarrow> mp_number t | None \<Rightarrow> sum_fees (mpp_taxes payment));
          net = (case mpp_netReceivedAmount payment of Some n \<Rightarrow> mp_number n
                 | None \<Rightarrow> num_minus (num_minus gross fee) taxes)
      in \<lparr>sm_gross = gross, sm_fee = fee, sm_taxes = taxes, sm_net = net\<rparr>)"

definition financeRow ::
  "env \<Rightarrow> string \<Rightarrow> string \<times> string \<Rightarrow> mp_payment \<Rightarrow> payment_attempt_row \<Rightarrow> db \<Rightarrow> app_error + finance_row" where
  "financeRow e tid target payment attempt s =
     (let m = settle payment attempt; released = (mpp_moneyReleaseStatus payment = Some ''released'') in
      bnd (read_date e (mpp_moneyReleaseDate payment)) (\<lambda>expected.
      bnd (read_date e (mpp_dateReleased payment)) (\<lambda>releasedAt.
      bnd (read_date e (mpp_dateApproved payment)) (\<lambda>settled.
      Inr \<lparr>fin_id = fresh_id e s, fin_tenantId = tid, fin_locationId = snd target, fin_orderId = fst target,
        fin_mpPaymentId = mpp_id payment, fin_grossAmount = map_option to_fixed2 (sm_gross m),
        fin_feeAmount = map_option to_fixed2 (sm_fee m),
        fin_feeDetails = JArr (map (\<lambda>f. JObj (fee_json ''mercadopago_fee'' f
          @ [(''feePayer'', JStr (if nonempty (fee_payer f) then the (fee_payer f) else ''collector''))])) (mpp_feeDetails payment)),
        fin_taxesAmount = map_option to_fixed2 (sm_taxes m),
        fin_taxesDetails = JArr (map (\<lambda>f. JObj (fee_json ''tax'' f)) (mpp_taxes payment)),
        fin_netReceivedAmount = map_option to_fixed2 (sm_net m),
        fin_isFeeInclusiveOfTax = (sm_taxes m = Some 0 \<and> (case sm_fee m of None \<Rightarrow> False | Some x \<Rightarrow> 0 < x)
          \<and> mpp_taxes payment = []),
        fin_moneyReleased = released, fin_moneyReleaseExpectedAt = expected,
        fin_moneyReleasedAt = (case releasedAt of Some t \<Rightarrow> Some t | None \<Rightarrow> if released then Some (e_now e) else None),
        fin_settlementDate = orElse settled (e_now e), fin_updatedAt = e_now e\<rparr>))))"

text \<open>
  \<open>on conflict (mp_payment_id) do update\<close>: the id and the store of the row are kept. Row level security
  refuses the update of a row of another store.
\<close>

definition upsertFinance :: "finance_row \<Rightarrow> db \<Rightarrow> app_error + db" where
  "upsertFinance row s =
     (let here = (\<lambda>r. fin_mpPaymentId r = fin_mpPaymentId row) in
      if \<not> finance_check row then Inl (DbError CheckViolation)
      else if list_ex (\<lambda>r. here r \<and> fin_tenantId r \<noteq> fin_tenantId row) (tb_finance s) then Inl (DbError RowSecurity)
      else if list_ex here (tb_finance s)
      then Inr (s\<lparr>tb_finance := upd here (\<lambda>r. row\<lparr>fin_id := fin_id r\<rparr>) (tb_finance s)\<rparr>)
      else Inr (s\<lparr>tb_finance := tb_finance s @ [row], uuid_next := Suc (uuid_next s)\<rparr>))"

section \<open>The notification\<close>

definition provider_order :: "env \<Rightarrow> stored_cart \<Rightarrow> payment_attempt_row \<Rightarrow> int \<Rightarrow> new_order" where
  "provider_order e cart attempt approvedAt =
     \<lparr>no_cart = cart, no_source = MercadopagoWebhook, no_paymentStatus = Paid, no_tender = None,
      no_customer = pa_customerSnapshot attempt, no_notes = pa_notes attempt,
      no_idempotencyKey = ''payment-attempt:'' @ pa_id attempt, no_paymentAttemptId = Some (pa_id attempt),
      no_approvedAt = Some approvedAt, no_pickupPin = None, no_estimatedWaitMinutes = None,
      no_estimatedReadyAt = None, no_scheduledFor = None, no_paymentExpiresAt = None\<rparr>"

definition orderOfAttempt :: "string \<Rightarrow> string \<Rightarrow> db \<Rightarrow> order_row option" where
  "orderOfAttempt tid attemptId s =
     sel1 (\<lambda>r. o_tenantId r = tid \<and> o_paymentAttemptId r = Some attemptId) (tb_orders s)"

definition approvedOrder ::
  "env \<Rightarrow> TenantContext \<Rightarrow> payment_attempt_row \<Rightarrow> string \<Rightarrow> db \<Rightarrow> app_error + (string \<times> string) option \<times> db" where
  "approvedOrder e context updated eventId s =
     (case loadCart context (pa_cartId updated) s of
        Some cart \<Rightarrow>
          if c_status (sc_cart cart) \<noteq> CartConverted
          then bnd (createFromCartSnapshot e context
                 (provider_order e cart updated (orElse (pa_processedAt updated) (e_now e))) s) (\<lambda>((view, created), s1).
                 let order = ov_order view; target = Some (o_id order, o_locationId order) in
                 if created
                 then (let s2 = appendAuditEvent e context ''order.create_paid'' ''order'' (o_id order) Allowed
                         (JObj [(''paymentAttemptId'', JStr (pa_id updated)), (''providerEventId'', JStr eventId)]) s1
                       in bnd (appendOutboxEvent e context ''order'' (o_id order) ''order.created''
                                (JObj [(''orderId'', JStr (o_id order)), (''paymentAttemptId'', JStr (pa_id updated))]) s2) (\<lambda>s3.
                          Inr (target, snd (enqueueOrderTicket e context view s3))))
                 else Inr (target, s1))
          else Inr (map_option (\<lambda>r. (o_id r, o_locationId r)) (orderOfAttempt (ctx_tenantId context) (pa_id updated) s), s)
      | None \<Rightarrow>
          Inr (map_option (\<lambda>r. (o_id r, o_locationId r)) (orderOfAttempt (ctx_tenantId context) (pa_id updated) s), s))"

fun attempt_status_name :: "PaymentAttemptStatus \<Rightarrow> string" where
  "attempt_status_name PaInitiated = ''initiated''"
| "attempt_status_name PaProcessing = ''processing''"
| "attempt_status_name PaPending = ''pending''"
| "attempt_status_name PaApproved = ''approved''"
| "attempt_status_name PaRejected = ''rejected''"
| "attempt_status_name PaFailed = ''failed''"
| "attempt_status_name PaDuplicate = ''duplicate''"
| "attempt_status_name PaVerificationRequired = ''verification_required''"

definition moveAttempt ::
  "env \<Rightarrow> TenantContext \<Rightarrow> string \<Rightarrow> payment_attempt_row \<Rightarrow> mp_payment \<Rightarrow> string \<Rightarrow> db \<Rightarrow> app_error + db" where
  "moveAttempt e context accountId attempt payment eventId s =
     (let tid = ctx_tenantId context; status = provider_status (mpp_status payment);
          s1 = insertRoute \<lparr>pv_resourceType = RoutePayment, pv_externalId = mpp_id payment, pv_tenantId = tid,
                 pv_integrationAccountId = accountId, pv_localResourceId = pa_id attempt\<rparr> s
      in bnd (processedAt e payment status) (\<lambda>processed.
         let (updated, s2) = updateAttemptFromWebhook e tid accountId (pa_id attempt) (mpp_id payment) status processed
               (if status = PaFailed then Some ''provider_status'' else None) s1
         in bnd (appendOutboxEvent e context ''payment_attempt'' (pa_id attempt) ''mercadopago.payment.updated''
                   (JObj [(''providerEventId'', JStr eventId), (''status'', JStr (attempt_status_name status))]) s2) (\<lambda>s3.
         case updated of
           None \<Rightarrow> Inr s3
         | Some row \<Rightarrow>
             if status \<noteq> PaApproved then Inr s3
             else bnd (approvedOrder e context row eventId s3) (\<lambda>(target, s4).
               case target of
                 None \<Rightarrow> Inr s4
               | Some order \<Rightarrow>
                   bnd (financeRow e tid order payment attempt s4) (\<lambda>fin. upsertFinance fin s4)))))"

record webhook_outcome =
  wo_duplicate :: bool
  wo_routed :: bool
  wo_outOfOrder :: bool
  wo_paymentAttemptId :: "string option"
  wo_webhookEventId :: "string option"

definition webhookPayload :: "(string \<times> json) list \<Rightarrow> string \<Rightarrow> bool \<Rightarrow> json" where
  "webhookPayload payload paymentId routed =
     JObj (filter (\<lambda>(k, v). k \<noteq> ''resourceId'' \<and> k \<noteq> ''routed'') payload
       @ [(''resourceId'', JStr paymentId), (''routed'', JBool routed)])"

definition routedAttempt ::
  "(string \<Rightarrow> bool) \<Rightarrow> string \<Rightarrow> string \<Rightarrow> mp_payment \<Rightarrow> db \<Rightarrow> app_error + payment_attempt_row option" where
  "routedAttempt isUuid tid accountId payment s =
     (let preferenceId = (case mpp_preferenceId payment of Some p \<Rightarrow> Some p
            | None \<Rightarrow> metadataString (mpp_metadata payment) ''preferenceId'');
          paymentRoute = findRoute tid accountId RoutePayment (mpp_id payment) s;
          preferenceRoute = (if nonempty preferenceId then findRoute tid accountId RoutePreference (the preferenceId) s else None);
          attemptId = (case paymentRoute of Some r \<Rightarrow> Some (pv_localResourceId r)
            | None \<Rightarrow> (case preferenceRoute of Some r \<Rightarrow> Some (pv_localResourceId r)
                       | None \<Rightarrow> metadataString (mpp_metadata payment) ''paymentAttemptId''))
      in findPaymentAttempt isUuid tid accountId attemptId s)"

definition webhookIn ::
  "(string \<Rightarrow> bool) \<Rightarrow> env \<Rightarrow> TenantContext \<Rightarrow> string \<Rightarrow> webhook_event \<Rightarrow> (string \<times> json) list \<Rightarrow> mp_payment \<Rightarrow> db
     \<Rightarrow> app_error + webhook_outcome \<times> db" where
  "webhookIn isUuid e context accountId event payload payment s =
     bnd (routedAttempt isUuid (ctx_tenantId context) accountId payment s) (\<lambda>found.
       let routed = found \<noteq> None;
           (stored, s1) = persistEvent e context event (if routed then WhProcessed else WhIgnored)
             (webhookPayload payload (mpp_id payment) routed) s
       in case stored of
            None \<Rightarrow> Inr (\<lparr>wo_duplicate = True, wo_routed = routed, wo_outOfOrder = False,
                wo_paymentAttemptId = map_option pa_id found, wo_webhookEventId = None\<rparr>, s1)
          | Some eventRow \<Rightarrow>
              (case found of
                 None \<Rightarrow> Inr (\<lparr>wo_duplicate = False, wo_routed = False, wo_outOfOrder = False,
                     wo_paymentAttemptId = None, wo_webhookEventId = Some eventRow\<rparr>, s1)
               | Some attempt \<Rightarrow>
                   (let outOfOrder = attempt_priority (provider_status (mpp_status payment)) < attempt_priority (pa_status attempt)
                    in bnd (if outOfOrder then Inr s1
                            else moveAttempt e context accountId attempt payment (we_providerEventId event) s1) (\<lambda>s2.
                       Inr (\<lparr>wo_duplicate = False, wo_routed = True, wo_outOfOrder = outOfOrder,
                         wo_paymentAttemptId = Some (pa_id attempt), wo_webhookEventId = Some eventRow\<rparr>, s2)))))"

definition receiveMercadoPagoWebhook ::
  "(string \<Rightarrow> bool) \<Rightarrow> env \<Rightarrow> provider \<Rightarrow> string \<Rightarrow> webhook_event \<Rightarrow> (string \<times> json) list \<Rightarrow> string \<Rightarrow> db
     \<Rightarrow> (app_error + webhook_outcome) \<times> db" where
  "receiveMercadoPagoWebhook isUuid e mp routingKey event payload correlationId s =
     (case resolveAccount routingKey s of
        None \<Rightarrow> (Inl (PaymentError WebhookRouting), s)
      | Some account \<Rightarrow>
          (case bnd (decryptTokens mp account) (\<lambda>token. pvd_payment mp token (we_resourceId event)) of
             Inl err \<Rightarrow> (Inl err, s)
           | Inr payment \<Rightarrow>
               (case createVerifiedTenantContext (ia_tenantId account) correlationId SrcWebhook
                       (ServiceActor ''mercadopago:webhook'') None of
                  Inl _ \<Rightarrow> (Inl ContextRejected, s)
                | Inr context \<Rightarrow> with_tenant (webhookIn isUuid e context (ia_id account) event payload payment) s)))"

section \<open>Reconciliation\<close>

record reconciliation_result =
  rr_attemptId :: string
  rr_previousStatus :: PaymentAttemptStatus
  rr_nextStatus :: PaymentAttemptStatus
  rr_orderId :: "string option"
  rr_resolved :: bool

definition setAttempt :: "string \<Rightarrow> string \<Rightarrow> (payment_attempt_row \<Rightarrow> payment_attempt_row) \<Rightarrow> db \<Rightarrow> db" where
  "setAttempt tid attemptId f s =
     s\<lparr>tb_attempts := upd (\<lambda>r. pa_tenantId r = tid \<and> pa_id r = attemptId) f (tb_attempts s)\<rparr>"

text \<open>An approved payment: an order that waits for it is paid, or the order is made.\<close>

definition settleApproved ::
  "env \<Rightarrow> TenantContext \<Rightarrow> payment_attempt_row \<Rightarrow> int \<Rightarrow> order_row option \<Rightarrow> db \<Rightarrow> app_error + string option \<times> db" where
  "settleApproved e context attempt approvedAt existingOrder s =
     (case existingOrder of
        Some order \<Rightarrow>
          if o_paymentStatus order \<noteq> Paid
          then bnd (appendOutboxEvent e context ''order'' (o_id order) ''order.paid''
                 (JObj [(''orderId'', JStr (o_id order)), (''previousStatus'', JStr (payment_name (o_paymentStatus order)))])
                 (snd (updatePaymentStatus e context (o_id order) Paid s))) (\<lambda>s1. Inr (Some (o_id order), s1))
          else Inr (Some (o_id order), s)
      | None \<Rightarrow>
          (case loadCart context (pa_cartId attempt) s of
             None \<Rightarrow> Inr (None, s)
           | Some cart \<Rightarrow>
               if c_status (sc_cart cart) = CartConverted then Inr (None, s)
               else bnd (createFromCartSnapshot e context (provider_order e cart attempt approvedAt) s) (\<lambda>((view, created), s1).
                 let oid = o_id (ov_order view); payload = JObj [(''orderId'', JStr oid), (''paymentStatus'', JStr ''paid'')];
                     s2 = appendAuditEvent e context ''order.create_paid'' ''order'' oid Allowed
                       (JObj [(''cartId'', JStr (c_id (sc_cart cart))), (''paymentAttemptId'', JStr (pa_id attempt))]) s1
                 in bnd (appendOutboxEvent e context ''order'' oid ''order.created'' payload s2) (\<lambda>s3.
                    bnd (appendOutboxEvent e context ''order'' oid ''print.intent.created'' payload s3) (\<lambda>s4.
                      Inr (Some oid, s4))))))"

definition settleRejected :: "env \<Rightarrow> TenantContext \<Rightarrow> order_row option \<Rightarrow> db \<Rightarrow> db" where
  "settleRejected e context existingOrder s =
     (case existingOrder of
        Some order \<Rightarrow> if o_paymentStatus order = VerificationRequired
                      then snd (updatePaymentStatus e context (o_id order) PayFailed s) else s
      | None \<Rightarrow> s)"

definition reconcileWith ::
  "env \<Rightarrow> TenantContext \<Rightarrow> payment_attempt_row \<Rightarrow> mp_payment \<Rightarrow> db \<Rightarrow> app_error + reconciliation_result \<times> db" where
  "reconcileWith e context attempt payment s =
     (let tid = ctx_tenantId context; existingOrder = orderOfAttempt tid (pa_id attempt) s;
          verdict = (\<lambda>next oid resolved. \<lparr>rr_attemptId = pa_id attempt, rr_previousStatus = pa_status attempt,
            rr_nextStatus = next, rr_orderId = oid, rr_resolved = resolved\<rparr>)
      in if mpp_status payment = Some ''approved''
         then bnd (read_date e (mpp_dateApproved payment)) (\<lambda>date.
              let approvedAt = orElse date (e_now e) in
              bnd (settleApproved e context attempt approvedAt existingOrder
                 (setAttempt tid (pa_id attempt)
                   (\<lambda>r. r\<lparr>pa_status := PaApproved, pa_processedAt := Some approvedAt, pa_updatedAt := e_now e\<rparr>) s)) (\<lambda>(oid, s1).
              Inr (verdict PaApproved oid True, s1)))
         else if mpp_status payment = Some ''rejected'' \<or> mpp_status payment = Some ''cancelled''
         then Inr (verdict PaRejected (map_option o_id existingOrder) True,
                settleRejected e context existingOrder (setAttempt tid (pa_id attempt)
                  (\<lambda>r. r\<lparr>pa_status := PaRejected, pa_failureCode := Some ''provider_rejected'', pa_updatedAt := e_now e\<rparr>) s))
         else Inr (verdict PaVerificationRequired (map_option o_id existingOrder) False,
                if pa_status attempt = PaVerificationRequired then s
                else setAttempt tid (pa_id attempt)
                  (\<lambda>r. r\<lparr>pa_status := PaVerificationRequired, pa_updatedAt := e_now e\<rparr>) s))"

definition reconcileIn ::
  "env \<Rightarrow> provider \<Rightarrow> TenantContext \<Rightarrow> string \<Rightarrow> db \<Rightarrow> app_error + reconciliation_result \<times> db" where
  "reconcileIn e mp context attemptId s =
     (let tid = ctx_tenantId context;
          unchanged = (\<lambda>attempt next resolved. \<lparr>rr_attemptId = pa_id attempt, rr_previousStatus = pa_status attempt,
            rr_nextStatus = next, rr_orderId = None, rr_resolved = resolved\<rparr>)
      in case loadPaymentAttempt context attemptId s of
           None \<Rightarrow> Inl (PaymentError AttemptNotFound)
         | Some attempt \<Rightarrow>
             if pa_status attempt = PaApproved \<or> pa_status attempt = PaRejected \<or> pa_status attempt = PaFailed
             then Inr (unchanged attempt (pa_status attempt) True, s)
             else if \<not> nonempty (pa_providerPaymentId attempt) then Inr (unchanged attempt (pa_status attempt) False, s)
             else (case currentMercadoPago tid s of
                     None \<Rightarrow> Inl (PaymentError NoIntegration)
                   | Some account \<Rightarrow>
                       bnd (decryptTokens mp account) (\<lambda>token.
                       case pvd_payment mp token (the (pa_providerPaymentId attempt)) of
                         Inl _ \<Rightarrow> Inr (unchanged attempt PaVerificationRequired False, s)
                       | Inr payment \<Rightarrow> reconcileWith e context attempt payment s)))"

definition reconcilePaymentAttempt ::
  "env \<Rightarrow> provider \<Rightarrow> string \<Rightarrow> string \<Rightarrow> string \<Rightarrow> db \<Rightarrow> (app_error + reconciliation_result) \<times> db" where
  "reconcilePaymentAttempt e mp tid attemptId correlationId s =
     (case createVerifiedTenantContext tid correlationId SrcBackground (ServiceActor ''payment:reconciler'') None of
        Inl _ \<Rightarrow> (Inl ContextRejected, s)
      | Inr context \<Rightarrow> with_tenant (reconcileIn e mp context attemptId) s)"

definition uncertain :: "int \<Rightarrow> payment_attempt_row \<Rightarrow> bool" where
  "uncertain before r \<longleftrightarrow> (pa_status r = PaVerificationRequired
       \<or> (pa_status r = PaPending \<or> pa_status r = PaProcessing) \<and> pa_createdAt r \<le> before)
     \<and> pa_providerPaymentId r \<noteq> None"

record reconciliation_totals =
  rt_scanned :: nat
  rt_reconciled :: nat
  rt_pendingVerification :: nat
  rt_failed :: nat

fun reconcileEach ::
  "env \<Rightarrow> provider \<Rightarrow> payment_attempt_row list \<Rightarrow> reconciliation_totals \<Rightarrow> db \<Rightarrow> reconciliation_totals \<times> db" where
  "reconcileEach e mp [] tally s = (tally, s)"
| "reconcileEach e mp (candidate # rest) tally s =
     (case reconcilePaymentAttempt e mp (pa_tenantId candidate) (pa_id candidate) ''reconciliation:worker'' s of
        (Inl _, s1) \<Rightarrow> reconcileEach e mp rest (tally\<lparr>rt_failed := Suc (rt_failed tally)\<rparr>) s1
      | (Inr result, s1) \<Rightarrow>
          if rr_resolved result
          then reconcileEach e mp rest (tally\<lparr>rt_reconciled := Suc (rt_reconciled tally)\<rparr>) s1
          else reconcileEach e mp rest (tally\<lparr>rt_pendingVerification := Suc (rt_pendingVerification tally)\<rparr>) s1)"

definition scanAndReconcileUncertainPayments ::
  "env \<Rightarrow> provider \<Rightarrow> int option \<Rightarrow> nat option \<Rightarrow> db \<Rightarrow> reconciliation_totals \<times> db" where
  "scanAndReconcileUncertainPayments e mp thresholdSeconds maxRows s =
     (let before = e_now e - orElse thresholdSeconds 30 * 1000;
          candidates = take (orElse maxRows 50) (filter (uncertain before) (tb_attempts s))
      in reconcileEach e mp candidates
           \<lparr>rt_scanned = length candidates, rt_reconciled = 0, rt_pendingVerification = 0, rt_failed = 0\<rparr> s)"

end
