(* ===== verification/Notifications.thy ===== *)
theory Notifications
  imports ProviderEvents Steps
begin

text \<open>
  What the services of \<open>src/features/payments\<close> do to the shop.

  \<^item> A session and a notification are steps of the shop like every other request: the invariant of
    the orders, the ledger and the logs is kept, and no row of another store changes.
  \<^item> A notification is taken in once; older news never undo newer ones; news of a rejection are older
    than everything, so that they are never recorded; an approved payment becomes a paid order.
\<close>

section \<open>What the payment operations leave alone\<close>

lemma step_effect_after_quiet:
  assumes "quiet tid s s1" "step_effect tid s1 s'"
  shows "step_effect tid s s'"
  using assms(2)
proof (rule step_effect_before)
  show "others tid s1 = others tid s" using assms(1) by (simp add: quiet_def tame_def)
  show "ledger_of s1 = ledger_of s" by (rule core_ledger [OF quiet_core [OF assms(1)]])
qed

lemma quiet_step: "quiet tid s s' \<Longrightarrow> shop_ok s \<Longrightarrow> step_effect tid s s'"
  by (rule step_effect_quiet [OF step_effect_refl])

lemma quiet_attempts:
  assumes "\<And>r. here r \<Longrightarrow> pa_tenantId r = tid" "\<And>r. pa_tenantId (f r) = pa_tenantId r"
  shows "quiet tid s (s\<lparr>tb_attempts := upd here f (tb_attempts s)\<rparr>)"
proof (rule quiet_frame)
  have "filter (\<lambda>r. pa_tenantId r \<noteq> tid) (upd here f (tb_attempts s)) = filter (\<lambda>r. pa_tenantId r \<noteq> tid) (tb_attempts s)"
    by (rule filter_upd_other) (auto simp: assms)
  then show "others tid (s\<lparr>tb_attempts := upd here f (tb_attempts s)\<rparr>) = others tid s" by simp
qed (simp_all add: core_def)

lemma quiet_insertRoute: "pv_tenantId row = tid \<Longrightarrow> quiet tid s (insertRoute row s)"
  by (rule quiet_frame) (simp_all add: insertRoute_def core_def)

lemma quiet_updateAttemptFromWebhook:
  "quiet tid s (snd (updateAttemptFromWebhook e tid acc aid pid st pr fc s))"
  unfolding updateAttemptFromWebhook_def Let_def snd_conv by (rule quiet_attempts) (simp_all add: own_attempt_def)

lemma quiet_persistEvent: "quiet (ctx_tenantId ctx) s (snd (persistEvent e ctx event st payload s))"
  by (rule quiet_frame) (simp_all add: persistEvent_def Let_def core_def)

lemma quiet_upsertFinance:
  assumes "upsertFinance row s = Inr s'"
  shows "quiet (fin_tenantId row) s s'"
proof (rule quiet_frame)
  let ?here = "\<lambda>r. fin_mpPaymentId r = fin_mpPaymentId row"
  show "others (fin_tenantId row) s' = others (fin_tenantId row) s"
  proof (cases "list_ex ?here (tb_finance s)")
    case True
    have "filter (\<lambda>r. fin_tenantId r \<noteq> fin_tenantId row) (upd ?here (\<lambda>r. row\<lparr>fin_id := fin_id r\<rparr>) (tb_finance s))
        = filter (\<lambda>r. fin_tenantId r \<noteq> fin_tenantId row) (tb_finance s)"
      using assms by (intro filter_upd_other) (auto simp: upsertFinance_def Let_def list_ex_iff split: if_split_asm)
    then show ?thesis using assms True by (auto simp: upsertFinance_def Let_def split: if_split_asm)
  next
    case False
    then show ?thesis using assms by (auto simp: upsertFinance_def Let_def split: if_split_asm)
  qed
qed (use assms in \<open>auto simp: upsertFinance_def Let_def core_def split: if_split_asm\<close>)

lemma financeRow_tenant: "financeRow e tid target payment attempt s = Inr fin \<Longrightarrow> fin_tenantId fin = tid"
  by (auto simp: financeRow_def Let_def bnd_Inr_iff)

section \<open>A payment session is a step of the shop\<close>

lemma failClaim_step:
  assumes eff: "step_effect tid s s'" and own: "owned tid rid s'"
  shows "step_effect tid s (failClaim e rid s')"
proof (rule step_effect_after [OF eff])
  have i: "idem_ok (failClaim e rid s') = idem_ok s'" "others tid (failClaim e rid s') = others tid s'"
    unfolding failClaim_def using idem_upd [of _ s' "\<lambda>r. ir_id r = rid" tid] own by (simp_all add: owned_def)
  have eq: "failClaim e rid s' = s'\<lparr>tb_idempotency := tb_idempotency (failClaim e rid s'), uuid_next := uuid_next s'\<rparr>"
    by (simp add: failClaim_def)
  have "shop_ok s'" using eff by (simp add: step_effect_def)
  then show "shop_ok (failClaim e rid s')" "ledger_of (failClaim e rid s') = ledger_of s'"
    using shop_ok_idempotency [OF eq] i by simp_all
  show "others tid (failClaim e rid s') = others tid s'" by (rule i(2))
qed

lemma quiet_createPaymentAttempt:
  "createPaymentAttempt e tid inp s = Inr (row, s') \<Longrightarrow> quiet tid s s' \<and> tb_idempotency s' = tb_idempotency s"
  by (auto simp: createPaymentAttempt_def attemptRow_def Let_def core_def split: if_split_asm option.split_asm
      intro!: quiet_frame)

lemma quiet_prepareSession:
  assumes "prepareSession e mp tenant cartId request key account recordId s = Inr (res, s')"
  shows "quiet (st_id tenant) s s' \<and> tb_idempotency s' = tb_idempotency s \<and> (\<exists>p. res = SessionReady p \<and> ps_recordId p = recordId)"
  using assms
  by (auto simp: prepareSession_def recordAttempt_def Let_def split: option.splits sum.splits dest: quiet_createPaymentAttempt)

lemma prepareIn_step:
  assumes run: "prepareIn e mp tenant cartId request key s = Inr (res, s')" and ok: "shop_ok s"
  shows "step_effect (st_id tenant) s s' \<and> (\<forall>p. res = SessionReady p \<longrightarrow> owned (st_id tenant) (ps_recordId p) s')"
proof -
  let ?tid = "st_id tenant"
  obtain account c s1 where c: "claim e (sessionClaim ?tid cartId key request) s = Inr (c, s1)"
    and rest: "(case c of Replayed response \<Rightarrow> Inr (SessionReplayed (snd response), s1)
      | Claimed recordId \<Rightarrow> prepareSession e mp tenant cartId request key account recordId s1) = Inr (res, s')"
    using run by (auto simp: prepareIn_def split: option.splits if_split_asm)
  have k: "k_tenantId (sessionClaim ?tid cartId key request) = Some ?tid" by (simp add: sessionClaim_def)
  note cl = shop_ok_claim [OF c k ok]
  have e1: "step_effect ?tid s s1" by (rule step_effect_before [OF step_effect_refl [OF cl(1)] cl(2,3)])
  show ?thesis
  proof (cases c)
    case (Replayed b)
    then show ?thesis using rest e1 by auto
  next
    case (Claimed rid)
    then have p: "prepareSession e mp tenant cartId request key account rid s1 = Inr (res, s')" using rest by simp
    note q = quiet_prepareSession [OF p]
    show ?thesis using step_effect_quiet [OF e1] q cl(4) [OF Claimed] by (auto simp: owned_def)
  qed
qed

lemma quiet_attachPreference:
  assumes "attachPreference tid attemptId accountId pref s = Inr s'"
  shows "quiet tid s s' \<and> tb_idempotency s' = tb_idempotency s"
proof -
  let ?s1 = "s\<lparr>tb_attempts := upd (own_attempt tid accountId attemptId)
    (\<lambda>r. r\<lparr>pa_providerPreferenceId := Some pref, pa_status := PaProcessing\<rparr>) (tb_attempts s)\<rparr>"
  have s': "s' = insertRoute \<lparr>pv_resourceType = RoutePreference, pv_externalId = pref, pv_tenantId = tid,
      pv_integrationAccountId = accountId, pv_localResourceId = attemptId\<rparr> ?s1"
    using assms by (auto simp: attachPreference_def Let_def split: if_split_asm)
  have "quiet tid s ?s1" by (rule quiet_attempts) (simp_all add: own_attempt_def)
  moreover have "quiet tid ?s1 s'" unfolding s' by (rule quiet_insertRoute) simp
  ultimately have "quiet tid s s'" by (rule quiet_trans)
  moreover have "tb_idempotency s' = tb_idempotency s" by (simp add: s' insertRoute_def)
  ultimately show ?thesis ..
qed

lemma finishIn_step:
  assumes run: "finishIn e tid p pref s = Inr (b, s')" and eff: "step_effect tid s0 s" "owned tid (ps_recordId p) s"
  shows "step_effect tid s0 s'"
proof -
  obtain s1 where a: "attachPreference tid (ps_attemptId p) (ps_integrationAccountId p) (pf_preferenceId pref) s = Inr s1"
    and s': "s' = completeClaim e (ps_recordId p) (201, session_response p pref) s1"
    using run by (auto simp: finishIn_def)
  note q = quiet_attachPreference [OF a]
  have "owned tid (ps_recordId p) s1" using eff(2) q by (simp add: owned_def)
  then show ?thesis unfolding s' using step_effect_complete step_effect_quiet [OF eff(1)] q by blast
qed

lemma completeSession_step:
  assumes eff: "step_effect tid s0 s" "owned tid (ps_recordId p) s"
  shows "step_effect tid s0 (snd (completeSession e mp tid request baseUrl p s))"
proof -
  have fail: "step_effect tid s0 (failClaim e (ps_recordId p) s)" by (rule failClaim_step [OF eff])
  show ?thesis
    using fail finishIn_step [OF _ eff]
    by (auto simp: completeSession_def releaseClaim_def with_tenant_def transact_def split: sum.split)
qed

lemma session_step:
  assumes ok: "shop_ok s" and t: "resolveStorefront e slug s = Inr tenant"
  shows "step_effect (st_id tenant) s
    (snd (createPaymentSession isEmail isDatetime e mp cid slug cartId key body baseUrl s))"
proof -
  have "step_effect (st_id tenant) s (snd (completeSession e mp (st_id tenant) request baseUrl p s1))"
    if "prepareIn e mp tenant cartId request key s = Inr (SessionReady p, s1)" for request p s1
    using prepareIn_step [OF that ok] completeSession_step by blast
  moreover have "step_effect (st_id tenant) s s1"
    if "prepareIn e mp tenant cartId request key s = Inr (SessionReplayed b, s1)" for request b s1
    using prepareIn_step [OF that ok] by blast
  ultimately show ?thesis
    using step_effect_refl [OF ok]
    by (auto simp: createPaymentSession_def t with_tenant_def transact_def split: option.split sum.split prepared_session.split)
qed

section \<open>What a notification writes to the tables of the payments\<close>

definition paid_part :: "db \<Rightarrow> integration_row list \<times> payment_attempt_row list \<times> webhook_row list" where
  "paid_part s = (tb_integrations s, tb_attempts s, tb_webhooks s)"

lemma paid_part_copyOptions: "copyOptions e tid l opts s = Inr s' \<Longrightarrow> paid_part s' = paid_part s"
  by (induction opts arbitrary: s) (fastforce simp: paid_part_def)+

lemma paid_part_deductStock: "deductStock e tid l s = Inr s' \<Longrightarrow> paid_part s' = paid_part s"
  by (auto simp: deductStock_def Let_def paid_part_def split: option.splits if_splits)

lemma paid_part_copyLines: "copyLines e tid oid xs s = Inr s' \<Longrightarrow> paid_part s' = paid_part s"
proof (induction xs arbitrary: s)
  case (Cons x xs)
  obtain line opts where x: "x = (line, opts)" by fastforce
  obtain s1 t s2 where "deductStock e tid line s = Inr s1"
    "copyOptions e tid (ol_id (orderLineRow e tid oid line s1)) opts (s1\<lparr>tb_orderLines := t, uuid_next := Suc (uuid_next s1)\<rparr>) = Inr s2"
    "copyLines e tid oid xs s2 = Inr s'"
    using Cons.prems by (auto simp: x Let_def)
  moreover have "paid_part (s1\<lparr>tb_orderLines := t, uuid_next := Suc (uuid_next s1)\<rparr>) = paid_part s1"
    by (simp add: paid_part_def)
  ultimately show ?case using Cons.IH paid_part_deductStock paid_part_copyOptions by metis
qed simp

lemma paid_part_appendEvent: "appendEvent e ctx oid ety f t md s = Inr s' \<Longrightarrow> paid_part s' = paid_part s"
  by (auto simp: appendEvent_def nextCounter_eq Let_def paid_part_def)

lemma paid_part_appendOutboxEvent: "appendOutboxEvent e ctx aty aid ety pl s = Inr s' \<Longrightarrow> paid_part s' = paid_part s"
  by (auto simp: appendOutboxEvent_def nextCounter_eq Let_def paid_part_def)

lemma paid_part_redeemCoupon: "paid_part (redeemCoupon e tid oid cart (convertCart e tid cid s)) = paid_part s"
  by (simp add: redeemCoupon_def recordRedemption_def convertCart_def Let_def paid_part_def)

lemma paid_part_upsertFinance: "upsertFinance row s = Inr s' \<Longrightarrow> paid_part s' = paid_part s"
  by (auto simp: upsertFinance_def Let_def paid_part_def split: if_split_asm)

lemma paid_part_enqueueOrderTicket: "paid_part (snd (enqueueOrderTicket e ctx v s)) = paid_part s"
  by (simp add: enqueueOrderTicket_def createPrintJob_def Let_def paid_part_def split: sum.split)

lemma paid_part_createFromCartSnapshot:
  assumes run: "createFromCartSnapshot e ctx inp s = Inr ((view, created), s')"
  shows "paid_part s' = paid_part s"
proof (cases "findByIdempotencyKey ctx (no_idempotencyKey inp) s")
  case (Some existing)
  then show ?thesis using run by (simp add: createFromCartSnapshot_def Let_def)
next
  case None
  let ?tid = "ctx_tenantId ctx" and ?cart = "sc_cart (no_cart inp)"
  obtain order s1 s2 where cr: "createOrderRow e ctx inp s = Inr (order, s1)"
    and cl: "copyLines e ?tid (o_id order) (sc_lines (no_cart inp)) s1 = Inr s2"
    and ev: "appendEvent e ctx (o_id order) ''order.created'' None (Some Approved)
        (JObj [(''source'', JStr (source_name (no_source inp))), (''paymentStatus'', JStr (payment_name (no_paymentStatus inp)))])
        (redeemCoupon e ?tid (o_id order) ?cart (convertCart e ?tid (c_id ?cart) s2)) = Inr s'"
    using run None by (auto simp: createFromCartSnapshot_def Let_def split: option.splits if_splits)
  have "paid_part s1 = paid_part s"
    using cr by (auto simp: createOrderRow_def nextCounter_eq Let_def paid_part_def)
  then show ?thesis
    using paid_part_copyLines [OF cl] paid_part_appendEvent [OF ev] by (simp add: paid_part_redeemCoupon)
qed

section \<open>A notification is a step of the shop\<close>

lemma approvedOrder_cases:
  assumes run: "approvedOrder e ctx updated eventId s = Inr (target, s')"
  obtains "s' = s" "loadCart ctx (pa_cartId updated) s = None \<or>
      (\<exists>cart. loadCart ctx (pa_cartId updated) s = Some cart \<and> c_status (sc_cart cart) = CartConverted)"
  | cart v created s1 where "loadCart ctx (pa_cartId updated) s = Some cart" "c_status (sc_cart cart) \<noteq> CartConverted"
      "createFromCartSnapshot e ctx (provider_order e cart updated (orElse (pa_processedAt updated) (e_now e))) s
         = Inr ((v, created), s1)"
      "target = Some (o_id (ov_order v), o_locationId (ov_order v))"
      "if created then quiet (ctx_tenantId ctx) s1 s' \<and> paid_part s' = paid_part s1 else s' = s1"
proof (cases "loadCart ctx (pa_cartId updated) s")
  case None
  then show ?thesis using run that(1) by (simp add: approvedOrder_def)
next
  case (Some cart)
  show ?thesis
  proof (cases "c_status (sc_cart cart) = CartConverted")
    case True
    then show ?thesis using run Some that(1) by (simp add: approvedOrder_def)
  next
    case False
    obtain x where c: "createFromCartSnapshot e ctx (provider_order e cart updated (orElse (pa_processedAt updated) (e_now e))) s
         = Inr x"
      using run Some False by (cases "createFromCartSnapshot e ctx
        (provider_order e cart updated (orElse (pa_processedAt updated) (e_now e))) s") (simp_all add: approvedOrder_def)
    obtain v created s1 where x: "x = ((v, created), s1)" by (metis prod.exhaust)
    have rest: "(if created then bnd (appendOutboxEvent e ctx ''order'' (o_id (ov_order v)) ''order.created''
            (JObj [(''orderId'', JStr (o_id (ov_order v))), (''paymentAttemptId'', JStr (pa_id updated))])
            (appendAuditEvent e ctx ''order.create_paid'' ''order'' (o_id (ov_order v)) Allowed
              (JObj [(''paymentAttemptId'', JStr (pa_id updated)), (''providerEventId'', JStr eventId)]) s1)) (\<lambda>s3.
            Inr (Some (o_id (ov_order v), o_locationId (ov_order v)), snd (enqueueOrderTicket e ctx v s3)))
          else Inr (Some (o_id (ov_order v), o_locationId (ov_order v)), s1)) = Inr (target, s')"
      using run Some False unfolding approvedOrder_def Let_def by (simp only: c x option.case bnd.simps prod.case refl not_False_eq_True if_True)
    show ?thesis
    proof (rule that(2) [OF Some False c [unfolded x]])
      show "target = Some (o_id (ov_order v), o_locationId (ov_order v))"
        using rest by (simp split: if_split_asm) blast
      show "if created then quiet (ctx_tenantId ctx) s1 s' \<and> paid_part s' = paid_part s1 else s' = s1"
      proof (cases created)
        case True
        obtain s3 where ob: "appendOutboxEvent e ctx ''order'' (o_id (ov_order v)) ''order.created''
            (JObj [(''orderId'', JStr (o_id (ov_order v))), (''paymentAttemptId'', JStr (pa_id updated))])
            (appendAuditEvent e ctx ''order.create_paid'' ''order'' (o_id (ov_order v)) Allowed
              (JObj [(''paymentAttemptId'', JStr (pa_id updated)), (''providerEventId'', JStr eventId)]) s1) = Inr s3"
          and s': "s' = snd (enqueueOrderTicket e ctx v s3)"
          using rest unfolding if_P [OF True] by (simp only: bnd_Inr_iff sum.inject prod.inject) blast
        show ?thesis
          using True quiet_trans [OF quiet_trans [OF quiet_appendAuditEvent quiet_appendOutboxEvent [OF ob]] quiet_enqueueOrderTicket]
            paid_part_appendOutboxEvent [OF ob] paid_part_enqueueOrderTicket [of e ctx v s3]
          by (simp add: s' paid_part_def appendAuditEvent_def)
      qed (use rest in simp)
    qed
  qed
qed

lemma approvedOrder_step:
  assumes run: "approvedOrder e ctx updated eventId s = Inr (target, s')" and ok: "shop_ok s"
  shows "step_effect (ctx_tenantId ctx) s s'"
  using run
proof (cases rule: approvedOrder_cases)
  case 1
  then show ?thesis using step_effect_refl [OF ok] by simp
next
  case (2 cart v created s1)
  show ?thesis
  proof (cases created)
    case True
    have "findCart (ctx_tenantId ctx) (pa_cartId updated) s = Some (no_cart (provider_order e cart updated (orElse (pa_processedAt updated) (e_now e))))"
      using 2(1) by (simp add: loadCart_def provider_order_def)
    then have "step_effect (ctx_tenantId ctx) s s1"
      by (rule made_sale(1) [OF 2(3) ok _ True refl]) (simp_all add: provider_order_def)
    then show ?thesis using 2(5) True by (auto intro: step_effect_quiet)
  next
    case False
    then show ?thesis using 2(5) unmade_sale [OF 2(3) ok] step_effect_refl [OF ok] by simp
  qed
qed

lemma approvedOrder_paid:
  assumes run: "approvedOrder e ctx updated eventId s = Inr (target, s')"
  shows "paid_part s' = paid_part s"
  using run
proof (cases rule: approvedOrder_cases)
  case (2 cart v created s1)
  then show ?thesis using paid_part_createFromCartSnapshot [OF 2(3)] by (auto split: if_split_asm)
qed simp

definition moved_on :: "env \<Rightarrow> mp_payment \<Rightarrow> int option \<Rightarrow> payment_attempt_row \<Rightarrow> payment_attempt_row" where
  "moved_on e payment processed r = r\<lparr>pa_providerPaymentId := Some (mpp_id payment),
     pa_status := provider_status (mpp_status payment), pa_processedAt := processed,
     pa_failureCode := (if provider_status (mpp_status payment) = PaFailed then Some ''provider_status'' else None),
     pa_updatedAt := e_now e\<rparr>"

lemma moved_on_simps [simp]:
  "pa_id (moved_on e p t r) = pa_id r" "pa_tenantId (moved_on e p t r) = pa_tenantId r"
  "pa_cartId (moved_on e p t r) = pa_cartId r" "pa_status (moved_on e p t r) = provider_status (mpp_status p)"
  by (simp_all add: moved_on_def)

lemma moveAttempt_Inr:
  assumes run: "moveAttempt e ctx accountId attempt payment eventId s = Inr s'"
  defines "here \<equiv> own_attempt (ctx_tenantId ctx) accountId (pa_id attempt)"
  obtains processed s3 where "quiet (ctx_tenantId ctx) s s3"
    "paid_part s3 = (tb_integrations s, upd here (moved_on e payment processed) (tb_attempts s), tb_webhooks s)"
    "if provider_status (mpp_status payment) = PaApproved \<and> list_ex here (tb_attempts s)
     then \<exists>row target s4. upd_ret here (moved_on e payment processed) (tb_attempts s) = Some row
       \<and> approvedOrder e ctx row eventId s3 = Inr (target, s4) \<and> quiet (ctx_tenantId ctx) s4 s' \<and> paid_part s' = paid_part s4
     else s' = s3"
proof -
  let ?tid = "ctx_tenantId ctx" and ?st = "provider_status (mpp_status payment)"
  let ?s1 = "insertRoute \<lparr>pv_resourceType = RoutePayment, pv_externalId = mpp_id payment, pv_tenantId = ?tid,
    pv_integrationAccountId = accountId, pv_localResourceId = pa_id attempt\<rparr> s"
  let ?u = "\<lambda>processed. updateAttemptFromWebhook e ?tid accountId (pa_id attempt) (mpp_id payment) ?st processed
           (if ?st = PaFailed then Some ''provider_status'' else None) ?s1"
  obtain processed s3 where ob: "appendOutboxEvent e ctx ''payment_attempt'' (pa_id attempt) ''mercadopago.payment.updated''
        (JObj [(''providerEventId'', JStr eventId), (''status'', JStr (attempt_status_name ?st))]) (snd (?u processed)) = Inr s3"
    and rest: "(case fst (?u processed) of
        None \<Rightarrow> Inr s3
      | Some row \<Rightarrow> if ?st \<noteq> PaApproved then Inr s3
          else bnd (approvedOrder e ctx row eventId s3) (\<lambda>(target, s4). case target of None \<Rightarrow> Inr s4
            | Some order \<Rightarrow> bnd (financeRow e ?tid order payment attempt s4) (\<lambda>fin. upsertFinance fin s4))) = Inr s'"
    using run unfolding moveAttempt_def Let_def by (auto simp: bnd_Inr_iff case_prod_unfold)
  have u: "fst (?u processed) = upd_ret here (moved_on e payment processed) (tb_attempts s)"
    "paid_part (snd (?u processed)) = (tb_integrations s, upd here (moved_on e payment processed) (tb_attempts s), tb_webhooks s)"
    by (simp_all add: updateAttemptFromWebhook_def insertRoute_def Let_def here_def paid_part_def moved_on_def [abs_def])
  show ?thesis
  proof (rule that)
    show "quiet ?tid s s3"
      using quiet_trans [OF quiet_trans [OF quiet_insertRoute quiet_updateAttemptFromWebhook] quiet_appendOutboxEvent [OF ob]] by simp
    show "paid_part s3 = (tb_integrations s, upd here (moved_on e payment processed) (tb_attempts s), tb_webhooks s)"
      using paid_part_appendOutboxEvent [OF ob] u(2) by simp
    show "if ?st = PaApproved \<and> list_ex here (tb_attempts s)
     then \<exists>row target s4. upd_ret here (moved_on e payment processed) (tb_attempts s) = Some row
       \<and> approvedOrder e ctx row eventId s3 = Inr (target, s4) \<and> quiet ?tid s4 s' \<and> paid_part s' = paid_part s4
     else s' = s3"
    proof (cases "?st = PaApproved \<and> list_ex here (tb_attempts s)")
      case True
      then obtain row where row: "upd_ret here (moved_on e payment processed) (tb_attempts s) = Some row"
        using that by (cases "find here (tb_attempts s)") (auto simp: upd_ret_def list_ex_iff find_None_iff)
      obtain target s4 where a: "approvedOrder e ctx row eventId s3 = Inr (target, s4)"
        and f: "(case target of None \<Rightarrow> Inr s4
            | Some order \<Rightarrow> bnd (financeRow e ?tid order payment attempt s4) (\<lambda>fin. upsertFinance fin s4)) = Inr s'"
        using rest u(1) row True by (auto simp: bnd_Inr_iff)
      have "quiet ?tid s4 s'"
        using f by (cases target) (auto simp: bnd_Inr_iff dest!: financeRow_tenant quiet_upsertFinance)
      moreover have "paid_part s' = paid_part s4"
        using f by (cases target) (auto simp: bnd_Inr_iff paid_part_upsertFinance)
      ultimately show ?thesis using True row a by auto
    next
      case False
      show ?thesis
      proof (cases "fst (?u processed)")
        case None
        then show ?thesis using rest False by auto
      next
        case (Some row)
        then have "list_ex here (tb_attempts s)"
          using u(1) sel1_Some_in sel1_Some_P by (fastforce simp: upd_ret_def list_ex_iff sel1_def)
        then show ?thesis using rest Some False by auto
      qed
    qed
  qed
qed

lemma moveAttempt_step:
  assumes run: "moveAttempt e ctx accountId attempt payment eventId s = Inr s'" and ok: "shop_ok s"
  shows "step_effect (ctx_tenantId ctx) s s'"
  using run
proof (cases rule: moveAttempt_Inr)
  case (1 processed s3)
  have ok3: "shop_ok s3" by (rule shop_ok_quiet [OF 1(1) ok])
  have "step_effect (ctx_tenantId ctx) s3 s'"
    using 1(3) step_effect_refl [OF ok3]
    by (auto split: if_split_asm dest: approvedOrder_step [OF _ ok3] intro: step_effect_quiet)
  then show ?thesis by (rule step_effect_after_quiet [OF 1(1)])
qed

lemma webhookIn_Inr:
  assumes run: "webhookIn isUuid e ctx accountId event payload payment s = Inr (res, s')"
  obtains found stored s1 where "routedAttempt isUuid (ctx_tenantId ctx) accountId payment s = Inr found"
    "persistEvent e ctx event (if found \<noteq> None then WhProcessed else WhIgnored)
      (webhookPayload payload (mpp_id payment) (found \<noteq> None)) s = (stored, s1)"
    "stored = None \<longrightarrow> wo_duplicate res \<and> s' = s1" "stored \<noteq> None \<longrightarrow> \<not> wo_duplicate res"
    "found = None \<longrightarrow> s' = s1" "wo_paymentAttemptId res = map_option pa_id found"
    "\<forall>attempt. stored \<noteq> None \<and> found = Some attempt \<longrightarrow>
       wo_outOfOrder res = (attempt_priority (provider_status (mpp_status payment)) < attempt_priority (pa_status attempt))
       \<and> (if wo_outOfOrder res then s' = s1
          else moveAttempt e ctx accountId attempt payment (we_providerEventId event) s1 = Inr s')"
proof -
  obtain found where f: "routedAttempt isUuid (ctx_tenantId ctx) accountId payment s = Inr found"
    using run by (auto simp: webhookIn_def bnd_Inr_iff)
  obtain stored s1 where p: "persistEvent e ctx event (if found \<noteq> None then WhProcessed else WhIgnored)
      (webhookPayload payload (mpp_id payment) (found \<noteq> None)) s = (stored, s1)"
    by (cases "persistEvent e ctx event (if found \<noteq> None then WhProcessed else WhIgnored)
      (webhookPayload payload (mpp_id payment) (found \<noteq> None)) s")
  have r: "(case stored of None \<Rightarrow> Inr (\<lparr>wo_duplicate = True, wo_routed = found \<noteq> None, wo_outOfOrder = False,
                wo_paymentAttemptId = map_option pa_id found, wo_webhookEventId = None\<rparr>, s1)
      | Some eventRow \<Rightarrow> (case found of
                 None \<Rightarrow> Inr (\<lparr>wo_duplicate = False, wo_routed = False, wo_outOfOrder = False,
                     wo_paymentAttemptId = None, wo_webhookEventId = Some eventRow\<rparr>, s1)
               | Some attempt \<Rightarrow>
                   (let outOfOrder = attempt_priority (provider_status (mpp_status payment)) < attempt_priority (pa_status attempt)
                    in bnd (if outOfOrder then Inr s1
                            else moveAttempt e ctx accountId attempt payment (we_providerEventId event) s1) (\<lambda>s2.
                       Inr (\<lparr>wo_duplicate = False, wo_routed = True, wo_outOfOrder = outOfOrder,
                         wo_paymentAttemptId = Some (pa_id attempt), wo_webhookEventId = Some eventRow\<rparr>, s2))))) = Inr (res, s')"
    using run unfolding webhookIn_def f bnd.simps Let_def p prod.case .
  show ?thesis
    by (rule that [OF f p]) (use r in \<open>auto simp: bnd_Inr_iff Let_def split: option.splits if_splits\<close>)
qed

lemma webhookIn_step:
  assumes run: "webhookIn isUuid e ctx accountId event payload payment s = Inr (res, s')" and ok: "shop_ok s"
  shows "step_effect (ctx_tenantId ctx) s s'"
proof (rule webhookIn_Inr [OF run])
  fix found stored s1
  assume p: "persistEvent e ctx event (if found \<noteq> None then WhProcessed else WhIgnored)
      (webhookPayload payload (mpp_id payment) (found \<noteq> None)) s = (stored, s1)"
    and cs: "stored = None \<longrightarrow> wo_duplicate res \<and> s' = s1" "found = None \<longrightarrow> s' = s1"
    and mv: "\<forall>attempt. stored \<noteq> None \<and> found = Some attempt \<longrightarrow>
       wo_outOfOrder res = (attempt_priority (provider_status (mpp_status payment)) < attempt_priority (pa_status attempt))
       \<and> (if wo_outOfOrder res then s' = s1
          else moveAttempt e ctx accountId attempt payment (we_providerEventId event) s1 = Inr s')"
  have q: "quiet (ctx_tenantId ctx) s s1" using quiet_persistEvent p by (metis snd_conv)
  have "step_effect (ctx_tenantId ctx) s1 s'"
  proof (cases "stored = None \<or> found = None")
    case True
    then show ?thesis using cs step_effect_refl [OF shop_ok_quiet [OF q ok]] by auto
  next
    case False
    then obtain attempt where "found = Some attempt" by auto
    then show ?thesis
      using mv False moveAttempt_step [OF _ shop_ok_quiet [OF q ok]] step_effect_refl [OF shop_ok_quiet [OF q ok]]
      by (auto split: if_split_asm)
  qed
  then show ?thesis by (rule step_effect_after_quiet [OF q])
qed

lemma webhook_step:
  assumes ok: "shop_ok s" and acc: "resolveAccount routingKey s = Some account"
  shows "step_effect (ia_tenantId account) s (snd (receiveMercadoPagoWebhook isUuid e mp routingKey event payload cid s))"
proof -
  have "step_effect (ia_tenantId account) s (snd (with_tenant (webhookIn isUuid e ctx accountId event payload payment) s))"
    if "ctx_tenantId ctx = ia_tenantId account" for ctx accountId payment
    using ok by (rule step_effect_tenant) (use webhookIn_step [OF _ ok] that in metis)
  then show ?thesis
    using step_effect_refl [OF ok]
    by (auto simp: receiveMercadoPagoWebhook_def acc createVerifiedTenantContext_def split: sum.split)
qed

section \<open>The properties of a notification\<close>

lemma moveAttempt_paid:
  assumes "moveAttempt e ctx accountId attempt payment eventId s = Inr s'"
  shows "\<exists>processed. paid_part s' = (tb_integrations s,
    upd (own_attempt (ctx_tenantId ctx) accountId (pa_id attempt)) (moved_on e payment processed) (tb_attempts s), tb_webhooks s)"
  using assms
proof (cases rule: moveAttempt_Inr)
  case (1 processed s3)
  then have "paid_part s' = paid_part s3" by (auto dest: approvedOrder_paid split: if_split_asm)
  then show ?thesis using 1(2) by auto
qed

lemma persistEvent_paid:
  assumes "persistEvent e ctx event st payload s = (stored, s1)"
  shows "tb_integrations s1 = tb_integrations s" "tb_attempts s1 = tb_attempts s"
    "stored = None \<Longrightarrow> s1 = s"
    "stored \<noteq> None \<Longrightarrow> \<exists>r \<in> set (tb_webhooks s1). wh_tenantId r = ctx_tenantId ctx
       \<and> wh_providerEventId r = we_providerEventId event \<and> wh_topic r = we_topic event"
  using assms by (auto simp: persistEvent_def Let_def split: if_split_asm)

lemma persistEvent_again:
  assumes "\<exists>r \<in> set (tb_webhooks s). wh_tenantId r = ctx_tenantId ctx \<and> wh_providerEventId r = we_providerEventId event
     \<and> wh_topic r = we_topic event"
  shows "persistEvent e ctx event st payload s = (None, s)"
proof -
  have "\<exists>q \<in> set (tb_webhooks s). webhook_clash row q"
    if "wh_tenantId row = ctx_tenantId ctx" "wh_providerEventId row = we_providerEventId event" "wh_topic row = we_topic event" for row
    using assms that unfolding webhook_clash_def by metis
  then show ?thesis unfolding persistEvent_def Let_def list_ex_iff by simp
qed

lemma webhookIn_paid:
  assumes run: "webhookIn isUuid e ctx accountId event payload payment s = Inr (res, s')"
  shows "tb_integrations s' = tb_integrations s"
    "\<not> wo_duplicate res \<Longrightarrow> \<exists>r \<in> set (tb_webhooks s'). wh_tenantId r = ctx_tenantId ctx
       \<and> wh_providerEventId r = we_providerEventId event \<and> wh_topic r = we_topic event"
    "tb_attempts s' = tb_attempts s \<or> (\<exists>attempt processed. routedAttempt isUuid (ctx_tenantId ctx) accountId payment s = Inr (Some attempt)
       \<and> attempt_priority (pa_status attempt) \<le> attempt_priority (provider_status (mpp_status payment))
       \<and> tb_attempts s' = upd (own_attempt (ctx_tenantId ctx) accountId (pa_id attempt)) (moved_on e payment processed) (tb_attempts s))"
proof -
  obtain found stored s1 where f: "routedAttempt isUuid (ctx_tenantId ctx) accountId payment s = Inr found"
    and p: "persistEvent e ctx event (if found \<noteq> None then WhProcessed else WhIgnored)
      (webhookPayload payload (mpp_id payment) (found \<noteq> None)) s = (stored, s1)"
    and cs: "stored = None \<longrightarrow> wo_duplicate res \<and> s' = s1" "found = None \<longrightarrow> s' = s1"
    and mv: "\<forall>attempt. stored \<noteq> None \<and> found = Some attempt \<longrightarrow>
       wo_outOfOrder res = (attempt_priority (provider_status (mpp_status payment)) < attempt_priority (pa_status attempt))
       \<and> (if wo_outOfOrder res then s' = s1
          else moveAttempt e ctx accountId attempt payment (we_providerEventId event) s1 = Inr s')"
    by (rule webhookIn_Inr [OF run]) blast
  note pe = persistEvent_paid [OF p]
  consider (same) "s' = s1" | (moved) attempt processed where "stored \<noteq> None" "found = Some attempt"
      "attempt_priority (pa_status attempt) \<le> attempt_priority (provider_status (mpp_status payment))"
      "paid_part s' = (tb_integrations s1,
        upd (own_attempt (ctx_tenantId ctx) accountId (pa_id attempt)) (moved_on e payment processed) (tb_attempts s1), tb_webhooks s1)"
  proof (cases "s' = s1")
    case False
    then obtain attempt where a: "stored \<noteq> None" "found = Some attempt" using cs by auto
    then have "\<not> wo_outOfOrder res" "moveAttempt e ctx accountId attempt payment (we_providerEventId event) s1 = Inr s'"
      using mv False by (auto split: if_split_asm)
    then show ?thesis using moved [OF a] mv a moveAttempt_paid by (fastforce simp: not_less)
  qed
  note c = this
  show "tb_integrations s' = tb_integrations s" using c by cases (use pe in \<open>simp_all add: paid_part_def\<close>)
  show "\<exists>r \<in> set (tb_webhooks s'). wh_tenantId r = ctx_tenantId ctx
       \<and> wh_providerEventId r = we_providerEventId event \<and> wh_topic r = we_topic event" if "\<not> wo_duplicate res"
    using c by cases (use pe cs that in \<open>auto simp: paid_part_def\<close>)
  show "tb_attempts s' = tb_attempts s \<or> (\<exists>attempt processed. routedAttempt isUuid (ctx_tenantId ctx) accountId payment s = Inr (Some attempt)
       \<and> attempt_priority (pa_status attempt) \<le> attempt_priority (provider_status (mpp_status payment))
       \<and> tb_attempts s' = upd (own_attempt (ctx_tenantId ctx) accountId (pa_id attempt)) (moved_on e payment processed) (tb_attempts s))"
    using c by cases (use pe f in \<open>auto simp: paid_part_def\<close>)
qed

lemma receive_cases:
  assumes "resolveAccount routingKey s = Some account"
  obtains err where "receiveMercadoPagoWebhook isUuid e mp routingKey event payload cid s = (Inl err, s)"
  | ctx payment res s' where "ctx_tenantId ctx = ia_tenantId account"
      "bnd (decryptTokens mp account) (\<lambda>token. pvd_payment mp token (we_resourceId event)) = Inr payment"
      "webhookIn isUuid e ctx (ia_id account) event payload payment s = Inr (res, s')"
      "receiveMercadoPagoWebhook isUuid e mp routingKey event payload cid s = (Inr res, s')"
proof (cases "bnd (decryptTokens mp account) (\<lambda>token. pvd_payment mp token (we_resourceId event))")
  case (Inl err)
  then show ?thesis using that(1) assms by (simp add: receiveMercadoPagoWebhook_def)
next
  case pay: (Inr payment)
  show ?thesis
  proof (cases "createVerifiedTenantContext (ia_tenantId account) cid SrcWebhook (ServiceActor ''mercadopago:webhook'') None")
    case (Inl err)
    then show ?thesis using that(1) [of ContextRejected] assms pay by (simp add: receiveMercadoPagoWebhook_def)
  next
    case ctx: (Inr ctx)
    have t: "ctx_tenantId ctx = ia_tenantId account"
      using ctx by (auto simp: createVerifiedTenantContext_def split: if_split_asm)
    have run: "receiveMercadoPagoWebhook isUuid e mp routingKey event payload cid s
        = with_tenant (webhookIn isUuid e ctx (ia_id account) event payload payment) s"
      by (simp only: receiveMercadoPagoWebhook_def assms pay ctx option.case sum.case)
    show ?thesis
    proof (cases "webhookIn isUuid e ctx (ia_id account) event payload payment s")
      case (Inl err)
      then show ?thesis using that(1) [of err] run by (simp add: with_tenant_def transact_def)
    next
      case (Inr rs)
      then show ?thesis using that(2) [OF t pay] run
        by (cases rs) (simp add: with_tenant_def transact_def)
    qed
  qed
qed

text \<open>A store whose customer was sent to the provider, and what the provider may say.\<close>

definition sample_waiting :: payment_attempt_row where
  "sample_waiting = \<lparr>pa_id = ''a1'', pa_tenantId = ''t1'', pa_cartId = c_id sample_cart, pa_integrationAccountId = ''i1'',
     pa_providerPreferenceId = Some ''pref1'', pa_providerPaymentId = None, pa_status = PaProcessing, pa_amount = 200000,
     pa_currency = ''ARS'', pa_customerSnapshot = JObj [], pa_notes = None, pa_scheduledFor = Some 1700003600000,
     pa_idempotencyKey = ''k1'', pa_processedAt = None, pa_failureCode = None, pa_createdAt = 0, pa_updatedAt = 0\<rparr>"

definition sample_away :: db where
  "sample_away = (sample_checkout 0)\<lparr>tb_attempts := [sample_waiting], tb_routes := [\<lparr>pv_resourceType = RoutePreference,
     pv_externalId = ''pref1'', pv_tenantId = ''t1'', pv_integrationAccountId = ''i1'', pv_localResourceId = ''a1''\<rparr>]\<rparr>"

definition sample_payment :: "string \<Rightarrow> mp_payment" where
  "sample_payment status = \<lparr>mpp_id = ''p9'', mpp_status = Some status, mpp_preferenceId = Some ''pref1'', mpp_metadata = [],
     mpp_dateApproved = None, mpp_transactionAmount = None, mpp_netReceivedAmount = None, mpp_feeDetails = [],
     mpp_taxesAmount = None, mpp_taxes = [], mpp_moneyReleaseDate = None, mpp_moneyReleaseStatus = None, mpp_dateReleased = None\<rparr>"

abbreviation sample_news :: "string \<Rightarrow> db \<Rightarrow> (app_error + webhook_outcome) \<times> db" where
  "sample_news status \<equiv> receiveMercadoPagoWebhook (\<lambda>_. True) sample_env
     (sample_provider (Inr sample_preference) (Inr (sample_payment status))) ''k''
     \<lparr>we_providerEventId = ''ev1'', we_resourceId = ''p9'', we_topic = ''payment''\<rparr> [] ''r2''"

lemma sample_away_fields:
  "tb_attempts sample_away = [sample_waiting]" "tb_orders sample_away = []" "tb_carts sample_away = [sample_cart]"
  by (simp_all add: sample_away_def sample_checkout_def sample_store_def empty_db_def sample_cart_fields
      sample_cart_def cartRow_def)

lemma sample_away_ok: "shop_ok sample_away"
proof -
  have c: "carts_ok sample_away = carts_ok (sample_checkout 0)" by (simp add: carts_ok_def lines_of_def sample_away_def)
  have e: "tb_orders sample_away = []" "tb_orderLines sample_away = []" "tb_movements sample_away = []" "tb_orderEvents sample_away = []"
    "tb_outbox sample_away = []" "tb_idempotency sample_away = []" "tb_shifts sample_away = []" "tb_counters sample_away = []"
    by (simp_all add: sample_away_def sample_checkout_def sample_store_def empty_db_def)
  have i: "tb_items sample_away = tb_items sample_store" by (simp add: sample_away_def sample_checkout_def)
  have "ledger_ok (ledger_of sample_away)" by (simp add: ledger_ok_def e booked_def moves_of_def settled_def uniq_def)
  moreover have "log_ok sample_away" by (simp add: log_ok_def event_numbers_def outbox_numbers_def counter_def e)
  moreover have "orders_ok sample_away" by (simp add: orders_ok_def e uniq_def counter_def)
  moreover have "stock_ok sample_away" "shifts_ok sample_away" "idem_ok sample_away"
    by (simp_all add: stock_ok_def shifts_ok_def idem_ok_def e i sample_store_def uniq_def)
  ultimately show ?thesis using sample_checkout_ok [of 0] by (simp add: shop_ok_def c)
qed

lemma sample_runs:
  "(case sample_news ''approved'' sample_away of (r, s) \<Rightarrow>
     r = Inr \<lparr>wo_duplicate = False, wo_routed = True, wo_outOfOrder = False, wo_paymentAttemptId = Some ''a1'',
           wo_webhookEventId = Some (fresh_id sample_env sample_away)\<rparr>
     \<and> map pa_status (tb_attempts s) = [PaApproved] \<and> map o_total (tb_orders s) = [200000])
   \<and> (case sample_news ''rejected'' sample_away of (r, s) \<Rightarrow>
     (case r of Inl _ \<Rightarrow> False | Inr out \<Rightarrow> wo_routed out \<and> wo_outOfOrder out)
     \<and> (case resolveStorefront sample_env ''la-pizza'' s of Inl _ \<Rightarrow> False | Inr t \<Rightarrow> st_id t = ''t1'')
     \<and> fst (sample_session (Inr sample_preference) ''k2'' s) = Inl (PaymentError SessionConflict))"
  by code_simp

lemmas sample_approved = sample_runs [THEN conjunct1]
lemmas sample_declined = sample_runs [THEN conjunct2]

text \<open>
  C13. A notification is taken in once: when an event has been stored, delivering it again, at any later
  time and whatever the provider says of the payment then, changes nothing; the answer is an error or says
  that it is a duplicate.
\<close>

theorem webhook_once:
  assumes first: "receiveMercadoPagoWebhook isUuid e mp routingKey event payload cid s = (Inr out, s1)"
    and new: "\<not> wo_duplicate out"
    and again: "receiveMercadoPagoWebhook isUuid' e' mp' routingKey event payload' cid' s1 = (r, s2)"
  shows "s2 = s1 \<and> (case r of Inl _ \<Rightarrow> True | Inr out' \<Rightarrow> wo_duplicate out')"
proof -
  obtain account where a: "resolveAccount routingKey s = Some account"
    using first by (cases "resolveAccount routingKey s") (simp_all add: receiveMercadoPagoWebhook_def)
  obtain ctx payment where t: "ctx_tenantId ctx = ia_tenantId account"
    and w: "webhookIn isUuid e ctx (ia_id account) event payload payment s = Inr (out, s1)"
    using first by (rule_tac receive_cases [OF a, of isUuid e mp event payload cid]) auto
  have a1: "resolveAccount routingKey s1 = Some account" using a webhookIn_paid(1) [OF w] by (simp add: resolveAccount_def)
  show ?thesis
  proof (rule receive_cases [OF a1, of isUuid' e' mp' event payload' cid'])
    fix ctx' payment' res s'
    assume t': "ctx_tenantId ctx' = ia_tenantId account"
      and w': "webhookIn isUuid' e' ctx' (ia_id account) event payload' payment' s1 = Inr (res, s')"
      and r: "receiveMercadoPagoWebhook isUuid' e' mp' routingKey event payload' cid' s1 = (Inr res, s')"
    have "persistEvent e' ctx' event st p s1 = (None, s1)" for st p
      by (rule persistEvent_again) (use webhookIn_paid(2) [OF w new] t t' in simp)
    then have "wo_duplicate res \<and> s' = s1" by (rule_tac webhookIn_Inr [OF w']) auto
    then show ?thesis using r again by simp
  qed (use again in auto)
qed

theorem webhook_once_witness:
  "snd (sample_news ''approved'' (snd (sample_news ''approved'' sample_away))) = snd (sample_news ''approved'' sample_away)
     \<and> map o_total (tb_orders (snd (sample_news ''approved'' (snd (sample_news ''approved'' sample_away))))) = [200000]"
proof -
  obtain out s1 where 1: "sample_news ''approved'' sample_away = (Inr out, s1)" "\<not> wo_duplicate out" "map o_total (tb_orders s1) = [200000]"
    using sample_approved by (cases "sample_news ''approved'' sample_away") auto
  obtain r s2 where 2: "sample_news ''approved'' s1 = (r, s2)" by fastforce
  show ?thesis using webhook_once [OF 1(1,2) 2] 1 2 by simp
qed

text \<open>
  C16. News never undo newer news: a notification leaves every attempt where it was or moves it to a status
  of the same or a higher rank. Rejected and failed have the lowest rank of all, below an attempt that
  has only been initiated: a rejection is never recorded on an attempt that is under way.
\<close>

theorem news_never_older:
  assumes run: "snd (receiveMercadoPagoWebhook isUuid e mp routingKey event payload cid s) = s'"
    and ids: "uniq pa_id (tb_attempts s)"
  shows "list_all2 (\<lambda>a b. pa_id b = pa_id a \<and> attempt_priority (pa_status a) \<le> attempt_priority (pa_status b)
      \<and> (attempt_priority (pa_status a) \<ge> 2 \<longrightarrow> pa_status b \<noteq> PaRejected \<and> pa_status b \<noteq> PaFailed))
    (tb_attempts s) (tb_attempts s')"
proof -
  have low: "attempt_priority x \<ge> 2 \<Longrightarrow> x \<noteq> PaRejected \<and> x \<noteq> PaFailed" for x by (cases x) simp_all
  have refl: "list_all2 (\<lambda>a b. pa_id b = pa_id a \<and> attempt_priority (pa_status a) \<le> attempt_priority (pa_status b)
      \<and> (attempt_priority (pa_status a) \<ge> 2 \<longrightarrow> pa_status b \<noteq> PaRejected \<and> pa_status b \<noteq> PaFailed)) t t" for t
    by (rule list_all2_refl) (simp add: low)
  show ?thesis
  proof (cases "resolveAccount routingKey s")
    case None
    then show ?thesis using run refl by (auto simp: receiveMercadoPagoWebhook_def)
  next
    case (Some account)
    show ?thesis
    proof (rule receive_cases [OF Some, of isUuid e mp event payload cid])
      fix ctx payment res s2
      assume w: "webhookIn isUuid e ctx (ia_id account) event payload payment s = Inr (res, s2)"
        and r: "receiveMercadoPagoWebhook isUuid e mp routingKey event payload cid s = (Inr res, s2)"
      from webhookIn_paid(3) [OF w] show ?thesis
      proof
        assume "tb_attempts s2 = tb_attempts s"
        then show ?thesis using run r refl by simp
      next
        assume "\<exists>attempt processed. routedAttempt isUuid (ctx_tenantId ctx) (ia_id account) payment s = Inr (Some attempt)
          \<and> attempt_priority (pa_status attempt) \<le> attempt_priority (provider_status (mpp_status payment))
          \<and> tb_attempts s2 = upd (own_attempt (ctx_tenantId ctx) (ia_id account) (pa_id attempt)) (moved_on e payment processed) (tb_attempts s)"
        then obtain attempt processed where m: "attempt \<in> set (tb_attempts s)"
            "attempt_priority (pa_status attempt) \<le> attempt_priority (provider_status (mpp_status payment))"
            "tb_attempts s2 = upd (own_attempt (ctx_tenantId ctx) (ia_id account) (pa_id attempt)) (moved_on e payment processed) (tb_attempts s)"
          by (auto simp: routedAttempt_def findPaymentAttempt_def Let_def split: if_split_asm dest: sel1_Some_in)
        have "pa_status a = pa_status attempt"
          if "a \<in> set (tb_attempts s)" "own_attempt (ctx_tenantId ctx) (ia_id account) (pa_id attempt) a" for a
          using that uniq_eq [of pa_id "tb_attempts s" a attempt] ids m(1) own_attempt_id by metis
        then show ?thesis
          using run r m(2) low unfolding m(3) upd_def list_all2_map2
          by (fastforce intro: list_all2_same [THEN iffD2] simp: m(3) upd_def list_all2_map2)
      qed
    qed (use run refl in auto)
  qed
qed

theorem news_never_older_witness:
  "list_all2 (\<lambda>a b. pa_id b = pa_id a \<and> attempt_priority (pa_status a) \<le> attempt_priority (pa_status b)
      \<and> (attempt_priority (pa_status a) \<ge> 2 \<longrightarrow> pa_status b \<noteq> PaRejected \<and> pa_status b \<noteq> PaFailed))
    [sample_waiting] (tb_attempts (snd (sample_news ''approved'' sample_away)))
   \<and> map pa_status (tb_attempts (snd (sample_news ''approved'' sample_away))) = [PaApproved]"
proof -
  have "uniq pa_id (tb_attempts sample_away)" by (simp add: sample_away_fields uniq_def)
  from news_never_older [OF refl this] show ?thesis
    using sample_approved by (simp only: sample_away_fields case_prod_unfold)
qed

text \<open>
  C17. A declined card closes the shop to its cart: when an attempt of a cart is under way at the provider, and a
  notification comes in while the provider says that the payment was rejected, or anything but approved or pending, the attempt
  stays as it was; and every further request for a payment session of the cart, with any key, changes nothing
  and gets an error, or an answer that was stored under its key before. (The witness: the notification is
  acknowledged, and the customer who tries again is refused as a conflict.)
\<close>

theorem declined_payment_blocks_cart:
  assumes run: "receiveMercadoPagoWebhook isUuid e mp routingKey event payload cid s = (res, s')"
    and declined: "\<forall>token i payment. pvd_payment mp token i = Inr payment \<longrightarrow> provider_status (mpp_status payment) \<in> {PaRejected, PaFailed}"
    and a: "a \<in> set (tb_attempts s)" "pa_status a \<in> {PaInitiated, PaProcessing, PaPending}"
    and ids: "uniq pa_id (tb_attempts s)"
    and shop: "resolveStorefront e' slug s' = Inr tenant" "st_id tenant = pa_tenantId a"
  shows "a \<in> set (tb_attempts s') \<and> turned_away (pa_tenantId a) (pa_cartId a) key s'
    (createPaymentSession isEmail isDatetime e' mp' correlationId slug (pa_cartId a) key body baseUrl s')"
proof -
  have stays: "a \<in> set (tb_attempts s')"
  proof (cases "resolveAccount routingKey s")
    case None
    then show ?thesis using run a by (auto simp: receiveMercadoPagoWebhook_def)
  next
    case (Some account)
    show ?thesis
    proof (rule receive_cases [OF Some, of isUuid e mp event payload cid])
      fix ctx payment out s2
      assume pay: "bnd (decryptTokens mp account) (\<lambda>token. pvd_payment mp token (we_resourceId event)) = Inr payment"
        and w: "webhookIn isUuid e ctx (ia_id account) event payload payment s = Inr (out, s2)"
        and r: "receiveMercadoPagoWebhook isUuid e mp routingKey event payload cid s = (Inr out, s2)"
      have low: "provider_status (mpp_status payment) \<in> {PaRejected, PaFailed}"
        using pay declined by (auto simp: bnd_Inr_iff)
      from webhookIn_paid(3) [OF w] have "a \<in> set (tb_attempts s2)"
      proof (elim disjE exE conjE)
        fix attempt processed
        assume m: "routedAttempt isUuid (ctx_tenantId ctx) (ia_id account) payment s = Inr (Some attempt)"
          "attempt_priority (pa_status attempt) \<le> attempt_priority (provider_status (mpp_status payment))"
          "tb_attempts s2 = upd (own_attempt (ctx_tenantId ctx) (ia_id account) (pa_id attempt)) (moved_on e payment processed) (tb_attempts s)"
        have "attempt \<in> set (tb_attempts s)"
          using m(1) by (auto simp: routedAttempt_def findPaymentAttempt_def Let_def split: if_split_asm dest: sel1_Some_in)
        moreover have "attempt \<noteq> a" using m(2) low a(2) by auto
        ultimately have "\<not> own_attempt (ctx_tenantId ctx) (ia_id account) (pa_id attempt) a"
          using uniq_eq [OF ids _ a(1), of attempt] own_attempt_id by metis
        then show ?thesis unfolding m(3) set_upd using a(1) by force
      qed (use a(1) in simp)
      then show ?thesis using run r by simp
    qed (use run a in auto)
  qed
  then have "findActiveByCartId (pa_tenantId a) (pa_cartId a) s' \<noteq> None"
    using a(2) by (auto simp: no_active attempt_active_def)
  then show ?thesis using stays session_while_active [OF _ shop(1)] shop(2) by simp
qed

theorem declined_payment_blocks_cart_witness:
  "(case sample_news ''rejected'' sample_away of (r, s') \<Rightarrow>
     sample_waiting \<in> set (tb_attempts s') \<and> (case r of Inl _ \<Rightarrow> False | Inr out \<Rightarrow> wo_routed out \<and> wo_outOfOrder out)
     \<and> turned_away ''t1'' (c_id sample_cart) ''k2'' s' (sample_session (Inr sample_preference) ''k2'' s')
     \<and> fst (sample_session (Inr sample_preference) ''k2'' s') = Inl (PaymentError SessionConflict))"
proof -
  obtain r s' where f: "sample_news ''rejected'' sample_away = (r, s')" by (cases "sample_news ''rejected'' sample_away")
  obtain tenant where o: "resolveStorefront sample_env ''la-pizza'' s' = Inr tenant" "st_id tenant = ''t1''"
    "case r of Inl _ \<Rightarrow> False | Inr out \<Rightarrow> wo_routed out \<and> wo_outOfOrder out"
    and c: "fst (sample_session (Inr sample_preference) ''k2'' s') = Inl (PaymentError SessionConflict)"
    using sample_declined by (auto simp: f split: sum.splits)
  have st: "\<forall>token i payment. pvd_payment (sample_provider (Inr sample_preference) (Inr (sample_payment ''rejected''))) token i = Inr payment
      \<longrightarrow> provider_status (mpp_status payment) \<in> {PaRejected, PaFailed}"
    by (auto simp: sample_provider_def sample_payment_def provider_status_def)
  have u: "uniq pa_id (tb_attempts sample_away)" "sample_waiting \<in> set (tb_attempts sample_away)"
    "pa_status sample_waiting \<in> {PaInitiated, PaProcessing, PaPending}"
    "pa_tenantId sample_waiting = ''t1''" "pa_cartId sample_waiting = c_id sample_cart"
    by (simp_all add: sample_away_fields uniq_def sample_waiting_def)
  from declined_payment_blocks_cart [OF f st u(2,3,1) o(1)] show ?thesis using o c u by (simp add: f)
qed

section \<open>An approved payment\<close>

lemma created_order:
  "createFromCartSnapshot e ctx inp s = Inr ((v, True), s') \<Longrightarrow> \<exists>n k sx. ov_order v = orderRow e (ctx_tenantId ctx) inp n k sx"
  by (auto simp: createFromCartSnapshot_def createOrderRow_def nextCounter_eq Let_def hydrate_def serializeOrder_def
      split: option.splits if_splits) blast

lemma findCart_core: "tb_carts s' = tb_carts s \<Longrightarrow> map_option sc_cart (findCart tid cid s') = map_option sc_cart (findCart tid cid s)"
  by (simp add: findCart_def split: option.split)

lemma approvedOrder_makes:
  assumes run: "approvedOrder e ctx updated eventId s = Inr (target, s')" and ok: "shop_ok s"
    and cart: "findCart (ctx_tenantId ctx) (pa_cartId updated) s = Some cart" "c_status (sc_cart cart) \<noteq> CartConverted"
    and new: "\<forall>r \<in> set (tb_orders s). o_tenantId r = ctx_tenantId ctx \<longrightarrow> o_idempotencyKey r \<noteq> ''payment-attempt:'' @ pa_id updated"
  shows "\<exists>order. tb_orders s' = tb_orders s @ [order] \<and> o_tenantId order = ctx_tenantId ctx \<and> o_cartId order = pa_cartId updated
    \<and> o_paymentStatus order = Paid \<and> o_paymentAttemptId order = Some (pa_id updated) \<and> o_total order = c_total (sc_cart cart)
    \<and> o_scheduledFor order = None
    \<and> (\<exists>c \<in> set (tb_carts s'). c_tenantId c = ctx_tenantId ctx \<and> c_id c = pa_cartId updated \<and> c_status c = CartConverted)"
  using run
proof (cases rule: approvedOrder_cases)
  case (2 cart' v created s1)
  let ?inp = "provider_order e cart updated (orElse (pa_processedAt updated) (e_now e))"
  have c': "cart' = cart" using 2(1) cart by (simp add: loadCart_def)
  have cid: "c_id (sc_cart cart) = pa_cartId updated" by (rule findCart_key [OF cart(1)])
  have cr: "createFromCartSnapshot e ctx ?inp s = Inr ((v, created), s1)" using 2(3) unfolding c' .
  have created
  proof (rule ccontr)
    assume "\<not> created"
    then have "findByIdempotencyKey ctx (no_idempotencyKey ?inp) s \<noteq> None"
      using cr by (auto simp: createFromCartSnapshot_def Let_def split: option.splits if_splits)
    then obtain r where "sel1 (\<lambda>r. o_tenantId r = ctx_tenantId ctx \<and> o_idempotencyKey r = ''payment-attempt:'' @ pa_id updated) (tb_orders s) = Some r"
      by (auto simp: findByIdempotencyKey_def provider_order_def)
    from sel1_Some_in [OF this] sel1_Some_P [OF this] show False using new by blast
  qed
  have eff: "made_from ?inp (ov_order v)" "sale_effect (ctx_tenantId ctx) (ov_order v) (sc_lines cart) [] s s1"
    using createFromCartSnapshot_effect [OF cr shop_okD(9) [OF ok]] \<open>created\<close> by (simp_all add: provider_order_def)
  obtain n k sx where row: "ov_order v = orderRow e (ctx_tenantId ctx) ?inp n k sx"
    using created_order [of e ctx ?inp s v s1] cr \<open>created\<close> by auto
  have "tb_orders s' = tb_orders s1" "tb_carts s' = tb_carts s1"
    using quiet_core [of "ctx_tenantId ctx" s1 s'] 2(5) \<open>created\<close> by (simp_all add: core_def)
  moreover obtain c where "c \<in> set (tb_carts s1)" "c_tenantId c = ctx_tenantId ctx" "c_id c = pa_cartId updated" "c_status c = CartConverted"
  proof -
    obtain c where "sel1 (\<lambda>r. c_tenantId r = ctx_tenantId ctx \<and> c_id r = o_cartId (ov_order v)) (tb_carts s) = Some c"
      using eff(2) unfolding sale_effect_def by blast
    note c = sel1_Some_in [OF this] sel1_Some_P [OF this]
    obtain e' where "tb_carts s1 = converted e' (ctx_tenantId ctx) (o_cartId (ov_order v)) (tb_carts s)"
      using eff(2) unfolding sale_effect_def by blast
    then show ?thesis
      using c that [of "c\<lparr>c_status := CartConverted, c_updatedAt := e_now e'\<rparr>"] row cid
      by (force simp: converted_def upd_def orderRow_def Let_def provider_order_def)
  qed
  moreover have "tb_orders s1 = tb_orders s @ [ov_order v]" using eff(2) by (simp add: sale_effect_def)
  ultimately show ?thesis using row cid by (auto simp: orderRow_def Let_def provider_order_def)
qed (use cart in \<open>auto simp: loadCart_def\<close>)

text \<open>
  C11. An approved payment becomes an order: when a notification that is new and routed to an attempt reports
  an approved payment, and the attempt's cart has not been converted, exactly one order is added, of that
  store, cart and attempt, paid and with the total of the cart, and the cart is converted. The order has
  no date to be ready for: the date the customer agreed at checkout is not on it.
\<close>

theorem approved_payment_makes_order:
  assumes run: "receiveMercadoPagoWebhook isUuid e mp routingKey event payload cid s = (Inr out, s')"
    and account: "resolveAccount routingKey s = Some account"
    and payment: "bnd (decryptTokens mp account) (\<lambda>token. pvd_payment mp token (we_resourceId event)) = Inr payment"
      "mpp_status payment = Some ''approved''"
    and fresh: "\<not> wo_duplicate out"
    and attempt: "wo_paymentAttemptId out = Some (pa_id attempt)" "attempt \<in> set (tb_attempts s)" "uniq pa_id (tb_attempts s)"
    and cart: "findCart (ia_tenantId account) (pa_cartId attempt) s = Some cart" "c_status (sc_cart cart) \<noteq> CartConverted"
    and new: "\<forall>r \<in> set (tb_orders s). o_tenantId r = ia_tenantId account \<longrightarrow> o_idempotencyKey r \<noteq> ''payment-attempt:'' @ pa_id attempt"
    and ok: "shop_ok s"
  shows "\<exists>order. tb_orders s' = tb_orders s @ [order] \<and> o_tenantId order = ia_tenantId account \<and> o_cartId order = pa_cartId attempt
    \<and> o_paymentStatus order = Paid \<and> o_paymentAttemptId order = Some (pa_id attempt) \<and> o_total order = c_total (sc_cart cart)
    \<and> o_scheduledFor order = None
    \<and> (\<exists>c \<in> set (tb_carts s'). c_tenantId c = ia_tenantId account \<and> c_id c = pa_cartId attempt \<and> c_status c = CartConverted)"
proof -
  obtain ctx where t: "ctx_tenantId ctx = ia_tenantId account"
    and w: "webhookIn isUuid e ctx (ia_id account) event payload payment s = Inr (out, s')"
    using run payment(1) by (rule_tac receive_cases [OF account, of isUuid e mp event payload cid]) auto
  obtain found stored s1 where f: "routedAttempt isUuid (ctx_tenantId ctx) (ia_id account) payment s = Inr found"
    and p: "persistEvent e ctx event (if found \<noteq> None then WhProcessed else WhIgnored)
      (webhookPayload payload (mpp_id payment) (found \<noteq> None)) s = (stored, s1)"
    and out: "stored = None \<longrightarrow> wo_duplicate out \<and> s' = s1" "wo_paymentAttemptId out = map_option pa_id found"
    and mv: "\<forall>attempt. stored \<noteq> None \<and> found = Some attempt \<longrightarrow>
       wo_outOfOrder out = (attempt_priority (provider_status (mpp_status payment)) < attempt_priority (pa_status attempt))
       \<and> (if wo_outOfOrder out then s' = s1
          else moveAttempt e ctx (ia_id account) attempt payment (we_providerEventId event) s1 = Inr s')"
    by (rule webhookIn_Inr [OF w]) blast
  have st: "stored \<noteq> None" "map_option pa_id found = Some (pa_id attempt)" using out fresh attempt(1) by auto
  have approved: "provider_status (mpp_status payment) = PaApproved" by (simp add: payment(2) provider_status_def)
  obtain a where a: "found = Some a" "pa_id a = pa_id attempt" using st(2) by auto
  then have at: "a \<in> set (tb_attempts s)" "own_attempt (ctx_tenantId ctx) (ia_id account) (pa_id attempt) a"
    using f by (auto simp: routedAttempt_def findPaymentAttempt_def Let_def own_attempt_def split: if_split_asm
        dest: sel1_Some_in sel1_Some_P)
  have "a = attempt" using uniq_eq [OF attempt(3) at(1) attempt(2) a(2)] .
  have "attempt_priority x \<le> 4" for x by (cases x) simp_all
  then have run2: "moveAttempt e ctx (ia_id account) attempt payment (we_providerEventId event) s1 = Inr s'"
    using mv st(1) a(1) \<open>a = attempt\<close> approved by (auto simp: not_less [symmetric])
  let ?here = "own_attempt (ctx_tenantId ctx) (ia_id account) (pa_id attempt)"
  have q1: "quiet (ctx_tenantId ctx) s s1" using quiet_persistEvent p by (metis snd_conv)
  have s1: "tb_attempts s1 = tb_attempts s" using persistEvent_paid [OF p] by simp
  show ?thesis
  using run2
  proof (cases rule: moveAttempt_Inr)
    case (1 processed s3)
    have ex: "list_ex ?here (tb_attempts s1)" using at \<open>a = attempt\<close> s1 by (auto simp: list_ex_iff)
    obtain row target s4 where row: "upd_ret ?here (moved_on e payment processed) (tb_attempts s1) = Some row"
      and ao: "approvedOrder e ctx row (we_providerEventId event) s3 = Inr (target, s4)" and q4: "quiet (ctx_tenantId ctx) s4 s'"
      using 1(3) approved ex by auto
    obtain r where r: "find ?here (tb_attempts s) = Some r" "row = moved_on e payment processed r"
      using row by (auto simp: upd_ret_def s1)
    have "r = attempt" using r(1) at \<open>a = attempt\<close> attempt uniq_eq own_attempt_id sel1_Some_in sel1_Some_P
      unfolding sel1_def by metis
    have q: "quiet (ctx_tenantId ctx) s s3" by (rule quiet_trans [OF q1 1(1)])
    note k = quiet_core [OF q, unfolded core_def]
    obtain cart3 where c3: "findCart (ctx_tenantId ctx) (pa_cartId attempt) s3 = Some cart3" "sc_cart cart3 = sc_cart cart"
      using findCart_core [of s3 s "ctx_tenantId ctx" "pa_cartId attempt"] k cart(1) t by auto
    from approvedOrder_makes [OF ao shop_ok_quiet [OF q ok], of cart3] obtain order where
      "tb_orders s4 = tb_orders s3 @ [order] \<and> o_tenantId order = ctx_tenantId ctx \<and> o_cartId order = pa_cartId attempt
        \<and> o_paymentStatus order = Paid \<and> o_paymentAttemptId order = Some (pa_id attempt) \<and> o_total order = c_total (sc_cart cart)
        \<and> o_scheduledFor order = None
        \<and> (\<exists>c \<in> set (tb_carts s4). c_tenantId c = ctx_tenantId ctx \<and> c_id c = pa_cartId attempt \<and> c_status c = CartConverted)"
      using c3 r(2) \<open>r = attempt\<close> cart(2) new k t by auto
    then show ?thesis using quiet_core [OF q4] k t by (auto simp: core_def)
  qed
qed

theorem approved_payment_makes_order_witness:
  "\<exists>order. tb_orders (snd (sample_news ''approved'' sample_away)) = [order] \<and> o_paymentStatus order = Paid
     \<and> o_total order = 200000 \<and> o_scheduledFor order = None \<and> pa_scheduledFor sample_waiting \<noteq> None"
proof -
  obtain out s1 where 1: "sample_news ''approved'' sample_away = (Inr out, s1)" "\<not> wo_duplicate out"
      "wo_paymentAttemptId out = Some (pa_id sample_waiting)"
    using sample_approved by (cases "sample_news ''approved'' sample_away") (auto simp: sample_waiting_def)
  obtain account where a: "resolveAccount ''k'' sample_away = Some account" "ia_tenantId account = ''t1''"
      "ia_keyVersion account = 1"
    by (simp add: resolveAccount_def sample_away_def sample_checkout_def sample_store_def sel1_def)
  have p: "bnd (decryptTokens (sample_provider (Inr sample_preference) (Inr (sample_payment ''approved''))) account)
      (\<lambda>token. pvd_payment (sample_provider (Inr sample_preference) (Inr (sample_payment ''approved''))) token
        (we_resourceId \<lparr>we_providerEventId = ''ev1'', we_resourceId = ''p9'', we_topic = ''payment''\<rparr>))
    = Inr (sample_payment ''approved'')"
    by (simp add: decryptTokens_def sample_provider_def a)
  have q: "mpp_status (sample_payment ''approved'') = Some ''approved''" by (simp add: sample_payment_def)
  obtain cart where c: "findCart (ia_tenantId account) (pa_cartId sample_waiting) sample_away = Some cart"
      "c_status (sc_cart cart) \<noteq> CartConverted" "c_total (sc_cart cart) = 200000"
    by (simp add: a findCart_def sample_away_fields sel1_def sample_waiting_def sample_cart_def cartRow_def)
  show ?thesis
    using approved_payment_makes_order [OF 1(1) a(1) p q 1(2,3) _ _ c(1,2) _ sample_away_ok] c(3) 1(1)
    by (simp add: sample_away_fields uniq_def) (auto simp: sample_waiting_def)
qed

end
