(* ===== verification/Requests.thy ===== *)
theory Requests
  imports Notifications
begin

text \<open>
  Every request that acts on the shop, as one step relation (\<open>shop_step\<close>: the store it acts for,
  the state before and after), and the sequences of them (\<open>shop_run\<close>), for the promises that hold
  over any run from a state in which the invariant holds (\<open>shop_ok\<close>; an empty database is one).
  The validators of the requests, the environments, the keys and the bodies are arbitrary.
\<close>

section \<open>The step relation\<close>

inductive shop_step :: "string \<Rightarrow> db \<Rightarrow> db \<Rightarrow> bool" where
  cart_create: "resolveStorefront e slug s = Inr tenant \<Longrightarrow>
    shop_step (st_id tenant) s (snd (cartCreate isUuid e cid slug request key s))"
| cart_get: "resolveStorefront e slug s = Inr tenant \<Longrightarrow> shop_step (st_id tenant) s (snd (cartGet e cid slug cartId s))"
| cart_coupon: "resolveStorefront e slug s = Inr tenant \<Longrightarrow>
    shop_step (st_id tenant) s (snd (snd (cartApplyDiscount e cid slug cartId code ip (m, s))))"
| cart_no_coupon: "resolveStorefront e slug s = Inr tenant \<Longrightarrow>
    shop_step (st_id tenant) s (snd (cartRemoveDiscount e cid slug cartId s))"
| cash_order: "resolveStorefront e slug s = Inr tenant \<Longrightarrow>
    shop_step (st_id tenant) s (snd (createCashOrder isDatetime e cid slug cartId key body s))"
| direct: "shop_step (ctx_tenantId ctx) s (snd (createDirect isUuid isEmail e ctx value key s))"
| items: "shop_step (ctx_tenantId ctx) s (snd (createDirectFromItems isUuid isEmail e ctx request key s))"
| paid: "shop_step (ctx_tenantId ctx) s (snd (createPaidFromPaymentAttempt e ctx attemptId approvedAt s))"
| transition: "shop_step (ctx_tenantId ctx) s (snd (transitionService e ctx orderId expectedVersion change s))"
| collected: "shop_step (ctx_tenantId ctx) s (snd (collectCash e ctx orderId key auth s))"
| refunded: "shop_step (ctx_tenantId ctx) s (snd (refundCash e ctx orderId key reason s))"
| cancelled: "shop_step tenantId s (snd (cancelUnpaid e cid tenantId orderId pin s))"
| expired: "shop_step (o_tenantId candidate) s (snd (expireOne e cid candidate s))"
| session: "resolveStorefront e slug s = Inr tenant \<Longrightarrow>
    shop_step (st_id tenant) s (snd (createPaymentSession isEmail isDatetime e mp cid slug cartId key checkout baseUrl s))"
| notified: "resolveAccount routingKey s = Some account \<Longrightarrow>
    shop_step (ia_tenantId account) s (snd (receiveMercadoPagoWebhook isUuid e mp routingKey event payload cid s))"
| shift_opened: "shop_step (ctx_tenantId ctx) s (snd (openShiftService isUuid e ctx drawer s))"
| shift_closed: "shop_step (ctx_tenantId ctx) s (snd (closeShiftService e ctx shiftId tally s))"

inductive shop_run :: "db \<Rightarrow> db \<Rightarrow> bool" where
  stay: "shop_run s s"
| more: "shop_run s s1 \<Longrightarrow> shop_step tid s1 s2 \<Longrightarrow> shop_run s s2"

lemma visitor_step:
  assumes ok: "shop_ok s" and t: "resolveStorefront e slug s = Inr tenant"
    and body: "\<And>r s'. body tenant s = Inr (r, s') \<Longrightarrow> step_effect (st_id tenant) s s'"
  shows "step_effect (st_id tenant) s (snd (as_visitor e cid slug body s))"
  using step_effect_tenant [OF ok body] step_effect_refl [OF ok]
  by (auto simp: as_visitor_def t split: sum.split)

lemma coupon_step:
  assumes ok: "shop_ok s" and t: "resolveStorefront e slug s = Inr tenant"
  shows "step_effect (st_id tenant) s (snd (snd (cartApplyDiscount e cid slug cartId code ip (m, s))))"
proof -
  have "step_effect (st_id tenant) s (snd (with_tenant (applyDiscountIn e tenant cartId data) s))"
    if "couponFor e tenant cartId code s = (Inr data, v)" for data v
    using ok by (rule step_effect_tenant) (rule applyDiscountIn_step [OF that _ ok])
  then show ?thesis
    using step_effect_refl [OF ok]
    by (auto simp: cartApplyDiscount_def Let_def t case_prod_unfold split: sum.split) (metis prod.collapse)
qed

lemma create_cash_step:
  assumes ok: "shop_ok s" and t: "resolveStorefront e slug s = Inr tenant"
  shows "step_effect (st_id tenant) s (snd (createCashOrder isDatetime e cid slug cartId key body s))"
proof -
  have "step_effect (st_id tenant) s (snd (with_tenant (cashOrderIn e tenant ctx cartId key request) s))"
    if "publicContext tenant cid = Inr ctx" for ctx request
    using ok by (rule step_effect_tenant) (auto intro: cashOrder_step [OF _ ok publicContext_Inr [OF that]])
  then show ?thesis
    using step_effect_refl [OF ok] by (auto simp: createCashOrder_def t split: option.split sum.split)
qed

lemma shop_step_effect: "shop_step tid s s' \<Longrightarrow> shop_ok s \<Longrightarrow> step_effect tid s s'"
proof (induction rule: shop_step.induct)
  case (cart_create e slug s tenant isUuid cid request key)
  have "step_effect (st_id tenant) s (snd (with_tenant (createCartIn e tenant r key) s))" for r
    using cart_create.prems by (rule step_effect_tenant) (rule createCartIn_step [OF _ cart_create.prems])
  then show ?case
    using step_effect_refl [OF cart_create.prems]
    by (auto simp: cartCreate_def cart_create.hyps split: option.split sum.split)
next
  case (cart_get e slug s tenant cid cartId)
  show ?case unfolding cartGet_def
    using cart_get.prems cart_get.hyps by (rule visitor_step) (rule getCartIn_step [OF _ cart_get.prems])
next
  case (cart_no_coupon e slug s tenant cid cartId)
  show ?case unfolding cartRemoveDiscount_def
    using cart_no_coupon.prems cart_no_coupon.hyps by (rule visitor_step) (rule removeDiscountIn_step [OF _ cart_no_coupon.prems])
next
  case (direct ctx s isUuid isEmail e request key)
  have "step_effect (ctx_tenantId ctx) s (snd (with_tenant (createDirectIn e ctx r key) s))" for r
    using direct.prems by (rule step_effect_tenant) (rule createDirect_step [OF _ direct.prems])
  then show ?case
    using step_effect_refl [OF direct.prems] by (simp add: createDirect_def split: option.split)
next
  case (items ctx s isUuid isEmail e request key)
  have "step_effect (ctx_tenantId ctx) s (snd (with_tenant (createItemsIn e ctx r key) s))"
    if "createDirectOrderSchemaFromItems isUuid isEmail request = Some r" for r
    using items.prems by (rule step_effect_tenant) (rule createItems_step [OF _ items.prems items_payment [OF that]])
  then show ?case
    using step_effect_refl [OF items.prems] by (simp add: createDirectFromItems_def split: option.split)
next
  case (paid ctx s e attemptId approvedAt)
  show ?case unfolding createPaidFromPaymentAttempt_def
    using paid.prems by (rule step_effect_tenant) (rule createPaid_step [OF _ paid.prems])
next
  case (shift_opened ctx s isUuid e drawer)
  have "step_effect (ctx_tenantId ctx) s (snd (with_tenant (openShiftIn e ctx drawer) s))"
    using shift_opened by (rule step_effect_tenant) (rule openShift_step [OF _ shift_opened])
  then show ?case using step_effect_refl [OF shift_opened] by (simp add: openShiftService_def)
next
  case (shift_closed ctx s e shiftId tally)
  have "step_effect (ctx_tenantId ctx) s (snd (with_tenant (closeShiftIn e ctx shiftId tally) s))"
    using shift_closed by (rule step_effect_tenant) (rule closeShift_step [OF _ shift_closed])
  then show ?case using step_effect_refl [OF shift_closed] by (simp add: closeShiftService_def)
qed (blast intro: session_step webhook_step coupon_step create_cash_step transition_step collect_step refund_step cancel_step expire_step)+

lemma shop_run_ok: "shop_run s s' \<Longrightarrow> shop_ok s \<Longrightarrow> shop_ok s'"
  by (induction rule: shop_run.induct) (auto dest: shop_step_effect simp: step_effect_def)

lemma shop_run_one: "shop_step tid s s' \<Longrightarrow> shop_run s s'"
  by (rule shop_run.more [OF shop_run.stay])

end
