(* ===== verification/Promises.thy ===== *)
theory Promises
  imports Requests
begin

text \<open>
  What the shop promises over any run of requests, and of single requests whatever the state.

  The witnesses start at \<open>sample_desk\<close>: a store with one order of two pizzas that waits for its
  payment at the counter; the run collects it.
\<close>

section \<open>A sample desk\<close>

definition sample_cart_line :: cart_line_row where
  "sample_cart_line = \<lparr>cl_id = ''cl1'', cl_tenantId = ''t1'', cl_cartId = c_id sample_cart, cl_itemId = Some ''p1'',
     cl_comboId = None, cl_itemType = Unit, cl_quantity = 2, cl_nameSnapshot = ''Muzzarella'',
     cl_unitPriceSnapshot = 100000, cl_lineTotal = 200000, cl_imageUrlSnapshot = None, cl_note = None, cl_createdAt = 0\<rparr>"

definition sample_desk :: db where
  "sample_desk = sample_store\<lparr>
     tb_carts := [sample_cart\<lparr>c_status := CartConverted\<rparr>], tb_cartLines := [sample_cart_line],
     tb_orders := [sample_order_row StorefrontCash Pending],
     tb_orderLines := [orderLineRow sample_env ''t1'' (fresh_id sample_env empty_db) sample_cart_line empty_db],
     tb_counters := [\<lparr>tc_tenantId = ''t1'', tc_counterType = ''purchase_number'', tc_currentValue = 1\<rparr>],
     uuid_next := 7\<rparr>"

abbreviation sample_collect :: "db \<Rightarrow> (app_error + stored_response) \<times> db" where
  "sample_collect \<equiv> collectCash sample_env sample_context (fresh_id sample_env empty_db) ''k1'' (AccountAuth, None)"

lemma sample_collected:
  "case sample_collect sample_desk of (r, s) \<Rightarrow>
     r = Inr (200, collect_response (sample_order_row StorefrontCash Paid\<lparr>o_version := 2\<rparr>) 1700000000000)
     \<and> map o_paymentStatus (tb_orders s) = [Paid] \<and> map cm_amount (tb_movements s) = [200000]"
  by code_simp

lemma sample_desk_fields:
  "tb_orders sample_desk = [sample_order_row StorefrontCash Pending]" "tb_movements sample_desk = []"
  "tb_carts sample_desk = [sample_cart\<lparr>c_status := CartConverted\<rparr>]" "tb_cartLines sample_desk = [sample_cart_line]"
  "tb_orderLines sample_desk = [orderLineRow sample_env ''t1'' (fresh_id sample_env empty_db) sample_cart_line empty_db]"
  "tb_orderEvents sample_desk = []" "tb_outbox sample_desk = []" "tb_idempotency sample_desk = []" "tb_shifts sample_desk = []"
  "counter tid ct sample_desk = (if tid = ''t1'' \<and> ct = ''purchase_number'' then 1 else 0)"
  "tb_items sample_desk = tb_items sample_store"
  by (simp_all add: sample_desk_def sample_store_def empty_db_def counter_def)

lemma sample_desk_ok: "shop_ok sample_desk"
proof -
  let ?o = "sample_order_row StorefrontCash Pending"
  have c: "c_id sample_cart = o_cartId ?o" "c_tenantId sample_cart = ''t1''" "c_subtotal sample_cart = 200000"
    "c_discountTotal sample_cart = 0" "c_total sample_cart = 200000"
    by (simp_all add: sample_cart_def sample_order_row_def sample_new_order_def)
  have n: "o_purchaseNumber ?o = 1" by (simp add: sample_order_row_def)
  have "ledger_ok (ledger_of sample_desk)"
    by (simp add: ledger_ok_def sample_desk_fields booked_def moves_of_def settled_def uniq_def)
  moreover have "log_ok sample_desk"
    by (simp add: log_ok_def event_numbers_def outbox_numbers_def sample_desk_fields)
  moreover have "orders_ok sample_desk"
    by (simp add: orders_ok_def sample_desk_fields uniq_def order_priced_def cart_used_def line_of_def orderLineRow_def
        sample_cart_line_def c n)
  moreover have "carts_ok sample_desk"
    by (simp add: carts_ok_def sample_desk_fields uniq_def line_priced_def cart_line_check_def sample_cart_line_def
        discounted_def lines_of_def numeric12_2_def c)
  moreover have "stock_ok sample_desk" "shifts_ok sample_desk" "idem_ok sample_desk"
    by (simp_all add: stock_ok_def shifts_ok_def idem_ok_def sample_desk_fields sample_store_def uniq_def)
  ultimately show ?thesis by (simp add: shop_ok_def)
qed

lemma sample_run: "shop_run sample_desk (snd (sample_collect sample_desk))"
  by (rule shop_run_one [OF shop_step.collected])

section \<open>Cash\<close>

lemma ledger_run: "shop_run s s' \<Longrightarrow> shop_ok s \<Longrightarrow> ledger_step\<^sup>*\<^sup>* (ledger_of s) (ledger_of s') \<and> shop_ok s'"
proof (induction rule: shop_run.induct)
  case (more s s1 tid s2)
  have ih: "ledger_step\<^sup>*\<^sup>* (ledger_of s) (ledger_of s1)" "shop_ok s1" using more by blast+
  have "step_effect tid s1 s2" by (rule shop_step_effect [OF more.hyps(2) ih(2)])
  then show ?case using ih by (auto simp: step_effect_def intro: rtranclp.rtrancl_into_rtrancl)
qed simp

text \<open>
  C1. The services refine the cash ledger: whatever customers, staff, the payment webhook and the
  clock do, in whatever order and however often, the tables of orders and cash movements go through
  a sequence of the ledger's steps (an order opened, opened with its deposit, collected with one,
  refunded with a withdrawal, or moved on without touching the money), and nothing else.
\<close>

theorem cash_ledger_refined:
  assumes "shop_run s s'" and "shop_ok s"
  shows "ledger_step\<^sup>*\<^sup>* (ledger_of s) (ledger_of s')"
  using ledger_run [OF assms] by blast

theorem cash_ledger_refined_witness:
  "ledger_step\<^sup>*\<^sup>* (ledger_of sample_desk) (ledger_of (snd (sample_collect sample_desk)))
     \<and> map cm_amount (tb_movements (snd (sample_collect sample_desk))) = [200000]"
  using cash_ledger_refined [OF sample_run sample_desk_ok] sample_collected by (simp add: case_prod_unfold)

text \<open>
  C2. The register balances, up to the orders of the payment provider: after any run of requests the
  deposits less the withdrawals recorded for a store are the totals of its cash orders of the counter and
  the storefront that stand as paid, none counted twice and none that was refunded, plus the balance
  of the movements recorded for orders of the provider. These are no cash sales, and a refund of one
  in cash makes that balance negative.
\<close>

theorem register_balances:
  assumes "shop_run s s'" and "shop_ok s"
  shows "register_cash tid (tb_movements s')
    = (\<Sum>r\<leftarrow>filter (\<lambda>r. o_tenantId r = tid \<and> owes_deposit r \<and> o_paymentStatus r = Paid) (tb_orders s'). o_total r)
      + (\<Sum>r\<leftarrow>filter (\<lambda>r. o_tenantId r = tid \<and> provider r) (tb_orders s'). order_cash (tb_movements s') r)"
  using register_balance [of "ledger_of s'" tid] ledger_run [OF assms] shop_okD(1) [of s'] by simp

theorem register_balances_witness:
  "register_cash ''t1'' (tb_movements (snd (sample_collect sample_desk)))
    = (\<Sum>r\<leftarrow>filter (\<lambda>r. o_tenantId r = ''t1'' \<and> owes_deposit r \<and> o_paymentStatus r = Paid)
        (tb_orders (snd (sample_collect sample_desk))). o_total r)
      + (\<Sum>r\<leftarrow>filter (\<lambda>r. o_tenantId r = ''t1'' \<and> provider r) (tb_orders (snd (sample_collect sample_desk))).
          order_cash (tb_movements (snd (sample_collect sample_desk))) r)
   \<and> map o_paymentStatus (tb_orders (snd (sample_collect sample_desk))) = [Paid]"
  using register_balances [OF sample_run sample_desk_ok, of "''t1''"] sample_collected by (simp add: case_prod_unfold)

section \<open>Events\<close>

lemma filter_upto: "0 \<le> n \<Longrightarrow> filter (\<lambda>i. n < i) [1..m] = [n + 1..m]" for n m :: int
proof (cases "n \<le> m")
  case True
  assume "0 \<le> n"
  then have "[1..m] = [1..n] @ [n + 1..m]" using True upto_split2 [of 1 n m] by (cases "n = 0") auto
  moreover have "filter (\<lambda>i. n < i) [1..n] = []" "filter (\<lambda>i. n < i) [n + 1..m] = [n + 1..m]"
    by (auto simp: filter_empty_conv intro: filter_True)
  ultimately show ?thesis by simp
next
  case False
  then show ?thesis by (auto simp: filter_empty_conv)
qed

lemma map_insert_by_key: "map f (insert_by (\<lambda>a b. f a \<le> f b) x xs) = insort (f x) (map f xs)" for f :: "'a \<Rightarrow> int"
  by (induction xs) simp_all

lemma map_sort_by_key: "map f (sort_by (\<lambda>a b. f a \<le> f b) xs) = sort (map f xs)" for f :: "'a \<Rightarrow> int"
  unfolding sort_by_def by (induction xs) (simp_all add: map_insert_by_key)

lemma events_after:
  assumes "log_ok s" "0 \<le> n"
  shows "map oe_sequence (listEventsAfter ctx n k s) = take k [n + 1..currentEventSequence ctx s]"
proof -
  let ?tid = "ctx_tenantId ctx"
  have "map oe_sequence (filter (\<lambda>r. oe_tenantId r = ?tid \<and> n < oe_sequence r) (tb_orderEvents s))
      = filter (\<lambda>i. n < i) (event_numbers ?tid s)"
    by (simp add: event_numbers_def filter_map o_def conj_commute)
  also have "\<dots> = [n + 1..currentEventSequence ctx s]"
    using assms by (simp add: log_ok_def currentEventSequence_def filter_upto)
  finally have m: "map oe_sequence (filter (\<lambda>r. oe_tenantId r = ?tid \<and> n < oe_sequence r) (tb_orderEvents s))
      = [n + 1..currentEventSequence ctx s]" .
  show ?thesis
    unfolding listEventsAfter_def take_map [symmetric] map_sort_by_key m by simp
qed

text \<open>
  C5. No event is missed: after any run of requests the events of a store are numbered without
  gaps up to its current sequence, so that a reader who has seen everything up to some number and
  asks for what follows gets exactly the next events, in order and without omission, as many as it
  asked for; and the outbox of the store is numbered without gaps too.
\<close>

theorem no_event_missed:
  assumes "shop_run s s'" and "shop_ok s" and "0 \<le> n"
  shows "map oe_sequence (listEventsAfter ctx n k s') = take k [n + 1..currentEventSequence ctx s']
    \<and> outbox_numbers tid s' = [1..int (length (outbox_numbers tid s'))]"
proof -
  have ok: "log_ok s'" using ledger_run [OF assms(1,2)] shop_okD(2) by blast
  have "outbox_numbers tid s' = [1..counter tid ''outbox_sequence'' s']" "0 \<le> counter tid ''outbox_sequence'' s'"
    using ok by (simp_all add: log_ok_def)
  then show ?thesis using events_after [OF ok assms(3)] by simp
qed

theorem no_event_missed_witness:
  "map oe_sequence (listEventsAfter sample_context 0 100 (snd (sample_collect sample_desk)))
     = take 100 [1..currentEventSequence sample_context (snd (sample_collect sample_desk))]"
  using no_event_missed [OF sample_run sample_desk_ok, of 0] by simp

section \<open>Orders, stock and stores\<close>

text \<open>
  C3. Orders are accounted for: after any run of requests no two orders come from one cart; every
  order's subtotal is the sum of its own order lines, each line its unit price times its quantity, its
  discount lies between nothing and the subtotal and its total is their difference; and the orders
  of a store carry the purchase numbers 1, 2, 3 and so on.
\<close>

theorem orders_accounted:
  assumes "shop_run s s'" and "shop_ok s"
  shows "distinct (map (\<lambda>r. (o_tenantId r, o_cartId r)) (tb_orders s'))
    \<and> list_all (order_priced (tb_orderLines s')) (tb_orders s')
    \<and> map o_purchaseNumber (filter (\<lambda>r. o_tenantId r = tid) (tb_orders s'))
      = [1..int (length (filter (\<lambda>r. o_tenantId r = tid) (tb_orders s')))]"
proof -
  have ok: "orders_ok s'" "log_ok s'" using ledger_run [OF assms] shop_okD(2,3) by blast+
  have n: "map o_purchaseNumber (filter (\<lambda>r. o_tenantId r = tid) (tb_orders s')) = [1..counter tid ''purchase_number'' s']"
    "0 \<le> counter tid ''purchase_number'' s'"
    using ok by (simp_all add: orders_ok_def log_ok_def)
  have "length (map o_purchaseNumber (filter (\<lambda>r. o_tenantId r = tid) (tb_orders s'))) = nat (counter tid ''purchase_number'' s')"
    unfolding n(1) by simp
  then have "int (length (filter (\<lambda>r. o_tenantId r = tid) (tb_orders s'))) = counter tid ''purchase_number'' s'"
    using n(2) by simp
  then show ?thesis using ok(1) n(1) by (simp add: orders_ok_def uniq_def list_all_iff)
qed

theorem orders_accounted_witness:
  "list_all (order_priced (tb_orderLines (snd (sample_collect sample_desk)))) (tb_orders (snd (sample_collect sample_desk)))
     \<and> map o_paymentStatus (tb_orders (snd (sample_collect sample_desk))) = [Paid]"
  using orders_accounted [OF sample_run sample_desk_ok] sample_collected by (simp add: case_prod_unfold)

text \<open>
  C4. Stores are isolated: a request of one store, whichever it is and whether it succeeds or
  fails, leaves every row of every other store, in all tables, as it was.
\<close>

theorem stores_isolated:
  assumes "shop_step tid s s'" and "shop_ok s"
  shows "others tid s' = others tid s"
  using shop_step_effect [OF assms] by (simp add: step_effect_def)

theorem stores_isolated_witness:
  "others ''t1'' (snd (sample_collect sample_desk)) = others ''t1'' sample_desk
     \<and> map cm_amount (tb_movements (snd (sample_collect sample_desk))) = [200000]"
proof -
  have t: "ctx_tenantId sample_context = ''t1''" by (simp add: sample_context_def)
  show ?thesis
    using stores_isolated [OF shop_step.collected [of sample_context] sample_desk_ok] sample_collected
    by (simp add: case_prod_unfold t)
qed

text \<open>
  C6. Stock is never oversold: when an order is made, each tracked product had at least the
  quantity the order's lines take of it, has exactly that much less afterwards, and so never goes
  below zero; products that are not tracked keep their figure.
\<close>

theorem stock_never_oversold:
  assumes "createFromCartSnapshot e ctx inp s = Inr ((view, True), s')" and "stock_ok s"
    and "r \<in> set (tb_items s)" and "ci_tenantId r = ctx_tenantId ctx"
  shows "\<exists>r' \<in> set (tb_items s'). ci_id r' = ci_id r \<and> 0 \<le> ci_stockQuantity r'
    \<and> ci_stockQuantity r' = ci_stockQuantity r - (if ci_trackStock r then sold (ci_id r) (sc_lines (no_cart inp)) else 0)"
proof -
  have "uniq ci_id (tb_items s)" "0 \<le> ci_stockQuantity r" using assms(2,3) by (simp_all add: stock_ok_def)
  moreover have "list_all2 (takes (ctx_tenantId ctx) (sc_lines (no_cart inp))) (tb_items s) (tb_items s')"
    using createFromCartSnapshot_effect [OF assms(1)] calculation(1) by (simp add: sale_effect_def)
  then obtain r' where "r' \<in> set (tb_items s')" "takes (ctx_tenantId ctx) (sc_lines (no_cart inp)) r r'"
    using assms(3) by (metis in_set_conv_nth list_all2_conv_all_nth)
  ultimately show ?thesis using assms(4) by (auto simp: takes_def)
qed

definition sample_basket :: new_order where
  "sample_basket = (sample_new_order StorefrontCash Pending)\<lparr>no_cart := \<lparr>sc_cart = sample_cart, sc_lines = [(sample_cart_line, [])]\<rparr>\<rparr>"

lemma sample_sold:
  "case createFromCartSnapshot sample_env sample_context sample_basket (sample_store\<lparr>tb_carts := [sample_cart]\<rparr>) of
     Inl e \<Rightarrow> False | Inr ((view, created), s') \<Rightarrow> created \<and> map ci_stockQuantity (tb_items s') = [3]"
  by code_simp

theorem stock_never_oversold_witness:
  "\<exists>view s'. createFromCartSnapshot sample_env sample_context sample_basket (sample_store\<lparr>tb_carts := [sample_cart]\<rparr>)
       = Inr ((view, True), s')
     \<and> (\<exists>r' \<in> set (tb_items s'). ci_id r' = ''p1'' \<and> 0 \<le> ci_stockQuantity r')"
proof -
  let ?s = "sample_store\<lparr>tb_carts := [sample_cart]\<rparr>"
  obtain view s' where run: "createFromCartSnapshot sample_env sample_context sample_basket ?s = Inr ((view, True), s')"
    using sample_sold by (auto split: sum.splits)
  have "stock_ok ?s" by (simp add: stock_ok_def sample_store_def uniq_def)
  moreover obtain r where "r \<in> set (tb_items ?s)" "ci_tenantId r = ctx_tenantId sample_context" "ci_id r = ''p1''"
    by (simp add: sample_store_def sample_context_def)
  ultimately show ?thesis using stock_never_oversold [OF run] run by metis
qed

section \<open>Retries and versions\<close>

lemma quiet_idem: "quiet tid s s' \<Longrightarrow> tb_idempotency s' = tb_idempotency s"
  by (simp add: quiet_def tame_def)

lemma updateOrder_idem: "updateOrder tid order f s = (r, s1) \<Longrightarrow> tb_idempotency s1 = tb_idempotency s"
  by (auto simp: updateOrder_def Let_def)

lemma insertMovement_idem: "insertMovement m s = Inr s' \<Longrightarrow> tb_idempotency s' = tb_idempotency s"
  by (drule insertMovement_state) simp

lemmas idem_frames = quiet_idem [OF quiet_appendTransitionEvent] quiet_idem [OF quiet_appendOutboxEvent]

lemma collectWork_idem:
  assumes "collectWork e ctx oid req s = Inr (r, s')"
  shows "tb_idempotency s' = tb_idempotency s"
  using assms
  by (auto simp: collectWork_def Let_def recordDeposit_def quiet_idem [OF quiet_appendAuditEvent] quiet_idem [OF quiet_enqueueTicket]
      dest!: idem_frames insertMovement_idem updateOrder_idem split: option.splits prod.splits if_splits)

lemma refundWork_idem:
  assumes "refundWork e ctx oid req s = Inr (r, s')"
  shows "tb_idempotency s' = tb_idempotency s"
  using assms
  by (auto simp: refundWork_def Let_def quiet_idem [OF quiet_appendAuditEvent] quiet_idem [OF quiet_cancelRedemption]
      dest!: idem_frames insertMovement_idem updateOrder_idem split: option.splits prod.splits if_splits)

lemma same_hash:
  "e_collate e' = e_collate e \<Longrightarrow> e_hash e' = e_hash e \<Longrightarrow> same_request (e, k) (e', k)"
  by (simp add: same_request_def requestHash_def)

lemma run_again:
  assumes "idempotent (claim e k) (completeClaim e) work s = Inr (r, s')"
    and "\<And>s1 b s2. work s1 = Inr (b, s2) \<Longrightarrow> tb_idempotency s2 = tb_idempotency s1"
    and "same_request (e, k) (e', k')"
  shows "idempotent (claim e' k') (completeClaim e') work' s' = Inr (r, s')"
  using idem.run_twice [of "(e, k)" work s r s' "(e', k')" work'] assms by simp

lemma collected_once:
  assumes c: "ctx_tenantId ctx' = ctx_tenantId ctx" "may_handle_cash ctx'" "e_collate e' = e_collate e" "e_hash e' = e_hash e"
    and run: "collectCash e ctx oid key body s = (Inr r, s')"
  shows "collectCash e' ctx' oid key body s' = (Inr r, s')"
proof -
  obtain q where q: "collectCashSchema body = Some q"
    and w: "idempotent (claim e (collectClaim (ctx_tenantId ctx) oid key q)) (completeClaim e) (collectWork e ctx oid q) s = Inr (r, s')"
    using run by (auto simp: collectCash_def with_tenant_def transact_commit split: option.splits if_splits)
  have "idempotent (claim e' (collectClaim (ctx_tenantId ctx) oid key q)) (completeClaim e') (collectWork e' ctx' oid q) s' = Inr (r, s')"
    by (rule run_again [OF w collectWork_idem same_hash [OF c(3,4)]])
  then show ?thesis using c(1,2) by (simp add: collectCash_def q with_tenant_def transact_commit)
qed

lemma refunded_once:
  assumes c: "ctx_tenantId ctx' = ctx_tenantId ctx" "may_handle_cash ctx'" "e_collate e' = e_collate e" "e_hash e' = e_hash e"
    and run: "refundCash e ctx oid key body s = (Inr r, s')"
  shows "refundCash e' ctx' oid key body s' = (Inr r, s')"
proof -
  obtain q where q: "refundCashSchema body = Some q"
    and w: "idempotent (claim e (refundClaim (ctx_tenantId ctx) oid key q)) (completeClaim e) (refundWork e ctx oid q) s = Inr (r, s')"
    using run by (auto simp: refundCash_def with_tenant_def transact_commit split: option.splits if_splits)
  have "idempotent (claim e' (refundClaim (ctx_tenantId ctx) oid key q)) (completeClaim e') (refundWork e' ctx' oid q) s' = Inr (r, s')"
    by (rule run_again [OF w refundWork_idem same_hash [OF c(3,4)]])
  then show ?thesis using c(1,2) by (simp add: refundCash_def q with_tenant_def transact_commit)
qed

text \<open>
  C7. Cash changes hands once per request: when collecting or refunding an order has succeeded, the
  same request (same order, key and body, by whoever of the store may handle cash) sent again at any
  later time is given the same response and changes nothing, whatever the state of the order.
\<close>

theorem cash_handled_once:
  assumes "ctx_tenantId ctx' = ctx_tenantId ctx" and "may_handle_cash ctx'" and "e_collate e' = e_collate e" and "e_hash e' = e_hash e"
  shows "(collectCash e ctx oid key body s = (Inr r, s') \<longrightarrow> collectCash e' ctx' oid key body s' = (Inr r, s'))
    \<and> (refundCash e ctx oid key reason s = (Inr r, s') \<longrightarrow> refundCash e' ctx' oid key reason s' = (Inr r, s'))"
  using collected_once [OF assms] refunded_once [OF assms] by blast

theorem cash_handled_once_witness:
  "\<exists>r s'. sample_collect sample_desk = (Inr r, s') \<and> map cm_amount (tb_movements s') = [200000]
     \<and> collectCash (sample_env\<lparr>e_now := 1800000000000\<rparr>) sample_context (fresh_id sample_env empty_db) ''k1'' (AccountAuth, None) s'
       = (Inr r, s')"
proof -
  obtain r s' where c: "sample_collect sample_desk = (Inr r, s')" "map cm_amount (tb_movements s') = [200000]"
    using sample_collected by (cases "sample_collect sample_desk") simp
  have "may_handle_cash sample_context" by (simp add: may_handle_cash_def sample_context_def)
  then show ?thesis
    using c cash_handled_once [of sample_context sample_context "sample_env\<lparr>e_now := 1800000000000\<rparr>" sample_env] by simp
qed

text \<open>The guarded write of a status, as an edit that carries the version its author has read.\<close>

definition order_version :: "string \<Rightarrow> string \<Rightarrow> db \<Rightarrow> int option" where
  "order_version tid oid s = map_option o_version (sel1 (order_key tid oid) (tb_orders s))"

definition write_status ::
  "TenantContext \<Rightarrow> string \<Rightarrow> env \<times> FulfillmentStatus \<Rightarrow> int \<Rightarrow> db \<Rightarrow> app_error + unit \<times> db" where
  "write_status ctx oid change v s =
     (case sel1 (order_key (ctx_tenantId ctx) oid) (tb_orders s) of
        None \<Rightarrow> Inl OrderNotFound
      | Some current \<Rightarrow> bnd (transitionWrite (fst change) ctx v (snd change) current s) (\<lambda>s'. Inr ((), s')))"

lemma replaced_version:
  assumes u: "uniq o_id (tb_orders s)" and cur: "sel1 (order_key tid oid) (tb_orders s) = Some cur" and r: "restatus cur r'"
  shows "sel1 (order_key tid oid) (replace_order r' (tb_orders s)) = Some r'"
proof -
  note c = sel1_SomeD [OF cur] and rs = restatus_simps [OF r]
  have "sel1 (order_key tid oid) (upd (\<lambda>q. o_id q = o_id r') (\<lambda>_. r') (tb_orders s))
      = map_option (\<lambda>q. if o_id q = o_id r' then r' else q) (sel1 (order_key tid oid) (tb_orders s))"
  proof (rule sel1_upd)
    fix q assume q: "q \<in> set (tb_orders s)"
    show "order_key tid oid (if o_id q = o_id r' then r' else q) = order_key tid oid q"
      using uniq_eq [OF u q c(1)] rs(1,2) c(2) by (auto simp: order_key_def)
  qed
  then show ?thesis using rs(1) c(2) by (simp add: cur upd_def replace_order_def order_key_def)
qed

interpretation order_write: versioned_write "\<lambda>s. uniq o_id (tb_orders s)" "order_version (ctx_tenantId ctx) oid"
  "write_status ctx oid" for ctx oid
proof
  fix s i v r s'
  assume u: "uniq o_id (tb_orders s)" and run: "write_status ctx oid i v s = Inr (r, s')"
  let ?tid = "ctx_tenantId ctx"
  obtain cur where cur: "sel1 (order_key ?tid oid) (tb_orders s) = Some cur"
    and w: "transitionWrite (fst i) ctx v (snd i) cur s = Inr s'"
    using run by (auto simp: write_status_def split: option.splits)
  note c = sel1_SomeD [OF cur]
  have v: "o_version cur = v" using transitionWrite_effect [OF w quiet_refl u c(1)] by blast
  obtain p where t: "tb_orders s' = replace_order (transitionSet (fst i) (snd i) p cur) (tb_orders s)"
    using transitionWrite_orders [OF w u c(1)] by blast
  have rs: "restatus cur (transitionSet (fst i) (snd i) p cur)" by simp
  show "order_version ?tid oid s = Some v \<and> order_version ?tid oid s' = Some (v + 1) \<and> uniq o_id (tb_orders s')"
    using replaced_version [OF u cur rs] restatus_simps(4) [OF rs] v u
    by (simp add: order_version_def cur t replace_order_uniq)
qed

text \<open>
  C8. Changes of an order's status are serialised: of any sequence of status changes of one order,
  each sent with the version its author had read, those that take effect were prepared on
  consecutive versions, starting with the current one; a change prepared on an older version is
  refused, so nobody overwrites, cancels or refunds what they had not seen.
\<close>

theorem transitions_serialised:
  assumes "uniq o_id (tb_orders s)" and "order_version (ctx_tenantId ctx) oid s = Some n"
  shows "let (accepted, s') = run_writes (write_status ctx oid) changes s in
    accepted = map (\<lambda>k. n + int k) [0..<length accepted]
    \<and> order_version (ctx_tenantId ctx) oid s' = Some (n + int (length accepted))"
  using order_write.run_consecutive [OF assms, of changes] by (simp add: case_prod_unfold Let_def)

abbreviation sample_changes :: "((env \<times> FulfillmentStatus) \<times> int) list" where
  "sample_changes \<equiv> [((sample_env, Preparing), 1), ((sample_env, Cancelled), 1), ((sample_env, Ready), 2)]"

lemma sample_changed: "fst (run_writes (write_status sample_context (fresh_id sample_env empty_db)) sample_changes sample_desk) = [1, 2]"
  by code_simp

theorem transitions_serialised_witness:
  "order_version ''t1'' (fresh_id sample_env empty_db)
     (snd (run_writes (write_status sample_context (fresh_id sample_env empty_db)) sample_changes sample_desk)) = Some 3"
proof -
  let ?run = "run_writes (write_status sample_context (fresh_id sample_env empty_db)) sample_changes sample_desk"
  have t: "ctx_tenantId sample_context = ''t1''" by (simp add: sample_context_def)
  have "o_version (sample_order_row StorefrontCash Pending) = 1" by (simp add: sample_order_row_def orderRow_def Let_def)
  then have "order_version (ctx_tenantId sample_context) (fresh_id sample_env empty_db) sample_desk = Some 1"
    by (simp add: order_version_def sample_desk_fields order_key_def t)
  from transitions_serialised [OF shop_okD(8) [OF sample_desk_ok] this, of sample_changes]
  show ?thesis using sample_changed by (cases ?run) (simp add: t)
qed

section \<open>Shifts\<close>

text \<open>
  C10. The cash a closed shift is expected to hold is exact: although the service adds the opening
  balance and the cash sales as floating point numbers and rounds the sum, for amounts up to 2 to
  the 47 cents (more than a trillion) the figure it stores is the sum to the cent.
\<close>

theorem expected_cash_exact:
  assumes "closeShiftIn e ctx shiftId inp s = Inr (Some v, s')" and "shifts_ok s"
    and "0 \<le> cs_openingBalance (sv_shift v)" "cs_openingBalance (sv_shift v) \<le> 2 ^ 47"
    and "0 \<le> sv_cashSales v" "sv_cashSales v \<le> 2 ^ 47"
  shows "cs_expectedCash (sv_shift v) = Some (cs_openingBalance (sv_shift v) + sv_cashSales v)
    \<and> sv_expectedCash v = cs_openingBalance (sv_shift v) + sv_cashSales v"
  using assms(1)
proof (rule closeShiftIn_state)
  fix tally expected memo shift
  assume sh: "sel1 (\<lambda>r. cs_tenantId r = ctx_tenantId ctx \<and> cs_id r = shiftId) (tb_shifts s) = Some shift"
    and v: "Some v = map_option (\<lambda>r. \<lparr>sv_shift = r, sv_cashSales = fst (cash_sales (ctx_tenantId ctx) (cs_openedAt shift) (Some (e_now e)) s),
        sv_orderCount = snd (cash_sales (ctx_tenantId ctx) (cs_openedAt shift) (Some (e_now e)) s), sv_expectedCash = expected\<rparr>)
        (map_option (closeSet e tally expected memo) (sel1 (\<lambda>r. cs_id r = shiftId) (tb_shifts s)))"
    and ex: "expected = expectedCash (cs_openingBalance shift)
        (fst (cash_sales (ctx_tenantId ctx) (cs_openedAt shift) (Some (e_now e)) s))"
  have u: "uniq cs_id (tb_shifts s)" using assms(2) by (simp add: shifts_ok_def)
  obtain q where q: "sel1 (\<lambda>r. cs_id r = shiftId) (tb_shifts s) = Some q"
    and vq: "sv_shift v = closeSet e tally expected memo q" "sv_expectedCash v = expected"
      "sv_cashSales v = fst (cash_sales (ctx_tenantId ctx) (cs_openedAt shift) (Some (e_now e)) s)"
    using v by (cases "sel1 (\<lambda>r. cs_id r = shiftId) (tb_shifts s)") simp_all
  have "q = shift" using uniq_eq [OF u] sel1_SomeD [OF q] sel1_SomeD [OF sh] by auto
  then have "cs_openingBalance (sv_shift v) = cs_openingBalance shift" "cs_expectedCash (sv_shift v) = Some expected"
    by (simp_all add: vq(1) closeSet_def)
  moreover from this have "expected = cs_openingBalance (sv_shift v) + sv_cashSales v"
    using expectedCash_exact [OF assms(3-6)] ex vq(3) by simp
  ultimately show ?thesis using vq(2) by simp
qed

definition sample_till :: db where
  "sample_till = sample_desk\<lparr>tb_orders := [sample_order_row StorefrontCash Paid],
     tb_shifts := [\<lparr>cs_id = ''s1'', cs_tenantId = ''t1'', cs_locationId = Some ''l1'', cs_registerIdentifier = ''default'',
       cs_openedByUserId = ''owner1'', cs_openingBalance = 50000, cs_closingBalance = None, cs_expectedCash = None,
       cs_status = ShiftOpen, cs_openedAt = 0, cs_closedAt = None, cs_notes = None, cs_updatedAt = 0\<rparr>]\<rparr>"

lemma sample_closed:
  "\<exists>v s'. closeShiftIn sample_env sample_context ''s1'' \<lparr>cl_closingBalance = ''2500.00'', cl_notes = None\<rparr> sample_till = Inr (Some v, s')
     \<and> cs_openingBalance (sv_shift v) = 50000 \<and> sv_cashSales v = 200000"
proof -
  have n: "numeric_text (formatted ''2500.00'') = Inr 250000" by code_simp
  have ok: "numeric12_2 (expectedCash 50000 200000)"
    using expectedCash_exact [of 50000 200000] by (simp add: numeric12_2_def)
  have t: "ctx_tenantId sample_context = ''t1''" by (simp add: sample_context_def)
  have "o_createdAt (sample_order_row StorefrontCash Paid) = 1700000000000" "e_now sample_env = 1700000000000"
    by (simp_all add: sample_order_row_def orderRow_def Let_def sample_env_def)
  then have c: "cash_sales ''t1'' 0 (Some (e_now sample_env)) sample_till = (200000, 1)"
    by (simp add: cash_sales_def sample_till_def cash_sale_def)
  have sh: "tb_shifts sample_till = [\<lparr>cs_id = ''s1'', cs_tenantId = ''t1'', cs_locationId = Some ''l1'', cs_registerIdentifier = ''default'',
       cs_openedByUserId = ''owner1'', cs_openingBalance = 50000, cs_closingBalance = None, cs_expectedCash = None,
       cs_status = ShiftOpen, cs_openedAt = 0, cs_closedAt = None, cs_notes = None, cs_updatedAt = 0\<rparr>]"
    by (simp add: sample_till_def)
  show ?thesis
    using ok by (simp add: closeShiftIn_def t sh c n update_rows_def upd_ret_sel1 cash_shift_check_def closeSet_def Let_def numeric12_2_def)
qed

theorem expected_cash_exact_witness:
  "\<exists>v s'. closeShiftIn sample_env sample_context ''s1'' \<lparr>cl_closingBalance = ''2500.00'', cl_notes = None\<rparr> sample_till = Inr (Some v, s')
     \<and> sv_expectedCash v = 250000"
proof -
  obtain v s' where c: "closeShiftIn sample_env sample_context ''s1'' \<lparr>cl_closingBalance = ''2500.00'', cl_notes = None\<rparr> sample_till = Inr (Some v, s')"
    "cs_openingBalance (sv_shift v) = 50000" "sv_cashSales v = 200000"
    using sample_closed by blast
  have "shifts_ok sample_till" by (simp add: shifts_ok_def sample_till_def uniq_def)
  from expected_cash_exact [OF c(1) this] show ?thesis using c by auto
qed

section \<open>Orders of the payment provider\<close>

text \<open>
  An order paid through the payment provider can be refunded from the register it never went
  through: its tender defaults to cash, so refunding it records a withdrawal of its total although
  no deposit was, the register of the store ends below zero by that amount, and until then the
  open shift counts its total among the cash it expects.
\<close>

theorem provider_refund_without_deposit:
  "let s = sample_till\<lparr>tb_orders := [sample_order_row MercadopagoWebhook Paid]\<rparr>;
       (result, s') = refundCash sample_env sample_context (fresh_id sample_env empty_db) ''k2''
         \<lparr>rr_reason = ''Sin stock'', rr_operatorNote = None\<rparr> s
   in cash_sales ''t1'' 0 None s = (200000, 1)
      \<and> map (\<lambda>m. (cm_type m, cm_amount m)) (tb_movements s') = [(CancellationWithdrawal, 200000)]
      \<and> register_cash ''t1'' (tb_movements s') = - 200000"
  by code_simp

end
