(* ===== verification/Spec2Isabelle.thy ===== *)
theory Spec2Isabelle
  imports CatalogService
    Prelude JsNumber Json CartRules DiscountRules OrderRules Contact Scheduling TenantContext
    RateLimit Schema Db Versioned Idempotency Discounts Tenancy Carts
    OrderRepo Printing Billing OrderServices CreateOrders CashShift Ledger Frames Effects Sales Shop Steps
    Delivery Payments PaymentSession ProviderEvents Notifications Requests Promises
begin

text \<open>
  Komanda: the ordering back end of small shops. Stores (tenants) publish a catalogue, which customers
  search across stores; a customer fills a cart, applies a coupon and orders, paying at the counter or
  through the payment provider; the staff moves an order through its states, takes and refunds the
  cash, prints the ticket, issues the fiscal document and closes the register; workers deliver what
  the outbox holds.

  The theories, in the layers of the code (paths below \<open>src/src\<close>):
  \<^item> \<open>Prelude\<close>: results, tables, transactions, stable sorting. \<open>JsNumber\<close>: the parts of JavaScript
    numbers and strings the code uses, doubles included (\<open>fl\<close> rounds a rational to a double).
  \<^item> Pure rules: \<open>CartRules\<close> (\<open>features/cart/domain/cart.rules.ts\<close>), \<open>DiscountRules\<close>
    (\<open>features/discounts/domain/discount.rules.ts\<close>), \<open>OrderRules\<close> (\<open>features/orders/domain/order.rules.ts\<close>,
    \<open>features/orders/web/order-workflow.ts\<close>), \<open>Contact\<close> (phones and cursors), \<open>Scheduling\<close> (opening hours
    and pick-up times), \<open>CatalogRules\<close> (\<open>features/catalog/domain/catalog.rules.ts\<close>), \<open>Json\<close> (redaction
    and the canonical form of requests).
  \<^item> State in memory: \<open>RateLimit\<close>, the four limiters behind one interface.
  \<^item> Who acts: \<open>TenantContext\<close>, the resolution of a tenant context and the role guards.
  \<^item> State in the database: \<open>Schema\<close> (the tables, their checks and unique keys), \<open>Db\<close> (the state,
    transactions, roles, counters and logs), \<open>Versioned\<close> (optimistic locking), \<open>Idempotency\<close>.
  \<^item> The storefront: \<open>Tenancy\<close> (a store's slug, readiness and resolution), \<open>Discounts\<close>, \<open>Carts\<close>.
  \<^item> Orders: \<open>OrderRepo\<close>, \<open>Printing\<close>, \<open>Billing\<close>, \<open>OrderServices\<close> (transitions, cash, cancellation,
    expiry), \<open>CreateOrders\<close> (the four ways an order is made), \<open>CashShift\<close>.
  \<^item> Paying online: \<open>Payments\<close> (the repository, the preference), \<open>PaymentSession\<close>, \<open>ProviderEvents\<close>
    (notifications and reconciliation).
  \<^item> Workers: \<open>Delivery\<close> (the dispatcher of the outbox and the two WhatsApp jobs).
  \<^item> The catalogue: \<open>Catalogue\<close> (its repository), \<open>CatalogService\<close> (its service, bar codes, media uploads),
    \<open>Search\<close> (the public search, its projection and the job that rebuilds it).

  What is proved over them:
  \<^item> \<open>Ledger\<close> is the abstract cash ledger of a store. \<open>Frames\<close>, \<open>Effects\<close> and \<open>Sales\<close> say what each
    operation leaves in the tables; \<open>Shop\<close> puts the invariants together (\<open>shop_ok\<close>); \<open>Steps\<close> and
    \<open>Notifications\<close> show for each request that it keeps them, touches one store only and moves the
    ledger by one of its steps or not at all; \<open>Requests\<close> makes these requests one step relation, and
    \<open>Promises\<close> holds the properties of its runs.
  \<^item> The properties of a single component stand in its theory.
  \<^item> Where the code does not do what it means to, the property says what it does: payments
    that are declined or not answered, the jobs that read all stores without a tenant set, the openings
    of a register that interleave.

  Conventions. A TypeScript object is a record with prefixed fields, a union of literals a
  datatype, \<open>undefined\<close> and \<open>null\<close> an option. Code that throws returns \<open>error + result\<close>; its early
  returns and throws are the branches of an \<open>if\<close> chain in the order of the source. A database
  table is the list of its rows; a \<open>numeric(12,2)\<close> column holds cents. A request reads the clock
  once. Ids, the PIN, the hash and the collation are supplied by the environment of the request; the
  clients of the payment provider, of WhatsApp, of the object store and of the product service are
  parameters. Loops are structural recursions or have a
  termination proof (\<open>Scheduling\<close>); none needs fuel.

  Transactions run one after another and roll back as a whole on an error. Foreign keys are
  not modelled. Row level security is modelled where code
  queries several stores at once without a tenant set (\<open>row_visible\<close>); everywhere else a query names
  its store in its own condition, which is what the model repeats.

  Interfaces. \<open>rounding\<close> (a rounding of rationals with bounded error, interpreted by the doubles),
  \<open>limiter\<close> (interpreted by the four rate limiters), \<open>versioned_write\<close> (interpreted by the edits of
  a coupon and by the transitions of an order) and \<open>idempotent_store\<close> (interpreted by the idempotency
  service).

  Not modelled: accounts, sessions and members of the staff; the pairing of print agents; the kiosk
  payment and the connection of a payment account (OAuth); provisioning, settings and deletion of a store; analytics;
  database maintenance; the HTTP routes apart from the two of media uploads; the user interface; encryption, health and metrics.
\<close>

end
